(* ===== verification/Prelude.thy ===== *)
theory Prelude
  imports Main "HOL-Library.Char_ord" "HOL-Library.List_Lexorder" "HOL-Library.Product_Lexorder"
    "HOL-Library.Multiset" "HOL-Library.Signed_Division"
begin

text \<open>
  Shared vocabulary of the development: Go's \<open>int64\<close> arithmetic, Go maps read with the zero
  value for a missing key, saturating time differences, and the generic lemmas on lists and sums
  that the component theories use. Strings are byte lists ordered lexicographically, which is the
  order \<open>cmp.Compare\<close> gives to Go strings.
\<close>

named_theorems int64_simps \<open>in-range 64-bit arithmetic is exact\<close>

section \<open>Go integers\<close>

text \<open>A Go \<open>int64\<close> is an \<open>int\<close> in range; \<open>i64\<close> is the wrap-around of an arithmetic result.\<close>

definition in64 :: "int \<Rightarrow> bool" where
  "in64 x \<longleftrightarrow> - (2 ^ 63) \<le> x \<and> x < 2 ^ 63"

definition i64 :: "int \<Rightarrow> int" where
  "i64 x = (x + 2 ^ 63) mod 2 ^ 64 - 2 ^ 63"

lemma i64_in64 [int64_simps]: "in64 x \<Longrightarrow> i64 x = x"
  by (simp add: in64_def i64_def)

lemma in64_i64 [simp]: "in64 (i64 x)"
  by (simp add: in64_def i64_def)

lemma i64_add_left [simp]: "i64 (i64 x + y) = i64 (x + y)"
proof -
  have "(i64 x + y + 2 ^ 63) mod 2 ^ 64 = (x + y + 2 ^ 63) mod 2 ^ 64"
    unfolding i64_def by (simp add: mod_simps algebra_simps)
  then show ?thesis by (simp add: i64_def)
qed

lemma in64_nonneg: "0 \<le> x \<Longrightarrow> x \<le> y \<Longrightarrow> in64 y \<Longrightarrow> in64 x"
  by (simp add: in64_def)

text \<open>A running \<open>int64\<close> sum is the wrapped mathematical sum, whatever the order of the terms.\<close>

definition sum64 :: "int list \<Rightarrow> int" where
  "sum64 xs = fold (\<lambda>x acc. i64 (acc + x)) xs 0"

lemma fold_i64_add: "in64 a \<Longrightarrow> fold (\<lambda>x acc. i64 (acc + x)) xs a = i64 (a + sum_list xs)"
proof (induction xs arbitrary: a)
  case Nil
  then show ?case by (simp add: int64_simps)
next
  case (Cons x xs)
  show ?case using Cons.IH [of "i64 (a + x)"] by (simp add: add.assoc)
qed

lemma sum64_eq: "sum64 xs = i64 (sum_list xs)"
proof -
  have "in64 0" by (simp add: in64_def)
  then show ?thesis by (simp add: sum64_def fold_i64_add)
qed

lemma sum64_exact [int64_simps]: "in64 (sum_list xs) \<Longrightarrow> sum64 xs = sum_list xs"
  by (simp add: sum64_eq i64_in64)

text \<open>Go's \<open>/\<close> and \<open>%\<close> truncate towards zero.\<close>

lemma sdiv_nonneg [simp]: "0 \<le> a \<Longrightarrow> 0 \<le> b \<Longrightarrow> a sdiv b = a div (b :: int)"
  by (simp add: signed_divide_int_def sgn_if)

lemma smod_nonneg [simp]: "0 \<le> a \<Longrightarrow> 0 \<le> b \<Longrightarrow> a smod b = a mod (b :: int)"
  by (simp add: signed_modulo_int_def signed_divide_int_def sgn_if minus_mult_div_eq_mod
      mult.commute)

section \<open>Go maps\<close>

text \<open>Reading a missing key of a \<open>map[string]int64\<close> gives 0.\<close>

definition mget :: "('k \<rightharpoonup> int) \<Rightarrow> 'k \<Rightarrow> int" where
  "mget m k = (case m k of None \<Rightarrow> 0 | Some v \<Rightarrow> v)"

lemma mget_empty [simp]: "mget Map.empty k = 0"
  by (simp add: mget_def)

lemma mget_upd [simp]: "mget (m(k \<mapsto> v)) k' = (if k' = k then v else mget m k')"
  by (simp add: mget_def)

lemma mget_cong: "m k = m' k \<Longrightarrow> mget m k = mget m' k"
  by (simp add: mget_def)

text \<open>Reading a missing key of a \<open>map[string]string\<close> gives the empty string.\<close>

definition sget :: "('k \<rightharpoonup> string) \<Rightarrow> 'k \<Rightarrow> string" where
  "sget m k = (case m k of None \<Rightarrow> [] | Some v \<Rightarrow> v)"

section \<open>Time\<close>

text \<open>
  An instant is a count of nanoseconds; \<open>time.Time.Sub\<close> saturates at the range of
  \<open>time.Duration\<close>.
\<close>

type_synonym time = int
type_synonym duration = int

definition second :: duration where
  "second = 1000000000"

definition time_sub :: "time \<Rightarrow> time \<Rightarrow> duration" where
  "time_sub a b = max (- (2 ^ 63)) (min (2 ^ 63 - 1) (a - b))"

section \<open>Lists and sums\<close>

lemma sum_list_filter_split:
  fixes f :: "'a \<Rightarrow> int"
  shows "(\<Sum>x\<leftarrow>xs. f x) = (\<Sum>x\<leftarrow>filter P xs. f x) + (\<Sum>x\<leftarrow>filter (\<lambda>x. \<not> P x) xs. f x)"
  by (induction xs) auto

lemma sum_list_diff:
  fixes f g :: "'a \<Rightarrow> int"
  shows "(\<Sum>x\<leftarrow>xs. f x - g x) = (\<Sum>x\<leftarrow>xs. f x) - (\<Sum>x\<leftarrow>xs. g x)"
  by (induction xs) auto

lemma sum_list_cong_set:
  assumes "\<And>x. x \<in> set xs \<Longrightarrow> f x = g x"
  shows "sum_list (map f xs) = sum_list (map g xs)"
  using assms by (auto intro: arg_cong [where f = sum_list])

lemma sum_list_nonneg_map:
  fixes f :: "'a \<Rightarrow> int"
  assumes "\<And>x. x \<in> set xs \<Longrightarrow> 0 \<le> f x"
  shows "0 \<le> sum_list (map f xs)"
  using assms by (induction xs) auto

lemma sum_list_mono_set:
  fixes f g :: "'a \<Rightarrow> int"
  assumes "\<And>x. x \<in> set xs \<Longrightarrow> f x \<le> g x"
  shows "sum_list (map f xs) \<le> sum_list (map g xs)"
  using assms by (induction xs) (auto intro: add_mono)

lemma member_le_sum_list_map:
  fixes f :: "'a \<Rightarrow> int"
  assumes "x \<in> set xs" and "\<And>y. y \<in> set xs \<Longrightarrow> 0 \<le> f y"
  shows "f x \<le> sum_list (map f xs)"
  using assms
proof (induction xs)
  case (Cons y ys)
  have "0 \<le> sum_list (map f ys)" using Cons.prems(2) by (intro sum_list_nonneg_map) auto
  moreover have "0 \<le> f y" using Cons.prems(2) by simp
  ultimately show ?case using Cons by (auto simp: add_increasing)
qed simp

lemma sum_list_less_ex:
  fixes f g :: "'a \<Rightarrow> int"
  assumes "sum_list (map f xs) < sum_list (map g xs)"
  shows "\<exists>x\<in>set xs. f x < g x"
proof (rule ccontr)
  assume "\<not> ?thesis"
  then have "sum_list (map g xs) \<le> sum_list (map f xs)"
    by (intro sum_list_mono_set) (auto simp: not_less)
  with assms show False by simp
qed

lemma distinct_map_ConsD: "distinct (map f (x # xs)) \<Longrightarrow> y \<in> set xs \<Longrightarrow> f y \<noteq> f x"
  by (metis distinct.simps(2) image_eqI list.simps(9) set_map)

lemma length_filter_split:
  "length xs = length (filter P xs) + length (filter (\<lambda>x. \<not> P x) xs)"
  by (induction xs) auto

lemma sum_list_upd_key:
  fixes g :: "'k \<Rightarrow> int"
  assumes "distinct (map key xs)" and "x \<in> set xs"
  shows "(\<Sum>y\<leftarrow>xs. if key y = key x then v else g (key y)) =
    (\<Sum>y\<leftarrow>xs. g (key y)) - g (key x) + v"
  using assms
proof (induction xs)
  case (Cons z zs)
  show ?case
  proof (cases "z = x")
    case True
    have "(\<Sum>y\<leftarrow>zs. if key y = key x then v else g (key y)) = (\<Sum>y\<leftarrow>zs. g (key y))"
      using Cons.prems(1) True by (intro sum_list_cong_set) (auto simp: image_iff)
    with True show ?thesis by simp
  next
    case False
    with Cons.prems have "x \<in> set zs" and "key z \<noteq> key x" by (auto simp: image_iff)
    with Cons show ?thesis by simp
  qed
qed simp

lemma sum_list_sort_key [simp]:
  fixes g :: "'a \<Rightarrow> int"
  shows "sum_list (map g (sort_key f xs)) = sum_list (map g xs)"
  by (metis mset_map mset_sort sum_mset_sum_list)

lemma distinct_map_sort_key [simp]: "distinct (map g (sort_key f xs)) = distinct (map g xs)"
  by (metis mset_eq_imp_distinct_iff mset_map mset_sort)

lemma map_sort_key: "map f (sort_key f xs) = sort (map f xs)"
  by (rule properties_for_sort [symmetric]) simp_all

lemma sort_key_perm_eq:
  assumes "mset xs = mset ys" and "inj_on f (set xs)"
  shows "sort_key f xs = sort_key f ys"
proof (rule sort_key_inj_key_eq)
  show "mset xs = mset (sort_key f ys)" using assms(1) by simp
  show "inj_on f (set xs)" by (rule assms(2))
  show "sorted (map f (sort_key f ys))" by (rule sorted_sort_key)
qed

lemma map_of_mset_eq:
  assumes "mset xs = mset ys" and "distinct (map fst xs)"
  shows "map_of xs = map_of ys"
proof -
  have "set xs = set ys" using assms(1) by (rule mset_eq_setD)
  moreover have "distinct (map fst ys)"
    using assms by (metis mset_map mset_eq_imp_distinct_iff)
  ultimately show ?thesis using assms(2) by (metis map_of_inject_set)
qed

end
