(* ===== verification/Resource_Policy.thy ===== *)
theory Resource_Policy
  imports Prelude
begin

text \<open>
  The shared resource policy of \<open>operator/pkg/resourcepolicy\<close>: the sample window kept per
  session and the classification of recent CPU load. \<open>slices.SortFunc\<close> by timestamp is
  \<open>sort_key\<close>; the window holds no two samples of one Pod with the same timestamp. The
  products of the load test and of the scaling targets wrap as \<open>int64\<close>.
\<close>

section \<open>Definitions\<close>

datatype ResourceLoadClass = LoadUnset | LoadUnknown | LoadWarmingUp | LoadCPUHigh | LoadCPULow | LoadStable

record ResourcePolicy =
  CPURequestMillicores :: int
  MemoryRequestBytes :: int
  DefaultCPULimit :: int
  MinCPULimit :: int
  MaxCPULimit :: int
  MinMemoryRequestBytes :: int
  MaxMemoryRequestBytes :: int

definition MetricsMaxAge :: duration where
  "MetricsMaxAge = 45 * second"

definition SampleCapacity :: nat where
  "SampleCapacity = 20"

definition WarmupSamples :: nat where
  "WarmupSamples = 3"

definition ScaleDownSamples :: nat where
  "ScaleDownSamples = 3"

definition ScaleUpThreshold :: int where
  "ScaleUpThreshold = 75"

definition ScaleDownThreshold :: int where
  "ScaleDownThreshold = 35"

record ResourceSample =
  rs_PodUID :: string
  rs_ObservedAt :: time
  rs_MetricWindow :: duration
  rs_CPUUsage :: int
  rs_ActualCPULimit :: int

record SampleWindow =
  sw_podUID :: string
  sw_generation :: int
  sw_samples :: "ResourceSample list"

definition empty_window :: SampleWindow where
  "empty_window = \<lparr>sw_podUID = [], sw_generation = 0, sw_samples = []\<rparr>"

definition window_Prepare :: "SampleWindow \<Rightarrow> string \<Rightarrow> int \<Rightarrow> bool \<times> SampleWindow" where
  "window_Prepare w podUID generation =
     (if sw_podUID w = podUID \<and> sw_generation w = generation then (False, w)
      else (True, \<lparr>sw_podUID = podUID, sw_generation = generation, sw_samples = []\<rparr>))"

definition window_Reset :: "SampleWindow \<Rightarrow> SampleWindow" where
  "window_Reset w = w\<lparr>sw_podUID := [], sw_generation := 0, sw_samples := []\<rparr>"

definition window_Add :: "SampleWindow \<Rightarrow> ResourceSample \<Rightarrow> bool \<times> SampleWindow" where
  "window_Add w s =
     (if \<exists>t\<in>set (sw_samples w). rs_PodUID t = rs_PodUID s \<and> rs_ObservedAt t = rs_ObservedAt s
      then (False, w)
      else let samples = sort_key rs_ObservedAt (sw_samples w @ [s])
           in (True, w\<lparr>sw_samples :=
                (if length samples > SampleCapacity then drop (length samples - SampleCapacity) samples
                 else samples)\<rparr>))"

definition window_Samples :: "SampleWindow \<Rightarrow> ResourceSample list" where
  "window_Samples w = sw_samples w"

definition clamp :: "int \<Rightarrow> int \<Rightarrow> int \<Rightarrow> int" where
  "clamp v minimum maximum = (if v < minimum then minimum else if v > maximum then maximum else v)"

definition ScaleUpTarget :: "int \<Rightarrow> ResourcePolicy \<Rightarrow> int" where
  "ScaleUpTarget currentLimit policy =
     clamp (i64 (currentLimit * 2)) (MinCPULimit policy) (MaxCPULimit policy)"

definition ScaleDownTarget :: "int \<Rightarrow> ResourcePolicy \<Rightarrow> int" where
  "ScaleDownTarget currentLimit policy =
     clamp (currentLimit sdiv 2) (MinCPULimit policy) (MaxCPULimit policy)"

definition utilizationAtLeast :: "ResourceSample \<Rightarrow> int \<Rightarrow> bool" where
  "utilizationAtLeast s percentage \<longleftrightarrow>
     i64 (rs_CPUUsage s * 100) \<ge> i64 (rs_ActualCPULimit s * percentage)"

definition utilizationBelow :: "ResourceSample \<Rightarrow> int \<Rightarrow> bool" where
  "utilizationBelow s percentage \<longleftrightarrow>
     i64 (rs_CPUUsage s * 100) < i64 (rs_ActualCPULimit s * percentage)"

definition lastn :: "nat \<Rightarrow> 'a list \<Rightarrow> 'a list" where
  "lastn n xs = drop (length xs - n) xs"

definition Recommendation :: "ResourceSample list \<Rightarrow> int \<Rightarrow> ResourcePolicy \<Rightarrow> ResourceLoadClass \<times> int" where
  "Recommendation samples currentLimit policy =
     (if currentLimit \<le> 0 then (LoadUnknown, 0)
      else if \<exists>s\<in>set samples. rs_ActualCPULimit s \<le> 0 then (LoadUnknown, 0)
      else if length samples < WarmupSamples then (LoadWarmingUp, 0)
      else if length (filter (\<lambda>s. utilizationAtLeast s ScaleUpThreshold) (lastn WarmupSamples samples)) \<ge> 2
        then (LoadCPUHigh, ScaleUpTarget currentLimit policy)
      else if length samples \<ge> ScaleDownSamples \<and>
          (\<forall>s\<in>set (lastn ScaleDownSamples samples). utilizationBelow s ScaleDownThreshold)
        then (LoadCPULow, ScaleDownTarget currentLimit policy)
      else (LoadStable, 0))"

section \<open>The sample window\<close>

text \<open>
  The invariant of a window: at most \<open>SampleCapacity\<close> samples, in time order, no two with the
  same Pod and timestamp.
\<close>

definition window_ok :: "SampleWindow \<Rightarrow> bool" where
  "window_ok w \<longleftrightarrow> length (sw_samples w) \<le> SampleCapacity \<and>
     sorted (map rs_ObservedAt (sw_samples w)) \<and>
     distinct (map (\<lambda>s. (rs_PodUID s, rs_ObservedAt s)) (sw_samples w))"

lemma sorted_map_drop: "sorted (map f xs) \<Longrightarrow> sorted (map f (drop n xs))"
  by (simp add: drop_map [symmetric] sorted_wrt_drop)

lemma distinct_map_drop: "distinct (map f xs) \<Longrightarrow> distinct (map f (drop n xs))"
  by (simp add: drop_map [symmetric])

lemma window_Add_samples:
  assumes "window_Add w s = (True, w')"
  shows "sw_samples w' = lastn SampleCapacity (sort_key rs_ObservedAt (sw_samples w @ [s]))"
  using assms by (auto simp: window_Add_def Let_def lastn_def split: if_splits)

lemma window_ok_empty [simp]: "window_ok empty_window"
  by (simp add: empty_window_def window_ok_def)

lemma window_ok_Reset [simp]: "window_ok (window_Reset w)"
  by (simp add: window_Reset_def window_ok_def)

lemma window_ok_Prepare: "window_ok w \<Longrightarrow> window_ok (snd (window_Prepare w uid gen))"
  by (simp add: window_Prepare_def window_ok_def)

lemma window_ok_Add:
  assumes "window_ok w"
  shows "window_ok (snd (window_Add w s))"
proof (cases "fst (window_Add w s)")
  case False
  then show ?thesis using assms by (auto simp: window_Add_def Let_def split: if_splits)
next
  case True
  have new: "\<forall>t\<in>set (sw_samples w). \<not> (rs_PodUID t = rs_PodUID s \<and> rs_ObservedAt t = rs_ObservedAt s)"
    using True by (auto simp: window_Add_def split: if_splits)
  have samples: "sw_samples (snd (window_Add w s)) = lastn SampleCapacity (sort_key rs_ObservedAt (sw_samples w @ [s]))"
    using True by (intro window_Add_samples) (metis prod.collapse)
  have "distinct (map (\<lambda>s. (rs_PodUID s, rs_ObservedAt s)) (sort_key rs_ObservedAt (sw_samples w @ [s])))"
    using assms new by (auto simp: window_ok_def)
  with samples show ?thesis
    by (simp add: window_ok_def lastn_def distinct_map_drop sorted_map_drop sorted_sort_key)
qed

text \<open>
  Every operation of a \<open>SampleWindow\<close> keeps its invariant: at most 20 samples, sorted by
  observation time, no Pod and timestamp twice.
\<close>

theorem window_invariant:
  assumes "window_ok w"
  shows "window_ok (snd (window_Prepare w uid gen)) \<and> window_ok (window_Reset w) \<and>
    window_ok (snd (window_Add w s)) \<and> window_ok empty_window"
  using assms by (simp add: window_ok_Prepare window_ok_Add)

theorem window_invariant_witness:
  "window_ok (snd (window_Add empty_window \<lparr>rs_PodUID = ''p'', rs_ObservedAt = 3, rs_MetricWindow = 1,
     rs_CPUUsage = 10, rs_ActualCPULimit = 500\<rparr>))"
proof -
  have "window_ok empty_window" by (simp add: empty_window_def window_ok_def)
  from window_invariant [OF this] show ?thesis by blast
qed

text \<open>
  \<open>Add\<close> reports whether it inserted: it refuses exactly a sample whose Pod and timestamp are
  already present, and otherwise keeps the most recent samples: every sample it drops is no newer than any
  sample it keeps, and it drops nothing while there is room.
\<close>

theorem window_Add_keeps_recent:
  "(\<not> fst (window_Add w s) \<longleftrightarrow>
      (\<exists>t\<in>set (sw_samples w). rs_PodUID t = rs_PodUID s \<and> rs_ObservedAt t = rs_ObservedAt s)) \<and>
   (\<not> fst (window_Add w s) \<longrightarrow> snd (window_Add w s) = w) \<and>
   (fst (window_Add w s) \<longrightarrow> (\<exists>dropped.
      mset dropped + mset (sw_samples (snd (window_Add w s))) = mset (sw_samples w) + {#s#} \<and>
      (\<forall>old\<in>set dropped. \<forall>kept\<in>set (sw_samples (snd (window_Add w s))). rs_ObservedAt old \<le> rs_ObservedAt kept) \<and>
      length (sw_samples (snd (window_Add w s))) = min SampleCapacity (Suc (length (sw_samples w)))))"
proof (intro conjI impI)
  assume "fst (window_Add w s)"
  then have samples: "sw_samples (snd (window_Add w s)) =
      lastn SampleCapacity (sort_key rs_ObservedAt (sw_samples w @ [s]))"
    by (intro window_Add_samples) (metis prod.collapse)
  let ?all = "sort_key rs_ObservedAt (sw_samples w @ [s])"
  let ?n = "length ?all - SampleCapacity"
  have "sorted (map rs_ObservedAt (take ?n ?all @ drop ?n ?all))" by (simp add: sorted_sort_key)
  then have "\<forall>old\<in>set (take ?n ?all). \<forall>kept\<in>set (drop ?n ?all). rs_ObservedAt old \<le> rs_ObservedAt kept"
    unfolding map_append sorted_append by auto
  moreover have "mset (take ?n ?all) + mset (drop ?n ?all) = mset (sw_samples w) + {#s#}"
    by (metis append_take_drop_id mset_append mset_single_iff_right mset_sort union_code)
  moreover have "length (lastn SampleCapacity ?all) = min SampleCapacity (Suc (length (sw_samples w)))"
    by (simp add: lastn_def)
  ultimately show "\<exists>dropped. mset dropped + mset (sw_samples (snd (window_Add w s))) = mset (sw_samples w) + {#s#} \<and>
      (\<forall>old\<in>set dropped. \<forall>kept\<in>set (sw_samples (snd (window_Add w s))). rs_ObservedAt old \<le> rs_ObservedAt kept) \<and>
      length (sw_samples (snd (window_Add w s))) = min SampleCapacity (Suc (length (sw_samples w)))"
    using samples by (intro exI [of _ "take ?n ?all"]) (simp add: lastn_def)
qed (auto simp: window_Add_def Let_def split: if_splits)

theorem window_Add_keeps_recent_witness:
  "fst (window_Add empty_window \<lparr>rs_PodUID = ''p'', rs_ObservedAt = 3, rs_MetricWindow = 1, rs_CPUUsage = 10,
     rs_ActualCPULimit = 500\<rparr>)"
  using window_Add_keeps_recent [of empty_window "\<lparr>rs_PodUID = ''p'', rs_ObservedAt = 3, rs_MetricWindow = 1,
    rs_CPUUsage = 10, rs_ActualCPULimit = 500\<rparr>"] by (simp add: empty_window_def)

section \<open>Recommendations\<close>

lemma clamp_bounds: "lo \<le> hi \<Longrightarrow> lo \<le> clamp v lo hi \<and> clamp v lo hi \<le> hi"
  by (simp add: clamp_def)

text \<open>
  Every non-zero target of \<open>Recommendation\<close> lies within the policy's limits; it is non-zero
  exactly for the classes CPUHigh and CPULow; for a current limit inside the policy's range a CPUHigh
  target never lowers it and a CPULow target never raises it.
\<close>

theorem Recommendation_target:
  assumes "0 < MinCPULimit pol" and "MinCPULimit pol \<le> MaxCPULimit pol"
    and "MinCPULimit pol \<le> cur" and "cur \<le> MaxCPULimit pol" and "2 * MaxCPULimit pol < 2 ^ 63"
    and "Recommendation samples cur pol = (c, t)"
  shows "(t \<noteq> 0 \<longleftrightarrow> c = LoadCPUHigh \<or> c = LoadCPULow) \<and>
    (t \<noteq> 0 \<longrightarrow> MinCPULimit pol \<le> t \<and> t \<le> MaxCPULimit pol) \<and>
    (c = LoadCPUHigh \<longrightarrow> t = min (MaxCPULimit pol) (2 * cur) \<and> cur \<le> t) \<and>
    (c = LoadCPULow \<longrightarrow> t = max (MinCPULimit pol) (cur div 2) \<and> t \<le> cur)"
proof -
  have "in64 (cur * 2)" using assms by (simp add: in64_def)
  then have up: "ScaleUpTarget cur pol = min (MaxCPULimit pol) (2 * cur)"
    using assms by (auto simp: ScaleUpTarget_def clamp_def i64_in64)
  have down: "ScaleDownTarget cur pol = max (MinCPULimit pol) (cur div 2)"
    using assms by (auto simp: ScaleDownTarget_def clamp_def)
  from assms show ?thesis
    by (auto simp: Recommendation_def up down split: if_splits)
qed

theorem Recommendation_target_witness:
  "let pol = \<lparr>CPURequestMillicores = 500, MemoryRequestBytes = 0, DefaultCPULimit = 500, MinCPULimit = 500,
         MaxCPULimit = 3000, MinMemoryRequestBytes = 0, MaxMemoryRequestBytes = 0\<rparr>;
       busy = \<lparr>rs_PodUID = [], rs_ObservedAt = 0, rs_MetricWindow = 0, rs_CPUUsage = 900, rs_ActualCPULimit = 1000\<rparr>
   in Recommendation [busy, busy, busy] 2000 pol = (LoadCPUHigh, 3000)"
proof -
  let ?pol = "\<lparr>CPURequestMillicores = 500, MemoryRequestBytes = 0, DefaultCPULimit = 500, MinCPULimit = 500,
         MaxCPULimit = 3000, MinMemoryRequestBytes = 0, MaxMemoryRequestBytes = 0\<rparr> :: ResourcePolicy"
  let ?busy = "\<lparr>rs_PodUID = [], rs_ObservedAt = 0, rs_MetricWindow = 0, rs_CPUUsage = 900,
         rs_ActualCPULimit = 1000\<rparr> :: ResourceSample"
  have "fst (Recommendation [?busy, ?busy, ?busy] 2000 ?pol) = LoadCPUHigh" by code_simp
  then obtain t where r: "Recommendation [?busy, ?busy, ?busy] 2000 ?pol = (LoadCPUHigh, t)"
    by (metis prod.collapse)
  have "t = 3000" using Recommendation_target [of ?pol 2000 "[?busy, ?busy, ?busy]" LoadCPUHigh t] r by simp
  with r show ?thesis by simp
qed

definition sample_in_range :: "ResourceSample \<Rightarrow> bool" where
  "sample_in_range s \<longleftrightarrow> 0 \<le> rs_CPUUsage s \<and> rs_CPUUsage s < 2 ^ 56 \<and>
     0 < rs_ActualCPULimit s \<and> rs_ActualCPULimit s < 2 ^ 56"

lemma utilization_exact:
  assumes "sample_in_range s"
  shows "utilizationAtLeast s ScaleUpThreshold \<longleftrightarrow> 75 * rs_ActualCPULimit s \<le> 100 * rs_CPUUsage s"
    and "utilizationBelow s ScaleDownThreshold \<longleftrightarrow> 100 * rs_CPUUsage s < 35 * rs_ActualCPULimit s"
proof -
  have "in64 (rs_CPUUsage s * 100)" "in64 (rs_ActualCPULimit s * 75)" "in64 (rs_ActualCPULimit s * 35)"
    using assms by (auto simp: sample_in_range_def in64_def)
  then show "utilizationAtLeast s ScaleUpThreshold \<longleftrightarrow> 75 * rs_ActualCPULimit s \<le> 100 * rs_CPUUsage s"
    and "utilizationBelow s ScaleDownThreshold \<longleftrightarrow> 100 * rs_CPUUsage s < 35 * rs_ActualCPULimit s"
    by (auto simp: utilizationAtLeast_def utilizationBelow_def ScaleUpThreshold_def ScaleDownThreshold_def
        i64_in64 mult.commute)
qed

lemma lastn_set: "set (lastn n xs) \<subseteq> set xs"
  by (simp add: lastn_def set_drop_subset)

text \<open>
  With samples in the range of real measurements the classification reads as percentages: CPUHigh
  means that at least two of the last three samples used 75 percent of their limit, CPULow that all of
  the last three used less than 35 percent, and fewer than three samples are WarmingUp.
\<close>

theorem Recommendation_class:
  assumes "0 < cur" and "\<forall>s\<in>set samples. sample_in_range s"
  shows "(fst (Recommendation samples cur pol) = LoadWarmingUp \<longleftrightarrow> length samples < 3) \<and>
    (fst (Recommendation samples cur pol) = LoadCPUHigh \<longleftrightarrow> 3 \<le> length samples \<and>
      2 \<le> length (filter (\<lambda>s. 75 * rs_ActualCPULimit s \<le> 100 * rs_CPUUsage s) (lastn 3 samples))) \<and>
    (fst (Recommendation samples cur pol) = LoadCPULow \<longleftrightarrow> 3 \<le> length samples \<and>
      (\<forall>s\<in>set (lastn 3 samples). 100 * rs_CPUUsage s < 35 * rs_ActualCPULimit s)) \<and>
    fst (Recommendation samples cur pol) \<noteq> LoadUnknown"
proof -
  let ?last = "lastn 3 samples"
  have rng: "sample_in_range s" if "s \<in> set ?last" for s
    using assms(2) subsetD [OF lastn_set that] by simp
  have high: "filter (\<lambda>s. utilizationAtLeast s ScaleUpThreshold) ?last =
      filter (\<lambda>s. 75 * rs_ActualCPULimit s \<le> 100 * rs_CPUUsage s) ?last"
    using rng by (intro filter_cong) (auto simp: utilization_exact)
  have low: "(\<forall>s\<in>set ?last. utilizationBelow s ScaleDownThreshold) \<longleftrightarrow>
      (\<forall>s\<in>set ?last. 100 * rs_CPUUsage s < 35 * rs_ActualCPULimit s)"
    using rng by (auto simp: utilization_exact)
  have excl: "filter (\<lambda>s. 75 * rs_ActualCPULimit s \<le> 100 * rs_CPUUsage s) ?last = []"
    if low_all: "\<forall>s\<in>set ?last. 100 * rs_CPUUsage s < 35 * rs_ActualCPULimit s"
  proof -
    have "\<not> 75 * rs_ActualCPULimit s \<le> 100 * rs_CPUUsage s" if "s \<in> set ?last" for s
    proof -
      have "100 * rs_CPUUsage s < 35 * rs_ActualCPULimit s" using low_all that by blast
      with rng [OF that] show ?thesis unfolding sample_in_range_def by linarith
    qed
    then show ?thesis by (simp add: filter_empty_conv)
  qed
  have "\<not> (\<exists>s\<in>set samples. rs_ActualCPULimit s \<le> 0)" using assms(2) by (force simp: sample_in_range_def)
  then have "fst (Recommendation samples cur pol) =
      (if length samples < 3 then LoadWarmingUp
       else if 2 \<le> length (filter (\<lambda>s. 75 * rs_ActualCPULimit s \<le> 100 * rs_CPUUsage s) ?last) then LoadCPUHigh
       else if \<forall>s\<in>set ?last. 100 * rs_CPUUsage s < 35 * rs_ActualCPULimit s then LoadCPULow
       else LoadStable)"
    using assms(1) by (simp add: Recommendation_def WarmupSamples_def ScaleDownSamples_def high low)
  with excl show ?thesis by simp
qed

theorem Recommendation_class_witness:
  "fst (Recommendation [\<lparr>rs_PodUID = [], rs_ObservedAt = 0, rs_MetricWindow = 0, rs_CPUUsage = 900,
     rs_ActualCPULimit = 1000\<rparr>] 500 \<lparr>CPURequestMillicores = 500, MemoryRequestBytes = 0, DefaultCPULimit = 500,
     MinCPULimit = 500, MaxCPULimit = 3000, MinMemoryRequestBytes = 0, MaxMemoryRequestBytes = 0\<rparr>) = LoadWarmingUp"
  by (subst Recommendation_class [THEN conjunct1]) (simp_all add: sample_in_range_def)

end
