(* ===== verification/Go_Strings.thy ===== *)
theory Go_Strings
  imports Prelude
begin

text \<open>
  The string operations of Go's standard library that the sources use, on byte strings:
  \<open>strings.TrimSpace\<close> (with the UTF-8 encodings of the Unicode spaces), \<open>strings.HasPrefix\<close>,
  the part before a separator, decimal formatting and \<open>strconv.Atoi\<close>, hexadecimal
  encoding, and the UUID v7 pattern.
\<close>

section \<open>Definitions\<close>

definition HasPrefix :: "string \<Rightarrow> string \<Rightarrow> bool" where
  "HasPrefix s p \<longleftrightarrow> take (length p) s = p"

definition TrimPrefix :: "string \<Rightarrow> string \<Rightarrow> string" where
  "TrimPrefix s p = (if HasPrefix s p then drop (length p) s else s)"

text \<open>\<open>strings.SplitN(s, sep, 2)[0]\<close> for a one-byte separator.\<close>

definition before_sep :: "char \<Rightarrow> string \<Rightarrow> string" where
  "before_sep sep s = takeWhile (\<lambda>c. c \<noteq> sep) s"

text \<open>The byte sequences of the white space characters of \<open>unicode.IsSpace\<close>.\<close>

definition space_seqs :: "string list" where
  "space_seqs =
     [[CHR 0x20], [CHR 0x09], [CHR 0x0A], [CHR 0x0B], [CHR 0x0C], [CHR 0x0D],
      [CHR 0xC2, CHR 0x85], [CHR 0xC2, CHR 0xA0], [CHR 0xE1, CHR 0x9A, CHR 0x80],
      [CHR 0xE2, CHR 0x80, CHR 0x80], [CHR 0xE2, CHR 0x80, CHR 0x81], [CHR 0xE2, CHR 0x80, CHR 0x82],
      [CHR 0xE2, CHR 0x80, CHR 0x83], [CHR 0xE2, CHR 0x80, CHR 0x84], [CHR 0xE2, CHR 0x80, CHR 0x85],
      [CHR 0xE2, CHR 0x80, CHR 0x86], [CHR 0xE2, CHR 0x80, CHR 0x87], [CHR 0xE2, CHR 0x80, CHR 0x88],
      [CHR 0xE2, CHR 0x80, CHR 0x89], [CHR 0xE2, CHR 0x80, CHR 0x8A], [CHR 0xE2, CHR 0x80, CHR 0xA8],
      [CHR 0xE2, CHR 0x80, CHR 0xA9], [CHR 0xE2, CHR 0x80, CHR 0xAF], [CHR 0xE2, CHR 0x81, CHR 0x9F],
      [CHR 0xE3, CHR 0x80, CHR 0x80]]"

text \<open>The length of the space at the front of a string that starts with one of the sequences, or 0.\<close>

definition lead_space :: "string list \<Rightarrow> string \<Rightarrow> nat" where
  "lead_space seqs s = (case find (\<lambda>q. HasPrefix s q) seqs of None \<Rightarrow> 0 | Some q \<Rightarrow> length q)"

function strip_front :: "string list \<Rightarrow> string \<Rightarrow> string" where
  "strip_front seqs s =
     (if s = [] \<or> lead_space seqs s = 0 then s else strip_front seqs (drop (lead_space seqs s) s))"
  by pat_completeness auto
termination by (relation "measure (\<lambda>(_, s). length s)") auto

declare strip_front.simps [simp del]

definition TrimSpace :: "string \<Rightarrow> string" where
  "TrimSpace s = rev (strip_front (map rev space_seqs) (rev (strip_front space_seqs s)))"

definition digit_char :: "nat \<Rightarrow> char" where
  "digit_char d = char_of (48 + d)"

fun show_nat :: "nat \<Rightarrow> string" where
  "show_nat n = (if n < 10 then [digit_char n] else show_nat (n div 10) @ [digit_char (n mod 10)])"

declare show_nat.simps [simp del]

text \<open>The verb \<open>%d\<close>.\<close>

definition show_int :: "int \<Rightarrow> string" where
  "show_int n = (if n < 0 then CHR ''-'' # show_nat (nat (- n)) else show_nat (nat n))"

definition is_digit :: "char \<Rightarrow> bool" where
  "is_digit c \<longleftrightarrow> 48 \<le> (of_char c :: nat) \<and> (of_char c :: nat) \<le> 57"

definition digits_val :: "string \<Rightarrow> int" where
  "digits_val s = foldl (\<lambda>acc c. acc * 10 + (of_char c - 48)) 0 s"

text \<open>
  \<open>strconv.Atoi\<close>: \<open>None\<close> is a syntax error, and out of range the error comes with the nearest
  64-bit value. \<open>Atoi_value\<close> is what the caller sees that discards the error.
\<close>

definition Atoi :: "string \<Rightarrow> int option" where
  "Atoi s =
     (let (neg, ds) = (case s of c # cs \<Rightarrow> if c = CHR ''-'' then (True, cs)
                         else if c = CHR ''+'' then (False, cs) else (False, s) | [] \<Rightarrow> (False, []))
      in if ds = [] \<or> \<not> list_all is_digit ds then None
         else Some (max (- (2 ^ 63)) (min (2 ^ 63 - 1) (if neg then - digits_val ds else digits_val ds))))"

definition Atoi_value :: "string \<Rightarrow> int" where
  "Atoi_value s = (case Atoi s of None \<Rightarrow> 0 | Some v \<Rightarrow> v)"

definition hex_digit :: "nat \<Rightarrow> char" where
  "hex_digit d = (if d < 10 then char_of (48 + d) else char_of (87 + d))"

definition hex_encode :: "string \<Rightarrow> string" where
  "hex_encode bs = concat (map (\<lambda>b. [hex_digit (of_char b div 16), hex_digit (of_char b mod 16)]) bs)"

definition is_lower_hex :: "char \<Rightarrow> bool" where
  "is_lower_hex c \<longleftrightarrow> is_digit c \<or> (97 \<le> (of_char c :: nat) \<and> (of_char c :: nat) \<le> 102)"

text \<open>
  The pattern of UUID v7 identifiers: hexadecimal groups of 8, 4, 4, 4 and 12, the third starting with 7
  and the fourth with one of 8, 9, a, b.
\<close>

definition uuid_v7 :: "string \<Rightarrow> bool" where
  "uuid_v7 s \<longleftrightarrow> length s = 36 \<and>
     (\<forall>i\<in>set [0..<36]. if i \<in> {8, 13, 18, 23} then s ! i = CHR ''-''
        else if i = 14 then s ! i = CHR ''7''
        else if i = 19 then s ! i \<in> {CHR ''8'', CHR ''9'', CHR ''a'', CHR ''b''}
        else is_lower_hex (s ! i))"

section \<open>Decimal round trip\<close>

lemma digit_char_of: "d < 10 \<Longrightarrow> (of_char (digit_char d) :: nat) = 48 + d"
  by (simp add: digit_char_def)

lemma digit_char_int: "d < 10 \<Longrightarrow> (of_char (digit_char d) :: int) = 48 + int d"
  using digit_char_of [of d] by (metis of_nat_add of_nat_numeral of_nat_of_char)

lemma is_digit_digit_char: "d < 10 \<Longrightarrow> is_digit (digit_char d)"
  by (simp add: is_digit_def digit_char_of)

lemma show_nat_digits: "list_all is_digit (show_nat n) \<and> show_nat n \<noteq> []"
proof (induction n rule: show_nat.induct)
  case (1 n)
  then show ?case
    by (subst (1 2) show_nat.simps) (auto simp: is_digit_digit_char)
qed

lemma digits_val_append: "digits_val (s @ [c]) = digits_val s * 10 + (of_char c - 48)"
  by (simp add: digits_val_def)

lemma digits_val_show: "digits_val (show_nat n) = int n"
proof (induction n rule: show_nat.induct)
  case (1 n)
  show ?case
  proof (cases "n < 10")
    case True
    then show ?thesis by (subst show_nat.simps) (simp add: digits_val_def digit_char_int)
  next
    case False
    have "int (n div 10) * 10 + int (n mod 10) = int n"
      by (metis div_mult_mod_eq of_nat_add of_nat_mult of_nat_numeral)
    with 1 False show ?thesis
      by (subst show_nat.simps) (simp add: digits_val_append digit_char_int)
  qed
qed

lemma is_digit_sign: "is_digit c \<Longrightarrow> c \<noteq> CHR ''-'' \<and> c \<noteq> CHR ''+''"
  by (auto simp: is_digit_def)

lemma Atoi_show_nat: "int n < 2 ^ 63 \<Longrightarrow> Atoi (show_nat n) = Some (int n)"
proof -
  assume n: "int n < 2 ^ 63"
  obtain c cs where s: "show_nat n = c # cs" using show_nat_digits [of n] by (cases "show_nat n") auto
  then have "is_digit c" "list_all is_digit (c # cs)" using show_nat_digits [of n] by auto
  then show ?thesis
    using n digits_val_show [of n] is_digit_sign [of c] by (simp add: Atoi_def s)
qed

lemma show_nat_no_sep: "\<not> is_digit sep \<Longrightarrow> sep \<notin> set (show_nat n)"
  using show_nat_digits [of n] by (auto simp: list_all_iff)

lemma before_sep_show: "\<not> is_digit sep \<Longrightarrow> before_sep sep (show_nat n @ sep # rest) = show_nat n"
  using show_nat_no_sep [of sep n] by (auto simp: before_sep_def takeWhile_append)

section \<open>Trimming\<close>

lemma strip_front_length: "length (strip_front seqs s) \<le> length s"
proof (induction seqs s rule: strip_front.induct)
  case (1 seqs s)
  then show ?case by (subst strip_front.simps) auto
qed

lemma TrimSpace_length: "length (TrimSpace s) \<le> length s"
  using strip_front_length [of space_seqs s] strip_front_length [of "map rev space_seqs" "rev (strip_front space_seqs s)"]
  by (simp add: TrimSpace_def)

lemma hex_encode_length: "length (hex_encode bs) = 2 * length bs"
  by (induction bs) (auto simp: hex_encode_def)

text \<open>\<open>TrimSpace\<close> is idempotent: what it leaves neither starts nor ends with a space.\<close>

lemma strip_front_suffix: "\<exists>n. strip_front seqs s = drop n s"
proof (induction seqs s rule: strip_front.induct)
  case (1 seqs s)
  show ?case
  proof (cases "s = [] \<or> lead_space seqs s = 0")
    case True
    then show ?thesis by (metis drop0 strip_front.simps)
  next
    case False
    from 1 [OF False] obtain n where "strip_front seqs (drop (lead_space seqs s) s) = drop n (drop (lead_space seqs s) s)" by blast
    then show ?thesis using False by (metis drop_drop strip_front.simps)
  qed
qed

lemma strip_front_ends: "strip_front seqs s = [] \<or> lead_space seqs (strip_front seqs s) = 0"
  by (induction seqs s rule: strip_front.induct) (metis strip_front.simps)

lemma strip_front_idle: "s = [] \<or> lead_space seqs s = 0 \<Longrightarrow> strip_front seqs s = s"
  by (metis strip_front.simps)

lemma lead_space_take:
  assumes "[] \<notin> set seqs" and "lead_space seqs s = 0"
  shows "lead_space seqs (take n s) = 0"
proof -
  have "find (\<lambda>q. HasPrefix s q) seqs = None" using assms by (auto simp: lead_space_def find_Some_iff in_set_conv_nth split: option.splits)
  then have "find (\<lambda>q. HasPrefix (take n s) q) seqs = None"
    by (auto simp: find_None_iff HasPrefix_def) (metis length_take min.absorb_iff2 min.commute nle_le take_all take_take)
  then show ?thesis by (simp add: lead_space_def)
qed

lemma TrimSpace_idem [simp]: "TrimSpace (TrimSpace s) = TrimSpace s"
proof -
  define f where "f = strip_front space_seqs s"
  define t where "t = strip_front (map rev space_seqs) (rev f)"
  obtain n where "t = drop n (rev f)" using strip_front_suffix t_def by metis
  then have t: "rev t = take (length f - n) f" by (simp add: rev_drop)
  have "[] \<notin> set space_seqs" by (simp add: space_seqs_def)
  then have "rev t = [] \<or> lead_space space_seqs (rev t) = 0" using strip_front_ends [of space_seqs s] lead_space_take [of space_seqs f]
    by (auto simp: t f_def)
  then have "strip_front space_seqs (rev t) = rev t" by (rule strip_front_idle)
  moreover have "strip_front (map rev space_seqs) t = t" using strip_front_ends strip_front_idle unfolding t_def by metis
  ultimately show ?thesis by (simp add: TrimSpace_def flip: f_def t_def)
qed

section \<open>JSON\<close>

text \<open>A decoded JSON value; a number is given by its conversion to \<open>int64\<close>, and an object has each name once.\<close>

datatype json = JNull | JBool bool | JNumber int | JString string | JArray "json list" | JObject "(string \<times> json) list"

end
