(* ===== verification/Kube_Types.thy ===== *)
theory Kube_Types
  imports Resource_Policy Go_Strings
begin

text \<open>
  The data of the operator. The custom resource \<open>AgentSession\<close> has the fields of
  \<open>operator/api/v1alpha1/agentsession_types.go\<close>; the Kubernetes core objects (Pod, Node,
  PersistentVolumeClaim, ServiceAccount) have the fields the operator reads or writes.
  Code of other modules is a parameter: the record \<open>klib\<close> holds the pure functions of
  \<open>k8s.io/apimachinery\<close> (quantities, status conditions) and of the standard library's
  SHA-256, RFC 3339 parser, JSON decoder and \<open>reflect.DeepEqual\<close> (which tells apart representations of one
  instant) that the sources call; \<open>retry_steps\<close> is the number of attempts
  \<open>retry.RetryOnConflict\<close> makes after the first. A quantity is its canonical string. A condition has no
  \<open>LastTransitionTime\<close>, which no code of the repository reads.
\<close>

section \<open>Metadata and conditions\<close>

type_synonym quantity = string
type_synonym strmap = "string \<rightharpoonup> string"
type_synonym ResourceList = "string \<rightharpoonup> quantity"

record ObjectMeta =
  om_Name :: string
  om_Namespace :: string
  om_UID :: string
  om_ResourceVersion :: string
  om_Generation :: int
  om_Labels :: strmap
  om_Annotations :: strmap
  om_Finalizers :: "string list"
  om_CreationTimestamp :: time
  om_DeletionTimestamp :: "time option"

record Condition =
  c_Type :: string
  c_Status :: string
  c_ObservedGeneration :: int
  c_Reason :: string
  c_Message :: string

section \<open>The AgentSession resource\<close>

datatype DesiredState = DesiredStateRunning | DesiredStateHibernated | DesiredStateOther string

datatype AgentSessionPhase = PhaseUnset | PhasePending | PhaseProvisioning | PhaseRunning | PhaseIdle
  | PhaseHibernating | PhaseHibernated | PhaseArchiving | PhaseArchived | PhaseRestoring
  | PhaseDeleting | PhaseFailed

datatype RuntimeCheckpointMode = CheckpointModeApplication | CheckpointModeProcess

datatype RuntimeCheckpointState = CheckpointCreating | CheckpointReady | CheckpointRestoring
  | CheckpointConsumed | CheckpointFailed

record ProviderSpec =
  pv_Mode :: string
  pv_CredentialID :: string

record AgentSessionSpec =
  sp_SessionID :: string
  sp_UserID :: string
  sp_DesiredState :: DesiredState
  sp_ResumeNonce :: string
  sp_Runtime :: string
  sp_Provider :: ProviderSpec
  sp_StoragePolicy :: string
  sp_IdleTimeoutSeconds :: int
  sp_ActiveDeadlineSeconds :: int
  sp_PriorityClassName :: string
  sp_MemoryRequest :: quantity

record ArchiveStatus =
  ar_ObjectKey :: string
  ar_SHA256 :: string
  ar_SizeBytes :: int

record RuntimeVersions =
  rv_Containerd :: string
  rv_Runc :: string
  rv_CRIU :: string

record RuntimeCheckpointStatus =
  cp_Mode :: RuntimeCheckpointMode
  cp_State :: RuntimeCheckpointState
  cp_ID :: string
  cp_NodeName :: string
  cp_CreatedAt :: "time option"
  cp_SizeBytes :: int
  cp_SHA256 :: string
  cp_AgentImageDigest :: string
  cp_RuntimeVersions :: RuntimeVersions
  cp_Reason :: string

record ResourceScalingStatus =
  sc_LoadClass :: ResourceLoadClass
  sc_RecommendedCPUMillicores :: int
  sc_LastAppliedAt :: "time option"
  sc_LastError :: string

record AgentSessionStatus =
  st_Phase :: AgentSessionPhase
  st_ObservedGeneration :: int
  st_ObservedResumeNonce :: string
  st_NodeName :: string
  st_PodName :: string
  st_PVCName :: string
  st_LastActiveAt :: "time option"
  st_Archive :: ArchiveStatus
  st_RuntimeCheckpoint :: "RuntimeCheckpointStatus option"
  st_ResourceScaling :: "ResourceScalingStatus option"
  st_Conditions :: "Condition list"

record AgentSession =
  as_Meta :: ObjectMeta
  as_Spec :: AgentSessionSpec
  as_Status :: AgentSessionStatus

section \<open>Core objects\<close>

record ResourceRequirements =
  rr_Requests :: ResourceList
  rr_Limits :: ResourceList

record VolumeMount =
  vm_Name :: string
  vm_MountPath :: string
  vm_SubPath :: string
  vm_ReadOnly :: bool

record SecurityContext =
  sx_AllowPrivilegeEscalation :: bool
  sx_ReadOnlyRootFilesystem :: bool
  sx_Drop :: "string list"

record Probe =
  pb_Command :: "string list"
  pb_InitialDelaySeconds :: int
  pb_PeriodSeconds :: int
  pb_TimeoutSeconds :: int
  pb_FailureThreshold :: int

record Container =
  ct_Name :: string
  ct_Image :: string
  ct_ImagePullPolicy :: string
  ct_Command :: "string list"
  ct_Args :: "string list"
  ct_Ports :: "(string \<times> int \<times> string) list"
  ct_ResizePolicy :: "(string \<times> string) list"
  ct_Env :: "(string \<times> string) list"
  ct_Resources :: ResourceRequirements
  ct_SecurityContext :: "SecurityContext option"
  ct_VolumeMounts :: "VolumeMount list"
  ct_ReadinessProbe :: "Probe option"
  ct_LivenessProbe :: "Probe option"

datatype VolumeSource =
  PersistentVolumeClaimSource string
  | EmptyDirSource quantity
  | ServiceAccountTokenSource int string int string
  | OtherVolumeSource

record PodSecurityContext =
  px_RunAsNonRoot :: bool
  px_RunAsUser :: int
  px_RunAsGroup :: int
  px_FSGroup :: int
  px_FSGroupChangePolicy :: string
  px_SeccompProfile :: string

record Toleration =
  tl_Key :: string
  tl_Operator :: string
  tl_Value :: string
  tl_Effect :: string
  tl_Seconds :: "int option"

record Taint =
  tn_Key :: string
  tn_Value :: string
  tn_Effect :: string

type_synonym NodeSelectorRequirement = "string \<times> string \<times> string list"

record NodeSelectorTerm =
  nt_MatchExpressions :: "NodeSelectorRequirement list"
  nt_MatchFields :: "NodeSelectorRequirement list"

record PodSpec =
  ps_NodeName :: string
  ps_ServiceAccountName :: string
  ps_AutomountServiceAccountToken :: bool
  ps_RestartPolicy :: string
  ps_PriorityClassName :: string
  ps_ActiveDeadlineSeconds :: int
  ps_TerminationGracePeriodSeconds :: int
  ps_SecurityContext :: "PodSecurityContext option"
  ps_Affinity :: "NodeSelectorTerm list"
  ps_Tolerations :: "Toleration list"
  ps_Containers :: "Container list"
  ps_InitContainers :: "Container list"
  ps_EphemeralContainers :: "Container list"
  ps_Overhead :: "ResourceList option"
  ps_Volumes :: "(string \<times> VolumeSource) list"

record PodCondition =
  pc_Type :: string
  pc_Status :: string
  pc_Reason :: string
  pc_Message :: string

record ContainerStatus =
  cs_Name :: string
  cs_Resources :: "ResourceRequirements option"
  cs_RestartCount :: int
  cs_ContainerID :: string
  cs_ImageID :: string
  cs_TerminatedReason :: "string option"

record Pod =
  pod_Meta :: ObjectMeta
  pod_Spec :: PodSpec
  pod_Phase :: string
  pod_Reason :: string
  pod_Message :: string
  pod_Conditions :: "PodCondition list"
  pod_ContainerStatuses :: "ContainerStatus list"

record Node =
  nd_Meta :: ObjectMeta
  nd_Unschedulable :: bool
  nd_Taints :: "Taint list"
  nd_Conditions :: "(string \<times> string) list"
  nd_Allocatable :: ResourceList
  nd_Capacity :: ResourceList
  nd_KubeletVersion :: string

record PersistentVolumeClaim =
  pvc_Meta :: ObjectMeta
  pvc_AccessModes :: "string list"
  pvc_Storage :: quantity
  pvc_StorageClassName :: string

record ServiceAccount =
  sa_Meta :: ObjectMeta
  sa_AutomountServiceAccountToken :: bool

type_synonym nskey = "string \<times> string"

definition ObjectKey :: "ObjectMeta \<Rightarrow> nskey" where
  "ObjectKey m = (om_Namespace m, om_Name m)"

definition show_key :: "nskey \<Rightarrow> string" where
  "show_key k = fst k @ ''/'' @ snd k"

section \<open>Zero values\<close>

text \<open>The zero values of the structs, as Go initialises the fields a literal leaves out.\<close>

definition zero_ObjectMeta :: ObjectMeta where
  "zero_ObjectMeta = \<lparr>om_Name = [], om_Namespace = [], om_UID = [], om_ResourceVersion = [], om_Generation = 0,
     om_Labels = Map.empty, om_Annotations = Map.empty, om_Finalizers = [], om_CreationTimestamp = 0,
     om_DeletionTimestamp = None\<rparr>"

definition zero_AgentSession :: AgentSession where
  "zero_AgentSession = \<lparr>as_Meta = zero_ObjectMeta,
     as_Spec = \<lparr>sp_SessionID = [], sp_UserID = [], sp_DesiredState = DesiredStateOther [], sp_ResumeNonce = [],
       sp_Runtime = [], sp_Provider = \<lparr>pv_Mode = [], pv_CredentialID = []\<rparr>, sp_StoragePolicy = [],
       sp_IdleTimeoutSeconds = 0, sp_ActiveDeadlineSeconds = 0, sp_PriorityClassName = [], sp_MemoryRequest = []\<rparr>,
     as_Status = \<lparr>st_Phase = PhaseUnset, st_ObservedGeneration = 0, st_ObservedResumeNonce = [], st_NodeName = [],
       st_PodName = [], st_PVCName = [], st_LastActiveAt = None,
       st_Archive = \<lparr>ar_ObjectKey = [], ar_SHA256 = [], ar_SizeBytes = 0\<rparr>, st_RuntimeCheckpoint = None,
       st_ResourceScaling = None, st_Conditions = []\<rparr>\<rparr>"

definition zero_Container :: Container where
  "zero_Container = \<lparr>ct_Name = [], ct_Image = [], ct_ImagePullPolicy = [], ct_Command = [], ct_Args = [],
     ct_Ports = [], ct_ResizePolicy = [], ct_Env = [],
     ct_Resources = \<lparr>rr_Requests = Map.empty, rr_Limits = Map.empty\<rparr>, ct_SecurityContext = None,
     ct_VolumeMounts = [], ct_ReadinessProbe = None, ct_LivenessProbe = None\<rparr>"

definition zero_PodSpec :: PodSpec where
  "zero_PodSpec = \<lparr>ps_NodeName = [], ps_ServiceAccountName = [], ps_AutomountServiceAccountToken = False,
     ps_RestartPolicy = [], ps_PriorityClassName = [], ps_ActiveDeadlineSeconds = 0,
     ps_TerminationGracePeriodSeconds = 0, ps_SecurityContext = None, ps_Affinity = [], ps_Tolerations = [],
     ps_Containers = [], ps_InitContainers = [], ps_EphemeralContainers = [], ps_Overhead = None, ps_Volumes = []\<rparr>"

definition zero_Pod :: Pod where
  "zero_Pod = \<lparr>pod_Meta = zero_ObjectMeta, pod_Spec = zero_PodSpec, pod_Phase = [], pod_Reason = [],
     pod_Message = [], pod_Conditions = [], pod_ContainerStatuses = []\<rparr>"

section \<open>Errors\<close>

text \<open>
  An error of the API server or of the operator: the reason \<open>apierrors.IsNotFound\<close> and its siblings look
  for, which wrapping with \<open>%w\<close> keeps, and the message.
\<close>

datatype kerr_kind = ErrNotFound | ErrAlreadyExists | ErrConflict | ErrServiceUnavailable | ErrAccessDenied | ErrOther

record kerr =
  ke_kind :: kerr_kind
  ke_msg :: string

abbreviation IsNotFound :: "kerr \<Rightarrow> bool" where
  "IsNotFound e \<equiv> ke_kind e = ErrNotFound"

abbreviation IsAlreadyExists :: "kerr \<Rightarrow> bool" where
  "IsAlreadyExists e \<equiv> ke_kind e = ErrAlreadyExists"

abbreviation IsServiceUnavailable :: "kerr \<Rightarrow> bool" where
  "IsServiceUnavailable e \<equiv> ke_kind e = ErrServiceUnavailable"

abbreviation IsForbidden :: "kerr \<Rightarrow> bool" where
  "IsForbidden e \<equiv> ke_kind e = ErrAccessDenied"

abbreviation IsConflict :: "kerr \<Rightarrow> bool" where
  "IsConflict e \<equiv> ke_kind e = ErrConflict"

definition Errorf :: "string \<Rightarrow> kerr" where
  "Errorf msg = \<lparr>ke_kind = ErrOther, ke_msg = msg\<rparr>"

definition Wrapf :: "string \<Rightarrow> kerr \<Rightarrow> kerr" where
  "Wrapf prefix e = e\<lparr>ke_msg := prefix @ '': '' @ ke_msg e\<rparr>"

definition errors_Join :: "kerr \<Rightarrow> kerr \<Rightarrow> kerr" where
  "errors_Join a b = \<lparr>ke_kind = (if ke_kind a = ErrOther then ke_kind b else ke_kind a),
     ke_msg = ke_msg a @ [CHR 0x0A] @ ke_msg b\<rparr>"

definition IgnoreNotFound :: "kerr \<Rightarrow> kerr option" where
  "IgnoreNotFound e = (if IsNotFound e then None else Some e)"

section \<open>Library functions as parameters\<close>

record klib =
  q_Value :: "quantity \<Rightarrow> int"
  q_MilliValue :: "quantity \<Rightarrow> int"
  q_Cmp :: "quantity \<Rightarrow> quantity \<Rightarrow> int"
  q_zero :: quantity
  q_NewQuantity :: "int \<Rightarrow> quantity"
  q_NewMilliQuantity :: "int \<Rightarrow> quantity"
  q_MustParse :: "string \<Rightarrow> quantity"
  FindStatusCondition :: "Condition list \<Rightarrow> string \<Rightarrow> Condition option"
  SetStatusCondition :: "Condition list \<Rightarrow> Condition \<Rightarrow> Condition list"
  RemoveStatusCondition :: "Condition list \<Rightarrow> string \<Rightarrow> Condition list"
  sha256 :: "string \<Rightarrow> string"
  parse_RFC3339 :: "string \<Rightarrow> time option"
  ContainsFinalizer :: "ObjectMeta \<Rightarrow> string \<Rightarrow> bool"
  AddFinalizer :: "ObjectMeta \<Rightarrow> string \<Rightarrow> ObjectMeta"
  RemoveFinalizer :: "ObjectMeta \<Rightarrow> string \<Rightarrow> ObjectMeta"
  SetControllerReference :: "ObjectMeta \<Rightarrow> ObjectMeta \<Rightarrow> kerr + ObjectMeta"
  DeepEqual_status :: "AgentSessionStatus \<Rightarrow> AgentSessionStatus \<Rightarrow> bool"
  DeepEqual_scaling :: "ResourceScalingStatus option \<Rightarrow> ResourceScalingStatus option \<Rightarrow> bool"
  Unmarshal_quiesce :: "string \<Rightarrow> kerr + (string \<times> int \<times> string \<times> string)"
  retry_steps :: nat

text \<open>The accessors of a \<open>ResourceList\<close>: a missing entry is the zero quantity.\<close>

definition rl_Cpu :: "klib \<Rightarrow> ResourceList \<Rightarrow> quantity" where
  "rl_Cpu L rl = (case rl ''cpu'' of None \<Rightarrow> q_zero L | Some q \<Rightarrow> q)"

definition rl_Memory :: "klib \<Rightarrow> ResourceList \<Rightarrow> quantity" where
  "rl_Memory L rl = (case rl ''memory'' of None \<Rightarrow> q_zero L | Some q \<Rightarrow> q)"

text \<open>
  The documented behaviour of the status condition helpers: a condition that is set is found with the
  values it was set to, a removed one is not found, and conditions of other types are untouched.
\<close>

definition conditions_contract :: "klib \<Rightarrow> bool" where
  "conditions_contract L \<longleftrightarrow>
     (\<forall>cs c. FindStatusCondition L (SetStatusCondition L cs c) (c_Type c) = Some c) \<and>
     (\<forall>cs c t. t \<noteq> c_Type c \<longrightarrow> FindStatusCondition L (SetStatusCondition L cs c) t = FindStatusCondition L cs t) \<and>
     (\<forall>cs t. FindStatusCondition L (RemoveStatusCondition L cs t) t = None) \<and>
     (\<forall>cs t u. t \<noteq> u \<longrightarrow> FindStatusCondition L (RemoveStatusCondition L cs u) t = FindStatusCondition L cs t)"

section \<open>The resource policy\<close>

definition mustBytes :: "klib \<Rightarrow> string \<Rightarrow> int" where
  "mustBytes L raw = q_Value L (q_MustParse L raw)"

definition Policy :: "klib \<Rightarrow> ResourcePolicy" where
  "Policy L = \<lparr>CPURequestMillicores = 500, MemoryRequestBytes = mustBytes L ''2Gi'',
     DefaultCPULimit = 500, MinCPULimit = 500, MaxCPULimit = 3000,
     MinMemoryRequestBytes = mustBytes L ''1Gi'', MaxMemoryRequestBytes = mustBytes L ''64Gi''\<rparr>"

definition policy_ResourceRequirements :: "klib \<Rightarrow> int \<Rightarrow> ResourceList \<times> ResourceList" where
  "policy_ResourceRequirements L memoryBytes =
     (let bytes = (if memoryBytes \<le> 0 then MemoryRequestBytes (Policy L) else memoryBytes);
          memory = q_NewQuantity L bytes
      in ([''cpu'' \<mapsto> q_NewMilliQuantity L (CPURequestMillicores (Policy L)), ''memory'' \<mapsto> memory],
          [''cpu'' \<mapsto> q_NewMilliQuantity L (DefaultCPULimit (Policy L)), ''memory'' \<mapsto> memory]))"

lemma Policy_limits [simp]:
  "MinCPULimit (Policy L) = 500" "MaxCPULimit (Policy L) = 3000" "DefaultCPULimit (Policy L) = 500"
  by (simp_all add: Policy_def)

section \<open>Session names\<close>

definition shortIDLength :: nat where
  "shortIDLength = 12"

definition LastActiveAnnotation :: string where
  "LastActiveAnnotation = ''bosun.io/last-active-at''"

definition ResumeNonceAnnotation :: string where
  "ResumeNonceAnnotation = ''bosun.io/resume-nonce''"

definition ShortID :: "klib \<Rightarrow> string \<Rightarrow> string" where
  "ShortID L i = take shortIDLength (hex_encode (sha256 L i))"

definition CRName :: "klib \<Rightarrow> string \<Rightarrow> string" where
  "CRName L sessionID = ''sess-'' @ ShortID L sessionID"

definition PodName :: "klib \<Rightarrow> string \<Rightarrow> string" where
  "PodName L sessionID = ''agent-'' @ ShortID L sessionID"

definition PVCName :: "klib \<Rightarrow> string \<Rightarrow> string" where
  "PVCName L sessionID = ''workspace-'' @ ShortID L sessionID"

definition ServiceAccountName :: "klib \<Rightarrow> string \<Rightarrow> string" where
  "ServiceAccountName L sessionID = ''bosun-session-'' @ ShortID L sessionID"

end
