(* ===== verification/Effects.thy ===== *)
theory Effects
  imports Prelude "HOL-Library.State_Monad"
begin

text \<open>
  Stateful code that talks to an outside system. A program runs in a world made of the trace of
  calls made so far and the memory of the process. The outside system is a function of the trace: it may
  answer the same call differently at different times, so a theorem about every such function is a theorem about
  every behaviour of the API server, of the database and of concurrent clients. Each call appends one event, which
  holds the arguments and the answer. \<open>runs P w m Q\<close> says that every event \<open>m\<close> appends
  satisfies \<open>P\<close> at the trace it is appended to, and that the result and the final world satisfy \<open>Q\<close>.
\<close>

named_theorems runs_rules \<open>rules that decompose a program\<close>

section \<open>Worlds and calls\<close>

record ('e, 'm) world =
  w_trace :: "'e list"
  w_mem :: 'm

type_synonym ('e, 'm, 'a) prog = "(('e, 'm) world, 'a) state"

definition call :: "('e list \<Rightarrow> 'a) \<Rightarrow> ('a \<Rightarrow> 'e) \<Rightarrow> ('e, 'm, 'a) prog" where
  "call answer event = State (\<lambda>w. let r = answer (w_trace w) in (r, w\<lparr>w_trace := w_trace w @ [event r]\<rparr>))"

definition get_mem :: "('e, 'm, 'm) prog" where
  "get_mem = State (\<lambda>w. (w_mem w, w))"

definition put_mem :: "'m \<Rightarrow> ('e, 'm, unit) prog" where
  "put_mem m = State (\<lambda>w. ((), w\<lparr>w_mem := m\<rparr>))"

definition result_of :: "('e, 'm, 'a) prog \<Rightarrow> ('e, 'm) world \<Rightarrow> 'a" where
  "result_of m w = fst (run_state m w)"

definition world_after :: "('e, 'm, 'a) prog \<Rightarrow> ('e, 'm) world \<Rightarrow> ('e, 'm) world" where
  "world_after m w = snd (run_state m w)"

definition events_of :: "('e, 'm, 'a) prog \<Rightarrow> ('e, 'm) world \<Rightarrow> 'e list" where
  "events_of m w = drop (length (w_trace w)) (w_trace (world_after m w))"

text \<open>A loop over a list, and one that stops at the first result that is not \<open>None\<close>.\<close>

fun for_each :: "'x list \<Rightarrow> ('x \<Rightarrow> ('e, 'm, unit) prog) \<Rightarrow> ('e, 'm, unit) prog" where
  "for_each [] f = State_Monad.return ()"
| "for_each (x # xs) f = do { _ \<leftarrow> f x; for_each xs f }"

fun fold_prog :: "('x \<Rightarrow> 'a \<Rightarrow> ('e, 'm, 'a) prog) \<Rightarrow> 'x list \<Rightarrow> 'a \<Rightarrow> ('e, 'm, 'a) prog" where
  "fold_prog f [] a = State_Monad.return a"
| "fold_prog f (x # xs) a = do { b \<leftarrow> f x a; fold_prog f xs b }"

text \<open>An action repeated while its error asks for it and attempts are left; the last answer counts.\<close>

fun retry_on :: "('x \<Rightarrow> bool) \<Rightarrow> nat \<Rightarrow> ('e, 'm, 'x option) prog \<Rightarrow> ('e, 'm, 'x option) prog" where
  "retry_on again 0 m = m"
| "retry_on again (Suc n) m = do {
     r \<leftarrow> m;
     case r of None \<Rightarrow> State_Monad.return None
     | Some e \<Rightarrow> if again e then retry_on again n m else State_Monad.return (Some e) }"

section \<open>Reasoning about programs\<close>

definition runs :: "('e list \<Rightarrow> 'e \<Rightarrow> bool) \<Rightarrow> ('e, 'm) world \<Rightarrow> ('e, 'm, 'a) prog \<Rightarrow>
    ('a \<Rightarrow> ('e, 'm) world \<Rightarrow> bool) \<Rightarrow> bool" where
  "runs P w m Q \<longleftrightarrow> (\<exists>es. w_trace (world_after m w) = w_trace w @ es \<and>
     (\<forall>i<length es. P (w_trace w @ take i es) (es ! i))) \<and> Q (result_of m w) (world_after m w)"

lemma run_return [simp]: "run_state (State_Monad.return x) w = (x, w)"
  by (simp add: State_Monad.return_def)

lemma run_bind [simp]:
  "run_state (State_Monad.bind m f) w = run_state (f (result_of m w)) (world_after m w)"
  by (cases "run_state m w") (simp add: State_Monad.bind_def result_of_def world_after_def)

lemma result_simps [simp]:
  "result_of (State_Monad.return x) w = x"
  "result_of (State_Monad.bind m f) w = result_of (f (result_of m w)) (world_after m w)"
  "result_of (call answer event) w = answer (w_trace w)"
  "result_of get_mem w = w_mem w"
  "result_of (put_mem k) w = ()"
  by (simp_all add: result_of_def world_after_def call_def get_mem_def put_mem_def Let_def split_beta)

lemma world_simps [simp]:
  "world_after (State_Monad.return x) w = w"
  "world_after (State_Monad.bind m f) w = world_after (f (result_of m w)) (world_after m w)"
  "world_after (call answer event) w = w\<lparr>w_trace := w_trace w @ [event (answer (w_trace w))]\<rparr>"
  "world_after get_mem w = w"
  "world_after (put_mem k) w = w\<lparr>w_mem := k\<rparr>"
  by (simp_all add: result_of_def world_after_def call_def get_mem_def put_mem_def Let_def split_beta)

lemma runs_return [runs_rules]: "Q x w \<Longrightarrow> runs P w (State_Monad.return x) Q"
  by (simp add: runs_def)

lemma runs_bind [runs_rules]:
  assumes "runs P w m (\<lambda>x w'. runs P w' (f x) Q)"
  shows "runs P w (State_Monad.bind m f) Q"
proof -
  let ?w = "world_after m w" and ?m = "f (result_of m w)"
  obtain es where es: "w_trace ?w = w_trace w @ es" "\<forall>i<length es. P (w_trace w @ take i es) (es ! i)"
    and rest: "runs P ?w ?m Q" using assms by (auto simp: runs_def)
  obtain fs where fs: "w_trace (world_after ?m ?w) = w_trace ?w @ fs"
    "\<forall>i<length fs. P (w_trace ?w @ take i fs) (fs ! i)" using rest by (auto simp: runs_def)
  have "P (w_trace w @ take i (es @ fs)) ((es @ fs) ! i)" if "i < length (es @ fs)" for i
  proof (cases "i < length es")
    case True
    then show ?thesis using es(2) by (simp add: nth_append)
  next
    case False
    then have "i - length es < length fs" using that by simp
    then show ?thesis using fs(2) es(1) False by (simp add: nth_append)
  qed
  then show ?thesis using rest es(1) fs(1) unfolding runs_def by (auto intro!: exI [of _ "es @ fs"])
qed

lemma runs_call [runs_rules]:
  assumes "P (w_trace w) (event (answer (w_trace w)))"
    and "Q (answer (w_trace w)) (w\<lparr>w_trace := w_trace w @ [event (answer (w_trace w))]\<rparr>)"
  shows "runs P w (call answer event) Q"
  using assms by (auto simp: runs_def)

lemma runs_get_mem [runs_rules]: "Q (w_mem w) w \<Longrightarrow> runs P w get_mem Q"
  by (simp add: runs_def)

lemma runs_put_mem [runs_rules]: "Q () (w\<lparr>w_mem := k\<rparr>) \<Longrightarrow> runs P w (put_mem k) Q"
  by (simp add: runs_def)

lemma runs_mono:
  assumes "runs P w m Q" and "\<And>x w'. Q x w' \<Longrightarrow> Q' x w'" and "\<And>t e. P t e \<Longrightarrow> P' t e"
  shows "runs P' w m Q'"
  using assms unfolding runs_def by blast

lemma runs_post: "runs P w m Q \<Longrightarrow> (\<And>x w'. Q x w' \<Longrightarrow> Q' x w') \<Longrightarrow> runs P w m Q'"
  by (rule runs_mono)

lemma runs_if [runs_rules]:
  assumes "b \<Longrightarrow> runs P w m Q" and "\<not> b \<Longrightarrow> runs P w n Q"
  shows "runs P w (if b then m else n) Q"
  using assms by simp

lemma runs_case_sum [runs_rules]:
  assumes "\<And>e. r = Inl e \<Longrightarrow> runs P w (f e) Q" and "\<And>x. r = Inr x \<Longrightarrow> runs P w (g x) Q"
  shows "runs P w (case r of Inl e \<Rightarrow> f e | Inr x \<Rightarrow> g x) Q"
  using assms by (cases r) simp_all

lemma runs_case_option [runs_rules]:
  assumes "r = None \<Longrightarrow> runs P w m Q" and "\<And>x. r = Some x \<Longrightarrow> runs P w (g x) Q"
  shows "runs P w (case r of None \<Rightarrow> m | Some x \<Rightarrow> g x) Q"
  using assms by (cases r) simp_all

lemma runs_case_prod [runs_rules]:
  assumes "\<And>x y. r = (x, y) \<Longrightarrow> runs P w (g x y) Q"
  shows "runs P w (case r of (x, y) \<Rightarrow> g x y) Q"
  using assms by (cases r) simp

lemma runs_let [runs_rules]: "runs P w (f x) Q \<Longrightarrow> runs P w (Let x f) Q"
  by simp

lemma runs_for_each:
  assumes "\<And>x v. x \<in> set xs \<Longrightarrow> I v \<Longrightarrow> runs P v (f x) (\<lambda>_. I)" and "I w"
  shows "runs P w (for_each xs f) (\<lambda>_. I)"
  using assms
proof (induction xs arbitrary: w)
  case Nil
  then show ?case by (simp add: runs_return)
next
  case (Cons x xs)
  have "runs P w (f x) (\<lambda>_. I)" using Cons.prems by simp
  then have "runs P w (f x) (\<lambda>_ v. runs P v (for_each xs f) (\<lambda>_. I))"
    by (rule runs_post) (rule Cons.IH, simp_all add: Cons.prems)
  then show ?case by (simp add: runs_bind)
qed

lemma runs_fold_prog:
  assumes "\<And>x a v. x \<in> set xs \<Longrightarrow> I a v \<Longrightarrow> runs P v (f x a) I" and "I a w"
  shows "runs P w (fold_prog f xs a) I"
  using assms
proof (induction xs arbitrary: a w)
  case Nil
  then show ?case by (simp add: runs_return)
next
  case (Cons x xs)
  have "runs P w (f x a) I" using Cons.prems by simp
  then have "runs P w (f x a) (\<lambda>b v. runs P v (fold_prog f xs b) I)"
    by (rule runs_post) (rule Cons.IH, simp_all add: Cons.prems)
  then show ?case by (simp add: runs_bind)
qed

lemma runs_retry_on:
  assumes "\<And>v. I v \<Longrightarrow> runs P v m (\<lambda>r v'. I v' \<and> Q r v')" and "I w"
  shows "runs P w (retry_on again n m) (\<lambda>r v'. I v' \<and> Q r v')"
  using assms(2)
proof (induction n arbitrary: w)
  case 0
  then show ?case using assms(1) by simp
next
  case (Suc n)
  have "runs P w m (\<lambda>r v'. I v' \<and> Q r v')" using assms(1) Suc.prems .
  then have "runs P w m (\<lambda>r v. runs P v (case r of None \<Rightarrow> State_Monad.return None
      | Some e \<Rightarrow> if again e then retry_on again n m else State_Monad.return (Some e)) (\<lambda>r v'. I v' \<and> Q r v'))"
  proof (rule runs_post)
    fix r v
    assume v: "I v \<and> Q r v"
    then have "runs P v (retry_on again n m) (\<lambda>r v'. I v' \<and> Q r v')" by (intro Suc.IH) simp
    with v show "runs P v (case r of None \<Rightarrow> State_Monad.return None
      | Some e \<Rightarrow> if again e then retry_on again n m else State_Monad.return (Some e)) (\<lambda>r v'. I v' \<and> Q r v')"
      by (auto intro!: runs_return split: option.split)
  qed
  then show ?case by (simp add: runs_bind)
qed

lemma runs_extends: "runs P w m Q \<Longrightarrow> runs (\<lambda>t e. P t e \<and> (\<exists>es. t = w_trace w @ es)) w m Q"
  unfolding runs_def by blast

text \<open>What \<open>runs\<close> says of the events and of the result.\<close>

lemma runs_trace:
  assumes "runs P w m Q"
  shows "w_trace (world_after m w) = w_trace w @ events_of m w"
  using assms by (auto simp: runs_def events_of_def)

lemma runs_events:
  assumes "runs P w m Q" and "events_of m w = before @ e # after"
  shows "P (w_trace w @ before) e"
proof -
  obtain es where es: "w_trace (world_after m w) = w_trace w @ es" "\<forall>i<length es. P (w_trace w @ take i es) (es ! i)"
    using assms(1) by (auto simp: runs_def)
  then have "es = before @ e # after" using assms(2) by (simp add: events_of_def)
  then show ?thesis using es(2) by (auto dest: spec [of _ "length before"])
qed

lemma runs_result: "runs P w m Q \<Longrightarrow> Q (result_of m w) (world_after m w)"
  by (simp add: runs_def)

lemma runs_conj:
  assumes "runs P w m Q" and "runs P' w m Q'"
  shows "runs (\<lambda>t e. P t e \<and> P' t e) w m (\<lambda>x v. Q x v \<and> Q' x v)"
proof -
  obtain es where es: "w_trace (world_after m w) = w_trace w @ es" "\<forall>i<length es. P (w_trace w @ take i es) (es ! i)"
    using assms(1) by (auto simp: runs_def)
  moreover obtain fs where "w_trace (world_after m w) = w_trace w @ fs" "\<forall>i<length fs. P' (w_trace w @ take i fs) (fs ! i)"
    using assms(2) by (auto simp: runs_def)
  ultimately show ?thesis using assms by (auto simp: runs_def intro!: exI [of _ es])
qed

end
