(* ===== verification/Kube_World.thy ===== *)
theory Kube_World
  imports Kube_Types Effects
begin

text \<open>
  The calls the operator makes to the outside: the API server, the exec and Kubelet endpoints and the clock. The record
  \<open>kube_api\<close> is the outside system as a parameter: for each call the answer as a function of the trace and of
  the arguments. Nothing is assumed of the answers. Deletions carry the grace period, when one is
  given; \<open>Create\<close> and \<open>Update\<close> answer with the object the server stored, which the Go client copies
  into its argument.
\<close>

section \<open>Events\<close>

datatype exec_result =
  ExecorError kerr
  | StreamError kerr string
  | ExecOutput string

datatype event =
  EvGetSession nskey "kerr + AgentSession"
  | EvUpdateSession AgentSession "kerr option"
  | EvStatusUpdate AgentSession "kerr option"
  | EvPatchSession AgentSession AgentSession "kerr option"
  | EvListSessions "kerr + AgentSession list"
  | EvGetPod nskey "kerr + Pod"
  | EvCreatePod Pod "kerr + Pod"
  | EvDeletePod Pod "int option" "kerr option"
  | EvListPods "kerr + Pod list"
  | EvResizePod Pod "kerr option"
  | EvGetPVC nskey "kerr + PersistentVolumeClaim"
  | EvCreatePVC PersistentVolumeClaim "kerr + PersistentVolumeClaim"
  | EvDeletePVC PersistentVolumeClaim "kerr option"
  | EvGetSA nskey "kerr + ServiceAccount"
  | EvCreateSA ServiceAccount "kerr option"
  | EvDeleteSA nskey "kerr option"
  | EvListNodes "kerr + Node list"
  | EvExec nskey string "string list" exec_result
  | EvNodeSummary string "kerr + string"
  | EvNow time

type_synonym trace = "event list"
type_synonym ('m, 'a) kube = "(event, 'm, 'a) prog"

record kube_api =
  a_get_session :: "trace \<Rightarrow> nskey \<Rightarrow> kerr + AgentSession"
  a_update_session :: "trace \<Rightarrow> AgentSession \<Rightarrow> kerr option"
  a_status_update :: "trace \<Rightarrow> AgentSession \<Rightarrow> kerr option"
  a_patch_session :: "trace \<Rightarrow> AgentSession \<Rightarrow> AgentSession \<Rightarrow> kerr option"
  a_list_sessions :: "trace \<Rightarrow> kerr + AgentSession list"
  a_get_pod :: "trace \<Rightarrow> nskey \<Rightarrow> kerr + Pod"
  a_create_pod :: "trace \<Rightarrow> Pod \<Rightarrow> kerr + Pod"
  a_delete_pod :: "trace \<Rightarrow> Pod \<Rightarrow> int option \<Rightarrow> kerr option"
  a_list_pods :: "trace \<Rightarrow> kerr + Pod list"
  a_resize_pod :: "trace \<Rightarrow> Pod \<Rightarrow> kerr option"
  a_get_pvc :: "trace \<Rightarrow> nskey \<Rightarrow> kerr + PersistentVolumeClaim"
  a_create_pvc :: "trace \<Rightarrow> PersistentVolumeClaim \<Rightarrow> kerr + PersistentVolumeClaim"
  a_delete_pvc :: "trace \<Rightarrow> PersistentVolumeClaim \<Rightarrow> kerr option"
  a_get_sa :: "trace \<Rightarrow> nskey \<Rightarrow> kerr + ServiceAccount"
  a_create_sa :: "trace \<Rightarrow> ServiceAccount \<Rightarrow> kerr option"
  a_delete_sa :: "trace \<Rightarrow> nskey \<Rightarrow> kerr option"
  a_list_nodes :: "trace \<Rightarrow> kerr + Node list"
  a_exec :: "trace \<Rightarrow> nskey \<Rightarrow> string \<Rightarrow> string list \<Rightarrow> exec_result"
  a_node_summary :: "trace \<Rightarrow> string \<Rightarrow> kerr + string"
  a_now :: "trace \<Rightarrow> time"

section \<open>Calls\<close>

definition get_session :: "kube_api \<Rightarrow> nskey \<Rightarrow> ('m, kerr + AgentSession) kube" where
  "get_session A k = call (\<lambda>t. a_get_session A t k) (EvGetSession k)"

definition update_session :: "kube_api \<Rightarrow> AgentSession \<Rightarrow> ('m, kerr option) kube" where
  "update_session A s = call (\<lambda>t. a_update_session A t s) (EvUpdateSession s)"

definition status_update :: "kube_api \<Rightarrow> AgentSession \<Rightarrow> ('m, kerr option) kube" where
  "status_update A s = call (\<lambda>t. a_status_update A t s) (EvStatusUpdate s)"

definition patch_session :: "kube_api \<Rightarrow> AgentSession \<Rightarrow> AgentSession \<Rightarrow> ('m, kerr option) kube" where
  "patch_session A s base = call (\<lambda>t. a_patch_session A t s base) (EvPatchSession s base)"

definition list_sessions :: "kube_api \<Rightarrow> ('m, kerr + AgentSession list) kube" where
  "list_sessions A = call (a_list_sessions A) EvListSessions"

definition get_pod :: "kube_api \<Rightarrow> nskey \<Rightarrow> ('m, kerr + Pod) kube" where
  "get_pod A k = call (\<lambda>t. a_get_pod A t k) (EvGetPod k)"

definition create_pod :: "kube_api \<Rightarrow> Pod \<Rightarrow> ('m, kerr + Pod) kube" where
  "create_pod A p = call (\<lambda>t. a_create_pod A t p) (EvCreatePod p)"

definition delete_pod :: "kube_api \<Rightarrow> Pod \<Rightarrow> int option \<Rightarrow> ('m, kerr option) kube" where
  "delete_pod A p grace = call (\<lambda>t. a_delete_pod A t p grace) (EvDeletePod p grace)"

definition list_pods :: "kube_api \<Rightarrow> ('m, kerr + Pod list) kube" where
  "list_pods A = call (a_list_pods A) EvListPods"

definition resize_pod :: "kube_api \<Rightarrow> Pod \<Rightarrow> ('m, kerr option) kube" where
  "resize_pod A p = call (\<lambda>t. a_resize_pod A t p) (EvResizePod p)"

definition get_pvc :: "kube_api \<Rightarrow> nskey \<Rightarrow> ('m, kerr + PersistentVolumeClaim) kube" where
  "get_pvc A k = call (\<lambda>t. a_get_pvc A t k) (EvGetPVC k)"

definition create_pvc :: "kube_api \<Rightarrow> PersistentVolumeClaim \<Rightarrow> ('m, kerr + PersistentVolumeClaim) kube" where
  "create_pvc A p = call (\<lambda>t. a_create_pvc A t p) (EvCreatePVC p)"

definition delete_pvc :: "kube_api \<Rightarrow> PersistentVolumeClaim \<Rightarrow> ('m, kerr option) kube" where
  "delete_pvc A p = call (\<lambda>t. a_delete_pvc A t p) (EvDeletePVC p)"

definition get_sa :: "kube_api \<Rightarrow> nskey \<Rightarrow> ('m, kerr + ServiceAccount) kube" where
  "get_sa A k = call (\<lambda>t. a_get_sa A t k) (EvGetSA k)"

definition create_sa :: "kube_api \<Rightarrow> ServiceAccount \<Rightarrow> ('m, kerr option) kube" where
  "create_sa A s = call (\<lambda>t. a_create_sa A t s) (EvCreateSA s)"

definition delete_sa :: "kube_api \<Rightarrow> nskey \<Rightarrow> ('m, kerr option) kube" where
  "delete_sa A k = call (\<lambda>t. a_delete_sa A t k) (EvDeleteSA k)"

definition list_nodes :: "kube_api \<Rightarrow> ('m, kerr + Node list) kube" where
  "list_nodes A = call (a_list_nodes A) EvListNodes"

definition exec_in_pod :: "kube_api \<Rightarrow> nskey \<Rightarrow> string \<Rightarrow> string list \<Rightarrow> ('m, exec_result) kube" where
  "exec_in_pod A k container command = call (\<lambda>t. a_exec A t k container command) (EvExec k container command)"

definition node_summary :: "kube_api \<Rightarrow> string \<Rightarrow> ('m, kerr + string) kube" where
  "node_summary A node = call (\<lambda>t. a_node_summary A t node) (EvNodeSummary node)"

definition time_now :: "kube_api \<Rightarrow> ('m, time) kube" where
  "time_now A = call (a_now A) EvNow"

lemmas call_defs = get_session_def update_session_def status_update_def patch_session_def list_sessions_def
  get_pod_def create_pod_def delete_pod_def list_pods_def resize_pod_def get_pvc_def create_pvc_def
  delete_pvc_def get_sa_def create_sa_def delete_sa_def list_nodes_def exec_in_pod_def node_summary_def time_now_def

text \<open>
  \<open>retry.RetryOnConflict\<close> repeats the action while it answers with a conflict and attempts are left, and
  returns the last answer.
\<close>

abbreviation retry_on_conflict :: "nat \<Rightarrow> ('e, 'm, kerr option) prog \<Rightarrow> ('e, 'm, kerr option) prog" where
  "retry_on_conflict \<equiv> retry_on (\<lambda>e. IsConflict e)"

end
