(* ===== verification/Quiescer.thy ===== *)
theory Quiescer
  imports Kube_World
begin

text \<open>
  \<open>operator/internal/controller/kubernetes_quiescer.go\<close>: the two commands the operator executes in the
  agent container, and the checks on what they answer. The executor is the parameter \<open>a_exec\<close>, the decoding of the
  JSON answer the parameter \<open>Unmarshal_quiesce\<close>.
\<close>

section \<open>Definitions\<close>

definition agentContainerName :: string where
  "agentContainerName = ''agent''"

definition sha256Pattern :: "string \<Rightarrow> bool" where
  "sha256Pattern s \<longleftrightarrow> length s = 64 \<and> list_all is_lower_hex s"

record QuiesceResult =
  qr_CreatedAt :: time
  qr_SizeBytes :: int
  qr_SHA256 :: string
  qr_AgentImageDigest :: string

datatype AgentWorkState = AgentWorkStateUnknown | AgentWorkStateWorking | AgentWorkStateAwaitingApproval
  | AgentWorkStateAwaitingChoice | AgentWorkStateAwaitingInput | AgentWorkStateStopped

definition work_state :: "string \<Rightarrow> AgentWorkState option" where
  "work_state s =
     (if s = [] then Some AgentWorkStateUnknown
      else if s = ''working'' then Some AgentWorkStateWorking
      else if s = ''awaiting_approval'' then Some AgentWorkStateAwaitingApproval
      else if s = ''awaiting_choice'' then Some AgentWorkStateAwaitingChoice
      else if s = ''awaiting_input'' then Some AgentWorkStateAwaitingInput
      else if s = ''stopped'' then Some AgentWorkStateStopped
      else None)"

text \<open>\<open>strings.LastIndex\<close>.\<close>

definition LastIndex :: "string \<Rightarrow> string \<Rightarrow> nat option" where
  "LastIndex s sub = (case filter (\<lambda>i. HasPrefix (drop i s) sub) [0..<Suc (length s)] of
     [] \<Rightarrow> None | is \<Rightarrow> Some (last is))"

fun image_digest :: "ContainerStatus list \<Rightarrow> string" where
  "image_digest [] = []"
| "image_digest (status # rest) =
     (if cs_Name status \<noteq> agentContainerName then image_digest rest
      else let imageID = TrimPrefix (TrimPrefix (cs_ImageID status) ''docker-pullable://'') ''docker://''
           in case LastIndex imageID ''@sha256:'' of
                Some at \<Rightarrow> drop (at + 1) imageID
              | None \<Rightarrow> if HasPrefix imageID ''sha256:'' then imageID else image_digest rest)"

definition podAgentImageDigest :: "Pod \<Rightarrow> string" where
  "podAgentImageDigest pod = image_digest (pod_ContainerStatuses pod)"

definition stableQuiesceError :: "string \<Rightarrow> string" where
  "stableQuiesceError stderr =
     (if TrimSpace stderr = [] then ''runtime_control_failed'' else ''runtime_control_reported_error'')"

text \<open>\<open>fmt.Errorf("...: %w (%s)", err, detail)\<close>.\<close>

definition Wrapf_detail :: "string \<Rightarrow> kerr \<Rightarrow> string \<Rightarrow> kerr" where
  "Wrapf_detail prefix e detail = e\<lparr>ke_msg := prefix @ '': '' @ ke_msg e @ '' ('' @ detail @ '')''\<rparr>"

definition Quiesce :: "klib \<Rightarrow> kube_api \<Rightarrow> Pod \<Rightarrow> ('m, kerr + QuiesceResult) kube" where
  "Quiesce L A pod =
     (if om_Namespace (pod_Meta pod) = [] \<or> om_Name (pod_Meta pod) = []
      then State_Monad.return (Inl (Errorf ''agent Pod identity is required''))
      else do {
        let digest = podAgentImageDigest pod;
        r \<leftarrow> exec_in_pod A (ObjectKey (pod_Meta pod)) agentContainerName
               [''/usr/local/bin/bosun-runtime-control'', ''quiesce'', digest];
        State_Monad.return (case r of
          ExecorError e \<Rightarrow> Inl (Wrapf ''create agent quiesce executor'' e)
        | StreamError e stderr \<Rightarrow> Inl (Wrapf_detail ''quiesce agent Pod'' e (stableQuiesceError stderr))
        | ExecOutput stdout \<Rightarrow> (case Unmarshal_quiesce L (TrimSpace stdout) of
            Inl e \<Rightarrow> Inl (Wrapf ''parse agent quiesce response'' e)
          | Inr (createdAtRaw, sizeBytes, sha, imageDigest) \<Rightarrow>
              (case parse_RFC3339 L createdAtRaw of
                 None \<Rightarrow> Inl (Errorf ''agent returned invalid recovery metadata'')
               | Some createdAt \<Rightarrow>
                   if sizeBytes < 0 \<or> sizeBytes > 1024 * 1024 \<or> \<not> sha256Pattern sha \<or> imageDigest \<noteq> digest
                   then Inl (Errorf ''agent returned invalid recovery metadata'')
                   else Inr \<lparr>qr_CreatedAt = createdAt, qr_SizeBytes = sizeBytes, qr_SHA256 = sha,
                          qr_AgentImageDigest = imageDigest\<rparr>)))
      })"

definition ReadState :: "kube_api \<Rightarrow> Pod \<Rightarrow> ('m, kerr + AgentWorkState) kube" where
  "ReadState A pod =
     (if om_Namespace (pod_Meta pod) = [] \<or> om_Name (pod_Meta pod) = []
      then State_Monad.return (Inl (Errorf ''agent Pod identity is required''))
      else do {
        r \<leftarrow> exec_in_pod A (ObjectKey (pod_Meta pod)) agentContainerName
               [''/bin/bash'', ''-c'', ''cat /workspace/.bosun-state/agent-status 2>/dev/null || true''];
        State_Monad.return (case r of
          ExecorError e \<Rightarrow> Inl (Wrapf ''create agent state executor'' e)
        | StreamError e stderr \<Rightarrow> Inl (Wrapf_detail ''read agent state'' e (stableQuiesceError stderr))
        | ExecOutput stdout \<Rightarrow> (case work_state (TrimSpace stdout) of
            Some state \<Rightarrow> Inr state
          | None \<Rightarrow> Inl (Errorf ''agent returned invalid work state'')))
      })"

section \<open>Lemmas\<close>

text \<open>A recovery manifest is accepted only when it passes every check and names the image the Pod runs.\<close>

definition manifest_ok :: "Pod \<Rightarrow> QuiesceResult \<Rightarrow> bool" where
  "manifest_ok pod q \<longleftrightarrow> 0 \<le> qr_SizeBytes q \<and> qr_SizeBytes q \<le> 2 ^ 20 \<and> sha256Pattern (qr_SHA256 q) \<and>
     qr_AgentImageDigest q = podAgentImageDigest pod"

lemma runs_Quiesce:
  assumes "\<And>c r. P (w_trace w) (EvExec (ObjectKey (pod_Meta pod)) agentContainerName c r)"
  shows "runs P w (Quiesce L A pod) (\<lambda>r w'. w_mem w' = w_mem w \<and> (\<forall>q. r = Inr q \<longrightarrow> manifest_ok pod q))"
  unfolding Quiesce_def Let_def exec_in_pod_def using assms
  by (intro runs_rules) (auto simp: manifest_ok_def split: exec_result.splits sum.splits option.splits if_splits)

lemma runs_ReadState:
  assumes "\<And>c r. P (w_trace w) (EvExec (ObjectKey (pod_Meta pod)) agentContainerName c r)"
  shows "runs P w (ReadState A pod) (\<lambda>r w'. w_mem w' = w_mem w)"
  unfolding ReadState_def exec_in_pod_def using assms by (intro runs_rules) auto

end
