(* ===== verification/Cpu_Scheduler.thy ===== *)
theory Cpu_Scheduler
  imports Prelude
begin

text \<open>
  The two allocation routines of \<open>operator/internal/controller/cpu_scheduler.go\<close>:
  \<open>maxMinCPU\<close>, which hands out a pool of millicores under demand caps, and
  \<open>proportionalCPU\<close>, which splits an amount in proportion to capacities. A Go
  \<open>map[string]int64\<close> that is built up is a map \<open>string \<rightharpoonup> int\<close>; one that is ranged over is an
  association list in the (arbitrary) iteration order. The millicore counts of
  \<open>maxMinCPU\<close> stay between 0 and the pool or the caps, so they are plain integers; the
  sums and products of \<open>proportionalCPU\<close> are wrapped with \<open>i64\<close>.
\<close>

section \<open>Definitions\<close>

definition agentBaseCPUMillicores :: int where
  "agentBaseCPUMillicores = 500"

record cpuDemand =
  cd_key :: string
  cd_limit :: int

text \<open>
  The inner loop of \<open>maxMinCPU\<close>: one pass over the active demands from index \<open>i\<close>, with the
  accumulated result and use, and the demands that stay active.
\<close>

fun maxMin_pass :: "int \<Rightarrow> int \<Rightarrow> int \<Rightarrow> cpuDemand list \<Rightarrow> (string \<rightharpoonup> int) \<Rightarrow> int \<Rightarrow>
    (string \<rightharpoonup> int) \<times> int \<times> cpuDemand list" where
  "maxMin_pass share remainder i [] result used = (result, used, [])"
| "maxMin_pass share remainder i (d # ds) result used =
     (let grant0 = (if i < remainder then share + 1 else share);
          remaining = cd_limit d - mget result (cd_key d);
          grant = min grant0 remaining;
          result' = (if grant > 0 then result(cd_key d \<mapsto> mget result (cd_key d) + grant)
                     else result);
          used' = (if grant > 0 then used + grant else used);
          (r, u, rest) = maxMin_pass share remainder (i + 1) ds result' used'
      in (r, u, if mget result' (cd_key d) < cd_limit d then d # rest else rest))"

lemma maxMin_pass_used_mono:
  "u \<le> fst (snd (maxMin_pass share remainder i ds r u))"
proof (induction ds arbitrary: i r u)
  case (Cons d ds)
  let ?g = "min (if i < remainder then share + 1 else share) (cd_limit d - mget r (cd_key d))"
  let ?u = "if ?g > 0 then u + ?g else u"
  have "u \<le> ?u" by simp
  with Cons.IH show ?case
    by (auto simp: Let_def split_beta intro: order.trans)
qed simp

text \<open>The outer loop: \<open>for pool > 0 && len(active) > 0\<close>, left early when a pass grants nothing.\<close>

function maxMin_loop :: "int \<Rightarrow> cpuDemand list \<Rightarrow> (string \<rightharpoonup> int) \<Rightarrow> (string \<rightharpoonup> int)" where
  "maxMin_loop pool active result =
     (if pool > 0 \<and> active \<noteq> [] then
        let n = int (length active);
            (result', used, rest) = maxMin_pass (pool sdiv n) (pool smod n) 0 active result 0
        in if used = 0 then result' else maxMin_loop (pool - used) rest result'
      else result)"
  by pat_completeness auto
termination
proof (relation "measure (\<lambda>(pool, _, _). nat pool)", goal_cases)
  case (2 pool active result n x r y u rest)
  then have "0 \<le> u" using maxMin_pass_used_mono [of 0] by (metis fst_conv snd_conv)
  with 2 show ?case by auto
qed simp

declare maxMin_loop.simps [simp del]

definition maxMinCPU :: "int \<Rightarrow> cpuDemand list \<Rightarrow> (string \<rightharpoonup> int)" where
  "maxMinCPU pool demands = maxMin_loop pool (sort_key cd_key demands) Map.empty"

record proportionalShare =
  ps_key :: string
  ps_capacity :: int
  ps_allocated :: int
  ps_remainder :: int

text \<open>The share built for one capacity: \<open>amount * capacity\<close> wraps as an \<open>int64\<close>.\<close>

definition make_share :: "int \<Rightarrow> int \<Rightarrow> string \<times> int \<Rightarrow> proportionalShare" where
  "make_share amount tot kc =
     (let numerator = i64 (amount * snd kc)
      in \<lparr>ps_key = fst kc, ps_capacity = snd kc, ps_allocated = numerator sdiv tot,
          ps_remainder = numerator smod tot\<rparr>)"

text \<open>One round of the top-up loop: the first share in order that still has room gets one more.\<close>

fun topup_one :: "proportionalShare list \<Rightarrow> (string \<rightharpoonup> int) \<Rightarrow> (string \<rightharpoonup> int)" where
  "topup_one [] result = result"
| "topup_one (s # ss) result =
     (if mget result (ps_key s) < ps_capacity s
      then result(ps_key s \<mapsto> mget result (ps_key s) + 1)
      else topup_one ss result)"

fun topup :: "nat \<Rightarrow> proportionalShare list \<Rightarrow> (string \<rightharpoonup> int) \<Rightarrow> (string \<rightharpoonup> int)" where
  "topup 0 shares result = result"
| "topup (Suc n) shares result = topup n shares (topup_one shares result)"

definition share_order :: "proportionalShare \<Rightarrow> int \<times> string" where
  "share_order s = (- ps_remainder s, ps_key s)"

definition proportionalCPU :: "int \<Rightarrow> (string \<times> int) list \<Rightarrow> (string \<rightharpoonup> int)" where
  "proportionalCPU amount0 capacities =
     (let positive = filter (\<lambda>kc. snd kc > 0) capacities;
          tot = sum64 (map snd positive);
          amount = min (max amount0 0) tot
      in if amount = 0 \<or> tot = 0 then Map.empty
         else let shares = map (make_share amount tot) positive;
                  result = map_of (map (\<lambda>s. (ps_key s, ps_allocated s)) shares);
                  used = sum64 (map ps_allocated shares)
              in topup (nat (i64 (amount - used))) (sort_key share_order shares) result)"

section \<open>One pass of the max-min loop\<close>

text \<open>
  What one demand gets in a pass, \<open>pass_grant\<close> for its index, and the map after it: with a cap
  that is not yet exceeded the new amount is the old one plus the grant, cut at the cap.
\<close>

definition pass_grant :: "int \<Rightarrow> int \<Rightarrow> int \<Rightarrow> int" where
  "pass_grant share remainder i = (if i < remainder then share + 1 else share)"

definition grant_one :: "int \<Rightarrow> cpuDemand \<Rightarrow> (string \<rightharpoonup> int) \<Rightarrow> (string \<rightharpoonup> int)" where
  "grant_one g d r =
     (let grant = min g (cd_limit d - mget r (cd_key d))
      in if grant > 0 then r(cd_key d \<mapsto> mget r (cd_key d) + grant) else r)"

lemma mget_grant_one:
  "0 \<le> g \<Longrightarrow> mget r (cd_key d) \<le> cd_limit d \<Longrightarrow>
   mget (grant_one g d r) k =
     (if k = cd_key d then min (mget r (cd_key d) + g) (cd_limit d) else mget r k)"
  by (auto simp: grant_one_def Let_def min_def)

lemma grant_one_frame: "k \<noteq> cd_key d \<Longrightarrow> grant_one g d r k = r k"
  by (simp add: grant_one_def Let_def)

lemma maxMin_pass_Cons:
  "maxMin_pass share remainder i (d # ds) r u =
     (let r1 = grant_one (pass_grant share remainder i) d r;
          (r', u', rest) = maxMin_pass share remainder (i + 1) ds r1
             (u + (mget r1 (cd_key d) - mget r (cd_key d)))
      in (r', u', if mget r1 (cd_key d) < cd_limit d then d # rest else rest))"
  by (simp add: pass_grant_def grant_one_def Let_def split_beta)

lemmas maxMin_pass_rules = maxMin_pass.simps(1) maxMin_pass_Cons

declare maxMin_pass.simps(2) [simp del]

lemma pass_grant_nonneg: "0 \<le> share \<Longrightarrow> 0 \<le> pass_grant share remainder i"
  by (simp add: pass_grant_def)

lemma pass_frame:
  "k \<notin> cd_key ` set ds \<Longrightarrow> fst (maxMin_pass share remainder i ds r u) k = r k"
  by (induction ds arbitrary: i r u)
    (auto simp: maxMin_pass_Cons Let_def split_beta grant_one_frame)

lemma pass_alloc:
  assumes "distinct (map cd_key ds)" and "0 \<le> share"
    and "\<forall>d\<in>set ds. mget r (cd_key d) \<le> cd_limit d" and "j < length ds"
  shows "mget (fst (maxMin_pass share remainder i ds r u)) (cd_key (ds ! j)) =
    min (mget r (cd_key (ds ! j)) + pass_grant share remainder (i + int j)) (cd_limit (ds ! j))"
  using assms
proof (induction ds arbitrary: i r u j)
  case (Cons d ds)
  let ?r1 = "grant_one (pass_grant share remainder i) d r"
  have g: "0 \<le> pass_grant share remainder i" using Cons.prems(2) by (rule pass_grant_nonneg)
  have r1: "mget ?r1 k = (if k = cd_key d
      then min (mget r (cd_key d) + pass_grant share remainder i) (cd_limit d) else mget r k)" for k
    using g Cons.prems(3) by (intro mget_grant_one) auto
  have fst_eq: "fst (maxMin_pass share remainder i (d # ds) r u) =
      fst (maxMin_pass share remainder (i + 1) ds ?r1 (u + (mget ?r1 (cd_key d) - mget r (cd_key d))))"
    by (simp add: maxMin_pass_Cons Let_def split_beta)
  show ?case
  proof (cases j)
    case 0
    have "fst (maxMin_pass share remainder (i + 1) ds ?r1 u') (cd_key d) = ?r1 (cd_key d)" for u'
      using Cons.prems(1) by (intro pass_frame) auto
    then have "mget (fst (maxMin_pass share remainder (i + 1) ds ?r1 u')) (cd_key d) =
        mget ?r1 (cd_key d)" for u' by (rule mget_cong)
    with 0 r1 show ?thesis by (simp add: fst_eq)
  next
    case (Suc m)
    have "ds ! m \<in> set ds" using Cons.prems(4) Suc by simp
    then have "cd_key (ds ! m) \<noteq> cd_key d" using Cons.prems(1) by (rule distinct_map_ConsD [rotated])
    moreover have "\<forall>d'\<in>set ds. mget ?r1 (cd_key d') \<le> cd_limit d'"
      using Cons.prems(3) distinct_map_ConsD [OF Cons.prems(1)] by (auto simp: r1)
    ultimately show ?thesis using Suc Cons.prems Cons.IH [of ?r1 m "i + 1"]
      by (simp add: fst_eq r1 ac_simps)
  qed
qed simp

lemma pass_next:
  assumes "distinct (map cd_key ds)"
  shows "snd (snd (maxMin_pass share remainder i ds r u)) =
    filter (\<lambda>d. mget (fst (maxMin_pass share remainder i ds r u)) (cd_key d) < cd_limit d) ds"
  using assms
proof (induction ds arbitrary: i r u)
  case (Cons d ds)
  have "fst (maxMin_pass share remainder (i + 1) ds r1 u') (cd_key d) = r1 (cd_key d)" for r1 u'
    using Cons.prems by (intro pass_frame) auto
  then have "mget (fst (maxMin_pass share remainder (i + 1) ds r1 u')) (cd_key d) =
      mget r1 (cd_key d)" for r1 u' by (rule mget_cong)
  with Cons show ?case by (simp add: maxMin_pass_Cons Let_def split_beta)
qed simp

lemma pass_used:
  assumes "distinct (map cd_key ds)"
  shows "fst (snd (maxMin_pass share remainder i ds r u)) =
    u + (\<Sum>d\<leftarrow>ds. mget (fst (maxMin_pass share remainder i ds r u)) (cd_key d) - mget r (cd_key d))"
  using assms
proof (induction ds arbitrary: i r u)
  case (Cons d ds)
  let ?r1 = "grant_one (pass_grant share remainder i) d r"
  let ?u1 = "u + (mget ?r1 (cd_key d) - mget r (cd_key d))"
  let ?p = "maxMin_pass share remainder (i + 1) ds ?r1 ?u1"
  have "fst ?p (cd_key d) = ?r1 (cd_key d)" using Cons.prems by (intro pass_frame) auto
  then have d: "mget (fst ?p) (cd_key d) = mget ?r1 (cd_key d)" by (rule mget_cong)
  have "mget ?r1 (cd_key e) = mget r (cd_key e)" if "e \<in> set ds" for e
    using that Cons.prems by (intro mget_cong grant_one_frame) (auto simp: image_iff)
  then have "(\<Sum>e\<leftarrow>ds. mget (fst ?p) (cd_key e) - mget ?r1 (cd_key e)) =
      (\<Sum>e\<leftarrow>ds. mget (fst ?p) (cd_key e) - mget r (cd_key e))"
    by (intro sum_list_cong_set) simp
  with d Cons.IH [of "i + 1" ?r1 ?u1] Cons.prems show ?case
    by (simp add: maxMin_pass_Cons Let_def split_beta)
qed simp

lemma sum_pass_grant:
  "n > 0 \<Longrightarrow> (\<Sum>j<n. pass_grant (pool div int n) (pool mod int n) (int j)) = pool"
proof -
  assume n: "n > 0"
  define q where "q = pool mod int n"
  have q: "0 \<le> q" "q < int n" using n by (simp_all add: q_def)
  have "(\<Sum>j<n. if int j < q then 1 else 0 :: int) = (\<Sum>j\<in>{..<nat q}. 1)"
    using q by (intro sum.mono_neutral_cong_right) auto
  then have "(\<Sum>j<n. if int j < q then 1 else 0 :: int) = q" using q by simp
  moreover have "(\<Sum>j<n. pass_grant (pool div int n) q (int j)) =
      (\<Sum>j<n. pool div int n + (if int j < q then 1 else 0))"
    by (intro sum.cong) (auto simp: pass_grant_def)
  ultimately show ?thesis by (simp add: sum.distrib q_def)
qed

section \<open>One round of the outer loop\<close>

text \<open>
  The state in which the outer loop runs: no key twice and no demand over its cap; after the
  first round, every active demand is strictly below its cap. A round moves every active demand
  up by its grant, cut at the cap.
\<close>

definition loop_wf :: "cpuDemand list \<Rightarrow> (string \<rightharpoonup> int) \<Rightarrow> bool" where
  "loop_wf active r \<longleftrightarrow> distinct (map cd_key active) \<and>
     (\<forall>d\<in>set active. mget r (cd_key d) \<le> cd_limit d)"

definition loop_ok :: "cpuDemand list \<Rightarrow> (string \<rightharpoonup> int) \<Rightarrow> bool" where
  "loop_ok active r \<longleftrightarrow> distinct (map cd_key active) \<and>
     (\<forall>d\<in>set active. mget r (cd_key d) < cd_limit d)"

definition round_of :: "int \<Rightarrow> cpuDemand list \<Rightarrow> (string \<rightharpoonup> int) \<Rightarrow>
    (string \<rightharpoonup> int) \<times> int \<times> cpuDemand list" where
  "round_of pool active r =
     maxMin_pass (pool div int (length active)) (pool mod int (length active)) 0 active r 0"

lemma loop_ok_wf: "loop_ok active r \<Longrightarrow> loop_wf active r"
  by (auto simp: loop_ok_def loop_wf_def less_imp_le)

lemma maxMin_loop_unfold:
  "maxMin_loop pool active r =
     (if pool > 0 \<and> active \<noteq> [] then
        (case round_of pool active r of (r', u, rest) \<Rightarrow>
           if u = 0 then r' else maxMin_loop (pool - u) rest r')
      else r)"
  by (subst maxMin_loop.simps) (simp add: round_of_def Let_def)

lemma round_facts:
  assumes wf: "loop_wf active r" and pool: "pool > 0" and ne: "active \<noteq> []"
    and rnd: "round_of pool active r = (r', u, rest)"
  shows round_mono: "\<And>d. d \<in> set active \<Longrightarrow>
      mget r (cd_key d) \<le> mget r' (cd_key d) \<and> mget r' (cd_key d) \<le> cd_limit d"
    and round_frame: "\<And>k. k \<notin> cd_key ` set active \<Longrightarrow> r' k = r k"
    and round_rest: "rest = filter (\<lambda>d. mget r' (cd_key d) < cd_limit d) active"
    and round_used: "u = (\<Sum>d\<leftarrow>active. mget r' (cd_key d) - mget r (cd_key d))"
    and round_fair: "\<And>d e. d \<in> set active \<Longrightarrow> e \<in> set active \<Longrightarrow>
      mget r' (cd_key e) < cd_limit e \<Longrightarrow>
      mget r' (cd_key d) - mget r (cd_key d) \<le> mget r' (cd_key e) - mget r (cd_key e) + 1"
    and round_pos: "loop_ok active r \<Longrightarrow> 0 < u" and round_le: "u \<le> pool"
    and round_share: "\<And>d. d \<in> set active \<Longrightarrow>
      min (mget r (cd_key d) + pool div int (length active)) (cd_limit d) \<le> mget r' (cd_key d)"
    and round_exhausts: "(\<forall>d\<in>set active. mget r' (cd_key d) < cd_limit d) \<Longrightarrow> u = pool"
proof -
  let ?n = "length active"
  define share where "share = pool div int ?n"
  define q where "q = pool mod int ?n"
  define g where "g j = pass_grant share q (int j)" for j :: nat
  define \<delta> where "\<delta> d = mget r' (cd_key d) - mget r (cd_key d)" for d :: cpuDemand
  have n: "?n > 0" using ne by simp
  have share: "0 \<le> share" using pool n by (simp add: share_def pos_imp_zdiv_nonneg_iff)
  have dist: "distinct (map cd_key active)" and below: "\<forall>d\<in>set active. mget r (cd_key d) \<le> cd_limit d"
    using wf by (simp_all add: loop_wf_def)
  have p: "maxMin_pass share q 0 active r 0 = (r', u, rest)"
    using rnd by (simp add: round_of_def share_def q_def)
  have r': "mget r' (cd_key (active ! j)) =
      min (mget r (cd_key (active ! j)) + g j) (cd_limit (active ! j))" if "j < ?n" for j
    using pass_alloc [OF dist share _ that, of r q 0 0] below p by (auto simp: g_def)
  have g0: "0 \<le> g j" for j using share by (simp add: g_def pass_grant_nonneg)
  have gdiff: "g i \<le> g j + 1" for i j by (simp add: g_def pass_grant_def)
  have gshare: "share \<le> g j" for j by (simp add: g_def pass_grant_def)
  show "min (mget r (cd_key d) + pool div int ?n) (cd_limit d) \<le> mget r' (cd_key d)"
    if d: "d \<in> set active" for d
  proof -
    obtain i where "i < ?n" "d = active ! i" using d by (metis in_set_conv_nth)
    with r' [of i] gshare [of i] show ?thesis by (simp add: share_def)
  qed
  show frame: "\<And>k. k \<notin> cd_key ` set active \<Longrightarrow> r' k = r k"
    using pass_frame [of _ active share q 0 r 0] p by simp
  show mono: "\<And>d. d \<in> set active \<Longrightarrow>
      mget r (cd_key d) \<le> mget r' (cd_key d) \<and> mget r' (cd_key d) \<le> cd_limit d"
    using r' g0 below by (metis in_set_conv_nth le_add_same_cancel1 min.cobounded2 min.boundedI)
  show "rest = filter (\<lambda>d. mget r' (cd_key d) < cd_limit d) active"
    using pass_next [OF dist, of share q 0 r 0] p by simp
  show used: "u = (\<Sum>d\<leftarrow>active. mget r' (cd_key d) - mget r (cd_key d))"
    using pass_used [OF dist, of share q 0 r 0] p by simp
  have idx: "(\<Sum>d\<leftarrow>active. \<delta> d) = (\<Sum>j<?n. \<delta> (active ! j))"
    by (simp add: sum_list_sum_nth atLeast0LessThan)
  have sumg: "(\<Sum>j<?n. g j) = pool" using sum_pass_grant [OF n] by (simp add: g_def share_def q_def)
  have le: "\<delta> (active ! j) \<le> g j" if "j < ?n" for j using r' [OF that] by (simp add: \<delta>_def)
  have eq: "\<delta> (active ! j) = g j"
    if "j < ?n" "mget r' (cd_key (active ! j)) < cd_limit (active ! j)" for j
    using r' [OF that(1)] that(2) by (simp add: \<delta>_def)
  show "u \<le> pool"
    using idx sumg used le by (simp add: \<delta>_def) (metis (no_types, lifting) lessThan_iff sum_mono)
  show "u = pool" if "\<forall>d\<in>set active. mget r' (cd_key d) < cd_limit d"
    using idx sumg used eq that by (simp add: \<delta>_def)
  show "mget r' (cd_key d) - mget r (cd_key d) \<le> mget r' (cd_key e) - mget r (cd_key e) + 1"
    if de: "d \<in> set active" "e \<in> set active" "mget r' (cd_key e) < cd_limit e" for d e
  proof -
    obtain i j where "i < ?n" "d = active ! i" "j < ?n" "e = active ! j"
      using de(1,2) by (metis in_set_conv_nth)
    with le [of i] eq [of j] gdiff [of i j] de(3) show ?thesis by (simp add: \<delta>_def)
  qed
  have "1 \<le> g 0"
  proof (cases "share = 0")
    case True
    then have "q = pool" using pool n by (simp add: q_def share_def)
        (metis add_0 mult_zero_right div_mult_mod_eq mult.commute)
    with pool True show ?thesis by (simp add: g_def pass_grant_def)
  qed (use share in \<open>simp add: g_def pass_grant_def\<close>)
  moreover have "\<delta> (active ! 0) \<le> (\<Sum>d\<leftarrow>active. \<delta> d)"
    using mono n by (intro member_le_sum_list_map) (auto simp: \<delta>_def)
  moreover assume "loop_ok active r"
  then have "mget r (cd_key (active ! 0)) < cd_limit (active ! 0)" using n by (simp add: loop_ok_def)
  ultimately show "0 < u" using used r' [OF n] by (simp add: \<delta>_def)
qed

section \<open>The whole max-min loop\<close>

lemma loop_ok_rest:
  assumes "loop_wf active r" and "pool > 0" and "active \<noteq> []"
    and "round_of pool active r = (r', u, rest)"
  shows "loop_ok rest r'"
  using assms(1) by (auto simp: loop_ok_def loop_wf_def round_rest [OF assms] distinct_map_filter)

lemma maxMin_loop_rule [consumes 1, case_names stop round]:
  assumes "loop_ok active r"
    and "\<And>pool active r. loop_wf active r \<Longrightarrow> \<not> (pool > 0 \<and> active \<noteq> []) \<Longrightarrow>
      P pool active r r"
    and "\<And>pool active r r' u rest. loop_wf active r \<Longrightarrow> pool > 0 \<Longrightarrow> active \<noteq> [] \<Longrightarrow>
      round_of pool active r = (r', u, rest) \<Longrightarrow>
      P (pool - u) rest r' (maxMin_loop (pool - u) rest r') \<Longrightarrow>
      loop_ok rest r' \<Longrightarrow> P pool active r (maxMin_loop (pool - u) rest r')"
  shows "P pool active r (maxMin_loop pool active r)"
  using assms(1)
proof (induction "nat pool" arbitrary: pool active r rule: less_induct)
  case less
  show ?case
  proof (cases "pool > 0 \<and> active \<noteq> []")
    case True
    obtain r' u rest where rnd: "round_of pool active r = (r', u, rest)" by (metis prod_cases3)
    have u: "0 < u" and ok: "loop_ok rest r'"
      using True less.prems rnd loop_ok_wf by (auto intro: round_pos loop_ok_rest)
    then have "P (pool - u) rest r' (maxMin_loop (pool - u) rest r')"
      using True by (intro less.hyps) auto
    then have "P pool active r (maxMin_loop (pool - u) rest r')"
      using True less.prems rnd ok loop_ok_wf by (intro assms(3)) auto
    with True rnd u show ?thesis by (simp add: maxMin_loop_unfold [of pool])
  next
    case False
    then show ?thesis using assms(2) less.prems loop_ok_wf
      by (auto simp: maxMin_loop_unfold [of pool])
  qed
qed

lemma loop_frame:
  assumes "loop_ok active r"
  shows "k \<notin> cd_key ` set active \<longrightarrow> maxMin_loop pool active r k = r k"
  using assms
proof (induction rule: maxMin_loop_rule
    [where P = "\<lambda>pool active r res. k \<notin> cd_key ` set active \<longrightarrow> res k = r k"])
  case (round pool active r r' u rest)
  then show ?case by (auto simp: round_frame [OF round(1-4)] round_rest [OF round(1-4)])
qed simp

lemma loop_unsaturated_frame:
  assumes "loop_wf active r" and "round_of pool active r = (r', u, rest)"
    and "pool > 0" and "active \<noteq> []" and "d \<in> set active" and "d \<notin> set rest"
  shows "maxMin_loop p rest r' (cd_key d) = r' (cd_key d)" and "mget r' (cd_key d) = cd_limit d"
proof -
  note facts = assms(1,3,4,2)
  have d: "\<not> mget r' (cd_key d) < cd_limit d"
    using assms(5,6) by (auto simp: round_rest [OF facts])
  have "cd_key d \<notin> cd_key ` set rest"
    using assms(1,5,6) by (auto simp: loop_wf_def distinct_map inj_on_def round_rest [OF facts])
  then show "maxMin_loop p rest r' (cd_key d) = r' (cd_key d)"
    using loop_frame loop_ok_rest [OF facts] by blast
  show "mget r' (cd_key d) = cd_limit d" using round_mono [OF facts assms(5)] d by simp
qed

lemma loop_bounds:
  assumes "loop_ok active r"
  shows "\<forall>d\<in>set active. mget r (cd_key d) \<le> mget (maxMin_loop pool active r) (cd_key d) \<and>
    mget (maxMin_loop pool active r) (cd_key d) \<le> cd_limit d"
  using assms
proof (induction rule: maxMin_loop_rule [where P = "\<lambda>pool active r res. \<forall>d\<in>set active.
    mget r (cd_key d) \<le> mget res (cd_key d) \<and> mget res (cd_key d) \<le> cd_limit d"])
  case (round pool active r r' u rest)
  note facts = round(1-4)
  show ?case
  proof (intro ballI)
    fix d assume d: "d \<in> set active"
    show "mget r (cd_key d) \<le> mget (maxMin_loop (pool - u) rest r') (cd_key d) \<and>
      mget (maxMin_loop (pool - u) rest r') (cd_key d) \<le> cd_limit d"
    proof (cases "d \<in> set rest")
      case True
      with round round_mono [OF facts d] show ?thesis by fastforce
    next
      case False
      then have "mget (maxMin_loop (pool - u) rest r') (cd_key d) = mget r' (cd_key d)"
        using loop_unsaturated_frame(1) [OF facts(1,4,2,3) d] by (intro mget_cong)
      with round_mono [OF facts d] show ?thesis by simp
    qed
  qed
qed (auto simp: loop_wf_def)

lemma sum_split_rest:
  assumes "loop_wf active r" and "pool > 0" and "active \<noteq> []"
    and "round_of pool active r = (r', u, rest)"
  shows "(\<Sum>d\<leftarrow>active. f (mget (maxMin_loop p rest r') (cd_key d)) d) =
    (\<Sum>d\<leftarrow>rest. f (mget (maxMin_loop p rest r') (cd_key d)) d) +
    (\<Sum>d\<leftarrow>filter (\<lambda>d. \<not> mget r' (cd_key d) < cd_limit d) active. (f (cd_limit d) d :: int))"
proof -
  let ?S = "\<lambda>d. mget r' (cd_key d) < cd_limit d"
  have "mget (maxMin_loop p rest r') (cd_key d) = cd_limit d" if "d \<in> set active" "\<not> ?S d" for d
    using loop_unsaturated_frame(1) [OF assms(1,4,2,3) that(1), of p]
      loop_unsaturated_frame(2) [OF assms(1,4,2,3) that(1)] that(2)
    by (auto simp: round_rest [OF assms] mget_def)
  then have "(\<Sum>d\<leftarrow>filter (\<lambda>d. \<not> ?S d) active. f (mget (maxMin_loop p rest r') (cd_key d)) d) =
      (\<Sum>d\<leftarrow>filter (\<lambda>d. \<not> ?S d) active. f (cd_limit d) d)"
    by (intro sum_list_cong_set) auto
  then show ?thesis
    by (subst sum_list_filter_split [of _ active ?S]) (simp add: round_rest [OF assms])
qed

lemma loop_sum:
  assumes "loop_ok active r"
  shows "(\<Sum>d\<leftarrow>active. mget (maxMin_loop pool active r) (cd_key d) - mget r (cd_key d)) =
    min (max pool 0) (\<Sum>d\<leftarrow>active. cd_limit d - mget r (cd_key d))"
  using assms
proof (induction rule: maxMin_loop_rule [where P = "\<lambda>pool active r res.
    (\<Sum>d\<leftarrow>active. mget res (cd_key d) - mget r (cd_key d)) =
      min (max pool 0) (\<Sum>d\<leftarrow>active. cd_limit d - mget r (cd_key d))"])
  case (stop pool active r)
  have "0 \<le> (\<Sum>d\<leftarrow>active. cd_limit d - mget r (cd_key d))"
    using stop(1) by (intro sum_list_nonneg_map) (simp add: loop_wf_def)
  with stop show ?case by auto
next
  case (round pool active r r' u rest)
  note facts = round(1-4)
  let ?res = "maxMin_loop (pool - u) rest r'"
  let ?L = "\<lambda>ds f. \<Sum>d\<leftarrow>ds. (f d :: int)"
  let ?sat = "filter (\<lambda>d. \<not> mget r' (cd_key d) < cd_limit d) active"
  have u: "u = ?L active (\<lambda>d. mget r' (cd_key d)) - ?L active (\<lambda>d. mget r (cd_key d))"
    using round_used [OF facts] by (simp add: sum_list_diff)
  have res: "?L active (\<lambda>d. mget ?res (cd_key d)) = ?L rest (\<lambda>d. mget ?res (cd_key d)) + ?L ?sat cd_limit"
    using sum_split_rest [OF facts, of "\<lambda>x d. x"] by simp
  have lim: "?L active cd_limit = ?L rest cd_limit + ?L ?sat cd_limit"
    by (subst sum_list_filter_split [of _ active "\<lambda>d. mget r' (cd_key d) < cd_limit d"])
      (simp add: round_rest [OF facts])
  have "?L ?sat (\<lambda>d. mget r' (cd_key d)) = ?L ?sat cd_limit"
    using round_mono [OF facts] by (intro sum_list_cong_set) force
  then have r': "?L active (\<lambda>d. mget r' (cd_key d)) = ?L rest (\<lambda>d. mget r' (cd_key d)) + ?L ?sat cd_limit"
    by (subst sum_list_filter_split [of _ active "\<lambda>d. mget r' (cd_key d) < cd_limit d"])
      (simp add: round_rest [OF facts])
  have "?L rest (\<lambda>d. mget ?res (cd_key d)) - ?L rest (\<lambda>d. mget r' (cd_key d)) =
      min (pool - u) (?L rest cd_limit - ?L rest (\<lambda>d. mget r' (cd_key d)))"
    using round(5,6) round_le [OF facts] by (simp add: sum_list_diff)
  with u res lim r' facts(2) show ?case by (simp add: sum_list_diff)
qed

lemma saturated_count:
  assumes "loop_wf active r" and "pool > 0" and "active \<noteq> []"
    and "round_of pool active r = (r', u, rest)" and "set rest \<noteq> set active"
  shows "length (filter (\<lambda>c. mget (maxMin_loop p rest r') (cd_key c) = cd_limit c) rest) <
    length (filter (\<lambda>c. mget (maxMin_loop p rest r') (cd_key c) = cd_limit c) active)"
proof -
  let ?below = "\<lambda>c. mget r' (cd_key c) < cd_limit c"
  let ?sat = "\<lambda>c. mget (maxMin_loop p rest r') (cd_key c) = cd_limit c"
  note facts = assms(1-4)
  obtain c where c: "c \<in> set active" "\<not> ?below c"
    using assms(5) by (auto simp: round_rest [OF facts])
  then have "c \<notin> set rest" by (simp add: round_rest [OF facts])
  then have "?sat c"
    using loop_unsaturated_frame(1) [OF facts(1,4,2,3) c(1), of p]
      loop_unsaturated_frame(2) [OF facts(1,4,2,3) c(1)] by (simp add: mget_def)
  then have "filter ?sat (filter (\<lambda>c. \<not> ?below c) active) \<noteq> []"
    using c by (auto simp: filter_empty_conv)
  moreover have "length (filter ?sat active) =
      length (filter ?sat rest) + length (filter ?sat (filter (\<lambda>c. \<not> ?below c) active))"
    by (subst length_filter_split [of "filter ?sat active" ?below])
      (simp add: round_rest [OF facts] conj_commute)
  ultimately show ?thesis by simp
qed

lemma loop_fair:
  assumes "loop_ok active r"
  shows "\<forall>d\<in>set active. \<forall>e\<in>set active.
    mget (maxMin_loop pool active r) (cd_key e) < cd_limit e \<longrightarrow>
    mget (maxMin_loop pool active r) (cd_key d) - mget r (cd_key d) \<le>
    mget (maxMin_loop pool active r) (cd_key e) - mget r (cd_key e) + 1 +
      int (length (filter (\<lambda>c. mget (maxMin_loop pool active r) (cd_key c) = cd_limit c) active))"
  using assms
proof (induction rule: maxMin_loop_rule [where P = "\<lambda>pool active r res.
    \<forall>d\<in>set active. \<forall>e\<in>set active. mget res (cd_key e) < cd_limit e \<longrightarrow>
    mget res (cd_key d) - mget r (cd_key d) \<le> mget res (cd_key e) - mget r (cd_key e) + 1 +
      int (length (filter (\<lambda>c. mget res (cd_key c) = cd_limit c) active))"])
  case (round pool active r r' u rest)
  note facts = round(1-4)
  let ?res = "maxMin_loop (pool - u) rest r'"
  let ?sat = "\<lambda>c. mget ?res (cd_key c) = cd_limit c"
  have out: "mget ?res (cd_key c) = mget r' (cd_key c)" "?sat c" if "c \<in> set active" "c \<notin> set rest" for c
    using loop_unsaturated_frame(1) [OF facts(1,4,2,3) that, of "pool - u"]
      loop_unsaturated_frame(2) [OF facts(1,4,2,3) that] by (simp_all add: mget_def)
  have grow: "mget r' (cd_key c) \<le> mget ?res (cd_key c)" if "c \<in> set active" for c
    using that loop_bounds [OF round(6)] out(1) by (cases "c \<in> set rest") auto
  show ?case
  proof (intro ballI impI)
    fix d e assume d: "d \<in> set active" and e: "e \<in> set active" and low: "mget ?res (cd_key e) < cd_limit e"
    have e_rest: "e \<in> set rest" using e low out(2) by fastforce
    have one: "mget r' (cd_key d) - mget r (cd_key d) \<le> mget r' (cd_key e) - mget r (cd_key e) + 1"
      using d e low grow [OF e] by (intro round_fair [OF facts]) auto
    show "mget ?res (cd_key d) - mget r (cd_key d) \<le> mget ?res (cd_key e) - mget r (cd_key e) + 1 +
        int (length (filter ?sat active))"
    proof (cases "d \<in> set rest")
      case False
      with one out(1) [OF d] grow [OF e] show ?thesis by simp
    next
      case d_rest: True
      show ?thesis
      proof (cases "set rest = set active")
        case True
        then have "u = pool" using round_rest [OF facts] by (intro round_exhausts [OF facts]) auto
        then have "?res = r'" by (simp add: maxMin_loop_unfold [of 0])
        with one show ?thesis by simp
      next
        case False
        then have "length (filter ?sat rest) < length (filter ?sat active)"
          by (rule saturated_count [OF facts])
        with one round(5) d_rest e_rest low show ?thesis by fastforce
      qed
    qed
  qed
qed auto

section \<open>Properties of maxMinCPU\<close>

lemma loop_wf_start:
  "distinct (map cd_key ds) \<Longrightarrow> \<forall>d\<in>set ds. 0 \<le> cd_limit d \<Longrightarrow> loop_wf (sort_key cd_key ds) Map.empty"
  by (simp add: loop_wf_def)

lemma loop_ok_start:
  "distinct (map cd_key ds) \<Longrightarrow> \<forall>d\<in>set ds. 0 < cd_limit d \<Longrightarrow> loop_ok (sort_key cd_key ds) Map.empty"
  by (simp add: loop_ok_def)

text \<open>
  With zero caps among the demands the first pass may grant nothing and end the loop, so only the
  safe direction holds: no demand exceeds its cap and the grants stay within the pool.
\<close>

lemma maxMinCPU_safe:
  assumes "distinct (map cd_key ds)" and "\<forall>d\<in>set ds. 0 \<le> cd_limit d" and "0 \<le> pool"
  shows "\<forall>d\<in>set ds. 0 \<le> mget (maxMinCPU pool ds) (cd_key d) \<and>
      mget (maxMinCPU pool ds) (cd_key d) \<le> cd_limit d" (is ?bounds)
    and "(\<Sum>d\<leftarrow>ds. mget (maxMinCPU pool ds) (cd_key d)) \<le> pool" (is ?sum)
    and "k \<notin> cd_key ` set ds \<Longrightarrow> maxMinCPU pool ds k = None"
proof -
  let ?as = "sort_key cd_key ds"
  have wf: "loop_wf ?as Map.empty" using assms(1,2) by (rule loop_wf_start)
  have "?bounds \<and> ?sum \<and> (k \<notin> cd_key ` set ds \<longrightarrow> maxMinCPU pool ds k = None)"
  proof (cases "pool > 0 \<and> ?as \<noteq> []")
    case False
    then have "maxMinCPU pool ds = Map.empty" by (auto simp: maxMinCPU_def maxMin_loop_unfold)
    with assms show ?thesis by simp
  next
    case True
    obtain r u rest where rnd: "round_of pool ?as Map.empty = (r, u, rest)" by (metis prod_cases3)
    note facts = wf conjunct1 [OF True] conjunct2 [OF True] rnd
    have ok: "loop_ok rest r" by (rule loop_ok_rest [OF facts])
    define res where "res = maxMin_loop (pool - u) rest r"
    have m: "maxMinCPU pool ds = (if u = 0 then r else res)"
      using True rnd by (simp add: maxMinCPU_def maxMin_loop_unfold [of pool] res_def)
    have out: "mget res (cd_key d) = mget r (cd_key d)" if "d \<in> set ds" "d \<notin> set rest" for d
      using loop_unsaturated_frame(1) [OF facts(1,4,2,3), of d "pool - u"] that
      by (simp add: res_def mget_def)
    have b: "0 \<le> mget r (cd_key d)" "mget r (cd_key d) \<le> cd_limit d"
      "mget r (cd_key d) \<le> mget res (cd_key d)" "mget res (cd_key d) \<le> cd_limit d" if "d \<in> set ds" for d
      using round_mono [OF facts, of d] loop_bounds [OF ok, of "pool - u"] out that
      by (cases "d \<in> set rest"; auto simp: res_def)+
    have ur: "u = (\<Sum>d\<leftarrow>ds. mget r (cd_key d))"
      using round_used [OF facts] by simp
    let ?\<delta> = "\<lambda>d. mget res (cd_key d) - mget r (cd_key d)"
    let ?below = "\<lambda>d. mget r (cd_key d) < cd_limit d"
    have "(\<Sum>d\<leftarrow>filter (\<lambda>d. \<not> ?below d) ?as. ?\<delta> d) = (\<Sum>d\<leftarrow>filter (\<lambda>d. \<not> ?below d) ?as. 0)"
      using out by (intro sum_list_cong_set) (auto simp: round_rest [OF facts])
    then have "(\<Sum>d\<leftarrow>?as. ?\<delta> d) = (\<Sum>d\<leftarrow>rest. ?\<delta> d)"
      by (subst sum_list_filter_split [of _ ?as ?below]) (simp add: round_rest [OF facts])
    also have "\<dots> \<le> pool - u"
      using loop_sum [OF ok, of "pool - u"] round_le [OF facts] by (simp add: res_def)
    finally have "(\<Sum>d\<leftarrow>ds. mget res (cd_key d)) \<le> pool" using ur by (simp add: sum_list_diff)
    moreover have "res k = None" "r k = None" if "k \<notin> cd_key ` set ds"
    proof -
      show r: "r k = None" using round_frame [OF facts, of k] that by simp
      have "k \<notin> cd_key ` set rest" using that by (auto simp: round_rest [OF facts])
      then show "res k = None" using loop_frame [OF ok] r by (simp add: res_def)
    qed
    ultimately show ?thesis using b ur round_le [OF facts] by (auto simp: m) (meson order.trans)+
  qed
  then show ?bounds and ?sum and "k \<notin> cd_key ` set ds \<Longrightarrow> maxMinCPU pool ds k = None" by auto
qed

text \<open>
  A demand gets no entry in the result only when the pool is smaller than the number of demands.
\<close>

lemma maxMinCPU_share:
  assumes "distinct (map cd_key ds)" and "\<forall>d\<in>set ds. 0 \<le> cd_limit d" and "int (length ds) \<le> pool"
    and d: "d \<in> set ds"
  shows "min 1 (cd_limit d) \<le> mget (maxMinCPU pool ds) (cd_key d)"
proof -
  let ?as = "sort_key cd_key ds"
  have len: "0 < int (length ds)" using d by (cases ds) auto
  have pool: "pool > 0" using assms(3) len by linarith
  have ne: "?as \<noteq> []" using d by (metis length_pos_if_in_set length_sort less_nat_zero_code list.size(3))
  have wf: "loop_wf ?as Map.empty" using assms(1,2) by (rule loop_wf_start)
  obtain r u rest where rnd: "round_of pool ?as Map.empty = (r, u, rest)" by (metis prod_cases3)
  note facts = wf pool ne rnd
  have "1 \<le> pool div int (length ds)"
    using assms(3) len by (metis div_self less_irrefl zdiv_mono1)
  then have first: "min 1 (cd_limit d) \<le> mget r (cd_key d)"
    using round_share [OF facts, of d] d by (auto simp: min_def split: if_splits)
  have "mget r (cd_key d) \<le> mget (maxMin_loop (pool - u) rest r) (cd_key d)"
  proof (cases "d \<in> set rest")
    case True
    then show ?thesis using loop_bounds [OF loop_ok_rest [OF facts]] by blast
  next
    case False
    then have "mget (maxMin_loop (pool - u) rest r) (cd_key d) = mget r (cd_key d)"
      using loop_unsaturated_frame(1) [OF wf rnd pool ne, of d] d by (simp add: mget_def)
    then show ?thesis by simp
  qed
  with first show ?thesis using rnd pool ne by (simp add: maxMinCPU_def maxMin_loop_unfold [of pool])
qed



text \<open>
  C18. \<open>maxMinCPU\<close> is max-min fair up to rounding: if a demand is left below its cap, no other
  demand gets more than it by more than one millicore plus one per saturated demand.
\<close>

theorem maxMinCPU_fair:
  assumes "distinct (map cd_key ds)" and "\<forall>d\<in>set ds. 0 < cd_limit d"
    and "d \<in> set ds" and "e \<in> set ds" and "mget (maxMinCPU pool ds) (cd_key e) < cd_limit e"
  shows "mget (maxMinCPU pool ds) (cd_key d) \<le> mget (maxMinCPU pool ds) (cd_key e) + 1 +
    int (length (filter (\<lambda>c. mget (maxMinCPU pool ds) (cd_key c) = cd_limit c) ds))"
  using loop_fair [OF loop_ok_start [OF assms(1,2)], of pool] assms(3-5)
  by (simp add: maxMinCPU_def filter_sort)

theorem maxMinCPU_fair_witness:
  "mget (maxMinCPU 3 [\<lparr>cd_key = ''a'', cd_limit = 10\<rparr>, \<lparr>cd_key = ''b'', cd_limit = 10\<rparr>]) ''a'' \<le>
   mget (maxMinCPU 3 [\<lparr>cd_key = ''a'', cd_limit = 10\<rparr>, \<lparr>cd_key = ''b'', cd_limit = 10\<rparr>]) ''b'' + 1"
proof -
  let ?ds = "[\<lparr>cd_key = ''a'', cd_limit = 10\<rparr>, \<lparr>cd_key = ''b'', cd_limit = 10\<rparr>] :: cpuDemand list"
  have "mget (maxMinCPU 3 ?ds) ''a'' = 2" and "mget (maxMinCPU 3 ?ds) ''b'' = 1"
    by code_simp+
  then show ?thesis
    using maxMinCPU_fair [of ?ds "?ds ! 0" "?ds ! 1" 3] by simp
qed

text \<open>
  Two concrete runs of \<open>maxMinCPU\<close> that fall short of max-min allocation: the remainders of successive rounds all go to
  the first key, so two demands with equal caps can end two millicores apart; and a zero cap in
  front of the others can absorb the whole remainder of a small pool, which is then not handed out.
\<close>

theorem maxMinCPU_rounding:
  "map (mget (maxMinCPU 7 [\<lparr>cd_key = ''a'', cd_limit = 10\<rparr>, \<lparr>cd_key = ''b'', cd_limit = 10\<rparr>,
      \<lparr>cd_key = ''c'', cd_limit = 1\<rparr>])) [''a'', ''b'', ''c''] = [4, 2, 1] \<and>
   mget (maxMinCPU 1 [\<lparr>cd_key = ''a'', cd_limit = 0\<rparr>, \<lparr>cd_key = ''b'', cd_limit = 5\<rparr>]) ''b'' = 0"
  by code_simp

section \<open>Topping up\<close>

lemma topup_one_room:
  "\<exists>s\<in>set ss. mget r (ps_key s) < ps_capacity s \<Longrightarrow>
   \<exists>s\<in>set ss. mget r (ps_key s) < ps_capacity s \<and>
     topup_one ss r = r(ps_key s \<mapsto> mget r (ps_key s) + 1)"
  by (induction ss) auto

lemma topup_one_dom: "dom r \<subseteq> ps_key ` set ss \<Longrightarrow> dom (topup_one ss r) \<subseteq> ps_key ` set ss"
proof -
  have "dom (topup_one ts r) \<subseteq> dom r \<union> ps_key ` set ts" for ts by (induction ts) auto
  then show "dom r \<subseteq> ps_key ` set ss \<Longrightarrow> dom (topup_one ss r) \<subseteq> ps_key ` set ss" by blast
qed

lemma topup_dom: "dom r \<subseteq> ps_key ` set ss \<Longrightarrow> dom (topup n ss r) \<subseteq> ps_key ` set ss"
  by (induction n arbitrary: r) (simp_all add: topup_one_dom)

definition shares_ok :: "proportionalShare list \<Rightarrow> (string \<rightharpoonup> int) \<Rightarrow> bool" where
  "shares_ok ss r \<longleftrightarrow> distinct (map ps_key ss) \<and> (\<forall>s\<in>set ss. mget r (ps_key s) \<le> ps_capacity s)"

lemma topup_one_step:
  assumes ok: "shares_ok ss r"
    and less: "(\<Sum>s\<leftarrow>ss. mget r (ps_key s)) < (\<Sum>s\<leftarrow>ss. ps_capacity s)"
  shows "shares_ok ss (topup_one ss r)"
    and "(\<Sum>s\<leftarrow>ss. mget (topup_one ss r) (ps_key s)) = (\<Sum>s\<leftarrow>ss. mget r (ps_key s)) + 1"
    and "\<forall>k. mget r k \<le> mget (topup_one ss r) k \<and> mget (topup_one ss r) k \<le> mget r k + 1"
proof -
  have "\<exists>s\<in>set ss. mget r (ps_key s) < ps_capacity s" using less by (rule sum_list_less_ex)
  then obtain s where s: "s \<in> set ss" "mget r (ps_key s) < ps_capacity s"
    and eq: "topup_one ss r = r(ps_key s \<mapsto> mget r (ps_key s) + 1)" using topup_one_room by blast
  have d: "distinct (map ps_key ss)" using ok by (simp add: shares_ok_def)
  have "ps_capacity t = ps_capacity s" if "t \<in> set ss" "ps_key t = ps_key s" for t
    using d s(1) that by (auto simp: distinct_map inj_on_def)
  then show "shares_ok ss (topup_one ss r)" using ok s(2) by (fastforce simp: shares_ok_def eq)
  show "(\<Sum>s\<leftarrow>ss. mget (topup_one ss r) (ps_key s)) = (\<Sum>s\<leftarrow>ss. mget r (ps_key s)) + 1"
    using sum_list_upd_key [OF d s(1), of "mget r (ps_key s) + 1" "mget r"] by (simp add: eq)
  show "\<forall>k. mget r k \<le> mget (topup_one ss r) k \<and> mget (topup_one ss r) k \<le> mget r k + 1"
    by (simp add: eq)
qed

lemma topup_spec:
  assumes "shares_ok ss r"
    and "(\<Sum>s\<leftarrow>ss. mget r (ps_key s)) + int n \<le> (\<Sum>s\<leftarrow>ss. ps_capacity s)"
  shows "shares_ok ss (topup n ss r) \<and>
    (\<Sum>s\<leftarrow>ss. mget (topup n ss r) (ps_key s)) = (\<Sum>s\<leftarrow>ss. mget r (ps_key s)) + int n \<and>
    (\<forall>k. mget r k \<le> mget (topup n ss r) k \<and> mget (topup n ss r) k \<le> mget r k + int n)"
  using assms
proof (induction n arbitrary: r)
  case (Suc n)
  have less: "(\<Sum>s\<leftarrow>ss. mget r (ps_key s)) < (\<Sum>s\<leftarrow>ss. ps_capacity s)" using Suc.prems(2) by simp
  note step = topup_one_step [OF Suc.prems(1) less]
  have le: "(\<Sum>s\<leftarrow>ss. mget (topup_one ss r) (ps_key s)) + int n \<le> (\<Sum>s\<leftarrow>ss. ps_capacity s)"
    using step(2) Suc.prems(2) by simp
  from Suc.IH [OF step(1) le] step(2,3) show ?case by simp (smt (verit, best))
qed simp

section \<open>Properties of proportionalCPU\<close>

definition positive_caps :: "(string \<times> int) list \<Rightarrow> (string \<times> int) list" where
  "positive_caps caps = filter (\<lambda>kc. snd kc > 0) caps"

definition cap_total :: "(string \<times> int) list \<Rightarrow> int" where
  "cap_total caps = (\<Sum>kc\<leftarrow>positive_caps caps. snd kc)"

text \<open>Integer division over a sum: the floors fall short of the whole by less than one per term.\<close>

lemma sum_floor_bounds:
  fixes f :: "'a \<Rightarrow> int"
  assumes "S > 0" and "xs \<noteq> []"
  shows "(\<Sum>x\<leftarrow>xs. f x div S) * S \<le> (\<Sum>x\<leftarrow>xs. f x)"
    and "(\<Sum>x\<leftarrow>xs. f x) < (\<Sum>x\<leftarrow>xs. f x div S) * S + int (length xs) * S"
proof -
  have 1: "f x div S * S \<le> f x" "f x < f x div S * S + S" for x
    using assms(1) by (simp_all add: minus_mod_eq_div_mult [symmetric])
  have le: "(\<Sum>x\<leftarrow>ys. f x div S) * S \<le> (\<Sum>x\<leftarrow>ys. f x)" for ys
    using 1(1) by (induction ys) (auto simp: distrib_right intro: add_mono)
  then show "(\<Sum>x\<leftarrow>xs. f x div S) * S \<le> (\<Sum>x\<leftarrow>xs. f x)" .
  have "(\<Sum>x\<leftarrow>ys. f x) \<le> (\<Sum>x\<leftarrow>ys. f x div S) * S + int (length ys) * S" for ys
  proof (induction ys)
    case (Cons y ys)
    with 1(2) [of y] show ?case by (simp add: distrib_right)
  qed simp
  moreover obtain y ys where "xs = y # ys" using assms(2) by (cases xs) auto
  ultimately show "(\<Sum>x\<leftarrow>xs. f x) < (\<Sum>x\<leftarrow>xs. f x div S) * S + int (length xs) * S"
    using 1(2) [of y] by (simp add: distrib_right) (smt (verit, best))
qed

text \<open>
  The state before the top-up loop, when no product overflows: every share holds the floor of its
  proportional part, within its capacity, and what remains is less than the number of shares.
\<close>

definition prop_pre :: "int \<Rightarrow> (string \<times> int) list \<Rightarrow> bool" where
  "prop_pre amount caps \<longleftrightarrow> distinct (map fst caps) \<and> 0 < amount \<and> amount \<le> cap_total caps \<and>
     cap_total caps * cap_total caps < 2 ^ 63"

definition prop_floor :: "int \<Rightarrow> (string \<times> int) list \<Rightarrow> int \<Rightarrow> int" where
  "prop_floor amount caps c = amount * c div cap_total caps"

definition prop_shares :: "int \<Rightarrow> (string \<times> int) list \<Rightarrow> proportionalShare list" where
  "prop_shares amount caps = map (make_share amount (cap_total caps)) (positive_caps caps)"

definition prop_start :: "int \<Rightarrow> (string \<times> int) list \<Rightarrow> (string \<rightharpoonup> int)" where
  "prop_start amount caps = map_of (map (\<lambda>s. (ps_key s, ps_allocated s)) (prop_shares amount caps))"

lemma cap_le_total:
  "kc \<in> set (positive_caps caps) \<Longrightarrow> 0 < snd kc \<and> snd kc \<le> cap_total caps"
  using member_le_sum_list_map [of kc "positive_caps caps" snd]
  by (auto simp: cap_total_def positive_caps_def less_imp_le)

lemma cap_total_in64:
  assumes "prop_pre amount caps"
  shows "0 < cap_total caps" and "cap_total caps < 2 ^ 63" and "in64 (cap_total caps)"
proof -
  show pos: "0 < cap_total caps" using assms by (simp add: prop_pre_def)
  then have "cap_total caps \<le> cap_total caps * cap_total caps" by simp
  also have "\<dots> < 2 ^ 63" using assms by (simp add: prop_pre_def)
  finally show "cap_total caps < 2 ^ 63" .
  with pos show "in64 (cap_total caps)" by (simp add: in64_def)
qed

lemma make_share_exact:
  assumes pre: "prop_pre amount caps" and kc: "kc \<in> set (positive_caps caps)"
  shows "make_share amount (cap_total caps) kc = \<lparr>ps_key = fst kc, ps_capacity = snd kc,
    ps_allocated = prop_floor amount caps (snd kc), ps_remainder = amount * snd kc mod cap_total caps\<rparr>"
    and "0 \<le> prop_floor amount caps (snd kc)" and "prop_floor amount caps (snd kc) \<le> snd kc"
proof -
  let ?S = "cap_total caps"
  have S: "0 < ?S" by (rule cap_total_in64 [OF pre])
  have cap: "0 < snd kc" "snd kc \<le> ?S" using cap_le_total [OF kc] by auto
  have num: "0 \<le> amount * snd kc" "amount * snd kc \<le> ?S * ?S"
    using pre cap S by (auto simp: prop_pre_def intro: mult_mono)
  then have "i64 (amount * snd kc) = amount * snd kc"
    using pre by (simp add: prop_pre_def in64_def i64_in64)
  with num S show "make_share amount ?S kc = \<lparr>ps_key = fst kc, ps_capacity = snd kc,
      ps_allocated = prop_floor amount caps (snd kc), ps_remainder = amount * snd kc mod ?S\<rparr>"
    by (simp add: make_share_def prop_floor_def Let_def)
  show "0 \<le> prop_floor amount caps (snd kc)"
    using num S by (simp add: prop_floor_def pos_imp_zdiv_nonneg_iff)
  have "amount * snd kc div ?S \<le> ?S * snd kc div ?S"
    using pre cap S by (intro zdiv_mono1 mult_right_mono) (auto simp: prop_pre_def)
  then show "prop_floor amount caps (snd kc) \<le> snd kc" using S by (simp add: prop_floor_def)
qed

lemma prop_floor_sum:
  assumes pre: "prop_pre amount caps"
  defines "F \<equiv> (\<Sum>kc\<leftarrow>positive_caps caps. prop_floor amount caps (snd kc))"
  shows "0 \<le> F" and "F \<le> amount" and "amount < F + int (length (positive_caps caps))"
proof -
  let ?S = "cap_total caps" and ?P = "positive_caps caps"
  have S: "0 < ?S" by (rule cap_total_in64 [OF pre])
  then have ne: "?P \<noteq> []" by (auto simp: cap_total_def)
  have tot: "(\<Sum>kc\<leftarrow>?P. amount * snd kc) = amount * ?S"
    by (simp add: cap_total_def sum_list_const_mult)
  show "0 \<le> F" using make_share_exact(2) [OF pre] unfolding F_def by (rule sum_list_nonneg_map)
  show "F \<le> amount"
    using sum_floor_bounds(1) [OF S ne, of "\<lambda>kc. amount * snd kc"] tot S
    by (simp add: F_def prop_floor_def)
  show "amount < F + int (length ?P)"
    using sum_floor_bounds(2) [OF S ne, of "\<lambda>kc. amount * snd kc"] tot S
    unfolding F_def prop_floor_def by (metis distrib_right mult_less_cancel_right_pos)
qed

lemma prop_shares_map:
  assumes "prop_pre amount caps"
  shows "map ps_key (prop_shares amount caps) = map fst (positive_caps caps)"
    and "map ps_capacity (prop_shares amount caps) = map snd (positive_caps caps)"
    and "map ps_allocated (prop_shares amount caps) =
      map (\<lambda>kc. prop_floor amount caps (snd kc)) (positive_caps caps)"
  using make_share_exact [OF assms] by (simp_all add: prop_shares_def)

lemma prop_start_facts:
  assumes pre: "prop_pre amount caps"
  shows prop_start_get: "\<And>kc. kc \<in> set (positive_caps caps) \<Longrightarrow>
      mget (prop_start amount caps) (fst kc) = prop_floor amount caps (snd kc)"
    and prop_start_ok: "shares_ok (prop_shares amount caps) (prop_start amount caps)"
    and prop_start_dom: "dom (prop_start amount caps) = fst ` set (positive_caps caps)"
    and prop_start_sum: "sum64 (map ps_allocated (prop_shares amount caps)) =
      (\<Sum>s\<leftarrow>prop_shares amount caps. mget (prop_start amount caps) (ps_key s))"
proof -
  let ?P = "positive_caps caps"
  have dP: "distinct (map fst ?P)"
    using pre by (simp add: prop_pre_def positive_caps_def distinct_map_filter)
  have r: "prop_start amount caps = map_of (map (\<lambda>kc. (fst kc, prop_floor amount caps (snd kc))) ?P)"
    using make_share_exact(1) [OF pre] by (simp add: prop_start_def prop_shares_def comp_def cong: map_cong)
  show get: "mget (prop_start amount caps) (fst kc) = prop_floor amount caps (snd kc)"
    if "kc \<in> set ?P" for kc
  proof -
    have "prop_start amount caps (fst kc) = Some (prop_floor amount caps (snd kc))"
      unfolding r using that dP by (intro map_of_is_SomeI) (auto simp: comp_def)
    then show ?thesis by (simp add: mget_def)
  qed
  show "dom (prop_start amount caps) = fst ` set ?P"
    by (simp add: r dom_map_of_conv_image_fst image_image)
  show "shares_ok (prop_shares amount caps) (prop_start amount caps)"
    unfolding shares_ok_def
  proof
    show "distinct (map ps_key (prop_shares amount caps))" using dP prop_shares_map(1) [OF pre] by simp
    show "\<forall>s\<in>set (prop_shares amount caps). mget (prop_start amount caps) (ps_key s) \<le> ps_capacity s"
      using get make_share_exact [OF pre] by (auto simp: prop_shares_def)
  qed
  have "(\<Sum>s\<leftarrow>prop_shares amount caps. mget (prop_start amount caps) (ps_key s)) =
      (\<Sum>kc\<leftarrow>?P. prop_floor amount caps (snd kc))"
    using get make_share_exact(1) [OF pre] by (simp add: prop_shares_def comp_def cong: map_cong)
  moreover have "in64 (\<Sum>kc\<leftarrow>?P. prop_floor amount caps (snd kc))"
    using prop_floor_sum(1,2) [OF pre] pre cap_total_in64(2) [OF pre] by (simp add: in64_def prop_pre_def)
  ultimately show "sum64 (map ps_allocated (prop_shares amount caps)) =
      (\<Sum>s\<leftarrow>prop_shares amount caps. mget (prop_start amount caps) (ps_key s))"
    using prop_shares_map(3) [OF pre] by (simp add: sum64_exact)
qed

lemma proportionalCPU_eq:
  assumes pre: "prop_pre amount caps"
  defines "F \<equiv> \<Sum>s\<leftarrow>prop_shares amount caps. mget (prop_start amount caps) (ps_key s)"
  shows "proportionalCPU amount caps =
      topup (nat (amount - F)) (sort_key share_order (prop_shares amount caps)) (prop_start amount caps)"
    and "0 \<le> amount - F" and "amount - F < int (length (positive_caps caps))"
proof -
  have tot: "sum64 (map snd (filter (\<lambda>kc. snd kc > 0) caps)) = cap_total caps"
    using cap_total_in64(3) [OF pre] by (simp add: cap_total_def positive_caps_def sum64_exact)
  have F: "sum64 (map ps_allocated (prop_shares amount caps)) = F"
    unfolding F_def by (rule prop_start_sum [OF pre])
  have "F = (\<Sum>kc\<leftarrow>positive_caps caps. prop_floor amount caps (snd kc))"
    using prop_start_get [OF pre] make_share_exact(1) [OF pre]
    by (simp add: F_def prop_shares_def comp_def cong: map_cong)
  then show rem: "0 \<le> amount - F" "amount - F < int (length (positive_caps caps))"
    using prop_floor_sum(2,3) [OF pre] by simp_all
  have "amount < 2 ^ 63" and "0 \<le> F"
    using pre cap_total_in64(2) [OF pre] \<open>F = _\<close> prop_floor_sum(1) [OF pre] by (auto simp: prop_pre_def)
  then have "in64 (amount - F)" using rem(1) by (simp add: in64_def)
  then show "proportionalCPU amount caps =
      topup (nat (amount - F)) (sort_key share_order (prop_shares amount caps)) (prop_start amount caps)"
    using pre tot F by (simp add: proportionalCPU_def prop_pre_def Let_def prop_shares_def prop_start_def
        positive_caps_def i64_in64)
qed

lemma proportionalCPU_clip:
  assumes "cap_total caps * cap_total caps < 2 ^ 63" and "distinct (map fst caps)"
  shows "prop_pre (min amount (cap_total caps)) caps \<and>
      proportionalCPU amount caps = proportionalCPU (min amount (cap_total caps)) caps
    \<or> (amount \<le> 0 \<or> cap_total caps = 0) \<and> proportionalCPU amount caps = Map.empty"
proof (cases "amount \<le> 0 \<or> cap_total caps = 0")
  case True
  have nonneg: "0 \<le> cap_total caps"
    unfolding cap_total_def by (rule sum_list_nonneg_map) (simp add: positive_caps_def)
  have "cap_total caps < 2 ^ 63"
  proof (cases "cap_total caps = 0")
    case False
    with nonneg have "cap_total caps \<le> cap_total caps * cap_total caps" by simp
    with assms(1) show ?thesis by linarith
  qed simp
  with nonneg have "sum64 (map snd (filter (\<lambda>kc. snd kc > 0) caps)) = cap_total caps"
    by (simp add: cap_total_def positive_caps_def sum64_exact in64_def)
  with True nonneg show ?thesis by (auto simp: proportionalCPU_def Let_def)
next
  case False
  have "0 \<le> cap_total caps"
    unfolding cap_total_def by (rule sum_list_nonneg_map) (simp add: positive_caps_def)
  with False assms have pre: "prop_pre (min amount (cap_total caps)) caps"
    by (auto simp: prop_pre_def)
  then have "sum64 (map snd (filter (\<lambda>kc. snd kc > 0) caps)) = cap_total caps"
    using cap_total_in64(3) by (simp add: cap_total_def positive_caps_def sum64_exact)
  with False pre show ?thesis
    by (simp add: proportionalCPU_def prop_pre_def)
qed

lemma proportionalCPU_pre:
  assumes pre: "prop_pre a caps"
  defines "A \<equiv> proportionalCPU a caps"
  shows "(\<Sum>kc\<leftarrow>positive_caps caps. mget A (fst kc)) = a"
    and "\<And>kc. kc \<in> set (positive_caps caps) \<Longrightarrow> prop_floor a caps (snd kc) \<le> mget A (fst kc) \<and>
      mget A (fst kc) < prop_floor a caps (snd kc) + int (length (positive_caps caps)) \<and>
      mget A (fst kc) \<le> snd kc"
    and "dom A \<subseteq> fst ` set (positive_caps caps)"
proof -
  let ?P = "positive_caps caps"
  let ?ss = "sort_key share_order (prop_shares a caps)" and ?r = "prop_start a caps"
  let ?F = "\<Sum>s\<leftarrow>prop_shares a caps. mget ?r (ps_key s)"
  note eq = proportionalCPU_eq [OF pre] and keys = prop_shares_map(1) [OF pre]
  have ok: "shares_ok ?ss ?r" using prop_start_ok [OF pre] by (simp add: shares_ok_def)
  have cap: "(\<Sum>s\<leftarrow>?ss. ps_capacity s) = cap_total caps"
    by (simp add: prop_shares_map(2) [OF pre] cap_total_def)
  have spec: "shares_ok ?ss A \<and> (\<Sum>s\<leftarrow>?ss. mget A (ps_key s)) = a \<and>
    (\<forall>k. mget ?r k \<le> mget A k \<and> mget A k \<le> mget ?r k + (a - ?F))"
    using topup_spec [OF ok, of "nat (a - ?F)"] eq cap pre by (simp add: prop_pre_def A_def)
  have "(\<Sum>kc\<leftarrow>?P. mget A (fst kc)) = (\<Sum>k\<leftarrow>map ps_key (prop_shares a caps). mget A k)"
    by (simp add: keys comp_def)
  then show "(\<Sum>kc\<leftarrow>?P. mget A (fst kc)) = a" using spec by (simp add: comp_def)
  show "prop_floor a caps (snd kc) \<le> mget A (fst kc) \<and>
      mget A (fst kc) < prop_floor a caps (snd kc) + int (length ?P) \<and> mget A (fst kc) \<le> snd kc"
    if "kc \<in> set ?P" for kc
  proof -
    have "mget A (fst kc) \<le> snd kc"
      using spec make_share_exact(1) [OF pre that] that by (fastforce simp: shares_ok_def prop_shares_def)
    moreover have "mget ?r (fst kc) \<le> mget A (fst kc)" "mget A (fst kc) \<le> mget ?r (fst kc) + (a - ?F)"
      using spec by auto
    ultimately show ?thesis using prop_start_get [OF pre that] eq(3) by linarith
  qed
  have "dom A \<subseteq> ps_key ` set ?ss"
    unfolding A_def eq(1) using prop_start_dom [OF pre] keys
    by (intro topup_dom) (metis list.set_map set_sort subset_refl)
  then show "dom A \<subseteq> fst ` set ?P" using keys by (metis list.set_map set_sort)
qed

text \<open>
  \<open>proportionalCPU\<close> on capacities with distinct keys whose total does not overflow when
  squared gives out exactly the smaller of the (non-negative) amount and the total capacity; each
  key gets at least the floor of its proportional part, less than one per capacity above it, and
  never more than its capacity.
\<close>

theorem proportionalCPU_allocates:
  assumes "distinct (map fst caps)" and "cap_total caps * cap_total caps < 2 ^ 63"
  shows "(\<Sum>kc\<leftarrow>positive_caps caps. mget (proportionalCPU amount caps) (fst kc)) =
      min (max amount 0) (cap_total caps) \<and>
    (\<forall>kc\<in>set (positive_caps caps).
      prop_floor (min (max amount 0) (cap_total caps)) caps (snd kc) \<le> mget (proportionalCPU amount caps) (fst kc) \<and>
      mget (proportionalCPU amount caps) (fst kc) <
        prop_floor (min (max amount 0) (cap_total caps)) caps (snd kc) + int (length (positive_caps caps)) \<and>
      mget (proportionalCPU amount caps) (fst kc) \<le> snd kc) \<and>
    dom (proportionalCPU amount caps) \<subseteq> fst ` set (positive_caps caps)"
proof -
  let ?P = "positive_caps caps"
  consider (zero) "amount \<le> 0 \<or> cap_total caps = 0" "proportionalCPU amount caps = Map.empty"
    | (pre) a where "a = min amount (cap_total caps)" "prop_pre a caps"
      "proportionalCPU amount caps = proportionalCPU a caps"
    using proportionalCPU_clip [OF assms(2,1)] by blast
  then show ?thesis
  proof cases
    case zero
    then have "min (max amount 0) (cap_total caps) = 0"
      using sum_list_nonneg_map [of ?P snd] by (auto simp: cap_total_def positive_caps_def)
    with zero show ?thesis using cap_le_total by (auto simp: prop_floor_def less_imp_le)
  next
    case (pre a)
    then have "a = min (max amount 0) (cap_total caps)" by (auto simp: prop_pre_def)
    with proportionalCPU_pre [OF pre(2)] pre(3) show ?thesis by simp
  qed
qed

theorem proportionalCPU_allocates_witness:
  "(\<Sum>kc\<leftarrow>positive_caps [(''a'', 100), (''b'', 100), (''c'', 100)].
      mget (proportionalCPU 200 [(''a'', 100), (''b'', 100), (''c'', 100)]) (fst kc)) = 200 \<and>
   map (mget (proportionalCPU 200 [(''a'', 100), (''b'', 100), (''c'', 100)])) [''a'', ''b'', ''c''] = [68, 66, 66]"
proof -
  let ?c = "[(''a'', 100), (''b'', 100), (''c'', 100)] :: (string \<times> int) list"
  have "cap_total ?c = 300" by (simp add: cap_total_def positive_caps_def)
  then have "(\<Sum>kc\<leftarrow>positive_caps ?c. mget (proportionalCPU 200 ?c) (fst kc)) = 200"
    using proportionalCPU_allocates [of ?c 200] by simp
  moreover have "map (mget (proportionalCPU 200 ?c)) [''a'', ''b'', ''c''] = [68, 66, 66]"
    by code_simp
  ultimately show ?thesis by simp
qed

text \<open>
  C40. The result of \<open>proportionalCPU\<close> does not depend on the iteration order of the Go map of
  capacities, whatever the values, overflow included.
\<close>

theorem proportionalCPU_order_independent:
  assumes "mset caps = mset caps'" and "distinct (map fst caps)"
  shows "proportionalCPU amount caps = proportionalCPU amount caps'"
proof -
  define P :: "(string \<times> int) list \<Rightarrow> (string \<times> int) list" where "P = filter (\<lambda>kc. snd kc > 0)"
  have P: "mset (P caps) = mset (P caps')" using assms(1) by (simp add: P_def)
  have tot: "sum64 (map snd (P caps)) = sum64 (map snd (P caps'))"
    using P by (simp add: sum64_eq) (metis mset_map sum_mset_sum_list)
  have dP: "distinct (map fst (P caps))" using assms(2) by (simp add: P_def distinct_map_filter)
  have key: "ps_key (make_share a t kc) = fst kc" for a t kc by (simp add: make_share_def Let_def)
  have "map_of (map (\<lambda>s. (ps_key s, ps_allocated s)) (map (make_share a t) (P caps))) =
      map_of (map (\<lambda>s. (ps_key s, ps_allocated s)) (map (make_share a t) (P caps')))" for a t
    using P dP by (intro map_of_mset_eq) (simp_all add: key comp_def)
  moreover have "sort_key share_order (map (make_share a t) (P caps)) =
      sort_key share_order (map (make_share a t) (P caps'))" for a t
  proof (rule sort_key_perm_eq)
    show "mset (map (make_share a t) (P caps)) = mset (map (make_share a t) (P caps'))" using P by simp
    show "inj_on share_order (set (map (make_share a t) (P caps)))"
      using dP by (auto simp: inj_on_def share_order_def key distinct_map)
  qed
  moreover have "sum64 (map ps_allocated (map (make_share a t) (P caps))) =
      sum64 (map ps_allocated (map (make_share a t) (P caps')))" for a t
    using P by (simp add: sum64_eq) (metis mset_map sum_mset_sum_list)
  ultimately show ?thesis using tot by (simp add: proportionalCPU_def P_def Let_def)
qed

theorem proportionalCPU_order_independent_witness:
  "proportionalCPU 5 [(''a'', 3), (''b'', 4)] = proportionalCPU 5 [(''b'', 4), (''a'', 3)]"
  by (rule proportionalCPU_order_independent) simp_all

section \<open>The allocator contract\<close>

text \<open>
  What the node planner relies on: an allocator never exceeds a cap, never hands out more than the
  pool and names no foreign key; an exact allocator hands out all it can. Both routines satisfy the
  first contract; \<open>proportionalCPU\<close>, and \<open>maxMinCPU\<close> on positive caps, satisfy the second.
\<close>

locale cpu_allocator =
  fixes keyf :: "'d \<Rightarrow> string" and capf :: "'d \<Rightarrow> int"
    and alloc :: "int \<Rightarrow> 'd list \<Rightarrow> (string \<rightharpoonup> int)" and pre :: "int \<Rightarrow> 'd list \<Rightarrow> bool"
  assumes alloc_bounds: "pre pool ds \<Longrightarrow> d \<in> set ds \<Longrightarrow>
      0 \<le> mget (alloc pool ds) (keyf d) \<and> mget (alloc pool ds) (keyf d) \<le> capf d"
    and alloc_within: "pre pool ds \<Longrightarrow> (\<Sum>d\<leftarrow>ds. mget (alloc pool ds) (keyf d)) \<le> pool"
    and alloc_dom: "pre pool ds \<Longrightarrow> dom (alloc pool ds) \<subseteq> keyf ` set ds"
begin

lemma alloc_foreign: "pre pool ds \<Longrightarrow> k \<notin> keyf ` set ds \<Longrightarrow> mget (alloc pool ds) k = 0"
  using alloc_dom [of pool ds] by (auto simp: mget_def dom_def split: option.splits)

lemma alloc_get_bounds:
  assumes "pre pool ds" and "\<And>d. d \<in> set ds \<Longrightarrow> keyf d = k \<Longrightarrow> capf d \<le> c" and "0 \<le> c"
  shows "0 \<le> mget (alloc pool ds) k \<and> mget (alloc pool ds) k \<le> c"
proof (cases "k \<in> keyf ` set ds")
  case True
  then obtain d where "d \<in> set ds" "keyf d = k" by blast
  with assms alloc_bounds [OF assms(1)] show ?thesis by force
next
  case False
  with assms show ?thesis by (simp add: alloc_foreign)
qed

end

locale exact_allocator = cpu_allocator +
  assumes alloc_exact: "pre pool ds \<Longrightarrow>
    (\<Sum>d\<leftarrow>ds. mget (alloc pool ds) (keyf d)) = min pool (\<Sum>d\<leftarrow>ds. capf d)"
begin

lemma alloc_covers:
  "pre pool ds \<Longrightarrow> pool \<le> (\<Sum>d\<leftarrow>ds. capf d) \<Longrightarrow> (\<Sum>d\<leftarrow>ds. mget (alloc pool ds) (keyf d)) = pool"
  by (simp add: alloc_exact)

end

definition demands_pre :: "int \<Rightarrow> cpuDemand list \<Rightarrow> bool" where
  "demands_pre pool ds \<longleftrightarrow> distinct (map cd_key ds) \<and> (\<forall>d\<in>set ds. 0 \<le> cd_limit d) \<and> 0 \<le> pool"

definition positive_demands_pre :: "int \<Rightarrow> cpuDemand list \<Rightarrow> bool" where
  "positive_demands_pre pool ds \<longleftrightarrow> demands_pre pool ds \<and> (\<forall>d\<in>set ds. cd_limit d \<noteq> 0)"

definition capacities_pre :: "int \<Rightarrow> (string \<times> int) list \<Rightarrow> bool" where
  "capacities_pre amount caps \<longleftrightarrow> distinct (map fst caps) \<and> (\<forall>kc\<in>set caps. 0 \<le> snd kc) \<and>
     0 \<le> amount \<and> (\<Sum>kc\<leftarrow>caps. snd kc) * (\<Sum>kc\<leftarrow>caps. snd kc) < 2 ^ 63"

interpretation mm: cpu_allocator cd_key cd_limit maxMinCPU demands_pre
proof unfold_locales
  show "dom (maxMinCPU pool ds) \<subseteq> cd_key ` set ds" if "demands_pre pool ds" for pool ds
    using maxMinCPU_safe(3) [of ds pool] that unfolding demands_pre_def
    by (metis domD option.distinct(1) subsetI)
qed (use maxMinCPU_safe in \<open>auto simp: demands_pre_def\<close>)

lemma maxMinCPU_exact:
  "positive_demands_pre pool ds \<Longrightarrow>
   (\<Sum>d\<leftarrow>ds. mget (maxMinCPU pool ds) (cd_key d)) = min pool (\<Sum>d\<leftarrow>ds. cd_limit d)"
  using loop_sum [of "sort_key cd_key ds" Map.empty pool] loop_ok_start [of ds]
  by (force simp: maxMinCPU_def positive_demands_pre_def demands_pre_def)

interpretation mmx: exact_allocator cd_key cd_limit maxMinCPU positive_demands_pre
  by unfold_locales
    (auto simp: positive_demands_pre_def maxMinCPU_exact mm.alloc_within mm.alloc_dom
      dest: mm.alloc_bounds mm.alloc_dom)

lemma cap_total_nonneg_caps:
  "\<forall>kc\<in>set caps. 0 \<le> snd kc \<Longrightarrow> cap_total caps = (\<Sum>kc\<leftarrow>caps. snd kc)"
proof -
  assume nn: "\<forall>kc\<in>set caps. 0 \<le> snd kc"
  have "(\<Sum>kc\<leftarrow>filter (\<lambda>kc. \<not> 0 < snd kc) caps. snd kc) = (\<Sum>kc\<leftarrow>filter (\<lambda>kc. \<not> 0 < snd kc) caps. 0)"
    using nn by (intro sum_list_cong_set) force
  then show ?thesis
    using sum_list_filter_split [of snd caps "\<lambda>kc. 0 < snd kc"] by (simp add: cap_total_def positive_caps_def)
qed

lemma proportionalCPU_nonneg_caps:
  assumes pre: "capacities_pre a caps"
  shows "dom (proportionalCPU a caps) \<subseteq> fst ` set (positive_caps caps)"
    and "(\<Sum>kc\<leftarrow>caps. mget (proportionalCPU a caps) (fst kc)) = min a (\<Sum>kc\<leftarrow>caps. snd kc)"
    and "kc \<in> set caps \<Longrightarrow> 0 \<le> mget (proportionalCPU a caps) (fst kc) \<and>
      mget (proportionalCPU a caps) (fst kc) \<le> snd kc"
proof -
  let ?A = "proportionalCPU a caps"
  have tot: "cap_total caps = (\<Sum>kc\<leftarrow>caps. snd kc)"
    using pre by (intro cap_total_nonneg_caps) (simp add: capacities_pre_def)
  consider (zero) "a \<le> 0 \<or> cap_total caps = 0" "?A = Map.empty"
    | (pos) b where "b = min a (cap_total caps)" "prop_pre b caps" "?A = proportionalCPU b caps"
    using proportionalCPU_clip [of caps a] pre tot by (auto simp: capacities_pre_def)
  note cases = this
  have nn: "0 \<le> (\<Sum>kc\<leftarrow>caps. snd kc)" "0 \<le> a"
    using pre by (auto simp: capacities_pre_def intro: sum_list_nonneg_map)
  show dom: "dom ?A \<subseteq> fst ` set (positive_caps caps)"
    using cases by cases (auto simp: proportionalCPU_pre(3))
  have "mget ?A (fst kc) = 0" if "kc \<in> set caps" "\<not> 0 < snd kc" for kc
  proof -
    have "fst kc \<notin> fst ` set (positive_caps caps)"
      using pre that by (auto simp: capacities_pre_def positive_caps_def distinct_map inj_on_def)
    with dom show ?thesis by (auto simp: mget_def split: option.splits)
  qed
  note zero = this
  then have "(\<Sum>kc\<leftarrow>filter (\<lambda>kc. \<not> 0 < snd kc) caps. mget ?A (fst kc)) = 0"
    by (subst sum_list_cong_set [where g = "\<lambda>_. 0"]) auto
  then have "(\<Sum>kc\<leftarrow>caps. mget ?A (fst kc)) = (\<Sum>kc\<leftarrow>positive_caps caps. mget ?A (fst kc))"
    by (subst sum_list_filter_split [of _ caps "\<lambda>kc. 0 < snd kc"]) (simp add: positive_caps_def)
  also have "\<dots> = min a (\<Sum>kc\<leftarrow>caps. snd kc)"
    using cases by cases (use nn tot proportionalCPU_pre(1) in auto)
  finally show "(\<Sum>kc\<leftarrow>caps. mget ?A (fst kc)) = min a (\<Sum>kc\<leftarrow>caps. snd kc)" .
  show "0 \<le> mget ?A (fst kc) \<and> mget ?A (fst kc) \<le> snd kc" if "kc \<in> set caps"
  proof (cases "0 < snd kc")
    case True
    with that have kc: "kc \<in> set (positive_caps caps)" by (simp add: positive_caps_def)
    from cases show ?thesis
    proof cases
      case zero
      with True show ?thesis by simp
    next
      case (pos b)
      with proportionalCPU_pre(2) [OF pos(2) kc] make_share_exact(2) [OF pos(2) kc] show ?thesis by simp
    qed
  next
    case False
    with zero [OF that] pre that show ?thesis by (auto simp: capacities_pre_def)
  qed
qed

interpretation pr: exact_allocator fst snd proportionalCPU capacities_pre
  by unfold_locales (use proportionalCPU_nonneg_caps in \<open>fastforce simp: positive_caps_def\<close>)+

end
