(* ===== verification/Node_Planner.thy ===== *)
theory Node_Planner
  imports Cpu_Scheduler Kube_Types "HOL-Library.AList"
begin

text \<open>
  The pure part of \<open>operator/internal/controller/resource_autoscaler.go\<close>: the accounting of
  a node's free capacity and pending reservations, node eligibility, and the fair plan
  \<open>planNode\<close> computes for the sessions of one node. The plan changes only the field
  \<open>target\<close> of shared state objects; the model passes the lists and returns them updated,
  and \<open>write_back\<close> puts the updated sublist of one priority back in place, which the
  pointers of the Go code do. Linear \<open>int64\<close> expressions are wrapped once with \<open>i64\<close>, which
  equals wrapping each operation.
\<close>

section \<open>Session states and priorities\<close>

record autoscaleSession =
  az_key :: string
  az_session :: AgentSession
  az_pod :: Pod
  az_priority :: int
  az_current :: int
  az_target :: int
  az_demand :: int
  az_scaleUp :: bool
  az_needsSync :: bool

definition sessionLabel :: string where
  "sessionLabel = ''bosun.io/session''"

definition schedulingNodeAnnotation :: string where
  "schedulingNodeAnnotation = ''bosun.io/scheduling-node''"

definition lowPriorityClass :: string where
  "lowPriorityClass = ''bosun-free''"

definition normalPriorityClass :: string where
  "normalPriorityClass = ''bosun-normal''"

definition highPriorityClass :: string where
  "highPriorityClass = ''bosun-high''"

definition priorityRank :: "string \<Rightarrow> int" where
  "priorityRank className = (if className = highPriorityClass then 3
     else if className = normalPriorityClass then 2 else 1)"

definition statesAtPriority :: "autoscaleSession list \<Rightarrow> int \<Rightarrow> autoscaleSession list" where
  "statesAtPriority states priority = filter (\<lambda>s. az_priority s = priority) states"

definition hasScaleUp :: "autoscaleSession list \<Rightarrow> bool" where
  "hasScaleUp states \<longleftrightarrow> (\<exists>s\<in>set states. az_scaleUp s)"

section \<open>Capacity accounting\<close>

definition podCPULimits :: "klib \<Rightarrow> Pod \<Rightarrow> int" where
  "podCPULimits L pod =
     sum64 (map (\<lambda>c. q_MilliValue L (rl_Cpu L (rr_Limits (ct_Resources c))))
       (ps_InitContainers (pod_Spec pod) @ ps_Containers (pod_Spec pod) @ ps_EphemeralContainers (pod_Spec pod)))"

definition podMemoryRequests :: "klib \<Rightarrow> Pod \<Rightarrow> int" where
  "podMemoryRequests L pod =
     (let appRequests = sum64 (map (\<lambda>c. q_Value L (rl_Memory L (rr_Requests (ct_Resources c))))
            (ps_Containers (pod_Spec pod)));
          initRequest = fold (\<lambda>c m. max m (q_Value L (rl_Memory L (rr_Requests (ct_Resources c)))))
            (ps_InitContainers (pod_Spec pod)) 0;
          effective = max appRequests initRequest
      in case ps_Overhead (pod_Spec pod) of None \<Rightarrow> effective
         | Some rl \<Rightarrow> i64 (effective + q_Value L (rl_Memory L rl)))"

text \<open>The Pods that \<open>nodeFreeCPU\<close> and \<open>nodeFreeMemory\<close> charge to a node.\<close>

definition charged :: "Node \<Rightarrow> Pod \<Rightarrow> bool" where
  "charged node pod \<longleftrightarrow> \<not> (ps_NodeName (pod_Spec pod) \<noteq> om_Name (nd_Meta node) \<or>
     pod_Phase pod = ''Succeeded'' \<or> pod_Phase pod = ''Failed'')"

definition nodeFreeCPU :: "klib \<Rightarrow> Node \<Rightarrow> Pod list \<Rightarrow> int" where
  "nodeFreeCPU L node pods =
     (let used = sum64 (map (podCPULimits L) (filter (charged node) pods))
      in max (i64 (q_MilliValue L (rl_Cpu L (nd_Allocatable node)) - used)) 0)"

definition nodeFreeMemory :: "klib \<Rightarrow> Node \<Rightarrow> Pod list \<Rightarrow> int" where
  "nodeFreeMemory L node pods =
     (let used = sum64 (map (podMemoryRequests L) (filter (charged node) pods))
      in max (i64 (q_Value L (rl_Memory L (nd_Allocatable node)) - used)) 0)"

definition authProxyMemoryRequestBytes :: int where
  "authProxyMemoryRequestBytes = 16 * 1024 * 1024"

definition sessionMemoryReservation :: "klib \<Rightarrow> AgentSession \<Rightarrow> int" where
  "sessionMemoryReservation L session =
     i64 (q_Value L (sp_MemoryRequest (as_Spec session)) + authProxyMemoryRequestBytes)"

text \<open>
  The sessions that hold a reservation: a node annotation, running, not being deleted, and no Pod
  of theirs bound to a node.
\<close>

definition scheduledSessions :: "Pod list \<Rightarrow> string list" where
  "scheduledSessions pods =
     filter (\<lambda>i. i \<noteq> []) (map (\<lambda>p. sget (om_Labels (pod_Meta p)) sessionLabel)
       (filter (\<lambda>p. ps_NodeName (pod_Spec p) \<noteq> []) pods))"

definition pendingReservation :: "Pod list \<Rightarrow> AgentSession \<Rightarrow> bool" where
  "pendingReservation pods session \<longleftrightarrow>
     \<not> (sget (om_Annotations (as_Meta session)) schedulingNodeAnnotation = [] \<or>
        om_DeletionTimestamp (as_Meta session) \<noteq> None \<or>
        sp_DesiredState (as_Spec session) \<noteq> DesiredStateRunning) \<and>
     sp_SessionID (as_Spec session) \<notin> set (scheduledSessions pods)"

definition reserve :: "(AgentSession \<Rightarrow> int) \<Rightarrow> AgentSession list \<Rightarrow> Pod list \<Rightarrow> (string \<rightharpoonup> int)" where
  "reserve amount sessions pods =
     fold (\<lambda>s m. let node = sget (om_Annotations (as_Meta s)) schedulingNodeAnnotation
                 in if pendingReservation pods s then m(node \<mapsto> i64 (mget m node + amount s)) else m)
       sessions Map.empty"

definition pendingReservationCPU :: "AgentSession list \<Rightarrow> Pod list \<Rightarrow> (string \<rightharpoonup> int)" where
  "pendingReservationCPU = reserve (\<lambda>_. agentBaseCPUMillicores)"

definition pendingReservationMemory :: "klib \<Rightarrow> AgentSession list \<Rightarrow> Pod list \<Rightarrow> (string \<rightharpoonup> int)" where
  "pendingReservationMemory L = reserve (sessionMemoryReservation L)"

section \<open>Node eligibility\<close>

definition tolerates :: "Toleration \<Rightarrow> Taint \<Rightarrow> bool" where
  "tolerates toleration taint =
     (if tl_Effect toleration \<noteq> [] \<and> tl_Effect toleration \<noteq> tn_Effect taint then False
      else if tl_Operator toleration = ''Exists''
        then tl_Key toleration = [] \<or> tl_Key toleration = tn_Key taint
      else if tl_Operator toleration = ''Equal'' \<or> tl_Operator toleration = []
        then tl_Key toleration = tn_Key taint \<and> tl_Value toleration = tn_Value taint
      else False)"

definition agentTolerations :: "Toleration list" where
  "agentTolerations =
     [\<lparr>tl_Key = ''node.kubernetes.io/unreachable'', tl_Operator = ''Exists'', tl_Value = [],
       tl_Effect = ''NoExecute'', tl_Seconds = Some 300\<rparr>,
      \<lparr>tl_Key = ''node.kubernetes.io/not-ready'', tl_Operator = ''Exists'', tl_Value = [],
       tl_Effect = ''NoExecute'', tl_Seconds = Some 300\<rparr>]"

definition nodeEligibleForAgent :: "Node \<Rightarrow> bool" where
  "nodeEligibleForAgent node =
     (if nd_Unschedulable node \<or> sget (om_Labels (nd_Meta node)) ''role'' \<noteq> ''worker'' then False
      else if \<not> (\<exists>c\<in>set (nd_Conditions node). fst c = ''Ready'' \<and> snd c = ''True'') then False
      else \<forall>taint\<in>set (nd_Taints node).
        tn_Effect taint \<noteq> ''NoSchedule'' \<and> tn_Effect taint \<noteq> ''NoExecute'' \<or>
        (\<exists>t\<in>set agentTolerations. tolerates t taint))"

section \<open>The plan of one node\<close>

definition extra_of :: "int \<Rightarrow> int" where
  "extra_of x = max (i64 (x - agentBaseCPUMillicores)) 0"

definition counted :: "autoscaleSession \<Rightarrow> bool" where
  "counted s \<longleftrightarrow> \<not> (extra_of (az_target s) = 0 \<and> \<not> az_scaleUp s)"

definition demand_of :: "autoscaleSession \<Rightarrow> cpuDemand" where
  "demand_of s = \<lparr>cd_key = az_key s, cd_limit = extra_of (az_demand s)\<rparr>"

definition grant_state :: "(string \<rightharpoonup> int) \<Rightarrow> autoscaleSession \<Rightarrow> autoscaleSession" where
  "grant_state allocations s = (case allocations (az_key s) of
     Some extra \<Rightarrow> s\<lparr>az_target := i64 (agentBaseCPUMillicores + extra)\<rparr> | None \<Rightarrow> s)"

definition capacities_of :: "autoscaleSession list \<Rightarrow> (string \<times> int) list" where
  "capacities_of states = fold (\<lambda>s al. AList.update (az_key s) (extra_of (az_target s)) al) states []"

text \<open>\<open>state.target -= amount\<close> for the first state with the key.\<close>

fun take_from :: "string \<Rightarrow> int \<Rightarrow> autoscaleSession list \<Rightarrow> autoscaleSession list" where
  "take_from k amount [] = []"
| "take_from k amount (s # ss) = (if az_key s = k then s\<lparr>az_target := i64 (az_target s - amount)\<rparr> # ss
     else s # take_from k amount ss)"

definition reclaim_from :: "int \<Rightarrow> autoscaleSession list \<Rightarrow> autoscaleSession list" where
  "reclaim_from reclaim states =
     (let capacities = capacities_of states; amounts = proportionalCPU reclaim capacities
      in fold (\<lambda>k ss. case amounts k of None \<Rightarrow> ss | Some amount \<Rightarrow> take_from k amount ss)
           (map fst capacities) states)"

definition planFairPriority :: "autoscaleSession list \<Rightarrow> autoscaleSession list \<Rightarrow> int \<Rightarrow> bool \<Rightarrow>
    autoscaleSession list \<times> autoscaleSession list \<times> int" where
  "planFairPriority states reclaimable free allowReclaim =
     (let cs = filter counted states;
          currentExtras = sum64 (map (\<lambda>s. extra_of (az_target s)) cs);
          demandExtras = sum64 (map (\<lambda>s. extra_of (az_demand s)) cs);
          reclaimableExtras = sum64 (map (\<lambda>s. extra_of (az_target s)) reclaimable);
          pool = min (i64 (currentExtras + free + (if allowReclaim then reclaimableExtras else 0))) demandExtras;
          allocations = maxMinCPU pool (map demand_of cs);
          newExtras = sum64 (List.map_filter (\<lambda>s. allocations (az_key s)) states);
          reclaim = max (i64 (newExtras - currentExtras - free)) 0
      in (map (grant_state allocations) states,
          if reclaim > 0 then reclaim_from reclaim reclaimable else reclaimable,
          max (i64 (free - (newExtras - currentExtras) + reclaim)) 0))"

fun write_back :: "int \<Rightarrow> autoscaleSession list \<Rightarrow> autoscaleSession list \<Rightarrow> autoscaleSession list" where
  "write_back p [] ys = []"
| "write_back p (x # xs) ys =
     (if az_priority x = p then (case ys of [] \<Rightarrow> x # xs | y # ys' \<Rightarrow> y # write_back p xs ys')
      else x # write_back p xs ys)"

definition planNode :: "autoscaleSession list \<Rightarrow> int \<Rightarrow> autoscaleSession list" where
  "planNode states0 free0 =
     (let states = sort_key az_key states0;
          free = i64 (free0 + sum64 (map (\<lambda>s. i64 (az_current s - az_target s))
            (filter (\<lambda>s. az_target s < az_current s) states)));
          normal = statesAtPriority states 2;
          high = statesAtPriority states 3;
          (high', normal', free') =
            (if hasScaleUp high then planFairPriority high normal free True else (high, normal, free));
          normal'' = (if hasScaleUp normal' then fst (planFairPriority normal' [] free' False) else normal')
      in write_back 2 (write_back 3 states high') normal'')"

section \<open>Reclaiming\<close>

text \<open>
  The ranges in which the plan is exact: at most 1024 sessions per list, each between the base
  allocation and \<open>2 ^ 20\<close> millicores (1048 cores), free capacity up to \<open>2 ^ 40\<close> millicores.
\<close>

definition state_ok :: "autoscaleSession \<Rightarrow> bool" where
  "state_ok s \<longleftrightarrow> 500 \<le> az_target s \<and> az_target s \<le> az_demand s \<and> az_demand s \<le> 2 ^ 20"

definition states_ok :: "autoscaleSession list \<Rightarrow> bool" where
  "states_ok ss \<longleftrightarrow> distinct (map az_key ss) \<and> length ss \<le> 1024 \<and> (\<forall>s\<in>set ss. state_ok s)"

definition extras :: "autoscaleSession list \<Rightarrow> int" where
  "extras ss = (\<Sum>s\<leftarrow>ss. az_target s - 500)"

lemma extra_of_exact: "500 \<le> x \<Longrightarrow> x \<le> 2 ^ 20 \<Longrightarrow> extra_of x = x - 500"
  by (simp add: extra_of_def agentBaseCPUMillicores_def i64_in64 in64_def)

lemma extra_of_state:
  "state_ok s \<Longrightarrow> extra_of (az_target s) = az_target s - 500 \<and> extra_of (az_demand s) = az_demand s - 500"
  by (simp add: state_ok_def extra_of_exact)

lemma sum_list_le_length:
  fixes f :: "'a \<Rightarrow> int"
  assumes "\<And>x. x \<in> set xs \<Longrightarrow> f x \<le> c"
  shows "(\<Sum>x\<leftarrow>xs. f x) \<le> int (length xs) * c"
  using assms
proof (induction xs)
  case (Cons x xs)
  have "f x \<le> c" and "(\<Sum>x\<leftarrow>xs. f x) \<le> int (length xs) * c" using Cons by simp_all
  then show ?case by (simp add: distrib_right)
qed simp

lemma sum_in_range:
  assumes "length xs \<le> 1024" and "\<And>x. x \<in> set xs \<Longrightarrow> 0 \<le> f x \<and> f x \<le> 2 ^ 20"
  shows "0 \<le> (\<Sum>x\<leftarrow>xs. f x)" and "(\<Sum>x\<leftarrow>xs. f x) \<le> (2 ^ 30 :: int)"
    and "sum64 (map f xs) = (\<Sum>x\<leftarrow>xs. f x)"
proof -
  show nn: "0 \<le> (\<Sum>x\<leftarrow>xs. f x)" using assms(2) by (intro sum_list_nonneg_map) simp
  have "(\<Sum>x\<leftarrow>xs. f x) \<le> int (length xs) * 2 ^ 20" using assms(2) by (intro sum_list_le_length) simp
  also have "\<dots> \<le> 1024 * 2 ^ 20" using assms(1) by simp
  finally show le: "(\<Sum>x\<leftarrow>xs. f x) \<le> 2 ^ 30" by simp
  from nn le show "sum64 (map f xs) = (\<Sum>x\<leftarrow>xs. f x)" by (intro sum64_exact) (simp add: in64_def)
qed

lemma extras_range:
  assumes "states_ok ss"
  shows "0 \<le> extras ss" and "extras ss \<le> 2 ^ 30"
    and "sum64 (map (\<lambda>s. extra_of (az_target s)) ss) = extras ss"
proof -
  have r: "0 \<le> az_target s - 500 \<and> az_target s - 500 \<le> 2 ^ 20" if "s \<in> set ss" for s
    using assms that by (auto simp: states_ok_def state_ok_def)
  have len: "length ss \<le> 1024" using assms by (simp add: states_ok_def)
  show "0 \<le> extras ss" "extras ss \<le> 2 ^ 30"
    using sum_in_range [OF len r] by (auto simp: extras_def)
  have "map (\<lambda>s. extra_of (az_target s)) ss = map (\<lambda>s. az_target s - 500) ss"
    using assms extra_of_state by (auto simp: states_ok_def)
  moreover have "sum64 (map (\<lambda>s. az_target s - 500) ss) = extras ss"
    unfolding extras_def using len r by (rule sum_in_range(3))
  ultimately show "sum64 (map (\<lambda>s. extra_of (az_target s)) ss) = extras ss" by (simp only:)
qed

lemma capacities_of_distinct:
  assumes "distinct (map az_key ss)"
  shows "capacities_of ss = map (\<lambda>s. (az_key s, extra_of (az_target s))) ss"
proof -
  have new: "AList.update k v al = al @ [(k, v)]" if "k \<notin> fst ` set al" for k v and al :: "(string \<times> int) list"
    using that by (induction al) auto
  have "fold (\<lambda>s al. AList.update (az_key s) (extra_of (az_target s)) al) ss al =
      al @ map (\<lambda>s. (az_key s, extra_of (az_target s))) ss"
    if "distinct (map fst al @ map az_key ss)" for al :: "(string \<times> int) list"
    using that
  proof (induction ss arbitrary: al)
    case (Cons s ss)
    then show ?case using Cons.IH [of "al @ [(az_key s, extra_of (az_target s))]"] by (auto simp: new)
  qed simp
  from this [of "[]"] assms show ?thesis by (simp add: capacities_of_def)
qed

definition take_state :: "(string \<rightharpoonup> int) \<Rightarrow> autoscaleSession \<Rightarrow> autoscaleSession" where
  "take_state amounts s = (case amounts (az_key s) of None \<Rightarrow> s
     | Some a \<Rightarrow> s\<lparr>az_target := i64 (az_target s - a)\<rparr>)"

lemma take_from_distinct:
  "distinct (map az_key ss) \<Longrightarrow>
   take_from k a ss = map (\<lambda>s. if az_key s = k then s\<lparr>az_target := i64 (az_target s - a)\<rparr> else s) ss"
proof (induction ss)
  case (Cons s ss)
  have "map (\<lambda>t. if az_key t = az_key s then t\<lparr>az_target := i64 (az_target t - a)\<rparr> else t) ss = ss"
    using distinct_map_ConsD [OF Cons.prems] by (intro map_idI) auto
  with Cons show ?case by auto
qed simp

lemma fold_take_from:
  assumes "distinct ks" and "distinct (map az_key ss)"
  shows "fold (\<lambda>k ss. case amounts k of None \<Rightarrow> ss | Some a \<Rightarrow> take_from k a ss) ks ss =
    map (\<lambda>s. if az_key s \<in> set ks then take_state amounts s else s) ss"
  using assms
proof (induction ks arbitrary: ss)
  case (Cons k ks)
  let ?ss = "case amounts k of None \<Rightarrow> ss | Some a \<Rightarrow> take_from k a ss"
  have step: "?ss = map (\<lambda>s. if az_key s = k then take_state amounts s else s) ss"
    using Cons.prems(2)
    by (auto simp: take_from_distinct take_state_def split: option.splits intro!: map_idI [symmetric])
  have keys: "map az_key ?ss = map az_key ss"
    by (auto simp: step take_state_def split: option.splits)
  have "fold (\<lambda>k ss. case amounts k of None \<Rightarrow> ss | Some a \<Rightarrow> take_from k a ss) ks ?ss =
      map (\<lambda>s. if az_key s \<in> set ks then take_state amounts s else s) ?ss"
    using Cons.prems keys by (intro Cons.IH) auto
  then show ?case
    using Cons.prems(1) by (auto simp: step take_state_def split: option.splits)
qed simp

lemma reclaim_from_distinct:
  assumes "distinct (map az_key ss)"
  shows "reclaim_from r ss =
    map (take_state (proportionalCPU r (map (\<lambda>s. (az_key s, extra_of (az_target s))) ss))) ss"
  using assms by (auto simp: reclaim_from_def Let_def capacities_of_distinct fold_take_from comp_def)

text \<open>
  Reclaiming takes exactly the amount asked for, in total, and never goes below the base
  allocation of a session.
\<close>

lemma reclaim_from_spec:
  assumes ok: "states_ok ss" and r: "0 \<le> r" "r \<le> extras ss"
  shows "(\<Sum>s\<leftarrow>reclaim_from r ss. az_target s) = (\<Sum>s\<leftarrow>ss. az_target s) - r"
    and "\<exists>f. reclaim_from r ss = map (\<lambda>s. s\<lparr>az_target := f s\<rparr>) ss \<and>
      (\<forall>s\<in>set ss. 500 \<le> f s \<and> f s \<le> az_target s)"
proof -
  define caps where "caps = map (\<lambda>s. (az_key s, extra_of (az_target s))) ss"
  define A where "A = proportionalCPU r caps"
  have dist: "distinct (map az_key ss)" and len: "length ss \<le> 1024" using ok by (auto simp: states_ok_def)
  have ext: "extra_of (az_target s) = az_target s - 500" "500 \<le> az_target s" "az_target s \<le> 2 ^ 20"
    if "s \<in> set ss" for s using ok that extra_of_state by (auto simp: states_ok_def state_ok_def)
  have sum: "(\<Sum>kc\<leftarrow>caps. snd kc) = extras ss"
    using ext(1) by (simp add: caps_def extras_def comp_def cong: map_cong)
  have "extras ss * extras ss \<le> 2 ^ 30 * 2 ^ 30" using extras_range [OF ok] by (intro mult_mono) auto
  then have pre: "capacities_pre r caps"
    using dist ext r(1) sum by (auto simp: capacities_pre_def caps_def comp_def)
  have bound: "0 \<le> mget A (az_key s) \<and> mget A (az_key s) \<le> az_target s - 500" if "s \<in> set ss" for s
    using pr.alloc_bounds [OF pre, of "(az_key s, extra_of (az_target s))"] ext(1) that
    by (auto simp: A_def caps_def)
  have upd: "take_state A s = s\<lparr>az_target := az_target s - mget A (az_key s)\<rparr>" if "s \<in> set ss" for s
  proof -
    have "in64 (az_target s - mget A (az_key s))" using bound [OF that] ext [OF that] by (simp add: in64_def)
    then show ?thesis by (auto simp: take_state_def mget_def i64_in64 split: option.splits)
  qed
  have eq: "reclaim_from r ss = map (\<lambda>s. s\<lparr>az_target := az_target s - mget A (az_key s)\<rparr>) ss"
    using upd by (simp add: reclaim_from_distinct [OF dist] A_def caps_def)
  have "(\<Sum>s\<leftarrow>ss. mget A (az_key s)) = r"
    using pr.alloc_covers [OF pre] r(2) sum by (simp add: A_def caps_def comp_def)
  then show "(\<Sum>s\<leftarrow>reclaim_from r ss. az_target s) = (\<Sum>s\<leftarrow>ss. az_target s) - r"
    by (simp add: eq comp_def sum_list_diff)
  show "\<exists>f. reclaim_from r ss = map (\<lambda>s. s\<lparr>az_target := f s\<rparr>) ss \<and>
      (\<forall>s\<in>set ss. 500 \<le> f s \<and> f s \<le> az_target s)"
    using eq bound by (intro exI [of _ "\<lambda>s. az_target s - mget A (az_key s)"]) (simp add: field_simps)
qed

section \<open>Granting\<close>

lemma sum_map_filter:
  "sum_list (List.map_filter f xs) = (\<Sum>x\<leftarrow>xs. case f x of None \<Rightarrow> 0 | Some v \<Rightarrow> (v :: int))"
  by (induction xs) (auto simp: List.map_filter_def split: option.splits)

lemma extras_split:
  "extras ss = extras (filter P ss) + extras (filter (\<lambda>s. \<not> P s) ss)"
  unfolding extras_def by (rule sum_list_filter_split)

lemma extras_counted:
  assumes "states_ok ss"
  shows "extras (filter counted ss) = extras ss"
proof -
  have "az_target s = 500" if "s \<in> set ss" "\<not> counted s" for s
    using assms that extra_of_state [of s] by (auto simp: states_ok_def counted_def)
  then have "extras (filter (\<lambda>s. \<not> counted s) ss) = (\<Sum>s\<leftarrow>filter (\<lambda>s. \<not> counted s) ss. 0)"
    unfolding extras_def by (intro sum_list_cong_set) auto
  then show ?thesis using extras_split [of ss counted] by simp
qed

lemma states_ok_filter: "states_ok ss \<Longrightarrow> states_ok (filter P ss)"
  using order.trans [OF length_filter_le [of P ss]] by (auto simp: states_ok_def distinct_map_filter)

lemma demands_pre_counted:
  assumes "states_ok ss" and "0 \<le> pool"
  shows "demands_pre pool (map demand_of (filter counted ss))"
  using states_ok_filter [OF assms(1), of counted] assms(2)
  by (auto simp: demands_pre_def states_ok_def demand_of_def comp_def extra_of_def)

lemma alloc_counted:
  assumes ok: "states_ok ss" and pool: "0 \<le> pool" and s: "s \<in> set ss"
    and A: "A = maxMinCPU pool (map demand_of (filter counted ss))" and e: "A (az_key s) = Some e"
  shows "counted s" and "0 \<le> e" and "e \<le> az_demand s - 500"
proof -
  let ?ds = "map demand_of (filter counted ss)"
  have pre: "demands_pre pool ?ds" by (rule demands_pre_counted [OF ok pool])
  have "az_key s \<in> cd_key ` set ?ds" using mm.alloc_dom [OF pre] e A by auto
  then obtain t where t: "t \<in> set ss" "counted t" "az_key t = az_key s" by (auto simp: demand_of_def)
  then have [simp]: "t = s" using ok s by (auto simp: states_ok_def distinct_map inj_on_def)
  show "counted s" using t by simp
  have "demand_of s \<in> set ?ds" using t s by auto
  from mm.alloc_bounds [OF pre this] A e show "0 \<le> e" and "e \<le> az_demand s - 500"
    using ok s extra_of_state [of s] by (auto simp: demand_of_def mget_def states_ok_def)
qed

text \<open>
  A session that the allocation does not mention keeps its target. That happens only when the pool is
  smaller than the number of demands, so the extras kept that way are fewer than the sessions.
\<close>

lemma unlisted_extras:
  assumes ok: "states_ok ss" and pool: "extras ss \<le> pool"
    and A: "A = maxMinCPU pool (map demand_of (filter counted ss))"
  shows "extras (filter (\<lambda>s. A (az_key s) = None) ss) \<le> int (length ss)"
proof (cases "\<exists>s\<in>set ss. A (az_key s) = None \<and> 500 < az_target s")
  case True
  then obtain s where s: "s \<in> set ss" "A (az_key s) = None" "500 < az_target s" by blast
  let ?ds = "map demand_of (filter counted ss)"
  have ex: "extra_of (az_target s) = az_target s - 500" "extra_of (az_demand s) = az_demand s - 500"
    "az_target s \<le> az_demand s"
    using ok s(1) extra_of_state [of s] by (auto simp: states_ok_def state_ok_def)
  then have mem: "demand_of s \<in> set ?ds" using s by (auto simp: counted_def)
  have nn: "0 \<le> pool" using extras_range(1) [OF ok] pool by simp
  have "pool < int (length ?ds)"
  proof (rule ccontr)
    assume "\<not> ?thesis"
    then have "min 1 (cd_limit (demand_of s)) \<le> mget A (az_key s)"
      using maxMinCPU_share [of ?ds pool, OF _ _ _ mem] demands_pre_counted [OF ok nn] A
      by (simp add: demands_pre_def demand_of_def)
    then show False using s ex by (simp add: mget_def demand_of_def)
  qed
  moreover have "extras (filter (\<lambda>s. A (az_key s) = None) ss) \<le> extras ss"
    using extras_split [of ss "\<lambda>s. A (az_key s) = None"]
      extras_range(1) [OF states_ok_filter [OF ok, of "\<lambda>s. A (az_key s) \<noteq> None"]] by simp
  moreover have "length ?ds \<le> length ss" by simp
  ultimately show ?thesis using pool by linarith
next
  case False
  then have "extras (filter (\<lambda>s. A (az_key s) = None) ss) \<le> int (length (filter (\<lambda>s. A (az_key s) = None) ss)) * 0"
    unfolding extras_def by (intro sum_list_le_length) (auto simp: not_less)
  then show ?thesis by simp
qed

lemma grant_spec:
  assumes ok: "states_ok ss" and pool: "extras ss \<le> pool" "pool \<le> 2 ^ 30"
    and A: "A = maxMinCPU pool (map demand_of (filter counted ss))"
  defines "N \<equiv> \<Sum>s\<leftarrow>ss. mget A (az_key s)"
  defines "f \<equiv> \<lambda>s. case A (az_key s) of None \<Rightarrow> az_target s | Some e \<Rightarrow> 500 + e"
  shows "sum64 (List.map_filter (\<lambda>s. A (az_key s)) ss) = N" and "0 \<le> N" and "N \<le> pool"
    and "map (grant_state A) ss = map (\<lambda>s. s\<lparr>az_target := f s\<rparr>) ss"
    and "\<And>s. s \<in> set ss \<Longrightarrow> 500 \<le> f s \<and> f s \<le> az_demand s"
    and "(\<Sum>s\<leftarrow>ss. f s) \<le> (\<Sum>s\<leftarrow>ss. az_target s) + (N - extras ss) + int (length ss)"
proof -
  have nn: "0 \<le> pool" using extras_range(1) [OF ok] pool by simp
  note pre = demands_pre_counted [OF ok nn]
  note some = alloc_counted [OF ok nn _ A]
  have rng: "0 \<le> mget A (az_key s)" if "s \<in> set ss" for s
    using some(2) [OF that] by (auto simp: mget_def split: option.splits)
  show N0: "0 \<le> N" unfolding N_def using rng by (rule sum_list_nonneg_map)
  have "mget A (az_key s) = 0" if "s \<in> set ss" "\<not> counted s" for s
    using some(1) [OF that(1)] that(2) by (auto simp: mget_def split: option.splits)
  then have "(\<Sum>s\<leftarrow>filter (\<lambda>s. \<not> counted s) ss. mget A (az_key s)) = (\<Sum>s\<leftarrow>filter (\<lambda>s. \<not> counted s) ss. 0)"
    by (intro sum_list_cong_set) auto
  then have "N = (\<Sum>s\<leftarrow>filter counted ss. mget A (az_key s))"
    unfolding N_def by (subst sum_list_filter_split [of _ ss counted]) simp
  then show Np: "N \<le> pool" using mm.alloc_within [OF pre] A by (simp add: demand_of_def comp_def)
  have "sum_list (List.map_filter (\<lambda>s. A (az_key s)) ss) = N"
    by (simp add: sum_map_filter N_def mget_def)
  then show "sum64 (List.map_filter (\<lambda>s. A (az_key s)) ss) = N"
    using N0 Np pool(2) by (simp add: sum64_exact in64_def)
  show fb: "500 \<le> f s \<and> f s \<le> az_demand s" if "s \<in> set ss" for s
    using some(2,3) [OF that] ok that by (auto simp: f_def states_ok_def state_ok_def split: option.splits)
  have "grant_state A s = s\<lparr>az_target := f s\<rparr>" if "s \<in> set ss" for s
  proof -
    have "in64 (f s)" using fb [OF that] ok that by (auto simp: in64_def states_ok_def state_ok_def)
    then show ?thesis
      by (auto simp: grant_state_def f_def agentBaseCPUMillicores_def i64_in64 split: option.splits)
  qed
  then show "map (grant_state A) ss = map (\<lambda>s. s\<lparr>az_target := f s\<rparr>) ss" by simp
  have "(\<Sum>s\<leftarrow>ss. f s) = (\<Sum>s\<leftarrow>ss. 500 + mget A (az_key s) + (if A (az_key s) = None then az_target s - 500 else 0))"
    by (intro sum_list_cong_set) (auto simp: f_def mget_def)
  also have "\<dots> = int (length ss) * 500 + N + extras (filter (\<lambda>s. A (az_key s) = None) ss)"
    by (simp add: N_def extras_def sum_list_addf sum_list_triv sum_list_map_filter')
  finally show "(\<Sum>s\<leftarrow>ss. f s) \<le> (\<Sum>s\<leftarrow>ss. az_target s) + (N - extras ss) + int (length ss)"
    using unlisted_extras [OF ok pool(1) A] by (simp add: extras_def sum_list_subtractf sum_list_triv)
qed

section \<open>The fair plan of one priority\<close>

definition retarget :: "(autoscaleSession \<Rightarrow> int) \<Rightarrow> autoscaleSession list \<Rightarrow> autoscaleSession list" where
  "retarget f ss = map (\<lambda>s. s\<lparr>az_target := f s\<rparr>) ss"

abbreviation total_target :: "autoscaleSession list \<Rightarrow> int" where
  "total_target ss \<equiv> \<Sum>s\<leftarrow>ss. az_target s"

lemma retarget_id: "retarget az_target ss = ss"
  by (simp add: retarget_def)

lemma total_retarget: "total_target (retarget f ss) = (\<Sum>s\<leftarrow>ss. f s)"
  by (simp add: retarget_def comp_def)

lemma states_ok_retarget:
  "states_ok ss \<Longrightarrow> \<forall>s\<in>set ss. 500 \<le> f s \<and> f s \<le> az_demand s \<Longrightarrow> states_ok (retarget f ss)"
  by (auto simp: states_ok_def retarget_def state_ok_def comp_def)

lemma planFair_pool:
  fixes allow :: bool
  assumes ok: "states_ok ss" "states_ok rs" and free: "0 \<le> free" "free \<le> 2 ^ 40"
  defines "cs \<equiv> filter counted ss"
  defines "pool \<equiv> min (i64 (sum64 (map (\<lambda>s. extra_of (az_target s)) cs) + free +
      (if allow then sum64 (map (\<lambda>s. extra_of (az_target s)) rs) else 0))) (sum64 (map (\<lambda>s. extra_of (az_demand s)) cs))"
  shows "sum64 (map (\<lambda>s. extra_of (az_target s)) cs) = extras ss"
    and "extras ss \<le> pool" and "pool \<le> 2 ^ 30"
    and "pool \<le> extras ss + free + (if allow then extras rs else 0)"
proof -
  have okc: "states_ok cs" unfolding cs_def by (rule states_ok_filter [OF ok(1)])
  show ce: "sum64 (map (\<lambda>s. extra_of (az_target s)) cs) = extras ss"
    using extras_range(3) [OF okc] extras_counted [OF ok(1)] by (simp add: cs_def)
  have dem: "extra_of (az_demand s) = az_demand s - 500 \<and> 0 \<le> az_demand s - 500 \<and> az_demand s - 500 \<le> 2 ^ 20"
    if "s \<in> set cs" for s using okc that extra_of_state [of s] by (auto simp: states_ok_def state_ok_def)
  have len: "length cs \<le> 1024" using okc by (simp add: states_ok_def)
  have de: "sum64 (map (\<lambda>s. extra_of (az_demand s)) cs) = (\<Sum>s\<leftarrow>cs. extra_of (az_demand s))"
    "(\<Sum>s\<leftarrow>cs. extra_of (az_demand s)) \<le> 2 ^ 30"
    using sum_in_range [OF len, of "\<lambda>s. extra_of (az_demand s)"] dem by simp_all
  have le: "extras ss \<le> (\<Sum>s\<leftarrow>cs. extra_of (az_demand s))"
    using extras_counted [OF ok(1)] okc dem unfolding extras_def cs_def [symmetric]
    by (metis (no_types, lifting) diff_right_mono state_ok_def states_ok_def sum_list_mono_set)
  have "in64 (extras ss + free + (if allow then extras rs else 0))"
    using extras_range [OF ok(1)] extras_range [OF ok(2)] free by (simp add: in64_def)
  then have pool: "pool = min (extras ss + free + (if allow then extras rs else 0)) (\<Sum>s\<leftarrow>cs. extra_of (az_demand s))"
    using extras_range(3) [OF ok(2)] by (cases allow) (simp_all add: pool_def ce de(1) i64_in64)
  then show "extras ss \<le> pool" and "pool \<le> 2 ^ 30"
    and "pool \<le> extras ss + free + (if allow then extras rs else 0)"
    using le de(2) free extras_range(1) [OF ok(2)] by auto
qed

lemma planFairPriority_spec:
  assumes ok: "states_ok ss" "states_ok rs" and free: "0 \<le> free" "free \<le> 2 ^ 40"
    and plan: "planFairPriority ss rs free allow = (ss', rs', free')"
  shows "\<exists>f g. ss' = retarget f ss \<and> rs' = retarget g rs \<and>
      (\<forall>s\<in>set ss. 500 \<le> f s \<and> f s \<le> az_demand s) \<and> (\<forall>s\<in>set rs. 500 \<le> g s \<and> g s \<le> az_target s)"
    and "0 \<le> free'"
    and "total_target ss' + total_target rs' + free' \<le> total_target ss + total_target rs + free + int (length ss)"
proof -
  note pool1 = planFair_pool(1) [OF ok free]
  note pool = planFair_pool(2-4) [OF ok free, of allow]
  define P where "P = min (i64 (sum64 (map (\<lambda>s. extra_of (az_target s)) (filter counted ss)) + free +
      (if allow then sum64 (map (\<lambda>s. extra_of (az_target s)) rs) else 0)))
      (sum64 (map (\<lambda>s. extra_of (az_demand s)) (filter counted ss)))"
  define A where "A = maxMinCPU P (map demand_of (filter counted ss))"
  define N where "N = (\<Sum>s\<leftarrow>ss. mget A (az_key s))"
  define f where "f s = (case A (az_key s) of None \<Rightarrow> az_target s | Some e \<Rightarrow> 500 + e)"
    for s :: autoscaleSession
  define R where "R = max (N - extras ss - free) 0"
  note grant = grant_spec [OF ok(1) pool(1,2) [folded P_def] A_def, folded N_def f_def]
  have rR: "0 \<le> R" "R \<le> extras rs"
    using grant(2,3) pool(3) extras_range(1) [OF ok(2)] free by (auto simp: R_def P_def split: if_splits)
  have in1: "in64 (N - extras ss - free)" and in2: "in64 (free - (N - extras ss) + R)"
    using grant(2,3) pool(2) extras_range [OF ok(1)] free by (auto simp: in64_def R_def P_def)
  have eq: "ss' = map (grant_state A) ss" "rs' = (if R > 0 then reclaim_from R rs else rs)"
    "free' = max (free - (N - extras ss) + R) 0"
  proof -
    have "planFairPriority ss rs free allow = (map (grant_state A) ss,
        if max (i64 (N - extras ss - free)) 0 > 0 then reclaim_from (max (i64 (N - extras ss - free)) 0) rs else rs,
        max (i64 (free - (N - extras ss) + max (i64 (N - extras ss - free)) 0)) 0)"
      unfolding planFairPriority_def Let_def
      unfolding P_def [symmetric]
      unfolding A_def [symmetric]
      unfolding grant(1) pool1 by (rule refl)
    then have "(ss', rs', free') = (map (grant_state A) ss, if R > 0 then reclaim_from R rs else rs,
        max (free - (N - extras ss) + R) 0)"
      unfolding plan i64_in64 [OF in1]
      unfolding R_def [symmetric]
      unfolding i64_in64 [OF in2] .
    then show "ss' = map (grant_state A) ss" "rs' = (if R > 0 then reclaim_from R rs else rs)"
      "free' = max (free - (N - extras ss) + R) 0" by simp_all
  qed
  obtain g where g: "rs' = retarget g rs" "\<forall>s\<in>set rs. 500 \<le> g s \<and> g s \<le> az_target s"
    and sum_rs: "total_target rs' = total_target rs - R"
  proof (cases "R > 0")
    case True
    obtain h where h: "reclaim_from R rs = retarget h rs" "\<forall>s\<in>set rs. 500 \<le> h s \<and> h s \<le> az_target s"
      using reclaim_from_spec(2) [OF ok(2) rR] unfolding retarget_def by blast
    have "rs' = reclaim_from R rs" using True eq(2) by simp
    with h reclaim_from_spec(1) [OF ok(2) rR] show ?thesis by (intro that [of h]) simp_all
  next
    case False
    have "\<forall>s\<in>set rs. 500 \<le> az_target s" using ok(2) by (auto simp: states_ok_def state_ok_def)
    with False show ?thesis using that [of az_target] eq(2) rR by (simp add: retarget_id)
  qed
  have ss': "ss' = retarget f ss" using grant(4) eq(1) by (simp add: retarget_def)
  then show "\<exists>f g. ss' = retarget f ss \<and> rs' = retarget g rs \<and>
      (\<forall>s\<in>set ss. 500 \<le> f s \<and> f s \<le> az_demand s) \<and> (\<forall>s\<in>set rs. 500 \<le> g s \<and> g s \<le> az_target s)"
    using g grant(5) by blast
  show "0 \<le> free'" by (simp add: eq(3))
  have "total_target ss' = (\<Sum>s\<leftarrow>ss. f s)" by (simp add: ss' total_retarget)
  moreover have "free' = free - (N - extras ss) + R" by (simp add: eq(3) R_def)
  ultimately show "total_target ss' + total_target rs' + free' \<le> total_target ss + total_target rs + free + int (length ss)"
    using grant(6) sum_rs by simp
qed

section \<open>The plan of a node\<close>

lemma write_back_retarget:
  "write_back p xs (retarget h (filter (\<lambda>x. az_priority x = p) xs)) =
     retarget (\<lambda>x. if az_priority x = p then h x else az_target x) xs"
  by (induction xs) (simp_all add: retarget_def)

lemma write_back_retarget2:
  assumes "p \<noteq> q"
  shows "write_back q (retarget (\<lambda>x. if az_priority x = p then h x else az_target x) xs)
      (retarget k (filter (\<lambda>x. az_priority x = q) xs)) =
    retarget (\<lambda>x. if az_priority x = p then h x else if az_priority x = q then k x else az_target x) xs"
  using assms by (induction xs) (auto simp: retarget_def)

definition node_pre :: "autoscaleSession list \<Rightarrow> int \<Rightarrow> bool" where
  "node_pre states free \<longleftrightarrow> states_ok states \<and>
     (\<forall>s\<in>set states. az_target s \<le> az_current s \<and> az_current s \<le> 2 ^ 20) \<and> 0 \<le> free \<and> free \<le> 2 ^ 39"

lemma states_ok_sort: "states_ok (sort_key az_key ss) = states_ok ss"
  by (simp add: states_ok_def)

lemma node_free_exact:
  assumes "node_pre states free"
  shows "i64 (free + sum64 (map (\<lambda>s. i64 (az_current s - az_target s))
      (filter (\<lambda>s. az_target s < az_current s) (sort_key az_key states)))) =
    free + (\<Sum>s\<leftarrow>states. az_current s - az_target s)"
    and "0 \<le> (\<Sum>s\<leftarrow>states. az_current s - az_target s)" and "(\<Sum>s\<leftarrow>states. az_current s - az_target s) \<le> 2 ^ 30"
proof -
  let ?ss = "sort_key az_key states"
  let ?d = "\<lambda>s. az_current s - az_target s"
  have r: "0 \<le> ?d s \<and> ?d s \<le> 2 ^ 20" if "s \<in> set ?ss" for s
  proof -
    have "500 \<le> az_target s" "az_target s \<le> az_current s" "az_current s \<le> 2 ^ 20"
      using assms that by (auto simp: node_pre_def states_ok_def state_ok_def)
    then show ?thesis by simp
  qed
  have len: "length ?ss \<le> 1024" using assms by (simp add: node_pre_def states_ok_def)
  show nn: "0 \<le> (\<Sum>s\<leftarrow>states. ?d s)" and le: "(\<Sum>s\<leftarrow>states. ?d s) \<le> 2 ^ 30"
    using sum_in_range(1,2) [OF len, of ?d] r by simp_all
  have "(\<Sum>s\<leftarrow>filter (\<lambda>s. \<not> az_target s < az_current s) ?ss. ?d s) = (\<Sum>s\<leftarrow>filter (\<lambda>s. \<not> az_target s < az_current s) ?ss. 0)"
    using r by (intro sum_list_cong_set) force
  then have sum: "(\<Sum>s\<leftarrow>filter (\<lambda>s. az_target s < az_current s) ?ss. ?d s) = (\<Sum>s\<leftarrow>states. ?d s)"
    using sum_list_filter_split [of ?d ?ss "\<lambda>s. az_target s < az_current s"] by simp
  have "map (\<lambda>s. i64 (?d s)) (filter (\<lambda>s. az_target s < az_current s) ?ss) =
      map ?d (filter (\<lambda>s. az_target s < az_current s) ?ss)"
    using r by (auto intro!: i64_in64 simp: in64_def) (smt (verit))+
  then have "sum64 (map (\<lambda>s. i64 (?d s)) (filter (\<lambda>s. az_target s < az_current s) ?ss)) =
      sum64 (map ?d (filter (\<lambda>s. az_target s < az_current s) ?ss))" by (rule arg_cong)
  also have "\<dots> = (\<Sum>s\<leftarrow>states. ?d s)"
    using sum nn le by (simp add: sum64_exact in64_def)
  finally have "sum64 (map (\<lambda>s. i64 (?d s)) (filter (\<lambda>s. az_target s < az_current s) ?ss)) = (\<Sum>s\<leftarrow>states. ?d s)" .
  then show "i64 (free + sum64 (map (\<lambda>s. i64 (?d s)) (filter (\<lambda>s. az_target s < az_current s) ?ss))) =
      free + (\<Sum>s\<leftarrow>states. ?d s)"
    using nn le assms by (simp add: node_pre_def i64_in64 in64_def)
qed

text \<open>What one call of \<open>planFairPriority\<close> guarantees, as used twice by \<open>planNode\<close>.\<close>

lemma planNode_stage:
  assumes ok: "states_ok hs" "states_ok ns" and free: "0 \<le> free" "free \<le> 2 ^ 40"
  obtains f g free' where
    "(if hasScaleUp hs then planFairPriority hs ns free allow else (hs, ns, free)) =
       (retarget f hs, retarget g ns, free')"
    and "\<forall>s\<in>set hs. 500 \<le> f s \<and> f s \<le> az_demand s" and "\<forall>s\<in>set ns. 500 \<le> g s \<and> g s \<le> az_target s"
    and "0 \<le> free'"
    and "(\<Sum>s\<leftarrow>hs. f s) + (\<Sum>s\<leftarrow>ns. g s) + free' \<le> total_target hs + total_target ns + free + int (length hs)"
proof (cases "hasScaleUp hs")
  case True
  obtain hs' ns' free' where plan: "planFairPriority hs ns free allow = (hs', ns', free')" by (metis prod_cases3)
  obtain f g where fg: "hs' = retarget f hs" "ns' = retarget g ns"
    "\<forall>s\<in>set hs. 500 \<le> f s \<and> f s \<le> az_demand s" "\<forall>s\<in>set ns. 500 \<le> g s \<and> g s \<le> az_target s"
    using planFairPriority_spec(1) [OF ok free plan] by blast
  show ?thesis
    using that [of f g free'] True plan fg planFairPriority_spec(2,3) [OF ok free plan] by (simp add: total_retarget)
next
  case False
  have "\<forall>s\<in>set hs. 500 \<le> az_target s \<and> az_target s \<le> az_demand s" "\<forall>s\<in>set ns. 500 \<le> az_target s"
    using ok by (auto simp: states_ok_def state_ok_def)
  then show ?thesis using that [of az_target az_target free] False free by (simp add: retarget_id)
qed

lemma sum_by_priority:
  "(\<Sum>s\<leftarrow>ss. if az_priority s = 3 then f s else if az_priority s = 2 then g s else (h s :: int)) =
   (\<Sum>s\<leftarrow>statesAtPriority ss 3. f s) + (\<Sum>s\<leftarrow>statesAtPriority ss 2. g s) +
   (\<Sum>s\<leftarrow>filter (\<lambda>s. az_priority s \<noteq> 3 \<and> az_priority s \<noteq> 2) ss. h s)"
  by (induction ss) (auto simp: statesAtPriority_def)

lemma length_by_priority:
  "length (statesAtPriority ss 3) + length (statesAtPriority ss 2) \<le> length ss"
  by (induction ss) (auto simp: statesAtPriority_def)

lemma total_target_base:
  assumes "\<forall>s\<in>set ss. 500 \<le> f s"
  shows "total_target ss \<le> (\<Sum>s\<leftarrow>ss. f s) + extras ss"
proof -
  have "(\<Sum>s\<leftarrow>ss. 500) \<le> (\<Sum>s\<leftarrow>ss. f s)" using assms by (intro sum_list_mono_set) simp
  then show ?thesis by (simp add: extras_def sum_list_diff)
qed

lemma retarget_retarget:
  "retarget k (retarget g ss) = retarget (\<lambda>s. k (s\<lparr>az_target := g s\<rparr>)) ss"
  by (simp add: retarget_def)

text \<open>The two stages of \<open>planNode\<close> put together: what becomes of the two planned priorities.\<close>

lemma planNode_stages:
  assumes ok: "states_ok hs" "states_ok ns" and free: "0 \<le> free" "free \<le> 2 ^ 39 + 2 ^ 30"
  obtains f k where
    "(let (high', normal', free') = (if hasScaleUp hs then planFairPriority hs ns free True else (hs, ns, free))
      in (high', if hasScaleUp normal' then fst (planFairPriority normal' [] free' False) else normal')) =
      (retarget f hs, retarget k ns)"
    and "\<forall>s\<in>set hs. 500 \<le> f s \<and> f s \<le> az_demand s" and "\<forall>s\<in>set ns. 500 \<le> k s \<and> k s \<le> az_demand s"
    and "(\<Sum>s\<leftarrow>hs. f s) + (\<Sum>s\<leftarrow>ns. k s) \<le>
      total_target hs + total_target ns + free + int (length hs) + int (length ns)"
proof -
  have "free \<le> 2 ^ 40" using free by simp
  from planNode_stage [OF ok free(1) this, where allow = True]
  obtain f g free1 where one:
    "(if hasScaleUp hs then planFairPriority hs ns free True else (hs, ns, free)) =
       (retarget f hs, retarget g ns, free1)"
    "\<forall>s\<in>set hs. 500 \<le> f s \<and> f s \<le> az_demand s" "\<forall>s\<in>set ns. 500 \<le> g s \<and> g s \<le> az_target s" "0 \<le> free1"
    "(\<Sum>s\<leftarrow>hs. f s) + (\<Sum>s\<leftarrow>ns. g s) + free1 \<le> total_target hs + total_target ns + free + int (length hs)" .
  have okn: "states_ok (retarget g ns)" and nil: "states_ok []"
    using one(3) ok(2) by (force intro!: states_ok_retarget simp: states_ok_def state_ok_def)+
  have "int (length hs) \<le> 1024" using ok(1) by (simp add: states_ok_def)
  moreover have "total_target hs \<le> (\<Sum>s\<leftarrow>hs. f s) + extras hs" "total_target ns \<le> (\<Sum>s\<leftarrow>ns. g s) + extras ns"
    using one(2,3) by (auto intro: total_target_base)
  ultimately have f1: "free1 \<le> 2 ^ 40"
    using one(5) extras_range(2) [OF ok(1)] extras_range(2) [OF ok(2)] free(2) by simp
  from planNode_stage [OF okn nil one(4) f1, where allow = False]
  obtain h e free2 where two:
    "(if hasScaleUp (retarget g ns) then planFairPriority (retarget g ns) [] free1 False
      else (retarget g ns, [], free1)) = (retarget h (retarget g ns), retarget e [], free2)"
    "\<forall>s\<in>set (retarget g ns). 500 \<le> h s \<and> h s \<le> az_demand s" "0 \<le> free2"
    "(\<Sum>s\<leftarrow>retarget g ns. h s) + free2 \<le> total_target (retarget g ns) + free1 + int (length ns)"
    by (auto simp: retarget_def)
  define k where "k = (\<lambda>s. h (s\<lparr>az_target := g s\<rparr>))"
  have k: "(if hasScaleUp (retarget g ns) then fst (planFairPriority (retarget g ns) [] free1 False)
      else retarget g ns) = retarget k ns"
    using two(1) by (auto simp: retarget_retarget k_def split: if_splits)
  show ?thesis
  proof (rule that)
    show "(let (high', normal', free') = (if hasScaleUp hs then planFairPriority hs ns free True else (hs, ns, free))
      in (high', if hasScaleUp normal' then fst (planFairPriority normal' [] free' False) else normal')) =
      (retarget f hs, retarget k ns)" using k by (simp add: one(1))
    show "\<forall>s\<in>set hs. 500 \<le> f s \<and> f s \<le> az_demand s" by (rule one(2))
    show "\<forall>s\<in>set ns. 500 \<le> k s \<and> k s \<le> az_demand s" using two(2) by (auto simp: retarget_def k_def)
    have "(\<Sum>s\<leftarrow>ns. k s) + free2 \<le> (\<Sum>s\<leftarrow>ns. g s) + free1 + int (length ns)"
      using two(4) by (simp add: retarget_def comp_def k_def)
    with one(5) two(3) show "(\<Sum>s\<leftarrow>hs. f s) + (\<Sum>s\<leftarrow>ns. k s) \<le>
      total_target hs + total_target ns + free + int (length hs) + int (length ns)" by linarith
  qed
qed

lemma planNode_retarget:
  assumes pre: "node_pre states free"
  shows "\<exists>F. planNode states free = retarget F (sort_key az_key states) \<and>
    (\<forall>s\<in>set states. 500 \<le> F s \<and> F s \<le> az_demand s) \<and>
    (\<forall>s\<in>set states. az_priority s \<noteq> 2 \<and> az_priority s \<noteq> 3 \<longrightarrow> F s = az_target s) \<and>
    (\<Sum>s\<leftarrow>states. F s) \<le> (\<Sum>s\<leftarrow>states. az_current s) + free + int (length states)"
proof -
  define ss where "ss = sort_key az_key states"
  define free0 where "free0 = free + (\<Sum>s\<leftarrow>states. az_current s - az_target s)"
  let ?hs = "statesAtPriority ss 3" and ?ns = "statesAtPriority ss 2"
  note fx = node_free_exact [OF pre]
  have f0: "0 \<le> free0" "free0 \<le> 2 ^ 40" using fx(2,3) pre by (auto simp: free0_def node_pre_def)
  have ok: "states_ok ?hs" "states_ok ?ns"
    using pre by (auto simp: node_pre_def ss_def statesAtPriority_def states_ok_sort states_ok_filter)
  have free0: "free0 \<le> 2 ^ 39 + 2 ^ 30" using fx(3) pre by (auto simp: free0_def node_pre_def)
  obtain f k where fk:
    "(let (high', normal', free') = (if hasScaleUp ?hs then planFairPriority ?hs ?ns free0 True else (?hs, ?ns, free0))
      in (high', if hasScaleUp normal' then fst (planFairPriority normal' [] free' False) else normal')) =
      (retarget f ?hs, retarget k ?ns)"
    and bounds: "\<forall>s\<in>set ?hs. 500 \<le> f s \<and> f s \<le> az_demand s" "\<forall>s\<in>set ?ns. 500 \<le> k s \<and> k s \<le> az_demand s"
    and total: "(\<Sum>s\<leftarrow>?hs. f s) + (\<Sum>s\<leftarrow>?ns. k s) \<le>
      total_target ?hs + total_target ?ns + free0 + int (length ?hs) + int (length ?ns)"
    using planNode_stages [OF ok f0(1) free0] by blast
  define F where "F = (\<lambda>s. if az_priority s = 3 then f s else if az_priority s = 2 then k s else az_target s)"
  have "planNode states free = write_back 2 (write_back 3 ss (retarget f ?hs)) (retarget k ?ns)"
    unfolding planNode_def Let_def
    unfolding fx(1)
    unfolding ss_def [symmetric] free0_def [symmetric]
    using fk unfolding Let_def by (auto split: prod.splits)
  then have plan: "planNode states free = retarget F ss"
    by (simp add: statesAtPriority_def write_back_retarget write_back_retarget2 F_def)
  have "(\<Sum>s\<leftarrow>ss. F s) - total_target ss \<le> free0 + int (length ?hs) + int (length ?ns)"
    using total sum_by_priority [of f k az_target ss] sum_by_priority [of az_target az_target az_target ss]
    unfolding F_def by (simp cong: if_cong)
  moreover have "(\<Sum>s\<leftarrow>ss. F s) = (\<Sum>s\<leftarrow>states. F s)" "total_target ss = total_target states"
    "length ss = length states" by (simp_all add: ss_def)
  ultimately have "(\<Sum>s\<leftarrow>states. F s) \<le> (\<Sum>s\<leftarrow>states. az_current s) + free + int (length states)"
    using length_by_priority [of ss] by (simp add: free0_def sum_list_diff)
  moreover have "500 \<le> F s \<and> F s \<le> az_demand s" if "s \<in> set states" for s
    using that bounds pre by (auto simp: F_def ss_def statesAtPriority_def node_pre_def states_ok_def state_ok_def)
  ultimately show ?thesis using plan by (intro exI [of _ F]) (auto simp: F_def ss_def)
qed

section \<open>Properties\<close>

text \<open>
  C11. For sessions whose targets do not exceed what they hold, \<open>planNode\<close> returns the same sessions
  in key order with only the targets changed; every target stays between the base allocation and the session's
  demand; sessions of the low priority are left alone; and the sum of the targets exceeds what the sessions
  hold plus the free CPU by at most one millicore per session.
\<close>

theorem planNode_capacity:
  assumes "node_pre states free"
  shows "map az_key (planNode states free) = sort (map az_key states) \<and>
    (\<forall>s'\<in>set (planNode states free). \<exists>s\<in>set states. s' = s\<lparr>az_target := az_target s'\<rparr> \<and>
      500 \<le> az_target s' \<and> az_target s' \<le> az_demand s \<and>
      (az_priority s \<noteq> 2 \<and> az_priority s \<noteq> 3 \<longrightarrow> s' = s)) \<and>
    total_target (planNode states free) \<le> (\<Sum>s\<leftarrow>states. az_current s) + free + int (length states)"
proof -
  obtain F where F: "planNode states free = retarget F (sort_key az_key states)"
    "\<forall>s\<in>set states. 500 \<le> F s \<and> F s \<le> az_demand s"
    "\<forall>s\<in>set states. az_priority s \<noteq> 2 \<and> az_priority s \<noteq> 3 \<longrightarrow> F s = az_target s"
    "(\<Sum>s\<leftarrow>states. F s) \<le> (\<Sum>s\<leftarrow>states. az_current s) + free + int (length states)"
    using planNode_retarget [OF assms] by blast
  have "map az_key (retarget F (sort_key az_key states)) = sort (map az_key states)"
    by (simp add: retarget_def comp_def map_sort_key)
  moreover have "\<exists>s\<in>set states. s' = s\<lparr>az_target := az_target s'\<rparr> \<and> 500 \<le> az_target s' \<and>
      az_target s' \<le> az_demand s \<and> (az_priority s \<noteq> 2 \<and> az_priority s \<noteq> 3 \<longrightarrow> s' = s)"
    if s': "s' \<in> set (retarget F (sort_key az_key states))" for s'
  proof -
    obtain s where "s \<in> set states" "s' = s\<lparr>az_target := F s\<rparr>" using s' by (auto simp: retarget_def)
    with F(2,3) show ?thesis by (intro bexI [of _ s]) auto
  qed
  ultimately show ?thesis using F(1,4) by (simp add: total_retarget)
qed

abbreviation sample_state :: "string \<Rightarrow> int \<Rightarrow> int \<Rightarrow> int \<Rightarrow> int \<Rightarrow> bool \<Rightarrow> autoscaleSession" where
  "sample_state key priority current target demand up \<equiv>
     \<lparr>az_key = key, az_session = zero_AgentSession, az_pod = zero_Pod, az_priority = priority, az_current = current,
      az_target = target, az_demand = demand, az_scaleUp = up, az_needsSync = False\<rparr>"

theorem planNode_capacity_witness:
  "total_target (planNode [sample_state ''a'' 3 500 500 1000 True, sample_state ''b'' 2 1000 1000 1000 False] 100) \<le> 1602"
  using planNode_capacity [of "[sample_state ''a'' 3 500 500 1000 True, sample_state ''b'' 2 1000 1000 1000 False]" 100]
  by (simp add: node_pre_def states_ok_def state_ok_def)

text \<open>
  The one millicore is real: with no free CPU a session whose grant is rounded down to nothing gets no entry
  in the allocation map, keeps its old target, and the plan asks for one millicore more than the node has.
\<close>

theorem planNode_overcommit:
  "map az_target (planNode [sample_state ''b'' 2 501 501 501 False, sample_state ''a'' 2 500 500 1000 True] 0) = [501, 501]"
  by code_simp

end
