(* ===== verification/Session_Controller.thy ===== *)
theory Session_Controller
  imports Quiescer Node_Planner
begin

text \<open>
  \<open>operator/internal/controller/agentsession_controller.go\<close>: the reconciler of AgentSession resources, its
  state machine, the objects it creates and its retry bookkeeping. Every function is a program over the calls of
  \<open>kube_api\<close>; logging and the context are left out, and a call that is cut off by the context's deadline is
  an error answer. The interfaces \<open>AgentQuiescer\<close> and \<open>AgentStateReader\<close> are resolved to their only
  implementation; the reconciler's record says whether they are configured. A negative shift count panics in Go,
  which the controller manager reports as an error.
\<close>

section \<open>Constants and configuration\<close>

definition agentSessionFinalizer :: string where "agentSessionFinalizer = ''bosun.io/agentsession-cleanup''"
definition sessionReadyCondition :: string where "sessionReadyCondition = ''Ready''"
definition sessionRetryCondition :: string where "sessionRetryCondition = ''ReconcileRetry''"
definition gatewayTokenVolume :: string where "gatewayTokenVolume = ''gateway-token''"
definition workspaceVolume :: string where "workspaceVolume = ''workspace''"
definition agentNodeRoleLabel :: string where "agentNodeRoleLabel = ''role''"
definition agentNodeRoleValue :: string where "agentNodeRoleValue = ''worker''"
definition deadlineExceededReason :: string where "deadlineExceededReason = ''DeadlineExceeded''"
definition agentWorkingReason :: string where "agentWorkingReason = ''AgentWorking''"
definition awaitingApprovalReason :: string where "awaitingApprovalReason = ''AwaitingApproval''"
definition awaitingChoiceReason :: string where "awaitingChoiceReason = ''AwaitingChoice''"
definition awaitingInputReason :: string where "awaitingInputReason = ''AwaitingInput''"
definition maxTransientRetries :: int where "maxTransientRetries = 10"
definition defaultIdleScan :: duration where "defaultIdleScan = 30 * second"
definition maxHibernateGrace :: int where "maxHibernateGrace = 30"
definition managedByLabel :: string where "managedByLabel = ''app.kubernetes.io/managed-by''"
definition userLabel :: string where "userLabel = ''bosun.io/user''"
definition managedByValue :: string where "managedByValue = ''bosun''"

record AgentSessionReconciler =
  rc_AgentImage :: string
  rc_AgentPullPolicy :: string
  rc_StorageClassName :: string
  rc_GatewayURL :: string
  rc_EgressProxyURL :: string
  rc_IdleScanInterval :: duration
  rc_CapacitySchedulingEnabled :: bool
  rc_Quiescer :: bool
  rc_StateReader :: bool

record Result =
  res_Requeue :: bool
  res_RequeueAfter :: duration

definition done_result :: Result where
  "done_result = \<lparr>res_Requeue = False, res_RequeueAfter = 0\<rparr>"

definition requeue :: Result where
  "requeue = \<lparr>res_Requeue = True, res_RequeueAfter = 0\<rparr>"

definition requeue_after :: "duration \<Rightarrow> Result" where
  "requeue_after d = \<lparr>res_Requeue = False, res_RequeueAfter = d\<rparr>"

definition idleScan :: "AgentSessionReconciler \<Rightarrow> duration" where
  "idleScan r = (if rc_IdleScanInterval r > 0 then rc_IdleScanInterval r else defaultIdleScan)"

fun show_phase :: "AgentSessionPhase \<Rightarrow> string" where
  "show_phase PhaseUnset = []"
| "show_phase PhasePending = ''Pending''"
| "show_phase PhaseProvisioning = ''Provisioning''"
| "show_phase PhaseRunning = ''Running''"
| "show_phase PhaseIdle = ''Idle''"
| "show_phase PhaseHibernating = ''Hibernating''"
| "show_phase PhaseHibernated = ''Hibernated''"
| "show_phase PhaseArchiving = ''Archiving''"
| "show_phase PhaseArchived = ''Archived''"
| "show_phase PhaseRestoring = ''Restoring''"
| "show_phase PhaseDeleting = ''Deleting''"
| "show_phase PhaseFailed = ''Failed''"

section \<open>Pure helpers\<close>

definition safeConditionMessage :: "string \<Rightarrow> string" where
  "safeConditionMessage message = take 512 (TrimSpace message)"

definition readableSchedulingMessage :: "string \<Rightarrow> string" where
  "readableSchedulingMessage message =
     (if TrimSpace message = [] then ''No eligible node currently has sufficient capacity''
      else safeConditionMessage message)"

definition setSessionCondition :: "klib \<Rightarrow> int \<Rightarrow> string \<Rightarrow> string \<Rightarrow> string \<Rightarrow> AgentSessionStatus \<Rightarrow> AgentSessionStatus" where
  "setSessionCondition L generation conditionStatus reason message status =
     status\<lparr>st_Conditions := SetStatusCondition L (st_Conditions status)
       \<lparr>c_Type = sessionReadyCondition, c_Status = conditionStatus, c_ObservedGeneration = generation,
        c_Reason = reason, c_Message = safeConditionMessage message\<rparr>\<rparr>"

definition clearRetryCondition :: "klib \<Rightarrow> AgentSessionStatus \<Rightarrow> AgentSessionStatus" where
  "clearRetryCondition L status =
     status\<lparr>st_Conditions := RemoveStatusCondition L (st_Conditions status) sessionRetryCondition\<rparr>"

definition retryAttempt :: "klib \<Rightarrow> Condition list \<Rightarrow> int \<Rightarrow> int" where
  "retryAttempt L conditions generation =
     (case FindStatusCondition L conditions sessionRetryCondition of
        None \<Rightarrow> 0
      | Some condition \<Rightarrow>
          if c_ObservedGeneration condition \<noteq> generation then 0
          else if \<not> HasPrefix (c_Message condition) ''attempt='' then 0
          else Atoi_value (before_sep (CHR '';'') (TrimPrefix (c_Message condition) ''attempt='')))"

definition supportedPriorityClass :: "string \<Rightarrow> bool" where
  "supportedPriorityClass name \<longleftrightarrow> name = lowPriorityClass \<or> name = normalPriorityClass \<or> name = highPriorityClass"

definition validateAgentSession :: "klib \<Rightarrow> AgentSession \<Rightarrow> kerr option" where
  "validateAgentSession L session =
     (let spec = as_Spec session; labels = om_Labels (as_Meta session) in
      if \<not> uuid_v7 (sp_SessionID spec) \<or> \<not> uuid_v7 (sp_UserID spec)
      then Some (Errorf ''spec.sessionID and spec.userID must be UUID v7'')
      else if om_Name (as_Meta session) \<noteq> CRName L (sp_SessionID spec)
      then Some (Errorf ''metadata.name must match spec.sessionID'')
      else if sget labels managedByLabel \<noteq> managedByValue \<or> sget labels userLabel \<noteq> sp_UserID spec \<or>
        sget labels sessionLabel \<noteq> sp_SessionID spec
      then Some (Errorf ''required Bosun management labels must match spec IDs'')
      else if sp_Runtime spec \<noteq> ''claude-code'' \<or> pv_Mode (sp_Provider spec) \<noteq> ''platform'' \<or>
        pv_CredentialID (sp_Provider spec) \<noteq> [] \<or> sp_StoragePolicy spec \<noteq> ''local'' \<or>
        \<not> supportedPriorityClass (sp_PriorityClassName spec)
      then Some (Errorf ''session must use a supported Bosun priority class'')
      else if q_Value L (sp_MemoryRequest spec) < MinMemoryRequestBytes (Policy L) \<or>
        q_Value L (sp_MemoryRequest spec) > MaxMemoryRequestBytes (Policy L)
      then Some (Errorf ''spec.memoryRequest must be between 1Gi and 64Gi'')
      else None)"

definition validateSessionWorkload :: "string \<Rightarrow> ObjectMeta \<Rightarrow> AgentSession \<Rightarrow> kerr option" where
  "validateSessionWorkload typeName object session =
     (let labels = om_Labels object in
      if sget labels managedByLabel \<noteq> managedByValue \<or> sget labels userLabel \<noteq> sp_UserID (as_Spec session) \<or>
        sget labels sessionLabel \<noteq> sp_SessionID (as_Spec session)
      then Some (Errorf (typeName @ '' '' @ show_key (ObjectKey object) @ '' is not managed by Bosun for this session''))
      else None)"

definition sessionLabels :: "AgentSession \<Rightarrow> strmap" where
  "sessionLabels session = [managedByLabel \<mapsto> managedByValue, userLabel \<mapsto> sp_UserID (as_Spec session),
     sessionLabel \<mapsto> sp_SessionID (as_Spec session)]"

definition podReady :: "Pod \<Rightarrow> bool" where
  "podReady pod = (case find (\<lambda>c. pc_Type c = ''Ready'') (pod_Conditions pod) of
     None \<Rightarrow> False | Some c \<Rightarrow> pc_Status c = ''True'')"

definition podScheduledCondition :: "Pod \<Rightarrow> PodCondition option" where
  "podScheduledCondition pod = find (\<lambda>c. pc_Type c = ''PodScheduled'') (pod_Conditions pod)"

definition podStoppedByDeadline :: "Pod \<Rightarrow> bool" where
  "podStoppedByDeadline pod \<longleftrightarrow> pod_Reason pod = deadlineExceededReason \<or>
     (\<exists>s\<in>set (pod_ContainerStatuses pod). cs_TerminatedReason s = Some deadlineExceededReason)"

definition sessionActivity :: "klib \<Rightarrow> AgentSession \<Rightarrow> time \<Rightarrow> time" where
  "sessionActivity L session fallback =
     (let raw = sget (om_Annotations (as_Meta session)) LastActiveAnnotation;
          parsed = (if raw \<noteq> [] then parse_RFC3339 L raw else None)
      in case parsed of Some t \<Rightarrow> t
         | None \<Rightarrow> (case st_LastActiveAt (as_Status session) of Some t \<Rightarrow> t | None \<Rightarrow> fallback))"

definition agentWorkCondition :: "AgentWorkState \<Rightarrow> string \<times> string" where
  "agentWorkCondition state = (case state of
     AgentWorkStateWorking \<Rightarrow> (agentWorkingReason, ''Claude is working; no user action is currently required'')
   | AgentWorkStateAwaitingApproval \<Rightarrow> (awaitingApprovalReason, ''Claude is waiting for the user to approve an action'')
   | AgentWorkStateAwaitingChoice \<Rightarrow> (awaitingChoiceReason, ''Claude is waiting for the user to choose the next step'')
   | AgentWorkStateAwaitingInput \<Rightarrow> (awaitingInputReason, ''Claude has finished the current turn and is waiting for user input'')
   | AgentWorkStateStopped \<Rightarrow> (''AgentStopped'', ''Claude is not running; the terminal remains available'')
   | AgentWorkStateUnknown \<Rightarrow> (''SessionRunning'', ''Agent Pod and persistent terminal are ready''))"

section \<open>Desired objects\<close>

definition desiredPVC :: "klib \<Rightarrow> AgentSession \<Rightarrow> string \<Rightarrow> PersistentVolumeClaim" where
  "desiredPVC L session storageClass =
     \<lparr>pvc_Meta = zero_ObjectMeta\<lparr>om_Name := PVCName L (sp_SessionID (as_Spec session)),
        om_Namespace := om_Namespace (as_Meta session), om_Labels := sessionLabels session\<rparr>,
      pvc_AccessModes = [''ReadWriteOnce''], pvc_Storage = q_MustParse L ''10Gi'',
      pvc_StorageClassName = storageClass\<rparr>"

definition agentAffinity :: "string \<Rightarrow> NodeSelectorTerm list" where
  "agentAffinity nodeName =
     [\<lparr>nt_MatchExpressions = [(agentNodeRoleLabel, ''In'', [agentNodeRoleValue])],
       nt_MatchFields = (if nodeName \<noteq> [] then [(''metadata.name'', ''In'', [nodeName])] else [])\<rparr>]"

definition restrictedContainerSecurityContext :: "bool \<Rightarrow> bool \<Rightarrow> SecurityContext" where
  "restrictedContainerSecurityContext noPrivilege readOnly =
     \<lparr>sx_AllowPrivilegeEscalation = noPrivilege, sx_ReadOnlyRootFilesystem = readOnly, sx_Drop = [''ALL'']\<rparr>"

definition execProbe :: "string list \<Rightarrow> Probe" where
  "execProbe command = \<lparr>pb_Command = command, pb_InitialDelaySeconds = 2, pb_PeriodSeconds = 5,
     pb_TimeoutSeconds = 2, pb_FailureThreshold = 3\<rparr>"

definition agent_container :: "klib \<Rightarrow> AgentSessionReconciler \<Rightarrow> AgentSession \<Rightarrow> Container" where
  "agent_container L r session =
     (let (agentRequests, agentLimits) = policy_ResourceRequirements L (q_Value L (sp_MemoryRequest (as_Spec session)))
      in zero_Container\<lparr>ct_Name := ''agent'', ct_Image := rc_AgentImage r, ct_ImagePullPolicy := rc_AgentPullPolicy r,
        ct_ResizePolicy := [(''cpu'', ''NotRequired''), (''memory'', ''NotRequired'')],
        ct_Env := [(''BOSUN_SESSION_ID'', sp_SessionID (as_Spec session)), (''BOSUN_AGENT_IMAGE'', rc_AgentImage r),
          (''ANTHROPIC_BASE_URL'', ''http://127.0.0.1:8080''), (''ANTHROPIC_API_KEY'', ''sk-xxxx''),
          (''HTTPS_PROXY'', rc_EgressProxyURL r), (''NO_PROXY'', ''127.0.0.1,localhost'')],
        ct_Resources := \<lparr>rr_Requests = agentRequests, rr_Limits = agentLimits\<rparr>,
        ct_SecurityContext := Some (restrictedContainerSecurityContext False True),
        ct_VolumeMounts :=
          [\<lparr>vm_Name = workspaceVolume, vm_MountPath = ''/workspace'', vm_SubPath = [], vm_ReadOnly = False\<rparr>,
           \<lparr>vm_Name = workspaceVolume, vm_MountPath = ''/tmp'', vm_SubPath = ''.bosun-state/runtime/tmp'', vm_ReadOnly = False\<rparr>,
           \<lparr>vm_Name = workspaceVolume, vm_MountPath = ''/run/bosun-tmux'', vm_SubPath = ''.bosun-state/runtime/tmux'',
             vm_ReadOnly = False\<rparr>],
        ct_ReadinessProbe := Some (execProbe [''tmux'', ''has-session'', ''-t'', ''bosun'']),
        ct_LivenessProbe := Some (execProbe [''tmux'', ''has-session'', ''-t'', ''bosun''])\<rparr>)"

definition auth_proxy_container :: "klib \<Rightarrow> AgentSessionReconciler \<Rightarrow> Container" where
  "auth_proxy_container L r =
     zero_Container\<lparr>ct_Name := ''auth-proxy'', ct_Image := rc_AgentImage r, ct_ImagePullPolicy := rc_AgentPullPolicy r,
       ct_Command := [''/usr/local/bin/bosun-auth-proxy''],
       ct_Args := [''--listen=127.0.0.1:8080'', ''--upstream='' @ rc_GatewayURL r,
         ''--token-file=/var/run/secrets/bosun/token''],
       ct_Ports := [(''proxy'', 8080, ''TCP'')],
       ct_Resources := \<lparr>rr_Requests = [''cpu'' \<mapsto> q_MustParse L ''10m'', ''memory'' \<mapsto> q_MustParse L ''16Mi''],
         rr_Limits = [''cpu'' \<mapsto> q_MustParse L ''50m'', ''memory'' \<mapsto> q_MustParse L ''64Mi'']\<rparr>,
       ct_SecurityContext := Some (restrictedContainerSecurityContext False True),
       ct_VolumeMounts :=
         [\<lparr>vm_Name = gatewayTokenVolume, vm_MountPath = ''/var/run/secrets/bosun'', vm_SubPath = [], vm_ReadOnly = True\<rparr>,
          \<lparr>vm_Name = ''proxy-tmp'', vm_MountPath = ''/tmp'', vm_SubPath = [], vm_ReadOnly = False\<rparr>],
       ct_ReadinessProbe := Some (execProbe [''/usr/local/bin/bosun-auth-proxy'',
         ''--healthcheck=http://127.0.0.1:8080/healthz'']),
       ct_LivenessProbe := Some (execProbe [''/usr/local/bin/bosun-auth-proxy'',
         ''--healthcheck=http://127.0.0.1:8080/healthz''])\<rparr>"

definition runtime_init_container :: "klib \<Rightarrow> AgentSessionReconciler \<Rightarrow> Container" where
  "runtime_init_container L r =
     zero_Container\<lparr>ct_Name := ''runtime-init'', ct_Image := rc_AgentImage r, ct_ImagePullPolicy := rc_AgentPullPolicy r,
       ct_Command := [''/bin/bash'', ''-c''],
       ct_Args := [''install -d -m 0700 /workspace/.bosun-state/runtime/tmp /workspace/.bosun-state/runtime/tmux''],
       ct_Resources := \<lparr>rr_Requests = [''cpu'' \<mapsto> q_MustParse L ''5m'', ''memory'' \<mapsto> q_MustParse L ''8Mi''],
         rr_Limits = [''cpu'' \<mapsto> q_MustParse L ''25m'', ''memory'' \<mapsto> q_MustParse L ''32Mi'']\<rparr>,
       ct_SecurityContext := Some (restrictedContainerSecurityContext False True),
       ct_VolumeMounts :=
         [\<lparr>vm_Name = workspaceVolume, vm_MountPath = ''/workspace'', vm_SubPath = [], vm_ReadOnly = False\<rparr>]\<rparr>"

definition desiredPod :: "klib \<Rightarrow> AgentSessionReconciler \<Rightarrow> AgentSession \<Rightarrow> string \<Rightarrow> Pod" where
  "desiredPod L r session pvcName =
     zero_Pod\<lparr>
       pod_Meta := zero_ObjectMeta\<lparr>om_Name := PodName L (sp_SessionID (as_Spec session)),
         om_Namespace := om_Namespace (as_Meta session), om_Labels := sessionLabels session,
         om_Annotations := [ResumeNonceAnnotation \<mapsto> sp_ResumeNonce (as_Spec session)]\<rparr>,
       pod_Spec := zero_PodSpec\<lparr>
         ps_ServiceAccountName := ServiceAccountName L (sp_SessionID (as_Spec session)),
         ps_AutomountServiceAccountToken := False,
         ps_RestartPolicy := ''Never'',
         ps_PriorityClassName := sp_PriorityClassName (as_Spec session),
         ps_ActiveDeadlineSeconds := sp_ActiveDeadlineSeconds (as_Spec session),
         ps_TerminationGracePeriodSeconds := maxHibernateGrace,
         ps_SecurityContext := Some \<lparr>px_RunAsNonRoot = True, px_RunAsUser = 10001, px_RunAsGroup = 10001,
           px_FSGroup = 10001, px_FSGroupChangePolicy = ''OnRootMismatch'', px_SeccompProfile = ''RuntimeDefault''\<rparr>,
         ps_Affinity := agentAffinity (sget (om_Annotations (as_Meta session)) schedulingNodeAnnotation),
         ps_Tolerations := agentTolerations,
         ps_Containers := [agent_container L r session, auth_proxy_container L r],
         ps_InitContainers := [runtime_init_container L r],
         ps_Volumes := [(workspaceVolume, PersistentVolumeClaimSource pvcName),
           (''proxy-tmp'', EmptyDirSource (q_MustParse L ''16Mi'')),
           (gatewayTokenVolume, ServiceAccountTokenSource 288 ''bosun-llm-gateway'' 3600 ''token'')]\<rparr>\<rparr>"

section \<open>Reading the session's objects\<close>

definition getPod :: "klib \<Rightarrow> kube_api \<Rightarrow> AgentSession \<Rightarrow> ('m, kerr + Pod \<times> bool) kube" where
  "getPod L A session = do {
     let key = (om_Namespace (as_Meta session), PodName L (sp_SessionID (as_Spec session)));
     r \<leftarrow> get_pod A key;
     State_Monad.return (case r of
       Inl e \<Rightarrow> if IsNotFound e then Inr (zero_Pod, False) else Inl (Wrapf (''get Pod '' @ show_key key) e)
     | Inr pod \<Rightarrow> (case validateSessionWorkload ''*v1.Pod'' (pod_Meta pod) session of
         Some e \<Rightarrow> Inl e | None \<Rightarrow> Inr (pod, True))) }"

definition zero_PVC :: PersistentVolumeClaim where
  "zero_PVC = \<lparr>pvc_Meta = zero_ObjectMeta, pvc_AccessModes = [], pvc_Storage = [], pvc_StorageClassName = []\<rparr>"

definition getPVC :: "klib \<Rightarrow> kube_api \<Rightarrow> AgentSession \<Rightarrow> ('m, kerr + PersistentVolumeClaim \<times> bool) kube" where
  "getPVC L A session = do {
     let key = (om_Namespace (as_Meta session), PVCName L (sp_SessionID (as_Spec session)));
     r \<leftarrow> get_pvc A key;
     State_Monad.return (case r of
       Inl e \<Rightarrow> if IsNotFound e then Inr (zero_PVC, False)
               else Inl (Wrapf (''get PersistentVolumeClaim '' @ show_key key) e)
     | Inr pvc \<Rightarrow>
         if om_DeletionTimestamp (pvc_Meta pvc) \<noteq> None then Inr (pvc, False)
         else (case validateSessionWorkload ''*v1.PersistentVolumeClaim'' (pvc_Meta pvc) session of
           Some e \<Rightarrow> Inl e | None \<Rightarrow> Inr (pvc, True))) }"

definition ensureServiceAccount :: "klib \<Rightarrow> kube_api \<Rightarrow> AgentSession \<Rightarrow> ('m, kerr option) kube" where
  "ensureServiceAccount L A session = do {
     let key = (om_Namespace (as_Meta session), ServiceAccountName L (sp_SessionID (as_Spec session)));
     r \<leftarrow> get_sa A key;
     case r of
       Inr existing \<Rightarrow> State_Monad.return (validateSessionWorkload ''*v1.ServiceAccount'' (sa_Meta existing) session)
     | Inl e \<Rightarrow>
         if \<not> IsNotFound e then State_Monad.return (Some (Wrapf (''get ServiceAccount '' @ show_key key) e))
         else (case SetControllerReference L (as_Meta session)
             (zero_ObjectMeta\<lparr>om_Name := snd key, om_Namespace := fst key, om_Labels := sessionLabels session\<rparr>) of
           Inl e' \<Rightarrow> State_Monad.return (Some (Wrapf (''own ServiceAccount '' @ show_key key) e'))
         | Inr meta \<Rightarrow> do {
             r' \<leftarrow> create_sa A \<lparr>sa_Meta = meta, sa_AutomountServiceAccountToken = False\<rparr>;
             State_Monad.return (case r' of
               Some e' \<Rightarrow> if IsAlreadyExists e' then None
                         else Some (Wrapf (''create ServiceAccount '' @ show_key key) e')
             | None \<Rightarrow> None) }) }"

section \<open>Status updates, retries and failures\<close>

definition set_status_once :: "klib \<Rightarrow> kube_api \<Rightarrow> nskey \<Rightarrow> int \<Rightarrow> (AgentSessionStatus \<Rightarrow> AgentSessionStatus) \<Rightarrow>
    ('m, kerr option) kube" where
  "set_status_once L A key expectedGeneration mutate = do {
     r \<leftarrow> get_session A key;
     case r of
       Inl e \<Rightarrow> State_Monad.return (Some (Wrapf (''refresh AgentSession '' @ show_key key @ '' before status update'') e))
     | Inr current \<Rightarrow>
         if om_Generation (as_Meta current) \<noteq> expectedGeneration
         then State_Monad.return (Some (Errorf (''AgentSession generation changed from '' @ show_int expectedGeneration @
           '' to '' @ show_int (om_Generation (as_Meta current)))))
         else let desired = mutate (as_Status current) in
           if DeepEqual_status L (as_Status current) desired then State_Monad.return None
           else do {
             u \<leftarrow> status_update A (current\<lparr>as_Status := desired\<rparr>);
             State_Monad.return (map_option (Wrapf (''update AgentSession '' @ show_key key @ '' status'')) u) } }"

definition setStatus :: "klib \<Rightarrow> kube_api \<Rightarrow> nskey \<Rightarrow> int \<Rightarrow> (AgentSessionStatus \<Rightarrow> AgentSessionStatus) \<Rightarrow>
    ('m, kerr option) kube" where
  "setStatus L A key expectedGeneration mutate =
     retry_on_conflict (retry_steps L) (set_status_once L A key expectedGeneration mutate)"

definition fail_status :: "klib \<Rightarrow> AgentSession \<Rightarrow> string \<Rightarrow> string \<Rightarrow> AgentSessionStatus \<Rightarrow> AgentSessionStatus" where
  "fail_status L session reason message status =
     setSessionCondition L (om_Generation (as_Meta session)) ''False'' reason message
       (status\<lparr>st_Phase := PhaseFailed, st_ObservedGeneration := om_Generation (as_Meta session),
          st_ObservedResumeNonce := sp_ResumeNonce (as_Spec session),
          st_RuntimeCheckpoint := map_option (\<lambda>c.
            if cp_State c = CheckpointCreating \<or> cp_State c = CheckpointRestoring
            then c\<lparr>cp_State := CheckpointFailed, cp_Reason := reason\<rparr> else c) (st_RuntimeCheckpoint status)\<rparr>)"

definition fail_session :: "klib \<Rightarrow> kube_api \<Rightarrow> AgentSession \<Rightarrow> string \<Rightarrow> string \<Rightarrow> ('m, Result \<times> kerr option) kube" where
  "fail_session L A session reason message = do {
     err \<leftarrow> setStatus L A (ObjectKey (as_Meta session)) (om_Generation (as_Meta session))
              (fail_status L session reason message);
     State_Monad.return (done_result, err) }"

definition transient_status :: "klib \<Rightarrow> AgentSession \<Rightarrow> int \<Rightarrow> kerr \<Rightarrow> AgentSessionStatus \<Rightarrow> AgentSessionStatus" where
  "transient_status L session attempt cause status =
     status\<lparr>st_Phase := (if st_Phase status = PhaseUnset then PhasePending else st_Phase status),
       st_ObservedGeneration := om_Generation (as_Meta session),
       st_Conditions := SetStatusCondition L (st_Conditions status)
         \<lparr>c_Type = sessionRetryCondition, c_Status = ''True'', c_ObservedGeneration = om_Generation (as_Meta session),
          c_Reason = ''TransientError'',
          c_Message = ''attempt='' @ show_int attempt @ ''; '' @ safeConditionMessage (ke_msg cause)\<rparr>\<rparr>"

definition transient_delay :: "int \<Rightarrow> Result \<times> kerr option" where
  "transient_delay attempt =
     (let shift = min (i64 (attempt - 1)) 8
      in if shift < 0 then (done_result, Some (Errorf ''panic: runtime error: negative shift amount [recovered]''))
         else (requeue_after (second * 2 ^ nat shift), None))"

definition handleTransient :: "klib \<Rightarrow> kube_api \<Rightarrow> AgentSession \<Rightarrow> kerr \<Rightarrow> ('m, Result \<times> kerr option) kube" where
  "handleTransient L A session cause =
     (let attempt = i64 (retryAttempt L (st_Conditions (as_Status session)) (om_Generation (as_Meta session)) + 1)
      in if attempt \<ge> maxTransientRetries
         then fail_session L A session ''RetryBudgetExceeded''
           (''Reconciliation failed after '' @ show_int attempt @ '' attempts'')
         else do {
           r \<leftarrow> setStatus L A (ObjectKey (as_Meta session)) (om_Generation (as_Meta session))
                  (transient_status L session attempt cause);
           State_Monad.return (case r of
             Some err \<Rightarrow> (done_result, Some (errors_Join cause err))
           | None \<Rightarrow> transient_delay attempt) })"

section \<open>Hibernation\<close>

definition creating_checkpoint :: "AgentSession \<Rightarrow> string \<Rightarrow> RuntimeCheckpointStatus" where
  "creating_checkpoint session nodeName =
     \<lparr>cp_Mode = CheckpointModeApplication, cp_State = CheckpointCreating, cp_ID = sp_ResumeNonce (as_Spec session),
      cp_NodeName = nodeName, cp_CreatedAt = None, cp_SizeBytes = 0, cp_SHA256 = [], cp_AgentImageDigest = [],
      cp_RuntimeVersions = \<lparr>rv_Containerd = [], rv_Runc = [], rv_CRIU = []\<rparr>, cp_Reason = []\<rparr>"

definition ready_checkpoint :: "AgentSession \<Rightarrow> Pod \<Rightarrow> QuiesceResult \<Rightarrow> RuntimeCheckpointStatus" where
  "ready_checkpoint session pod result =
     (creating_checkpoint session (ps_NodeName (pod_Spec pod)))\<lparr>cp_State := CheckpointReady,
        cp_CreatedAt := Some (qr_CreatedAt result), cp_SizeBytes := qr_SizeBytes result,
        cp_SHA256 := qr_SHA256 result, cp_AgentImageDigest := qr_AgentImageDigest result\<rparr>"

definition hibernating_status :: "klib \<Rightarrow> AgentSession \<Rightarrow> AgentSessionStatus \<Rightarrow> AgentSessionStatus" where
  "hibernating_status L session status =
     setSessionCondition L (om_Generation (as_Meta session)) ''False'' ''Quiescing''
       ''Agent runtime is draining before hibernation''
       (status\<lparr>st_Phase := PhaseHibernating, st_ObservedGeneration := om_Generation (as_Meta session),
          st_RuntimeCheckpoint := Some (creating_checkpoint session (st_NodeName status))\<rparr>)"

definition restart_checkpoint_status :: "klib \<Rightarrow> AgentSession \<Rightarrow> Pod \<Rightarrow> AgentSessionStatus \<Rightarrow> AgentSessionStatus" where
  "restart_checkpoint_status L session pod status =
     setSessionCondition L (om_Generation (as_Meta session)) ''False'' ''Quiescing''
       ''Agent runtime is draining before hibernation''
       (status\<lparr>st_RuntimeCheckpoint := Some (creating_checkpoint session (ps_NodeName (pod_Spec pod)))\<rparr>)"

definition recovery_ready_status :: "klib \<Rightarrow> AgentSession \<Rightarrow> Pod \<Rightarrow> QuiesceResult \<Rightarrow> AgentSessionStatus \<Rightarrow> AgentSessionStatus" where
  "recovery_ready_status L session pod result status =
     setSessionCondition L (om_Generation (as_Meta session)) ''False'' ''RecoveryReady''
       ''Application recovery manifest is durable; Agent Pod is stopping''
       (clearRetryCondition L (status\<lparr>st_RuntimeCheckpoint := Some (ready_checkpoint session pod result)\<rparr>))"

definition hibernated_status :: "klib \<Rightarrow> AgentSession \<Rightarrow> AgentSessionStatus \<Rightarrow> AgentSessionStatus" where
  "hibernated_status L session status =
     setSessionCondition L (om_Generation (as_Meta session)) ''False'' ''SessionHibernated''
       ''Agent Pod is stopped and workspace PVC is retained''
       (status\<lparr>st_Phase := PhaseHibernated, st_PodName := [], st_NodeName := [],
          st_ObservedGeneration := om_Generation (as_Meta session),
          st_ObservedResumeNonce := (if sp_DesiredState (as_Spec session) = DesiredStateHibernated
            then sp_ResumeNonce (as_Spec session) else st_ObservedResumeNonce status)\<rparr>)"

text \<open>What every status update of the reconciler does after \<open>setStatus\<close>: return its error, or the given result.\<close>

definition status_then :: "klib \<Rightarrow> kube_api \<Rightarrow> AgentSession \<Rightarrow> (AgentSessionStatus \<Rightarrow> AgentSessionStatus) \<Rightarrow> Result \<Rightarrow>
    ('m, Result \<times> kerr option) kube" where
  "status_then L A session mutate result = do {
     r \<leftarrow> setStatus L A (ObjectKey (as_Meta session)) (om_Generation (as_Meta session)) mutate;
     State_Monad.return (case r of Some err \<Rightarrow> (done_result, Some err) | None \<Rightarrow> (result, None)) }"

definition checkpoint_current :: "AgentSession \<Rightarrow> RuntimeCheckpointStatus option" where
  "checkpoint_current session = (case st_RuntimeCheckpoint (as_Status session) of
     None \<Rightarrow> None
   | Some c \<Rightarrow> if cp_Mode c \<noteq> CheckpointModeApplication \<or> cp_ID c \<noteq> sp_ResumeNonce (as_Spec session) then None
              else Some c)"

definition hibernate_pod :: "klib \<Rightarrow> kube_api \<Rightarrow> AgentSessionReconciler \<Rightarrow> AgentSession \<Rightarrow> Pod \<Rightarrow>
    ('m, Result \<times> kerr option) kube" where
  "hibernate_pod L A r session pod =
     (case checkpoint_current session of
        None \<Rightarrow> status_then L A session (restart_checkpoint_status L session pod) requeue
      | Some checkpoint \<Rightarrow>
          if cp_State checkpoint = CheckpointCreating then
            (if \<not> rc_Quiescer r then handleTransient L A session (Errorf ''agent quiescer is not configured'')
             else do {
               q \<leftarrow> Quiesce L A pod;
               case q of
                 Inl e \<Rightarrow> handleTransient L A session (Wrapf (''quiesce agent Pod '' @ om_Name (pod_Meta pod)) e)
               | Inr result \<Rightarrow> status_then L A session (recovery_ready_status L session pod result) requeue })
          else if cp_State checkpoint \<noteq> CheckpointReady
          then fail_session L A session ''RecoveryUnavailable'' ''Application recovery manifest is not ready''
          else do {
            d \<leftarrow> delete_pod A pod (Some maxHibernateGrace);
            case d of
              Some e \<Rightarrow>
                if \<not> IsNotFound e
                then handleTransient L A session
                  (Wrapf (''delete Pod '' @ om_Name (pod_Meta pod) @ '' during hibernation'') e)
                else State_Monad.return (requeue_after second, None)
            | None \<Rightarrow> State_Monad.return (requeue_after second, None) })"

definition reconcileHibernate :: "klib \<Rightarrow> kube_api \<Rightarrow> AgentSessionReconciler \<Rightarrow> AgentSession \<Rightarrow>
    ('m, Result \<times> kerr option) kube" where
  "reconcileHibernate L A r session =
     (if st_Phase (as_Status session) \<noteq> PhaseHibernating
      then status_then L A session (hibernating_status L session) requeue
      else do {
        g \<leftarrow> getPod L A session;
        case g of
          Inl e \<Rightarrow> handleTransient L A session e
        | Inr (pod, exists) \<Rightarrow>
            if exists then hibernate_pod L A r session pod
            else status_then L A session (hibernated_status L session)
              \<lparr>res_Requeue = (sp_DesiredState (as_Spec session) = DesiredStateRunning), res_RequeueAfter = 0\<rparr> })"

definition deadline_status :: "klib \<Rightarrow> AgentSession \<Rightarrow> string \<Rightarrow> AgentSessionStatus \<Rightarrow> AgentSessionStatus" where
  "deadline_status L session nonce status =
     setSessionCondition L (om_Generation (as_Meta session)) ''False'' ''ActiveDeadlineReached''
       ''Agent Pod reached its active deadline; workspace PVC is retained''
       (status\<lparr>st_Phase := PhaseHibernated, st_PodName := [], st_NodeName := [],
          st_ObservedGeneration := om_Generation (as_Meta session), st_ObservedResumeNonce := nonce\<rparr>)"

definition hibernateStoppedPod :: "klib \<Rightarrow> kube_api \<Rightarrow> AgentSession \<Rightarrow> Pod \<Rightarrow> ('m, Result \<times> kerr option) kube" where
  "hibernateStoppedPod L A session pod = do {
     let nonce = sget (om_Annotations (pod_Meta pod)) ResumeNonceAnnotation;
     let finish = status_then L A session (deadline_status L session nonce)
           \<lparr>res_Requeue = (nonce \<noteq> sp_ResumeNonce (as_Spec session)), res_RequeueAfter = 0\<rparr>;
     d \<leftarrow> delete_pod A pod None;
     case d of
       Some e \<Rightarrow> if \<not> IsNotFound e
         then handleTransient L A session (Wrapf (''delete deadline-stopped Pod '' @ om_Name (pod_Meta pod)) e)
         else finish
     | None \<Rightarrow> finish }"

section \<open>Deletion\<close>

definition deleting_status :: "klib \<Rightarrow> AgentSession \<Rightarrow> AgentSessionStatus \<Rightarrow> AgentSessionStatus" where
  "deleting_status L session status =
     setSessionCondition L (om_Generation (as_Meta session)) ''False'' ''Deleting''
       ''Permanently deleting agent Pod and workspace PVC''
       (status\<lparr>st_Phase := PhaseDeleting, st_ObservedGeneration := om_Generation (as_Meta session)\<rparr>)"

text \<open>\<open>if err := r.Delete(...); err != nil && !IsNotFound(err)\<close>: the error to handle, if any.\<close>

definition unless_not_found :: "kerr option \<Rightarrow> kerr option" where
  "unless_not_found r = (case r of Some e \<Rightarrow> (if IsNotFound e then None else Some e) | None \<Rightarrow> None)"

definition delete_claim :: "klib \<Rightarrow> kube_api \<Rightarrow> AgentSession \<Rightarrow> ('m, Result \<times> kerr option) kube" where
  "delete_claim L A session = do {
     g \<leftarrow> getPVC L A session;
     case g of
       Inl e \<Rightarrow> handleTransient L A session e
     | Inr (pvc, exists) \<Rightarrow>
         if exists then do {
           d \<leftarrow> delete_pvc A pvc;
           case unless_not_found d of
             Some e \<Rightarrow> handleTransient L A session (Wrapf (''delete PersistentVolumeClaim '' @ om_Name (pvc_Meta pvc)) e)
           | None \<Rightarrow> State_Monad.return (requeue_after second, None) }
         else do {
           u \<leftarrow> update_session A (session\<lparr>as_Meta := RemoveFinalizer L (as_Meta session) agentSessionFinalizer\<rparr>);
           State_Monad.return (done_result,
             map_option (Wrapf (''remove AgentSession finalizer '' @ om_Name (as_Meta session))) (unless_not_found u)) } }"

definition delete_workload :: "klib \<Rightarrow> kube_api \<Rightarrow> AgentSession \<Rightarrow> ('m, Result \<times> kerr option) kube" where
  "delete_workload L A session = do {
     g \<leftarrow> getPod L A session;
     case g of
       Inl e \<Rightarrow> handleTransient L A session e
     | Inr (pod, exists) \<Rightarrow>
         if exists then do {
           d \<leftarrow> delete_pod A pod None;
           case unless_not_found d of
             Some e \<Rightarrow> handleTransient L A session (Wrapf (''delete Pod '' @ om_Name (pod_Meta pod)) e)
           | None \<Rightarrow> State_Monad.return (requeue_after second, None) }
         else do {
           let saName = ServiceAccountName L (sp_SessionID (as_Spec session));
           d \<leftarrow> delete_sa A (om_Namespace (as_Meta session), saName);
           case unless_not_found d of
             Some e \<Rightarrow> handleTransient L A session (Wrapf (''delete ServiceAccount '' @ saName) e)
           | None \<Rightarrow> delete_claim L A session } }"

definition reconcileDelete :: "klib \<Rightarrow> kube_api \<Rightarrow> AgentSession \<Rightarrow> ('m, Result \<times> kerr option) kube" where
  "reconcileDelete L A session =
     (if \<not> ContainsFinalizer L (as_Meta session) agentSessionFinalizer
      then State_Monad.return (done_result, None)
      else do {
        r \<leftarrow> setStatus L A (ObjectKey (as_Meta session)) (om_Generation (as_Meta session)) (deleting_status L session);
        case unless_not_found r of
          Some err \<Rightarrow> State_Monad.return (done_result, Some err)
        | None \<Rightarrow> delete_workload L A session })"

section \<open>Running\<close>

definition restoring :: "AgentSession \<Rightarrow> bool" where
  "restoring session \<longleftrightarrow> st_Phase (as_Status session) = PhaseHibernated \<or> st_Phase (as_Status session) = PhaseRestoring"

definition start_phase :: "AgentSession \<Rightarrow> AgentSessionPhase" where
  "start_phase session = (if restoring session then PhaseRestoring else PhaseProvisioning)"

definition awaiting_status :: "klib \<Rightarrow> AgentSession \<Rightarrow> string \<Rightarrow> AgentSessionStatus \<Rightarrow> AgentSessionStatus" where
  "awaiting_status L session pvcName status =
     setSessionCondition L (om_Generation (as_Meta session)) ''False'' ''AwaitingCapacity''
       ''Agent session is waiting for a 500m CPU allocation''
       (status\<lparr>st_Phase := PhasePending, st_PVCName := pvcName,
          st_ObservedGeneration := om_Generation (as_Meta session)\<rparr>)"

definition preparing_status :: "klib \<Rightarrow> AgentSession \<Rightarrow> string \<Rightarrow> AgentSessionStatus \<Rightarrow> AgentSessionStatus" where
  "preparing_status L session pvcName status =
     setSessionCondition L (om_Generation (as_Meta session)) ''False'' (show_phase (start_phase session))
       ''Agent workload is being prepared''
       (status\<lparr>st_Phase := start_phase session, st_PVCName := pvcName,
          st_ObservedGeneration := om_Generation (as_Meta session),
          st_RuntimeCheckpoint := (if restoring session
            then map_option (\<lambda>c. c\<lparr>cp_State := CheckpointRestoring\<rparr>) (st_RuntimeCheckpoint status)
            else st_RuntimeCheckpoint status)\<rparr>)"

definition pod_status :: "klib \<Rightarrow> AgentSession \<Rightarrow> string \<Rightarrow> string \<Rightarrow> string \<Rightarrow> string \<Rightarrow> AgentSessionStatus \<Rightarrow> AgentSessionStatus" where
  "pod_status L session podName pvcName reason message status =
     setSessionCondition L (om_Generation (as_Meta session)) ''False'' reason message
       (status\<lparr>st_Phase := start_phase session, st_PodName := podName, st_PVCName := pvcName,
          st_ObservedGeneration := om_Generation (as_Meta session)\<rparr>)"

definition live_status :: "AgentSession \<Rightarrow> Pod \<Rightarrow> string \<Rightarrow> time \<Rightarrow> AgentSessionPhase \<Rightarrow> AgentSessionStatus \<Rightarrow> AgentSessionStatus" where
  "live_status session pod pvcName activity phase status =
     status\<lparr>st_Phase := phase, st_LastActiveAt := Some activity, st_NodeName := ps_NodeName (pod_Spec pod),
       st_PodName := om_Name (pod_Meta pod), st_PVCName := pvcName,
       st_ObservedGeneration := om_Generation (as_Meta session),
       st_ObservedResumeNonce := sget (om_Annotations (pod_Meta pod)) ResumeNonceAnnotation\<rparr>"

definition idle_status :: "klib \<Rightarrow> AgentSession \<Rightarrow> Pod \<Rightarrow> string \<Rightarrow> time \<Rightarrow> AgentSessionStatus \<Rightarrow> AgentSessionStatus" where
  "idle_status L session pod pvcName activity status =
     setSessionCondition L (om_Generation (as_Meta session)) ''True'' ''SessionIdle''
       ''Agent Pod is idle and awaiting confirmation before hibernation''
       (live_status session pod pvcName activity PhaseIdle status)"

definition running_status :: "klib \<Rightarrow> AgentSession \<Rightarrow> Pod \<Rightarrow> string \<Rightarrow> time \<Rightarrow> AgentWorkState \<Rightarrow> AgentSessionStatus \<Rightarrow> AgentSessionStatus" where
  "running_status L session pod pvcName activity workState status =
     (let (reason, message) = agentWorkCondition workState
      in setSessionCondition L (om_Generation (as_Meta session)) ''True'' reason message
        (clearRetryCondition L ((live_status session pod pvcName activity PhaseRunning status)\<lparr>
           st_RuntimeCheckpoint := map_option (\<lambda>c.
             if cp_State c = CheckpointReady \<or> cp_State c = CheckpointRestoring
             then c\<lparr>cp_State := CheckpointConsumed\<rparr> else c) (st_RuntimeCheckpoint status)\<rparr>)))"

definition idle_now :: "AgentSession \<Rightarrow> time \<Rightarrow> time \<Rightarrow> AgentWorkState \<Rightarrow> bool" where
  "idle_now session now activity workState \<longleftrightarrow>
     time_sub now activity \<ge> i64 (sp_IdleTimeoutSeconds (as_Spec session) * second) \<and>
     \<not> (workState = AgentWorkStateWorking \<or> workState = AgentWorkStateAwaitingApproval \<or>
        workState = AgentWorkStateAwaitingChoice)"

definition run_ready_pod :: "klib \<Rightarrow> kube_api \<Rightarrow> AgentSessionReconciler \<Rightarrow> AgentSession \<Rightarrow> string \<Rightarrow> Pod \<Rightarrow>
    ('m, Result \<times> kerr option) kube" where
  "run_ready_pod L A r session pvcName pod = do {
     workState \<leftarrow> (if rc_StateReader r then do {
         s \<leftarrow> ReadState A pod;
         State_Monad.return (case s of Inl e \<Rightarrow> AgentWorkStateUnknown | Inr current \<Rightarrow> current) }
       else State_Monad.return AgentWorkStateUnknown);
     let activity = sessionActivity L session (om_CreationTimestamp (pod_Meta pod));
     now \<leftarrow> time_now A;
     let idle = idle_now session now activity workState;
     if idle \<and> st_Phase (as_Status session) = PhaseRunning
     then status_then L A session (idle_status L session pod pvcName activity) (requeue_after (idleScan r))
     else if idle \<and> st_Phase (as_Status session) = PhaseIdle
     then reconcileHibernate L A r session
     else status_then L A session (running_status L session pod pvcName activity workState)
       (requeue_after (idleScan r)) }"

definition create_agent_pod :: "klib \<Rightarrow> kube_api \<Rightarrow> AgentSessionReconciler \<Rightarrow> AgentSession \<Rightarrow> string \<Rightarrow>
    ('m, Result \<times> kerr option) kube" where
  "create_agent_pod L A r session pvcName =
     (let desired = desiredPod L r session pvcName;
          finish = (\<lambda>pod. status_then L A session
            (pod_status L session (om_Name (pod_Meta pod)) pvcName (show_phase (start_phase session)) ''Agent Pod is starting'')
            (requeue_after (idleScan r)))
      in case SetControllerReference L (as_Meta session) (pod_Meta desired) of
           Inl e \<Rightarrow> fail_session L A session ''OwnershipError'' (''Could not own agent Pod: '' @ ke_msg e)
         | Inr meta \<Rightarrow> do {
             let owned = desired\<lparr>pod_Meta := meta\<rparr>;
             c \<leftarrow> create_pod A owned;
             case c of
               Inl e \<Rightarrow> if \<not> IsAlreadyExists e
                 then handleTransient L A session (Wrapf (''create Pod '' @ om_Name (pod_Meta owned)) e)
                 else finish owned
             | Inr pod \<Rightarrow> finish pod })"

definition run_pod :: "klib \<Rightarrow> kube_api \<Rightarrow> AgentSessionReconciler \<Rightarrow> AgentSession \<Rightarrow> string \<Rightarrow>
    ('m, Result \<times> kerr option) kube" where
  "run_pod L A r session pvcName = do {
     g \<leftarrow> getPod L A session;
     case g of
       Inl e \<Rightarrow> handleTransient L A session e
     | Inr (pod, exists) \<Rightarrow>
         if \<not> exists then create_agent_pod L A r session pvcName
         else if podStoppedByDeadline pod then hibernateStoppedPod L A session pod
         else if pod_Phase pod = ''Failed''
         then handleTransient L A session (Errorf (''agent Pod failed: '' @ pod_Message pod))
         else (case podScheduledCondition pod of
             Some condition \<Rightarrow>
               if pc_Status condition = ''False'' \<and> pc_Reason condition = ''Unschedulable''
               then status_then L A session (pod_status L session (om_Name (pod_Meta pod)) pvcName ''Unschedulable''
                 (readableSchedulingMessage (pc_Message condition))) (requeue_after (idleScan r))
               else if \<not> podReady pod then State_Monad.return (requeue_after (idleScan r), None)
               else run_ready_pod L A r session pvcName pod
           | None \<Rightarrow>
               if \<not> podReady pod then State_Monad.return (requeue_after (idleScan r), None)
               else run_ready_pod L A r session pvcName pod) }"

definition run_claimed :: "klib \<Rightarrow> kube_api \<Rightarrow> AgentSessionReconciler \<Rightarrow> AgentSession \<Rightarrow> string \<Rightarrow>
    ('m, Result \<times> kerr option) kube" where
  "run_claimed L A r session pvcName = do {
     s \<leftarrow> ensureServiceAccount L A session;
     case s of
       Some e \<Rightarrow> handleTransient L A session e
     | None \<Rightarrow>
         if rc_CapacitySchedulingEnabled r \<and> st_PodName (as_Status session) = [] \<and>
           sget (om_Annotations (as_Meta session)) schedulingNodeAnnotation = []
         then status_then L A session (awaiting_status L session pvcName) (requeue_after (idleScan r))
         else if st_Phase (as_Status session) = PhaseUnset \<or> st_Phase (as_Status session) = PhasePending \<or>
           st_Phase (as_Status session) = PhaseHibernated \<or> st_Phase (as_Status session) = PhaseFailed
         then status_then L A session (preparing_status L session pvcName) requeue
         else run_pod L A r session pvcName }"

definition reconcileRunning :: "klib \<Rightarrow> kube_api \<Rightarrow> AgentSessionReconciler \<Rightarrow> AgentSession \<Rightarrow>
    ('m, Result \<times> kerr option) kube" where
  "reconcileRunning L A r session = do {
     g \<leftarrow> getPVC L A session;
     case g of
       Inl e \<Rightarrow> handleTransient L A session e
     | Inr (pvc, pvcExists) \<Rightarrow>
         if restoring session \<and> st_PVCName (as_Status session) \<noteq> [] \<and> \<not> pvcExists
         then fail_session L A session ''WorkspaceUnavailable''
           ''Original workspace PVC is unavailable; an empty workspace was not created''
         else if pvcExists then run_claimed L A r session (om_Name (pvc_Meta pvc))
         else (let desired = desiredPVC L session (rc_StorageClassName r) in
           case SetControllerReference L (as_Meta session) (pvc_Meta desired) of
             Inl e \<Rightarrow> fail_session L A session ''OwnershipError'' (''Could not own workspace PVC: '' @ ke_msg e)
           | Inr meta \<Rightarrow> do {
               let owned = desired\<lparr>pvc_Meta := meta\<rparr>;
               c \<leftarrow> create_pvc A owned;
               case c of
                 Inl e \<Rightarrow> if \<not> IsAlreadyExists e
                   then handleTransient L A session (Wrapf (''create PersistentVolumeClaim '' @ om_Name (pvc_Meta owned)) e)
                   else run_claimed L A r session (om_Name (pvc_Meta owned))
               | Inr created \<Rightarrow> run_claimed L A r session (om_Name (pvc_Meta created)) }) }"

section \<open>Reconcile\<close>

definition invalid_status :: "klib \<Rightarrow> AgentSession \<Rightarrow> kerr \<Rightarrow> AgentSessionStatus \<Rightarrow> AgentSessionStatus" where
  "invalid_status L session err status =
     setSessionCondition L (om_Generation (as_Meta session)) ''False'' ''InvalidSpec'' (ke_msg err)
       (status\<lparr>st_Phase := PhaseFailed\<rparr>)"

definition reconcile_active :: "klib \<Rightarrow> kube_api \<Rightarrow> AgentSessionReconciler \<Rightarrow> AgentSession \<Rightarrow>
    ('m, Result \<times> kerr option) kube" where
  "reconcile_active L A r session =
     (if st_Phase (as_Status session) = PhaseFailed \<and>
        st_ObservedGeneration (as_Status session) = om_Generation (as_Meta session) \<and>
        st_ObservedResumeNonce (as_Status session) = sp_ResumeNonce (as_Spec session)
      then State_Monad.return (done_result, None)
      else if sp_DesiredState (as_Spec session) = DesiredStateHibernated \<and>
        st_Phase (as_Status session) = PhaseHibernated
      then State_Monad.return (done_result, None)
      else if sp_DesiredState (as_Spec session) = DesiredStateHibernated
      then reconcileHibernate L A r session
      else if st_Phase (as_Status session) = PhaseHibernating
      then reconcileHibernate L A r session
      else if st_Phase (as_Status session) = PhaseHibernated \<and>
        st_ObservedResumeNonce (as_Status session) = sp_ResumeNonce (as_Spec session)
      then State_Monad.return (done_result, None)
      else reconcileRunning L A r session)"

definition reconcile_session :: "klib \<Rightarrow> kube_api \<Rightarrow> AgentSessionReconciler \<Rightarrow> AgentSession \<Rightarrow> nskey \<Rightarrow>
    ('m, Result \<times> kerr option) kube" where
  "reconcile_session L A r session key =
     (if om_DeletionTimestamp (as_Meta session) \<noteq> None then reconcileDelete L A session
      else (case validateAgentSession L session of
        Some err \<Rightarrow> do {
          s \<leftarrow> setStatus L A key (om_Generation (as_Meta session)) (invalid_status L session err);
          State_Monad.return (done_result, s) }
      | None \<Rightarrow>
          if \<not> ContainsFinalizer L (as_Meta session) agentSessionFinalizer
          then do {
            u \<leftarrow> update_session A (session\<lparr>as_Meta := AddFinalizer L (as_Meta session) agentSessionFinalizer\<rparr>);
            State_Monad.return (case u of
              Some e \<Rightarrow> (done_result, Some (Wrapf (''add AgentSession finalizer '' @ om_Name (as_Meta session)) e))
            | None \<Rightarrow> (requeue, None)) }
          else reconcile_active L A r session))"

definition Reconcile :: "klib \<Rightarrow> kube_api \<Rightarrow> AgentSessionReconciler \<Rightarrow> nskey \<Rightarrow> ('m, Result \<times> kerr option) kube" where
  "Reconcile L A r key = do {
     g \<leftarrow> get_session A key;
     case g of
       Inl e \<Rightarrow> State_Monad.return (done_result,
         if IsNotFound e then None else Some (Wrapf (''get AgentSession '' @ show_key key) e))
     | Inr session \<Rightarrow> reconcile_session L A r session key }"

definition SetupWithManager :: "AgentSessionReconciler \<Rightarrow> kerr option" where
  "SetupWithManager r =
     (if rc_AgentImage r = [] then Some (Errorf ''agent image must not be empty'')
      else if rc_StorageClassName r = [] then Some (Errorf ''storage class name must not be empty'')
      else if rc_GatewayURL r = [] then Some (Errorf ''gateway URL must not be empty'')
      else if rc_EgressProxyURL r = [] then Some (Errorf ''egress proxy URL must not be empty'')
      else if \<not> rc_Quiescer r then Some (Errorf ''agent quiescer must not be nil'')
      else None)"

end
