(* ===== verification/Session_Safety.thy ===== *)
theory Session_Safety
  imports Session_Controller "HOL-Library.Sublist"
begin

text \<open>
  What one run of the AgentSession reconciler may do, whatever the API server answers. \<open>phase_step\<close> is the
  state machine of the phases as an inductive relation, \<open>allowed\<close> the events a run may emit, given the session it
  read and what it has seen since it started. Each function of the controller is shown to stay within \<open>allowed\<close>.
\<close>

section \<open>Allowed events\<close>

definition pod_key :: "klib \<Rightarrow> AgentSession \<Rightarrow> nskey" where
  "pod_key L s = (om_Namespace (as_Meta s), PodName L (sp_SessionID (as_Spec s)))"

definition pvc_key :: "klib \<Rightarrow> AgentSession \<Rightarrow> nskey" where
  "pvc_key L s = (om_Namespace (as_Meta s), PVCName L (sp_SessionID (as_Spec s)))"

definition sa_key :: "klib \<Rightarrow> AgentSession \<Rightarrow> nskey" where
  "sa_key L s = (om_Namespace (as_Meta s), ServiceAccountName L (sp_SessionID (as_Spec s)))"

definition being_deleted :: "AgentSession \<Rightarrow> bool" where
  "being_deleted s \<longleftrightarrow> om_DeletionTimestamp (as_Meta s) \<noteq> None"

definition owned_by :: "AgentSession \<Rightarrow> ObjectMeta \<Rightarrow> bool" where
  "owned_by s m \<longleftrightarrow> sget (om_Labels m) managedByLabel = managedByValue \<and>
     sget (om_Labels m) userLabel = sp_UserID (as_Spec s) \<and> sget (om_Labels m) sessionLabel = sp_SessionID (as_Spec s)"

definition seen_pod_absent :: "klib \<Rightarrow> AgentSession \<Rightarrow> event set \<Rightarrow> bool" where
  "seen_pod_absent L s E \<longleftrightarrow> (\<exists>e. EvGetPod (pod_key L s) (Inl e) \<in> E \<and> IsNotFound e)"

definition seen_pod :: "klib \<Rightarrow> AgentSession \<Rightarrow> event set \<Rightarrow> Pod \<Rightarrow> bool" where
  "seen_pod L s E pod \<longleftrightarrow> EvGetPod (pod_key L s) (Inr pod) \<in> E \<and> owned_by s (pod_Meta pod)"

definition seen_pvc_absent :: "klib \<Rightarrow> AgentSession \<Rightarrow> event set \<Rightarrow> bool" where
  "seen_pvc_absent L s E \<longleftrightarrow> (\<exists>e. EvGetPVC (pvc_key L s) (Inl e) \<in> E \<and> IsNotFound e) \<or>
     (\<exists>pvc. EvGetPVC (pvc_key L s) (Inr pvc) \<in> E \<and> om_DeletionTimestamp (pvc_Meta pvc) \<noteq> None)"

definition checkpoint_ready :: "AgentSession \<Rightarrow> bool" where
  "checkpoint_ready s \<longleftrightarrow> (\<exists>c. st_RuntimeCheckpoint (as_Status s) = Some c \<and> cp_State c = CheckpointReady \<and>
     cp_Mode c = CheckpointModeApplication \<and> cp_ID c = sp_ResumeNonce (as_Spec s))"

inductive phase_step :: "klib \<Rightarrow> AgentSession \<Rightarrow> event set \<Rightarrow> AgentSessionPhase \<Rightarrow> AgentSessionPhase \<Rightarrow> bool"
  for L :: klib and s :: AgentSession and E :: "event set" where
  stay: "phase_step L s E p p"
| failing: "phase_step L s E p PhaseFailed"
| deleting: "being_deleted s \<Longrightarrow> phase_step L s E p PhaseDeleting"
| pending: "phase_step L s E PhaseUnset PhasePending"
| awaiting: "\<not> being_deleted s \<Longrightarrow> st_PodName (as_Status s) = [] \<Longrightarrow> phase_step L s E p PhasePending"
| starting: "\<not> being_deleted s \<Longrightarrow> phase_step L s E p (start_phase s)"
| idling: "st_Phase (as_Status s) = PhaseRunning \<Longrightarrow> seen_pod L s E pod \<Longrightarrow> podReady pod \<Longrightarrow> phase_step L s E p PhaseIdle"
| running: "\<not> being_deleted s \<Longrightarrow> seen_pod L s E pod \<Longrightarrow> podReady pod \<Longrightarrow> phase_step L s E p PhaseRunning"
| hibernating: "sp_DesiredState (as_Spec s) = DesiredStateHibernated \<or> st_Phase (as_Status s) = PhaseIdle \<Longrightarrow>
    phase_step L s E p PhaseHibernating"
| hibernated: "st_Phase (as_Status s) = PhaseHibernating \<Longrightarrow> seen_pod_absent L s E \<Longrightarrow> phase_step L s E p PhaseHibernated"
| stopped: "seen_pod L s E pod \<Longrightarrow> podStoppedByDeadline pod \<Longrightarrow> EvDeletePod pod None x \<in> E \<Longrightarrow>
    unless_not_found x = None \<Longrightarrow> phase_step L s E p PhaseHibernated"

definition valid_manifest :: "AgentSession \<Rightarrow> RuntimeCheckpointStatus \<Rightarrow> bool" where
  "valid_manifest s c \<longleftrightarrow> cp_Mode c = CheckpointModeApplication \<and> cp_ID c = sp_ResumeNonce (as_Spec s) \<and>
     sha256Pattern (cp_SHA256 c) \<and> 0 \<le> cp_SizeBytes c \<and> cp_SizeBytes c \<le> 2 ^ 20"

definition checkpoint_step :: "AgentSession \<Rightarrow> RuntimeCheckpointStatus option \<Rightarrow> RuntimeCheckpointStatus option \<Rightarrow> bool" where
  "checkpoint_step s old new \<longleftrightarrow>
     (\<forall>c. new = Some c \<and> cp_State c = CheckpointReady \<longrightarrow> old = Some c \<or> valid_manifest s c)"

definition status_step :: "klib \<Rightarrow> AgentSession \<Rightarrow> event set \<Rightarrow> AgentSessionStatus \<Rightarrow> AgentSessionStatus \<Rightarrow> bool" where
  "status_step L s E old new \<longleftrightarrow> phase_step L s E (st_Phase old) (st_Phase new) \<and>
     checkpoint_step s (st_RuntimeCheckpoint old) (st_RuntimeCheckpoint new)"

text \<open>The events since the first \<open>n\<close>.\<close>

definition since :: "nat \<Rightarrow> trace \<Rightarrow> event set" where
  "since n t = set (drop n t)"

fun allowed :: "klib \<Rightarrow> AgentSessionReconciler \<Rightarrow> AgentSession \<Rightarrow> nskey \<Rightarrow> nat \<Rightarrow> trace \<Rightarrow> event \<Rightarrow> bool" where
  "allowed L r s key n t (EvGetSession k x) = (k = key \<or> k = ObjectKey (as_Meta s))"
| "allowed L r s key n t (EvUpdateSession s' x) =
     (\<not> being_deleted s \<and> s' = s\<lparr>as_Meta := AddFinalizer L (as_Meta s) agentSessionFinalizer\<rparr> \<or>
      being_deleted s \<and> s' = s\<lparr>as_Meta := RemoveFinalizer L (as_Meta s) agentSessionFinalizer\<rparr> \<and>
        seen_pod_absent L s (since n t) \<and> seen_pvc_absent L s (since n t))"
| "allowed L r s key n t (EvStatusUpdate s' x) =
     (\<exists>t' k cur. t = t' @ [EvGetSession k (Inr cur)] \<and> (k = key \<or> k = ObjectKey (as_Meta s)) \<and>
        om_Generation (as_Meta cur) = om_Generation (as_Meta s) \<and>
        s' = cur\<lparr>as_Status := as_Status s'\<rparr> \<and> status_step L s (since n t') (as_Status cur) (as_Status s'))"
| "allowed L r s key n t (EvGetPod k x) = (k = pod_key L s)"
| "allowed L r s key n t (EvCreatePod pod x) =
     (\<not> being_deleted s \<and> sp_DesiredState (as_Spec s) \<noteq> DesiredStateHibernated \<and>
      st_Phase (as_Status s) \<noteq> PhaseHibernating \<and> seen_pod_absent L s (since n t) \<and>
      (\<exists>pvcName meta. SetControllerReference L (as_Meta s) (pod_Meta (desiredPod L r s pvcName)) = Inr meta \<and>
         pod = (desiredPod L r s pvcName)\<lparr>pod_Meta := meta\<rparr>))"
| "allowed L r s key n t (EvDeletePod pod grace x) =
     (seen_pod L s (since n t) pod \<and>
      (being_deleted s \<and> grace = None \<or> podStoppedByDeadline pod \<and> grace = None \<or>
       st_Phase (as_Status s) = PhaseHibernating \<and> checkpoint_ready s \<and> grace = Some maxHibernateGrace))"
| "allowed L r s key n t (EvGetPVC k x) = (k = pvc_key L s)"
| "allowed L r s key n t (EvCreatePVC pvc x) =
     (\<not> being_deleted s \<and> \<not> (restoring s \<and> st_PVCName (as_Status s) \<noteq> []) \<and> seen_pvc_absent L s (since n t) \<and>
      (\<exists>meta. SetControllerReference L (as_Meta s) (pvc_Meta (desiredPVC L s (rc_StorageClassName r))) = Inr meta \<and>
         pvc = (desiredPVC L s (rc_StorageClassName r))\<lparr>pvc_Meta := meta\<rparr>))"
| "allowed L r s key n t (EvDeletePVC pvc x) =
     (being_deleted s \<and> seen_pod_absent L s (since n t) \<and> EvGetPVC (pvc_key L s) (Inr pvc) \<in> since n t \<and>
      owned_by s (pvc_Meta pvc))"
| "allowed L r s key n t (EvGetSA k x) = (k = sa_key L s)"
| "allowed L r s key n t (EvCreateSA sa x) = (\<not> being_deleted s \<and> \<not> sa_AutomountServiceAccountToken sa)"
| "allowed L r s key n t (EvDeleteSA k x) = (being_deleted s \<and> k = sa_key L s \<and> seen_pod_absent L s (since n t))"
| "allowed L r s key n t (EvExec k container command x) =
     (\<not> being_deleted s \<and> container = agentContainerName \<and> (\<exists>pod. seen_pod L s (since n t) pod \<and> k = ObjectKey (pod_Meta pod)))"
| "allowed L r s key n t (EvNow x) = True"
| "allowed L r s key n t _ = False"

lemma since_mono: "prefix t t' \<Longrightarrow> since n t \<subseteq> since n t'"
  unfolding since_def prefix_def using set_append by auto

lemma since_snoc [simp]: "n \<le> length t \<Longrightarrow> since n (t @ [e]) = insert e (since n t)"
  by (auto simp: since_def)

lemma seen_mono:
  assumes "E \<subseteq> F"
  shows "seen_pod_absent L s E \<Longrightarrow> seen_pod_absent L s F" and "seen_pvc_absent L s E \<Longrightarrow> seen_pvc_absent L s F"
    and "seen_pod L s E pod \<Longrightarrow> seen_pod L s F pod"
  using assms by (auto simp: seen_pod_absent_def seen_pvc_absent_def seen_pod_def)

lemma phase_step_mono:
  assumes "phase_step L s E p q" and "E \<subseteq> F"
  shows "phase_step L s F p q"
  using assms
proof induction
  case (idling pod p)
  then show ?case using seen_mono(3) by (blast intro: phase_step.idling)
next
  case (running pod p)
  then show ?case using seen_mono(3) by (blast intro: phase_step.running)
next
  case (hibernated p)
  then show ?case using seen_mono(1) by (blast intro: phase_step.hibernated)
next
  case (stopped pod x p)
  then show ?case using seen_mono(3) by (blast intro: phase_step.stopped)
qed (auto intro: phase_step.intros)

lemma status_step_mono: "status_step L s E old new \<Longrightarrow> E \<subseteq> F \<Longrightarrow> status_step L s F old new"
  by (auto simp: status_step_def intro: phase_step_mono)

section \<open>Status updates\<close>

text \<open>A world that is at or after the start of the run, and what later worlds keep.\<close>

definition later :: "(event, 'm) world \<Rightarrow> (event, 'm) world \<Rightarrow> bool" where
  "later w v \<longleftrightarrow> prefix (w_trace w) (w_trace v)"

lemma later_refl [simp]: "later w w"
  by (simp add: later_def)

lemma later_trans: "later u v \<Longrightarrow> later v w \<Longrightarrow> later u w"
  unfolding later_def by (rule prefix_order.trans)

lemma runs_later: "runs P w m Q \<Longrightarrow> runs P w m (\<lambda>x v. Q x v \<and> later w v)"
  by (auto simp: runs_def later_def)

lemma later_since: "later w v \<Longrightarrow> since n (w_trace w) \<subseteq> since n (w_trace v)"
  unfolding later_def by (rule since_mono)

lemma later_length: "later w v \<Longrightarrow> n \<le> length (w_trace w) \<Longrightarrow> n \<le> length (w_trace v)"
  unfolding later_def by (auto dest: prefix_length_le)

lemma runs_setStatus:
  assumes gen: "gen = om_Generation (as_Meta s)" and k: "k = key \<or> k = ObjectKey (as_Meta s)"
    and step: "\<And>old. status_step L s (since n (w_trace w)) old (mutate old)"
  shows "runs (allowed L r s key n) w (setStatus L A k gen mutate) (\<lambda>_. later w)"
proof -
  have "runs (allowed L r s key n) v (set_status_once L A k gen mutate) (\<lambda>_ v'. later w v' \<and> True)" if "later w v" for v
  proof -
    have "status_step L s (since n (w_trace v)) old (mutate old)" for old
      using step later_since [OF that] by (rule status_step_mono)
    then show ?thesis unfolding set_status_once_def call_defs Let_def
      using that gen k by (intro runs_rules) (auto simp: later_def)
  qed
  then show ?thesis unfolding setStatus_def
    using runs_retry_on [where I = "later w" and Q = "\<lambda>_ _. True" and w = w
      and m = "set_status_once L A k gen mutate"] by simp
qed


lemma runs_status_then:
  assumes "\<And>old. status_step L s (since n (w_trace w)) old (mutate old)"
  shows "runs (allowed L r s key n) w (status_then L A s mutate result) (\<lambda>_. later w)"
  unfolding status_then_def
  by (intro runs_bind runs_post [OF runs_setStatus] runs_return) (use assms in auto)

lemma setSessionCondition_fields [simp]:
  "st_Phase (setSessionCondition L g c reason message st) = st_Phase st"
  "st_RuntimeCheckpoint (setSessionCondition L g c reason message st) = st_RuntimeCheckpoint st"
  "st_Phase (clearRetryCondition L st) = st_Phase st"
  "st_RuntimeCheckpoint (clearRetryCondition L st) = st_RuntimeCheckpoint st"
  by (simp_all add: setSessionCondition_def clearRetryCondition_def)

lemma checkpoint_step_same [simp]: "checkpoint_step s c c"
  by (simp add: checkpoint_step_def)

lemma checkpoint_step_Some: "cp_State c \<noteq> CheckpointReady \<or> valid_manifest s c \<Longrightarrow> checkpoint_step s old (Some c)"
  by (auto simp: checkpoint_step_def)

lemma checkpoint_step_map:
  "(\<And>c. cp_State (f c) = CheckpointReady \<Longrightarrow> f c = c) \<Longrightarrow> checkpoint_step s old (map_option f old)"
  by (cases old) (simp_all add: checkpoint_step_def, metis)

lemma status_steps:
  "status_step L s E old (fail_status L s reason message old)"
  "status_step L s E old (transient_status L s attempt cause old)"
  "being_deleted s \<Longrightarrow> status_step L s E old (deleting_status L s old)"
  "status_step L s E old (restart_checkpoint_status L s pod old)"
  "sp_DesiredState (as_Spec s) = DesiredStateHibernated \<or> st_Phase (as_Status s) = PhaseIdle \<Longrightarrow>
     status_step L s E old (hibernating_status L s old)"
  "st_Phase (as_Status s) = PhaseHibernating \<Longrightarrow> seen_pod_absent L s E \<Longrightarrow>
     status_step L s E old (hibernated_status L s old)"
  "manifest_ok pod q \<Longrightarrow> status_step L s E old (recovery_ready_status L s pod q old)"
  "status_step L s E old (invalid_status L s err old)"
  by (simp_all add: status_step_def checkpoint_step_Some checkpoint_step_map fail_status_def transient_status_def deleting_status_def
      restart_checkpoint_status_def hibernating_status_def hibernated_status_def recovery_ready_status_def
      invalid_status_def creating_checkpoint_def ready_checkpoint_def valid_manifest_def manifest_ok_def
      phase_step.stay phase_step.failing phase_step.deleting phase_step.pending phase_step.hibernating
      phase_step.hibernated) (auto intro!: checkpoint_step_map split: if_splits)

lemma running_steps:
  assumes "\<not> being_deleted s"
  shows "st_PodName (as_Status s) = [] \<Longrightarrow> status_step L s E old (awaiting_status L s pvcName old)"
    and "status_step L s E old (preparing_status L s pvcName old)"
    and "status_step L s E old (pod_status L s podName pvcName reason message old)"
    and "st_Phase (as_Status s) = PhaseRunning \<Longrightarrow> seen_pod L s E pod \<Longrightarrow> podReady pod \<Longrightarrow>
      status_step L s E old (idle_status L s pod pvcName activity old)"
    and "seen_pod L s E pod \<Longrightarrow> podReady pod \<Longrightarrow>
      status_step L s E old (running_status L s pod pvcName activity workState old)"
    and "seen_pod L s E pod \<Longrightarrow> podStoppedByDeadline pod \<Longrightarrow> EvDeletePod pod None x \<in> E \<Longrightarrow> unless_not_found x = None \<Longrightarrow>
      status_step L s E old (deadline_status L s nonce old)"
  using assms by (simp_all add: status_step_def checkpoint_step_map awaiting_status_def preparing_status_def
      pod_status_def idle_status_def running_status_def live_status_def deadline_status_def split_beta
      phase_step.awaiting phase_step.starting)
    (auto intro!: checkpoint_step_map intro: phase_step.idling phase_step.running phase_step.stopped split: if_splits)

lemma runs_fail:
  "runs (allowed L r s key n) w (fail_session L A s reason message) (\<lambda>_. later w)"
  unfolding fail_session_def
  by (intro runs_bind runs_post [OF runs_setStatus] runs_return) (auto intro: status_steps)

lemma runs_handleTransient:
  "runs (allowed L r s key n) w (handleTransient L A s cause) (\<lambda>_. later w)"
  unfolding handleTransient_def Let_def
  by (intro runs_if runs_fail runs_bind runs_post [OF runs_setStatus] runs_return) (auto intro: status_steps)

section \<open>Reading objects\<close>

lemma validateSessionWorkload_None:
  "validateSessionWorkload ty m s = None \<longleftrightarrow> owned_by s m"
  by (auto simp: validateSessionWorkload_def owned_by_def Let_def)

lemma runs_getPod:
  assumes "n \<le> length (w_trace w)"
  shows "runs (allowed L r s key n) w (getPod L A s) (\<lambda>x v. later w v \<and> n \<le> length (w_trace v) \<and>
    (\<forall>pod. x = Inr (pod, False) \<longrightarrow> seen_pod_absent L s (since n (w_trace v))) \<and>
    (\<forall>pod. x = Inr (pod, True) \<longrightarrow> seen_pod L s (since n (w_trace v)) pod))"
  unfolding getPod_def call_defs Let_def using assms
  by (intro runs_rules) (auto simp: later_def pod_key_def seen_pod_def seen_pod_absent_def validateSessionWorkload_None
      split: sum.splits option.splits if_splits)

lemma runs_getPVC:
  assumes "n \<le> length (w_trace w)"
  shows "runs (allowed L r s key n) w (getPVC L A s) (\<lambda>x v. later w v \<and> n \<le> length (w_trace v) \<and>
    (\<forall>pvc. x = Inr (pvc, False) \<longrightarrow> seen_pvc_absent L s (since n (w_trace v))) \<and>
    (\<forall>pvc. x = Inr (pvc, True) \<longrightarrow> EvGetPVC (pvc_key L s) (Inr pvc) \<in> since n (w_trace v) \<and> owned_by s (pvc_Meta pvc)))"
  unfolding getPVC_def call_defs Let_def using assms
  by (intro runs_rules) (auto simp: later_def pvc_key_def seen_pvc_absent_def validateSessionWorkload_None
      split: sum.splits option.splits if_splits)

lemma runs_ensureServiceAccount:
  assumes "n \<le> length (w_trace w)" and "\<not> being_deleted s"
  shows "runs (allowed L r s key n) w (ensureServiceAccount L A s) (\<lambda>_. later w)"
  unfolding ensureServiceAccount_def call_defs Let_def using assms
  by (intro runs_rules) (auto simp: later_def sa_key_def)

section \<open>Every function stays within the allowed events\<close>

lemmas stay_rules = runs_handleTransient runs_fail

lemma runs_delete_pod:
  assumes "n \<le> length (w_trace w)" and "allowed L r s key n (w_trace w) (EvDeletePod pod grace (a_delete_pod A (w_trace w) pod grace))"
  shows "runs (allowed L r s key n) w (delete_pod A pod grace) (\<lambda>x v. later w v \<and> n \<le> length (w_trace v) \<and>
    EvDeletePod pod grace x \<in> since n (w_trace v))"
  unfolding delete_pod_def using assms by (intro runs_call) (auto simp: later_def)

lemma checkpoint_current_Some:
  "checkpoint_current s = Some c \<Longrightarrow> st_RuntimeCheckpoint (as_Status s) = Some c \<and>
     cp_Mode c = CheckpointModeApplication \<and> cp_ID c = sp_ResumeNonce (as_Spec s)"
  by (auto simp: checkpoint_current_def split: option.splits if_splits)

lemma runs_hibernate_pod:
  assumes "n \<le> length (w_trace w)" and "\<not> being_deleted s" and "st_Phase (as_Status s) = PhaseHibernating"
    and "seen_pod L s (since n (w_trace w)) pod"
  shows "runs (allowed L r s key n) w (hibernate_pod L A r s pod) (\<lambda>_ _. True)"
proof -
  have quiesce: "runs (allowed L r s key n) w (Quiesce L A pod) (\<lambda>x v. w_mem v = w_mem w \<and> (\<forall>q. x = Inr q \<longrightarrow> manifest_ok pod q))"
    by (rule runs_Quiesce) (use assms in auto)
  show ?thesis
    unfolding hibernate_pod_def using assms
    by (intro runs_case_option runs_if runs_bind runs_case_sum runs_post [OF runs_status_then] runs_return
        runs_post [OF quiesce] runs_post [OF runs_handleTransient] runs_post [OF runs_fail] runs_post [OF runs_delete_pod])
      (auto simp: checkpoint_ready_def dest!: checkpoint_current_Some intro: status_steps)
qed

lemma runs_reconcileHibernate:
  assumes n: "n \<le> length (w_trace w)" and "\<not> being_deleted s"
    and "sp_DesiredState (as_Spec s) = DesiredStateHibernated \<or> st_Phase (as_Status s) = PhaseIdle \<or>
      st_Phase (as_Status s) = PhaseHibernating"
  shows "runs (allowed L r s key n) w (reconcileHibernate L A r s) (\<lambda>_ _. True)"
  unfolding reconcileHibernate_def using assms
  by (intro runs_if runs_bind runs_case_sum runs_case_prod runs_post [OF runs_status_then] runs_post [OF runs_getPod [OF n]]
      runs_post [OF runs_handleTransient] runs_hibernate_pod) (auto intro: status_steps)

lemma runs_hibernateStoppedPod:
  assumes n: "n \<le> length (w_trace w)" and "\<not> being_deleted s" and "seen_pod L s (since n (w_trace w)) pod"
    and "podStoppedByDeadline pod"
  shows "runs (allowed L r s key n) w (hibernateStoppedPod L A s pod) (\<lambda>_ _. True)"
proof -
  have finish: "runs (allowed L r s key n) v (status_then L A s (deadline_status L s nonce) result) (\<lambda>_ _. True)"
    if "later w v" "EvDeletePod pod None x \<in> since n (w_trace v)" "unless_not_found x = None" for v nonce result x
    by (rule runs_post [OF runs_status_then])
      (use that assms seen_mono(3) [OF later_since] in \<open>auto intro!: running_steps(6)\<close>)
  show ?thesis unfolding hibernateStoppedPod_def Let_def using assms
    by (intro runs_if runs_bind runs_case_option runs_post [OF runs_handleTransient] runs_post [OF runs_delete_pod [OF n]])
      (auto intro: finish simp: unless_not_found_def)
qed

lemma runs_delete_claim:
  assumes n: "n \<le> length (w_trace w)" and "being_deleted s" and absent: "seen_pod_absent L s (since n (w_trace w))"
  shows "runs (allowed L r s key n) w (delete_claim L A s) (\<lambda>_ _. True)"
proof -
  have abs: "seen_pod_absent L s (since n (w_trace v))" if "later w v" for v
    using absent later_since [OF that] seen_mono(1) by blast
  show ?thesis unfolding delete_claim_def delete_pvc_def update_session_def using assms
    by (intro runs_if runs_bind runs_case_sum runs_case_prod runs_case_option runs_return runs_call
        runs_post [OF runs_handleTransient] runs_post [OF runs_getPVC [OF n]]) (auto intro: abs)
qed

lemma runs_delete_workload:
  assumes n: "n \<le> length (w_trace w)" and "being_deleted s"
  shows "runs (allowed L r s key n) w (delete_workload L A s) (\<lambda>_ _. True)"
  unfolding delete_workload_def Let_def delete_sa_def using assms
  by (intro runs_if runs_bind runs_case_sum runs_case_prod runs_case_option runs_return runs_call
      runs_post [OF runs_handleTransient] runs_post [OF runs_getPod [OF n]] runs_post [OF runs_delete_pod] runs_delete_claim)
    (auto simp: sa_key_def intro: seen_mono)

lemma runs_reconcileDelete:
  assumes n: "n \<le> length (w_trace w)" and "being_deleted s"
  shows "runs (allowed L r s key n) w (reconcileDelete L A s) (\<lambda>_ _. True)"
  unfolding reconcileDelete_def using assms
  by (intro runs_if runs_bind runs_case_option runs_return runs_post [OF runs_setStatus] runs_delete_workload)
    (auto intro: status_steps later_length)

definition active :: "AgentSession \<Rightarrow> bool" where
  "active s \<longleftrightarrow> \<not> being_deleted s \<and> sp_DesiredState (as_Spec s) \<noteq> DesiredStateHibernated \<and>
     st_Phase (as_Status s) \<noteq> PhaseHibernating"

lemma runs_read_work_state:
  assumes n: "n \<le> length (w_trace w)" and "\<not> being_deleted s" and "seen_pod L s (since n (w_trace w)) pod"
  shows "runs (allowed L r s key n) w (if rc_StateReader r then do {
         x \<leftarrow> ReadState A pod;
         State_Monad.return (case x of Inl e \<Rightarrow> AgentWorkStateUnknown | Inr current \<Rightarrow> current) }
       else State_Monad.return AgentWorkStateUnknown) (\<lambda>_ v. later w v)"
proof -
  have "runs (allowed L r s key n) w (ReadState A pod) (\<lambda>_ v. w_mem v = w_mem w)"
    by (rule runs_ReadState) (use assms in auto)
  then have read: "runs (allowed L r s key n) w (ReadState A pod) (\<lambda>_ v. w_mem v = w_mem w \<and> later w v)"
    by (rule runs_later)
  show ?thesis by (intro runs_if runs_bind runs_return runs_post [OF read]) auto
qed

lemma runs_time_now:
  "runs (allowed L r s key n) w (time_now A) (\<lambda>_. later w)"
  unfolding time_now_def by (intro runs_call) (auto simp: later_def)

lemma runs_run_ready_pod:
  assumes n: "n \<le> length (w_trace w)" and "active s" and pod: "seen_pod L s (since n (w_trace w)) pod" "podReady pod"
  shows "runs (allowed L r s key n) w (run_ready_pod L A r s pvcName pod) (\<lambda>_ _. True)"
proof -
  have nd: "\<not> being_deleted s" using assms(2) by (simp add: active_def)
  have seen: "seen_pod L s (since n (w_trace v)) pod" if "later w v" for v
    using pod(1) later_since [OF that] seen_mono(3) by blast
  have rest: "runs (allowed L r s key n) v (if idle_now s now activity ws \<and> st_Phase (as_Status s) = PhaseRunning
       then status_then L A s (idle_status L s pod pvcName activity) (requeue_after (idleScan r))
       else if idle_now s now activity ws \<and> st_Phase (as_Status s) = PhaseIdle then reconcileHibernate L A r s
       else status_then L A s (running_status L s pod pvcName activity ws) (requeue_after (idleScan r))) (\<lambda>_ _. True)"
    if "later w v" for v now activity ws
    using nd pod(2) seen [OF that] later_length [OF that n]
    by (intro runs_if runs_post [OF runs_status_then] runs_reconcileHibernate) (auto intro: running_steps)
  show ?thesis unfolding run_ready_pod_def Let_def
    by (rule runs_bind, rule runs_post [OF runs_read_work_state], use n nd pod in simp_all,
        rule runs_bind, rule runs_post [OF runs_time_now], rule rest, erule (1) later_trans)
qed

lemma runs_create_agent_pod:
  assumes n: "n \<le> length (w_trace w)" and "active s" and "seen_pod_absent L s (since n (w_trace w))"
  shows "runs (allowed L r s key n) w (create_agent_pod L A r s pvcName) (\<lambda>_ _. True)"
proof -
  have nd: "\<not> being_deleted s" using assms(2) by (simp add: active_def)
  have create: "runs (allowed L r s key n) w (create_pod A ((desiredPod L r s pvcName)\<lparr>pod_Meta := meta\<rparr>)) (\<lambda>_ _. True)"
    if "SetControllerReference L (as_Meta s) (pod_Meta (desiredPod L r s pvcName)) = Inr meta" for meta
    unfolding create_pod_def using that assms by (intro runs_call) (auto simp: active_def)
  show ?thesis unfolding create_agent_pod_def Let_def using nd
    by (intro runs_case_sum runs_bind runs_if runs_post [OF runs_status_then] runs_post [OF runs_fail]
        runs_post [OF runs_handleTransient] runs_post [OF create]) (auto intro: running_steps)
qed

lemma runs_run_pod:
  assumes n: "n \<le> length (w_trace w)" and "active s"
  shows "runs (allowed L r s key n) w (run_pod L A r s pvcName) (\<lambda>_ _. True)"
proof -
  have nd: "\<not> being_deleted s" using assms(2) by (simp add: active_def)
  show ?thesis unfolding run_pod_def using assms nd
    by (intro runs_case_sum runs_bind runs_if runs_case_prod runs_case_option runs_return runs_post [OF runs_status_then]
        runs_post [OF runs_handleTransient] runs_post [OF runs_getPod [OF n]] runs_create_agent_pod
        runs_hibernateStoppedPod runs_run_ready_pod) (auto intro: running_steps)
qed

lemma runs_run_claimed:
  assumes n: "n \<le> length (w_trace w)" and "active s"
  shows "runs (allowed L r s key n) w (run_claimed L A r s pvcName) (\<lambda>_ _. True)"
proof -
  have nd: "\<not> being_deleted s" using assms(2) by (simp add: active_def)
  show ?thesis unfolding run_claimed_def using assms nd
    by (intro runs_bind runs_if runs_case_option runs_post [OF runs_status_then] runs_post [OF runs_handleTransient]
        runs_post [OF runs_ensureServiceAccount [OF n nd]] runs_run_pod) (auto intro: running_steps later_length)
qed

lemma runs_reconcileRunning:
  assumes n: "n \<le> length (w_trace w)" and "active s"
  shows "runs (allowed L r s key n) w (reconcileRunning L A r s) (\<lambda>_ _. True)"
proof -
  have nd: "\<not> being_deleted s" using assms(2) by (simp add: active_def)
  have create: "runs (allowed L r s key n) v (create_pvc A ((desiredPVC L s (rc_StorageClassName r))\<lparr>pvc_Meta := meta\<rparr>))
      (\<lambda>_ v'. n \<le> length (w_trace v'))"
    if "SetControllerReference L (as_Meta s) (pvc_Meta (desiredPVC L s (rc_StorageClassName r))) = Inr meta"
      "seen_pvc_absent L s (since n (w_trace v))" "\<not> (restoring s \<and> st_PVCName (as_Status s) \<noteq> [])" "n \<le> length (w_trace v)"
    for meta v
    unfolding create_pvc_def using that nd by (intro runs_call) auto
  show ?thesis unfolding reconcileRunning_def Let_def using assms nd
    by (intro runs_case_sum runs_bind runs_if runs_case_prod runs_post [OF runs_fail] runs_post [OF runs_handleTransient]
        runs_post [OF runs_getPVC [OF n]] runs_post [OF create] runs_run_claimed) auto
qed

lemma runs_reconcile_active:
  assumes "n \<le> length (w_trace w)" and "\<not> being_deleted s"
  shows "runs (allowed L r s key n) w (reconcile_active L A r s) (\<lambda>_ _. True)"
  unfolding reconcile_active_def using assms
  by (intro runs_if runs_return runs_reconcileHibernate runs_reconcileRunning) (auto simp: active_def)

theorem runs_reconcile_session:
  assumes "n \<le> length (w_trace w)"
  shows "runs (allowed L r s key n) w (reconcile_session L A r s key) (\<lambda>_ _. True)"
  unfolding reconcile_session_def update_session_def using assms
  by (intro runs_if runs_case_option runs_bind runs_return runs_call runs_reconcileDelete runs_reconcile_active
      runs_post [OF runs_setStatus]) (auto simp: being_deleted_def intro: status_steps)

lemma Reconcile_events:
  assumes "a_get_session A (w_trace w) key = Inr s"
  shows "events_of (Reconcile L A r key) w = EvGetSession key (Inr s) #
    events_of (reconcile_session L A r s key) (w\<lparr>w_trace := w_trace w @ [EvGetSession key (Inr s)]\<rparr>)"
proof -
  let ?v = "w\<lparr>w_trace := w_trace w @ [EvGetSession key (Inr s)]\<rparr>"
  let ?m = "reconcile_session L A r s key"
  have "runs (allowed L r s key (length (w_trace w))) ?v ?m (\<lambda>_ _. True)"
    by (rule runs_reconcile_session) simp
  then have tr: "w_trace (world_after ?m ?v) = w_trace w @ EvGetSession key (Inr s) # events_of ?m ?v"
    using runs_trace by fastforce
  have "world_after (Reconcile L A r key) w = world_after ?m ?v"
    using assms by (simp add: Reconcile_def get_session_def)
  then show ?thesis by (simp add: events_of_def [of "Reconcile L A r key"] tr)
qed

lemma Reconcile_first_event:
  assumes "events_of (Reconcile L A r key) w = e # after"
  shows "e = EvGetSession key (a_get_session A (w_trace w) key)"
proof (cases "a_get_session A (w_trace w) key")
  case (Inl err)
  then have "events_of (Reconcile L A r key) w = [EvGetSession key (Inl err)]"
    by (simp add: events_of_def Reconcile_def get_session_def)
  then show ?thesis using assms Inl by simp
next
  case (Inr s)
  then show ?thesis using assms Reconcile_events [OF Inr, of L r] by simp
qed

text \<open>Every event of a run but the first read is allowed, given the session that was read.\<close>

lemma Reconcile_event:
  assumes "events_of (Reconcile L A r key) w = before @ e # after" and "before \<noteq> []"
  shows "\<exists>s. a_get_session A (w_trace w) key = Inr s \<and> allowed L r s key (length (w_trace w)) (w_trace w @ before) e"
proof (cases "a_get_session A (w_trace w) key")
  case (Inl err)
  then have "events_of (Reconcile L A r key) w = [EvGetSession key (Inl err)]"
    by (simp add: events_of_def Reconcile_def get_session_def)
  with assms show ?thesis by (simp add: Cons_eq_append_conv)
next
  case (Inr s)
  let ?v = "w\<lparr>w_trace := w_trace w @ [EvGetSession key (Inr s)]\<rparr>"
  have run: "runs (allowed L r s key (length (w_trace w))) ?v (reconcile_session L A r s key) (\<lambda>_ _. True)"
    by (rule runs_reconcile_session) simp
  obtain rest where "before = EvGetSession key (Inr s) # rest"
    "events_of (reconcile_session L A r s key) ?v = rest @ e # after"
    using assms Reconcile_events [OF Inr, of L r] by (auto simp: Cons_eq_append_conv)
  then show ?thesis using runs_events [OF run] Inr by simp
qed

lemma Reconcile_effect:
  assumes "events_of (Reconcile L A r key) w = before @ e # after" and "\<And>k x. e \<noteq> EvGetSession k x"
  shows "\<exists>s. a_get_session A (w_trace w) key = Inr s \<and> allowed L r s key (length (w_trace w)) (w_trace w @ before) e"
proof -
  have "before \<noteq> []" using assms Reconcile_first_event [of L A r key w e after] by auto
  from Reconcile_event [OF assms(1) this] show ?thesis by blast
qed

lemma since_length [simp]: "since (length t) (t @ before) = set before"
  by (simp add: since_def)

section \<open>A concrete world\<close>

text \<open>
  An instance of the library parameters that satisfies the contracts, an API server that answers every read from
  three fixed objects, and sessions in chosen states. The witnesses run the controller on them.
\<close>

definition sample_lib :: klib where
  "sample_lib = \<lparr>
     q_Value = (\<lambda>q. if q = ''2Gi'' then 2 ^ 31 else if q = ''1Gi'' then 2 ^ 30 else if q = ''64Gi'' then 2 ^ 36 else 0),
     q_MilliValue = (\<lambda>q. if q = ''500m'' then 500 else 0), q_Cmp = (\<lambda>a b. if a = b then 0 else 1), q_zero = ''0'',
     q_NewQuantity = (\<lambda>n. if n = 2 ^ 31 then ''2Gi'' else if n = 2 ^ 30 then ''1Gi'' else ''64Gi''),
     q_NewMilliQuantity = (\<lambda>n. if n = 500 then ''500m'' else ''0''), q_MustParse = (\<lambda>s. s),
     FindStatusCondition = (\<lambda>cs t. find (\<lambda>c. c_Type c = t) cs),
     SetStatusCondition = (\<lambda>cs c. c # filter (\<lambda>d. c_Type d \<noteq> c_Type c) cs),
     RemoveStatusCondition = (\<lambda>cs t. filter (\<lambda>d. c_Type d \<noteq> t) cs),
     sha256 = (\<lambda>s. ''01234567''), parse_RFC3339 = (\<lambda>s. None),
     ContainsFinalizer = (\<lambda>m f. f \<in> set (om_Finalizers m)),
     AddFinalizer = (\<lambda>m f. m\<lparr>om_Finalizers := om_Finalizers m @ [f]\<rparr>),
     RemoveFinalizer = (\<lambda>m f. m\<lparr>om_Finalizers := removeAll f (om_Finalizers m)\<rparr>),
     SetControllerReference = (\<lambda>owner m. Inr m), DeepEqual_status = (=), DeepEqual_scaling = (=),
     Unmarshal_quiesce = (\<lambda>s. Inl (Errorf ''not JSON'')), retry_steps = 3\<rparr>"

definition not_found :: kerr where
  "not_found = \<lparr>ke_kind = ErrNotFound, ke_msg = ''not found''\<rparr>"

definition sample_api :: "AgentSession \<Rightarrow> (kerr + Pod) \<Rightarrow> (kerr + PersistentVolumeClaim) \<Rightarrow> kube_api" where
  "sample_api session pod pvc = \<lparr>
     a_get_session = (\<lambda>t k. Inr session), a_update_session = (\<lambda>t s. None), a_status_update = (\<lambda>t s. None),
     a_patch_session = (\<lambda>t s b. None), a_list_sessions = (\<lambda>t. Inr [session]), a_get_pod = (\<lambda>t k. pod),
     a_create_pod = (\<lambda>t p. Inr p), a_delete_pod = (\<lambda>t p g. None), a_list_pods = (\<lambda>t. Inr []),
     a_resize_pod = (\<lambda>t p. None), a_get_pvc = (\<lambda>t k. pvc), a_create_pvc = (\<lambda>t p. Inr p),
     a_delete_pvc = (\<lambda>t p. None), a_get_sa = (\<lambda>t k. Inl not_found), a_create_sa = (\<lambda>t s. None),
     a_delete_sa = (\<lambda>t k. None), a_list_nodes = (\<lambda>t. Inr []),
     a_exec = (\<lambda>t k c cmd. ExecOutput ''working''), a_node_summary = (\<lambda>t n. Inl not_found), a_now = (\<lambda>t. 0)\<rparr>"

definition sample_id :: string where
  "sample_id = ''01234567-89ab-7def-8123-456789abcdef''"

definition sample_reconciler :: AgentSessionReconciler where
  "sample_reconciler = \<lparr>rc_AgentImage = ''agent'', rc_AgentPullPolicy = ''Always'', rc_StorageClassName = ''local'',
     rc_GatewayURL = ''http://gateway'', rc_EgressProxyURL = ''http://proxy'', rc_IdleScanInterval = 0,
     rc_CapacitySchedulingEnabled = False, rc_Quiescer = True, rc_StateReader = True\<rparr>"

definition sample_labels :: strmap where
  "sample_labels = [managedByLabel \<mapsto> managedByValue, userLabel \<mapsto> sample_id, sessionLabel \<mapsto> sample_id]"

definition sample_session :: "AgentSessionPhase \<Rightarrow> DesiredState \<Rightarrow> time option \<Rightarrow> AgentSession" where
  "sample_session phase desired deleted = zero_AgentSession\<lparr>
     as_Meta := zero_ObjectMeta\<lparr>om_Name := ''sess-303132333435'', om_Namespace := ''u'', om_Labels := sample_labels,
       om_Finalizers := [agentSessionFinalizer], om_DeletionTimestamp := deleted\<rparr>,
     as_Spec := (as_Spec zero_AgentSession)\<lparr>sp_SessionID := sample_id, sp_UserID := sample_id, sp_DesiredState := desired,
       sp_ResumeNonce := ''n1'', sp_Runtime := ''claude-code'', sp_Provider := \<lparr>pv_Mode = ''platform'', pv_CredentialID = []\<rparr>,
       sp_StoragePolicy := ''local'', sp_IdleTimeoutSeconds := 600, sp_ActiveDeadlineSeconds := 3600,
       sp_PriorityClassName := normalPriorityClass, sp_MemoryRequest := ''2Gi''\<rparr>,
     as_Status := (as_Status zero_AgentSession)\<lparr>st_Phase := phase, st_PVCName := ''workspace-303132333435'',
       st_RuntimeCheckpoint := Some ((creating_checkpoint zero_AgentSession [])\<lparr>cp_ID := ''n1'', cp_State := CheckpointReady\<rparr>)\<rparr>\<rparr>"

definition sample_pod :: Pod where
  "sample_pod = zero_Pod\<lparr>pod_Meta := zero_ObjectMeta\<lparr>om_Name := ''agent-303132333435'', om_Namespace := ''u'',
     om_Labels := sample_labels\<rparr>, pod_Phase := ''Running''\<rparr>"

definition sample_pvc :: PersistentVolumeClaim where
  "sample_pvc = zero_PVC\<lparr>pvc_Meta := zero_ObjectMeta\<lparr>om_Name := ''workspace-303132333435'', om_Namespace := ''u'',
     om_Labels := sample_labels\<rparr>\<rparr>"

definition start_world :: "(event, unit) world" where
  "start_world = \<lparr>w_trace = [], w_mem = ()\<rparr>"

lemma sample_api_simps [simp]:
  "a_get_session (sample_api s pod pvc) = (\<lambda>t k. Inr s)" "a_get_pod (sample_api s pod pvc) = (\<lambda>t k. pod)"
  "a_get_pvc (sample_api s pod pvc) = (\<lambda>t k. pvc)"
  by (simp_all add: sample_api_def)

abbreviation sample_run :: "AgentSession \<Rightarrow> (kerr + Pod) \<Rightarrow> (kerr + PersistentVolumeClaim) \<Rightarrow> event list" where
  "sample_run s pod pvc \<equiv>
     events_of (Reconcile sample_lib (sample_api s pod pvc) sample_reconciler (''u'', ''sess-303132333435'')) start_world"

text \<open>The kind of an event, for finding one in a run that was computed.\<close>

fun event_kind :: "event \<Rightarrow> string" where
  "event_kind (EvDeletePod pod grace x) = (case grace of None \<Rightarrow> ''delete pod'' | Some g \<Rightarrow> ''stop pod'')"
| "event_kind (EvCreatePod pod x) = ''create pod''"
| "event_kind (EvDeletePVC pvc x) = ''delete pvc''"
| "event_kind (EvCreatePVC pvc x) = ''create pvc''"
| "event_kind (EvUpdateSession s x) = ''update''"
| "event_kind (EvStatusUpdate s x) = ''status''"
| "event_kind _ = ''other''"

lemma event_kind_iff:
  "event_kind e = ''stop pod'' \<longleftrightarrow> (\<exists>pod g x. e = EvDeletePod pod (Some g) x)"
  "event_kind e = ''delete pvc'' \<longleftrightarrow> (\<exists>pvc x. e = EvDeletePVC pvc x)"
  "event_kind e = ''create pvc'' \<longleftrightarrow> (\<exists>pvc x. e = EvCreatePVC pvc x)"
  "event_kind e = ''create pod'' \<longleftrightarrow> (\<exists>pod x. e = EvCreatePod pod x)"
  "event_kind e = ''update'' \<longleftrightarrow> (\<exists>s x. e = EvUpdateSession s x)"
  "event_kind e = ''status'' \<longleftrightarrow> (\<exists>s x. e = EvStatusUpdate s x)"
  by (cases e; simp split: option.split)+

definition kind_at :: "event list \<Rightarrow> nat \<Rightarrow> string \<Rightarrow> bool" where
  "kind_at es i k \<longleftrightarrow> i < length es \<and> event_kind (es ! i) = k"

lemma event_at:
  assumes "kind_at es i k"
  obtains before e after where "es = before @ e # after" "event_kind e = k"
  using assms id_take_nth_drop unfolding kind_at_def by blast

section \<open>Properties\<close>

text \<open>
  C1. Whatever the API server answers, a run of the reconciler deletes only a Pod that it has read and that carries the
  labels of the session it reconciles, and only when the session is being deleted, the Pod was stopped by its active
  deadline, or the session is hibernating with a Ready application checkpoint for the current resume nonce; that deletion
  has the 30 seconds grace period.
\<close>

theorem Reconcile_deletes_pod:
  assumes "events_of (Reconcile L A r key) w = before @ EvDeletePod pod grace x # after"
  shows "\<exists>s. a_get_session A (w_trace w) key = Inr s \<and> owned_by s (pod_Meta pod) \<and>
    EvGetPod (pod_key L s) (Inr pod) \<in> set before \<and>
    (being_deleted s \<and> grace = None \<or> podStoppedByDeadline pod \<and> grace = None \<or>
     st_Phase (as_Status s) = PhaseHibernating \<and> checkpoint_ready s \<and> grace = Some 30)"
  using Reconcile_effect [OF assms] by (auto simp: seen_pod_def maxHibernateGrace_def)

theorem Reconcile_deletes_pod_witness:
  "checkpoint_ready (sample_session PhaseHibernating DesiredStateHibernated None)"
proof -
  let ?es = "sample_run (sample_session PhaseHibernating DesiredStateHibernated None) (Inr sample_pod) (Inr sample_pvc)"
  have "kind_at ?es 2 ''stop pod''" by code_simp
  then obtain before pod g x after where es: "?es = before @ EvDeletePod pod (Some g) x # after"
    by (elim event_at) (auto simp: event_kind_iff)
  from Reconcile_deletes_pod [OF es] show ?thesis by simp
qed

text \<open>
  C2. A run deletes a workspace claim or the session's service account, and removes the finalizer of the session, only
  for a session that is being deleted and after it has seen that the session's Pod is gone; the finalizer goes only after
  the claim is gone or terminating as well. Outside deletion the only update of the object adds the finalizer. No update
  touches the specification or the status.
\<close>

theorem Reconcile_cleanup_order:
  "(events_of (Reconcile L A r key) w = before @ EvDeletePVC pvc x # after \<longrightarrow>
     (\<exists>s. a_get_session A (w_trace w) key = Inr s \<and> being_deleted s \<and> owned_by s (pvc_Meta pvc) \<and>
        seen_pod_absent L s (set before))) \<and>
   (events_of (Reconcile L A r key) w = before @ EvDeleteSA k y # after \<longrightarrow>
     (\<exists>s. a_get_session A (w_trace w) key = Inr s \<and> being_deleted s \<and> k = sa_key L s \<and>
        seen_pod_absent L s (set before))) \<and>
   (events_of (Reconcile L A r key) w = before @ EvUpdateSession s' z # after \<longrightarrow>
     (\<exists>s. a_get_session A (w_trace w) key = Inr s \<and> as_Spec s' = as_Spec s \<and> as_Status s' = as_Status s \<and>
        (if being_deleted s then as_Meta s' = RemoveFinalizer L (as_Meta s) agentSessionFinalizer \<and>
           seen_pod_absent L s (set before) \<and> seen_pvc_absent L s (set before)
         else as_Meta s' = AddFinalizer L (as_Meta s) agentSessionFinalizer)))"
proof (intro conjI impI, goal_cases)
  case 1
  from Reconcile_effect [OF this] show ?case by auto
next
  case 2
  from Reconcile_effect [OF this] show ?case by auto
next
  case 3
  from Reconcile_effect [OF this] obtain s where s: "a_get_session A (w_trace w) key = Inr s"
    "allowed L r s key (length (w_trace w)) (w_trace w @ before) (EvUpdateSession s' z)" by blast
  show ?case using s by (intro exI [of _ s]) (cases "being_deleted s"; simp)
qed

theorem Reconcile_cleanup_order_witness:
  "\<exists>before pvc x after. sample_run (sample_session PhaseDeleting DesiredStateRunning (Some 1)) (Inl not_found) (Inr sample_pvc) =
     before @ EvDeletePVC pvc x # after \<and>
     seen_pod_absent sample_lib (sample_session PhaseDeleting DesiredStateRunning (Some 1)) (set before)"
proof -
  let ?es = "sample_run (sample_session PhaseDeleting DesiredStateRunning (Some 1)) (Inl not_found) (Inr sample_pvc)"
  have "kind_at ?es 6 ''delete pvc''" by code_simp
  then obtain before pvc x after where es: "?es = before @ EvDeletePVC pvc x # after"
    by (elim event_at) (auto simp: event_kind_iff)
  from Reconcile_cleanup_order [THEN conjunct1, rule_format, OF this] have
    "seen_pod_absent sample_lib (sample_session PhaseDeleting DesiredStateRunning (Some 1)) (set before)" by simp
  with es show ?thesis by blast
qed

text \<open>
  A run creates a workspace claim only for a session that is not being deleted, after it has seen that the claim does
  not exist or is terminating, and never while the session is being restored from a claim it already had: a lost workspace
  is not replaced by an empty one. The created object is the desired one, with the owner reference set.
\<close>

theorem Reconcile_creates_claim:
  assumes "events_of (Reconcile L A r key) w = before @ EvCreatePVC pvc x # after"
  shows "\<exists>s. a_get_session A (w_trace w) key = Inr s \<and> \<not> being_deleted s \<and> seen_pvc_absent L s (set before) \<and>
    \<not> (st_Phase (as_Status s) \<in> {PhaseHibernated, PhaseRestoring} \<and> st_PVCName (as_Status s) \<noteq> []) \<and>
    (\<exists>meta. SetControllerReference L (as_Meta s) (pvc_Meta (desiredPVC L s (rc_StorageClassName r))) = Inr meta \<and>
       pvc = (desiredPVC L s (rc_StorageClassName r))\<lparr>pvc_Meta := meta\<rparr>)"
proof -
  obtain s where "a_get_session A (w_trace w) key = Inr s"
    "allowed L r s key (length (w_trace w)) (w_trace w @ before) (EvCreatePVC pvc x)"
    using Reconcile_effect [OF assms] by blast
  then show ?thesis by (intro exI [of _ s]) (simp add: restoring_def)
qed

theorem Reconcile_creates_claim_witness:
  "\<exists>before pvc x after. sample_run (sample_session PhaseUnset DesiredStateRunning None) (Inl not_found) (Inl not_found) =
     before @ EvCreatePVC pvc x # after \<and> om_Name (pvc_Meta pvc) = ''workspace-303132333435''"
proof -
  let ?es = "sample_run (sample_session PhaseUnset DesiredStateRunning None) (Inl not_found) (Inl not_found)"
  have "kind_at ?es 2 ''create pvc''" by code_simp
  then obtain before pvc x after where es: "?es = before @ EvCreatePVC pvc x # after"
    by (elim event_at) (auto simp: event_kind_iff)
  have "om_Name (pvc_Meta (desiredPVC sample_lib (sample_session PhaseUnset DesiredStateRunning None) ''local'')) =
      ''workspace-303132333435''" by code_simp
  with Reconcile_creates_claim [OF es] es show ?thesis
    by (auto simp: sample_reconciler_def sample_lib_def)
qed

text \<open>
  C13. A run creates a Pod only for a session that is neither being deleted nor asked to hibernate nor hibernating, after it
  has seen that the session's Pod does not exist; the Pod is the desired one, with the owner reference set.
\<close>

theorem Reconcile_creates_pod:
  assumes "events_of (Reconcile L A r key) w = before @ EvCreatePod pod x # after"
  shows "\<exists>s pvcName. a_get_session A (w_trace w) key = Inr s \<and> \<not> being_deleted s \<and>
    sp_DesiredState (as_Spec s) \<noteq> DesiredStateHibernated \<and> st_Phase (as_Status s) \<noteq> PhaseHibernating \<and>
    seen_pod_absent L s (set before) \<and> pod_Spec pod = pod_Spec (desiredPod L r s pvcName) \<and>
    SetControllerReference L (as_Meta s) (pod_Meta (desiredPod L r s pvcName)) = Inr (pod_Meta pod)"
proof -
  obtain s where s: "a_get_session A (w_trace w) key = Inr s"
    "allowed L r s key (length (w_trace w)) (w_trace w @ before) (EvCreatePod pod x)"
    using Reconcile_effect [OF assms] by blast
  then obtain pvcName meta where
    "SetControllerReference L (as_Meta s) (pod_Meta (desiredPod L r s pvcName)) = Inr meta"
    "pod = (desiredPod L r s pvcName)\<lparr>pod_Meta := meta\<rparr>" by auto
  with s show ?thesis by (intro exI [of _ s] exI [of _ pvcName]) simp
qed

theorem Reconcile_creates_pod_witness:
  "\<exists>before pod x after. sample_run (sample_session PhaseRestoring DesiredStateRunning None) (Inl not_found) (Inr sample_pvc) =
     before @ EvCreatePod pod x # after \<and> ps_RestartPolicy (pod_Spec pod) = ''Never''"
proof -
  let ?es = "sample_run (sample_session PhaseRestoring DesiredStateRunning None) (Inl not_found) (Inr sample_pvc)"
  have "kind_at ?es 5 ''create pod''" by code_simp
  then obtain before pod x after where es: "?es = before @ EvCreatePod pod x # after"
    by (elim event_at) (auto simp: event_kind_iff)
  from Reconcile_creates_pod [OF es] obtain s pvcName where
    "pod_Spec pod = pod_Spec (desiredPod sample_lib sample_reconciler s pvcName)" by blast
  then have "ps_RestartPolicy (pod_Spec pod) = ''Never''" by (simp add: desiredPod_def)
  with es show ?thesis by blast
qed

inductive_simps phase_step_Hibernated: "phase_step L s E p PhaseHibernated"
inductive_simps phase_step_Hibernating: "phase_step L s E p PhaseHibernating"

lemma start_phase_simps [simp]:
  "start_phase s \<noteq> PhaseHibernated" "PhaseHibernated \<noteq> start_phase s"
  "start_phase s \<noteq> PhaseHibernating" "PhaseHibernating \<noteq> start_phase s"
  by (simp_all add: start_phase_def)

text \<open>
  C7. Every status update of a run writes the object it has just read back, with only the status changed and only if
  the generation is still the one the run started from; the change is a step of the phase machine, and a checkpoint
  becomes Ready only with a manifest that passed validation and carries the current resume nonce.
\<close>

theorem Reconcile_status_refines:
  assumes "events_of (Reconcile L A r key) w = before @ EvStatusUpdate s' x # after"
  shows "\<exists>s before' k cur. a_get_session A (w_trace w) key = Inr s \<and> before = before' @ [EvGetSession k (Inr cur)] \<and>
    s' = cur\<lparr>as_Status := as_Status s'\<rparr> \<and> om_Generation (as_Meta s') = om_Generation (as_Meta s) \<and>
    phase_step L s (set before') (st_Phase (as_Status cur)) (st_Phase (as_Status s')) \<and>
    checkpoint_step s (st_RuntimeCheckpoint (as_Status cur)) (st_RuntimeCheckpoint (as_Status s'))"
proof -
  obtain s where s: "a_get_session A (w_trace w) key = Inr s"
    "allowed L r s key (length (w_trace w)) (w_trace w @ before) (EvStatusUpdate s' x)"
    using Reconcile_effect [OF assms] by blast
  then obtain t k cur where t: "w_trace w @ before = t @ [EvGetSession k (Inr cur)]"
    "om_Generation (as_Meta cur) = om_Generation (as_Meta s)" "s' = cur\<lparr>as_Status := as_Status s'\<rparr>"
    "status_step L s (since (length (w_trace w)) t) (as_Status cur) (as_Status s')" by auto
  have "before \<noteq> []" using assms Reconcile_first_event [of L A r key w "EvStatusUpdate s' x" after] by auto
  then obtain before' where b: "before = before' @ [EvGetSession k (Inr cur)]"
    using t(1) by (cases before rule: rev_cases) simp_all
  then have t': "t = w_trace w @ before'" using t(1) by simp
  have g: "om_Generation (as_Meta s') = om_Generation (as_Meta s)"
    using t(2) arg_cong [OF t(3), of as_Meta] by simp
  have steps: "phase_step L s (set before') (st_Phase (as_Status cur)) (st_Phase (as_Status s'))"
    "checkpoint_step s (st_RuntimeCheckpoint (as_Status cur)) (st_RuntimeCheckpoint (as_Status s'))"
    using t(4) unfolding t' since_length status_step_def by blast+
  show ?thesis by (intro exI conjI) (rule s(1) b t(3) g steps)+
qed

theorem Reconcile_status_refines_witness:
  "\<exists>before s' x after. sample_run (sample_session PhaseHibernating DesiredStateHibernated None) (Inl not_found) (Inr sample_pvc) =
     before @ EvStatusUpdate s' x # after \<and> om_Generation (as_Meta s') = 0"
proof -
  let ?es = "sample_run (sample_session PhaseHibernating DesiredStateHibernated None) (Inl not_found) (Inr sample_pvc)"
  have "kind_at ?es 3 ''status''" by code_simp
  then obtain before s' x after where es: "?es = before @ EvStatusUpdate s' x # after"
    by (elim event_at) (auto simp: event_kind_iff)
  from Reconcile_status_refines [OF es] have
    "om_Generation (as_Meta s') = om_Generation (as_Meta (sample_session PhaseHibernating DesiredStateHibernated None))"
    by (simp only: sample_api_simps sum.inject) blast
  then have "om_Generation (as_Meta s') = 0" by (simp add: sample_session_def zero_ObjectMeta_def)
  with es show ?thesis by blast
qed

end
