(* ===== verification/Session_Lifecycle.thy ===== *)
theory Session_Lifecycle
  imports Session_Safety
begin

text \<open>
  The lifecycle of a session over its phases: what entering hibernation and being hibernated mean, which states are
  final, that a busy agent is never taken for idle, the retry budget, and the hardening of the Pod.
\<close>

section \<open>Retry bookkeeping\<close>

lemma conditions_contractD:
  assumes "conditions_contract L"
  shows "FindStatusCondition L (SetStatusCondition L cs c) (c_Type c) = Some c"
    and "t \<noteq> c_Type c \<Longrightarrow> FindStatusCondition L (SetStatusCondition L cs c) t = FindStatusCondition L cs t"
    and "FindStatusCondition L (RemoveStatusCondition L cs t) t = None"
  using assms by (auto simp: conditions_contract_def)

lemma retryAttempt_transient:
  assumes "conditions_contract L" and "0 \<le> attempt" and "attempt < 2 ^ 63"
  shows "retryAttempt L (st_Conditions (transient_status L s attempt cause st)) (om_Generation (as_Meta s)) = attempt"
proof -
  let ?c = "\<lparr>c_Type = sessionRetryCondition, c_Status = ''True'', c_ObservedGeneration = om_Generation (as_Meta s),
          c_Reason = ''TransientError'',
          c_Message = ''attempt='' @ show_int attempt @ ''; '' @ safeConditionMessage (ke_msg cause)\<rparr>"
  have "FindStatusCondition L (SetStatusCondition L (st_Conditions st) ?c) sessionRetryCondition = Some ?c"
    using conditions_contractD(1) [OF assms(1), of _ ?c] by simp
  moreover have "Atoi_value (before_sep (CHR '';'') (show_int attempt @ ''; '' @ rest)) = attempt" for rest
    using assms(2,3) before_sep_show [of "CHR '';''" "nat attempt" "'' '' @ rest"] Atoi_show_nat [of "nat attempt"]
    by (simp add: show_int_def Atoi_value_def is_digit_def)
  ultimately show ?thesis
    by (simp add: retryAttempt_def transient_status_def HasPrefix_def TrimPrefix_def)
qed

lemma retryAttempt_kept:
  assumes "conditions_contract L"
  shows "retryAttempt L (st_Conditions (setSessionCondition L g c reason message st)) gen =
    retryAttempt L (st_Conditions st) gen"
  using conditions_contractD(2) [OF assms]
  by (simp add: retryAttempt_def setSessionCondition_def sessionRetryCondition_def sessionReadyCondition_def)

text \<open>The session after transient errors, each recorded the way \<open>handleTransient\<close> records it.\<close>

definition record_transient :: "klib \<Rightarrow> kerr \<Rightarrow> AgentSession \<Rightarrow> AgentSession" where
  "record_transient L cause s = s\<lparr>as_Status := transient_status L s
     (i64 (retryAttempt L (st_Conditions (as_Status s)) (om_Generation (as_Meta s)) + 1)) cause (as_Status s)\<rparr>"

lemma record_transient_attempts:
  assumes "conditions_contract L" and "retryAttempt L (st_Conditions (as_Status s)) (om_Generation (as_Meta s)) = 0"
    and "length causes < 2 ^ 62"
  shows "retryAttempt L (st_Conditions (as_Status (fold (record_transient L) causes s))) (om_Generation (as_Meta s)) =
    int (length causes) \<and> as_Meta (fold (record_transient L) causes s) = as_Meta s"
  using assms(3)
proof (induction causes rule: rev_induct)
  case Nil
  then show ?case using assms(2) by simp
next
  case (snoc c causes)
  let ?t = "fold (record_transient L) causes s"
  have "int (length causes) + 1 < 2 ^ 62" using snoc.prems by simp
  then have r: "0 \<le> int (length causes) + 1" "int (length causes) + 1 < 2 ^ 63" by simp_all
  then have "in64 (int (length causes) + 1)" by (simp add: in64_def)
  then have "i64 (int (length causes) + 1) = int (length causes) + 1" by (rule i64_in64)
  moreover note snoc
  ultimately show ?case
    using retryAttempt_transient [OF assms(1) r, of ?t c "as_Status ?t"] by (simp add: record_transient_def [of L c ?t])
qed

text \<open>
  The retry counter survives the round trip through the text of the condition, and the budget is finite: from a session
  without a retry condition, the attempt that follows \<open>k\<close> recorded transient errors of one generation is number
  \<open>k + 1\<close>; the first nine are retried after 1, 2, 4, ... seconds and the tenth fails the session.
\<close>

theorem handleTransient_budget:
  assumes "conditions_contract L" and "FindStatusCondition L (st_Conditions (as_Status s)) sessionRetryCondition = None"
    and "length causes < 2 ^ 62" and "t = fold (record_transient L) causes s"
  shows "handleTransient L A t cause =
    (if length causes < 9 then do {
       r \<leftarrow> setStatus L A (ObjectKey (as_Meta s)) (om_Generation (as_Meta s))
              (transient_status L t (int (length causes) + 1) cause);
       State_Monad.return (case r of Some err \<Rightarrow> (done_result, Some (errors_Join cause err))
         | None \<Rightarrow> (requeue_after (second * 2 ^ length causes), None)) }
     else fail_session L A t ''RetryBudgetExceeded''
       (''Reconciliation failed after '' @ show_int (int (length causes) + 1) @ '' attempts''))"
proof -
  have "retryAttempt L (st_Conditions (as_Status s)) (om_Generation (as_Meta s)) = 0"
    using assms(2) by (simp add: retryAttempt_def)
  then have t: "retryAttempt L (st_Conditions (as_Status t)) (om_Generation (as_Meta t)) = int (length causes)"
    "as_Meta t = as_Meta s"
    using record_transient_attempts [OF assms(1) _ assms(3)] assms(4) by simp_all
  have "int (length causes) + 1 < 2 ^ 62 + 1" using assms(3) by simp
  then have i: "i64 (int (length causes) + 1) = int (length causes) + 1" "i64 (int (length causes)) = int (length causes)"
    by (simp_all add: i64_in64 in64_def)
  have delay: "transient_delay (int (length causes) + 1) = (requeue_after (second * 2 ^ length causes), None)"
    if "length causes < 9"
    using that i(2) by (simp add: transient_delay_def Let_def)
  show ?thesis using t i delay
    by (auto simp: handleTransient_def Let_def maxTransientRetries_def ObjectKey_def cong: option.case_cong)
qed

lemma sample_lib_conditions: "conditions_contract sample_lib"
proof -
  have find: "find (\<lambda>d. c_Type d = t) (filter (\<lambda>d. c_Type d \<noteq> u) cs) = find (\<lambda>d. c_Type d = t) cs" if "t \<noteq> u"
    for t u and cs :: "Condition list"
    using that by (induction cs) auto
  have "find (\<lambda>d. c_Type d = t) (filter (\<lambda>d. c_Type d \<noteq> t) cs) = None" for t and cs :: "Condition list"
    by (simp add: find_None_iff)
  with find show ?thesis by (simp add: conditions_contract_def sample_lib_def)
qed

theorem handleTransient_budget_witness:
  "handleTransient sample_lib (sample_api zero_AgentSession (Inl not_found) (Inl not_found)) zero_AgentSession not_found = do {
     r \<leftarrow> setStatus sample_lib (sample_api zero_AgentSession (Inl not_found) (Inl not_found)) (ObjectKey zero_ObjectMeta) 0
            (transient_status sample_lib zero_AgentSession 1 not_found);
     State_Monad.return (case r of Some err \<Rightarrow> (done_result, Some (errors_Join not_found err))
       | None \<Rightarrow> (requeue_after second, None)) }"
proof -
  have "FindStatusCondition sample_lib (st_Conditions (as_Status zero_AgentSession)) sessionRetryCondition = None"
    by (simp add: sample_lib_def zero_AgentSession_def)
  moreover have "as_Meta zero_AgentSession = zero_ObjectMeta" "om_Generation zero_ObjectMeta = 0"
    by (simp_all add: zero_AgentSession_def zero_ObjectMeta_def)
  ultimately show ?thesis
    using handleTransient_budget [OF sample_lib_conditions, of zero_AgentSession "[]" zero_AgentSession
      "sample_api zero_AgentSession (Inl not_found) (Inl not_found)" not_found]
    by (simp cong: option.case_cong)
qed

section \<open>Hibernation\<close>

lemma unless_not_found_None: "unless_not_found y = None \<longleftrightarrow> y = None \<or> (\<exists>e. y = Some e \<and> IsNotFound e)"
  by (auto simp: unless_not_found_def split: option.splits)

text \<open>The phase a status update writes at position \<open>i + 1\<close>, over another one read at position \<open>i\<close>.\<close>

definition phase_change_at :: "event list \<Rightarrow> nat \<Rightarrow> AgentSessionPhase \<Rightarrow> bool" where
  "phase_change_at es i p \<longleftrightarrow> Suc i < length es \<and> (case es ! i of
     EvGetSession k (Inr cur) \<Rightarrow> (case es ! Suc i of
         EvStatusUpdate s' x \<Rightarrow> st_Phase (as_Status s') = p \<and> st_Phase (as_Status cur) \<noteq> p | _ \<Rightarrow> False)
   | _ \<Rightarrow> False)"

lemma phase_change_at:
  assumes "phase_change_at es i p"
  obtains before k cur s' x after where "es = before @ EvGetSession k (Inr cur) # EvStatusUpdate s' x # after"
    "st_Phase (as_Status s') = p" "st_Phase (as_Status cur) \<noteq> p"
proof -
  obtain k cur where g: "es ! i = EvGetSession k (Inr cur)"
    using assms by (auto simp: phase_change_at_def split: event.splits sum.splits)
  obtain s' x where u: "es ! Suc i = EvStatusUpdate s' x"
    using assms by (auto simp: phase_change_at_def g split: event.splits)
  have "Suc i < length es" "st_Phase (as_Status s') = p" "st_Phase (as_Status cur) \<noteq> p"
    using assms by (simp_all add: phase_change_at_def g u)
  moreover from this have "es = take i es @ es ! i # es ! Suc i # drop (Suc (Suc i)) es"
    by (metis Cons_nth_drop_Suc Suc_lessD append_take_drop_id)
  ultimately show thesis using g u that by metis
qed

text \<open>
  C14. A run reports a session as Hibernated, when it was not, only if it found the session Hibernating and saw that its Pod
  is gone, or if it deleted a Pod that its active deadline had stopped; and it moves a session to Hibernating only if
  hibernation was requested or the session had been marked Idle by an earlier run.
\<close>

theorem Reconcile_hibernation:
  assumes "events_of (Reconcile L A r key) w = before @ EvGetSession k (Inr cur) # EvStatusUpdate s' x # after"
    and "st_Phase (as_Status s') \<noteq> st_Phase (as_Status cur)"
  shows "\<exists>s. a_get_session A (w_trace w) key = Inr s \<and>
    (st_Phase (as_Status s') = PhaseHibernated \<longrightarrow>
       st_Phase (as_Status s) = PhaseHibernating \<and> seen_pod_absent L s (set before) \<or>
       (\<exists>pod y. podStoppedByDeadline pod \<and> owned_by s (pod_Meta pod) \<and> EvDeletePod pod None y \<in> set before \<and>
          (y = None \<or> (\<exists>e. y = Some e \<and> IsNotFound e)))) \<and>
    (st_Phase (as_Status s') = PhaseHibernating \<longrightarrow>
       sp_DesiredState (as_Spec s) = DesiredStateHibernated \<or> st_Phase (as_Status s) = PhaseIdle)"
proof -
  have "events_of (Reconcile L A r key) w = (before @ [EvGetSession k (Inr cur)]) @ EvStatusUpdate s' x # after"
    using assms(1) by simp
  from Reconcile_status_refines [OF this] obtain s where s: "a_get_session A (w_trace w) key = Inr s"
    and step: "phase_step L s (set before) (st_Phase (as_Status cur)) (st_Phase (as_Status s'))" by auto
  show ?thesis
  proof (intro exI [of _ s] conjI impI)
    assume "st_Phase (as_Status s') = PhaseHibernated"
    with step assms(2) show "st_Phase (as_Status s) = PhaseHibernating \<and> seen_pod_absent L s (set before) \<or>
       (\<exists>pod y. podStoppedByDeadline pod \<and> owned_by s (pod_Meta pod) \<and> EvDeletePod pod None y \<in> set before \<and>
          (y = None \<or> (\<exists>e. y = Some e \<and> IsNotFound e)))"
      unfolding unless_not_found_None [symmetric] by (auto simp: phase_step_Hibernated seen_pod_def)
  qed (use s step assms(2) in \<open>auto simp: phase_step_Hibernating\<close>)
qed

theorem Reconcile_hibernation_witness:
  "\<exists>before k cur s' x after. sample_run (sample_session PhaseHibernating DesiredStateHibernated None) (Inl not_found) (Inr sample_pvc) =
     before @ EvGetSession k (Inr cur) # EvStatusUpdate s' x # after \<and> st_Phase (as_Status s') = PhaseHibernated \<and>
     (seen_pod_absent sample_lib (sample_session PhaseHibernating DesiredStateHibernated None) (set before) \<or>
      (\<exists>pod y. podStoppedByDeadline pod \<and> EvDeletePod pod None y \<in> set before))"
proof -
  let ?s = "sample_session PhaseHibernating DesiredStateHibernated None"
  have "phase_change_at (sample_run ?s (Inl not_found) (Inr sample_pvc)) 2 PhaseHibernated" by code_simp
  then obtain before k cur s' x after where
    es: "sample_run ?s (Inl not_found) (Inr sample_pvc) = before @ EvGetSession k (Inr cur) # EvStatusUpdate s' x # after"
    and ph: "st_Phase (as_Status s') = PhaseHibernated" "st_Phase (as_Status cur) \<noteq> PhaseHibernated"
    by (rule phase_change_at)
  have "st_Phase (as_Status s') \<noteq> st_Phase (as_Status cur)" using ph by auto
  from Reconcile_hibernation [OF es this] have "seen_pod_absent sample_lib ?s (set before) \<or>
      (\<exists>pod y. podStoppedByDeadline pod \<and> EvDeletePod pod None y \<in> set before)"
    unfolding sample_api_simps ph(1) by blast
  with es ph show ?thesis by blast
qed

section \<open>Final states\<close>

text \<open>
  A run on a session that is not being deleted, is valid and carries the finalizer does nothing but read it when the
  session has failed for its current generation and nonce, when it is hibernated as desired, or when it hibernated by itself and no
  new resume nonce has arrived.
\<close>

theorem Reconcile_final:
  fixes w :: "(event, 'm) world"
  assumes "a_get_session A (w_trace w) key = Inr s" and "\<not> being_deleted s" and "validateAgentSession L s = None"
    and "ContainsFinalizer L (as_Meta s) agentSessionFinalizer"
    and "st_Phase (as_Status s) = PhaseFailed \<and> st_ObservedGeneration (as_Status s) = om_Generation (as_Meta s) \<and>
        st_ObservedResumeNonce (as_Status s) = sp_ResumeNonce (as_Spec s) \<or>
      st_Phase (as_Status s) = PhaseHibernated \<and> (sp_DesiredState (as_Spec s) = DesiredStateHibernated \<or>
        st_ObservedResumeNonce (as_Status s) = sp_ResumeNonce (as_Spec s))"
  shows "events_of (Reconcile L A r key) w = [EvGetSession key (Inr s)] \<and>
    result_of (Reconcile L A r key) w = (done_result, None)"
proof -
  have "(reconcile_session L A r s key :: ('m, Result \<times> kerr option) kube) = State_Monad.return (done_result, None)"
    using assms(2-5) by (auto simp: reconcile_session_def being_deleted_def reconcile_active_def)
  then show ?thesis using assms(1) by (simp add: Reconcile_def get_session_def events_of_def)
qed

theorem Reconcile_final_witness:
  "sample_run (sample_session PhaseHibernated DesiredStateHibernated None) (Inr sample_pod) (Inr sample_pvc) =
     [EvGetSession (''u'', ''sess-303132333435'') (Inr (sample_session PhaseHibernated DesiredStateHibernated None))]"
proof -
  let ?s = "sample_session PhaseHibernated DesiredStateHibernated None"
  have "validateAgentSession sample_lib ?s = None" by code_simp
  moreover have "ContainsFinalizer sample_lib (as_Meta ?s) agentSessionFinalizer" "\<not> being_deleted ?s"
    "st_Phase (as_Status ?s) = PhaseHibernated" "sp_DesiredState (as_Spec ?s) = DesiredStateHibernated"
    by (simp_all add: sample_lib_def sample_session_def being_deleted_def)
  ultimately show ?thesis
    using Reconcile_final [of "sample_api ?s (Inr sample_pod) (Inr sample_pvc)" start_world _ ?s sample_lib sample_reconciler]
    by simp
qed

section \<open>Busy agents\<close>

lemma runs_status_then_any:
  fixes w :: "(event, 'm) world"
  assumes "\<And>t k x. P t (EvGetSession k x)" and "\<And>t cur x. P t (EvStatusUpdate (cur\<lparr>as_Status := mutate (as_Status cur)\<rparr>) x)"
  shows "runs P w (status_then L A s mutate result) (\<lambda>_ _. True)"
proof -
  have "runs P v (set_status_once L A k gen mutate) (\<lambda>_ _. True \<and> True)" for v :: "(event, 'm) world" and k gen
    unfolding set_status_once_def call_defs Let_def using assms by (intro runs_rules) auto
  then have "runs P w (setStatus L A k gen mutate) (\<lambda>_ _. True)" for k gen
    unfolding setStatus_def using runs_retry_on [where I = "\<lambda>_. True" and Q = "\<lambda>_ _. True"
      and m = "set_status_once L A k gen mutate" and w = w] by simp
  then show ?thesis unfolding status_then_def by (rule runs_bind [OF runs_post]) (simp add: runs_return)
qed

definition busy :: "AgentWorkState \<Rightarrow> bool" where
  "busy ws \<longleftrightarrow> ws = AgentWorkStateWorking \<or> ws = AgentWorkStateAwaitingApproval \<or> ws = AgentWorkStateAwaitingChoice"

definition keeps_running :: "event \<Rightarrow> bool" where
  "keeps_running e = (case e of
     EvStatusUpdate s' x \<Rightarrow> st_Phase (as_Status s') = PhaseRunning
   | EvGetSession k x \<Rightarrow> True | EvExec k c cmd x \<Rightarrow> True | EvNow t \<Rightarrow> True | _ \<Rightarrow> False)"

text \<open>
  While the agent reports that it is working or that it waits for an approval or a choice, reconciling its ready Pod
  only ever reports the session Running: it is not marked idle, not hibernated and its Pod is not deleted, whatever the idle
  timeout and the clock.
\<close>

theorem busy_agent_keeps_running:
  fixes w :: "(event, 'm) world"
  assumes "rc_StateReader r" and "result_of (ReadState A pod) w = Inr ws" and "busy ws"
  shows "list_all keeps_running (events_of (run_ready_pod L A r s pvcName pod) w)"
proof -
  let ?P = "\<lambda>t e. keeps_running e"
  have read: "runs ?P w (ReadState A pod) (\<lambda>x _. x = Inr ws)"
  proof -
    have "runs ?P w (ReadState A pod) (\<lambda>x v. w_mem v = w_mem w)"
      by (rule runs_ReadState) (simp add: keeps_running_def)
    then show ?thesis using assms(2) by (auto simp: runs_def)
  qed
  have now: "runs ?P v (time_now A) (\<lambda>_ _. True)" for v :: "(event, 'm) world"
    unfolding time_now_def by (intro runs_call) (auto simp: keeps_running_def)
  have "\<not> idle_now s now activity ws" for now activity using assms(3) by (auto simp: idle_now_def busy_def)
  then have rest: "runs ?P v (if idle_now s now activity ws \<and> st_Phase (as_Status s) = PhaseRunning
       then status_then L A s (idle_status L s pod pvcName activity) (requeue_after (idleScan r))
       else if idle_now s now activity ws \<and> st_Phase (as_Status s) = PhaseIdle then reconcileHibernate L A r s
       else status_then L A s (running_status L s pod pvcName activity ws) (requeue_after (idleScan r))) (\<lambda>_ _. True)"
    for v :: "(event, 'm) world" and now activity
    by (auto intro!: runs_status_then_any simp: keeps_running_def running_status_def live_status_def split_beta)
  have "runs ?P w (run_ready_pod L A r s pvcName pod) (\<lambda>_ _. True)"
    unfolding run_ready_pod_def Let_def
  proof (rule runs_bind, rule runs_post)
    show "runs ?P w (if rc_StateReader r then do {
         x \<leftarrow> ReadState A pod;
         State_Monad.return (case x of Inl e \<Rightarrow> AgentWorkStateUnknown | Inr current \<Rightarrow> current) }
       else State_Monad.return AgentWorkStateUnknown) (\<lambda>x _. x = ws)"
      by (intro runs_if runs_bind runs_post [OF read] runs_return) (use assms(1) in auto)
  qed (simp only:, intro runs_bind runs_post [OF now] rest)
  then show ?thesis unfolding list_all_iff using runs_events by (metis in_set_conv_decomp)
qed

theorem busy_agent_keeps_running_witness:
  "list_all keeps_running (events_of (run_ready_pod sample_lib (sample_api (sample_session PhaseIdle DesiredStateRunning None)
     (Inr sample_pod) (Inr sample_pvc)) sample_reconciler (sample_session PhaseIdle DesiredStateRunning None) ''p'' sample_pod)
     start_world)"
proof -
  have "work_state (TrimSpace ''working'') = Some AgentWorkStateWorking" by code_simp
  then have "result_of (ReadState (sample_api (sample_session PhaseIdle DesiredStateRunning None) (Inr sample_pod)
      (Inr sample_pvc)) sample_pod) start_world = Inr AgentWorkStateWorking"
    by (simp add: ReadState_def exec_in_pod_def sample_api_def sample_pod_def)
  from busy_agent_keeps_running [OF _ this] show ?thesis by (simp add: busy_def sample_reconciler_def)
qed

section \<open>The agent Pod\<close>

definition all_containers :: "Pod \<Rightarrow> Container list" where
  "all_containers pod = ps_InitContainers (pod_Spec pod) @ ps_Containers (pod_Spec pod)"

text \<open>
  The Pod the controller creates is locked down: every container, the init container included, forbids privilege
  escalation, has a read-only root file system and drops all capabilities; the Pod runs as a non-root user without
  an automatically mounted API token; the gateway token volume is mounted by the authentication proxy alone, and
  read-only; every mount refers to a declared volume; and the Pod carries the labels that identify the session's objects.
\<close>

theorem desiredPod_hardened:
  "let pod = desiredPod L r s pvcName in
   (\<forall>c\<in>set (all_containers pod). ct_SecurityContext c =
      Some \<lparr>sx_AllowPrivilegeEscalation = False, sx_ReadOnlyRootFilesystem = True, sx_Drop = [''ALL'']\<rparr>) \<and>
   \<not> ps_AutomountServiceAccountToken (pod_Spec pod) \<and>
   (\<exists>px. ps_SecurityContext (pod_Spec pod) = Some px \<and> px_RunAsNonRoot px \<and> px_RunAsUser px \<noteq> 0) \<and>
   (\<forall>c\<in>set (all_containers pod). \<forall>m\<in>set (ct_VolumeMounts c).
      vm_Name m \<in> fst ` set (ps_Volumes (pod_Spec pod)) \<and>
      (vm_Name m = gatewayTokenVolume \<longrightarrow> ct_Name c = ''auth-proxy'' \<and> vm_ReadOnly m)) \<and>
   owned_by s (pod_Meta pod) \<and> (om_Namespace (pod_Meta pod), om_Name (pod_Meta pod)) = pod_key L s"
  by (simp add: desiredPod_def all_containers_def agent_container_def auth_proxy_container_def runtime_init_container_def
      restrictedContainerSecurityContext_def workspaceVolume_def gatewayTokenVolume_def owned_by_def sessionLabels_def
      sget_def managedByLabel_def userLabel_def sessionLabel_def pod_key_def split_beta)

theorem desiredPod_hardened_witness:
  "\<not> ps_AutomountServiceAccountToken (pod_Spec (desiredPod sample_lib sample_reconciler zero_AgentSession ''p''))"
  using desiredPod_hardened [of sample_lib sample_reconciler zero_AgentSession "''p''"] by (simp add: Let_def)

section \<open>A lost workspace\<close>

text \<open>
  The guard against an empty workspace does not survive the failure it causes: a hibernated session whose claim is
  missing fails with WorkspaceUnavailable, and when it is then resumed with a new nonce the next run creates a new claim,
  because a Failed session does not count as restoring.
\<close>

theorem lost_workspace_is_replaced:
  "let s = sample_session PhaseHibernated DesiredStateRunning None;
       failed = s\<lparr>as_Status := fail_status sample_lib s ''WorkspaceUnavailable''
           ''Original workspace PVC is unavailable; an empty workspace was not created'' (as_Status s),
         as_Spec := (as_Spec s)\<lparr>sp_ResumeNonce := ''n2''\<rparr>\<rparr>
   in st_PVCName (as_Status failed) \<noteq> [] \<and>
      phase_change_at (sample_run s (Inl not_found) (Inl not_found)) 2 PhaseFailed \<and>
      kind_at (sample_run failed (Inl not_found) (Inl not_found)) 2 ''create pvc''"
  by code_simp

end
