(* ===== verification/Go_Float.thy ===== *)
theory Go_Float
  imports Prelude Complex_Main "HOL-Library.Log_Nat"
begin

text \<open>
  Go's \<open>float64\<close> as far as the sources use it: a float is the rational number it stands for, and each operation is the exact
  one followed by \<open>round53\<close>, the rounding of IEEE 754 to 53 significant bits, to the nearest, ties to even. The sources
  compute CPU rates from counters below \<open>2 ^ 64\<close> and intervals between half a second and two minutes, far from the
  bounds of the exponent, so overflow, subnormal numbers, infinities and NaN are left out.
\<close>

section \<open>Definitions\<close>

text \<open>The exponent of the leading binary digit of a positive number.\<close>

definition log2_floor :: "rat \<Rightarrow> int" where
  "log2_floor x = (let (p, q) = quotient_of x; k = bitlen p - bitlen q in if x < power_int 2 k then k - 1 else k)"

definition round_half_even :: "rat \<Rightarrow> int" where
  "round_half_even x = (let n = \<lfloor>x\<rfloor>; r = x - of_int n in
     if r < 1 / 2 then n else if r > 1 / 2 then n + 1 else if even n then n else n + 1)"

definition round53 :: "rat \<Rightarrow> rat" where
  "round53 x = (if x = 0 then 0 else let u = power_int 2 (log2_floor \<bar>x\<bar> - 52) in sgn x * of_int (round_half_even (\<bar>x\<bar> / u)) * u)"

definition float_of_int :: "int \<Rightarrow> rat" where
  "float_of_int n = round53 (of_int n)"

definition float_add :: "rat \<Rightarrow> rat \<Rightarrow> rat" where
  "float_add x y = round53 (x + y)"

definition float_sub :: "rat \<Rightarrow> rat \<Rightarrow> rat" where
  "float_sub x y = round53 (x - y)"

definition float_mult :: "rat \<Rightarrow> rat \<Rightarrow> rat" where
  "float_mult x y = round53 (x * y)"

definition float_div :: "rat \<Rightarrow> rat \<Rightarrow> rat" where
  "float_div x y = round53 (x / y)"

text \<open>\<open>int64(math.Round(x))\<close>: half away from zero.\<close>

definition math_Round :: "rat \<Rightarrow> int" where
  "math_Round x = (if x \<ge> 0 then \<lfloor>x + 1 / 2\<rfloor> else - \<lfloor>- x + 1 / 2\<rfloor>)"

text \<open>\<open>time.Duration.Seconds\<close>, with Go's truncated division.\<close>

definition Seconds :: "duration \<Rightarrow> rat" where
  "Seconds d = float_add (float_of_int (d sdiv second)) (float_div (float_of_int (d smod second)) 1000000000)"

section \<open>The error of a rounding\<close>

lemma log2_floor_bounds:
  assumes "0 < x"
  shows "power_int 2 (log2_floor x) \<le> x" and "x < 2 * power_int 2 (log2_floor x)"
proof -
  obtain p q where pq: "quotient_of x = (p, q)" by (cases "quotient_of x")
  have q: "0 < q" and x: "x = of_int p / of_int q" using quotient_of_denom_pos [OF pq] quotient_of_div [OF pq] by auto
  have p: "0 < p" using assms q by (simp add: x zero_less_divide_iff)
  have pow: "of_int (2 ^ nat k) = (power_int 2 k :: rat)" if "0 \<le> k" for k using that by (simp add: power_int_nonneg_exp)
  have bit: "(power_int 2 (bitlen n - 1) :: rat) \<le> of_int n" "of_int n < (power_int 2 (bitlen n) :: rat)" if "0 < n" for n
  proof -
    have "1 \<le> bitlen n" using that bitlen_nonneg [of n] bitlen_eq_zero_iff [of n] by linarith
    then show "(power_int 2 (bitlen n - 1) :: rat) \<le> of_int n" "of_int n < (power_int 2 (bitlen n) :: rat)"
      using bitlen_bounds [OF that] by (simp_all add: pow [symmetric] del: of_int_power)
  qed
  define k where "k = bitlen p - bitlen q"
  have "of_int p < (power_int 2 (bitlen p) :: rat)" by (rule bit [OF p])
  also have "power_int 2 (bitlen p) = (power_int 2 (k + 1) :: rat) * power_int 2 (bitlen q - 1)"
    by (simp add: k_def flip: power_int_add)
  also have "\<dots> \<le> power_int 2 (k + 1) * of_int q" using bit(1) [OF q] by (intro mult_left_mono) simp_all
  finally have up: "x < 2 * power_int 2 k" using q by (simp add: x divide_less_eq power_int_add mult_ac)
  have "(power_int 2 (k - 1) :: rat) * of_int q \<le> power_int 2 (k - 1) * power_int 2 (bitlen q)"
    using bit(2) [OF q] by (intro mult_left_mono) simp_all
  also have "\<dots> = power_int 2 (bitlen p - 1)" by (simp add: k_def flip: power_int_add)
  also have "\<dots> \<le> of_int p" by (rule bit [OF p])
  finally have low: "power_int 2 (k - 1) \<le> x" using q by (simp add: x le_divide_eq)
  have half: "2 * power_int 2 (k - 1) = (power_int 2 k :: rat)" by (simp add: power_int_diff)
  show "power_int 2 (log2_floor x) \<le> x" "x < 2 * power_int 2 (log2_floor x)"
    using up low half by (simp_all add: log2_floor_def pq k_def [symmetric] Let_def)
qed

lemma round_half_even_error: "\<bar>of_int (round_half_even x) - x\<bar> \<le> 1 / 2"
proof -
  have "of_int \<lfloor>x\<rfloor> \<le> x" "x < of_int \<lfloor>x\<rfloor> + 1" by linarith+
  then show ?thesis unfolding round_half_even_def Let_def by (auto simp: abs_le_iff)
qed

lemma round53_error: "\<bar>round53 x - x\<bar> \<le> \<bar>x\<bar> / 2 ^ 53"
proof (cases "x = 0")
  case False
  define u where "u = (power_int 2 (log2_floor \<bar>x\<bar> - 52) :: rat)"
  define m where "m = (of_int (round_half_even (\<bar>x\<bar> / u)) :: rat)"
  have u: "0 < u" "u * 2 ^ 52 \<le> \<bar>x\<bar>"
    using log2_floor_bounds(1) [of "\<bar>x\<bar>"] False by (simp_all add: u_def power_int_diff)
  have "round53 x - x = sgn x * (m - \<bar>x\<bar> / u) * u" using False u(1)
    by (simp add: round53_def m_def u_def [symmetric] Let_def algebra_simps abs_mult_sgn)
  then have "\<bar>round53 x - x\<bar> = \<bar>m - \<bar>x\<bar> / u\<bar> * u" using False u(1) by (simp add: abs_mult abs_sgn_eq)
  also have "\<dots> \<le> 1 / 2 * u" using round_half_even_error u(1) unfolding m_def by (intro mult_right_mono) simp_all
  also have "\<dots> \<le> \<bar>x\<bar> / 2 ^ 53" using u(2) by simp
  finally show ?thesis .
qed (simp add: round53_def)

lemma math_Round_error: "\<bar>of_int (math_Round x) - x\<bar> \<le> 1 / 2"
proof -
  have "\<bar>of_int \<lfloor>y + 1 / 2\<rfloor> - y\<bar> \<le> 1 / 2" for y :: rat by linarith
  moreover have "of_int (math_Round x) - x = (if 0 \<le> x then of_int \<lfloor>x + 1 / 2\<rfloor> - x else - (of_int \<lfloor>- x + 1 / 2\<rfloor> - - x))"
    by (simp add: math_Round_def)
  ultimately show ?thesis by (simp only: abs_minus_cancel split: if_split) simp
qed

lemma max_near: "\<bar>of_int r - x\<bar> \<le> e \<Longrightarrow> 0 \<le> x \<Longrightarrow> \<bar>of_int (max 0 r) - x\<bar> \<le> e" for x e :: rat
proof (cases "0 \<le> r")
  case False
  assume "\<bar>of_int r - x\<bar> \<le> e" and x: "0 \<le> x"
  moreover have "(of_int r :: rat) < 0" using False by simp
  ultimately have "x \<le> e" by linarith
  then show ?thesis using x False by (simp add: max_def)
qed simp

text \<open>Rounded and nearly rounded values of numbers below a bound.\<close>

lemma round53_near: "\<bar>x - y\<bar> \<le> e \<Longrightarrow> \<bar>y\<bar> + e \<le> b \<Longrightarrow> \<bar>round53 x - y\<bar> \<le> e + b / 2 ^ 53"
proof -
  assume near: "\<bar>x - y\<bar> \<le> e" and "\<bar>y\<bar> + e \<le> b"
  then have "\<bar>x\<bar> \<le> b" by linarith
  then have "\<bar>round53 x - x\<bar> \<le> b / 2 ^ 53" by (intro order_trans [OF round53_error] divide_right_mono) simp_all
  then show ?thesis using near by linarith
qed

lemma quotient_near:
  fixes d s x t :: rat
  assumes "\<bar>d - x\<bar> \<le> e" and "\<bar>s - t\<bar> \<le> f * t" and "\<bar>x\<bar> \<le> b" and "0 < t" and "0 < l" and "l \<le> s"
  shows "\<bar>d / s - x / t\<bar> \<le> (e + b * f) / l"
proof -
  have s: "0 < s" using assms(5,6) by simp
  have "d / s - x / t = (d - x) / s + x * (t - s) / (s * t)" using s assms(4) by (simp add: field_simps)
  then have "\<bar>d / s - x / t\<bar> \<le> \<bar>d - x\<bar> / s + \<bar>x\<bar> * \<bar>t - s\<bar> / (s * t)"
    using s assms(4) abs_triangle_ineq [of "(d - x) / s" "x * (t - s) / (s * t)"] by (simp add: abs_mult)
  also have "\<dots> \<le> e / s + b * (f * t) / (s * t)"
    using assms s by (intro add_mono divide_right_mono mult_mono) (auto simp: abs_minus_commute)
  also have "\<dots> = (e + b * f) / s" using assms(4) s by (simp add: field_simps)
  also have "\<dots> \<le> (e + b * f) / l"
  proof -
    have "0 \<le> f * t" using assms(2) by linarith
    then have "0 \<le> f" using assms(4) by (simp add: zero_le_mult_iff)
    then have "0 \<le> e + b * f" using assms(1,3) by (intro add_nonneg_nonneg mult_nonneg_nonneg) linarith+
    then show ?thesis using assms(5,6) by (intro divide_left_mono) simp_all
  qed
  finally show ?thesis .
qed

section \<open>Rates\<close>

text \<open>A quotient of floats, times a thousand and rounded: the last step of both rates of the sources.\<close>

lemma scaled_near:
  fixes q x :: rat
  assumes "\<bar>q - x\<bar> \<le> e" and "\<bar>x\<bar> \<le> b" and "e \<le> 1"
  shows "\<bar>of_int (math_Round (float_mult (round53 q) 1000)) - 1000 * x\<bar> \<le> 1 / 2 + 1000 * e + 3000 * (b + 1) / 2 ^ 53"
proof -
  let ?r = "round53 q"
  define z where "z = 1000 * (b + 1) / 2 ^ 53"
  have "\<bar>?r - x\<bar> \<le> e + (b + 1) / 2 ^ 53" by (rule round53_near [OF assms(1)]) (use assms(2,3) in linarith)
  moreover have "\<bar>?r * 1000 - 1000 * x\<bar> = 1000 * \<bar>?r - x\<bar>" using abs_mult [of 1000 "?r - x"] by (simp add: algebra_simps)
  ultimately have r: "\<bar>?r * 1000 - 1000 * x\<bar> \<le> 1000 * e + z" unfolding z_def times_divide_eq_right [symmetric] by linarith
  have "\<bar>float_mult ?r 1000 - 1000 * x\<bar> \<le> (1000 * e + z) + 2000 * (b + 1) / 2 ^ 53" unfolding float_mult_def
  proof (rule round53_near [OF r])
    have "0 \<le> b" using assms(2) by linarith
    then have "z \<le> 1000 * (b + 1)" by (simp add: z_def)
    moreover have "\<bar>1000 * x\<bar> \<le> 1000 * b" using assms(2) by (simp add: abs_mult)
    ultimately show "\<bar>1000 * x\<bar> + (1000 * e + z) \<le> 2000 * (b + 1)" using assms(3) by simp
  qed
  moreover have "z + 2000 * (b + 1) / 2 ^ 53 = 3000 * (b + 1) / 2 ^ 53" by (simp add: z_def field_simps)
  ultimately show ?thesis using math_Round_error [of "float_mult ?r 1000"] by linarith
qed

text \<open>A rate of integers: \<open>int64(math.Round(float64(n) / float64(t) * 1000))\<close>.\<close>

definition int_rate :: "int \<Rightarrow> int \<Rightarrow> int" where
  "int_rate n t = math_Round (float_mult (float_div (float_of_int n) (float_of_int t)) 1000)"

lemma float_of_int_near: "\<bar>of_int n\<bar> \<le> b \<Longrightarrow> \<bar>float_of_int n - of_int n\<bar> \<le> b / 2 ^ 53"
  unfolding float_of_int_def using round53_near [of "of_int n" "of_int n" 0 b] by simp

lemma int_rate_near:
  assumes "0 \<le> n" and "n < 2 ^ 64" and "500000000 \<le> t"
  shows "\<bar>of_int (int_rate n t) - 1000 * (of_int n / of_int t :: rat)\<bar> \<le> 53 / 100"
proof -
  have "(of_int n :: rat) \<le> of_int (2 ^ 64)" using assms(2) by (simp only: of_int_le_iff)
  then have n: "\<bar>of_int n :: rat\<bar> \<le> 2 ^ 64" using assms(1) by simp
  have t: "(500000000 :: rat) \<le> of_int t" using assms(3) by simp
  have "\<bar>float_of_int t - of_int t :: rat\<bar> \<le> 1 / 2 ^ 53 * of_int t" using float_of_int_near [of t "of_int t"] t by simp
  then have s: "\<bar>float_of_int t - of_int t :: rat\<bar> \<le> 1 / 2 ^ 53 * of_int t" "490000000 \<le> float_of_int t"
    using t abs_ge_minus_self [of "float_of_int t - of_int t"] by simp_all
  have "\<bar>float_of_int n / float_of_int t - of_int n / of_int t :: rat\<bar> \<le> (2 ^ 64 / 2 ^ 53 + 2 ^ 64 * (1 / 2 ^ 53)) / 490000000"
    using t by (intro quotient_near [OF float_of_int_near [OF n] s(1) n _ _ s(2)]) simp_all
  moreover have "\<bar>of_int n / of_int t :: rat\<bar> \<le> 2 ^ 64 / 500000000" unfolding abs_divide using n t by (intro frac_le) auto
  ultimately have "\<bar>of_int (int_rate n t) - 1000 * (of_int n / of_int t :: rat)\<bar> \<le>
      1 / 2 + 1000 * ((2 ^ 64 / 2 ^ 53 + 2 ^ 64 * (1 / 2 ^ 53)) / 490000000) + 3000 * (2 ^ 64 / 500000000 + 1) / 2 ^ 53"
    unfolding int_rate_def float_div_def by (rule scaled_near) simp
  also have "\<dots> \<le> 53 / 100" by simp
  finally show ?thesis .
qed

text \<open>A rate of counters in seconds over the seconds of an interval.\<close>

definition counter_seconds :: "int \<Rightarrow> rat" where
  "counter_seconds n = float_div (float_of_int n) 1000000000"

definition seconds_rate :: "rat \<Rightarrow> rat \<Rightarrow> duration \<Rightarrow> int" where
  "seconds_rate c c0 t = math_Round (float_mult (float_div (float_sub c c0) (Seconds t)) 1000)"

lemma counter_seconds_near:
  assumes "0 \<le> n" and "n \<le> 2 ^ 60"
  shows "\<bar>counter_seconds n - of_int n / 1000000000\<bar> \<le> 1 / 3000000"
proof -
  have "(of_int n :: rat) \<le> of_int (2 ^ 60)" using assms(2) by (simp only: of_int_le_iff)
  then have n: "\<bar>of_int n :: rat\<bar> \<le> 2 ^ 60" using assms(1) by simp
  from float_of_int_near [OF n] have "\<bar>float_of_int n / 1000000000 - of_int n / 1000000000\<bar> \<le> 128 / 1000000000"
    by (simp add: abs_divide flip: diff_divide_distrib)
  from round53_near [OF this, of "2 ^ 60 / 1000000000 + 1"] n have
    "\<bar>counter_seconds n - of_int n / 1000000000\<bar> \<le> 128 / 1000000000 + (2 ^ 60 / 1000000000 + 1) / 2 ^ 53"
    by (simp add: counter_seconds_def float_div_def abs_divide)
  also have "\<dots> \<le> 1 / 3000000" by simp
  finally show ?thesis .
qed

lemma Seconds_near:
  assumes "0 \<le> t"
  shows "\<bar>Seconds t - of_int t / 1000000000\<bar> \<le> 5 / 2 ^ 53 * (of_int t / 1000000000)"
proof -
  define a r where "a = (of_int (t div second) :: rat)" and "r = (of_int (t mod second) :: rat)"
  define e T where "e = (1 / 2 ^ 53 :: rat)" and "T = (of_int t / 1000000000 :: rat)"
  have e: "0 < e" "e < 1 / 10" by (simp_all add: e_def)
  have ar: "0 \<le> a" "0 \<le> r" using assms by (simp_all add: a_def r_def second_def)
  have "of_int t = a * 1000000000 + r" unfolding a_def r_def second_def
    by (metis of_int_add of_int_mult of_int_numeral div_mult_mod_eq)
  then have T: "T = a + r / 1000000000" by (simp add: T_def)
  have fl: "\<bar>float_of_int n - of_int n\<bar> \<le> e * of_int n" if "0 \<le> n" for n
    using float_of_int_near [of n "of_int n"] that by (simp add: e_def)
  have a: "\<bar>float_of_int (t div second) - a\<bar> \<le> e * a" unfolding a_def using assms by (intro fl) (simp add: second_def)
  have "\<bar>float_of_int (t mod second) - r\<bar> \<le> e * r" unfolding r_def by (intro fl) (simp add: second_def)
  then have "\<bar>float_of_int (t mod second) / 1000000000 - r / 1000000000\<bar> \<le> e * (r / 1000000000)"
    by (simp add: abs_divide flip: diff_divide_distrib)
  from round53_near [OF this, of "2 * (r / 1000000000)"] ar e have
    "\<bar>float_div (float_of_int (t mod second)) 1000000000 - r / 1000000000\<bar> \<le> 3 * e * (r / 1000000000)"
    by (simp add: float_div_def e_def)
  moreover have "0 \<le> e * a" "3 * e * T = 3 * e * a + 3 * e * (r / 1000000000)" using ar e by (simp_all add: T distrib_left)
  ultimately have sum: "\<bar>(float_of_int (t div second) + float_div (float_of_int (t mod second)) 1000000000) - T\<bar> \<le> 3 * e * T"
    using a unfolding T by linarith
  have "0 \<le> T" using assms by (simp add: T_def)
  then have "\<bar>T\<bar> + 3 * e * T \<le> 2 * T" by (simp add: e_def)
  from round53_near [OF sum this] have "\<bar>Seconds t - T\<bar> \<le> 3 * e * T + 2 * T / 2 ^ 53"
    using assms by (simp add: Seconds_def float_add_def smod_nonneg second_def)
  then show ?thesis by (simp add: e_def T_def)
qed

lemma seconds_rate_near:
  assumes "0 \<le> n" and "n \<le> 2 ^ 60" and "0 \<le> n0" and "n0 \<le> 2 ^ 60" and "500000000 \<le> t"
  shows "\<bar>of_int (seconds_rate (counter_seconds n) (counter_seconds n0) t) - 1000 * (of_int (n - n0) / of_int t :: rat)\<bar> \<le> 51 / 100"
proof -
  define D T where "D = (of_int (n - n0) / 1000000000 :: rat)" and "T = (of_int t / 1000000000 :: rat)"
  have "(of_int \<bar>n - n0\<bar> :: rat) \<le> of_int (2 ^ 60)" using assms(1-4) by (simp only: of_int_le_iff)
  then have D: "\<bar>D\<bar> \<le> 2 ^ 60 / 1000000000" by (simp add: D_def abs_divide)
  have T: "1 / 2 \<le> T" using assms(5) by (simp add: T_def)
  have "of_int n / 1000000000 - of_int n0 / 1000000000 = D" by (simp add: D_def diff_divide_distrib)
  then have "\<bar>counter_seconds n - counter_seconds n0 - D\<bar> \<le> 2 / 3000000"
    using counter_seconds_near [OF assms(1,2)] counter_seconds_near [OF assms(3,4)] by linarith
  from round53_near [OF this, of "2 ^ 60 / 1000000000 + 1"] D
  have "\<bar>float_sub (counter_seconds n) (counter_seconds n0) - D\<bar> \<le> 2 / 3000000 + (2 ^ 60 / 1000000000 + 1) / 2 ^ 53"
    by (simp add: float_sub_def)
  then have d: "\<bar>float_sub (counter_seconds n) (counter_seconds n0) - D\<bar> \<le> 1 / 1000000" by simp
  have s: "\<bar>Seconds t - T\<bar> \<le> 5 / 2 ^ 53 * T" using Seconds_near [of t] assms(5) by (simp add: T_def)
  moreover have "5 / 2 ^ 53 * T \<le> T / 50" using T by simp
  ultimately have "49 / 100 \<le> Seconds t" using T by linarith
  from quotient_near [OF d s D _ _ this] T
  have "\<bar>float_sub (counter_seconds n) (counter_seconds n0) / Seconds t - D / T\<bar> \<le> (1 / 1000000 + 2 ^ 60 / 1000000000 * (5 / 2 ^ 53)) / (49 / 100)"
    by simp
  moreover have "\<bar>D / T\<bar> \<le> 2 ^ 60 / 1000000000 / (1 / 2)" unfolding abs_divide using D T by (intro frac_le) auto
  ultimately have "\<bar>of_int (seconds_rate (counter_seconds n) (counter_seconds n0) t) - 1000 * (D / T)\<bar> \<le>
      1 / 2 + 1000 * ((1 / 1000000 + 2 ^ 60 / 1000000000 * (5 / 2 ^ 53)) / (49 / 100)) + 3000 * (2 ^ 60 / 1000000000 / (1 / 2) + 1) / 2 ^ 53"
    unfolding seconds_rate_def float_div_def by (rule scaled_near) simp
  also have "\<dots> \<le> 51 / 100" by simp
  finally show ?thesis unfolding D_def T_def by (simp only: divide_divide_eq_left divide_divide_eq_right nonzero_mult_div_cancel_left times_divide_eq_left
      times_divide_eq_right mult_divide_mult_cancel_right)
qed

end
