(* ===== verification/Pod_Metrics.thy ===== *)
theory Pod_Metrics
  imports Quiescer Go_Float "HOL-Library.Word"
begin

text \<open>
  \<open>operator/internal/controller/pod_metrics.go\<close>: the reader of CPU samples from the Kubelet Summary API. Its
  maps are the memory \<open>metrics_mem\<close>; the mutex is left out, since one goroutine runs the autoscaler. The zero time is
  0. Usage counters are 64-bit words. The JSON decoder and the RFC 3339 parser are parameters.
\<close>

section \<open>Definitions\<close>

definition minimumKubeletSampleInterval :: duration where
  "minimumKubeletSampleInterval = 500 * 1000000"

definition maximumKubeletSampleInterval :: duration where
  "maximumKubeletSampleInterval = 2 * 60 * second"

record AgentPodMetric =
  pm_Timestamp :: time
  pm_Window :: duration
  pm_CPUUsageMillicores :: int

record kubeletContainerCounter =
  kc_observedAt :: time
  kc_usage :: "64 word"
  kc_usageNanoCores :: "64 word"
  kc_nanoCoresAvailable :: bool

definition zero_counter :: kubeletContainerCounter where
  "zero_counter = \<lparr>kc_observedAt = 0, kc_usage = 0, kc_usageNanoCores = 0, kc_nanoCoresAvailable = False\<rparr>"

definition zero_metric :: AgentPodMetric where
  "zero_metric = \<lparr>pm_Timestamp = 0, pm_Window = 0, pm_CPUUsageMillicores = 0\<rparr>"

record metrics_mem =
  mr_summaries :: "string \<rightharpoonup> (string \<rightharpoonup> kubeletContainerCounter)"
  mr_summaryErrors :: "string \<rightharpoonup> kerr"
  mr_states :: "string \<rightharpoonup> kubeletContainerCounter"
  mr_seen :: "string set"

record summary_cpu =
  su_Time :: string
  su_UsageNanoCores :: "64 word option"
  su_UsageCoreNanoSeconds :: "64 word option"

record summary_pod =
  su_Namespace :: string
  su_Name :: string
  su_Containers :: "(string \<times> summary_cpu option) list"

record metrics_lib =
  Unmarshal_summary :: "string \<Rightarrow> kerr + summary_pod list"
  parse_RFC3339Nano :: "string \<Rightarrow> time option"

definition nanoCoresToMillicores :: "64 word \<Rightarrow> int" where
  "nanoCoresToMillicores nanoCores = sint ((nanoCores + 500000) div 1000000)"

definition cpu_rate :: "64 word \<Rightarrow> duration \<Rightarrow> int" where
  "cpu_rate usage elapsed = int_rate (uint usage) elapsed"

definition agentMetricIdentity :: "Pod \<Rightarrow> string" where
  "agentMetricIdentity pod = (case find (\<lambda>s. cs_Name s = agentContainerName) (pod_ContainerStatuses pod) of
     Some status \<Rightarrow> om_UID (pod_Meta pod) @ ''/'' @ show_int (cs_RestartCount status) @ ''/'' @ cs_ContainerID status
   | None \<Rightarrow> om_UID (pod_Meta pod))"

fun agent_counter :: "metrics_lib \<Rightarrow> (string \<times> summary_cpu option) list \<Rightarrow> kubeletContainerCounter option" where
  "agent_counter M [] = None"
| "agent_counter M ((name, cpu) # rest) = (case cpu of
     None \<Rightarrow> agent_counter M rest
   | Some c \<Rightarrow>
       if name \<noteq> agentContainerName \<or> su_UsageNanoCores c = None \<and> su_UsageCoreNanoSeconds c = None
       then agent_counter M rest
       else (case parse_RFC3339Nano M (su_Time c) of
           None \<Rightarrow> agent_counter M rest
         | Some observedAt \<Rightarrow>
             if observedAt = 0 then agent_counter M rest
             else Some \<lparr>kc_observedAt = observedAt,
               kc_usage = (case su_UsageCoreNanoSeconds c of None \<Rightarrow> 0 | Some u \<Rightarrow> u),
               kc_usageNanoCores = (case su_UsageNanoCores c of None \<Rightarrow> 0 | Some u \<Rightarrow> u),
               kc_nanoCoresAvailable = (su_UsageNanoCores c \<noteq> None)\<rparr>))"

definition agentCountersFromSummary :: "metrics_lib \<Rightarrow> string \<Rightarrow> kerr + (string \<rightharpoonup> kubeletContainerCounter)" where
  "agentCountersFromSummary M raw = (case Unmarshal_summary M raw of
     Inl e \<Rightarrow> Inl e
   | Inr pods \<Rightarrow> Inr (fold (\<lambda>pod result.
       if su_Namespace pod = [] \<or> su_Name pod = [] then result
       else case agent_counter M (su_Containers pod) of
         None \<Rightarrow> result
       | Some counter \<Rightarrow> result(su_Namespace pod @ ''/'' @ su_Name pod \<mapsto> counter)) pods Map.empty))"

definition readNodeSummary :: "metrics_lib \<Rightarrow> kube_api \<Rightarrow> string \<Rightarrow> ('m, kerr + (string \<rightharpoonup> kubeletContainerCounter)) kube" where
  "readNodeSummary M A nodeName = do {
     r \<leftarrow> node_summary A nodeName;
     State_Monad.return (case r of
       Inl e \<Rightarrow> Inl (Wrapf (''read Kubelet Summary for Node '' @ nodeName) e)
     | Inr raw \<Rightarrow> (case agentCountersFromSummary M raw of
         Inl e \<Rightarrow> Inl (Wrapf (''decode Kubelet Summary for Node '' @ nodeName) e)
       | Inr counters \<Rightarrow> Inr counters)) }"

definition BeginCycle :: "('m metrics_mem_scheme, unit) kube" where
  "BeginCycle = do {
     m \<leftarrow> get_mem;
     put_mem (m\<lparr>mr_states := (\<lambda>k. if k \<in> mr_seen m then mr_states m k else None),
       mr_seen := {}, mr_summaries := Map.empty, mr_summaryErrors := Map.empty\<rparr>) }"

text \<open>The snapshot of a node: remembered, failed before in this cycle, or read now.\<close>

definition node_counters :: "metrics_lib \<Rightarrow> kube_api \<Rightarrow> string \<Rightarrow>
    ('m metrics_mem_scheme, kerr + (string \<rightharpoonup> kubeletContainerCounter)) kube" where
  "node_counters M A node = do {
     m \<leftarrow> get_mem;
     case mr_summaryErrors m node of
       Some e \<Rightarrow> State_Monad.return (Inl e)
     | None \<Rightarrow> (case mr_summaries m node of
         Some summary \<Rightarrow> State_Monad.return (Inr summary)
       | None \<Rightarrow> do {
           r \<leftarrow> readNodeSummary M A node;
           case r of
             Inl e \<Rightarrow> do {
               _ \<leftarrow> put_mem (m\<lparr>mr_summaryErrors := (mr_summaryErrors m)(node \<mapsto> e)\<rparr>);
               State_Monad.return (Inl e) }
           | Inr summary \<Rightarrow> do {
               _ \<leftarrow> put_mem (m\<lparr>mr_summaries := (mr_summaries m)(node \<mapsto> summary)\<rparr>);
               State_Monad.return (Inr summary) } }) }"

text \<open>What one new counter makes of the previous one: the metric, if there is one, and whether the counter is stored.\<close>

definition observe_counter :: "kubeletContainerCounter \<Rightarrow> kubeletContainerCounter \<Rightarrow>
    AgentPodMetric \<times> bool \<times> bool" where
  "observe_counter state counter =
     (if kc_observedAt state \<noteq> 0 \<and> \<not> kc_observedAt counter > kc_observedAt state then (zero_metric, False, False)
      else if kc_nanoCoresAvailable counter
      then (\<lparr>pm_Timestamp = kc_observedAt counter, pm_Window = 0,
              pm_CPUUsageMillicores = nanoCoresToMillicores (kc_usageNanoCores counter)\<rparr>, True, True)
      else if kc_observedAt state = 0 then (zero_metric, False, True)
      else let elapsed = time_sub (kc_observedAt counter) (kc_observedAt state) in
        if kc_usage counter < kc_usage state \<or> elapsed < minimumKubeletSampleInterval \<or>
          elapsed > maximumKubeletSampleInterval
        then (zero_metric, False, True)
        else (\<lparr>pm_Timestamp = kc_observedAt counter, pm_Window = elapsed,
                pm_CPUUsageMillicores = max 0 (cpu_rate (kc_usage counter - kc_usage state) elapsed)\<rparr>, True, True))"

definition GetAgentPodMetric :: "metrics_lib \<Rightarrow> kube_api \<Rightarrow> Pod \<Rightarrow>
    ('m metrics_mem_scheme, kerr + AgentPodMetric \<times> bool) kube" where
  "GetAgentPodMetric M A pod =
     (if ps_NodeName (pod_Spec pod) = [] then State_Monad.return (Inl (Errorf ''agent Pod has no assigned Node''))
      else do {
        let identity = agentMetricIdentity pod;
        m \<leftarrow> get_mem;
        _ \<leftarrow> put_mem (m\<lparr>mr_seen := insert identity (mr_seen m)\<rparr>);
        r \<leftarrow> node_counters M A (ps_NodeName (pod_Spec pod));
        case r of
          Inl e \<Rightarrow> State_Monad.return (Inl e)
        | Inr summary \<Rightarrow> (case summary (om_Namespace (pod_Meta pod) @ ''/'' @ om_Name (pod_Meta pod)) of
            None \<Rightarrow> State_Monad.return (Inl (Errorf (''kubelet Summary has no agent container for Pod '' @
              om_Namespace (pod_Meta pod) @ ''/'' @ om_Name (pod_Meta pod))))
          | Some counter \<Rightarrow> do {
              m' \<leftarrow> get_mem;
              let state = (case mr_states m' identity of None \<Rightarrow> zero_counter | Some c \<Rightarrow> c);
              let (metric, ready, store) = observe_counter state counter;
              _ \<leftarrow> put_mem (if store then m'\<lparr>mr_states := (mr_states m')(identity \<mapsto> counter)\<rparr> else m');
              State_Monad.return (Inr (metric, ready)) }) })"

section \<open>Properties\<close>

lemma sint_small: "unat v < 2 ^ 63 \<Longrightarrow> sint v = int (unat v)" for v :: "64 word"
proof -
  assume "unat v < 2 ^ 63"
  then have "int (unat v) < int (2 ^ 63)" by (simp only: of_nat_less_iff)
  then have "int (unat v) < 2 ^ 63" by (simp only: of_nat_power of_nat_numeral)
  then have "uint v < 2 ^ 63" by (simp only: uint_nat)
  moreover have "- (2 ^ 63) \<le> uint v" using uint_ge_0 [of v] by (rule order_trans [rotated]) simp
  ultimately have "signed_take_bit 63 (uint v) = uint v" by (intro signed_take_bit_int_eq_self)
  then show ?thesis by (simp add: sint_uint)
qed

lemma nanoCores_unat:
  assumes "unat n + 500000 < 2 ^ 64"
  shows "nanoCoresToMillicores n = int ((unat n + 500000) div 1000000)"
proof -
  have sum: "unat (n + 500000) = unat n + 500000"
    using assms by (subst unat_add_lem [THEN iffD1]) simp_all
  have q: "unat ((n + 500000) div 1000000) = (unat n + 500000) div 1000000"
    using sum by (simp add: unat_div)
  then have "unat ((n + 500000) div 1000000) < 2 ^ 63" using assms by simp
  from sint_small [OF this] q show ?thesis by (simp only: nanoCoresToMillicores_def)
qed

text \<open>Below the top of the 64-bit range \<open>nanoCoresToMillicores\<close> rounds to the nearest millicore.\<close>

lemma nanoCores_rounds:
  assumes "unat n + 500000 < 2 ^ 64"
  shows "\<bar>1000000 * nanoCoresToMillicores n - int (unat n)\<bar> \<le> 500000"
proof -
  define k where "k = (unat n + 500000) div 1000000"
  have "1000000 * k \<le> unat n + 500000" "unat n + 500000 < 1000000 * k + 1000000"
    by (simp_all add: k_def)
  then have "1000000 * int k \<le> int (unat n) + 500000" "int (unat n) < 500000 + 1000000 * int k" by linarith+
  then show ?thesis unfolding nanoCores_unat [OF assms] k_def [symmetric] by linarith
qed

lemma observe_counter_ready:
  assumes "observe_counter state counter = (metric, True, store)"
  shows "store \<and> pm_Timestamp metric = kc_observedAt counter \<and>
    (kc_observedAt state = 0 \<or> kc_observedAt state < kc_observedAt counter)"
  using assms by (auto simp: observe_counter_def Let_def split: if_splits)

lemma cpu_rate_near:
  assumes "500000000 \<le> elapsed"
  shows "\<bar>of_int (max 0 (cpu_rate usage elapsed)) - 1000 * (of_int (uint usage) / of_int elapsed :: rat)\<bar> \<le> 53 / 100"
proof -
  let ?r = "1000 * (of_int (uint usage) / of_int elapsed :: rat)"
  have "uint usage < 2 ^ 64" using uint_lt2p [of usage] by simp
  then have "\<bar>of_int (cpu_rate usage elapsed) - ?r\<bar> \<le> 53 / 100"
    unfolding cpu_rate_def using assms by (intro int_rate_near) simp_all
  moreover have "(0 :: rat) \<le> of_int (uint usage)" by (simp only: of_int_0_le_iff uint_ge_0)
  then have "0 \<le> ?r" using assms by (intro mult_nonneg_nonneg divide_nonneg_nonneg) simp_all
  ultimately show ?thesis by (intro max_near)
qed

text \<open>
  A usage that the reader reports is the one that the Kubelet measured: the current rate it gave, to the nearest millicore,
  or else the growth of the counter of CPU time over an interval between half a second and two minutes, to 0.53
  millicores, although it is computed in floating point.
\<close>

theorem observe_counter_accurate:
  assumes "observe_counter state counter = (metric, True, store)" and "unat (kc_usageNanoCores counter) + 500000 < 2 ^ 64"
    and "elapsed = time_sub (kc_observedAt counter) (kc_observedAt state)"
  shows "if kc_nanoCoresAvailable counter
    then \<bar>1000000 * pm_CPUUsageMillicores metric - int (unat (kc_usageNanoCores counter))\<bar> \<le> 500000
    else minimumKubeletSampleInterval \<le> elapsed \<and> elapsed \<le> maximumKubeletSampleInterval \<and> kc_usage state \<le> kc_usage counter \<and>
      \<bar>of_int (pm_CPUUsageMillicores metric) - 1000 * (of_int (uint (kc_usage counter - kc_usage state)) / of_int elapsed :: rat)\<bar> \<le> 53 / 100"
proof (cases "kc_nanoCoresAvailable counter")
  case True
  then have "pm_CPUUsageMillicores metric = nanoCoresToMillicores (kc_usageNanoCores counter)"
    using assms(1) by (auto simp: observe_counter_def split: if_splits)
  then show ?thesis using True nanoCores_rounds [OF assms(2)] by simp
next
  case False
  then have "metric = \<lparr>pm_Timestamp = kc_observedAt counter, pm_Window = elapsed,
      pm_CPUUsageMillicores = max 0 (cpu_rate (kc_usage counter - kc_usage state) elapsed)\<rparr>"
    and range: "minimumKubeletSampleInterval \<le> elapsed" "elapsed \<le> maximumKubeletSampleInterval" "kc_usage state \<le> kc_usage counter"
    using assms(1) by (auto simp: observe_counter_def Let_def assms(3) split: if_splits)
  then show ?thesis using False cpu_rate_near [of elapsed] by (simp add: minimumKubeletSampleInterval_def)
qed

definition sample_counter :: "time \<Rightarrow> 64 word \<Rightarrow> kubeletContainerCounter" where
  "sample_counter t u = \<lparr>kc_observedAt = t, kc_usage = u, kc_usageNanoCores = 0, kc_nanoCoresAvailable = False\<rparr>"

theorem observe_counter_accurate_witness:
  "\<exists>metric store. observe_counter (sample_counter second 1000) (sample_counter (2 * second) 500001000) = (metric, True, store) \<and>
     \<bar>of_int (pm_CPUUsageMillicores metric) - 500 :: rat\<bar> \<le> 53 / 100"
proof -
  obtain metric store where m: "observe_counter (sample_counter second 1000) (sample_counter (2 * second) 500001000) = (metric, True, store)"
    by (simp add: observe_counter_def sample_counter_def time_sub_def second_def minimumKubeletSampleInterval_def maximumKubeletSampleInterval_def)
  from observe_counter_accurate [OF m _ refl] m show ?thesis by (auto simp: sample_counter_def time_sub_def second_def)
qed

lemma runs_readNodeSummary:
  "runs (\<lambda>_ _. True) w (readNodeSummary M A node) (\<lambda>_ v. w_mem v = w_mem w \<and>
     (\<exists>x. w_trace v = w_trace w @ [EvNodeSummary node x]))"
  unfolding readNodeSummary_def node_summary_def by (intro runs_rules) auto

lemma runs_node_counters_states:
  "runs (\<lambda>_ _. True) w (node_counters M A node) (\<lambda>_ v. mr_states (w_mem v) = mr_states (w_mem w))"
  unfolding node_counters_def
  by (intro runs_bind runs_get_mem runs_case_option runs_return runs_post [OF runs_readNodeSummary] runs_case_sum
      runs_put_mem) auto

text \<open>
  A ready metric is always news: when the reader returns one, its time stamp is later than that of the counter it
  had stored for the container, and the new counter is stored. An answer that is not an error and not ready reports
  no usage.
\<close>

theorem GetAgentPodMetric_fresh:
  assumes "result_of (GetAgentPodMetric M A pod) w = Inr (metric, ready)"
  shows "(ready \<longrightarrow> (\<exists>counter.
      mr_states (w_mem (world_after (GetAgentPodMetric M A pod) w)) (agentMetricIdentity pod) = Some counter \<and>
      pm_Timestamp metric = kc_observedAt counter \<and>
      (\<forall>old. mr_states (w_mem w) (agentMetricIdentity pod) = Some old \<longrightarrow>
         kc_observedAt old = 0 \<or> kc_observedAt old < pm_Timestamp metric))) \<and>
    (\<not> ready \<longrightarrow> metric = zero_metric)"
proof -
  let ?id = "agentMetricIdentity pod"
  let ?Q = "\<lambda>r v. \<forall>metric ready. r = Inr (metric, ready) \<longrightarrow> (ready \<longrightarrow> (\<exists>counter.
      mr_states (w_mem v) ?id = Some counter \<and> pm_Timestamp metric = kc_observedAt counter \<and>
      (\<forall>old. mr_states (w_mem w) ?id = Some old \<longrightarrow> kc_observedAt old = 0 \<or> kc_observedAt old < pm_Timestamp metric))) \<and>
    (\<not> ready \<longrightarrow> metric = zero_metric)"
  have "runs (\<lambda>_ _. True) w (GetAgentPodMetric M A pod) ?Q"
    unfolding GetAgentPodMetric_def Let_def
    by (intro runs_if runs_bind runs_get_mem runs_put_mem runs_post [OF runs_node_counters_states] runs_case_sum
        runs_case_option runs_case_prod runs_return)
      (auto simp: observe_counter_def Let_def split: if_splits)
  from runs_result [OF this] assms show ?thesis by blast
qed

theorem GetAgentPodMetric_fresh_witness:
  "let pod = zero_Pod\<lparr>pod_Spec := zero_PodSpec\<lparr>ps_NodeName := ''n''\<rparr>\<rparr>;
       counter = \<lparr>kc_observedAt = 7, kc_usage = 0, kc_usageNanoCores = 2000000, kc_nanoCoresAvailable = True\<rparr>;
       M = \<lparr>Unmarshal_summary = (\<lambda>s. Inr []), parse_RFC3339Nano = (\<lambda>s. None)\<rparr>;
       mem = \<lparr>mr_summaries = [''n'' \<mapsto> [''/'' \<mapsto> counter]], mr_summaryErrors = Map.empty, mr_states = Map.empty, mr_seen = {}\<rparr>
   in \<forall>A. \<exists>c. mr_states (w_mem (world_after (GetAgentPodMetric M A pod) \<lparr>w_trace = [], w_mem = mem\<rparr>)) [] = Some c \<and> kc_observedAt c = 7"
proof -
  let ?pod = "zero_Pod\<lparr>pod_Spec := zero_PodSpec\<lparr>ps_NodeName := ''n''\<rparr>\<rparr>"
  let ?counter = "\<lparr>kc_observedAt = 7, kc_usage = 0, kc_usageNanoCores = 2000000, kc_nanoCoresAvailable = True\<rparr> :: kubeletContainerCounter"
  let ?M = "\<lparr>Unmarshal_summary = (\<lambda>s. Inr []), parse_RFC3339Nano = (\<lambda>s. None)\<rparr> :: metrics_lib"
  let ?mem = "\<lparr>mr_summaries = [''n'' \<mapsto> [''/'' \<mapsto> ?counter]], mr_summaryErrors = Map.empty, mr_states = Map.empty, mr_seen = {}\<rparr>"
  let ?w = "\<lparr>w_trace = [], w_mem = ?mem\<rparr> :: (event, metrics_mem) world"
  have id: "agentMetricIdentity ?pod = []" by (simp add: agentMetricIdentity_def zero_Pod_def zero_ObjectMeta_def)
  have "result_of (GetAgentPodMetric ?M A ?pod) ?w = Inr (\<lparr>pm_Timestamp = 7, pm_Window = 0,
      pm_CPUUsageMillicores = nanoCoresToMillicores 2000000\<rparr>, True)" for A
    by (simp add: GetAgentPodMetric_def node_counters_def zero_Pod_def zero_PodSpec_def zero_ObjectMeta_def
        observe_counter_def zero_counter_def Let_def)
  from GetAgentPodMetric_fresh [OF this] show ?thesis by (auto simp: id)
qed

section \<open>One snapshot per node and cycle\<close>

definition summary_nodes :: "event list \<Rightarrow> string list" where
  "summary_nodes es = concat (map (\<lambda>e. case e of EvNodeSummary n x \<Rightarrow> [n] | _ \<Rightarrow> []) es)"

lemma summary_nodes_simps [simp]:
  "summary_nodes [] = []" "summary_nodes (es @ [EvNodeSummary n x]) = summary_nodes es @ [n]"
  by (simp_all add: summary_nodes_def)

definition cycle_ok :: "nat \<Rightarrow> (event, 'm metrics_mem_scheme) world \<Rightarrow> bool" where
  "cycle_ok n v \<longleftrightarrow> n \<le> length (w_trace v) \<and> distinct (summary_nodes (drop n (w_trace v))) \<and>
     set (summary_nodes (drop n (w_trace v))) \<subseteq> dom (mr_summaries (w_mem v)) \<union> dom (mr_summaryErrors (w_mem v))"

lemma runs_node_counters:
  assumes "cycle_ok n w"
  shows "runs (\<lambda>_ _. True) w (node_counters M A node) (\<lambda>_. cycle_ok n)"
  unfolding node_counters_def using assms
  by (intro runs_bind runs_get_mem runs_case_option runs_return runs_post [OF runs_readNodeSummary] runs_case_sum runs_put_mem)
    (auto simp: cycle_ok_def)

lemma runs_GetAgentPodMetric:
  assumes "cycle_ok n w"
  shows "runs (\<lambda>_ _. True) w (GetAgentPodMetric M A pod) (\<lambda>_. cycle_ok n)"
proof -
  have "cycle_ok n (w\<lparr>w_mem := (w_mem w)\<lparr>mr_seen := X\<rparr>\<rparr>)" for X using assms by (simp add: cycle_ok_def)
  note nc = runs_node_counters [OF this]
  have "cycle_ok n (v\<lparr>w_mem := (w_mem v)\<lparr>mr_states := X\<rparr>\<rparr>)" if "cycle_ok n v" for X v using that by (simp add: cycle_ok_def)
  then show ?thesis unfolding GetAgentPodMetric_def Let_def using assms
    by (intro runs_if runs_bind runs_get_mem runs_put_mem runs_post [OF nc] runs_case_sum
        runs_case_option runs_case_prod runs_return) auto
qed

text \<open>
  In one cycle of the autoscaler the Kubelet of a node is asked for its summary at most once, however many Pods of the
  node are observed and whether or not the request succeeds.
\<close>

theorem one_summary_per_cycle:
  "distinct (summary_nodes (events_of (do { _ \<leftarrow> BeginCycle;
     for_each pods (\<lambda>pod. do { _ \<leftarrow> GetAgentPodMetric M A pod; State_Monad.return () }) }) w))"
proof -
  let ?n = "length (w_trace w)"
  have start: "cycle_ok ?n (world_after BeginCycle w)"
    by (simp add: BeginCycle_def cycle_ok_def)
  have first: "runs (\<lambda>_ _. True) w BeginCycle (\<lambda>_ v. v = world_after BeginCycle w)"
    by (simp add: runs_def BeginCycle_def)
  have loop: "runs (\<lambda>_ _. True) (world_after BeginCycle w)
      (for_each pods (\<lambda>pod. do { _ \<leftarrow> GetAgentPodMetric M A pod; State_Monad.return () })) (\<lambda>_. cycle_ok ?n)"
    by (rule runs_for_each, rule runs_bind, rule runs_post [OF runs_GetAgentPodMetric], assumption, erule runs_return, rule start)
  have "runs (\<lambda>_ _. True) w (do { _ \<leftarrow> BeginCycle;
     for_each pods (\<lambda>pod. do { _ \<leftarrow> GetAgentPodMetric M A pod; State_Monad.return () }) }) (\<lambda>_. cycle_ok ?n)"
    by (rule runs_bind, rule runs_post [OF first]) (use loop in simp)
  from runs_result [OF this] show ?thesis by (simp add: cycle_ok_def events_of_def)
qed

end
