(* ===== verification/Resource_Autoscaler.thy ===== *)
theory Resource_Autoscaler
  imports Pod_Metrics Session_Controller
begin

text \<open>
  The effectful part of \<open>operator/internal/controller/resource_autoscaler.go\<close>: observing sessions,
  applying the plan of a node, reserving capacity for a waiting session, and one cycle \<open>runOnce\<close>. The memory of
  the process holds the sample windows and the failed resize attempts, on top of that of the metrics reader. The Go code
  shares the objects \<open>autoscaleSession\<close> by pointer; the model passes the planned states on. \<open>byNode\<close> is a Go map,
  whose iteration order is the parameter \<open>ra_map_order\<close>. The resizer is the call \<open>resize_pod\<close>. Logging is left out.
\<close>

section \<open>Configuration and memory\<close>

definition defaultResourceSampleInterval :: duration where
  "defaultResourceSampleInterval = 15 * second"

definition defaultResizeRetryInterval :: duration where
  "defaultResizeRetryInterval = 60 * second"

record failedResizeIntent =
  fi_PodUID :: string
  fi_CPU :: int
  fi_Memory :: int
  fi_AttemptedAt :: time

record ResourceAutoscaler =
  ra_configured :: bool
  ra_SampleInterval :: duration
  ra_ScaleUpCooldown :: duration
  ra_ScaleDownCooldown :: duration
  ra_RetryInterval :: duration
  ra_map_order :: "string list \<Rightarrow> string list"

record auto_mem = metrics_mem +
  au_windows :: "string \<rightharpoonup> SampleWindow"
  au_failedAttempts :: "string \<rightharpoonup> failedResizeIntent"

type_synonym 'a auto = "(auto_mem, 'a) kube"

definition modify_mem :: "('m \<Rightarrow> 'm) \<Rightarrow> ('m, unit) kube" where
  "modify_mem f = do { m \<leftarrow> get_mem; put_mem (f m) }"

definition window_of :: "auto_mem \<Rightarrow> string \<Rightarrow> SampleWindow" where
  "window_of m uid = (case au_windows m uid of None \<Rightarrow> empty_window | Some w \<Rightarrow> w)"

definition set_window :: "string \<Rightarrow> SampleWindow \<Rightarrow> unit auto" where
  "set_window uid w = modify_mem (\<lambda>m. m\<lparr>au_windows := (au_windows m)(uid \<mapsto> w)\<rparr>)"

definition clearWindow :: "string \<Rightarrow> unit auto" where
  "clearWindow uid = modify_mem (\<lambda>m. m\<lparr>au_windows := (au_windows m)(uid := None)\<rparr>)"

definition recordFailedAttempt :: "string \<Rightarrow> failedResizeIntent \<Rightarrow> unit auto" where
  "recordFailedAttempt uid intent = modify_mem (\<lambda>m. m\<lparr>au_failedAttempts := (au_failedAttempts m)(uid \<mapsto> intent)\<rparr>)"

definition clearFailedAttempt :: "string \<Rightarrow> unit auto" where
  "clearFailedAttempt uid = modify_mem (\<lambda>m. m\<lparr>au_failedAttempts := (au_failedAttempts m)(uid := None)\<rparr>)"

definition pruneState :: "string set \<Rightarrow> unit auto" where
  "pruneState seen = modify_mem (\<lambda>m. m\<lparr>
     au_windows := (\<lambda>uid. if uid \<in> seen then au_windows m uid else None),
     au_failedAttempts := (\<lambda>uid. if uid \<in> seen then au_failedAttempts m uid else None)\<rparr>)"

definition retrySuppressed :: "ResourceAutoscaler \<Rightarrow> kube_api \<Rightarrow> string \<Rightarrow> failedResizeIntent \<Rightarrow> bool auto" where
  "retrySuppressed r A uid intent = do {
     m \<leftarrow> get_mem;
     case au_failedAttempts m uid of
       None \<Rightarrow> State_Monad.return False
     | Some failed \<Rightarrow>
         if fi_PodUID failed \<noteq> fi_PodUID intent \<or> fi_CPU failed \<noteq> fi_CPU intent \<or> fi_Memory failed \<noteq> fi_Memory intent
         then State_Monad.return False
         else do {
           let interval = (if ra_RetryInterval r \<le> 0 then defaultResizeRetryInterval else ra_RetryInterval r);
           now \<leftarrow> time_now A;
           State_Monad.return (time_sub now (fi_AttemptedAt failed) < interval) } }"

section \<open>Pure checks\<close>

definition findPodContainer :: "Pod \<Rightarrow> string \<Rightarrow> Container option" where
  "findPodContainer pod name = find (\<lambda>c. ct_Name c = name) (ps_Containers (pod_Spec pod))"

definition autoObservationAllowed :: "AgentSession \<Rightarrow> Pod \<Rightarrow> bool" where
  "autoObservationAllowed session pod =
     (if sp_DesiredState (as_Spec session) \<noteq> DesiredStateRunning \<or> pod_Phase pod \<noteq> ''Running'' \<or>
        ps_NodeName (pod_Spec pod) = [] then False
      else st_Phase (as_Status session) = PhaseRunning \<or> st_Phase (as_Status session) = PhaseIdle)"

definition actualAgentResources :: "Pod \<Rightarrow> ResourceRequirements option" where
  "actualAgentResources pod =
     (case find (\<lambda>s. cs_Name s = agentContainerName \<and> cs_Resources s \<noteq> None) (pod_ContainerStatuses pod) of
        None \<Rightarrow> None | Some s \<Rightarrow> cs_Resources s)"

definition actualCPUUnchanged :: "klib \<Rightarrow> Pod \<Rightarrow> Pod \<Rightarrow> bool" where
  "actualCPUUnchanged L previous latest = (case (actualAgentResources previous, actualAgentResources latest) of
     (None, None) \<Rightarrow> True
   | (Some p, Some l) \<Rightarrow> q_Cmp L (rl_Cpu L (rr_Limits p)) (rl_Cpu L (rr_Limits l)) = 0
   | _ \<Rightarrow> False)"

definition podHasActiveResize :: "Pod \<Rightarrow> bool" where
  "podHasActiveResize pod \<longleftrightarrow> (\<exists>c\<in>set (pod_Conditions pod).
     (pc_Type c = ''PodResizePending'' \<or> pc_Type c = ''PodResizeInProgress'') \<and> pc_Status c \<noteq> ''False'')"

definition workStateAllowsScaleDown :: "AgentSession \<Rightarrow> bool" where
  "workStateAllowsScaleDown session =
     (case find (\<lambda>c. c_Type c = sessionReadyCondition \<and> c_Status c = ''True'') (st_Conditions (as_Status session)) of
        None \<Rightarrow> False
      | Some c \<Rightarrow> \<not> (c_Reason c = agentWorkingReason \<or> c_Reason c = awaitingApprovalReason \<or> c_Reason c = awaitingChoiceReason))"

definition cooldownElapsed :: "ResourceScalingStatus option \<Rightarrow> time \<Rightarrow> duration \<Rightarrow> bool" where
  "cooldownElapsed status now cooldown = (case status of
     None \<Rightarrow> True
   | Some s \<Rightarrow> (case sc_LastAppliedAt s of None \<Rightarrow> True | Some t \<Rightarrow> time_sub now t \<ge> cooldown))"

definition resourceRequirementsEqual :: "klib \<Rightarrow> ResourceRequirements \<Rightarrow> ResourceRequirements \<Rightarrow> bool" where
  "resourceRequirementsEqual L left right \<longleftrightarrow>
     q_Cmp L (rl_Cpu L (rr_Limits left)) (rl_Cpu L (rr_Limits right)) = 0 \<and>
     q_Cmp L (rl_Memory L (rr_Limits left)) (rl_Memory L (rr_Limits right)) = 0 \<and>
     q_Cmp L (rl_Cpu L (rr_Requests left)) (rl_Cpu L (rr_Requests right)) = 0 \<and>
     q_Cmp L (rl_Memory L (rr_Requests left)) (rl_Memory L (rr_Requests right)) = 0"

section \<open>Scaling status\<close>

definition zero_scaling :: ResourceScalingStatus where
  "zero_scaling = \<lparr>sc_LoadClass = LoadUnset, sc_RecommendedCPUMillicores = 0, sc_LastAppliedAt = None, sc_LastError = []\<rparr>"

definition scaling_of :: "AgentSession \<Rightarrow> ResourceScalingStatus" where
  "scaling_of s = (case st_ResourceScaling (as_Status s) of None \<Rightarrow> zero_scaling | Some x \<Rightarrow> x)"

definition set_scaling :: "AgentSession \<Rightarrow> ResourceScalingStatus \<Rightarrow> AgentSession" where
  "set_scaling s x = s\<lparr>as_Status := (as_Status s)\<lparr>st_ResourceScaling := Some x\<rparr>\<rparr>"

definition scaling_once :: "klib \<Rightarrow> kube_api \<Rightarrow> nskey \<Rightarrow> (ResourceScalingStatus \<Rightarrow> ResourceScalingStatus) \<Rightarrow>
    ('m, kerr option) kube" where
  "scaling_once L A key mutate = do {
     g \<leftarrow> get_session A key;
     case g of
       Inl e \<Rightarrow> State_Monad.return (Some e)
     | Inr current \<Rightarrow>
         let desired = mutate (scaling_of current) in
         if DeepEqual_scaling L (st_ResourceScaling (as_Status current)) (Some desired) then State_Monad.return None
         else status_update A (set_scaling current desired) }"

definition updateScalingStatus :: "klib \<Rightarrow> kube_api \<Rightarrow> nskey \<Rightarrow> (ResourceScalingStatus \<Rightarrow> ResourceScalingStatus) \<Rightarrow>
    ('m, kerr option) kube" where
  "updateScalingStatus L A key mutate = retry_on_conflict (retry_steps L) (scaling_once L A key mutate)"

definition recordScalingError :: "klib \<Rightarrow> kube_api \<Rightarrow> nskey \<Rightarrow> string \<Rightarrow> ('m, kerr) kube" where
  "recordScalingError L A key message = do {
     r \<leftarrow> updateScalingStatus L A key (\<lambda>status. status\<lparr>sc_LastError := safeConditionMessage message\<rparr>);
     State_Monad.return (case r of Some e \<Rightarrow> e | None \<Rightarrow> Errorf message) }"

definition updateAutoStatus :: "klib \<Rightarrow> kube_api \<Rightarrow> nskey \<Rightarrow> string \<Rightarrow> ResourceLoadClass \<Rightarrow> int \<Rightarrow> string \<Rightarrow> bool \<Rightarrow>
    kerr option auto" where
  "updateAutoStatus L A key uid loadClass target message isError = do {
     m \<leftarrow> get_mem;
     updateScalingStatus L A key (\<lambda>status.
       status\<lparr>sc_LoadClass := loadClass, sc_RecommendedCPUMillicores := target,
         sc_LastError := (if isError then safeConditionMessage message
           else if au_failedAttempts m uid = None then [] else sc_LastError status)\<rparr>) }"

section \<open>Observing a session\<close>

definition initial_state :: "klib \<Rightarrow> AgentSession \<Rightarrow> Pod \<Rightarrow> Container \<Rightarrow> autoscaleSession" where
  "initial_state L session pod agent =
     (let memoryRequest = q_Value L (sp_MemoryRequest (as_Spec session));
          limit = q_MilliValue L (rl_Cpu L (rr_Limits (ct_Resources agent)));
          current = (if limit \<le> 0 then MinCPULimit (Policy L) else limit)
      in \<lparr>az_key = show_key (ObjectKey (as_Meta session)), az_session = session, az_pod = pod,
          az_priority = priorityRank (sp_PriorityClassName (as_Spec session)),
          az_current = current, az_target = current, az_demand = current, az_scaleUp = False,
          az_needsSync = (q_MilliValue L (rl_Cpu L (rr_Requests (ct_Resources agent))) \<noteq> current \<or>
            q_Value L (rl_Memory L (rr_Requests (ct_Resources agent))) \<noteq> memoryRequest \<or>
            q_Value L (rl_Memory L (rr_Limits (ct_Resources agent))) \<noteq> memoryRequest)\<rparr>)"

text \<open>The last part of \<open>observeSession\<close>: what the recommendation makes of the state.\<close>

definition apply_recommendation :: "ResourceAutoscaler \<Rightarrow> AgentSession \<Rightarrow> ResourceLoadClass \<Rightarrow> int \<Rightarrow> time \<Rightarrow>
    autoscaleSession \<Rightarrow> autoscaleSession" where
  "apply_recommendation r session loadClass target now state = (case loadClass of
     LoadCPUHigh \<Rightarrow>
       if cooldownElapsed (st_ResourceScaling (as_Status session)) now (ra_ScaleUpCooldown r)
       then state\<lparr>az_demand := target, az_scaleUp := True\<rparr> else state
   | LoadCPULow \<Rightarrow>
       if workStateAllowsScaleDown session \<and>
         cooldownElapsed (st_ResourceScaling (as_Status session)) now (ra_ScaleDownCooldown r)
       then state\<lparr>az_target := target, az_demand := target\<rparr> else state
   | _ \<Rightarrow> state)"

definition recommend :: "klib \<Rightarrow> kube_api \<Rightarrow> ResourceAutoscaler \<Rightarrow> AgentSession \<Rightarrow> Pod \<Rightarrow> autoscaleSession \<Rightarrow>
    (autoscaleSession option \<times> kerr option) auto" where
  "recommend L A r session pod state = do {
     m \<leftarrow> get_mem;
     let (loadClass, target) = Recommendation (window_Samples (window_of m (om_UID (as_Meta session)))) (az_current state) (Policy L);
     u \<leftarrow> updateAutoStatus L A (ObjectKey (as_Meta session)) (om_UID (as_Meta session)) loadClass target [] False;
     case u of
       Some e \<Rightarrow> State_Monad.return (None, Some e)
     | None \<Rightarrow>
         if target = 0 \<or> target = az_current state \<or> podHasActiveResize pod
         then State_Monad.return (Some state, None)
         else do {
           now \<leftarrow> time_now A;
           State_Monad.return (Some (apply_recommendation r session loadClass target now state), None) } }"

text \<open>An observation that ends with a status update: the state is returned with the error of the update.\<close>

definition observed :: "klib \<Rightarrow> kube_api \<Rightarrow> AgentSession \<Rightarrow> autoscaleSession \<Rightarrow> int \<Rightarrow> string \<Rightarrow> bool \<Rightarrow>
    (autoscaleSession option \<times> kerr option) auto" where
  "observed L A session state target message isError = do {
     u \<leftarrow> updateAutoStatus L A (ObjectKey (as_Meta session)) (om_UID (as_Meta session)) LoadUnknown target message isError;
     State_Monad.return (Some state, u) }"

definition observe_metric :: "klib \<Rightarrow> metrics_lib \<Rightarrow> kube_api \<Rightarrow> ResourceAutoscaler \<Rightarrow> AgentSession \<Rightarrow> Pod \<Rightarrow> autoscaleSession \<Rightarrow>
    int \<Rightarrow> (autoscaleSession option \<times> kerr option) auto" where
  "observe_metric L M A r session pod state actualLimit = do {
     g \<leftarrow> GetAgentPodMetric M A pod;
     case g of
       Inl e \<Rightarrow> observed L A session state 0 (''read Kubelet metrics: '' @ ke_msg e) True
     | Inr (metric, ready) \<Rightarrow>
         if \<not> ready then recommend L A r session pod state
         else do {
           now \<leftarrow> time_now A;
           if pm_Timestamp metric = 0 then observed L A session state 0 ''Kubelet metric timestamp is unavailable'' True
           else if time_sub now (pm_Timestamp metric) > MetricsMaxAge
           then observed L A session state 0 ''Kubelet metric is older than 45s'' True
           else do {
             m \<leftarrow> get_mem;
             _ \<leftarrow> set_window (om_UID (as_Meta session)) (snd (window_Add (window_of m (om_UID (as_Meta session)))
               \<lparr>rs_PodUID = agentMetricIdentity pod, rs_ObservedAt = pm_Timestamp metric, rs_MetricWindow = pm_Window metric,
                rs_CPUUsage = pm_CPUUsageMillicores metric, rs_ActualCPULimit = actualLimit\<rparr>));
             recommend L A r session pod state } } }"

definition observeSession :: "klib \<Rightarrow> metrics_lib \<Rightarrow> kube_api \<Rightarrow> ResourceAutoscaler \<Rightarrow> AgentSession \<Rightarrow> Pod \<Rightarrow>
    (autoscaleSession option \<times> kerr option) auto" where
  "observeSession L M A r session pod = (case findPodContainer pod agentContainerName of
     None \<Rightarrow> do {
       e \<leftarrow> recordScalingError L A (ObjectKey (as_Meta session)) ''agent container is unavailable'';
       State_Monad.return (None, Some e) }
   | Some agent \<Rightarrow> do {
       let uid = om_UID (as_Meta session);
       let state = initial_state L session pod agent;
       m \<leftarrow> get_mem;
       let (changed, window) = window_Prepare (window_of m uid) (agentMetricIdentity pod) (om_Generation (as_Meta session));
       _ \<leftarrow> set_window uid window;
       _ \<leftarrow> (if changed then clearFailedAttempt uid else State_Monad.return ());
       if az_priority state = 1
       then do {
         _ \<leftarrow> clearWindow uid;
         observed L A session (state\<lparr>az_target := MinCPULimit (Policy L), az_demand := MinCPULimit (Policy L)\<rparr>)
           (MinCPULimit (Policy L)) [] False }
       else if \<not> autoObservationAllowed session pod then observed L A session state 0 [] False
       else (case actualAgentResources pod of
         None \<Rightarrow> observed L A session state 0 ''agent actual CPU limit is unavailable'' True
       | Some actual \<Rightarrow>
           if q_MilliValue L (rl_Cpu L (rr_Limits actual)) \<le> 0
           then observed L A session state 0 ''agent actual CPU limit is unavailable'' True
           else observe_metric L M A r session pod state (q_MilliValue L (rl_Cpu L (rr_Limits actual)))) })"

section \<open>Resizing\<close>

fun update_container :: "string \<Rightarrow> (Container \<Rightarrow> Container) \<Rightarrow> Container list \<Rightarrow> Container list" where
  "update_container name f [] = []"
| "update_container name f (c # cs) = (if ct_Name c = name then f c # cs else c # update_container name f cs)"

definition resized_pod :: "klib \<Rightarrow> AgentSession \<Rightarrow> int \<Rightarrow> Pod \<Rightarrow> Pod" where
  "resized_pod L session target pod = pod\<lparr>pod_Spec := (pod_Spec pod)\<lparr>ps_Containers :=
     update_container agentContainerName (\<lambda>agent. agent\<lparr>ct_Resources := \<lparr>
       rr_Requests = (rr_Requests (ct_Resources agent))(''cpu'' \<mapsto> q_NewMilliQuantity L target,
         ''memory'' \<mapsto> sp_MemoryRequest (as_Spec session)),
       rr_Limits = (rr_Limits (ct_Resources agent))(''cpu'' \<mapsto> q_NewMilliQuantity L target,
         ''memory'' \<mapsto> sp_MemoryRequest (as_Spec session))\<rparr>\<rparr>) (ps_Containers (pod_Spec pod))\<rparr>\<rparr>"

text \<open>The Pod is still the one that was observed, and no resize of it is under way.\<close>

definition resize_current :: "klib \<Rightarrow> Pod \<Rightarrow> Pod \<Rightarrow> bool" where
  "resize_current L previous latest = (case (findPodContainer latest agentContainerName, findPodContainer previous agentContainerName) of
     (Some agent, Some before) \<Rightarrow>
       \<not> (om_UID (pod_Meta latest) \<noteq> om_UID (pod_Meta previous) \<or>
          \<not> resourceRequirementsEqual L (ct_Resources agent) (ct_Resources before) \<or>
          \<not> actualCPUUnchanged L previous latest \<or> podHasActiveResize latest)
   | _ \<Rightarrow> False)"

definition resize_target :: "klib \<Rightarrow> autoscaleSession \<Rightarrow> int" where
  "resize_target L state = min (max (az_target state) (MinCPULimit (Policy L))) (MaxCPULimit (Policy L))"

definition apply_resize :: "klib \<Rightarrow> kube_api \<Rightarrow> autoscaleSession \<Rightarrow> failedResizeIntent \<Rightarrow> Pod \<Rightarrow> (bool \<times> kerr option) auto" where
  "apply_resize L A state intent latestPod = do {
     let session = az_session state;
     u \<leftarrow> resize_pod A (resized_pod L session (fi_CPU intent) latestPod);
     case u of
       Some err \<Rightarrow> do {
         now \<leftarrow> time_now A;
         _ \<leftarrow> recordFailedAttempt (om_UID (as_Meta session)) (intent\<lparr>fi_AttemptedAt := now\<rparr>);
         _ \<leftarrow> recordScalingError L A (ObjectKey (as_Meta session)) (''update Pod resize: '' @ ke_msg err);
         State_Monad.return (False, Some (Wrapf (show_key (ObjectKey (pod_Meta (az_pod state)))) err)) }
     | None \<Rightarrow> do {
         _ \<leftarrow> clearFailedAttempt (om_UID (as_Meta session));
         _ \<leftarrow> clearWindow (om_UID (as_Meta session));
         now \<leftarrow> time_now A;
         err \<leftarrow> updateScalingStatus L A (ObjectKey (as_Meta session))
           (\<lambda>status. status\<lparr>sc_LastAppliedAt := Some now, sc_LastError := []\<rparr>);
         State_Monad.return (err = None, err) } }"

definition resizeState :: "klib \<Rightarrow> kube_api \<Rightarrow> ResourceAutoscaler \<Rightarrow> autoscaleSession \<Rightarrow> (bool \<times> kerr option) auto" where
  "resizeState L A r state = do {
     let session = az_session state;
     let intent = \<lparr>fi_PodUID = om_UID (pod_Meta (az_pod state)), fi_CPU = resize_target L state,
       fi_Memory = q_Value L (sp_MemoryRequest (as_Spec session)), fi_AttemptedAt = 0\<rparr>;
     suppressed \<leftarrow> retrySuppressed r A (om_UID (as_Meta session)) intent;
     if suppressed then State_Monad.return (False, None)
     else do {
       g \<leftarrow> get_session A (ObjectKey (as_Meta session));
       case g of
         Inl e \<Rightarrow> State_Monad.return (False, Some e)
       | Inr latestSession \<Rightarrow>
           if om_Generation (as_Meta latestSession) \<noteq> om_Generation (as_Meta session) then State_Monad.return (False, None)
           else do {
             p \<leftarrow> get_pod A (ObjectKey (pod_Meta (az_pod state)));
             case p of
               Inl e \<Rightarrow> State_Monad.return (False, IgnoreNotFound e)
             | Inr latestPod \<Rightarrow>
                 if \<not> resize_current L (az_pod state) latestPod then State_Monad.return (False, None)
                 else apply_resize L A state intent latestPod } } }"

definition reconcileSession :: "klib \<Rightarrow> metrics_lib \<Rightarrow> kube_api \<Rightarrow> ResourceAutoscaler \<Rightarrow> AgentSession \<Rightarrow> kerr option auto" where
  "reconcileSession L M A r session = do {
     p \<leftarrow> get_pod A (om_Namespace (as_Meta session), PodName L (sp_SessionID (as_Spec session)));
     case p of
       Inl e \<Rightarrow> State_Monad.return (IgnoreNotFound e)
     | Inr pod \<Rightarrow> do {
         (s, err) \<leftarrow> observeSession L M A r session pod;
         case (s, err) of
           (Some state, None) \<Rightarrow>
             if az_demand state = az_current state \<and> \<not> az_needsSync state then State_Monad.return None
             else do {
               (applied, err') \<leftarrow> resizeState L A r (state\<lparr>az_target := az_demand state\<rparr>);
               State_Monad.return err' }
         | _ \<Rightarrow> State_Monad.return err } }"

section \<open>Applying a plan\<close>

definition decreases :: "autoscaleSession list \<Rightarrow> autoscaleSession list" where
  "decreases states = filter (\<lambda>s. az_target s < az_current s) states"

definition increases :: "autoscaleSession list \<Rightarrow> autoscaleSession list" where
  "increases states = filter (\<lambda>s. \<not> az_target s < az_current s \<and> (az_target s > az_current s \<or> az_needsSync s)) states"

definition apply_decreases :: "klib \<Rightarrow> kube_api \<Rightarrow> ResourceAutoscaler \<Rightarrow> autoscaleSession list \<Rightarrow> bool auto" where
  "apply_decreases L A r states = fold_prog (\<lambda>state failed. do {
     (applied, err) \<leftarrow> resizeState L A r state;
     State_Monad.return (failed \<or> err \<noteq> None \<or> \<not> applied) }) (decreases states) False"

definition applyNodePlan :: "klib \<Rightarrow> kube_api \<Rightarrow> ResourceAutoscaler \<Rightarrow> autoscaleSession list \<Rightarrow> unit auto" where
  "applyNodePlan L A r states = do {
     failed \<leftarrow> apply_decreases L A r states;
     if failed then State_Monad.return ()
     else for_each (increases states) (\<lambda>state. do { _ \<leftarrow> resizeState L A r state; State_Monad.return () }) }"

section \<open>Reserving capacity\<close>

definition reclaim_capacities :: "int \<Rightarrow> autoscaleSession list \<Rightarrow> (string \<times> int) list" where
  "reclaim_capacities priority states =
     fold (\<lambda>s al. let extra = max (i64 (az_current s - agentBaseCPUMillicores)) 0
                  in if az_priority s \<noteq> priority \<or> extra \<le> 0 then al else AList.update (az_key s) extra al) states []"

definition reclaim_state :: "int \<Rightarrow> autoscaleSession list \<Rightarrow> string \<Rightarrow> autoscaleSession option" where
  "reclaim_state priority states key =
     find (\<lambda>s. az_key s = key \<and> az_priority s = priority \<and> max (i64 (az_current s - agentBaseCPUMillicores)) 0 > 0) (rev states)"

fun reclaim_keys :: "klib \<Rightarrow> kube_api \<Rightarrow> ResourceAutoscaler \<Rightarrow> (string \<Rightarrow> autoscaleSession option) \<Rightarrow> (string \<rightharpoonup> int) \<Rightarrow>
    string list \<Rightarrow> bool auto" where
  "reclaim_keys L A r byKey allocations [] = State_Monad.return True"
| "reclaim_keys L A r byKey allocations (key # keys) = (case (byKey key, allocations key) of
     (Some state, Some amount) \<Rightarrow> do {
       (applied, err) \<leftarrow> resizeState L A r (state\<lparr>az_target := i64 (az_current state - amount)\<rparr>);
       if err \<noteq> None \<or> \<not> applied then State_Monad.return False
       else reclaim_keys L A r byKey allocations keys }
   | _ \<Rightarrow> reclaim_keys L A r byKey allocations keys)"

fun reclaim_priorities :: "klib \<Rightarrow> kube_api \<Rightarrow> ResourceAutoscaler \<Rightarrow> autoscaleSession list \<Rightarrow> int list \<Rightarrow> int \<Rightarrow> bool auto" where
  "reclaim_priorities L A r states [] required = State_Monad.return False"
| "reclaim_priorities L A r states (priority # rest) required = do {
     let capacities = reclaim_capacities priority states;
     let reclaim = min required (sum64 (map snd capacities));
     let allocations = proportionalCPU reclaim capacities;
     ok \<leftarrow> reclaim_keys L A r (reclaim_state priority states) allocations
       (filter (\<lambda>k. allocations k \<noteq> None) (sort (map fst capacities)));
     if \<not> ok then State_Monad.return False
     else if i64 (required - reclaim) = 0 then State_Monad.return True
     else reclaim_priorities L A r states rest (i64 (required - reclaim)) }"

definition reclaimForReservation :: "klib \<Rightarrow> kube_api \<Rightarrow> ResourceAutoscaler \<Rightarrow> autoscaleSession list \<Rightarrow> int \<Rightarrow> bool auto" where
  "reclaimForReservation L A r states required = reclaim_priorities L A r states [2, 3] required"

type_synonym node_states = "(string \<times> autoscaleSession list) list"

definition states_on :: "node_states \<Rightarrow> string \<Rightarrow> autoscaleSession list" where
  "states_on byNode name = (case map_of byNode name of None \<Rightarrow> [] | Some ss \<Rightarrow> ss)"

definition pod_sessions :: "Pod list \<Rightarrow> string list" where
  "pod_sessions pods = filter (\<lambda>i. i \<noteq> []) (map (\<lambda>p. sget (om_Labels (pod_Meta p)) sessionLabel) pods)"

definition is_waiting :: "Pod list \<Rightarrow> AgentSession \<Rightarrow> bool" where
  "is_waiting pods session \<longleftrightarrow>
     \<not> (om_DeletionTimestamp (as_Meta session) \<noteq> None \<or> sp_DesiredState (as_Spec session) \<noteq> DesiredStateRunning) \<and>
     sget (om_Annotations (as_Meta session)) schedulingNodeAnnotation = [] \<and>
     sp_SessionID (as_Spec session) \<notin> set (pod_sessions pods)"

definition waiting_order :: "AgentSession \<Rightarrow> int \<times> time \<times> string" where
  "waiting_order session = (- priorityRank (sp_PriorityClassName (as_Spec session)), om_CreationTimestamp (as_Meta session),
     show_key (ObjectKey (as_Meta session)))"

definition waiting_sessions :: "AgentSession list \<Rightarrow> Pod list \<Rightarrow> AgentSession list" where
  "waiting_sessions sessions pods = sort_key waiting_order (filter (is_waiting pods) sessions)"

record nodeReservationCandidate =
  nc_node :: Node
  nc_free :: int
  nc_freeMemory :: int
  nc_reclaimable :: int

definition reservation_candidate :: "klib \<Rightarrow> AgentSession list \<Rightarrow> Pod list \<Rightarrow> node_states \<Rightarrow> Node \<Rightarrow> nodeReservationCandidate" where
  "reservation_candidate L sessions pods byNode node =
     (let name = om_Name (nd_Meta node) in
      \<lparr>nc_node = node,
       nc_free = max (i64 (nodeFreeCPU L node pods - mget (pendingReservationCPU sessions pods) name)) 0,
       nc_freeMemory = max (i64 (nodeFreeMemory L node pods - mget (pendingReservationMemory L sessions pods) name)) 0,
       nc_reclaimable = sum64 (map (\<lambda>s. max (i64 (az_current s - agentBaseCPUMillicores)) 0)
         (filter (\<lambda>s. az_priority s > 1) (states_on byNode name)))\<rparr>)"

definition node_is_changing :: "node_states \<Rightarrow> Node \<Rightarrow> bool" where
  "node_is_changing byNode node \<longleftrightarrow>
     (\<exists>s\<in>set (states_on byNode (om_Name (nd_Meta node))). az_target s \<noteq> az_current s \<or> az_needsSync s)"

definition candidate_order :: "int \<Rightarrow> nodeReservationCandidate \<Rightarrow> int \<times> int \<times> int \<times> string" where
  "candidate_order requiredMemory c =
     (max (i64 (agentBaseCPUMillicores - nc_free c)) 0,
      - i64 (nc_free c + nc_reclaimable c - agentBaseCPUMillicores),
      i64 (nc_freeMemory c - requiredMemory), om_Name (nd_Meta (nc_node c)))"

definition reservation_candidates :: "klib \<Rightarrow> AgentSession list \<Rightarrow> Pod list \<Rightarrow> Node list \<Rightarrow> node_states \<Rightarrow> int \<Rightarrow>
    nodeReservationCandidate list" where
  "reservation_candidates L sessions pods nodes byNode requiredMemory =
     sort_key (candidate_order requiredMemory)
       (filter (\<lambda>c. i64 (nc_free c + nc_reclaimable c) \<ge> agentBaseCPUMillicores \<and> nc_freeMemory c \<ge> requiredMemory)
         (map (reservation_candidate L sessions pods byNode)
           (filter (\<lambda>node. nodeEligibleForAgent node \<and> \<not> node_is_changing byNode node) nodes)))"

definition reserved_session :: "AgentSession \<Rightarrow> string \<Rightarrow> AgentSession" where
  "reserved_session session node = session\<lparr>as_Meta := (as_Meta session)\<lparr>om_Annotations :=
     (om_Annotations (as_Meta session))(schedulingNodeAnnotation \<mapsto> node)\<rparr>\<rparr>"

definition reserveWaitingSession :: "klib \<Rightarrow> kube_api \<Rightarrow> ResourceAutoscaler \<Rightarrow> AgentSession list \<Rightarrow> Pod list \<Rightarrow> Node list \<Rightarrow>
    node_states \<Rightarrow> unit auto" where
  "reserveWaitingSession L A r sessions pods nodes byNode = (case waiting_sessions sessions pods of
     [] \<Rightarrow> State_Monad.return ()
   | session # _ \<Rightarrow> (case reservation_candidates L sessions pods nodes byNode (sessionMemoryReservation L session) of
       [] \<Rightarrow> State_Monad.return ()
     | selected # _ \<Rightarrow> do {
         let name = om_Name (nd_Meta (nc_node selected));
         let required = max (i64 (agentBaseCPUMillicores - nc_free selected)) 0;
         ok \<leftarrow> (if required > 0 then reclaimForReservation L A r (states_on byNode name) required
                else State_Monad.return True);
         if \<not> ok then State_Monad.return ()
         else do { _ \<leftarrow> patch_session A (reserved_session session name) session; State_Monad.return () } }))"

section \<open>One cycle\<close>

definition live_sessions :: "AgentSession list \<Rightarrow> AgentSession list" where
  "live_sessions sessions = filter (\<lambda>s. om_DeletionTimestamp (as_Meta s) = None) sessions"

definition sessionsByID :: "AgentSession list \<Rightarrow> (string \<rightharpoonup> AgentSession)" where
  "sessionsByID sessions = fold (\<lambda>s m. m(sp_SessionID (as_Spec s) \<mapsto> s)) (live_sessions sessions) Map.empty"

text \<open>\<open>byNode[name] = append(byNode[name], state)\<close>.\<close>

definition add_state :: "string \<Rightarrow> autoscaleSession \<Rightarrow> node_states \<Rightarrow> node_states" where
  "add_state name state byNode = AList.update name (states_on byNode name @ [state]) byNode"

definition observe_pod :: "klib \<Rightarrow> metrics_lib \<Rightarrow> kube_api \<Rightarrow> ResourceAutoscaler \<Rightarrow> (string \<rightharpoonup> AgentSession) \<Rightarrow> Pod \<Rightarrow> node_states \<Rightarrow>
    node_states auto" where
  "observe_pod L M A r byID pod byNode = (case byID (sget (om_Labels (pod_Meta pod)) sessionLabel) of
     None \<Rightarrow> State_Monad.return byNode
   | Some session \<Rightarrow>
       if ps_NodeName (pod_Spec pod) = [] \<or> om_DeletionTimestamp (pod_Meta pod) \<noteq> None then State_Monad.return byNode
       else do {
         (s, err) \<leftarrow> observeSession L M A r session pod;
         State_Monad.return (case (s, err) of
           (Some state, None) \<Rightarrow> add_state (ps_NodeName (pod_Spec pod)) state byNode
         | _ \<Rightarrow> byNode) })"

definition find_node :: "Node list \<Rightarrow> string \<Rightarrow> Node option" where
  "find_node nodes name = find (\<lambda>n. om_Name (nd_Meta n) = name) (rev nodes)"

text \<open>The states with the plan of their node, as \<open>planNode\<close> leaves them behind the shared pointers.\<close>

definition plan_states :: "klib \<Rightarrow> AgentSession list \<Rightarrow> Pod list \<Rightarrow> Node list \<Rightarrow> string \<Rightarrow> autoscaleSession list \<Rightarrow> autoscaleSession list" where
  "plan_states L sessions pods nodes name states = (case find_node nodes name of
     None \<Rightarrow> states
   | Some node \<Rightarrow> planNode states
       (max (i64 (nodeFreeCPU L node pods - mget (pendingReservationCPU sessions pods) name)) 0))"

definition plan_and_apply :: "klib \<Rightarrow> kube_api \<Rightarrow> ResourceAutoscaler \<Rightarrow> AgentSession list \<Rightarrow> Pod list \<Rightarrow> Node list \<Rightarrow> node_states \<Rightarrow>
    unit auto" where
  "plan_and_apply L A r sessions pods nodes planned =
     for_each (ra_map_order r (map fst planned)) (\<lambda>name.
       if find_node nodes name = None then State_Monad.return ()
       else applyNodePlan L A r (states_on planned name))"

definition runOnce :: "klib \<Rightarrow> metrics_lib \<Rightarrow> kube_api \<Rightarrow> ResourceAutoscaler \<Rightarrow> unit auto" where
  "runOnce L M A r = do {
     ls \<leftarrow> list_sessions A;
     case ls of Inl _ \<Rightarrow> State_Monad.return () | Inr sessions \<Rightarrow> do {
     lp \<leftarrow> list_pods A;
     case lp of Inl _ \<Rightarrow> State_Monad.return () | Inr pods \<Rightarrow> do {
     ln \<leftarrow> list_nodes A;
     case ln of Inl _ \<Rightarrow> State_Monad.return () | Inr nodes \<Rightarrow> do {
       _ \<leftarrow> BeginCycle;
       byNode \<leftarrow> fold_prog (observe_pod L M A r (sessionsByID sessions)) pods [];
       let planned = map (\<lambda>(name, states). (name, plan_states L sessions pods nodes name states)) byNode;
       _ \<leftarrow> plan_and_apply L A r sessions pods nodes planned;
       _ \<leftarrow> reserveWaitingSession L A r sessions pods nodes planned;
       pruneState (set (map (\<lambda>s. om_UID (as_Meta s)) (live_sessions sessions))) } } } }"

text \<open>\<open>Start\<close> until the context ends after the given number of ticks.\<close>

definition Start :: "klib \<Rightarrow> metrics_lib \<Rightarrow> kube_api \<Rightarrow> ResourceAutoscaler \<Rightarrow> nat \<Rightarrow> kerr option auto" where
  "Start L M A r ticks =
     (if \<not> ra_configured r then State_Monad.return (Some (Errorf
        ''resource autoscaler requires Kubernetes client, Pod resizer, and Kubelet metrics reader''))
      else do {
        _ \<leftarrow> for_each [0..<Suc ticks] (\<lambda>_. runOnce L M A r);
        State_Monad.return None })"

end
