(* ===== verification/Autoscaler_Safety.thy ===== *)
theory Autoscaler_Safety
  imports Resource_Autoscaler Session_Safety
begin

text \<open>
  What a cycle of the resource autoscaler may do, whatever the API server and the Kubelets answer: the events it may
  emit (\<open>auto_allowed\<close>) and the invariant of its memory, that every sample window is well formed. \<open>keeps\<close> says both of
  a program; it is closed under the ways programs are composed.
\<close>

section \<open>Allowed events and the memory invariant\<close>

definition patch_ok :: "klib \<Rightarrow> AgentSession list \<Rightarrow> Pod list \<Rightarrow> Node list \<Rightarrow> AgentSession \<Rightarrow> AgentSession \<Rightarrow> bool" where
  "patch_ok L sessions pods nodes s' s \<longleftrightarrow> s \<in> set sessions \<and> is_waiting pods s \<and>
     (\<forall>other\<in>set sessions. is_waiting pods other \<longrightarrow> waiting_order s \<le> waiting_order other) \<and>
     (\<exists>node\<in>set nodes. nodeEligibleForAgent node \<and> s' = reserved_session s (om_Name (nd_Meta node)) \<and>
        sessionMemoryReservation L s \<le>
          max (i64 (nodeFreeMemory L node pods - mget (pendingReservationMemory L sessions pods) (om_Name (nd_Meta node)))) 0)"

definition resize_ok :: "klib \<Rightarrow> Pod \<Rightarrow> Pod \<Rightarrow> bool" where
  "resize_ok L latest p \<longleftrightarrow> \<not> podHasActiveResize latest \<and>
     (\<exists>session target. p = resized_pod L session target latest \<and> 500 \<le> target \<and> target \<le> 3000)"

fun auto_allowed :: "klib \<Rightarrow> AgentSession list \<Rightarrow> Pod list \<Rightarrow> Node list \<Rightarrow> trace \<Rightarrow> event \<Rightarrow> bool" where
  "auto_allowed L ss ps ns t (EvStatusUpdate s' x) =
     (\<exists>t' k cur sc. t = t' @ [EvGetSession k (Inr cur)] \<and> s' = set_scaling cur sc)"
| "auto_allowed L ss ps ns t (EvResizePod p x) =
     (\<exists>t' k latest. t = t' @ [EvGetPod k (Inr latest)] \<and> resize_ok L latest p)"
| "auto_allowed L ss ps ns t (EvPatchSession s' s x) = patch_ok L ss ps ns s' s"
| "auto_allowed L ss ps ns t (EvGetSession k x) = True"
| "auto_allowed L ss ps ns t (EvGetPod k x) = True"
| "auto_allowed L ss ps ns t (EvNodeSummary n x) = True"
| "auto_allowed L ss ps ns t (EvNow x) = True"
| "auto_allowed L ss ps ns t _ = False"

definition mem_ok :: "auto_mem \<Rightarrow> bool" where
  "mem_ok m \<longleftrightarrow> (\<forall>uid w. au_windows m uid = Some w \<longrightarrow> window_ok w)"

definition keeps :: "klib \<Rightarrow> AgentSession list \<Rightarrow> Pod list \<Rightarrow> Node list \<Rightarrow> 'a auto \<Rightarrow> bool" where
  "keeps L ss ps ns m \<longleftrightarrow>
     (\<forall>w. mem_ok (w_mem w) \<longrightarrow> runs (auto_allowed L ss ps ns) w m (\<lambda>_ v. mem_ok (w_mem v)))"

named_theorems keeps_rules \<open>composition of programs that keep the invariant\<close>

lemma keepsD: "keeps L ss ps ns m \<Longrightarrow> mem_ok (w_mem w) \<Longrightarrow> runs (auto_allowed L ss ps ns) w m (\<lambda>_ v. mem_ok (w_mem v))"
  by (simp add: keeps_def)

lemma keeps_return [keeps_rules]: "keeps L ss ps ns (State_Monad.return x)"
  by (auto simp: keeps_def intro: runs_return)

lemma keeps_bind [keeps_rules]:
  assumes "keeps L ss ps ns m" and "\<And>x. keeps L ss ps ns (f x)"
  shows "keeps L ss ps ns (State_Monad.bind m f)"
  unfolding keeps_def
proof (intro allI impI)
  fix w :: "(event, auto_mem) world"
  assume "mem_ok (w_mem w)"
  with assms(1) have "runs (auto_allowed L ss ps ns) w m (\<lambda>_ v. mem_ok (w_mem v))" by (rule keepsD)
  then show "runs (auto_allowed L ss ps ns) w (State_Monad.bind m f) (\<lambda>_ v. mem_ok (w_mem v))"
    by (intro runs_bind, rule runs_post) (rule keepsD [OF assms(2)])
qed

lemma keeps_if [keeps_rules]: "keeps L ss ps ns m \<Longrightarrow> keeps L ss ps ns n \<Longrightarrow> keeps L ss ps ns (if b then m else n)"
  by simp

lemma keeps_option [keeps_rules]:
  "keeps L ss ps ns m \<Longrightarrow> (\<And>x. keeps L ss ps ns (f x)) \<Longrightarrow> keeps L ss ps ns (case r of None \<Rightarrow> m | Some x \<Rightarrow> f x)"
  by (cases r) simp_all

lemma keeps_sum [keeps_rules]:
  "(\<And>x. keeps L ss ps ns (g x)) \<Longrightarrow> (\<And>x. keeps L ss ps ns (f x)) \<Longrightarrow> keeps L ss ps ns (case r of Inl x \<Rightarrow> g x | Inr x \<Rightarrow> f x)"
  by (cases r) simp_all

lemma keeps_prod [keeps_rules]: "(\<And>x y. keeps L ss ps ns (f x y)) \<Longrightarrow> keeps L ss ps ns (case r of (x, y) \<Rightarrow> f x y)"
  by (cases r) simp

lemma keeps_for_each [keeps_rules]:
  assumes "\<And>x. x \<in> set xs \<Longrightarrow> keeps L ss ps ns (f x)"
  shows "keeps L ss ps ns (for_each xs f)"
  using assms by (induction xs) (auto intro: keeps_rules)

lemma keeps_fold_prog [keeps_rules]:
  assumes "\<And>x a. x \<in> set xs \<Longrightarrow> keeps L ss ps ns (f x a)"
  shows "keeps L ss ps ns (fold_prog f xs a)"
  using assms by (induction xs arbitrary: a) (auto intro: keeps_rules)

lemma keeps_call:
  assumes "\<And>t x. auto_allowed L ss ps ns t (event x)"
  shows "keeps L ss ps ns (call answer event)"
  unfolding keeps_def using assms by (auto intro!: runs_call)

lemma keeps_calls [keeps_rules]:
  "keeps L ss ps ns (get_session A k)" "keeps L ss ps ns (get_pod A k)" "keeps L ss ps ns (time_now A)"
  "keeps L ss ps ns (node_summary A n)"
  by (simp_all add: call_defs keeps_call)

lemma keeps_get_mem [keeps_rules]: "keeps L ss ps ns get_mem"
  by (auto simp: keeps_def intro: runs_get_mem)

lemma keeps_modify_mem:
  "(\<And>m. mem_ok m \<Longrightarrow> mem_ok (f m)) \<Longrightarrow> keeps L ss ps ns (modify_mem f)"
  unfolding keeps_def modify_mem_def by (auto intro!: runs_bind runs_get_mem runs_put_mem)

lemma keeps_mem [keeps_rules]:
  "keeps L ss ps ns (clearWindow uid)" "keeps L ss ps ns (recordFailedAttempt uid i)"
  "keeps L ss ps ns (clearFailedAttempt uid)" "keeps L ss ps ns (pruneState seen)"
  by (auto simp: clearWindow_def recordFailedAttempt_def clearFailedAttempt_def pruneState_def mem_ok_def
      intro!: keeps_modify_mem)

section \<open>Status updates, metrics, resizes\<close>

lemma keeps_updateScalingStatus [keeps_rules]: "keeps L ss ps ns (updateScalingStatus L A key mutate)"
  unfolding keeps_def
proof (intro allI impI)
  fix w :: "(event, auto_mem) world"
  assume w: "mem_ok (w_mem w)"
  have "runs (auto_allowed L ss ps ns) v (scaling_once L A key mutate) (\<lambda>_ v'. mem_ok (w_mem v') \<and> True)"
    if "mem_ok (w_mem v)" for v
    unfolding scaling_once_def call_defs Let_def using that by (intro runs_rules) auto
  from runs_retry_on [where I = "\<lambda>v. mem_ok (w_mem v)" and Q = "\<lambda>_ _. True", OF this w]
  show "runs (auto_allowed L ss ps ns) w (updateScalingStatus L A key mutate) (\<lambda>_ v. mem_ok (w_mem v))"
    by (simp add: updateScalingStatus_def)
qed

lemma keeps_recordScalingError [keeps_rules]: "keeps L ss ps ns (recordScalingError L A key message)"
  unfolding recordScalingError_def by (intro keeps_rules)

lemma keeps_updateAutoStatus [keeps_rules]:
  "keeps L ss ps ns (updateAutoStatus L A key uid c target message isError)"
  unfolding updateAutoStatus_def by (intro keeps_rules)

lemma keeps_observed [keeps_rules]: "keeps L ss ps ns (observed L A session state target message isError)"
  unfolding observed_def by (intro keeps_rules)

lemma keeps_retrySuppressed [keeps_rules]: "keeps L ss ps ns (retrySuppressed r A uid intent)"
  unfolding retrySuppressed_def Let_def by (intro keeps_rules)

lemma runs_metric:
  fixes w :: "(event, auto_mem) world"
  shows "runs (auto_allowed L ss ps ns) w (GetAgentPodMetric M A pod) (\<lambda>_ v. au_windows (w_mem v) = au_windows (w_mem w))"
proof -
  have node: "runs (auto_allowed L ss ps ns) u (node_counters M A node) (\<lambda>_ v. au_windows (w_mem v) = au_windows (w_mem u))"
    for u :: "(event, auto_mem) world" and node
    unfolding node_counters_def readNodeSummary_def node_summary_def by (intro runs_rules) auto
  show ?thesis unfolding GetAgentPodMetric_def Let_def
    by (intro runs_if runs_return runs_bind runs_get_mem runs_put_mem runs_post [OF node] runs_case_sum runs_case_option
        runs_case_prod) auto
qed

lemma keeps_metric [keeps_rules]: "keeps L ss ps ns (GetAgentPodMetric M A pod)"
  unfolding keeps_def by (intro allI impI runs_post [OF runs_metric]) (simp add: mem_ok_def)

lemma keeps_BeginCycle [keeps_rules]: "keeps L ss ps ns BeginCycle"
  unfolding keeps_def BeginCycle_def by (auto intro!: runs_bind runs_get_mem runs_put_mem simp: mem_ok_def)


lemma keeps_set_window:
  assumes "window_ok x"
  shows "keeps L ss ps ns (set_window uid x)"
  using assms unfolding set_window_def by (intro keeps_modify_mem) (simp add: mem_ok_def)

lemma window_of_ok: "mem_ok m \<Longrightarrow> window_ok (window_of m uid)"
  by (auto simp: mem_ok_def window_of_def split: option.split)

text \<open>Reading the memory and using a window of it.\<close>

lemma keeps_with_mem:
  assumes "\<And>m. mem_ok m \<Longrightarrow> keeps L ss ps ns (f m)"
  shows "keeps L ss ps ns (State_Monad.bind get_mem f)"
  unfolding keeps_def by (intro allI impI runs_bind runs_get_mem) (rule keepsD [OF assms])

lemma keeps_recommend [keeps_rules]: "keeps L ss ps ns (recommend L A r session pod state)"
  unfolding recommend_def Let_def by (intro keeps_rules)


lemma keeps_observe_metric [keeps_rules]: "keeps L ss ps ns (observe_metric L M A r session pod state limit)"
  unfolding observe_metric_def
  by (intro keeps_rules keeps_with_mem keeps_set_window window_ok_Add window_of_ok | assumption)+

lemma keeps_prod_eq:
  "(\<And>x y. r = (x, y) \<Longrightarrow> keeps L ss ps ns (f x y)) \<Longrightarrow> keeps L ss ps ns (case r of (x, y) \<Rightarrow> f x y)"
  by (cases r) simp

lemma keeps_observeSession [keeps_rules]: "keeps L ss ps ns (observeSession L M A r session pod)"
proof -
  have "window_ok x" if "window_Prepare (window_of m uid) i g = (c, x)" "mem_ok m" for m uid i g c x
    using window_ok_Prepare [OF window_of_ok [OF that(2)], of uid i g] that(1) by simp
  then show ?thesis unfolding observeSession_def Let_def
    by (intro keeps_option keeps_if keeps_bind [OF keeps_recordScalingError] keeps_return keeps_with_mem keeps_prod_eq
        keeps_bind [OF keeps_set_window] keeps_bind [OF keeps_mem(1)] keeps_bind keeps_mem keeps_observed keeps_observe_metric)
qed

lemma resize_target_bounds: "500 \<le> resize_target L state \<and> resize_target L state \<le> 3000"
  by (simp add: resize_target_def Policy_limits)

lemma runs_apply_resize:
  assumes "mem_ok (w_mem w)" and "w_trace w = t @ [EvGetPod k (Inr latestPod)]"
    and "\<not> podHasActiveResize latestPod" and "500 \<le> fi_CPU intent" and "fi_CPU intent \<le> 3000"
  shows "runs (auto_allowed L ss ps ns) w (apply_resize L A state intent latestPod) (\<lambda>_ v. mem_ok (w_mem v))"
  unfolding apply_resize_def Let_def resize_pod_def
proof (intro runs_bind runs_call keepsD)
  show "auto_allowed L ss ps ns (w_trace w) (EvResizePod (resized_pod L (az_session state) (fi_CPU intent) latestPod) x)" for x
    using assms by (auto simp: resize_ok_def)
qed (use assms(1) in \<open>auto intro!: keeps_rules\<close>)

lemma keeps_get_pod_then:
  assumes "\<And>e. keeps L ss ps ns (f e)"
    and "\<And>pod t w. mem_ok (w_mem w) \<Longrightarrow> w_trace w = t @ [EvGetPod k (Inr pod)] \<Longrightarrow>
      runs (auto_allowed L ss ps ns) w (g pod) (\<lambda>_ v. mem_ok (w_mem v))"
  shows "keeps L ss ps ns (State_Monad.bind (get_pod A k) (\<lambda>p. case p of Inl e \<Rightarrow> f e | Inr pod \<Rightarrow> g pod))"
  unfolding keeps_def get_pod_def
  by (intro allI impI runs_bind runs_call runs_case_sum) (auto intro!: keepsD [OF assms(1)] assms(2))

lemma keeps_resizeState [keeps_rules]: "keeps L ss ps ns (resizeState L A r state)"
  unfolding resizeState_def Let_def
proof (intro keeps_bind [OF keeps_retrySuppressed] keeps_if keeps_return keeps_bind [OF keeps_calls(1)] keeps_sum
    keeps_get_pod_then)
  fix pod t and w :: "(event, auto_mem) world"
  assume w: "mem_ok (w_mem w)" "w_trace w = t @ [EvGetPod (ObjectKey (pod_Meta (az_pod state))) (Inr pod)]"
  have "\<not> podHasActiveResize pod" if "resize_current L (az_pod state) pod"
    using that by (auto simp: resize_current_def split: option.splits)
  with w show "runs (auto_allowed L ss ps ns) w (if \<not> resize_current L (az_pod state) pod then State_Monad.return (False, None)
      else apply_resize L A state \<lparr>fi_PodUID = om_UID (pod_Meta (az_pod state)), fi_CPU = resize_target L state,
        fi_Memory = q_Value L (sp_MemoryRequest (as_Spec (az_session state))), fi_AttemptedAt = 0\<rparr> pod)
      (\<lambda>_ v. mem_ok (w_mem v))"
    by (auto intro!: runs_return runs_apply_resize simp: resize_target_bounds)
qed

section \<open>Plans, reservations and the cycle\<close>

lemma keeps_applyNodePlan [keeps_rules]: "keeps L ss ps ns (applyNodePlan L A r states)"
  unfolding applyNodePlan_def apply_decreases_def by (intro keeps_rules)

lemma keeps_reclaim_keys [keeps_rules]: "keeps L ss ps ns (reclaim_keys L A r byKey allocations keys)"
  by (induction keys) (auto intro!: keeps_rules split: option.split)

lemma keeps_reclaim_priorities [keeps_rules]: "keeps L ss ps ns (reclaim_priorities L A r states priorities required)"
  by (induction priorities arbitrary: required) (auto simp: Let_def intro!: keeps_rules)

lemma keeps_reclaimForReservation [keeps_rules]: "keeps L ss ps ns (reclaimForReservation L A r states required)"
  unfolding reclaimForReservation_def by (rule keeps_reclaim_priorities)

lemma waiting_head:
  assumes "waiting_sessions ss ps = s # rest"
  shows "s \<in> set ss \<and> is_waiting ps s \<and> (\<forall>other\<in>set ss. is_waiting ps other \<longrightarrow> waiting_order s \<le> waiting_order other)"
proof -
  have eq: "set (s # rest) = set (filter (is_waiting ps) ss)" using assms unfolding waiting_sessions_def by (metis set_sort)
  have "sorted (map waiting_order (s # rest))" using assms unfolding waiting_sessions_def by (metis sorted_sort_key)
  then have "\<forall>other\<in>set (s # rest). waiting_order s \<le> waiting_order other" by simp
  moreover have "s \<in> set (filter (is_waiting ps) ss)" unfolding eq [symmetric] by simp
  ultimately show ?thesis unfolding eq by auto
qed

lemma candidate_head:
  assumes "reservation_candidates L ss ps ns byNode m = c # rest"
  shows "nc_node c \<in> set ns \<and> nodeEligibleForAgent (nc_node c) \<and> m \<le> nc_freeMemory c \<and>
    nc_freeMemory c = max (i64 (nodeFreeMemory L (nc_node c) ps -
      mget (pendingReservationMemory L ss ps) (om_Name (nd_Meta (nc_node c))))) 0"
proof -
  have "c \<in> set (reservation_candidates L ss ps ns byNode m)" using assms by simp
  then show ?thesis unfolding reservation_candidates_def set_sort
    by (auto simp: reservation_candidate_def Let_def)
qed

lemma keeps_reserveWaitingSession [keeps_rules]: "keeps L ss ps ns (reserveWaitingSession L A r ss ps ns byNode)"
proof (cases "waiting_sessions ss ps")
  case (Cons s rest)
  show ?thesis
  proof (cases "reservation_candidates L ss ps ns byNode (sessionMemoryReservation L s)")
    case (Cons c cs)
    have "patch_ok L ss ps ns (reserved_session s (om_Name (nd_Meta (nc_node c)))) s"
      using waiting_head [OF \<open>waiting_sessions ss ps = s # rest\<close>] candidate_head [OF Cons] by (auto simp: patch_ok_def)
    then have "keeps L ss ps ns (patch_session A (reserved_session s (om_Name (nd_Meta (nc_node c)))) s)"
      by (simp add: patch_session_def keeps_call)
    then show ?thesis unfolding reserveWaitingSession_def \<open>waiting_sessions ss ps = s # rest\<close> list.case Cons Let_def
      by (intro keeps_rules)
  qed (simp add: reserveWaitingSession_def keeps_return Cons)
qed (simp add: reserveWaitingSession_def keeps_return)

lemma keeps_observe_pod [keeps_rules]: "keeps L ss ps ns (observe_pod L M A r byID pod byNode)"
  unfolding observe_pod_def by (intro keeps_rules)

lemma keeps_plan_and_apply [keeps_rules]: "keeps L ss ps ns (plan_and_apply L A r sessions pods nodes planned)"
  unfolding plan_and_apply_def by (intro keeps_rules)

definition pruned :: "AgentSession list \<Rightarrow> auto_mem \<Rightarrow> bool" where
  "pruned sessions m \<longleftrightarrow> dom (au_windows m) \<union> dom (au_failedAttempts m) \<subseteq>
     (\<lambda>s. om_UID (as_Meta s)) ` set (live_sessions sessions)"

text \<open>What follows the three lists.\<close>

definition cycle_body :: "klib \<Rightarrow> metrics_lib \<Rightarrow> kube_api \<Rightarrow> ResourceAutoscaler \<Rightarrow> AgentSession list \<Rightarrow> Pod list \<Rightarrow> Node list \<Rightarrow>
    unit auto" where
  "cycle_body L M A r sessions pods nodes = do {
     _ \<leftarrow> BeginCycle;
     byNode \<leftarrow> fold_prog (observe_pod L M A r (sessionsByID sessions)) pods [];
     let planned = map (\<lambda>(name, states). (name, plan_states L sessions pods nodes name states)) byNode;
     _ \<leftarrow> plan_and_apply L A r sessions pods nodes planned;
     _ \<leftarrow> reserveWaitingSession L A r sessions pods nodes planned;
     pruneState (set (map (\<lambda>s. om_UID (as_Meta s)) (live_sessions sessions))) }"

lemma runs_pruneState:
  assumes "mem_ok (w_mem w)"
  shows "runs P w (pruneState seen) (\<lambda>_ v. mem_ok (w_mem v) \<and> dom (au_windows (w_mem v)) \<union> dom (au_failedAttempts (w_mem v)) \<subseteq> seen)"
  unfolding pruneState_def modify_mem_def
  by (intro runs_bind runs_get_mem runs_put_mem) (use assms in \<open>auto simp: mem_ok_def split: if_splits\<close>)

lemma runs_cycle_body:
  assumes "mem_ok (w_mem w)"
  shows "runs (auto_allowed L ss ps ns) w (cycle_body L M A r ss ps ns) (\<lambda>_ v. mem_ok (w_mem v) \<and> pruned ss (w_mem v))"
proof -
  note step = runs_bind [OF runs_post, OF keepsD]
  show ?thesis unfolding cycle_body_def Let_def
    by (rule step, rule keeps_BeginCycle, rule assms, rule step, intro keeps_rules, assumption,
        rule step, intro keeps_rules, assumption, rule step, intro keeps_rules, assumption,
        rule runs_post [OF runs_pruneState], assumption)
      (simp add: pruned_def)
qed

definition cycle_allowed :: "klib \<Rightarrow> trace \<Rightarrow> trace \<Rightarrow> event \<Rightarrow> bool" where
  "cycle_allowed L start t e \<longleftrightarrow> (\<exists>x. e = EvListSessions x) \<or> (\<exists>x. e = EvListPods x) \<or> (\<exists>x. e = EvListNodes x) \<or>
     (\<exists>ss ps ns rest. t = start @ [EvListSessions (Inr ss), EvListPods (Inr ps), EvListNodes (Inr ns)] @ rest \<and>
        auto_allowed L ss ps ns t e)"

definition cycle_memory :: "trace \<Rightarrow> auto_mem \<Rightarrow> trace \<Rightarrow> auto_mem \<Rightarrow> bool" where
  "cycle_memory start before t after \<longleftrightarrow> mem_ok after \<and> (after = before \<or>
     (\<exists>ss rest. t = start @ EvListSessions (Inr ss) # rest \<and> pruned ss after))"

lemma runs_listed:
  assumes "mem_ok (w_mem w)" and "w_trace w = start @ [EvListSessions (Inr ss), EvListPods (Inr ps), EvListNodes (Inr ns)]"
  shows "runs (cycle_allowed L start) w (cycle_body L M A r ss ps ns) (\<lambda>_ v. cycle_memory start m (w_trace v) (w_mem v))"
proof -
  let ?m = "cycle_body L M A r ss ps ns"
  have body: "runs (auto_allowed L ss ps ns) w ?m (\<lambda>_ v. mem_ok (w_mem v) \<and> pruned ss (w_mem v))"
    by (rule runs_cycle_body) (rule assms(1))
  then have "cycle_memory start m (w_trace (world_after ?m w)) (w_mem (world_after ?m w))"
    using runs_result [OF body] runs_trace [OF body] assms(2) by (auto simp: cycle_memory_def)
  then have "runs (auto_allowed L ss ps ns) w ?m (\<lambda>_ v. cycle_memory start m (w_trace v) (w_mem v))"
    using body by (auto simp: runs_def)
  from runs_mono [OF runs_extends [OF this]] show ?thesis
    by (rule runs_mono) (auto simp: cycle_allowed_def assms(2))
qed

lemma runs_runOnce:
  assumes "mem_ok (w_mem w)"
  shows "runs (cycle_allowed L (w_trace w)) w (runOnce L M A r)
    (\<lambda>_ v. cycle_memory (w_trace w) (w_mem w) (w_trace v) (w_mem v))"
  unfolding runOnce_def cycle_body_def [symmetric] list_sessions_def list_pods_def list_nodes_def
  by (intro runs_bind runs_call runs_case_sum runs_return runs_listed)
    (use assms in \<open>auto simp: cycle_allowed_def cycle_memory_def\<close>)

text \<open>
  C12. Whatever the API server and the Kubelets answer, a cycle of the autoscaler only does this. It lists, it reads
  sessions, Pods, summaries and the clock; it updates the status of a session it has just read, and there only
  \<open>ResourceScaling\<close>; it resizes a Pod it has just read, with no resize under way, to between 500 and 3000
  millicores of CPU and the memory of the session; it patches one session, the waiting one of the highest priority and then
  the oldest, with a reservation of an eligible node that has its memory free. It creates and deletes nothing.
\<close>

theorem runOnce_safe:
  assumes "mem_ok (w_mem w)" and "events_of (runOnce L M A r) w = before @ e # after"
  shows "cycle_allowed L (w_trace w) (w_trace w @ before) e"
  using runs_events [OF runs_runOnce] assms by blast

definition sample_node :: Node where
  "sample_node = \<lparr>nd_Meta = zero_ObjectMeta\<lparr>om_Name := ''worker-1'', om_Labels := [''role'' \<mapsto> ''worker'']\<rparr>, nd_Unschedulable = False,
     nd_Taints = [], nd_Conditions = [(''Ready'', ''True'')], nd_Allocatable = [''cpu'' \<mapsto> ''500m'', ''memory'' \<mapsto> ''64Gi''],
     nd_Capacity = Map.empty, nd_KubeletVersion = []\<rparr>"

definition sample_autoscaler :: ResourceAutoscaler where
  "sample_autoscaler = \<lparr>ra_configured = True, ra_SampleInterval = 0, ra_ScaleUpCooldown = 0, ra_ScaleDownCooldown = 0,
     ra_RetryInterval = 0, ra_map_order = (\<lambda>ks. ks)\<rparr>"

definition sample_metrics :: metrics_lib where
  "sample_metrics = \<lparr>Unmarshal_summary = (\<lambda>s. Inr []), parse_RFC3339Nano = (\<lambda>s. None)\<rparr>"

definition auto_start :: "(event, auto_mem) world" where
  "auto_start = \<lparr>w_trace = [], w_mem = \<lparr>mr_summaries = Map.empty, mr_summaryErrors = Map.empty, mr_states = Map.empty, mr_seen = {},
     au_windows = Map.empty, au_failedAttempts = Map.empty\<rparr>\<rparr>"

definition waiting_api :: kube_api where
  "waiting_api = (sample_api (sample_session PhasePending DesiredStateRunning None) (Inl not_found) (Inl not_found))
     \<lparr>a_list_nodes := (\<lambda>t. Inr [sample_node])\<rparr>"

definition is_patch :: "event \<Rightarrow> bool" where
  "is_patch e = (case e of EvPatchSession s b x \<Rightarrow> True | _ \<Rightarrow> False)"

theorem runOnce_safe_witness:
  "\<exists>s' s x. EvPatchSession s' s x \<in> set (events_of (runOnce sample_lib sample_metrics waiting_api sample_autoscaler) auto_start) \<and>
     (\<exists>ss ps ns. patch_ok sample_lib ss ps ns s' s)"
proof -
  let ?es = "events_of (runOnce sample_lib sample_metrics waiting_api sample_autoscaler) auto_start"
  have "3 < length ?es \<and> is_patch (?es ! 3)" by code_simp
  then obtain s' s x where e: "3 < length ?es" "?es ! 3 = EvPatchSession s' s x"
    by (auto simp: is_patch_def split: event.splits)
  have "?es = take 3 ?es @ EvPatchSession s' s x # drop 4 ?es" using id_take_nth_drop [OF e(1)] e(2) by simp
  moreover have "mem_ok (w_mem auto_start)" by (simp add: mem_ok_def auto_start_def)
  ultimately have "cycle_allowed sample_lib (w_trace auto_start) (w_trace auto_start @ take 3 ?es) (EvPatchSession s' s x)"
    by (rule runOnce_safe [rotated])
  then have "\<exists>ss ps ns. patch_ok sample_lib ss ps ns s' s" by (simp add: cycle_allowed_def) blast
  moreover have "EvPatchSession s' s x \<in> set ?es" using nth_mem [OF e(1)] e(2) by simp
  ultimately show ?thesis by blast
qed

text \<open>
  A cycle keeps the invariant of the autoscaler's memory: every sample window stays bounded, sorted and
  free of duplicates. A cycle that could list the objects also forgets every session that is gone: windows and failed
  attempts are left only for sessions of the list that are not being deleted; one that could not leaves the memory as it is.
\<close>

theorem runOnce_memory:
  assumes "mem_ok (w_mem w)"
  shows "cycle_memory (w_trace w) (w_mem w) (w_trace (world_after (runOnce L M A r) w)) (w_mem (world_after (runOnce L M A r) w))"
  using runs_result [OF runs_runOnce [OF assms]] .

theorem runOnce_memory_witness:
  "mem_ok (w_mem (world_after (runOnce sample_lib sample_metrics waiting_api sample_autoscaler) auto_start))"
proof -
  have "mem_ok (w_mem auto_start)" by (simp add: mem_ok_def auto_start_def)
  from runOnce_memory [OF this] show ?thesis by (simp add: cycle_memory_def)
qed

end
