(* ===== verification/User_Environment.thy ===== *)
theory User_Environment
  imports Session_Controller
begin

text \<open>
  The controller of user environments, \<open>operator/internal/controller/userenvironment_controller.go\<close>: it
  validates a \<open>UserEnvironment\<close> and keeps the six objects of the security baseline of its namespace. The API
  server is the record \<open>user_api\<close> of answers; \<open>controllerutil.CreateOrUpdate\<close> is a parameter, a program
  that gets the object, calls the callback and writes, with its documented behaviour stated as \<open>CreateOrUpdate_contract\<close>.
  Objects have the fields the controller reads or writes.
\<close>

section \<open>Types\<close>

datatype UserEnvironmentPhase = EnvPhaseUnset | UserEnvironmentPhasePending | UserEnvironmentPhaseReady
  | UserEnvironmentPhaseFailed

record UserEnvironmentSpec =
  us_UserID :: string
  us_Namespace :: string
  us_QuotaProfile :: string

record UserEnvironmentStatus =
  ut_Phase :: UserEnvironmentPhase
  ut_ObservedGeneration :: int
  ut_Conditions :: "Condition list"

record UserEnvironment =
  ue_Meta :: ObjectMeta
  ue_Spec :: UserEnvironmentSpec
  ue_Status :: UserEnvironmentStatus

record NetworkPolicyRule =
  nr_Peers :: "(strmap option \<times> strmap option) list"
  nr_Ports :: "(string \<times> int) list"

record NetworkPolicySpec =
  np_PodSelector :: strmap
  np_Ingress :: "NetworkPolicyRule list"
  np_Egress :: "NetworkPolicyRule list"
  np_PolicyTypes :: "string list"

record LimitRangeItem =
  li_Type :: string
  li_Default :: ResourceList
  li_DefaultRequest :: ResourceList

record RoleRef =
  rf_APIGroup :: string
  rf_Kind :: string
  rf_Name :: string

record Subject =
  sj_Kind :: string
  sj_Name :: string
  sj_Namespace :: string

datatype baseline_kind = KNamespace | KResourceQuota | KLimitRange | KNetworkPolicy | KRoleBinding

datatype baseline_spec =
  NamespaceSpec
  | ResourceQuotaSpec ResourceList
  | LimitRangeSpec "LimitRangeItem list"
  | PolicySpec NetworkPolicySpec
  | BindingSpec RoleRef "Subject list"

record object =
  ob_Kind :: baseline_kind
  ob_Meta :: ObjectMeta
  ob_Spec :: baseline_spec

definition resourceQuotaName :: string where "resourceQuotaName = ''bosun-user-quota''"
definition limitRangeName :: string where "limitRangeName = ''bosun-container-defaults''"
definition defaultDenyPolicyName :: string where "defaultDenyPolicyName = ''bosun-default-deny''"
definition allowedEgressPolicy :: string where "allowedEgressPolicy = ''bosun-allowed-egress''"
definition backendRoleBindingName :: string where "backendRoleBindingName = ''bosun-backend-access''"
definition backendClusterRoleName :: string where "backendClusterRoleName = ''bosun-user-backend-terminal''"
definition backendServiceAccount :: string where "backendServiceAccount = ''bosun-backend-api''"
definition readyConditionType :: string where "readyConditionType = ''Ready''"
definition resourceConflictReason :: string where "resourceConflictReason = ''ResourceConflict''"
definition quotaProfileMVP :: string where "quotaProfileMVP = ''mvp''"

text \<open>The errors: of the API server, permanent ones, a changed generation, and two joined.\<close>

datatype user_error =
  ApiError kerr
  | PermanentError string string
  | GenerationChanged
  | Joined user_error user_error

fun user_conflict :: "user_error \<Rightarrow> bool" where
  "user_conflict (ApiError e) = IsConflict e"
| "user_conflict _ = False"

definition api_wrap :: "string \<Rightarrow> kerr \<Rightarrow> user_error" where
  "api_wrap prefix e = ApiError (Wrapf prefix e)"

section \<open>Calls\<close>

datatype user_event =
  EvGetEnvironment nskey "kerr + UserEnvironment"
  | EvEnvironmentStatus UserEnvironment "kerr option"
  | EvGetObject baseline_kind nskey "kerr + object"
  | EvCreateObject object "kerr option"
  | EvUpdateObject object "kerr option"

type_synonym user_world = "(user_event, unit) world"
type_synonym 'a user_prog = "(user_event, unit, 'a) prog"

record user_api =
  ua_get_environment :: "user_event list \<Rightarrow> nskey \<Rightarrow> kerr + UserEnvironment"
  ua_status :: "user_event list \<Rightarrow> UserEnvironment \<Rightarrow> kerr option"
  ua_get_object :: "user_event list \<Rightarrow> baseline_kind \<Rightarrow> nskey \<Rightarrow> kerr + object"
  DeepEqual_env_status :: "UserEnvironmentStatus \<Rightarrow> UserEnvironmentStatus \<Rightarrow> bool"
  CreateOrUpdate :: "object \<Rightarrow> (object \<Rightarrow> user_error + object) \<Rightarrow> user_error option user_prog"
  ur_PlatformNamespace :: string

definition get_environment :: "user_api \<Rightarrow> nskey \<Rightarrow> (kerr + UserEnvironment) user_prog" where
  "get_environment A k = call (\<lambda>t. ua_get_environment A t k) (EvGetEnvironment k)"

definition environment_status :: "user_api \<Rightarrow> UserEnvironment \<Rightarrow> kerr option user_prog" where
  "environment_status A e = call (\<lambda>t. ua_status A t e) (EvEnvironmentStatus e)"

definition get_object :: "user_api \<Rightarrow> baseline_kind \<Rightarrow> nskey \<Rightarrow> (kerr + object) user_prog" where
  "get_object A kind k = call (\<lambda>t. ua_get_object A t kind k) (EvGetObject kind k)"

lemmas user_call_defs = get_environment_def environment_status_def get_object_def

definition object_key :: "object \<Rightarrow> nskey" where
  "object_key obj = ObjectKey (ob_Meta obj)"

text \<open>
  The documented behaviour of \<open>CreateOrUpdate\<close>: it gets the object; when there is none it creates what the callback
  makes of the given object, otherwise it updates the object found with what the callback makes of it, or leaves it when
  the callback changes nothing. An error of the callback is returned and nothing is written.
\<close>

fun write_allowed :: "object \<Rightarrow> (object \<Rightarrow> user_error + object) \<Rightarrow> user_event list \<Rightarrow> user_event \<Rightarrow> bool" where
  "write_allowed obj f t (EvGetObject kind k x) = (kind = ob_Kind obj \<and> k = object_key obj)"
| "write_allowed obj f t (EvCreateObject o1 x) = (f obj = Inr o1 \<and>
     (\<exists>t' e. t = t' @ [EvGetObject (ob_Kind obj) (object_key obj) (Inl e)] \<and> IsNotFound e))"
| "write_allowed obj f t (EvUpdateObject o1 x) =
     (\<exists>t' cur. t = t' @ [EvGetObject (ob_Kind obj) (object_key obj) (Inr cur)] \<and> f cur = Inr o1)"
| "write_allowed obj f t _ = False"

definition in_sync :: "object \<Rightarrow> (object \<Rightarrow> user_error + object) \<Rightarrow> user_event \<Rightarrow> bool" where
  "in_sync obj f e \<longleftrightarrow>
     (\<exists>o1. e = EvCreateObject o1 None \<and> f obj = Inr o1) \<or>
     (\<exists>cur o1. e = EvUpdateObject o1 None \<and> f cur = Inr o1 \<and> ob_Kind cur = ob_Kind obj \<and> object_key cur = object_key obj) \<or>
     (\<exists>cur. e = EvGetObject (ob_Kind obj) (object_key obj) (Inr cur) \<and> f cur = Inr cur)"

definition CreateOrUpdate_contract :: "user_api \<Rightarrow> bool" where
  "CreateOrUpdate_contract A \<longleftrightarrow> (\<forall>obj f w.
     runs (write_allowed obj f) w (CreateOrUpdate A obj f)
       (\<lambda>r v. r = None \<longrightarrow> (\<exists>es. w_trace v = w_trace w @ es \<and> (\<exists>e\<in>set es. in_sync obj f e))))"

section \<open>Validation\<close>

definition shortUserID :: "klib \<Rightarrow> string \<Rightarrow> string" where
  "shortUserID L userID = take 12 (hex_encode (sha256 L userID))"

definition validateUserEnvironment :: "klib \<Rightarrow> UserEnvironment \<Rightarrow> string option" where
  "validateUserEnvironment L environment =
     (let spec = ue_Spec environment; labels = om_Labels (ue_Meta environment);
          shortID = shortUserID L (us_UserID spec);
          expectedName = ''usr-'' @ shortID; expectedNamespace = ''bosun-u-'' @ shortID
      in if \<not> uuid_v7 (us_UserID spec) then Some ''spec.userID must be a UUID v7''
         else if sget labels managedByLabel \<noteq> managedByValue
           then Some (''metadata.labels['' @ managedByLabel @ ''] must be '' @ managedByValue)
         else if sget labels userLabel \<noteq> us_UserID spec
           then Some (''metadata.labels['' @ userLabel @ ''] must match spec.userID'')
         else if om_Name (ue_Meta environment) \<noteq> expectedName
           then Some (''metadata.name must be '' @ expectedName @ '' for spec.userID'')
         else if us_Namespace spec \<noteq> expectedNamespace
           then Some (''spec.namespace must be '' @ expectedNamespace @ '' for spec.userID'')
         else if us_QuotaProfile spec \<noteq> quotaProfileMVP then Some ''spec.quotaProfile must be mvp''
         else None)"

fun type_name :: "baseline_kind \<Rightarrow> string" where
  "type_name KNamespace = ''*v1.Namespace''"
| "type_name KResourceQuota = ''*v1.ResourceQuota''"
| "type_name KLimitRange = ''*v1.LimitRange''"
| "type_name KNetworkPolicy = ''*v1.NetworkPolicy''"
| "type_name KRoleBinding = ''*v1.RoleBinding''"

definition validateManagedObject :: "object \<Rightarrow> string \<Rightarrow> user_error option" where
  "validateManagedObject obj userID =
     (let labels = om_Labels (ob_Meta obj)
      in if sget labels managedByLabel \<noteq> managedByValue \<or> sget labels userLabel \<noteq> userID
         then Some (PermanentError resourceConflictReason
           (type_name (ob_Kind obj) @ '' '' @ show_key (object_key obj) @ '' is not managed by Bosun for user '' @ userID))
         else None)"

section \<open>The baseline\<close>

definition namespaceSelector :: "string \<Rightarrow> strmap" where
  "namespaceSelector namespace = [''kubernetes.io/metadata.name'' \<mapsto> namespace]"

definition podSelector :: "string \<Rightarrow> strmap" where
  "podSelector name = [''app.kubernetes.io/name'' \<mapsto> name]"

definition quota_spec :: "klib \<Rightarrow> baseline_spec" where
  "quota_spec L = ResourceQuotaSpec [''pods'' \<mapsto> q_MustParse L ''20'', ''limits.cpu'' \<mapsto> q_MustParse L ''20'',
     ''limits.memory'' \<mapsto> q_MustParse L ''40Gi'', ''requests.storage'' \<mapsto> q_MustParse L ''200Gi'']"

definition limit_range_spec :: "klib \<Rightarrow> baseline_spec" where
  "limit_range_spec L = LimitRangeSpec [\<lparr>li_Type = ''Container'',
     li_Default = [''cpu'' \<mapsto> q_MustParse L ''500m'', ''memory'' \<mapsto> q_MustParse L ''1Gi''],
     li_DefaultRequest = [''cpu'' \<mapsto> q_MustParse L ''100m'', ''memory'' \<mapsto> q_MustParse L ''128Mi'']\<rparr>]"

definition default_deny_spec :: baseline_spec where
  "default_deny_spec = PolicySpec \<lparr>np_PodSelector = Map.empty, np_Ingress = [], np_Egress = [],
     np_PolicyTypes = [''Ingress'', ''Egress'']\<rparr>"

definition allowed_egress_spec :: "string \<Rightarrow> baseline_spec" where
  "allowed_egress_spec platformNamespace = PolicySpec \<lparr>np_PodSelector = Map.empty, np_Ingress = [],
     np_Egress = [
       \<lparr>nr_Peers = [(Some (namespaceSelector ''kube-system''), Some [''k8s-app'' \<mapsto> ''kube-dns''])],
        nr_Ports = [(''UDP'', 53), (''TCP'', 53)]\<rparr>,
       \<lparr>nr_Peers = [(Some (namespaceSelector platformNamespace), Some (podSelector ''bosun-gateway''))],
        nr_Ports = [(''TCP'', 8081)]\<rparr>,
       \<lparr>nr_Peers = [(Some (namespaceSelector platformNamespace), Some (podSelector ''bosun-egress-proxy''))],
        nr_Ports = [(''TCP'', 3128)]\<rparr>],
     np_PolicyTypes = [''Egress'']\<rparr>"

definition desiredRoleRef :: RoleRef where
  "desiredRoleRef = \<lparr>rf_APIGroup = ''rbac.authorization.k8s.io'', rf_Kind = ''ClusterRole'', rf_Name = backendClusterRoleName\<rparr>"

definition role_ref :: "object \<Rightarrow> RoleRef" where
  "role_ref obj = (case ob_Spec obj of BindingSpec ref subjects \<Rightarrow> ref
     | _ \<Rightarrow> \<lparr>rf_APIGroup = [], rf_Kind = [], rf_Name = []\<rparr>)"

definition set_spec :: "baseline_spec \<Rightarrow> object \<Rightarrow> user_error + object" where
  "set_spec spec obj = Inr (obj\<lparr>ob_Spec := spec\<rparr>)"

definition bind_role :: "string \<Rightarrow> object \<Rightarrow> user_error + object" where
  "bind_role platformNamespace obj =
     (if om_ResourceVersion (ob_Meta obj) \<noteq> [] \<and> role_ref obj \<noteq> desiredRoleRef
      then Inl (PermanentError resourceConflictReason
        (''RoleBinding '' @ show_key (object_key obj) @ '' has an incompatible roleRef''))
      else Inr (obj\<lparr>ob_Spec := BindingSpec desiredRoleRef
        [\<lparr>sj_Kind = ''ServiceAccount'', sj_Name = backendServiceAccount, sj_Namespace = platformNamespace\<rparr>]\<rparr>))"

definition new_object :: "baseline_kind \<Rightarrow> string \<Rightarrow> string \<Rightarrow> baseline_spec \<Rightarrow> object" where
  "new_object kind namespace name spec =
     \<lparr>ob_Kind = kind, ob_Meta = zero_ObjectMeta\<lparr>om_Name := name, om_Namespace := namespace\<rparr>, ob_Spec = spec\<rparr>"

text \<open>The objects of the baseline in the order of \<open>ensureBaseline\<close>, each with its \<open>mutate\<close>.\<close>

definition baseline :: "klib \<Rightarrow> string \<Rightarrow> UserEnvironment \<Rightarrow> (object \<times> (object \<Rightarrow> user_error + object)) list" where
  "baseline L platformNamespace environment =
     (let ns = us_Namespace (ue_Spec environment);
          no_policy = PolicySpec \<lparr>np_PodSelector = Map.empty, np_Ingress = [], np_Egress = [], np_PolicyTypes = []\<rparr>
      in [(new_object KNamespace [] ns NamespaceSpec, Inr),
          (new_object KResourceQuota ns resourceQuotaName (ResourceQuotaSpec Map.empty), set_spec (quota_spec L)),
          (new_object KLimitRange ns limitRangeName (LimitRangeSpec []), set_spec (limit_range_spec L)),
          (new_object KNetworkPolicy ns defaultDenyPolicyName no_policy, set_spec default_deny_spec),
          (new_object KNetworkPolicy ns allowedEgressPolicy no_policy, set_spec (allowed_egress_spec platformNamespace)),
          (new_object KRoleBinding ns backendRoleBindingName
             (BindingSpec \<lparr>rf_APIGroup = [], rf_Kind = [], rf_Name = []\<rparr> []), bind_role platformNamespace)])"

text \<open>The callback \<open>createOrUpdateOwned\<close> passes on: labels, owner, then \<open>mutate\<close>.\<close>

definition own_and_mutate :: "klib \<Rightarrow> UserEnvironment \<Rightarrow> nskey \<Rightarrow> (object \<Rightarrow> user_error + object) \<Rightarrow> object \<Rightarrow> user_error + object" where
  "own_and_mutate L environment key mutate obj =
     (let labelled = (ob_Meta obj)\<lparr>om_Labels := (om_Labels (ob_Meta obj))(managedByLabel \<mapsto> managedByValue,
            userLabel \<mapsto> us_UserID (ue_Spec environment))\<rparr>
      in case SetControllerReference L (ue_Meta environment) labelled of
           Inl e \<Rightarrow> Inl (PermanentError resourceConflictReason (type_name (ob_Kind obj) @ '' '' @ show_key key @
             '' cannot be owned by UserEnvironment '' @ om_Name (ue_Meta environment) @ '': '' @ ke_msg e))
         | Inr owned \<Rightarrow> mutate (obj\<lparr>ob_Meta := owned\<rparr>))"

definition createOrUpdateOwned :: "klib \<Rightarrow> user_api \<Rightarrow> UserEnvironment \<Rightarrow> object \<Rightarrow> (object \<Rightarrow> user_error + object) \<Rightarrow>
    user_error option user_prog" where
  "createOrUpdateOwned L A environment obj mutate = do {
     let key = object_key obj;
     g \<leftarrow> get_object A (ob_Kind obj) key;
     let checked = (case g of
         Inl e \<Rightarrow> if IsNotFound e then None
           else Some (api_wrap (''get '' @ type_name (ob_Kind obj) @ '' '' @ show_key key) e)
       | Inr existing \<Rightarrow> validateManagedObject existing (us_UserID (ue_Spec environment)));
     case checked of
       Some e \<Rightarrow> State_Monad.return (Some e)
     | None \<Rightarrow> do {
         r \<leftarrow> CreateOrUpdate A obj (own_and_mutate L environment key mutate);
         State_Monad.return (case r of
           Some (ApiError e) \<Rightarrow> Some (api_wrap (''reconcile '' @ type_name (ob_Kind obj) @ '' '' @ show_key key) e)
         | _ \<Rightarrow> r) } }"

fun ensure_objects :: "klib \<Rightarrow> user_api \<Rightarrow> UserEnvironment \<Rightarrow> (object \<times> (object \<Rightarrow> user_error + object)) list \<Rightarrow>
    user_error option user_prog" where
  "ensure_objects L A environment [] = State_Monad.return None"
| "ensure_objects L A environment ((obj, mutate) # rest) = do {
     r \<leftarrow> createOrUpdateOwned L A environment obj mutate;
     case r of Some e \<Rightarrow> State_Monad.return (Some e) | None \<Rightarrow> ensure_objects L A environment rest }"

definition ensureBaseline :: "klib \<Rightarrow> user_api \<Rightarrow> UserEnvironment \<Rightarrow> user_error option user_prog" where
  "ensureBaseline L A environment = ensure_objects L A environment (baseline L (ur_PlatformNamespace A) environment)"

section \<open>Status and the reconciler\<close>

definition desired_status :: "klib \<Rightarrow> int \<Rightarrow> UserEnvironmentPhase \<Rightarrow> string \<Rightarrow> string \<Rightarrow> UserEnvironmentStatus \<Rightarrow> UserEnvironmentStatus" where
  "desired_status L generation phase reason message status =
     status\<lparr>ut_Phase := phase, ut_ObservedGeneration := generation,
       ut_Conditions := SetStatusCondition L (ut_Conditions status)
         \<lparr>c_Type = readyConditionType,
          c_Status = (if phase = UserEnvironmentPhaseReady then ''True'' else ''False''),
          c_ObservedGeneration = generation, c_Reason = reason, c_Message = message\<rparr>\<rparr>"

definition update_status_once :: "klib \<Rightarrow> user_api \<Rightarrow> nskey \<Rightarrow> int \<Rightarrow> UserEnvironmentPhase \<Rightarrow> string \<Rightarrow> string \<Rightarrow>
    user_error option user_prog" where
  "update_status_once L A key expectedGeneration phase reason message = do {
     g \<leftarrow> get_environment A key;
     case g of
       Inl e \<Rightarrow> State_Monad.return (Some (api_wrap (''refresh UserEnvironment '' @ snd key @ '' before status update'') e))
     | Inr current \<Rightarrow>
         if om_Generation (ue_Meta current) \<noteq> expectedGeneration then State_Monad.return (Some GenerationChanged)
         else let desired = desired_status L (om_Generation (ue_Meta current)) phase reason message (ue_Status current) in
           if DeepEqual_env_status A (ue_Status current) desired then State_Monad.return None
           else do {
             u \<leftarrow> environment_status A (current\<lparr>ue_Status := desired\<rparr>);
             State_Monad.return (map_option (api_wrap (''update UserEnvironment '' @ snd key @ '' status'')) u) } }"

definition updateStatus :: "klib \<Rightarrow> user_api \<Rightarrow> nskey \<Rightarrow> int \<Rightarrow> UserEnvironmentPhase \<Rightarrow> string \<Rightarrow> string \<Rightarrow>
    user_error option user_prog" where
  "updateStatus L A key expectedGeneration phase reason message =
     retry_on user_conflict (retry_steps L) (update_status_once L A key expectedGeneration phase reason message)"

definition resultForStatusError :: "user_error \<Rightarrow> Result \<times> user_error option" where
  "resultForStatusError err = (if err = GenerationChanged then (requeue, None) else (done_result, Some err))"

text \<open>The branch of \<open>Reconcile\<close> after a failed \<open>ensureBaseline\<close>.\<close>

definition baseline_failed :: "klib \<Rightarrow> user_api \<Rightarrow> nskey \<Rightarrow> UserEnvironment \<Rightarrow> user_error \<Rightarrow>
    (Result \<times> user_error option) user_prog" where
  "baseline_failed L A key environment err = (case err of
     PermanentError reason message \<Rightarrow> do {
       u \<leftarrow> updateStatus L A key (om_Generation (ue_Meta environment)) UserEnvironmentPhaseFailed reason message;
       State_Monad.return (case u of Some e \<Rightarrow> resultForStatusError e | None \<Rightarrow> (requeue_after (60 * second), None)) }
   | _ \<Rightarrow> do {
       u \<leftarrow> updateStatus L A key (om_Generation (ue_Meta environment)) UserEnvironmentPhasePending ''ReconcileError''
         ''Could not prepare the user environment security baseline'';
       State_Monad.return (case u of
         Some e \<Rightarrow> if e = GenerationChanged then (requeue, None) else (done_result, Some (Joined err e))
       | None \<Rightarrow> (done_result, Some err)) })"

definition reconcile_baseline :: "klib \<Rightarrow> user_api \<Rightarrow> nskey \<Rightarrow> UserEnvironment \<Rightarrow> (Result \<times> user_error option) user_prog" where
  "reconcile_baseline L A key environment = do {
     b \<leftarrow> ensureBaseline L A environment;
     case b of
       Some err \<Rightarrow> baseline_failed L A key environment err
     | None \<Rightarrow> do {
         u \<leftarrow> updateStatus L A key (om_Generation (ue_Meta environment)) UserEnvironmentPhaseReady ''EnvironmentReady''
           ''User environment security baseline is ready'';
         State_Monad.return (case u of Some e \<Rightarrow> resultForStatusError e | None \<Rightarrow> (done_result, None)) } }"

definition env_Reconcile :: "klib \<Rightarrow> user_api \<Rightarrow> nskey \<Rightarrow> (Result \<times> user_error option) user_prog" where
  "env_Reconcile L A key = do {
     g \<leftarrow> get_environment A key;
     case g of
       Inl e \<Rightarrow> State_Monad.return (if IsNotFound e then (done_result, None)
         else (done_result, Some (api_wrap (''get UserEnvironment '' @ snd key) e)))
     | Inr environment \<Rightarrow> (case validateUserEnvironment L environment of
         Some message \<Rightarrow> do {
           u \<leftarrow> updateStatus L A key (om_Generation (ue_Meta environment)) UserEnvironmentPhaseFailed ''InvalidSpec'' message;
           State_Monad.return (case u of Some e \<Rightarrow> resultForStatusError e | None \<Rightarrow> (done_result, None)) }
       | None \<Rightarrow>
           if ut_Phase (ue_Status environment) = EnvPhaseUnset \<or>
             ut_ObservedGeneration (ue_Status environment) \<noteq> om_Generation (ue_Meta environment)
           then do {
             u \<leftarrow> updateStatus L A key (om_Generation (ue_Meta environment)) UserEnvironmentPhasePending ''Provisioning''
               ''User environment security baseline is being prepared'';
             case u of
               Some e \<Rightarrow> State_Monad.return (resultForStatusError e)
             | None \<Rightarrow> reconcile_baseline L A key environment }
           else reconcile_baseline L A key environment) }"

end
