(* ===== verification/User_Environment_Safety.thy ===== *)
theory User_Environment_Safety
  imports User_Environment Session_Safety
begin

text \<open>
  What a run of the user environment controller writes, whatever the API server answers: only objects of the
  baseline of the environment's own namespace, each after a check that it is absent or already managed for the user,
  and Ready only after every object of the baseline was in its desired state during the run.
\<close>

section \<open>What a run may do\<close>

text \<open>The object was checked in the run: it was absent, or managed for the user of the environment.\<close>

definition checked_in :: "UserEnvironment \<Rightarrow> object \<Rightarrow> user_event set \<Rightarrow> bool" where
  "checked_in env obj evs \<longleftrightarrow> (\<exists>g. EvGetObject (ob_Kind obj) (object_key obj) g \<in> evs \<and>
     (case g of Inl e \<Rightarrow> IsNotFound e | Inr existing \<Rightarrow> validateManagedObject existing (us_UserID (ue_Spec env)) = None))"

definition accepted :: "klib \<Rightarrow> nskey \<Rightarrow> UserEnvironment \<Rightarrow> user_event set \<Rightarrow> bool" where
  "accepted L key env evs \<longleftrightarrow> EvGetEnvironment key (Inr env) \<in> evs \<and> validateUserEnvironment L env = None"

definition written_ok :: "klib \<Rightarrow> user_api \<Rightarrow> nskey \<Rightarrow> user_event set \<Rightarrow> object \<Rightarrow> bool" where
  "written_ok L A key evs o1 \<longleftrightarrow> (\<exists>env obj mutate cur. accepted L key env evs \<and>
     (obj, mutate) \<in> set (baseline L (ur_PlatformNamespace A) env) \<and> checked_in env obj evs \<and>
     own_and_mutate L env (object_key obj) mutate cur = Inr o1 \<and>
     (cur = obj \<or> EvGetObject (ob_Kind obj) (object_key obj) (Inr cur) \<in> evs))"

definition baseline_seen :: "klib \<Rightarrow> user_api \<Rightarrow> nskey \<Rightarrow> UserEnvironment \<Rightarrow> user_event set \<Rightarrow> bool" where
  "baseline_seen L A key env evs \<longleftrightarrow> accepted L key env evs \<and>
     (\<forall>(obj, mutate)\<in>set (baseline L (ur_PlatformNamespace A) env).
        \<exists>ev\<in>evs. in_sync obj (own_and_mutate L env (object_key obj) mutate) ev)"

fun user_allowed :: "klib \<Rightarrow> user_api \<Rightarrow> nskey \<Rightarrow> nat \<Rightarrow> user_event list \<Rightarrow> user_event \<Rightarrow> bool" where
  "user_allowed L A key n t (EvCreateObject o1 x) = written_ok L A key (set (drop n t)) o1"
| "user_allowed L A key n t (EvUpdateObject o1 x) = written_ok L A key (set (drop n t)) o1"
| "user_allowed L A key n t (EvEnvironmentStatus env' x) =
     ((\<exists>t' cur. t = t' @ [EvGetEnvironment key (Inr cur)] \<and> ue_Meta env' = ue_Meta cur \<and> ue_Spec env' = ue_Spec cur) \<and>
      (ut_Phase (ue_Status env') = UserEnvironmentPhaseReady \<longrightarrow>
        (\<exists>env. baseline_seen L A key env (set (drop n t)) \<and> om_Generation (ue_Meta env) = om_Generation (ue_Meta env'))))"
| "user_allowed L A key n t _ = True"

definition extends :: "('e, 'm) world \<Rightarrow> ('e, 'm) world \<Rightarrow> bool" where
  "extends w v \<longleftrightarrow> (\<exists>es. w_trace v = w_trace w @ es)"

lemma extends_refl [simp]: "extends w w"
  by (simp add: extends_def)

lemma extends_trans: "extends w v \<Longrightarrow> extends v u \<Longrightarrow> extends w u"
  by (auto simp: extends_def)

lemma extends_events: "extends w v \<Longrightarrow> set (drop n (w_trace w)) \<subseteq> set (drop n (w_trace v))"
  by (auto simp: extends_def)

lemma extends_length: "extends w v \<Longrightarrow> n \<le> length (w_trace w) \<Longrightarrow> n \<le> length (w_trace v)"
  by (auto simp: extends_def)

lemma accepted_mono: "accepted L key env evs \<Longrightarrow> evs \<subseteq> evs' \<Longrightarrow> accepted L key env evs'"
  by (auto simp: accepted_def)

lemma baseline_seen_mono: "baseline_seen L A key env evs \<Longrightarrow> evs \<subseteq> evs' \<Longrightarrow> baseline_seen L A key env evs'"
  unfolding baseline_seen_def accepted_def split_beta by blast

section \<open>Runs\<close>

lemma runs_updateStatus:
  assumes "phase = UserEnvironmentPhaseReady \<Longrightarrow>
    \<exists>env. baseline_seen L A key env (set (drop n (w_trace w))) \<and> om_Generation (ue_Meta env) = gen"
  shows "runs (user_allowed L A key n) w (updateStatus L A key gen phase reason message) (\<lambda>_. extends w)"
proof -
  have "runs (user_allowed L A key n) v (update_status_once L A key gen phase reason message) (\<lambda>_ u. extends w u \<and> True)"
    if v: "extends w v" for v
  proof -
    have ready: "\<exists>env. baseline_seen L A key env (set (drop n (w_trace v)) \<union> X) \<and> om_Generation (ue_Meta env) = gen"
      if "phase = UserEnvironmentPhaseReady" for X
      using assms [OF that] baseline_seen_mono [OF _ subset_trans [OF extends_events [OF v] Un_upper1]] by blast
    have "extends w (v\<lparr>w_trace := w_trace v @ es\<rparr>)" for es using v by (auto simp: extends_def)
    then show ?thesis unfolding update_status_once_def user_call_defs Let_def
      using v ready by (intro runs_rules) (auto simp: desired_status_def)
  qed
  from runs_retry_on [where I = "extends w" and Q = "\<lambda>_ _. True", OF this, of w] show ?thesis
    by (simp add: updateStatus_def)
qed

lemma last_in_run:
  assumes "t = t' @ [e]" and "t = u @ es" and "n < length u"
  shows "e \<in> set (drop n t)"
proof -
  have "length t' + 1 = length u + length es" using assms(1,2) by (metis length_append length_append_singleton add.commute plus_1_eq_Suc)
  then have "n \<le> length t'" using assms(3) by simp
  then show ?thesis using assms(1) by simp
qed

lemma written_okI:
  assumes "accepted L key env evs" and "(obj, mutate) \<in> set (baseline L (ur_PlatformNamespace A) env)"
    and "checked_in env obj evs" and "own_and_mutate L env (object_key obj) mutate cur = Inr o1"
    and "cur = obj \<or> EvGetObject (ob_Kind obj) (object_key obj) (Inr cur) \<in> evs"
  shows "written_ok L A key evs o1"
  using assms unfolding written_ok_def by blast

text \<open>Every write of \<open>CreateOrUpdate\<close> is allowed once the object was checked.\<close>

lemma write_is_allowed:
  assumes "write_allowed obj (own_and_mutate L env (object_key obj) mutate) t e" and t: "t = u @ es" and len: "n < length u"
    and ok: "accepted L key env (set (drop n t))" "checked_in env obj (set (drop n t))"
    and obj: "(obj, mutate) \<in> set (baseline L (ur_PlatformNamespace A) env)"
  shows "user_allowed L A key n t e"
proof (cases e)
  case (EvCreateObject o1 x)
  then have "own_and_mutate L env (object_key obj) mutate obj = Inr o1" using assms(1) by simp
  from written_okI [OF ok(1) obj ok(2) this] show ?thesis by (simp add: EvCreateObject)
next
  case (EvUpdateObject o1 x)
  then obtain t' cur where "t = t' @ [EvGetObject (ob_Kind obj) (object_key obj) (Inr cur)]"
    and f: "own_and_mutate L env (object_key obj) mutate cur = Inr o1" using assms(1) by auto
  from last_in_run [OF this(1) t len] written_okI [OF ok(1) obj ok(2) f] show ?thesis
    unfolding EvUpdateObject user_allowed.simps by blast
qed (use assms(1) in auto)

lemma runs_createOrUpdateOwned:
  assumes C: "CreateOrUpdate_contract A" and n: "n \<le> length (w_trace w)"
    and env: "accepted L key env (set (drop n (w_trace w)))"
    and obj: "(obj, mutate) \<in> set (baseline L (ur_PlatformNamespace A) env)"
  shows "runs (user_allowed L A key n) w (createOrUpdateOwned L A env obj mutate)
    (\<lambda>r v. extends w v \<and> (r = None \<longrightarrow> (\<exists>ev\<in>set (drop n (w_trace v)).
       in_sync obj (own_and_mutate L env (object_key obj) mutate) ev)))"
proof -
  let ?f = "own_and_mutate L env (object_key obj) mutate"
  have main: "runs (user_allowed L A key n) u (CreateOrUpdate A obj ?f) (\<lambda>r v. extends w v \<and>
      (r = None \<longrightarrow> (\<exists>ev\<in>set (drop n (w_trace v)). in_sync obj ?f ev)))"
    if u: "w_trace u = w_trace w @ [EvGetObject (ob_Kind obj) (object_key obj) g]"
      and checked: "checked_in env obj {EvGetObject (ob_Kind obj) (object_key obj) g}" for u g
  proof -
    have "user_allowed L A key n t e" if "write_allowed obj ?f t e" and t: "t = w_trace u @ es" for t e es
    proof (rule write_is_allowed [OF that _ _ _ obj])
      have "set (drop n t) = set (drop n (w_trace w)) \<union> {EvGetObject (ob_Kind obj) (object_key obj) g} \<union> set es"
        using n u t by simp
      then show "accepted L key env (set (drop n t))" "checked_in env obj (set (drop n t))"
        using env checked by (auto simp: accepted_def checked_in_def)
      show "n < length (w_trace u)" using n u by simp
    qed
    moreover have "extends w (world_after (CreateOrUpdate A obj ?f) u)"
      using C u by (auto simp: CreateOrUpdate_contract_def extends_def dest!: spec [of _ obj] spec [of _ ?f] spec [of _ u] runs_trace)
    ultimately show ?thesis using C n u unfolding CreateOrUpdate_contract_def runs_def
      by (auto dest!: spec [of _ obj] spec [of _ ?f] spec [of _ u])
  qed
  have checked: "checked_in env obj {EvGetObject (ob_Kind obj) (object_key obj) g}"
    if "(case g of Inl e \<Rightarrow> if IsNotFound e then None else Some (h e)
       | Inr existing \<Rightarrow> validateManagedObject existing (us_UserID (ue_Spec env))) = None" for g h
    using that by (auto simp: checked_in_def split: sum.splits if_splits)
  show ?thesis unfolding createOrUpdateOwned_def Let_def get_object_def
    by (intro runs_bind runs_call runs_case_option runs_return runs_post [OF main])
      (auto simp: extends_def intro: checked split: option.splits user_error.splits)
qed

lemma runs_ensure_objects:
  assumes C: "CreateOrUpdate_contract A" and n: "n \<le> length (w_trace w)"
    and env: "accepted L key env (set (drop n (w_trace w)))"
    and "set objs \<subseteq> set (baseline L (ur_PlatformNamespace A) env)"
  shows "runs (user_allowed L A key n) w (ensure_objects L A env objs)
    (\<lambda>r v. extends w v \<and> (r = None \<longrightarrow> (\<forall>(obj, mutate)\<in>set objs. \<exists>ev\<in>set (drop n (w_trace v)).
       in_sync obj (own_and_mutate L env (object_key obj) mutate) ev)))"
  using n env assms(4)
proof (induction objs arbitrary: w)
  case Nil
  then show ?case by (simp add: runs_return)
next
  case (Cons o1 objs)
  obtain obj mutate where o1: "o1 = (obj, mutate)" by (cases o1)
  let ?synced = "\<lambda>obj mutate v. \<exists>ev\<in>set (drop n (w_trace v)). in_sync obj (own_and_mutate L env (object_key obj) mutate) ev"
  have first: "runs (user_allowed L A key n) w (createOrUpdateOwned L A env obj mutate)
      (\<lambda>r v. extends w v \<and> (r = None \<longrightarrow> ?synced obj mutate v))"
    using Cons.prems o1 by (intro runs_createOrUpdateOwned [OF C]) auto
  have rest: "runs (user_allowed L A key n) v (ensure_objects L A env objs)
      (\<lambda>r u. extends w u \<and> (r = None \<longrightarrow> (\<forall>(obj, mutate)\<in>set (o1 # objs). ?synced obj mutate u)))"
    if v: "extends w v" and s: "?synced obj mutate v" for v
  proof (rule runs_post [OF Cons.IH])
    show "n \<le> length (w_trace v)" using extends_length [OF v] Cons.prems(1) .
    show "accepted L key env (set (drop n (w_trace v)))" using accepted_mono [OF Cons.prems(2) extends_events [OF v]] .
    show "set objs \<subseteq> set (baseline L (ur_PlatformNamespace A) env)" using Cons.prems(3) by simp
    show "extends w u \<and> (r = None \<longrightarrow> (\<forall>(obj, mutate)\<in>set (o1 # objs). ?synced obj mutate u))"
      if "extends v u \<and> (r = None \<longrightarrow> (\<forall>(obj, mutate)\<in>set objs. ?synced obj mutate u))" for r u
      using that s extends_trans [OF v] extends_events [of v u n] by (auto simp: o1)
  qed
  show ?case unfolding o1 ensure_objects.simps
    by (intro runs_bind runs_post [OF first] runs_case_option runs_return) (use rest in \<open>auto simp: o1\<close>)
qed

lemma runs_baseline_failed: "runs (user_allowed L A key n) w (baseline_failed L A key env err) (\<lambda>_ _. True)"
  unfolding baseline_failed_def
  by (cases err) (auto intro!: runs_bind runs_return runs_post [OF runs_updateStatus])

lemma runs_reconcile_baseline:
  assumes C: "CreateOrUpdate_contract A" and n: "n \<le> length (w_trace w)"
    and env: "accepted L key env (set (drop n (w_trace w)))"
  shows "runs (user_allowed L A key n) w (reconcile_baseline L A key env) (\<lambda>_ _. True)"
proof -
  have first: "runs (user_allowed L A key n) w (ensureBaseline L A env)
      (\<lambda>r v. r = None \<longrightarrow> baseline_seen L A key env (set (drop n (w_trace v))))"
    unfolding ensureBaseline_def
    by (rule runs_post [OF runs_ensure_objects [OF C n env order_refl]])
      (auto simp: baseline_seen_def intro: accepted_mono [OF env] dest: extends_events)
  show ?thesis unfolding reconcile_baseline_def
    by (intro runs_bind runs_post [OF first] runs_case_option runs_return runs_post [OF runs_baseline_failed]
        runs_post [OF runs_updateStatus]) auto
qed

lemma runs_env_Reconcile:
  assumes C: "CreateOrUpdate_contract A"
  shows "runs (user_allowed L A key (length (w_trace w))) w (env_Reconcile L A key) (\<lambda>_ _. True)"
proof -
  let ?n = "length (w_trace w)"
  have body: "runs (user_allowed L A key ?n) v (reconcile_baseline L A key env) (\<lambda>_ _. True)"
    if "w_trace v = w_trace w @ EvGetEnvironment key (Inr env) # es" "validateUserEnvironment L env = None" for v env es
    using that by (intro runs_reconcile_baseline [OF C]) (auto simp: accepted_def)
  show ?thesis unfolding env_Reconcile_def get_environment_def
    by (intro runs_bind runs_call runs_case_sum runs_case_option runs_if runs_return runs_post [OF runs_updateStatus])
      (auto simp: extends_def intro!: body)
qed

section \<open>Properties\<close>

text \<open>
  The documented behaviour of \<open>controllerutil.SetControllerReference\<close>: it adds an owner reference and leaves labels and
  names alone.
\<close>

definition owner_contract :: "klib \<Rightarrow> bool" where
  "owner_contract L \<longleftrightarrow> (\<forall>owner m m'. SetControllerReference L owner m = Inr m' \<longrightarrow>
     om_Labels m' = om_Labels m \<and> om_Name m' = om_Name m \<and> om_Namespace m' = om_Namespace m)"

lemma baseline_mutate:
  assumes "(obj, mutate) \<in> set (baseline L ns env)" and "mutate x = Inr y"
  shows "ob_Meta y = ob_Meta x"
  using assms by (auto simp: baseline_def Let_def set_spec_def bind_role_def split: if_splits)

lemma own_and_mutate_labels:
  assumes "owner_contract L" and "(obj, mutate) \<in> set (baseline L ns env)" and "own_and_mutate L env key mutate cur = Inr o1"
  shows "sget (om_Labels (ob_Meta o1)) managedByLabel = managedByValue \<and>
    sget (om_Labels (ob_Meta o1)) userLabel = us_UserID (ue_Spec env)"
proof -
  obtain m where "SetControllerReference L (ue_Meta env) ((ob_Meta cur)\<lparr>om_Labels := (om_Labels (ob_Meta cur))(managedByLabel \<mapsto> managedByValue,
      userLabel \<mapsto> us_UserID (ue_Spec env))\<rparr>) = Inr m" and mut: "mutate (cur\<lparr>ob_Meta := m\<rparr>) = Inr o1"
    using assms(3) by (auto simp: own_and_mutate_def Let_def split: sum.splits)
  then have "om_Labels m = (om_Labels (ob_Meta cur))(managedByLabel \<mapsto> managedByValue, userLabel \<mapsto> us_UserID (ue_Spec env))"
    using assms(1) by (auto simp: owner_contract_def)
  with baseline_mutate [OF assms(2) mut] show ?thesis by (auto simp: sget_def managedByLabel_def userLabel_def)
qed

definition is_write :: "user_event \<Rightarrow> object \<Rightarrow> bool" where
  "is_write e o1 \<longleftrightarrow> (\<exists>x. e = EvCreateObject o1 x) \<or> (\<exists>x. e = EvUpdateObject o1 x)"


text \<open>A cluster that has none of the objects, and \<open>CreateOrUpdate\<close> against it.\<close>

definition sample_CreateOrUpdate :: "object \<Rightarrow> (object \<Rightarrow> user_error + object) \<Rightarrow> user_error option user_prog" where
  "sample_CreateOrUpdate obj f = do {
     _ \<leftarrow> call (\<lambda>t. Inl not_found) (EvGetObject (ob_Kind obj) (object_key obj));
     case f obj of
       Inl e \<Rightarrow> State_Monad.return (Some e)
     | Inr o1 \<Rightarrow> do { _ \<leftarrow> call (\<lambda>t. None) (EvCreateObject o1); State_Monad.return None } }"

definition sample_environment :: UserEnvironment where
  "sample_environment = \<lparr>
     ue_Meta = zero_ObjectMeta\<lparr>om_Name := ''usr-303132333435'', om_Labels := [managedByLabel \<mapsto> managedByValue, userLabel \<mapsto> sample_id]\<rparr>,
     ue_Spec = \<lparr>us_UserID = sample_id, us_Namespace = ''bosun-u-303132333435'', us_QuotaProfile = quotaProfileMVP\<rparr>,
     ue_Status = \<lparr>ut_Phase = UserEnvironmentPhasePending, ut_ObservedGeneration = 0, ut_Conditions = []\<rparr>\<rparr>"

definition sample_user_api :: user_api where
  "sample_user_api = \<lparr>ua_get_environment = (\<lambda>t k. Inr sample_environment), ua_status = (\<lambda>t e. None),
     ua_get_object = (\<lambda>t kind k. Inl not_found), DeepEqual_env_status = (=), CreateOrUpdate = sample_CreateOrUpdate,
     ur_PlatformNamespace = ''bosun-system''\<rparr>"

lemma sample_contracts: "CreateOrUpdate_contract sample_user_api" "owner_contract sample_lib"
proof -
  have "runs (write_allowed obj f) w (sample_CreateOrUpdate obj f)
    (\<lambda>r v. r = None \<longrightarrow> (\<exists>es. w_trace v = w_trace w @ es \<and> (\<exists>e\<in>set es. in_sync obj f e)))" for obj f and w :: user_world
    unfolding sample_CreateOrUpdate_def
    by (intro runs_bind runs_call runs_case_sum runs_return) (auto simp: in_sync_def not_found_def)
  then show "CreateOrUpdate_contract sample_user_api" by (simp add: CreateOrUpdate_contract_def sample_user_api_def)
  show "owner_contract sample_lib" by (simp add: owner_contract_def sample_lib_def)
qed

lemma sample_environment_valid: "validateUserEnvironment sample_lib sample_environment = None"
  by code_simp

lemma sample_owned:
  assumes "own_and_mutate sample_lib env (object_key obj) mutate obj = Inr o1"
  shows "result_of (createOrUpdateOwned sample_lib sample_user_api env obj mutate) w = None \<and>
    world_after (createOrUpdateOwned sample_lib sample_user_api env obj mutate) w = w\<lparr>w_trace := w_trace w @
      [EvGetObject (ob_Kind obj) (object_key obj) (Inl not_found), EvGetObject (ob_Kind obj) (object_key obj) (Inl not_found),
       EvCreateObject o1 None]\<rparr>"
  using assms by (simp add: createOrUpdateOwned_def Let_def get_object_def sample_user_api_def sample_CreateOrUpdate_def
      not_found_def)

lemma sample_mutates:
  assumes "(obj, mutate) \<in> set (baseline sample_lib ns env)"
  shows "\<exists>o1. own_and_mutate sample_lib env (object_key obj) mutate obj = Inr o1"
  using assms by (auto simp: baseline_def Let_def own_and_mutate_def sample_lib_def set_spec_def bind_role_def new_object_def
      zero_ObjectMeta_def)

lemma sample_ensure_objects:
  assumes "set objs \<subseteq> set (baseline sample_lib ns env)"
  shows "\<exists>es. result_of (ensure_objects sample_lib sample_user_api env objs) w = None \<and>
    world_after (ensure_objects sample_lib sample_user_api env objs) w = w\<lparr>w_trace := w_trace w @ es\<rparr> \<and>
    (objs \<noteq> [] \<longrightarrow> (\<exists>o1. EvCreateObject o1 None \<in> set es))"
  using assms
proof (induction objs arbitrary: w)
  case Nil
  then show ?case by (auto intro: exI [of _ "[]"])
next
  case (Cons o1 objs)
  obtain obj mutate where o1: "o1 = (obj, mutate)" by (cases o1)
  from Cons.prems sample_mutates [of obj mutate ns env] obtain o2 where
    "own_and_mutate sample_lib env (object_key obj) mutate obj = Inr o2" by (auto simp: o1)
  note first = sample_owned [OF this, of w]
  let ?v = "world_after (createOrUpdateOwned sample_lib sample_user_api env obj mutate) w"
  obtain es where "world_after (ensure_objects sample_lib sample_user_api env objs) ?v = ?v\<lparr>w_trace := w_trace ?v @ es\<rparr>"
    and "result_of (ensure_objects sample_lib sample_user_api env objs) ?v = None"
    using Cons.IH [of ?v] Cons.prems by auto
  with first show ?case by (auto simp: o1 intro!: exI [of _ "EvGetObject (ob_Kind obj) (object_key obj) (Inl not_found) #
    EvGetObject (ob_Kind obj) (object_key obj) (Inl not_found) # EvCreateObject o2 None # es"])
qed

abbreviation env_world :: user_world where
  "env_world \<equiv> \<lparr>w_trace = [], w_mem = ()\<rparr>"

abbreviation env_key :: nskey where
  "env_key \<equiv> ([], ''usr-303132333435'')"

text \<open>The run on this cluster: all objects are created and the environment is reported ready.\<close>

lemma sample_env_run:
  "\<exists>es env'. events_of (env_Reconcile sample_lib sample_user_api env_key) env_world =
      EvGetEnvironment env_key (Inr sample_environment) # es @
        [EvGetEnvironment env_key (Inr sample_environment), EvEnvironmentStatus env' None] \<and>
    (\<exists>o1. EvCreateObject o1 None \<in> set es) \<and> ut_Phase (ue_Status env') = UserEnvironmentPhaseReady"
proof -
  let ?w = "env_world\<lparr>w_trace := [EvGetEnvironment env_key (Inr sample_environment)]\<rparr>"
  let ?objs = "baseline sample_lib (ur_PlatformNamespace sample_user_api) sample_environment"
  have "?objs \<noteq> []" by (simp add: baseline_def Let_def)
  with sample_ensure_objects [of ?objs "ur_PlatformNamespace sample_user_api" sample_environment ?w]
  obtain es where es: "result_of (ensure_objects sample_lib sample_user_api sample_environment ?objs) ?w = None"
    "world_after (ensure_objects sample_lib sample_user_api sample_environment ?objs) ?w = ?w\<lparr>w_trace := w_trace ?w @ es\<rparr>"
    and created: "\<exists>o1. EvCreateObject o1 None \<in> set es" by auto
  have api: "ua_get_environment sample_user_api = (\<lambda>t k. Inr sample_environment)" "ua_status sample_user_api = (\<lambda>t e. None)"
    "DeepEqual_env_status sample_user_api = (=)" by (simp_all add: sample_user_api_def)
  have env: "ue_Status sample_environment = \<lparr>ut_Phase = UserEnvironmentPhasePending, ut_ObservedGeneration = 0, ut_Conditions = []\<rparr>"
    "om_Generation (ue_Meta sample_environment) = 0" by (simp_all add: sample_environment_def zero_ObjectMeta_def)
  have lib: "retry_steps sample_lib = Suc (Suc (Suc 0))" by (simp add: sample_lib_def numeral_3_eq_3)
  have "\<exists>env'. world_after (updateStatus sample_lib sample_user_api env_key 0 UserEnvironmentPhaseReady r m) v =
      v\<lparr>w_trace := w_trace v @ [EvGetEnvironment env_key (Inr sample_environment), EvEnvironmentStatus env' None]\<rparr> \<and>
      ut_Phase (ue_Status env') = UserEnvironmentPhaseReady" for r m v
    by (simp add: updateStatus_def lib update_status_once_def get_environment_def environment_status_def api env Let_def
        desired_status_def) (rule exI, rule conjI, rule refl, simp)
  from this [of "''EnvironmentReady''" "''User environment security baseline is ready''" "?w\<lparr>w_trace := w_trace ?w @ es\<rparr>"]
  show ?thesis using es created
    by (auto simp: env_Reconcile_def get_environment_def events_of_def api sample_environment_valid env reconcile_baseline_def
        ensureBaseline_def)
qed


text \<open>
  C16. An environment is reported Ready only when, in the same run, every object of its baseline was created, updated or found in the
  desired state, for the generation that is reported; and a status update changes nothing but the status of the object just read.
\<close>

theorem env_Reconcile_ready:
  assumes "CreateOrUpdate_contract A" and "events_of (env_Reconcile L A key) w = before @ EvEnvironmentStatus env' x # after"
  shows "(\<exists>cur. EvGetEnvironment key (Inr cur) \<in> set (w_trace w @ before) \<and> ue_Meta env' = ue_Meta cur \<and> ue_Spec env' = ue_Spec cur) \<and>
    (ut_Phase (ue_Status env') = UserEnvironmentPhaseReady \<longrightarrow>
      (\<exists>env. accepted L key env (set before) \<and> om_Generation (ue_Meta env) = om_Generation (ue_Meta env') \<and>
        (\<forall>(obj, mutate)\<in>set (baseline L (ur_PlatformNamespace A) env).
          \<exists>ev\<in>set before. in_sync obj (own_and_mutate L env (object_key obj) mutate) ev)))"
proof -
  have *: "user_allowed L A key (length (w_trace w)) (w_trace w @ before) (EvEnvironmentStatus env' x)"
    using runs_events [OF runs_env_Reconcile [OF assms(1)] assms(2)] .
  then obtain t' cur where "w_trace w @ before = t' @ [EvGetEnvironment key (Inr cur)]" "ue_Meta env' = ue_Meta cur"
    "ue_Spec env' = ue_Spec cur" by auto
  moreover from this(1) have "EvGetEnvironment key (Inr cur) \<in> set (w_trace w @ before)" by (metis in_set_conv_decomp)
  moreover have "\<exists>env. baseline_seen L A key env (set before) \<and> om_Generation (ue_Meta env) = om_Generation (ue_Meta env')"
    if "ut_Phase (ue_Status env') = UserEnvironmentPhaseReady" using * that by simp
  ultimately show ?thesis unfolding baseline_seen_def by blast
qed

theorem env_Reconcile_ready_witness:
  "\<exists>before env' after env. events_of (env_Reconcile sample_lib sample_user_api env_key) env_world =
       before @ EvEnvironmentStatus env' None # after \<and> accepted sample_lib env_key env (set before) \<and>
     (\<forall>(obj, mutate)\<in>set (baseline sample_lib (ur_PlatformNamespace sample_user_api) env).
        \<exists>ev\<in>set before. in_sync obj (own_and_mutate sample_lib env (object_key obj) mutate) ev)"
proof -
  obtain before env' where run: "events_of (env_Reconcile sample_lib sample_user_api env_key) env_world =
      before @ EvEnvironmentStatus env' None # []" and "ut_Phase (ue_Status env') = UserEnvironmentPhaseReady"
    using sample_env_run by (metis append.assoc append_Cons append_Nil)
  with env_Reconcile_ready [OF sample_contracts(1) run] show ?thesis by blast
qed

end
