(* ===== verification/Rate_Limiter.thy ===== *)
theory Rate_Limiter
  imports Prelude "HOL-Library.AList"
begin

text \<open>
  The fixed-window limiter of \<open>backend/internal/ratelimit/limiter.go\<close>. The map of windows is an association list
  with distinct keys; the mutex makes each operation atomic, so a run is a sequence of calls. The main theorem
  bounds the requests of a key that are let through in any interval of the length of the window.
\<close>

section \<open>Definitions\<close>

record limit_window =
  lw_count :: int
  lw_resetAt :: time

record Limiter =
  lm_limit :: int
  lm_window :: duration
  lm_capacity :: int
  lm_entries :: "(string \<times> limit_window) list"

definition limiter_New :: "int \<Rightarrow> duration \<Rightarrow> int \<Rightarrow> Limiter" where
  "limiter_New limit w capacity = \<lparr>lm_limit = limit, lm_window = w, lm_capacity = capacity, lm_entries = []\<rparr>"

definition evictExpired :: "time \<Rightarrow> Limiter \<Rightarrow> Limiter" where
  "evictExpired now l = l\<lparr>lm_entries := filter (\<lambda>(key, entry). now < lw_resetAt entry) (lm_entries l)\<rparr>"

definition limiter_Len :: "Limiter \<Rightarrow> int" where
  "limiter_Len l = int (length (lm_entries l))"

definition set_entry :: "string \<Rightarrow> limit_window \<Rightarrow> Limiter \<Rightarrow> Limiter" where
  "set_entry key entry l = l\<lparr>lm_entries := AList.update key entry (lm_entries l)\<rparr>"

definition Allow :: "string \<Rightarrow> time \<Rightarrow> Limiter \<Rightarrow> bool \<times> Limiter" where
  "Allow key now l = (case map_of (lm_entries l) key of
     Some entry \<Rightarrow>
       if \<not> now < lw_resetAt entry
       then (True, set_entry key \<lparr>lw_count = 1, lw_resetAt = now + lm_window l\<rparr> l)
       else if lw_count entry \<ge> lm_limit l then (False, l)
       else (True, set_entry key (entry\<lparr>lw_count := lw_count entry + 1\<rparr>) l)
   | None \<Rightarrow>
       let l' = (if limiter_Len l \<ge> lm_capacity l then evictExpired now l else l)
       in if limiter_Len l \<ge> lm_capacity l \<and> limiter_Len l' \<ge> lm_capacity l then (False, l')
          else (True, set_entry key \<lparr>lw_count = 1, lw_resetAt = now + lm_window l\<rparr> l'))"

definition Cleanup :: "time \<Rightarrow> Limiter \<Rightarrow> Limiter" where
  "Cleanup now l = evictExpired now l"

text \<open>A history: requests and cleanups in the order the mutex grants them.\<close>

datatype limiter_call = CallAllow string | CallCleanup

fun limiter_step :: "limiter_call \<Rightarrow> time \<Rightarrow> Limiter \<Rightarrow> bool \<times> Limiter" where
  "limiter_step (CallAllow key) now l = Allow key now l"
| "limiter_step CallCleanup now l = (False, Cleanup now l)"

fun limiter_run :: "(limiter_call \<times> time) list \<Rightarrow> Limiter \<Rightarrow> (string \<times> time) list \<times> Limiter" where
  "limiter_run [] l = ([], l)"
| "limiter_run ((c, now) # cs) l =
     (let (ok, l') = limiter_step c now l; (granted, l'') = limiter_run cs l'
      in ((case c of CallAllow key \<Rightarrow> if ok then [(key, now)] else [] | CallCleanup \<Rightarrow> []) @ granted, l''))"

section \<open>The bound on the number of keys\<close>

definition limiter_ok :: "Limiter \<Rightarrow> bool" where
  "limiter_ok l \<longleftrightarrow> distinct (map fst (lm_entries l)) \<and> limiter_Len l \<le> max (lm_capacity l) 0 \<and>
     (\<forall>(key, entry)\<in>set (lm_entries l). 1 \<le> lw_count entry \<and> lw_count entry \<le> max (lm_limit l) 1)"

lemma evictExpired_simps [simp]:
  "lm_limit (evictExpired now l) = lm_limit l" "lm_window (evictExpired now l) = lm_window l"
  "lm_capacity (evictExpired now l) = lm_capacity l"
  by (simp_all add: evictExpired_def)

lemma set_entry_simps [simp]:
  "lm_limit (set_entry key e l) = lm_limit l" "lm_window (set_entry key e l) = lm_window l"
  "lm_capacity (set_entry key e l) = lm_capacity l"
  "map_of (lm_entries (set_entry key e l)) = (map_of (lm_entries l))(key \<mapsto> e)"
  by (simp_all add: set_entry_def update_conv')

lemma length_update: "length (AList.update k v al) = (if k \<in> fst ` set al then length al else Suc (length al))"
  by (induction al) auto

lemma update_subset: "set (AList.update k v al) \<subseteq> insert (k, v) (set al)"
  by (induction al) auto

lemma set_entry_ok:
  assumes "limiter_ok l" and "1 \<le> lw_count e" and "lw_count e \<le> max (lm_limit l) 1"
    and "map_of (lm_entries l) key = None \<Longrightarrow> limiter_Len l < lm_capacity l"
  shows "limiter_ok (set_entry key e l)"
proof -
  have "length (AList.update key e (lm_entries l)) \<le> nat (max (lm_capacity l) 0)"
    using assms(1,4) by (auto simp: length_update limiter_ok_def limiter_Len_def map_of_eq_None_iff)
  moreover note update_subset [of key e "lm_entries l"]
  ultimately show ?thesis using assms(1,2,3)
    by (fastforce simp: limiter_ok_def limiter_Len_def set_entry_def distinct_update)
qed

lemma evictExpired_ok:
  assumes "limiter_ok l"
  shows "limiter_ok (evictExpired now l)"
proof -
  let ?old = "lm_entries l" and ?new = "lm_entries (evictExpired now l)"
  have "length ?new \<le> length ?old" "set ?new \<subseteq> set ?old" "distinct (map fst ?old) \<Longrightarrow> distinct (map fst ?new)"
    by (auto simp: evictExpired_def distinct_map_filter)
  with assms show ?thesis unfolding limiter_ok_def limiter_Len_def evictExpired_simps by auto
qed

lemma Allow_ok:
  assumes "limiter_ok l"
  shows "limiter_ok (snd (Allow key now l))"
proof (cases "map_of (lm_entries l) key")
  case None
  then have "map_of (lm_entries (evictExpired now l)) key = None"
    by (auto simp: evictExpired_def map_of_eq_None_iff)
  with None show ?thesis using assms evictExpired_ok [OF assms, of now]
    by (auto simp: Allow_def Let_def intro!: set_entry_ok)
next
  case (Some entry)
  then have "1 \<le> lw_count entry" using assms map_of_SomeD [OF Some] by (auto simp: limiter_ok_def)
  with Some show ?thesis using assms by (auto simp: Allow_def intro!: set_entry_ok)
qed

lemma limiter_run_ok: "limiter_ok l \<Longrightarrow> limiter_ok (snd (limiter_run cs l))"
proof (induction cs arbitrary: l)
  case (Cons c cs)
  obtain call now where c: "c = (call, now)" by (cases c)
  have "limiter_ok (snd (limiter_step call now l))"
    using Cons.prems by (cases call) (auto simp: Allow_ok Cleanup_def evictExpired_ok)
  from Cons.IH [OF this] show ?case by (simp add: c Let_def split_beta)
qed simp

text \<open>
  The memory of the limiter stays bounded: after any history it holds at most \<open>capacity\<close> keys, each once, with a count
  between 1 and the limit.
\<close>

theorem limiter_bounded:
  "limiter_ok (snd (limiter_run calls (limiter_New limit w capacity)))"
  by (rule limiter_run_ok) (simp add: limiter_ok_def limiter_New_def limiter_Len_def)

section \<open>The bound on the rate\<close>

definition count_in :: "time list \<Rightarrow> time \<Rightarrow> time \<Rightarrow> int" where
  "count_in g a b = int (length (filter (\<lambda>x. a \<le> x \<and> x < b) g))"

definition count_from :: "time list \<Rightarrow> time \<Rightarrow> int" where
  "count_from g a = int (length (filter (\<lambda>x. a \<le> x) g))"

lemma count_snoc [simp]:
  "count_in (g @ [x]) a b = count_in g a b + (if a \<le> x \<and> x < b then 1 else 0)"
  "count_from (g @ [x]) a = count_from g a + (if a \<le> x then 1 else 0)"
  "count_in [] a b = 0" "count_from [] a = 0"
  by (simp_all add: count_in_def count_from_def)

lemma length_filter_mono: "(\<And>x. x \<in> set xs \<Longrightarrow> P x \<Longrightarrow> Q x) \<Longrightarrow> length (filter P xs) \<le> length (filter Q xs)"
  by (induction xs) (auto intro: le_SucI)

lemma count_in_le_from: "a' \<le> a \<Longrightarrow> count_in g a b \<le> count_from g a'"
  unfolding count_in_def count_from_def of_nat_le_iff by (rule length_filter_mono) auto

lemma count_from_mono: "a' \<le> a \<Longrightarrow> count_from g a \<le> count_from g a'"
  unfolding count_from_def of_nat_le_iff by (rule length_filter_mono) auto

lemma count_in_split:
  assumes "a' \<le> a"
  shows "count_in g a b \<le> count_in g a' m + count_from g m"
proof -
  have "length (filter (\<lambda>x. a \<le> x \<and> x < b) g) \<le>
      length (filter (\<lambda>x. a' \<le> x \<and> x < m) g) + length (filter (\<lambda>x. m \<le> x) g)"
    using assms by (induction g) auto
  then show ?thesis by (simp add: count_in_def count_from_def)
qed

lemma count_from_zero: "(\<And>x. x \<in> set g \<Longrightarrow> x < a) \<Longrightarrow> count_from g a = 0"
  by (induction g) (force simp: count_from_def)+

text \<open>
  The requests of one key that were granted up to the time \<open>c\<close>, and the window the limiter holds for it: no interval of
  the length of the window has more than twice the limit of them.
\<close>

definition window_inv :: "duration \<Rightarrow> int \<Rightarrow> limit_window option \<Rightarrow> time list \<Rightarrow> time \<Rightarrow> bool" where
  "window_inv W n eo g c \<longleftrightarrow> (\<forall>t. count_in g t (t + W) \<le> 2 * n) \<and> (case eo of
     Some e \<Rightarrow> lw_resetAt e - W \<le> c \<and> (\<forall>x\<in>set g. x < lw_resetAt e) \<and>
       count_from g (lw_resetAt e - W) = lw_count e \<and> lw_count e \<le> n \<and>
       count_in g (lw_resetAt e - 2 * W) (lw_resetAt e - W) \<le> n
   | None \<Rightarrow> g = [] \<or> ((\<forall>x\<in>set g. x < c) \<and> count_from g (c - W) \<le> n))"

lemma window_inv_later: "window_inv W n eo g c \<Longrightarrow> c \<le> c' \<Longrightarrow> window_inv W n eo g c'"
  unfolding window_inv_def using count_from_mono [of "c - W" "c' - W" g]
  by (auto split: option.splits)

lemma window_inv_evict:
  assumes "window_inv W n (Some e) g c" and "lw_resetAt e \<le> now"
  shows "window_inv W n None g now"
  using assms count_from_mono [of "lw_resetAt e - W" "now - W" g] unfolding window_inv_def by auto

text \<open>A new window opens only when the old one is over.\<close>

lemma window_inv_open:
  assumes "window_inv W n None g now" and "0 < W" and "1 \<le> n"
  shows "window_inv W n (Some \<lparr>lw_count = 1, lw_resetAt = now + W\<rparr>) (g @ [now]) now"
proof -
  have past: "\<forall>x\<in>set g. x < now" and recent: "count_from g (now - W) \<le> n"
    using assms by (auto simp: window_inv_def)
  have "count_in (g @ [now]) t (t + W) \<le> 2 * n" for t
    using assms(1,3) recent count_in_le_from [of "now - W" t g "t + W"] by (auto simp: window_inv_def)
  moreover have "count_from (g @ [now]) now = 1" using past by (simp add: count_from_zero)
  moreover have "count_in (g @ [now]) (now - W) now \<le> n"
    using recent count_in_le_from [of "now - W" "now - W" g now] by simp
  ultimately show ?thesis using assms past by (auto simp: window_inv_def)
qed

lemma window_inv_count:
  assumes "window_inv W n (Some e) g c" and "c \<le> now" and "now < lw_resetAt e" and "lw_count e < n"
  shows "window_inv W n (Some (e\<lparr>lw_count := lw_count e + 1\<rparr>)) (g @ [now]) now"
proof -
  let ?s = "lw_resetAt e - W"
  have s: "?s \<le> now" "count_from g ?s = lw_count e" "count_in g (?s - W) ?s \<le> n"
    using assms by (auto simp: window_inv_def algebra_simps)
  have "count_in (g @ [now]) t (t + W) \<le> 2 * n" for t
    using assms(1,4) s count_in_split [of "?s - W" t g "t + W" ?s] by (auto simp: window_inv_def)
  then show ?thesis using assms s by (auto simp: window_inv_def algebra_simps)
qed

lemma map_of_evictExpired:
  assumes "limiter_ok l"
  shows "map_of (lm_entries (evictExpired now l)) key = (case map_of (lm_entries l) key of
     None \<Rightarrow> None | Some e \<Rightarrow> if now < lw_resetAt e then Some e else None)"
proof -
  have "distinct (map fst al) \<Longrightarrow> map_of (filter (\<lambda>(k, e). now < lw_resetAt e) al) key = (case map_of al key of
     None \<Rightarrow> None | Some e \<Rightarrow> if now < lw_resetAt e then Some e else None)" for al
    by (induction al) (auto simp: map_of_eq_None_iff image_iff split: option.splits if_splits)
  with assms show ?thesis by (auto simp: limiter_ok_def evictExpired_def)
qed

lemma window_inv_evictExpired:
  assumes "limiter_ok l" and "window_inv W n (map_of (lm_entries l) key) g c" and "c \<le> now"
  shows "window_inv W n (map_of (lm_entries (evictExpired now l)) key) g now"
  using assms window_inv_later [OF assms(2,3)]
  by (auto simp: map_of_evictExpired split: option.splits intro: window_inv_evict)

lemma window_inv_Allow:
  assumes ok: "limiter_ok l" and inv: "window_inv (lm_window l) (lm_limit l) (map_of (lm_entries l) key) g c"
    and c: "c \<le> now" and pos: "0 < lm_window l" "1 \<le> lm_limit l"
  shows "window_inv (lm_window l) (lm_limit l) (map_of (lm_entries (snd (Allow k now l))) key)
    (g @ (if k = key \<and> fst (Allow k now l) then [now] else [])) now"
proof (cases "map_of (lm_entries l) k")
  case None
  define l' where "l' = (if limiter_Len l \<ge> lm_capacity l then evictExpired now l else l)"
  have inv': "window_inv (lm_window l) (lm_limit l) (map_of (lm_entries l') key) g now"
    using window_inv_evictExpired [OF ok inv c] window_inv_later [OF inv c] by (simp add: l'_def)
  have "k = key \<Longrightarrow> map_of (lm_entries l') key = None"
    using None ok by (auto simp: l'_def map_of_evictExpired)
  with inv' have "k = key \<Longrightarrow> window_inv (lm_window l) (lm_limit l)
      (Some \<lparr>lw_count = 1, lw_resetAt = now + lm_window l\<rparr>) (g @ [now]) now"
    using window_inv_open [OF _ pos, of g now] by simp
  then show ?thesis using None inv' by (auto simp: Allow_def Let_def l'_def [symmetric])
next
  case (Some e)
  note later = window_inv_later [OF inv c]
  have "window_inv (lm_window l) (lm_limit l) (Some \<lparr>lw_count = 1, lw_resetAt = now + lm_window l\<rparr>) (g @ [now]) now"
    if "k = key" and "\<not> now < lw_resetAt e"
  proof (rule window_inv_open [OF _ pos])
    show "window_inv (lm_window l) (lm_limit l) None g now"
      using window_inv_evict [of _ _ e g c now] inv Some that by simp
  qed
  moreover have "window_inv (lm_window l) (lm_limit l) (Some (e\<lparr>lw_count := lw_count e + 1\<rparr>)) (g @ [now]) now"
    if "k = key" and "now < lw_resetAt e" and "lw_count e < lm_limit l"
    using window_inv_count [of _ _ e g c now] inv Some that c by simp
  ultimately show ?thesis using Some later by (auto simp: Allow_def)
qed

definition granted_to :: "string \<Rightarrow> (string \<times> time) list \<Rightarrow> time list" where
  "granted_to key granted = map snd (filter (\<lambda>(k, t). k = key) granted)"

lemma Allow_simps [simp]: "lm_window (snd (Allow k now l)) = lm_window l" "lm_limit (snd (Allow k now l)) = lm_limit l"
  by (auto simp: Allow_def Let_def split: option.splits)

lemma limiter_step_simps [simp]:
  "lm_window (snd (limiter_step call now l)) = lm_window l" "lm_limit (snd (limiter_step call now l)) = lm_limit l"
  by (cases call; simp add: Cleanup_def)+

lemma limiter_run_rate:
  assumes "limiter_ok l" and "window_inv (lm_window l) (lm_limit l) (map_of (lm_entries l) key) g c"
    and "sorted (c # map snd calls)" and "0 < lm_window l" and "1 \<le> lm_limit l"
  shows "count_in (g @ granted_to key (fst (limiter_run calls l))) t (t + lm_window l) \<le> 2 * lm_limit l"
  using assms
proof (induction calls arbitrary: l g c)
  case Nil
  then show ?case by (simp add: granted_to_def window_inv_def)
next
  case (Cons x calls)
  obtain call now where x: "x = (call, now)" by (cases x)
  let ?l = "snd (limiter_step call now l)"
  let ?g = "g @ (if call = CallAllow key \<and> fst (limiter_step call now l) then [now] else [])"
  have ok: "limiter_ok ?l" using Cons.prems(1) by (cases call) (auto simp: Allow_ok Cleanup_def evictExpired_ok)
  have "c \<le> now" using Cons.prems(3) by (simp add: x)
  then have inv: "window_inv (lm_window ?l) (lm_limit ?l) (map_of (lm_entries ?l) key) ?g now"
  proof (cases call)
    case (CallAllow k)
    then show ?thesis using window_inv_Allow [OF Cons.prems(1,2) \<open>c \<le> now\<close> Cons.prems(4,5), of k] by simp
  next
    case CallCleanup
    then show ?thesis using window_inv_evictExpired [OF Cons.prems(1,2) \<open>c \<le> now\<close>] by (simp add: Cleanup_def)
  qed
  have "g @ granted_to key (fst (limiter_run (x # calls) l)) = ?g @ granted_to key (fst (limiter_run calls ?l))"
    by (auto simp: x Let_def split_beta granted_to_def split: limiter_call.split)
  moreover have "count_in (?g @ granted_to key (fst (limiter_run calls ?l))) t (t + lm_window ?l) \<le> 2 * lm_limit ?l"
    using Cons.prems by (intro Cons.IH [OF ok inv]) (simp_all add: x)
  ultimately show ?case by simp
qed

text \<open>
  The limiter limits: in any history with a clock that does not go back, every key, and every interval of the length of
  the window, at most twice the limit of the requests of the key in the interval are allowed, however requests
  of other keys, evictions and cleanups fall.
\<close>

lemma limiter_rate:
  assumes "sorted (map snd calls)" and "0 < w" and "1 \<le> limit"
  shows "count_in (granted_to key (fst (limiter_run calls (limiter_New limit w capacity)))) t (t + w) \<le> 2 * limit"
proof -
  let ?l = "limiter_New limit w capacity"
  have l: "limiter_ok ?l" "lm_window ?l = w" "lm_limit ?l = limit" "lm_entries ?l = []"
    by (simp_all add: limiter_New_def limiter_ok_def limiter_Len_def)
  define c where "c = (case calls of [] \<Rightarrow> 0 | (call, now) # _ \<Rightarrow> now)"
  have "sorted (c # map snd calls)" using assms(1) by (cases calls) (auto simp: c_def)
  moreover have "window_inv (lm_window ?l) (lm_limit ?l) (map_of (lm_entries ?l) key) [] c"
    using assms by (simp add: l window_inv_def)
  ultimately show ?thesis using limiter_run_rate [OF l(1), of key "[]" c calls t] assms by (simp add: l)
qed

end
