(* ===== verification/Go_Encoding.thy ===== *)
theory Go_Encoding
  imports Go_Strings
begin

text \<open>
  Encodings of Go's standard library that the backend uses: UTF-8, unpadded base64 (\<open>base64.RawStdEncoding\<close> and
  \<open>base64.RawURLEncoding\<close>, whose decoders skip line breaks and ignore the unused bits of the last character),
  \<open>strings.Split\<close> at a byte, and \<open>fmt.Sscanf\<close> with literal text and \<open>%d\<close>.
\<close>

section \<open>Base64\<close>

definition nat_of_byte :: "char \<Rightarrow> nat" where
  "nat_of_byte c = of_char c"

definition byte_of :: "nat \<Rightarrow> char" where
  "byte_of n = char_of n"

lemma nat_of_byte_less [simp]: "nat_of_byte c < 256"
  by (simp add: nat_of_byte_def)

lemma byte_of_nat_of_byte [simp]: "byte_of (nat_of_byte c) = c"
  by (simp add: nat_of_byte_def byte_of_def)

text \<open>The alphabets differ in their last two characters.\<close>

definition encode_char :: "char \<times> char \<Rightarrow> nat \<Rightarrow> char" where
  "encode_char ab n =
     (if n < 26 then char_of (65 + n) else if n < 52 then char_of (71 + n) else if n < 62 then char_of (n - 4)
      else if n = 62 then fst ab else snd ab)"

definition decode_char :: "char \<times> char \<Rightarrow> char \<Rightarrow> nat option" where
  "decode_char ab c =
     (let n = nat_of_byte c
      in if 65 \<le> n \<and> n \<le> 90 then Some (n - 65) else if 97 \<le> n \<and> n \<le> 122 then Some (n - 71)
         else if 48 \<le> n \<and> n \<le> 57 then Some (n + 4) else if c = fst ab then Some 62 else if c = snd ab then Some 63 else None)"

definition std_tail :: "char \<times> char" where
  "std_tail = (CHR ''+'', CHR ''/'')"

definition url_tail :: "char \<times> char" where
  "url_tail = (CHR ''-'', CHR ''_'')"

fun base64_encode :: "char \<times> char \<Rightarrow> string \<Rightarrow> string" where
  "base64_encode ab (a # b # c # s) =
     (let n = nat_of_byte a * 65536 + nat_of_byte b * 256 + nat_of_byte c
      in encode_char ab (n div 262144) # encode_char ab (n div 4096 mod 64) # encode_char ab (n div 64 mod 64) #
         encode_char ab (n mod 64) # base64_encode ab s)"
| "base64_encode ab [a, b] =
     (let n = nat_of_byte a * 256 + nat_of_byte b
      in [encode_char ab (n div 1024), encode_char ab (n div 16 mod 64), encode_char ab (n mod 16 * 4)])"
| "base64_encode ab [a] = [encode_char ab (nat_of_byte a div 4), encode_char ab (nat_of_byte a mod 4 * 16)]"
| "base64_encode ab [] = []"

fun base64_groups :: "nat list \<Rightarrow> string option" where
  "base64_groups (a # b # c # d # s) =
     (let n = a * 262144 + b * 4096 + c * 64 + d
      in map_option (\<lambda>r. byte_of (n div 65536) # byte_of (n div 256 mod 256) # byte_of (n mod 256) # r) (base64_groups s))"
| "base64_groups [a, b, c] = (let n = a * 1024 + b * 16 + c div 4 in Some [byte_of (n div 256), byte_of (n mod 256)])"
| "base64_groups [a, b] = Some [byte_of (a * 4 + b div 16)]"
| "base64_groups [a] = None"
| "base64_groups [] = Some []"

definition decode_chars :: "char \<times> char \<Rightarrow> string \<Rightarrow> nat list option" where
  "decode_chars ab s = those (map (decode_char ab) (filter (\<lambda>c. c \<noteq> CHR 0x0A \<and> c \<noteq> CHR 0x0D) s))"

definition base64_decode :: "char \<times> char \<Rightarrow> string \<Rightarrow> string option" where
  "base64_decode ab s = Option.bind (decode_chars ab s) base64_groups"

definition good_tail :: "char \<times> char \<Rightarrow> bool" where
  "good_tail ab \<longleftrightarrow> decode_char ab (fst ab) = Some 62 \<and> decode_char ab (snd ab) = Some 63 \<and>
     fst ab \<noteq> CHR 0x0A \<and> fst ab \<noteq> CHR 0x0D \<and> snd ab \<noteq> CHR 0x0A \<and> snd ab \<noteq> CHR 0x0D"

lemma good_tails [simp]: "good_tail std_tail" "good_tail url_tail"
  by code_simp+

lemma decode_encode_char:
  assumes "good_tail ab" and "n < 64"
  shows "decode_char ab (encode_char ab n) = Some n"
proof -
  have "decode_char ab (char_of (65 + n)) = Some n" if "n < 26"
    using that by (simp add: decode_char_def nat_of_byte_def Let_def)
  moreover have "decode_char ab (char_of (71 + n)) = Some n" if "26 \<le> n" "n < 52"
    using that by (simp add: decode_char_def nat_of_byte_def Let_def)
  moreover have "decode_char ab (char_of (n - 4)) = Some n" if "52 \<le> n" "n < 62"
    using that by (simp add: decode_char_def nat_of_byte_def Let_def) linarith
  moreover have "n = 62 \<or> n = 63" if "\<not> n < 62" using that assms(2) by auto
  ultimately show ?thesis using assms by (auto simp: encode_char_def good_tail_def not_less)
qed

lemma encode_char_no_break:
  assumes "good_tail ab" and "n < 64"
  shows "encode_char ab n \<noteq> CHR 0x0A \<and> encode_char ab n \<noteq> CHR 0x0D"
proof -
  have "decode_char ab (CHR 0x0A) \<noteq> Some n \<or> n = 62 \<or> n = 63" for n by (auto simp: decode_char_def Let_def nat_of_byte_def)
  with assms decode_encode_char [OF assms] show ?thesis
    by (auto simp: decode_char_def Let_def nat_of_byte_def good_tail_def split: if_splits)
qed

lemma decode_chars_Cons:
  assumes "good_tail ab" and "n < 64"
  shows "decode_chars ab (encode_char ab n # s) = map_option (\<lambda>ns. n # ns) (decode_chars ab s)"
  using encode_char_no_break [OF assms] by (simp add: decode_chars_def decode_encode_char [OF assms])

lemma decode_chars_Nil [simp]: "decode_chars ab [] = Some []"
  by (simp add: decode_chars_def)

lemma sixbits:
  fixes a b c :: nat
  assumes "a < 256" "b < 256" "c < 256"
  defines "n \<equiv> a * 65536 + b * 256 + c"
  shows "n div 262144 < 64" and "n div 262144 * 262144 + n div 4096 mod 64 * 4096 + n div 64 mod 64 * 64 + n mod 64 = n"
    and "n div 65536 = a" and "n div 256 mod 256 = b" and "n mod 256 = c"
proof -
  show "n div 262144 < 64" "n div 65536 = a" using assms by simp_all
  have n: "n = (a * 256 + b) * 256 + c" by (simp add: n_def)
  then show "n mod 256 = c" using assms(3) by (simp only: mod_mult_self3) simp
  have "n div 256 = a * 256 + b" using n assms(3) by simp
  then show "n div 256 mod 256 = b" using assms by simp
  have "n div 64 div 64 = n div 4096" "n div 4096 div 64 = n div 262144" by (simp_all add: div_mult2_eq [symmetric])
  moreover have "n = n div 64 * 64 + n mod 64" "n div 64 = n div 64 div 64 * 64 + n div 64 mod 64"
    "n div 4096 = n div 4096 div 64 * 64 + n div 4096 mod 64" by (simp_all only: div_mult_mod_eq)
  ultimately show "n div 262144 * 262144 + n div 4096 mod 64 * 4096 + n div 64 mod 64 * 64 + n mod 64 = n" by linarith
qed

lemma base64_groups_encode:
  assumes "good_tail ab"
  shows "Option.bind (decode_chars ab (base64_encode ab s)) base64_groups = Some s"
  using assms
proof (induction ab s rule: base64_encode.induct)
  case (1 ab a b c s)
  note bits = sixbits [of "nat_of_byte a" "nat_of_byte b" "nat_of_byte c", OF nat_of_byte_less nat_of_byte_less nat_of_byte_less]
  from 1 obtain ns where ns: "decode_chars ab (base64_encode ab s) = Some ns" "base64_groups ns = Some s"
    by (auto simp: bind_eq_Some_conv)
  show ?case using 1(2) bits ns by (simp add: Let_def decode_chars_Cons)
next
  case (2 ab a b)
  let ?n = "nat_of_byte a * 256 + nat_of_byte b"
  have n: "?n < 65536" using nat_of_byte_less [of a] nat_of_byte_less [of b] by linarith
  have "?n div 1024 * 1024 + ?n div 16 mod 64 * 16 + ?n mod 16 = ?n"
  proof -
    have "?n div 16 div 64 = ?n div 1024" by (simp add: div_mult2_eq [symmetric])
    moreover have "?n = ?n div 16 * 16 + ?n mod 16" "?n div 16 = ?n div 16 div 64 * 64 + ?n div 16 mod 64"
      by (simp_all only: div_mult_mod_eq)
    ultimately show ?thesis by linarith
  qed
  moreover have "?n div 256 = nat_of_byte a" "?n mod 256 = nat_of_byte b" by simp_all
  ultimately show ?case using 2 n by (simp add: Let_def decode_chars_Cons)
next
  case (3 ab a)
  have "nat_of_byte a div 4 < 64" "nat_of_byte a mod 4 * 16 < 64" using nat_of_byte_less [of a] by linarith+
  with 3 show ?case by (simp add: Let_def decode_chars_Cons)
qed simp

lemma base64_roundtrip: "good_tail ab \<Longrightarrow> base64_decode ab (base64_encode ab s) = Some s"
  by (simp add: base64_decode_def base64_groups_encode)

lemma base64_encode_chars:
  "good_tail ab \<Longrightarrow> c \<in> set (base64_encode ab s) \<Longrightarrow> c \<in> encode_char ab ` {..<64}"
proof (induction ab s rule: base64_encode.induct)
  case (1 ab a b c' s)
  then show ?case using sixbits(1) [of "nat_of_byte a" "nat_of_byte b" "nat_of_byte c'"]
    by (auto simp: Let_def intro!: imageI)
next
  case (2 ab a b)
  have "(nat_of_byte a * 256 + nat_of_byte b) div 1024 < 64" using nat_of_byte_less [of a] nat_of_byte_less [of b] by linarith
  with 2 show ?case by (auto simp: Let_def intro!: imageI)
next
  case (3 ab a)
  have "nat_of_byte a div 4 < 64" using nat_of_byte_less [of a] by linarith
  with 3 show ?case by (auto intro!: imageI)
qed simp

section \<open>UTF-8\<close>

text \<open>The number of bytes of the character at the front of a byte string, or 0 when the encoding is not valid.\<close>

definition in_range :: "nat \<Rightarrow> nat \<Rightarrow> char \<Rightarrow> bool" where
  "in_range a b c \<longleftrightarrow> a \<le> (of_char c :: nat) \<and> (of_char c :: nat) \<le> b"

definition cont :: "char \<Rightarrow> bool" where
  "cont c = in_range 0x80 0xBF c"

fun rune_width :: "string \<Rightarrow> nat" where
  "rune_width [] = 0"
| "rune_width (a # s) =
     (if in_range 0 0x7F a then 1
      else if in_range 0xC2 0xDF a then (case s of b # _ \<Rightarrow> if cont b then 2 else 0 | _ \<Rightarrow> 0)
      else if in_range 0xE0 0xEF a then (case s of b # c # _ \<Rightarrow>
        if (if a = CHR 0xE0 then in_range 0xA0 0xBF b else if a = CHR 0xED then in_range 0x80 0x9F b else cont b) \<and> cont c
        then 3 else 0 | _ \<Rightarrow> 0)
      else if in_range 0xF0 0xF4 a then (case s of b # c # d # _ \<Rightarrow>
        if (if a = CHR 0xF0 then in_range 0x90 0xBF b else if a = CHR 0xF4 then in_range 0x80 0x8F b else cont b) \<and> cont c \<and> cont d
        then 4 else 0 | _ \<Rightarrow> 0)
      else 0)"

text \<open>\<open>utf8.ValidString\<close> and \<open>utf8.RuneCountInString\<close>, which counts each byte that is not part of a character.\<close>

function ValidString :: "string \<Rightarrow> bool" where
  "ValidString s = (if s = [] then True else if rune_width s = 0 then False else ValidString (drop (rune_width s) s))"
  by pat_completeness auto
termination by (relation "measure length") auto

function RuneCountInString :: "string \<Rightarrow> nat" where
  "RuneCountInString s = (if s = [] then 0 else Suc (RuneCountInString (drop (max (rune_width s) 1) s)))"
  by pat_completeness auto
termination by (relation "measure length") auto

declare ValidString.simps [simp del] RuneCountInString.simps [simp del]

lemma rune_width_ascii: "in_range 0 0x7F c \<Longrightarrow> rune_width (c # s) = 1"
  by simp

lemma ValidString_ascii: "(\<And>c. c \<in> set s \<Longrightarrow> in_range 0 0x7F c) \<Longrightarrow> ValidString s"
proof (induction s)
  case (Cons c s)
  then have "ValidString s" "rune_width (c # s) = 1" by (auto intro: rune_width_ascii)
  then show ?case by (subst ValidString.simps) simp
qed (simp add: ValidString.simps)

definition ascii_tail :: "char \<times> char \<Rightarrow> bool" where
  "ascii_tail ab \<longleftrightarrow> in_range 0 0x7F (fst ab) \<and> in_range 0 0x7F (snd ab)"

lemma encode_char_ascii: "ascii_tail ab \<Longrightarrow> n < 64 \<Longrightarrow> in_range 0 0x7F (encode_char ab n)"
  by (auto simp: encode_char_def ascii_tail_def in_range_def)

lemma ValidString_base64:
  assumes "good_tail ab" and "ascii_tail ab"
  shows "ValidString (base64_encode ab s)"
proof (rule ValidString_ascii)
  fix c
  assume "c \<in> set (base64_encode ab s)"
  then show "in_range 0 0x7F c" using base64_encode_chars [OF assms(1)] encode_char_ascii [OF assms(2)] by blast
qed

section \<open>Splitting\<close>

text \<open>\<open>strings.Split(s, sep)\<close> for a separator of one byte.\<close>

fun Split :: "char \<Rightarrow> string \<Rightarrow> string list" where
  "Split sep [] = [[]]"
| "Split sep (c # s) = (if c = sep then [] # Split sep s else (c # hd (Split sep s)) # List.tl (Split sep s))"

lemma Split_nonempty [simp]: "Split sep s \<noteq> []"
  by (induction s) auto

lemma Split_no_sep: "sep \<notin> set s \<Longrightarrow> Split sep s = [s]"
  by (induction s) auto

lemma Split_append: "sep \<notin> set s \<Longrightarrow> Split sep (s @ sep # r) = s # Split sep r"
  by (induction s) auto

lemma Split_six:
  assumes "sep \<notin> set a" "sep \<notin> set b" "sep \<notin> set c" "sep \<notin> set d" "sep \<notin> set e" "sep \<notin> set f"
  shows "Split sep (a @ sep # b @ sep # c @ sep # d @ sep # e @ sep # f) = [a, b, c, d, e, f]"
  using assms by (simp add: Split_append Split_no_sep)

section \<open>Scanning\<close>

text \<open>\<open>SkipSpace\<close> of \<open>fmt.Sscanf\<close>, where a line break is an error.\<close>

function skip_space :: "string \<Rightarrow> string option" where
  "skip_space s =
     (if HasPrefix s [CHR 0x0A] \<or> HasPrefix s [CHR 0x0D, CHR 0x0A] then None
      else if s = [] \<or> lead_space space_seqs s = 0 then Some s
      else skip_space (drop (lead_space space_seqs s) s))"
  by pat_completeness auto
termination by (relation "measure length") auto

declare skip_space.simps [simp del]

text \<open>A literal text and a number: \<open>%d\<close> for an \<open>int\<close>, and for an unsigned integer of the given width.\<close>

definition scan_digits :: "string \<Rightarrow> (int \<times> string) option" where
  "scan_digits s = (let ds = takeWhile is_digit s in if ds = [] then None else Some (digits_val ds, dropWhile is_digit s))"

definition scan_uint :: "nat \<Rightarrow> string \<Rightarrow> (int \<times> string) option" where
  "scan_uint bits s = Option.bind (skip_space s) (\<lambda>s'. case scan_digits s' of
     None \<Rightarrow> None | Some (v, rest) \<Rightarrow> if v < 2 ^ bits then Some (v, rest) else None)"

definition scan_int :: "string \<Rightarrow> (int \<times> string) option" where
  "scan_int s = Option.bind (skip_space s) (\<lambda>s'.
     let neg = HasPrefix s' ''-''; s'' = (if neg \<or> HasPrefix s' ''+'' then drop 1 s' else s')
     in case scan_digits s'' of
          None \<Rightarrow> None
        | Some (v, rest) \<Rightarrow> let n = (if neg then - v else v) in if - (2 ^ 63) \<le> n \<and> n < 2 ^ 63 then Some (n, rest) else None)"

definition Sscanf_int :: "string \<Rightarrow> string \<Rightarrow> (int \<times> string) option" where
  "Sscanf_int text s = (if HasPrefix s text then scan_int (drop (length text) s) else None)"

fun Sscanf_uints :: "(string \<times> nat) list \<Rightarrow> string \<Rightarrow> int list option" where
  "Sscanf_uints [] s = Some []"
| "Sscanf_uints ((text, bits) # fields) s =
     (if HasPrefix s text then (case scan_uint bits (drop (length text) s) of
        None \<Rightarrow> None | Some (v, rest) \<Rightarrow> map_option (\<lambda>vs. v # vs) (Sscanf_uints fields rest))
      else None)"

lemma skip_space_digit: "is_digit c \<Longrightarrow> skip_space (c # s) = Some (c # s)"
proof -
  assume "is_digit c"
  then have c: "48 \<le> (of_char c :: nat)" "(of_char c :: nat) \<le> 57" by (simp_all add: is_digit_def)
  have "\<not> HasPrefix (c # s) q" if "q \<in> set space_seqs" for q
    using that c by (auto simp: space_seqs_def HasPrefix_def)
  then have "lead_space space_seqs (c # s) = 0" by (auto simp: lead_space_def find_None_iff split: option.split dest!: find_Some_iff [THEN iffD1])
  moreover have "c \<noteq> CHR 0x0A" "c \<noteq> CHR 0x0D" using c by auto
  ultimately show ?thesis by (subst skip_space.simps) (simp add: HasPrefix_def)
qed

lemma show_nat_Cons: "\<exists>c s. show_nat n = c # s \<and> is_digit c"
  using show_nat_digits [of n] by (cases "show_nat n") auto

lemma scan_digits_show:
  assumes "rest = [] \<or> \<not> is_digit (hd rest)"
  shows "scan_digits (show_nat n @ rest) = Some (int n, rest)"
proof -
  have all: "\<And>c. c \<in> set (show_nat n) \<Longrightarrow> is_digit c" and ne: "show_nat n \<noteq> []"
    using show_nat_digits [of n] by (auto simp: list_all_iff)
  have "takeWhile is_digit (show_nat n @ rest) = show_nat n @ takeWhile is_digit rest"
    "dropWhile is_digit (show_nat n @ rest) = dropWhile is_digit rest" using all by simp_all
  moreover have "takeWhile is_digit rest = []" "dropWhile is_digit rest = rest" using assms by (cases rest; simp)+
  ultimately show ?thesis using ne by (simp add: scan_digits_def digits_val_show)
qed

lemma scan_uint_show:
  assumes "int n < 2 ^ bits" and "rest = [] \<or> \<not> is_digit (hd rest)"
  shows "scan_uint bits (show_nat n @ rest) = Some (int n, rest)"
proof -
  obtain c s where "show_nat n = c # s" "is_digit c" using show_nat_Cons by blast
  then have "skip_space (show_nat n @ rest) = Some (show_nat n @ rest)" by (simp add: skip_space_digit)
  then show ?thesis using assms(1) by (simp add: scan_uint_def scan_digits_show [OF assms(2)])
qed

lemma scan_int_show:
  assumes "int n < 2 ^ 63" and "rest = [] \<or> \<not> is_digit (hd rest)"
  shows "scan_int (show_nat n @ rest) = Some (int n, rest)"
proof -
  obtain c s where c: "show_nat n = c # s" "is_digit c" using show_nat_Cons by blast
  then have "skip_space (show_nat n @ rest) = Some (show_nat n @ rest)" by (simp add: skip_space_digit)
  moreover have "\<not> HasPrefix (show_nat n @ rest) ''-''" "\<not> HasPrefix (show_nat n @ rest) ''+''"
    using c is_digit_sign [of c] by (simp_all add: HasPrefix_def)
  ultimately show ?thesis using assms(1) by (simp add: scan_int_def scan_digits_show [OF assms(2)])
qed

end
