(* ===== verification/Database.thy ===== *)
theory Database
  imports Effects Kube_World Go_Encoding
begin

text \<open>
  The PostgreSQL database of the backend. The tables have the columns of \<open>backend/internal/database/sqlc/models.go\<close> and the
  constraints of \<open>backend/db/migrations\<close>; every query of \<open>backend/internal/database/sqlc\<close> is a function on the
  tables. A transaction runs at one instant, at which other clients have left the tables in some state; any of its
  statements may fail, which rolls it back, and the answer to a commit may get lost after it took effect.
\<close>

section \<open>Tables\<close>

type_synonym uuid = string
type_synonym bytes = string

record BosunUser =
  bu_ID :: uuid
  bu_Email :: string
  bu_PasswordHash :: string
  bu_CreatedAt :: time
  bu_DisabledAt :: "time option"

record BosunRefreshToken =
  rt_ID :: uuid
  rt_UserID :: uuid
  rt_FamilyID :: uuid
  rt_TokenHash :: bytes
  rt_IssuedAt :: time
  rt_ExpiresAt :: time
  rt_RevokedAt :: "time option"
  rt_ReplacedBy :: "uuid option"

record BosunIdempotencyKey =
  ik_UserID :: uuid
  ik_Key :: string
  ik_Method :: string
  ik_Path :: string
  ik_RequestHash :: bytes
  ik_ResponseStatus :: int
  ik_ResponseBody :: bytes
  ik_CreatedAt :: time
  ik_ExpiresAt :: time

record BosunSession =
  bs_ID :: uuid
  bs_UserID :: uuid
  bs_CrNamespace :: string
  bs_CrName :: string
  bs_Runtime :: string
  bs_ProviderMode :: string
  bs_ProviderCredentialID :: "uuid option"
  bs_StoragePolicy :: string
  bs_DesiredState :: string
  bs_ResumeNonce :: uuid
  bs_Phase :: string
  bs_PhaseReason :: string
  bs_Conditions :: bytes
  bs_LastActiveAt :: "time option"
  bs_CrResourceVersion :: int
  bs_CreatedAt :: time
  bs_UpdatedAt :: time
  bs_DeletedAt :: "time option"
  bs_Version :: int
  bs_DisplayName :: string
  bs_Priority :: string
  bs_MemoryRequestBytes :: int

record BosunSessionEvent =
  be_ID :: uuid
  be_SessionID :: uuid
  be_Type :: string
  be_Payload :: bytes
  be_OccurredAt :: time

record database =
  db_users :: "BosunUser list"
  db_tokens :: "BosunRefreshToken list"
  db_idempotency :: "BosunIdempotencyKey list"
  db_sessions :: "BosunSession list"
  db_events :: "BosunSessionEvent list"

text \<open>How a statement fails: the unique violation is the only code the backend looks at.\<close>

datatype sql_error = UniqueViolation | OtherViolation string

definition update_where :: "('r \<Rightarrow> bool) \<Rightarrow> ('r \<Rightarrow> 'r) \<Rightarrow> 'r list \<Rightarrow> 'r list" where
  "update_where P f rows = map (\<lambda>r. if P r then f r else r) rows"

section \<open>Queries on sessions\<close>

record CreateSessionParams =
  cs_ID :: uuid
  cs_UserID :: uuid
  cs_CrNamespace :: string
  cs_CrName :: string
  cs_DisplayName :: string
  cs_Priority :: string
  cs_MemoryRequestBytes :: int
  cs_Runtime :: string
  cs_ProviderMode :: string
  cs_ProviderCredentialID :: "uuid option"
  cs_StoragePolicy :: string
  cs_DesiredState :: string
  cs_ResumeNonce :: uuid
  cs_Phase :: string
  cs_PhaseReason :: string
  cs_Conditions :: bytes
  cs_LastActiveAt :: "time option"
  cs_CreatedAt :: time

definition live_of :: "uuid \<Rightarrow> BosunSession \<Rightarrow> bool" where
  "live_of userID r \<longleftrightarrow> bs_UserID r = userID \<and> bs_DeletedAt r = None"

definition CountSessionsForUser :: "uuid \<Rightarrow> database \<Rightarrow> int" where
  "CountSessionsForUser userID d = int (length (filter (live_of userID) (db_sessions d)))"

text \<open>The \<open>CHECK\<close> constraints of the table of sessions.\<close>

definition session_checks :: "BosunSession \<Rightarrow> bool" where
  "session_checks r \<longleftrightarrow> bs_Runtime r = ''claude-code'' \<and> bs_ProviderMode r \<in> {''platform'', ''byok''} \<and>
     bs_StoragePolicy r \<in> {''local'', ''archive''} \<and> bs_DesiredState r \<in> {''Running'', ''Hibernated''} \<and>
     1 \<le> RuneCountInString (bs_DisplayName r) \<and> RuneCountInString (bs_DisplayName r) \<le> 80 \<and>
     bs_Priority r \<in> {''low'', ''normal'', ''high''} \<and>
     1073741824 \<le> bs_MemoryRequestBytes r \<and> bs_MemoryRequestBytes r \<le> 68719476736"

definition session_row :: "CreateSessionParams \<Rightarrow> BosunSession" where
  "session_row p = \<lparr>bs_ID = cs_ID p, bs_UserID = cs_UserID p, bs_CrNamespace = cs_CrNamespace p, bs_CrName = cs_CrName p,
     bs_Runtime = cs_Runtime p, bs_ProviderMode = cs_ProviderMode p, bs_ProviderCredentialID = cs_ProviderCredentialID p,
     bs_StoragePolicy = cs_StoragePolicy p, bs_DesiredState = cs_DesiredState p, bs_ResumeNonce = cs_ResumeNonce p,
     bs_Phase = cs_Phase p, bs_PhaseReason = cs_PhaseReason p, bs_Conditions = cs_Conditions p,
     bs_LastActiveAt = cs_LastActiveAt p, bs_CrResourceVersion = 0, bs_CreatedAt = cs_CreatedAt p,
     bs_UpdatedAt = cs_CreatedAt p, bs_DeletedAt = None, bs_Version = 1, bs_DisplayName = cs_DisplayName p,
     bs_Priority = cs_Priority p, bs_MemoryRequestBytes = cs_MemoryRequestBytes p\<rparr>"

definition CreateSession :: "CreateSessionParams \<Rightarrow> database \<Rightarrow> sql_error + BosunSession \<times> database" where
  "CreateSession p d =
     (let r = session_row p
      in if \<not> session_checks r then Inl (OtherViolation ''check constraint'')
         else if \<exists>o1\<in>set (db_sessions d). bs_ID o1 = bs_ID r \<or> bs_CrNamespace o1 = bs_CrNamespace r \<and> bs_CrName o1 = bs_CrName r
           then Inl UniqueViolation
         else if \<not> (\<exists>u\<in>set (db_users d). bu_ID u = bs_UserID r) then Inl (OtherViolation ''foreign key'')
         else Inr (r, d\<lparr>db_sessions := db_sessions d @ [r]\<rparr>))"

definition GetSessionByID :: "uuid \<Rightarrow> database \<Rightarrow> BosunSession option" where
  "GetSessionByID i d = find (\<lambda>r. bs_ID r = i) (db_sessions d)"

definition GetSessionForUser :: "uuid \<Rightarrow> uuid \<Rightarrow> database \<Rightarrow> BosunSession option" where
  "GetSessionForUser i userID d = find (\<lambda>r. bs_ID r = i \<and> live_of userID r) (db_sessions d)"

definition GetGatewaySessionIdentity :: "string \<Rightarrow> string \<Rightarrow> database \<Rightarrow> BosunSession option" where
  "GetGatewaySessionIdentity namespace name d =
     find (\<lambda>r. bs_CrNamespace r = namespace \<and> bs_CrName r = name \<and> bs_DeletedAt r = None) (db_sessions d)"

definition InsertSessionEvent :: "BosunSessionEvent \<Rightarrow> database \<Rightarrow> sql_error + database" where
  "InsertSessionEvent e d =
     (if \<exists>o1\<in>set (db_events d). be_ID o1 = be_ID e then Inl UniqueViolation
      else if \<not> (\<exists>r\<in>set (db_sessions d). bs_ID r = be_SessionID e) then Inl (OtherViolation ''foreign key'')
      else Inr (d\<lparr>db_events := db_events d @ [e]\<rparr>))"

text \<open>\<open>LIMIT\<close> and \<open>OFFSET\<close>: PostgreSQL refuses negative ones.\<close>

definition limit_offset :: "int \<Rightarrow> int \<Rightarrow> 'r list \<Rightarrow> sql_error + 'r list" where
  "limit_offset limit offset rows =
     (if limit < 0 then Inl (OtherViolation ''LIMIT must not be negative'')
      else if offset < 0 then Inl (OtherViolation ''OFFSET must not be negative'')
      else Inr (take (nat limit) (drop (nat offset) rows)))"

definition ListSessionsForUser :: "uuid \<Rightarrow> int \<Rightarrow> int \<Rightarrow> database \<Rightarrow> sql_error + BosunSession list" where
  "ListSessionsForUser userID limit offset d =
     limit_offset limit offset (rev (sort_key (\<lambda>r. (bs_CreatedAt r, bs_ID r)) (filter (live_of userID) (db_sessions d))))"

definition sql_priority :: "BosunSession \<Rightarrow> int" where
  "sql_priority r = (if bs_Priority r = ''high'' then 3 else if bs_Priority r = ''normal'' then 2 else 1)"

definition ListPendingSessions :: "int \<Rightarrow> database \<Rightarrow> sql_error + BosunSession list" where
  "ListPendingSessions limit d =
     limit_offset limit 0 (sort_key (\<lambda>r. (- sql_priority r, bs_CreatedAt r))
       (filter (\<lambda>r. bs_DeletedAt r = None \<and> bs_Phase r = ''Pending'') (db_sessions d)))"

definition needs_cleanup :: "BosunSession \<Rightarrow> bool" where
  "needs_cleanup r \<longleftrightarrow> bs_DeletedAt r \<noteq> None \<and> bs_PhaseReason r \<noteq> ''CleanupComplete''"

definition deleted_order :: "BosunSession \<Rightarrow> time" where
  "deleted_order r = (case bs_DeletedAt r of None \<Rightarrow> 0 | Some t \<Rightarrow> t)"

definition ListDeletingSessions :: "int \<Rightarrow> database \<Rightarrow> sql_error + BosunSession list" where
  "ListDeletingSessions limit d = limit_offset limit 0 (sort_key deleted_order (filter needs_cleanup (db_sessions d)))"

definition update_session_where :: "(BosunSession \<Rightarrow> bool) \<Rightarrow> (BosunSession \<Rightarrow> BosunSession) \<Rightarrow> database \<Rightarrow>
    BosunSession option \<times> database" where
  "update_session_where P f d = (map_option f (find P (db_sessions d)), d\<lparr>db_sessions := update_where P f (db_sessions d)\<rparr>)"

definition UpdateSessionDesiredState :: "uuid \<Rightarrow> uuid \<Rightarrow> string \<Rightarrow> uuid \<Rightarrow> time option \<Rightarrow> time \<Rightarrow> int \<Rightarrow> database \<Rightarrow>
    sql_error + BosunSession option \<times> database" where
  "UpdateSessionDesiredState i userID desiredState nonce lastActive updatedAt version d =
     (let P = (\<lambda>r. bs_ID r = i \<and> live_of userID r \<and> bs_Version r = version)
      in if desiredState \<notin> {''Running'', ''Hibernated''} \<and> (\<exists>r\<in>set (db_sessions d). P r)
         then Inl (OtherViolation ''check constraint'')
         else Inr (update_session_where P (\<lambda>r. r\<lparr>bs_DesiredState := desiredState, bs_ResumeNonce := nonce,
           bs_LastActiveAt := lastActive, bs_UpdatedAt := updatedAt, bs_Version := bs_Version r + 1\<rparr>) d))"

definition SoftDeleteSession :: "uuid \<Rightarrow> uuid \<Rightarrow> time \<Rightarrow> database \<Rightarrow> BosunSession option \<times> database" where
  "SoftDeleteSession i userID deletedAt d =
     update_session_where (\<lambda>r. bs_ID r = i \<and> live_of userID r) (\<lambda>r. r\<lparr>bs_DesiredState := ''Hibernated'', bs_Phase := ''Deleting'',
       bs_PhaseReason := ''DeleteRequested'', bs_DeletedAt := Some deletedAt, bs_UpdatedAt := deletedAt,
       bs_Version := bs_Version r + 1\<rparr>) d"

definition ProjectSessionStatus :: "uuid \<Rightarrow> string \<Rightarrow> string \<Rightarrow> bytes \<Rightarrow> time option \<Rightarrow> int \<Rightarrow> time \<Rightarrow> database \<Rightarrow>
    BosunSession option \<times> database" where
  "ProjectSessionStatus i phase reason conditions lastActive rv updatedAt d =
     update_session_where (\<lambda>r. bs_ID r = i \<and> bs_CrResourceVersion r < rv) (\<lambda>r. r\<lparr>bs_Phase := phase, bs_PhaseReason := reason,
       bs_Conditions := conditions, bs_LastActiveAt := lastActive, bs_CrResourceVersion := rv, bs_UpdatedAt := updatedAt,
       bs_Version := bs_Version r + 1\<rparr>) d"

definition MarkSessionCleanupComplete :: "uuid \<Rightarrow> time \<Rightarrow> database \<Rightarrow> int \<times> database" where
  "MarkSessionCleanupComplete i updatedAt d =
     (let P = (\<lambda>r. bs_ID r = i \<and> needs_cleanup r)
      in (int (length (filter P (db_sessions d))), snd (update_session_where P (\<lambda>r. r\<lparr>bs_PhaseReason := ''CleanupComplete'',
         bs_UpdatedAt := updatedAt, bs_Version := bs_Version r + 1\<rparr>) d)))"

section \<open>Queries on idempotency keys\<close>

definition GetIdempotencyKey_sql :: "time \<Rightarrow> uuid \<Rightarrow> string \<Rightarrow> database \<Rightarrow> BosunIdempotencyKey option" where
  "GetIdempotencyKey_sql now userID key d =
     find (\<lambda>r. ik_UserID r = userID \<and> ik_Key r = key \<and> ik_ExpiresAt r > now) (db_idempotency d)"

definition InsertIdempotencyKey_sql :: "time \<Rightarrow> BosunIdempotencyKey \<Rightarrow> database \<Rightarrow> int \<times> database" where
  "InsertIdempotencyKey_sql now rec d =
     (let same = (\<lambda>r. ik_UserID r = ik_UserID rec \<and> ik_Key r = ik_Key rec); new = rec\<lparr>ik_CreatedAt := now\<rparr>
      in case find same (db_idempotency d) of
           None \<Rightarrow> (1, d\<lparr>db_idempotency := db_idempotency d @ [new]\<rparr>)
         | Some r \<Rightarrow> if ik_ExpiresAt r \<le> now
             then (1, d\<lparr>db_idempotency := update_where same (\<lambda>_. new) (db_idempotency d)\<rparr>)
             else (0, d))"

section \<open>Queries on refresh tokens\<close>

definition InsertRefreshToken_sql :: "time \<Rightarrow> BosunRefreshToken \<Rightarrow> database \<Rightarrow> sql_error + database" where
  "InsertRefreshToken_sql now rec d =
     (if \<exists>r\<in>set (db_tokens d). rt_ID r = rt_ID rec \<or> rt_TokenHash r = rt_TokenHash rec then Inl UniqueViolation
      else if \<not> (\<exists>u\<in>set (db_users d). bu_ID u = rt_UserID rec) then Inl (OtherViolation ''foreign key'')
      else Inr (d\<lparr>db_tokens := db_tokens d @ [rec\<lparr>rt_IssuedAt := now, rt_RevokedAt := None, rt_ReplacedBy := None\<rparr>]\<rparr>))"

definition GetRefreshTokenByHash_sql :: "bytes \<Rightarrow> database \<Rightarrow> BosunRefreshToken option" where
  "GetRefreshTokenByHash_sql hash d = find (\<lambda>r. rt_TokenHash r = hash) (db_tokens d)"

definition RotateRefreshToken_sql :: "time \<Rightarrow> uuid \<Rightarrow> uuid \<Rightarrow> database \<Rightarrow> uuid option \<times> database" where
  "RotateRefreshToken_sql now i replacedBy d =
     (let P = (\<lambda>r. rt_ID r = i \<and> rt_RevokedAt r = None)
      in (map_option rt_ID (find P (db_tokens d)), d\<lparr>db_tokens :=
         update_where P (\<lambda>r. r\<lparr>rt_RevokedAt := Some now, rt_ReplacedBy := Some replacedBy\<rparr>) (db_tokens d)\<rparr>))"

definition RevokeRefreshTokenFamily_sql :: "time \<Rightarrow> uuid \<Rightarrow> database \<Rightarrow> database" where
  "RevokeRefreshTokenFamily_sql now familyID d = d\<lparr>db_tokens :=
     update_where (\<lambda>r. rt_FamilyID r = familyID \<and> rt_RevokedAt r = None) (\<lambda>r. r\<lparr>rt_RevokedAt := Some now\<rparr>) (db_tokens d)\<rparr>"

section \<open>Queries on users\<close>

definition CreateUser_sql :: "(string \<Rightarrow> string) \<Rightarrow> time \<Rightarrow> uuid \<Rightarrow> string \<Rightarrow> string \<Rightarrow> database \<Rightarrow> sql_error + BosunUser \<times> database" where
  "CreateUser_sql lower now i email hash d =
     (if \<exists>u\<in>set (db_users d). bu_ID u = i \<or> lower (bu_Email u) = lower email then Inl UniqueViolation
      else let u = \<lparr>bu_ID = i, bu_Email = email, bu_PasswordHash = hash, bu_CreatedAt = now, bu_DisabledAt = None\<rparr>
        in Inr (u, d\<lparr>db_users := db_users d @ [u]\<rparr>))"

definition GetUserByEmail_sql :: "(string \<Rightarrow> string) \<Rightarrow> string \<Rightarrow> database \<Rightarrow> BosunUser option" where
  "GetUserByEmail_sql lower email d = find (\<lambda>u. lower (bu_Email u) = lower email) (db_users d)"

definition GetUserByID_sql :: "uuid \<Rightarrow> database \<Rightarrow> BosunUser option" where
  "GetUserByID_sql i d = find (\<lambda>u. bu_ID u = i) (db_users d)"

definition UpdateUserPasswordHash :: "uuid \<Rightarrow> string \<Rightarrow> database \<Rightarrow> database" where
  "UpdateUserPasswordHash i hash d = d\<lparr>db_users := update_where (\<lambda>u. bu_ID u = i) (\<lambda>u. u\<lparr>bu_PasswordHash := hash\<rparr>) (db_users d)\<rparr>"

definition ListUserIDs_sql :: "database \<Rightarrow> uuid list" where
  "ListUserIDs_sql d = map bu_ID (sort_key bu_CreatedAt (filter (\<lambda>u. bu_DisabledAt u = None) (db_users d)))"

end
