(* ===== verification/Backend.thy ===== *)
theory Backend
  imports Database User_Environment
begin

text \<open>
  The backend as a program: its memory is the database, which the world's other clients change between any two of its
  calls; its events are the calls of the database, of the API server, of the clock and of the random sources. The
  answers are the record \<open>backend_api\<close>, functions of the trace.
\<close>

section \<open>Errors\<close>

text \<open>The sentinel errors of the packages \<open>session\<close> and \<open>auth\<close>, errors from outside, and wrapping with \<open>%w\<close>.\<close>

datatype backend_error =
  ErrSessionNotFound | ErrInvalidTransition | ErrCapacity | ErrEnvironmentFailed | ErrEnvironmentReady
  | ErrSessionValidation | ErrIdempotency | ErrConcurrentUpdate
  | ErrEmailTaken | ErrUserNotFound | ErrRefreshTokenNotFound | ErrInvalidCredentials | ErrRefreshExpired | ErrAuthValidation
  | KubeError kerr | SqlError sql_error | Failure string
  | Wrapped string backend_error

fun error_root :: "backend_error \<Rightarrow> backend_error" where
  "error_root (Wrapped msg e) = error_root e"
| "error_root e = e"

text \<open>\<open>errors.Is\<close> for the sentinels.\<close>

definition errors_Is :: "backend_error \<Rightarrow> backend_error \<Rightarrow> bool" where
  "errors_Is e target \<longleftrightarrow> error_root e = target"

section \<open>Calls\<close>

record db_answer =
  an_db :: database
  an_now :: time
  an_fault :: "nat option"
  an_lost :: bool

text \<open>What the channel of a watch delivers, and whether the context was cancelled (or the channel closed) after that.\<close>

datatype watch_item = WatchModified AgentSession | WatchDeleted AgentSession | WatchErrorItem | WatchOther

datatype backend_event =
  EvDb string db_answer
  | EvClock time
  | EvUUID "backend_error + uuid"
  | EvRandomUUID uuid
  | EvRandom nat "backend_error + bytes"
  | EvCreateEnv UserEnvironment "kerr option"
  | EvGetEnv nskey "kerr + UserEnvironment"
  | EvListEnv "kerr + UserEnvironment list"
  | EvCreateCR AgentSession "kerr option"
  | EvGetCR nskey "kerr + AgentSession"
  | EvUpdateCR AgentSession "kerr option"
  | EvDeleteCR AgentSession string string "kerr option"
  | EvListCR "kerr + AgentSession list \<times> string"
  | EvWatchCR string "kerr + watch_item list \<times> bool"
  | EvGetPod nskey "kerr + Pod"
  | EvExec nskey string "string list" bool "kerr + bytes"
  | EvListPods "kerr + Pod list"
  | EvListNodes "kerr + Node list"
  | EvPodMetric nskey "kerr + json"
  | EvListPodMetrics "kerr + json list"
  | EvListNodeMetrics "kerr + json list"
  | EvNodeStats string "kerr + bytes"
  | EvPing bool
  | EvUpgrade bool
  | EvAnswer int int

type_synonym backend_world = "(backend_event, database) world"
type_synonym 'a backend = "(backend_event, database, 'a) prog"

record backend_api =
  b_db :: "backend_event list \<Rightarrow> database \<Rightarrow> db_answer"
  b_now :: "backend_event list \<Rightarrow> time"
  b_uuid :: "backend_event list \<Rightarrow> backend_error + uuid"
  b_random_uuid :: "backend_event list \<Rightarrow> uuid"
  b_random :: "backend_event list \<Rightarrow> nat \<Rightarrow> backend_error + bytes"
  b_create_env :: "backend_event list \<Rightarrow> UserEnvironment \<Rightarrow> kerr option"
  b_get_env :: "backend_event list \<Rightarrow> nskey \<Rightarrow> kerr + UserEnvironment"
  b_list_env :: "backend_event list \<Rightarrow> kerr + UserEnvironment list"
  b_create_cr :: "backend_event list \<Rightarrow> AgentSession \<Rightarrow> kerr option"
  b_get_cr :: "backend_event list \<Rightarrow> nskey \<Rightarrow> kerr + AgentSession"
  b_update_cr :: "backend_event list \<Rightarrow> AgentSession \<Rightarrow> kerr option"
  b_delete_cr :: "backend_event list \<Rightarrow> AgentSession \<Rightarrow> string \<Rightarrow> string \<Rightarrow> kerr option"
  b_list_cr :: "backend_event list \<Rightarrow> kerr + AgentSession list \<times> string"
  b_watch_cr :: "backend_event list \<Rightarrow> string \<Rightarrow> kerr + watch_item list \<times> bool"
  b_get_pod :: "backend_event list \<Rightarrow> nskey \<Rightarrow> kerr + Pod"
  b_exec :: "backend_event list \<Rightarrow> nskey \<Rightarrow> string \<Rightarrow> string list \<Rightarrow> bool \<Rightarrow> kerr + bytes"
  b_list_pods :: "backend_event list \<Rightarrow> kerr + Pod list"
  b_list_nodes :: "backend_event list \<Rightarrow> kerr + Node list"
  b_pod_metric :: "backend_event list \<Rightarrow> nskey \<Rightarrow> kerr + json"
  b_list_pod_metrics :: "backend_event list \<Rightarrow> kerr + json list"
  b_list_node_metrics :: "backend_event list \<Rightarrow> kerr + json list"
  b_node_stats :: "backend_event list \<Rightarrow> string \<Rightarrow> kerr + bytes"
  b_ping :: "backend_event list \<Rightarrow> bool"
  b_upgrade :: "backend_event list \<Rightarrow> bool"

definition clock :: "backend_api \<Rightarrow> time backend" where
  "clock A = call (b_now A) EvClock"

definition new_uuid :: "backend_api \<Rightarrow> (backend_error + uuid) backend" where
  "new_uuid A = call (b_uuid A) EvUUID"

definition random_uuid :: "backend_api \<Rightarrow> uuid backend" where
  "random_uuid A = call (b_random_uuid A) EvRandomUUID"

definition rand_Read :: "backend_api \<Rightarrow> nat \<Rightarrow> (backend_error + bytes) backend" where
  "rand_Read A n = call (\<lambda>t. b_random A t n) (EvRandom n)"

definition create_env :: "backend_api \<Rightarrow> UserEnvironment \<Rightarrow> kerr option backend" where
  "create_env A ue = call (\<lambda>t. b_create_env A t ue) (EvCreateEnv ue)"

definition get_env :: "backend_api \<Rightarrow> nskey \<Rightarrow> (kerr + UserEnvironment) backend" where
  "get_env A k = call (\<lambda>t. b_get_env A t k) (EvGetEnv k)"

definition list_env :: "backend_api \<Rightarrow> (kerr + UserEnvironment list) backend" where
  "list_env A = call (b_list_env A) EvListEnv"

definition create_cr :: "backend_api \<Rightarrow> AgentSession \<Rightarrow> kerr option backend" where
  "create_cr A cr = call (\<lambda>t. b_create_cr A t cr) (EvCreateCR cr)"

definition get_cr :: "backend_api \<Rightarrow> nskey \<Rightarrow> (kerr + AgentSession) backend" where
  "get_cr A k = call (\<lambda>t. b_get_cr A t k) (EvGetCR k)"

definition update_cr :: "backend_api \<Rightarrow> AgentSession \<Rightarrow> kerr option backend" where
  "update_cr A cr = call (\<lambda>t. b_update_cr A t cr) (EvUpdateCR cr)"

definition delete_cr :: "backend_api \<Rightarrow> AgentSession \<Rightarrow> string \<Rightarrow> string \<Rightarrow> kerr option backend" where
  "delete_cr A cr uid rv = call (\<lambda>t. b_delete_cr A t cr uid rv) (EvDeleteCR cr uid rv)"

definition list_cr :: "backend_api \<Rightarrow> (kerr + AgentSession list \<times> string) backend" where
  "list_cr A = call (b_list_cr A) EvListCR"

definition watch_cr :: "backend_api \<Rightarrow> string \<Rightarrow> (kerr + watch_item list \<times> bool) backend" where
  "watch_cr A rv = call (\<lambda>t. b_watch_cr A t rv) (EvWatchCR rv)"

definition backend_get_pod :: "backend_api \<Rightarrow> nskey \<Rightarrow> (kerr + Pod) backend" where
  "backend_get_pod A k = call (\<lambda>t. b_get_pod A t k) (EvGetPod k)"

text \<open>A command in a container of a Pod, with or without a terminal; the answer is what it printed.\<close>

definition backend_exec :: "backend_api \<Rightarrow> nskey \<Rightarrow> string \<Rightarrow> string list \<Rightarrow> bool \<Rightarrow> (kerr + bytes) backend" where
  "backend_exec A k container command tty = call (\<lambda>t. b_exec A t k container command tty) (EvExec k container command tty)"

definition list_pods :: "backend_api \<Rightarrow> (kerr + Pod list) backend" where
  "list_pods A = call (b_list_pods A) EvListPods"

definition list_nodes :: "backend_api \<Rightarrow> (kerr + Node list) backend" where
  "list_nodes A = call (b_list_nodes A) EvListNodes"

text \<open>The metrics server, whose objects are decoded JSON, and the summary of a Kubelet.\<close>

definition get_pod_metric :: "backend_api \<Rightarrow> nskey \<Rightarrow> (kerr + json) backend" where
  "get_pod_metric A k = call (\<lambda>t. b_pod_metric A t k) (EvPodMetric k)"

definition list_pod_metrics :: "backend_api \<Rightarrow> (kerr + json list) backend" where
  "list_pod_metrics A = call (b_list_pod_metrics A) EvListPodMetrics"

definition list_node_metrics :: "backend_api \<Rightarrow> (kerr + json list) backend" where
  "list_node_metrics A = call (b_list_node_metrics A) EvListNodeMetrics"

definition node_stats :: "backend_api \<Rightarrow> string \<Rightarrow> (kerr + bytes) backend" where
  "node_stats A node = call (\<lambda>t. b_node_stats A t node) (EvNodeStats node)"

definition ping :: "backend_api \<Rightarrow> bool backend" where
  "ping A = call (b_ping A) EvPing"

text \<open>The switch of a client connection to a WebSocket, and an answer to the client with its HTTP status and error code.\<close>

definition upgrade :: "backend_api \<Rightarrow> bool backend" where
  "upgrade A = call (b_upgrade A) EvUpgrade"

definition answer_client :: "int \<times> int \<Rightarrow> unit backend" where
  "answer_client code = call (\<lambda>_. ()) (\<lambda>_. EvAnswer (fst code) (snd code))"

lemmas backend_call_defs = clock_def new_uuid_def random_uuid_def rand_Read_def create_env_def get_env_def list_env_def
  create_cr_def get_cr_def update_cr_def delete_cr_def list_cr_def watch_cr_def backend_get_pod_def backend_exec_def upgrade_def answer_client_def
  list_pods_def list_nodes_def get_pod_metric_def list_pod_metrics_def list_node_metrics_def node_stats_def ping_def

section \<open>Transactions\<close>

text \<open>
  A transaction is a list of labelled steps on the tables and a value. A step goes on, fails, or ends the transaction
  early with a result, which rolls back. A single statement is a transaction of one step.
\<close>

datatype 'r tx_result = TxGo database 'r | TxFail backend_error | TxEnd 'r

type_synonym 'r tx_step = "string \<times> (time \<Rightarrow> database \<Rightarrow> 'r \<Rightarrow> 'r tx_result)"

fun run_tx :: "nat option \<Rightarrow> time \<Rightarrow> 'r tx_step list \<Rightarrow> database \<Rightarrow> 'r \<Rightarrow> 'r tx_result" where
  "run_tx fault now [] d r = TxGo d r"
| "run_tx fault now ((label, step) # steps) d r =
     (if fault = Some 0 then TxFail (Wrapped label (Failure ''database''))
      else case step now d r of
        TxGo d' r' \<Rightarrow> run_tx (map_option (\<lambda>n. n - 1) fault) now steps d' r'
      | TxFail e \<Rightarrow> TxFail e
      | TxEnd r' \<Rightarrow> TxEnd r')"

definition tx_nop :: "time \<Rightarrow> database \<Rightarrow> 'r \<Rightarrow> 'r tx_result" where
  "tx_nop now d r = TxGo d r"

definition db_run :: "backend_api \<Rightarrow> string \<Rightarrow> 'r tx_step list \<Rightarrow> 'r \<Rightarrow> (backend_error + 'r) backend" where
  "db_run A name steps r0 = do {
     d \<leftarrow> get_mem;
     a \<leftarrow> call (\<lambda>t. b_db A t d) (EvDb name);
     case run_tx (an_fault a) (an_now a) steps (an_db a) r0 of
       TxFail e \<Rightarrow> do { _ \<leftarrow> put_mem (an_db a); State_Monad.return (Inl e) }
     | TxEnd r \<Rightarrow> do { _ \<leftarrow> put_mem (an_db a); State_Monad.return (Inr r) }
     | TxGo d' r \<Rightarrow> do {
         _ \<leftarrow> put_mem d';
         State_Monad.return (if an_lost a then Inl (Wrapped (fst (last steps)) (Failure ''connection lost'')) else Inr r) } }"

text \<open>The changes a transaction can commit.\<close>

definition commits :: "'r tx_step list \<Rightarrow> database \<Rightarrow> database \<Rightarrow> bool" where
  "commits steps d d' \<longleftrightarrow> (\<exists>now r0 r. run_tx None now steps d r0 = TxGo d' r)"

lemma run_tx_no_fault: "run_tx fault now steps d r = TxGo d' r' \<Longrightarrow> run_tx None now steps d r = TxGo d' r'"
  by (induction fault now steps d r rule: run_tx.induct) (auto split: if_splits tx_result.splits)

text \<open>
  The outcome of a database call: the tables are left as the other clients left them, or with the transaction applied on
  top, in which case the answer may still be an error.
\<close>

definition db_outcome :: "backend_api \<Rightarrow> string \<Rightarrow> 'r tx_step list \<Rightarrow> 'r \<Rightarrow> backend_world \<Rightarrow> backend_error + 'r \<Rightarrow> backend_world \<Rightarrow> bool" where
  "db_outcome A name steps r0 w result v \<longleftrightarrow> (let a = b_db A (w_trace w) (w_mem w) in
     w_trace v = w_trace w @ [EvDb name a] \<and>
     ((\<exists>e. result = Inl e \<and> w_mem v = an_db a \<and> run_tx (an_fault a) (an_now a) steps (an_db a) r0 = TxFail e) \<or>
      (\<exists>r. result = Inr r \<and> w_mem v = an_db a \<and> run_tx (an_fault a) (an_now a) steps (an_db a) r0 = TxEnd r) \<or>
      (\<exists>r. run_tx None (an_now a) steps (an_db a) r0 = TxGo (w_mem v) r \<and>
         (result = Inr r \<or> result = Inl (Wrapped (fst (last steps)) (Failure ''connection lost''))))))"

lemma runs_db_run:
  assumes "\<And>a. P (w_trace w) (EvDb name a)"
  shows "runs P w (db_run A name steps r0) (db_outcome A name steps r0 w)"
proof -
  let ?a = "b_db A (w_trace w) (w_mem w)"
  show ?thesis unfolding db_run_def
  proof (intro runs_bind runs_get_mem runs_call assms)
    show "runs P (w\<lparr>w_trace := w_trace w @ [EvDb name ?a]\<rparr>) (case run_tx (an_fault ?a) (an_now ?a) steps (an_db ?a) r0 of
        TxGo d' r \<Rightarrow> do { _ \<leftarrow> put_mem d';
          State_Monad.return (if an_lost ?a then Inl (Wrapped (fst (last steps)) (Failure ''connection lost'')) else Inr r) }
      | TxFail e \<Rightarrow> do { _ \<leftarrow> put_mem (an_db ?a); State_Monad.return (Inl e) }
      | TxEnd r \<Rightarrow> do { _ \<leftarrow> put_mem (an_db ?a); State_Monad.return (Inr r) }) (db_outcome A name steps r0 w)"
      by (cases "run_tx (an_fault ?a) (an_now ?a) steps (an_db ?a) r0")
        (auto intro!: runs_bind runs_put_mem runs_return simp: db_outcome_def Let_def dest: run_tx_no_fault)
  qed
qed

section \<open>Rely and guarantee\<close>

text \<open>
  Other clients take any number of steps between two calls of a program. Two contracts of such systems of steps: an
  invariant, and an order that the steps only go up in.
\<close>

locale step_invariant =
  fixes step :: "'s \<Rightarrow> 's \<Rightarrow> bool" and inv :: "'s \<Rightarrow> bool"
  assumes step_inv: "inv s \<Longrightarrow> step s s' \<Longrightarrow> inv s'"
begin

lemma steps_inv: "step\<^sup>*\<^sup>* s s' \<Longrightarrow> inv s \<Longrightarrow> inv s'"
  by (induction rule: rtranclp_induct) (auto intro: step_inv)

end

locale step_order =
  fixes step :: "'s \<Rightarrow> 's \<Rightarrow> bool" and le :: "'s \<Rightarrow> 's \<Rightarrow> bool"
  assumes le_refl: "le s s" and le_trans: "le s s' \<Longrightarrow> le s' s'' \<Longrightarrow> le s s''" and step_le: "step s s' \<Longrightarrow> le s s'"
begin

lemma steps_le: "step\<^sup>*\<^sup>* s s' \<Longrightarrow> le s s'"
  by (induction rule: rtranclp_induct) (auto intro: le_refl le_trans step_le)

end

text \<open>What a program relies on, and what it guarantees: that everything it does is a sequence of steps.\<close>

definition relies :: "(database \<Rightarrow> database \<Rightarrow> bool) \<Rightarrow> backend_api \<Rightarrow> bool" where
  "relies step A \<longleftrightarrow> (\<forall>t d. step\<^sup>*\<^sup>* d (an_db (b_db A t d)))"

definition guarantees :: "(database \<Rightarrow> database \<Rightarrow> bool) \<Rightarrow> 'a backend \<Rightarrow> bool" where
  "guarantees step m \<longleftrightarrow> (\<forall>w. runs (\<lambda>_ _. True) w m (\<lambda>_ v. step\<^sup>*\<^sup>* (w_mem w) (w_mem v)))"

named_theorems guarantee_rules \<open>rules that decompose a guarantee\<close>

lemma relies_steps: "relies step A \<Longrightarrow> step\<^sup>*\<^sup>* d (an_db (b_db A t d))"
  by (simp add: relies_def)

lemma db_outcome_steps:
  assumes "relies step A" and "db_outcome A name steps r0 w result v"
    and "\<And>d d'. step\<^sup>*\<^sup>* (w_mem w) d \<Longrightarrow> commits steps d d' \<Longrightarrow> step d d'"
  shows "step\<^sup>*\<^sup>* (w_mem w) (w_mem v)"
proof -
  let ?a = "b_db A (w_trace w) (w_mem w)"
  have others: "step\<^sup>*\<^sup>* (w_mem w) (an_db ?a)" using assms(1) by (rule relies_steps)
  have "w_mem v = an_db ?a \<or> commits steps (an_db ?a) (w_mem v)"
    using assms(2) by (auto simp: db_outcome_def Let_def commits_def)
  then show ?thesis using others assms(3) by (metis rtranclp.rtrancl_into_rtrancl)
qed

lemma runs_relies:
  assumes "relies step A" and "\<And>d d'. step\<^sup>*\<^sup>* (w_mem w) d \<Longrightarrow> commits steps d d' \<Longrightarrow> step d d'"
  shows "runs (\<lambda>_ _. True) w (db_run A name steps r0) (\<lambda>r v. step\<^sup>*\<^sup>* (w_mem w) (w_mem v) \<and> db_outcome A name steps r0 w r v)"
proof (rule runs_post [OF runs_db_run])
  fix r v
  assume "db_outcome A name steps r0 w r v"
  then show "step\<^sup>*\<^sup>* (w_mem w) (w_mem v) \<and> db_outcome A name steps r0 w r v"
    by (intro conjI db_outcome_steps [OF assms(1)] assms(2))
qed simp

lemma guarantees_return [guarantee_rules]: "guarantees step (State_Monad.return x)"
  by (simp add: guarantees_def runs_return)

lemma guarantees_bind [guarantee_rules]:
  assumes "guarantees step m" and "\<And>x. guarantees step (f x)"
  shows "guarantees step (State_Monad.bind m f)"
  unfolding guarantees_def
proof (intro allI runs_bind)
  fix w
  show "runs (\<lambda>_ _. True) w m (\<lambda>x v. runs (\<lambda>_ _. True) v (f x) (\<lambda>_ v'. step\<^sup>*\<^sup>* (w_mem w) (w_mem v')))"
  proof (rule runs_post [OF assms(1) [unfolded guarantees_def, rule_format]])
    fix x and v :: backend_world
    assume "step\<^sup>*\<^sup>* (w_mem w) (w_mem v)"
    then show "runs (\<lambda>_ _. True) v (f x) (\<lambda>_ v'. step\<^sup>*\<^sup>* (w_mem w) (w_mem v'))"
      by (intro runs_post [OF assms(2) [of x, unfolded guarantees_def, rule_format, of v]]) auto
  qed
qed

lemma guarantees_call [guarantee_rules]: "guarantees step (call answer event)"
  by (simp add: guarantees_def runs_call)

lemma guarantees_if [guarantee_rules]: "guarantees step m \<Longrightarrow> guarantees step n \<Longrightarrow> guarantees step (if b then m else n)"
  by simp

lemma guarantees_case_sum [guarantee_rules]:
  "(\<And>e. guarantees step (f e)) \<Longrightarrow> (\<And>x. guarantees step (g x)) \<Longrightarrow> guarantees step (case r of Inl e \<Rightarrow> f e | Inr x \<Rightarrow> g x)"
  by (cases r) simp_all

lemma guarantees_case_option [guarantee_rules]:
  "guarantees step m \<Longrightarrow> (\<And>x. guarantees step (g x)) \<Longrightarrow> guarantees step (case r of None \<Rightarrow> m | Some x \<Rightarrow> g x)"
  by (cases r) simp_all

lemma guarantees_case_prod [guarantee_rules]: "(\<And>x y. guarantees step (g x y)) \<Longrightarrow> guarantees step (case r of (x, y) \<Rightarrow> g x y)"
  by (cases r) simp

lemma guarantees_let [guarantee_rules]: "guarantees step (f x) \<Longrightarrow> guarantees step (Let x f)"
  by simp

lemma guarantees_retry_on [guarantee_rules]: "guarantees step m \<Longrightarrow> guarantees step (retry_on again n m)"
  by (induction n) (simp_all add: guarantees_bind guarantees_case_option guarantees_if guarantees_return)

lemma guarantees_db:
  assumes "relies step A" and "\<And>d d'. commits steps d d' \<Longrightarrow> step d d'"
  shows "guarantees step (db_run A name steps r0)"
  unfolding guarantees_def by (intro allI runs_post [OF runs_relies [OF assms(1)]] assms(2)) simp_all

lemma guarantees_steps: "guarantees step m \<Longrightarrow> step\<^sup>*\<^sup>* (w_mem w) (w_mem (world_after m w))"
  unfolding guarantees_def by (drule spec [of _ w]) (rule runs_result)

end
