(* ===== verification/Auth_Tokens.thy ===== *)
theory Auth_Tokens
  imports Go_Encoding
begin

text \<open>
  Access tokens and password hashes of the backend: \<open>auth/jwt.go\<close>, \<open>auth/password.go\<close> and \<open>auth/token.go\<close>. Ed25519, SHA-256, argon2 and the
  JSON encoder are parameters, the record \<open>auth_lib\<close>; their documented behaviour is \<open>auth_lib_contract\<close>.
\<close>

section \<open>Library functions\<close>

record jwtHeader =
  jh_Alg :: string
  jh_Typ :: string
  jh_Kid :: string

record jwtClaims =
  jc_Issuer :: string
  jc_Subject :: string
  jc_IssuedAt :: int
  jc_ExpiresAt :: int
  jc_TokenID :: string

record auth_lib =
  al_sha256 :: "string \<Rightarrow> string"
  al_public :: "string \<Rightarrow> string"
  al_sign :: "string \<Rightarrow> string \<Rightarrow> string"
  al_verify :: "string \<Rightarrow> string \<Rightarrow> string \<Rightarrow> bool"
  Marshal_header :: "jwtHeader \<Rightarrow> string"
  Unmarshal_header :: "string \<Rightarrow> jwtHeader option"
  Marshal_claims :: "jwtClaims \<Rightarrow> string"
  Unmarshal_claims :: "string \<Rightarrow> jwtClaims option"
  argon2_Version :: int
  argon2_IDKey :: "string \<Rightarrow> string \<Rightarrow> int \<Rightarrow> int \<Rightarrow> int \<Rightarrow> int \<Rightarrow> string"
  ToLower :: "string \<Rightarrow> string"
  EqualFold :: "string \<Rightarrow> string \<Rightarrow> bool"
  sql_lower :: "string \<Rightarrow> string"

text \<open>JSON keeps strings that are valid UTF-8; a signature verifies; argon2 answers as many bytes as it is asked for.\<close>

definition auth_lib_contract :: "auth_lib \<Rightarrow> bool" where
  "auth_lib_contract C \<longleftrightarrow>
     (\<forall>h. ValidString (jh_Alg h) \<and> ValidString (jh_Typ h) \<and> ValidString (jh_Kid h) \<longrightarrow>
        Unmarshal_header C (Marshal_header C h) = Some h) \<and>
     (\<forall>c. ValidString (jc_Issuer c) \<and> ValidString (jc_Subject c) \<and> ValidString (jc_TokenID c) \<and>
        in64 (jc_IssuedAt c) \<and> in64 (jc_ExpiresAt c) \<longrightarrow>
        Unmarshal_claims C (Marshal_claims C c) = Some c) \<and>
     (\<forall>priv msg. al_verify C (al_public C priv) msg (al_sign C priv msg)) \<and>
     (\<forall>p s t m l n. 0 \<le> n \<longrightarrow> int (length (argon2_IDKey C p s t m l n)) = n) \<and>
     0 \<le> argon2_Version C \<and> argon2_Version C < 2 ^ 63"

section \<open>Access tokens\<close>

text \<open>\<open>Time.Unix\<close> and \<open>time.Unix\<close>: the zero time is the start of year 1.\<close>

definition unix_epoch :: int where
  "unix_epoch = 62135596800"

definition Unix :: "time \<Rightarrow> int" where
  "Unix t = t div second - unix_epoch"

definition time_Unix :: "int \<Rightarrow> time" where
  "time_Unix s = (s + unix_epoch) * second"

datatype token_error = ErrTokenExpired | ErrTokenInvalid

record Claims =
  cl_UserID :: string
  cl_IssuedAt :: time
  cl_ExpiresAt :: time
  cl_TokenID :: string

record JWTIssuer =
  ji_issuer :: string
  ji_ttl :: duration
  ji_priv :: string
  ji_kid :: string
  ji_pubs :: "string \<rightharpoonup> string"

definition encodeSegment :: "string \<Rightarrow> string" where
  "encodeSegment b = base64_encode url_tail b"

definition decodeSegment :: "string \<Rightarrow> string option" where
  "decodeSegment s = base64_decode url_tail s"

definition keyID :: "auth_lib \<Rightarrow> string \<Rightarrow> string" where
  "keyID C pub = base64_encode url_tail (take 8 (al_sha256 C pub))"

definition NewJWTIssuer :: "auth_lib \<Rightarrow> string \<Rightarrow> string \<Rightarrow> duration \<Rightarrow> JWTIssuer option" where
  "NewJWTIssuer C issuer priv ttl =
     (if length priv \<noteq> 64 then None
      else if ttl \<le> 0 then None
      else let pub = al_public C priv; kid = keyID C pub
        in Some \<lparr>ji_issuer = issuer, ji_ttl = ttl, ji_priv = priv, ji_kid = kid, ji_pubs = [kid \<mapsto> pub]\<rparr>)"

definition signed_claims :: "JWTIssuer \<Rightarrow> string \<Rightarrow> time \<Rightarrow> string \<Rightarrow> jwtClaims" where
  "signed_claims s userID now tokenID = \<lparr>jc_Issuer = ji_issuer s, jc_Subject = userID, jc_IssuedAt = Unix now,
     jc_ExpiresAt = Unix (now + ji_ttl s), jc_TokenID = tokenID\<rparr>"

definition Sign :: "auth_lib \<Rightarrow> JWTIssuer \<Rightarrow> string \<Rightarrow> time \<Rightarrow> string \<Rightarrow> string" where
  "Sign C s userID now tokenID =
     (let header = \<lparr>jh_Alg = ''EdDSA'', jh_Typ = ''JWT'', jh_Kid = ji_kid s\<rparr>;
          signingInput = encodeSegment (Marshal_header C header) @ ''.'' @ encodeSegment (Marshal_claims C (signed_claims s userID now tokenID));
          signature = al_sign C (ji_priv s) signingInput
      in signingInput @ ''.'' @ encodeSegment signature)"

definition verify_claims :: "JWTIssuer \<Rightarrow> jwtClaims \<Rightarrow> time \<Rightarrow> token_error + Claims" where
  "verify_claims s claims now =
     (if jc_Issuer claims \<noteq> ji_issuer s \<or> jc_Subject claims = [] then Inl ErrTokenInvalid
      else if Unix now \<ge> jc_ExpiresAt claims then Inl ErrTokenExpired
      else Inr \<lparr>cl_UserID = jc_Subject claims, cl_IssuedAt = time_Unix (jc_IssuedAt claims),
        cl_ExpiresAt = time_Unix (jc_ExpiresAt claims), cl_TokenID = jc_TokenID claims\<rparr>)"

definition Verify :: "auth_lib \<Rightarrow> JWTIssuer \<Rightarrow> string \<Rightarrow> time \<Rightarrow> token_error + Claims" where
  "Verify C s token now = (case Split CHR ''.'' token of
     [p0, p1, p2] \<Rightarrow> (case Option.bind (decodeSegment p0) (Unmarshal_header C) of
         None \<Rightarrow> Inl ErrTokenInvalid
       | Some header \<Rightarrow>
           if jh_Alg header \<noteq> ''EdDSA'' \<or> jh_Typ header \<noteq> ''JWT'' then Inl ErrTokenInvalid
           else (case (ji_pubs s (jh_Kid header), decodeSegment p2) of
             (Some pub, Some signature) \<Rightarrow>
               if \<not> al_verify C pub (p0 @ ''.'' @ p1) signature then Inl ErrTokenInvalid
               else (case Option.bind (decodeSegment p1) (Unmarshal_claims C) of
                 None \<Rightarrow> Inl ErrTokenInvalid
               | Some claims \<Rightarrow> verify_claims s claims now)
           | _ \<Rightarrow> Inl ErrTokenInvalid))
   | _ \<Rightarrow> Inl ErrTokenInvalid)"

lemma segment_no_dot: "CHR ''.'' \<notin> set (encodeSegment b)"
proof
  assume "CHR ''.'' \<in> set (encodeSegment b)"
  then have "CHR ''.'' \<in> encode_char url_tail ` {..<64}" by (auto simp: encodeSegment_def dest!: base64_encode_chars [rotated])
  then obtain n where n: "n < 64" "CHR ''.'' = encode_char url_tail n" by auto
  from decode_encode_char [OF good_tails(2) n(1)] n(2) [symmetric] have "decode_char url_tail CHR ''.'' = Some n" by simp
  moreover have "decode_char url_tail CHR ''.'' = None" by code_simp
  ultimately show False by simp
qed

lemma decode_encodeSegment [simp]: "decodeSegment (encodeSegment b) = Some b"
  by (simp add: encodeSegment_def decodeSegment_def base64_roundtrip)

text \<open>
  C39. Access tokens round-trip: what an issuer signs it accepts, with the user, the times to the second and the token id it was
  signed for, until the second in which it expires, and from then on it reports it expired.
\<close>

theorem Verify_Sign:
  assumes "auth_lib_contract C" and "NewJWTIssuer C issuer priv ttl = Some s" and "userID \<noteq> []"
    and "ValidString issuer" "ValidString userID" "ValidString tokenID" "in64 (Unix now)" "in64 (Unix (now + ttl))"
  shows "Verify C s (Sign C s userID now tokenID) t =
    (if Unix t < Unix (now + ttl) then Inr \<lparr>cl_UserID = userID, cl_IssuedAt = time_Unix (Unix now),
       cl_ExpiresAt = time_Unix (Unix (now + ttl)), cl_TokenID = tokenID\<rparr> else Inl ErrTokenExpired)"
proof -
  have s: "ji_issuer s = issuer" "ji_ttl s = ttl" "ji_priv s = priv" "ji_pubs s (ji_kid s) = Some (al_public C priv)"
    and kid: "ji_kid s = keyID C (al_public C priv)"
    using assms(2) by (auto simp: NewJWTIssuer_def Let_def split: if_splits)
  have "ascii_tail url_tail" by code_simp
  then have valid: "ValidString (ji_kid s)" by (simp add: kid keyID_def ValidString_base64)
  have names: "ValidString ''EdDSA''" "ValidString ''JWT''" by code_simp+
  define h where "h = encodeSegment (Marshal_header C \<lparr>jh_Alg = ''EdDSA'', jh_Typ = ''JWT'', jh_Kid = ji_kid s\<rparr>)"
  define c where "c = encodeSegment (Marshal_claims C (signed_claims s userID now tokenID))"
  define g where "g = encodeSegment (al_sign C priv (h @ ''.'' @ c))"
  have token: "Sign C s userID now tokenID = h @ CHR ''.'' # c @ CHR ''.'' # g"
    by (simp add: Sign_def Let_def h_def c_def g_def s)
  have "Split CHR ''.'' (h @ CHR ''.'' # c @ CHR ''.'' # g) = [h, c, g]"
    unfolding h_def c_def g_def by (simp add: Split_append segment_no_dot Split_no_sep)
  then show ?thesis using assms(1,3-8) valid names unfolding token
    by (auto simp: Verify_def auth_lib_contract_def h_def c_def g_def s verify_claims_def signed_claims_def)
qed

text \<open>A library with the documented behaviour.\<close>

definition sample_int :: "int \<Rightarrow> string" where
  "sample_int n = (if n < 0 then CHR ''-'' else CHR ''a'') # replicate (nat \<bar>n\<bar>) CHR ''a''"

definition sample_int_of :: "string \<Rightarrow> int" where
  "sample_int_of s = (if HasPrefix s ''-'' then - int (length s - 1) else int (length s - 1))"

definition sample_text :: "string list \<Rightarrow> string" where
  "sample_text ss = concat (map (\<lambda>s. encodeSegment s @ ''.'') ss)"

definition sample_texts :: "string \<Rightarrow> string list" where
  "sample_texts t = map (\<lambda>p. the (decodeSegment p)) (butlast (Split CHR ''.'' t))"

lemma sample_texts_text: "sample_texts (sample_text ss) = ss"
proof -
  have "Split CHR ''.'' (sample_text ss) = map encodeSegment ss @ [[]]"
    by (induction ss) (simp_all add: sample_text_def Split_append segment_no_dot)
  then show ?thesis by (simp add: sample_texts_def comp_def)
qed

definition sample_auth :: auth_lib where
  "sample_auth = \<lparr>al_sha256 = (\<lambda>s. replicate 32 CHR ''h''), al_public = (\<lambda>k. k), al_sign = (\<lambda>k msg. k @ msg),
     al_verify = (\<lambda>k msg g. g = k @ msg),
     Marshal_header = (\<lambda>h. sample_text [jh_Alg h, jh_Typ h, jh_Kid h]),
     Unmarshal_header = (\<lambda>t. case sample_texts t of [a, b, c] \<Rightarrow> Some \<lparr>jh_Alg = a, jh_Typ = b, jh_Kid = c\<rparr> | _ \<Rightarrow> None),
     Marshal_claims = (\<lambda>c. sample_text [jc_Issuer c, jc_Subject c, sample_int (jc_IssuedAt c), sample_int (jc_ExpiresAt c), jc_TokenID c]),
     Unmarshal_claims = (\<lambda>t. case sample_texts t of [a, b, c, d, e] \<Rightarrow> Some \<lparr>jc_Issuer = a, jc_Subject = b,
        jc_IssuedAt = sample_int_of c, jc_ExpiresAt = sample_int_of d, jc_TokenID = e\<rparr> | _ \<Rightarrow> None),
     argon2_Version = 19, argon2_IDKey = (\<lambda>p s t m l n. replicate (nat n) CHR ''k''),
     ToLower = (\<lambda>s. s), EqualFold = (=), sql_lower = (\<lambda>s. s)\<rparr>"

lemma sample_auth_contract: "auth_lib_contract sample_auth"
  by (auto simp: auth_lib_contract_def sample_auth_def sample_texts_text sample_int_def sample_int_of_def HasPrefix_def)

definition sample_issuer :: JWTIssuer where
  "sample_issuer = the (NewJWTIssuer sample_auth ''bosun'' (replicate 64 CHR ''k'') (900 * second))"

theorem Verify_Sign_witness:
  "Verify sample_auth sample_issuer (Sign sample_auth sample_issuer ''user'' 0 ''id'') (899 * second) =
     Inr \<lparr>cl_UserID = ''user'', cl_IssuedAt = 0, cl_ExpiresAt = 900 * second, cl_TokenID = ''id''\<rparr>"
proof -
  have issuer: "NewJWTIssuer sample_auth ''bosun'' (replicate 64 CHR ''k'') (900 * second) = Some sample_issuer"
    by (simp add: NewJWTIssuer_def Let_def sample_issuer_def second_def)
  have valid: "ValidString ''bosun''" "ValidString ''user''" "ValidString ''id''" by code_simp+
  have times: "in64 (Unix 0)" "in64 (Unix (0 + 900 * second))"
    by (simp_all add: Unix_def in64_def second_def unix_epoch_def)
  from Verify_Sign [OF sample_auth_contract issuer _ valid times, of "899 * second"] show ?thesis
    by (simp add: Unix_def time_Unix_def second_def unix_epoch_def)
qed

section \<open>Password hashes\<close>

record Argon2Params =
  ap_Memory :: int
  ap_Iterations :: int
  ap_Parallelism :: int
  ap_SaltLength :: int
  ap_KeyLength :: int

definition DefaultArgon2Params :: Argon2Params where
  "DefaultArgon2Params = \<lparr>ap_Memory = 64 * 1024, ap_Iterations = 3, ap_Parallelism = 2, ap_SaltLength = 16, ap_KeyLength = 32\<rparr>"

text \<open>\<open>HashPassword\<close> after the salt was read.\<close>

definition HashPassword_with :: "auth_lib \<Rightarrow> string \<Rightarrow> Argon2Params \<Rightarrow> string \<Rightarrow> string" where
  "HashPassword_with C password p salt =
     (let key = argon2_IDKey C password salt (ap_Iterations p) (ap_Memory p) (ap_Parallelism p) (ap_KeyLength p)
      in ''$argon2id$v='' @ show_int (argon2_Version C) @ ''$m='' @ show_int (ap_Memory p) @ '',t='' @ show_int (ap_Iterations p) @
         '',p='' @ show_int (ap_Parallelism p) @ ''$'' @ base64_encode std_tail salt @ ''$'' @ base64_encode std_tail key)"

definition decodeHash :: "auth_lib \<Rightarrow> string \<Rightarrow> (Argon2Params \<times> string \<times> string) option" where
  "decodeHash C encoded = (case Split CHR ''$'' encoded of
     [p0, p1, p2, p3, p4, p5] \<Rightarrow>
       if p0 \<noteq> [] \<or> p1 \<noteq> ''argon2id'' then None
       else (case Sscanf_int ''v='' p2 of
         None \<Rightarrow> None
       | Some (version, _) \<Rightarrow>
           if version \<noteq> argon2_Version C then None
           else (case Sscanf_uints [(''m='', 32), ('',t='', 32), ('',p='', 8)] p3 of
             Some [memory, iterations, parallelism] \<Rightarrow> (case (base64_decode std_tail p4, base64_decode std_tail p5) of
               (Some salt, Some key) \<Rightarrow> Some (\<lparr>ap_Memory = memory, ap_Iterations = iterations, ap_Parallelism = parallelism,
                 ap_SaltLength = int (length salt), ap_KeyLength = int (length key)\<rparr>, salt, key)
             | _ \<Rightarrow> None)
           | _ \<Rightarrow> None))
   | _ \<Rightarrow> None)"

definition VerifyPassword :: "auth_lib \<Rightarrow> string \<Rightarrow> string \<Rightarrow> bool option" where
  "VerifyPassword C password encoded = (case decodeHash C encoded of
     None \<Rightarrow> None
   | Some (p, salt, key) \<Rightarrow>
       Some (key = argon2_IDKey C password salt (ap_Iterations p) (ap_Memory p) (ap_Parallelism p) (int (length key))))"

definition NeedsRehash :: "auth_lib \<Rightarrow> string \<Rightarrow> Argon2Params \<Rightarrow> bool" where
  "NeedsRehash C encoded p = (case decodeHash C encoded of
     None \<Rightarrow> True
   | Some (stored, salt, key) \<Rightarrow> ap_Memory stored < ap_Memory p \<or> ap_Iterations stored < ap_Iterations p \<or>
       ap_Parallelism stored < ap_Parallelism p \<or> int (length salt) < ap_SaltLength p \<or> int (length key) < ap_KeyLength p)"

definition params_ok :: "Argon2Params \<Rightarrow> bool" where
  "params_ok p \<longleftrightarrow> 0 \<le> ap_Memory p \<and> ap_Memory p < 2 ^ 32 \<and> 0 \<le> ap_Iterations p \<and> ap_Iterations p < 2 ^ 32 \<and>
     0 \<le> ap_Parallelism p \<and> ap_Parallelism p < 2 ^ 8 \<and> 0 \<le> ap_KeyLength p"

lemma show_int_nonneg: "0 \<le> n \<Longrightarrow> show_int n = show_nat (nat n)"
  by (simp add: show_int_def)

lemma scan_int_show_int:
  assumes "0 \<le> n" and "n < 2 ^ 63"
  shows "scan_int (show_int n) = Some (n, [])"
  using scan_int_show [of "nat n" "[]"] assms by (simp add: show_int_nonneg)

lemma scan_uint_show_int:
  assumes "0 \<le> n" and "n < 2 ^ bits" and "rest = [] \<or> \<not> is_digit (hd rest)"
  shows "scan_uint bits (show_int n @ rest) = Some (n, rest)"
  using scan_uint_show [of "nat n" bits rest] assms by (simp add: show_int_nonneg)

lemma no_dollar:
  "CHR ''$'' \<notin> set (base64_encode std_tail b)" "0 \<le> n \<Longrightarrow> CHR ''$'' \<notin> set (show_int n)"
proof -
  show "CHR ''$'' \<notin> set (base64_encode std_tail b)"
  proof
    assume "CHR ''$'' \<in> set (base64_encode std_tail b)"
    from base64_encode_chars [OF good_tails(1) this] obtain n where n: "n < 64" "CHR ''$'' = encode_char std_tail n" by auto
    from decode_encode_char [OF good_tails(1) n(1)] n(2) [symmetric] have "decode_char std_tail CHR ''$'' = Some n" by simp
    moreover have "decode_char std_tail CHR ''$'' = None" by code_simp
    ultimately show False by simp
  qed
  show "0 \<le> n \<Longrightarrow> CHR ''$'' \<notin> set (show_int n)"
    by (simp add: show_int_nonneg show_nat_no_sep is_digit_def)
qed

lemma decodeHash_HashPassword:
  fixes password salt :: string
  assumes C: "auth_lib_contract C" and p: "params_ok p"
  defines "key \<equiv> argon2_IDKey C password salt (ap_Iterations p) (ap_Memory p) (ap_Parallelism p) (ap_KeyLength p)"
  shows "decodeHash C (HashPassword_with C password p salt) =
    Some (p\<lparr>ap_SaltLength := int (length salt), ap_KeyLength := int (length key)\<rparr>, salt, key)"
proof -
  let ?v = "''v='' @ show_int (argon2_Version C)"
  let ?m = "''m='' @ show_int (ap_Memory p) @ '',t='' @ show_int (ap_Iterations p) @ '',p='' @ show_int (ap_Parallelism p)"
  have v: "0 \<le> argon2_Version C" "argon2_Version C < 2 ^ 63" using C by (simp_all add: auth_lib_contract_def)
  have "Split CHR ''$'' (HashPassword_with C password p salt) =
      [[], ''argon2id'', ?v, ?m, base64_encode std_tail salt, base64_encode std_tail key]"
  proof -
    have "HashPassword_with C password p salt = [] @ CHR ''$'' # ''argon2id'' @ CHR ''$'' # ?v @ CHR ''$'' # ?m @ CHR ''$'' #
        base64_encode std_tail salt @ CHR ''$'' # base64_encode std_tail key"
      by (simp add: HashPassword_with_def Let_def key_def)
    moreover have "CHR ''$'' \<notin> set ?v" "CHR ''$'' \<notin> set ?m" "CHR ''$'' \<notin> set []" "CHR ''$'' \<notin> set ''argon2id''"
      using v p by (auto simp: no_dollar params_ok_def)
    ultimately show ?thesis by (simp only: Split_six no_dollar(1) not_False_eq_True)
  qed
  moreover have "Sscanf_int ''v='' ?v = Some (argon2_Version C, [])"
    using v by (simp add: Sscanf_int_def HasPrefix_def scan_int_show_int)
  moreover have "Sscanf_uints [(''m='', 32), ('',t='', 32), ('',p='', 8)] ?m =
      Some [ap_Memory p, ap_Iterations p, ap_Parallelism p]"
    using p scan_uint_show_int [of "ap_Parallelism p" 8 "[]"]
    by (simp add: params_ok_def HasPrefix_def scan_uint_show_int is_digit_def)
  ultimately show ?thesis unfolding decodeHash_def by (simp add: base64_roundtrip)
qed

text \<open>
  Password hashes round-trip: the password that was hashed verifies, another one only if argon2 gives it the same key, and
  a fresh hash never needs to be made again with the same parameters.
\<close>

theorem VerifyPassword_HashPassword:
  assumes "auth_lib_contract C" and "params_ok p" and "int (length salt) = ap_SaltLength p"
  shows "VerifyPassword C password (HashPassword_with C password p salt) = Some True \<and>
    \<not> NeedsRehash C (HashPassword_with C password p salt) p \<and>
    (VerifyPassword C other (HashPassword_with C password p salt) = Some True \<longleftrightarrow>
      argon2_IDKey C other salt (ap_Iterations p) (ap_Memory p) (ap_Parallelism p) (ap_KeyLength p) =
      argon2_IDKey C password salt (ap_Iterations p) (ap_Memory p) (ap_Parallelism p) (ap_KeyLength p))"
proof -
  have len: "int (length (argon2_IDKey C pw s t m l (ap_KeyLength p))) = ap_KeyLength p" for pw s t m l
    using assms(1,2) by (simp add: auth_lib_contract_def params_ok_def)
  show ?thesis
    unfolding VerifyPassword_def NeedsRehash_def decodeHash_HashPassword [OF assms(1,2)]
    using assms(3) by (auto simp: len)
qed

theorem VerifyPassword_HashPassword_witness:
  "VerifyPassword sample_auth ''secret'' (HashPassword_with sample_auth ''secret'' DefaultArgon2Params (replicate 16 CHR ''s'')) = Some True"
proof -
  have "params_ok DefaultArgon2Params" "int (length (replicate 16 CHR ''s'')) = ap_SaltLength DefaultArgon2Params"
    by (simp_all add: params_ok_def DefaultArgon2Params_def)
  from VerifyPassword_HashPassword [OF sample_auth_contract this] show ?thesis by blast
qed

end
