(* ===== verification/Auth_Store.thy ===== *)
theory Auth_Store
  imports Backend Auth_Tokens
begin

text \<open>
  The store of the package \<open>auth\<close>, \<open>backend/internal/auth/store.go\<close>: each operation is a transaction of the model of the
  database, with the error texts and the sentinel errors of the code, and the idempotency lock, which serialises
  the callers of one key.
\<close>

section \<open>Records\<close>

record User =
  u_ID :: uuid
  u_Email :: string
  u_PasswordHash :: string
  u_CreatedAt :: time
  u_DisabledAt :: "time option"

record RefreshTokenRecord =
  tr_ID :: uuid
  tr_UserID :: uuid
  tr_FamilyID :: uuid
  tr_TokenHash :: bytes
  tr_ExpiresAt :: time
  tr_RevokedAt :: "time option"
  tr_ReplacedBy :: "uuid option"

record IdempotencyRecord =
  ir_Scope :: uuid
  ir_Key :: string
  ir_Method :: string
  ir_Path :: string
  ir_RequestHash :: bytes
  ir_Status :: int
  ir_Body :: bytes
  ir_ExpiresAt :: time

definition zero_User :: User where
  "zero_User = \<lparr>u_ID = [], u_Email = [], u_PasswordHash = [], u_CreatedAt = 0, u_DisabledAt = None\<rparr>"

definition zero_RefreshTokenRecord :: RefreshTokenRecord where
  "zero_RefreshTokenRecord = \<lparr>tr_ID = [], tr_UserID = [], tr_FamilyID = [], tr_TokenHash = [], tr_ExpiresAt = 0,
     tr_RevokedAt = None, tr_ReplacedBy = None\<rparr>"

definition userFromRow :: "BosunUser \<Rightarrow> User" where
  "userFromRow row = \<lparr>u_ID = bu_ID row, u_Email = bu_Email row, u_PasswordHash = bu_PasswordHash row,
     u_CreatedAt = bu_CreatedAt row, u_DisabledAt = bu_DisabledAt row\<rparr>"

definition tokenFromRow :: "BosunRefreshToken \<Rightarrow> RefreshTokenRecord" where
  "tokenFromRow row = \<lparr>tr_ID = rt_ID row, tr_UserID = rt_UserID row, tr_FamilyID = rt_FamilyID row, tr_TokenHash = rt_TokenHash row,
     tr_ExpiresAt = rt_ExpiresAt row, tr_RevokedAt = rt_RevokedAt row, tr_ReplacedBy = rt_ReplacedBy row\<rparr>"

definition insertParams :: "RefreshTokenRecord \<Rightarrow> BosunRefreshToken" where
  "insertParams rec = \<lparr>rt_ID = tr_ID rec, rt_UserID = tr_UserID rec, rt_FamilyID = tr_FamilyID rec, rt_TokenHash = tr_TokenHash rec,
     rt_IssuedAt = 0, rt_ExpiresAt = tr_ExpiresAt rec, rt_RevokedAt = None, rt_ReplacedBy = None\<rparr>"

definition idempotencyFromRow :: "BosunIdempotencyKey \<Rightarrow> IdempotencyRecord" where
  "idempotencyFromRow row = \<lparr>ir_Scope = ik_UserID row, ir_Key = ik_Key row, ir_Method = ik_Method row, ir_Path = ik_Path row,
     ir_RequestHash = ik_RequestHash row, ir_Status = ik_ResponseStatus row, ir_Body = ik_ResponseBody row,
     ir_ExpiresAt = ik_ExpiresAt row\<rparr>"

definition sql_result :: "string \<Rightarrow> sql_error + 'a \<Rightarrow> ('a \<Rightarrow> 'r tx_result) \<Rightarrow> 'r tx_result" where
  "sql_result label r f = (case r of Inl e \<Rightarrow> TxFail (Wrapped label (SqlError e)) | Inr x \<Rightarrow> f x)"

section \<open>Users\<close>

definition create_user_tx :: "auth_lib \<Rightarrow> uuid \<Rightarrow> string \<Rightarrow> string \<Rightarrow> User tx_step list" where
  "create_user_tx C i email hash = [(''insert user'', \<lambda>now d r. case CreateUser_sql (sql_lower C) now i email hash d of
     Inl UniqueViolation \<Rightarrow> TxFail ErrEmailTaken
   | Inl e \<Rightarrow> TxFail (Wrapped ''insert user'' (SqlError e))
   | Inr (row, d') \<Rightarrow> TxGo d' (userFromRow row))]"

definition CreateUser :: "auth_lib \<Rightarrow> backend_api \<Rightarrow> uuid \<Rightarrow> string \<Rightarrow> string \<Rightarrow> (backend_error + User) backend" where
  "CreateUser C A i email hash = db_run A ''CreateUser'' (create_user_tx C i email hash) zero_User"

definition GetUserByEmail :: "auth_lib \<Rightarrow> backend_api \<Rightarrow> string \<Rightarrow> (backend_error + User) backend" where
  "GetUserByEmail C A email = db_run A ''GetUserByEmail'' [(''get user by email'', \<lambda>now d r.
     case GetUserByEmail_sql (sql_lower C) email d of None \<Rightarrow> TxFail ErrUserNotFound | Some row \<Rightarrow> TxGo d (userFromRow row))] zero_User"

definition GetUserByID :: "backend_api \<Rightarrow> uuid \<Rightarrow> (backend_error + User) backend" where
  "GetUserByID A i = db_run A ''GetUserByID'' [(''get user by id'', \<lambda>now d r.
     case GetUserByID_sql i d of None \<Rightarrow> TxFail ErrUserNotFound | Some row \<Rightarrow> TxGo d (userFromRow row))] zero_User"

definition password_tx :: "uuid \<Rightarrow> string \<Rightarrow> unit tx_step list" where
  "password_tx i hash = [(''update password hash'', \<lambda>now d r. TxGo (UpdateUserPasswordHash i hash d) r)]"

definition UpdatePasswordHash :: "backend_api \<Rightarrow> uuid \<Rightarrow> string \<Rightarrow> (backend_error + unit) backend" where
  "UpdatePasswordHash A i hash = db_run A ''UpdatePasswordHash'' (password_tx i hash) ()"

definition ListUserIDs :: "backend_api \<Rightarrow> (backend_error + string list) backend" where
  "ListUserIDs A = db_run A ''ListUserIDs'' [(''list user ids'', \<lambda>now d r. TxGo d (ListUserIDs_sql d))] []"

section \<open>Refresh tokens\<close>

definition insert_token_tx :: "RefreshTokenRecord \<Rightarrow> unit tx_step list" where
  "insert_token_tx rec = [(''insert refresh token'', \<lambda>now d r.
     sql_result ''insert refresh token'' (InsertRefreshToken_sql now (insertParams rec) d) (\<lambda>d'. TxGo d' r))]"

definition InsertRefreshToken :: "backend_api \<Rightarrow> RefreshTokenRecord \<Rightarrow> (backend_error + unit) backend" where
  "InsertRefreshToken A rec = db_run A ''InsertRefreshToken'' (insert_token_tx rec) ()"

definition GetRefreshTokenByHash :: "backend_api \<Rightarrow> bytes \<Rightarrow> (backend_error + RefreshTokenRecord) backend" where
  "GetRefreshTokenByHash A hash = db_run A ''GetRefreshTokenByHash'' [(''get refresh token'', \<lambda>now d r.
     case GetRefreshTokenByHash_sql hash d of None \<Rightarrow> TxFail ErrRefreshTokenNotFound | Some row \<Rightarrow> TxGo d (tokenFromRow row))]
     zero_RefreshTokenRecord"

definition rotate_tx :: "uuid \<Rightarrow> RefreshTokenRecord \<Rightarrow> bool tx_step list" where
  "rotate_tx oldID replacement = [(''begin rotation tx'', tx_nop),
     (''insert rotated token'', \<lambda>now d r.
        sql_result ''insert rotated token'' (InsertRefreshToken_sql now (insertParams replacement) d) (\<lambda>d'. TxGo d' r)),
     (''rotate old token'', \<lambda>now d r. case RotateRefreshToken_sql now oldID (tr_ID replacement) d of
        (None, _) \<Rightarrow> TxEnd False | (Some _, d') \<Rightarrow> TxGo d' True),
     (''commit rotation'', tx_nop)]"

definition RotateRefreshToken :: "backend_api \<Rightarrow> uuid \<Rightarrow> RefreshTokenRecord \<Rightarrow> (backend_error + bool) backend" where
  "RotateRefreshToken A oldID replacement = db_run A ''RotateRefreshToken'' (rotate_tx oldID replacement) False"

definition revoke_tx :: "uuid \<Rightarrow> unit tx_step list" where
  "revoke_tx familyID = [(''revoke refresh token family'', \<lambda>now d r. TxGo (RevokeRefreshTokenFamily_sql now familyID d) r)]"

definition RevokeRefreshTokenFamily :: "backend_api \<Rightarrow> uuid \<Rightarrow> (backend_error + unit) backend" where
  "RevokeRefreshTokenFamily A familyID = db_run A ''RevokeRefreshTokenFamily'' (revoke_tx familyID) ()"

section \<open>Idempotency keys\<close>

definition GetIdempotencyKey :: "backend_api \<Rightarrow> uuid \<Rightarrow> string \<Rightarrow> (backend_error + IdempotencyRecord option) backend" where
  "GetIdempotencyKey A scope key = db_run A ''GetIdempotencyKey'' [(''get idempotency key'', \<lambda>now d r.
     TxGo d (map_option idempotencyFromRow (GetIdempotencyKey_sql now scope key d)))] None"

definition idempotency_row :: "IdempotencyRecord \<Rightarrow> BosunIdempotencyKey" where
  "idempotency_row rec = \<lparr>ik_UserID = ir_Scope rec, ik_Key = ir_Key rec, ik_Method = ir_Method rec, ik_Path = ir_Path rec,
     ik_RequestHash = ir_RequestHash rec, ik_ResponseStatus = ir_Status rec, ik_ResponseBody = ir_Body rec,
     ik_CreatedAt = 0, ik_ExpiresAt = ir_ExpiresAt rec\<rparr>"

definition insert_key_tx :: "IdempotencyRecord \<Rightarrow> bool tx_step list" where
  "insert_key_tx rec = [(''insert idempotency key'', \<lambda>now d r.
     case InsertIdempotencyKey_sql now (idempotency_row rec) d of (rows, d') \<Rightarrow> TxGo d' (rows = 1))]"

definition InsertIdempotencyKey :: "backend_api \<Rightarrow> IdempotencyRecord \<Rightarrow> (backend_error + bool) backend" where
  "InsertIdempotencyKey A rec = db_run A ''InsertIdempotencyKey'' (insert_key_tx rec) False"

text \<open>
  \<open>WithIdempotencyLock\<close>: the error of the callback wins over that of the unlock. \<open>zero\<close> is the value of the caller's
  variables before the callback ran.
\<close>

definition WithIdempotencyLock :: "backend_api \<Rightarrow> 'a \<Rightarrow> ('a \<times> backend_error option) backend \<Rightarrow> ('a \<times> backend_error option) backend" where
  "WithIdempotencyLock A zero fn = do {
     l \<leftarrow> db_run A ''idempotency lock'' [(''acquire idempotency lock connection'', tx_nop), (''acquire idempotency lock'', tx_nop)] ();
     case l of
       Inl e \<Rightarrow> State_Monad.return (zero, Some e)
     | Inr _ \<Rightarrow> do {
         (x, callbackErr) \<leftarrow> fn;
         u \<leftarrow> db_run A ''idempotency unlock'' [(''release idempotency lock'', tx_nop)] ();
         State_Monad.return (x, case (callbackErr, u) of (Some e, _) \<Rightarrow> Some e | (None, Inl e) \<Rightarrow> Some e | (None, Inr _) \<Rightarrow> None) } }"

end
