(* ===== verification/Session_Store.thy ===== *)
theory Session_Store
  imports Auth_Store
begin

text \<open>
  The data and the store of the package \<open>session\<close> of the backend, \<open>backend/internal/session/types.go\<close> and
  \<open>store.go\<close>. Every operation is a transaction (or a query) of the model of the database. The functions of other
  modules are the record \<open>session_lib\<close>: \<open>encoding/json\<close> on conditions and on the values the package marshals, the parser of
  quantities, of UUIDs, the formatter of RFC 3339 times, and the number of further attempts of \<open>retry.DefaultBackoff\<close>.
\<close>

section \<open>Data\<close>

definition MaxSessionsPerUser :: int where
  "MaxSessionsPerUser = 20"

record Provider =
  pr_Mode :: string
  pr_CredentialID :: "uuid option"

record Session =
  ss_ID :: uuid
  ss_UserID :: uuid
  ss_Name :: string
  ss_Priority :: string
  ss_MemoryRequestBytes :: int
  ss_CRNamespace :: string
  ss_CRName :: string
  ss_Runtime :: string
  ss_Provider :: Provider
  ss_StoragePolicy :: string
  ss_DesiredState :: string
  ss_ResumeNonce :: uuid
  ss_Phase :: string
  ss_PhaseReason :: string
  ss_Conditions :: "Condition list"
  ss_LastActiveAt :: "time option"
  ss_CRResourceVersion :: int
  ss_CreatedAt :: time
  ss_UpdatedAt :: time
  ss_DeletedAt :: "time option"
  ss_Version :: int

record ProviderRequest =
  pq_Mode :: string
  pq_CredentialID :: string

record CreateRequest =
  cq_Name :: string
  cq_Priority :: string
  cq_MemoryRequest :: string
  cq_Runtime :: string
  cq_Provider :: ProviderRequest
  cq_StoragePolicy :: string

record Page =
  pg_Items :: "Session list"
  pg_Total :: int

record IdempotencyInput =
  ii_Key :: string
  ii_Method :: string
  ii_Path :: string
  ii_RequestHash :: bytes
  ii_Status :: int
  ii_Body :: bytes
  ii_ExpiresAt :: time

record Event =
  ev_ID :: uuid
  ev_SessionID :: uuid
  ev_Type :: string
  ev_Payload :: bytes
  ev_OccurredAt :: time

record Projection =
  pj_SessionID :: uuid
  pj_Phase :: string
  pj_PhaseReason :: string
  pj_Conditions :: "Condition list"
  pj_LastActiveAt :: "time option"
  pj_ResourceVersion :: int
  pj_OccurredAt :: time

text \<open>The response body of a session, \<open>dto.go\<close>.\<close>

record ProviderDTO =
  dp_Mode :: string
  dp_CredentialID :: string

record DTO =
  dt_ID :: string
  dt_Name :: string
  dt_Priority :: string
  dt_MemoryRequest :: string
  dt_DesiredState :: string
  dt_Runtime :: string
  dt_Provider :: ProviderDTO
  dt_StoragePolicy :: string
  dt_Phase :: string
  dt_PhaseReason :: string
  dt_LastActiveAt :: string
  dt_Conditions :: "Condition list"
  dt_CreatedAt :: string

text \<open>The values the package passes to \<open>json.Marshal\<close> as the payload of an event.\<close>

datatype payload_value = PayloadString string | PayloadInt int | PayloadBool bool

record session_lib =
  Marshal_conditions :: "Condition list \<Rightarrow> bytes option"
  Unmarshal_conditions :: "bytes \<Rightarrow> Condition list option"
  Marshal_payload :: "(string \<times> payload_value) list \<Rightarrow> bytes option"
  Marshal_envelope :: "DTO \<Rightarrow> bytes option"
  ParseQuantity :: "string \<Rightarrow> quantity option"
  uuid_Parse :: "string \<Rightarrow> uuid option"
  Format_RFC3339 :: "time \<Rightarrow> string"
  backoff_steps :: nat

section \<open>Rows\<close>

definition sessionFromRow :: "session_lib \<Rightarrow> BosunSession \<Rightarrow> backend_error + Session" where
  "sessionFromRow K row = (case Unmarshal_conditions K (bs_Conditions row) of
     None \<Rightarrow> Inl (Wrapped (''decode session '' @ bs_ID row @ '' conditions'') (Failure ''json''))
   | Some conditions \<Rightarrow> Inr \<lparr>
       ss_ID = bs_ID row, ss_UserID = bs_UserID row, ss_Name = bs_DisplayName row, ss_Priority = bs_Priority row,
       ss_MemoryRequestBytes = bs_MemoryRequestBytes row, ss_CRNamespace = bs_CrNamespace row, ss_CRName = bs_CrName row,
       ss_Runtime = bs_Runtime row,
       ss_Provider = \<lparr>pr_Mode = bs_ProviderMode row, pr_CredentialID = bs_ProviderCredentialID row\<rparr>,
       ss_StoragePolicy = bs_StoragePolicy row, ss_DesiredState = bs_DesiredState row, ss_ResumeNonce = bs_ResumeNonce row,
       ss_Phase = bs_Phase row, ss_PhaseReason = bs_PhaseReason row, ss_Conditions = conditions,
       ss_LastActiveAt = bs_LastActiveAt row, ss_CRResourceVersion = bs_CrResourceVersion row,
       ss_CreatedAt = bs_CreatedAt row, ss_UpdatedAt = bs_UpdatedAt row, ss_DeletedAt = bs_DeletedAt row,
       ss_Version = bs_Version row\<rparr>)"

fun sessionsFromRows :: "session_lib \<Rightarrow> BosunSession list \<Rightarrow> backend_error + Session list" where
  "sessionsFromRows K [] = Inr []"
| "sessionsFromRows K (row # rows) = (case sessionFromRow K row of
     Inl e \<Rightarrow> Inl e
   | Inr item \<Rightarrow> (case sessionsFromRows K rows of Inl e \<Rightarrow> Inl e | Inr items \<Rightarrow> Inr (item # items)))"

definition session_params :: "Session \<Rightarrow> bytes \<Rightarrow> CreateSessionParams" where
  "session_params s conditions = \<lparr>cs_ID = ss_ID s, cs_UserID = ss_UserID s, cs_CrNamespace = ss_CRNamespace s, cs_CrName = ss_CRName s,
     cs_DisplayName = ss_Name s, cs_Priority = ss_Priority s, cs_MemoryRequestBytes = ss_MemoryRequestBytes s,
     cs_Runtime = ss_Runtime s, cs_ProviderMode = pr_Mode (ss_Provider s),
     cs_ProviderCredentialID = pr_CredentialID (ss_Provider s), cs_StoragePolicy = ss_StoragePolicy s,
     cs_DesiredState = ss_DesiredState s, cs_ResumeNonce = ss_ResumeNonce s, cs_Phase = ss_Phase s,
     cs_PhaseReason = ss_PhaseReason s, cs_Conditions = conditions, cs_LastActiveAt = ss_LastActiveAt s,
     cs_CreatedAt = ss_CreatedAt s\<rparr>"

definition event_row :: "Event \<Rightarrow> BosunSessionEvent" where
  "event_row e = \<lparr>be_ID = ev_ID e, be_SessionID = ev_SessionID e, be_Type = ev_Type e, be_Payload = ev_Payload e,
     be_OccurredAt = ev_OccurredAt e\<rparr>"

text \<open>\<open>int32(idem.Status)\<close>: the conversion keeps the low 32 bits.\<close>

definition i32 :: "int \<Rightarrow> int" where
  "i32 x = (x + 2 ^ 31) mod 2 ^ 32 - 2 ^ 31"

definition key_row :: "uuid \<Rightarrow> IdempotencyInput \<Rightarrow> BosunIdempotencyKey" where
  "key_row userID idem = \<lparr>ik_UserID = userID, ik_Key = ii_Key idem, ik_Method = ii_Method idem, ik_Path = ii_Path idem,
     ik_RequestHash = ii_RequestHash idem, ik_ResponseStatus = i32 (ii_Status idem), ik_ResponseBody = ii_Body idem,
     ik_CreatedAt = 0, ik_ExpiresAt = ii_ExpiresAt idem\<rparr>"

definition insertEvent :: "Event \<Rightarrow> time \<Rightarrow> database \<Rightarrow> 'r \<Rightarrow> 'r tx_result" where
  "insertEvent e now d r =
     sql_result (''insert session event '' @ ev_Type e) (InsertSessionEvent (event_row e) d) (\<lambda>d'. TxGo d' r)"

section \<open>Creation\<close>

definition create_tx :: "session_lib \<Rightarrow> Session \<Rightarrow> Event \<Rightarrow> IdempotencyInput \<Rightarrow> unit tx_step list" where
  "create_tx K session event idem = [
     (''begin create session transaction'', tx_nop),
     (''lock active session capacity'', tx_nop),
     (''recheck session capacity'', \<lambda>now d r.
        if CountSessionsForUser (ss_UserID session) d \<ge> MaxSessionsPerUser then TxFail ErrCapacity else TxGo d r),
     (''insert session'', \<lambda>now d r. case Marshal_conditions K (ss_Conditions session) of
        None \<Rightarrow> TxFail (Wrapped ''marshal initial conditions'' (Failure ''json''))
      | Some conditions \<Rightarrow> sql_result ''insert session'' (CreateSession (session_params session conditions) d) (\<lambda>(row, d'). TxGo d' r)),
     (''insert session event '' @ ev_Type event, insertEvent event),
     (''insert session idempotency response'', \<lambda>now d r.
        case InsertIdempotencyKey_sql now (key_row (ss_UserID session) idem) d of (rows, d') \<Rightarrow>
          if rows \<noteq> 1 then TxFail (Failure ''active idempotency key appeared while lock was held'') else TxGo d' r),
     (''commit create session transaction'', tx_nop)]"

definition CreateWithEventAndIdempotency :: "session_lib \<Rightarrow> backend_api \<Rightarrow> Session \<Rightarrow> Event \<Rightarrow> IdempotencyInput \<Rightarrow>
    (backend_error + unit) backend" where
  "CreateWithEventAndIdempotency K A session event idem =
     db_run A ''CreateWithEventAndIdempotency'' (create_tx K session event idem) ()"

section \<open>Queries\<close>

definition CountTotal :: "backend_api \<Rightarrow> uuid \<Rightarrow> (backend_error + int) backend" where
  "CountTotal A userID = db_run A ''CountTotal'' [(''count sessions'', \<lambda>now d r. TxGo d (CountSessionsForUser userID d))] 0"

text \<open>A query of one row; \<open>None\<close> where there is none.\<close>

definition row_query :: "backend_api \<Rightarrow> string \<Rightarrow> string \<Rightarrow> (database \<Rightarrow> BosunSession option) \<Rightarrow>
    (backend_error + BosunSession option) backend" where
  "row_query A name label q = db_run A name [(label, \<lambda>now d r. TxGo d (q d))] None"

definition store_Get :: "session_lib \<Rightarrow> backend_api \<Rightarrow> uuid \<Rightarrow> uuid \<Rightarrow> (backend_error + Session) backend" where
  "store_Get K A userID sessionID = do {
     r \<leftarrow> row_query A ''Get'' ''get session'' (GetSessionForUser sessionID userID);
     State_Monad.return (case r of
       Inl e \<Rightarrow> Inl e
     | Inr None \<Rightarrow> Inl ErrSessionNotFound
     | Inr (Some row) \<Rightarrow> sessionFromRow K row) }"

definition GetByID :: "session_lib \<Rightarrow> backend_api \<Rightarrow> uuid \<Rightarrow> (backend_error + Session) backend" where
  "GetByID K A sessionID = do {
     r \<leftarrow> row_query A ''GetByID'' ''get session by ID'' (GetSessionByID sessionID);
     State_Monad.return (case r of
       Inl e \<Rightarrow> Inl e
     | Inr None \<Rightarrow> Inl ErrSessionNotFound
     | Inr (Some row) \<Rightarrow> if bs_DeletedAt row \<noteq> None then Inl ErrSessionNotFound else sessionFromRow K row) }"

definition rows_query :: "backend_api \<Rightarrow> string \<Rightarrow> string \<Rightarrow> (database \<Rightarrow> sql_error + BosunSession list) \<Rightarrow>
    (backend_error + BosunSession list) backend" where
  "rows_query A name label q = db_run A name [(label, \<lambda>now d r. sql_result label (q d) (\<lambda>rows. TxGo d rows))] []"

definition store_List :: "session_lib \<Rightarrow> backend_api \<Rightarrow> uuid \<Rightarrow> int \<Rightarrow> int \<Rightarrow> (backend_error + Page) backend" where
  "store_List K A userID limit offset = do {
     r \<leftarrow> rows_query A ''List'' ''list sessions'' (ListSessionsForUser userID limit offset);
     case r of
       Inl e \<Rightarrow> State_Monad.return (Inl e)
     | Inr rows \<Rightarrow> (case sessionsFromRows K rows of
         Inl e \<Rightarrow> State_Monad.return (Inl e)
       | Inr items \<Rightarrow> do {
           c \<leftarrow> CountTotal A userID;
           State_Monad.return (case c of Inl e \<Rightarrow> Inl e | Inr n \<Rightarrow> Inr \<lparr>pg_Items = items, pg_Total = n\<rparr>) }) }"

definition ListPending :: "session_lib \<Rightarrow> backend_api \<Rightarrow> int \<Rightarrow> (backend_error + Session list) backend" where
  "ListPending K A limit = do {
     r \<leftarrow> rows_query A ''ListPending'' ''list pending sessions'' (ListPendingSessions limit);
     State_Monad.return (case r of Inl e \<Rightarrow> Inl e | Inr rows \<Rightarrow> sessionsFromRows K rows) }"

definition ListDeleting :: "session_lib \<Rightarrow> backend_api \<Rightarrow> int \<Rightarrow> (backend_error + Session list) backend" where
  "ListDeleting K A limit = do {
     r \<leftarrow> rows_query A ''ListDeleting'' ''list deleting sessions'' (ListDeletingSessions limit);
     State_Monad.return (case r of Inl e \<Rightarrow> Inl e | Inr rows \<Rightarrow> sessionsFromRows K rows) }"

section \<open>Changes\<close>

definition update_desired_tx :: "Session \<Rightarrow> Event \<Rightarrow> BosunSession option tx_step list" where
  "update_desired_tx session event = [
     (''begin desired state transaction'', tx_nop),
     (''update session desired state'', \<lambda>now d r. sql_result ''update session desired state''
        (UpdateSessionDesiredState (ss_ID session) (ss_UserID session) (ss_DesiredState session) (ss_ResumeNonce session)
          (ss_LastActiveAt session) (ss_UpdatedAt session) (ss_Version session) d)
        (\<lambda>(row, d'). case row of None \<Rightarrow> TxFail ErrConcurrentUpdate | Some x \<Rightarrow> TxGo d' (Some x))),
     (''insert session event '' @ ev_Type event, insertEvent event),
     (''commit desired state transaction'', tx_nop)]"

text \<open>The row of a transaction that committed, decoded.\<close>

definition committed_row :: "session_lib \<Rightarrow> backend_error + BosunSession option \<Rightarrow> backend_error + Session" where
  "committed_row K r = (case r of
     Inl e \<Rightarrow> Inl e
   | Inr None \<Rightarrow> Inl ErrSessionNotFound
   | Inr (Some row) \<Rightarrow> sessionFromRow K row)"

definition UpdateDesired :: "session_lib \<Rightarrow> backend_api \<Rightarrow> Session \<Rightarrow> Event \<Rightarrow> (backend_error + Session) backend" where
  "UpdateDesired K A session event = do {
     r \<leftarrow> db_run A ''UpdateDesired'' (update_desired_tx session event) None;
     State_Monad.return (committed_row K r) }"

definition soft_delete_tx :: "uuid \<Rightarrow> uuid \<Rightarrow> Event \<Rightarrow> BosunSession option tx_step list" where
  "soft_delete_tx userID sessionID event = [
     (''begin delete session transaction'', tx_nop),
     (''soft delete session'', \<lambda>now d r. case SoftDeleteSession sessionID userID (ev_OccurredAt event) d of
        (None, _) \<Rightarrow> TxFail ErrSessionNotFound | (Some x, d') \<Rightarrow> TxGo d' (Some x)),
     (''insert session event '' @ ev_Type event, insertEvent event),
     (''commit delete session transaction'', tx_nop)]"

definition SoftDelete :: "session_lib \<Rightarrow> backend_api \<Rightarrow> uuid \<Rightarrow> uuid \<Rightarrow> Event \<Rightarrow> (backend_error + Session) backend" where
  "SoftDelete K A userID sessionID event = do {
     r \<leftarrow> db_run A ''SoftDelete'' (soft_delete_tx userID sessionID event) None;
     State_Monad.return (committed_row K r) }"

definition project_tx :: "session_lib \<Rightarrow> Projection \<Rightarrow> Event \<Rightarrow> bool tx_step list" where
  "project_tx K projection event = [
     (''begin status projection transaction'', tx_nop),
     (''project session status'', \<lambda>now d r. case Marshal_conditions K (pj_Conditions projection) of
        None \<Rightarrow> TxFail (Wrapped ''marshal projected conditions'' (Failure ''json''))
      | Some conditions \<Rightarrow> (case ProjectSessionStatus (pj_SessionID projection) (pj_Phase projection) (pj_PhaseReason projection)
            conditions (pj_LastActiveAt projection) (pj_ResourceVersion projection) (pj_OccurredAt projection) d of
          (None, _) \<Rightarrow> TxEnd False | (Some _, d') \<Rightarrow> TxGo d' True)),
     (''insert session event '' @ ev_Type event, insertEvent event),
     (''commit status projection transaction'', tx_nop)]"

definition Project :: "session_lib \<Rightarrow> backend_api \<Rightarrow> Projection \<Rightarrow> Event \<Rightarrow> (backend_error + bool) backend" where
  "Project K A projection event = db_run A ''Project'' (project_tx K projection event) False"

definition cleanup_tx :: "uuid \<Rightarrow> Event \<Rightarrow> unit tx_step list" where
  "cleanup_tx sessionID event = [
     (''begin cleanup projection transaction'', tx_nop),
     (''mark session cleanup complete'', \<lambda>now d r. case MarkSessionCleanupComplete sessionID (ev_OccurredAt event) d of
        (rows, d') \<Rightarrow> if rows = 0 then TxEnd r else TxGo d' r),
     (''insert session event '' @ ev_Type event, insertEvent event),
     (''commit cleanup projection transaction'', tx_nop)]"

definition MarkCleanupComplete :: "backend_api \<Rightarrow> uuid \<Rightarrow> Event \<Rightarrow> (backend_error + unit) backend" where
  "MarkCleanupComplete A sessionID event = db_run A ''MarkCleanupComplete'' (cleanup_tx sessionID event) ()"

end
