(* ===== verification/Auth_Service.thy ===== *)
theory Auth_Service
  imports Auth_Store
begin

text \<open>
  The service of the package \<open>auth\<close>, \<open>backend/internal/auth/service.go\<close>, and the provisioning of user environments,
  \<open>backend/internal/userenv\<close>: registration, login, rotation of refresh tokens, logout, and the repair of missing environments.
  Logging and the constant-time dummy verification, which have no effect on the state or the result, are left out.
\<close>

section \<open>User environments\<close>

definition userenv_shortIDLength :: nat where
  "userenv_shortIDLength = 12"

definition userenv_ShortID :: "klib \<Rightarrow> string \<Rightarrow> string" where
  "userenv_ShortID L userID = take userenv_shortIDLength (hex_encode (sha256 L userID))"

definition userenv_Namespace :: "klib \<Rightarrow> string \<Rightarrow> string" where
  "userenv_Namespace L userID = ''bosun-u-'' @ userenv_ShortID L userID"

definition userenv_CRName :: "klib \<Rightarrow> string \<Rightarrow> string" where
  "userenv_CRName L userID = ''usr-'' @ userenv_ShortID L userID"

definition environment_cr :: "klib \<Rightarrow> string \<Rightarrow> UserEnvironment" where
  "environment_cr L userID = \<lparr>
     ue_Meta = zero_ObjectMeta\<lparr>om_Name := userenv_CRName L userID,
       om_Labels := [''app.kubernetes.io/managed-by'' \<mapsto> ''bosun'', ''bosun.io/user'' \<mapsto> userID]\<rparr>,
     ue_Spec = \<lparr>us_UserID = userID, us_Namespace = userenv_Namespace L userID, us_QuotaProfile = ''mvp''\<rparr>,
     ue_Status = \<lparr>ut_Phase = EnvPhaseUnset, ut_ObservedGeneration = 0, ut_Conditions = []\<rparr>\<rparr>"

definition env_Ensure :: "klib \<Rightarrow> backend_api \<Rightarrow> string \<Rightarrow> backend_error option backend" where
  "env_Ensure L A userID = do {
     r \<leftarrow> create_env A (environment_cr L userID);
     State_Monad.return (case r of
       None \<Rightarrow> None
     | Some e \<Rightarrow> if IsAlreadyExists e then None
         else Some (Wrapped (''create UserEnvironment '' @ userenv_CRName L userID) (KubeError e))) }"

fun show_env_phase :: "UserEnvironmentPhase \<Rightarrow> string" where
  "show_env_phase EnvPhaseUnset = []"
| "show_env_phase UserEnvironmentPhasePending = ''Pending''"
| "show_env_phase UserEnvironmentPhaseReady = ''Ready''"
| "show_env_phase UserEnvironmentPhaseFailed = ''Failed''"

definition env_Phase :: "klib \<Rightarrow> backend_api \<Rightarrow> string \<Rightarrow> (backend_error + string) backend" where
  "env_Phase L A userID = do {
     g \<leftarrow> get_env A ([], userenv_CRName L userID);
     State_Monad.return (case g of
       Inl e \<Rightarrow> if IsNotFound e then Inr ''Pending''
         else Inl (Wrapped (''get UserEnvironment '' @ userenv_CRName L userID) (KubeError e))
     | Inr ue \<Rightarrow> if ut_Phase (ue_Status ue) = EnvPhaseUnset then Inr ''Pending'' else Inr (show_env_phase (ut_Phase (ue_Status ue)))) }"

definition ExistingUserIDs :: "backend_api \<Rightarrow> (backend_error + string set) backend" where
  "ExistingUserIDs A = do {
     l \<leftarrow> list_env A;
     State_Monad.return (case l of
       Inl e \<Rightarrow> Inl (Wrapped ''list UserEnvironments'' (KubeError e))
     | Inr items \<Rightarrow> Inr (set (map (\<lambda>ue. us_UserID (ue_Spec ue)) items))) }"

fun ensure_missing :: "klib \<Rightarrow> backend_api \<Rightarrow> string set \<Rightarrow> string list \<Rightarrow> backend_error option backend" where
  "ensure_missing L A existing [] = State_Monad.return None"
| "ensure_missing L A existing (userID # userIDs) =
     (if userID \<in> existing then ensure_missing L A existing userIDs
      else do {
        r \<leftarrow> env_Ensure L A userID;
        case r of
          Some e \<Rightarrow> State_Monad.return (Some (Wrapped (''ensure environment for '' @ userID) e))
        | None \<Rightarrow> ensure_missing L A existing userIDs })"

definition userenv_RunOnce :: "klib \<Rightarrow> backend_api \<Rightarrow> backend_error option backend" where
  "userenv_RunOnce L A = do {
     us \<leftarrow> ListUserIDs A;
     case us of
       Inl e \<Rightarrow> State_Monad.return (Some (Wrapped ''list users'' e))
     | Inr userIDs \<Rightarrow> do {
         x \<leftarrow> ExistingUserIDs A;
         case x of
           Inl e \<Rightarrow> State_Monad.return (Some (Wrapped ''list existing environments'' e))
         | Inr existing \<Rightarrow> ensure_missing L A existing userIDs } }"

section \<open>Input checks\<close>

definition bootstrapAdmin :: string where
  "bootstrapAdmin = ''admin''"

definition LastIndex_at :: "string \<Rightarrow> int" where
  "LastIndex_at s = (if CHR ''@'' \<in> set s then int (length s) - 1 - int (length (takeWhile (\<lambda>c. c \<noteq> CHR ''@'') (rev s))) else - 1)"

definition normalizeEmail :: "auth_lib \<Rightarrow> string \<Rightarrow> backend_error + string" where
  "normalizeEmail C email =
     (let trimmed = TrimSpace email; at = LastIndex_at trimmed
      in if length trimmed < 3 \<or> length trimmed > 254 then Inl (Wrapped ''email length'' ErrAuthValidation)
         else if at \<le> 0 \<or> at = int (length trimmed) - 1 \<or> CHR '' '' \<in> set trimmed then Inl (Wrapped ''email format'' ErrAuthValidation)
         else Inr (ToLower C trimmed))"

definition normalizeLoginIdentifier :: "auth_lib \<Rightarrow> string \<Rightarrow> backend_error + string" where
  "normalizeLoginIdentifier C identifier =
     (let trimmed = TrimSpace identifier
      in if EqualFold C trimmed bootstrapAdmin then Inr bootstrapAdmin else normalizeEmail C trimmed)"

definition validatePassword :: "string \<Rightarrow> backend_error option" where
  "validatePassword password =
     (if length password < 8 \<or> length password > 200 then Some (Wrapped ''password length must be 8-200'' ErrAuthValidation) else None)"

section \<open>Tokens\<close>

record auth_config =
  ac_issuer :: JWTIssuer
  ac_argon :: Argon2Params
  ac_refreshTTL :: duration

record TokenResult =
  to_User :: User
  to_AccessToken :: string
  to_AccessExpiresAt :: time
  to_RefreshToken :: string
  to_RefreshExpiresAt :: time

record RegisterResult =
  rr_User :: User
  rr_EnvironmentPhase :: string

definition refreshTokenBytes :: nat where
  "refreshTokenBytes = 32"

definition HashRefreshToken :: "auth_lib \<Rightarrow> string \<Rightarrow> bytes" where
  "HashRefreshToken C raw = al_sha256 C raw"

definition NewRefreshToken :: "auth_lib \<Rightarrow> backend_api \<Rightarrow> (backend_error + string \<times> bytes) backend" where
  "NewRefreshToken C A = do {
     b \<leftarrow> rand_Read A refreshTokenBytes;
     State_Monad.return (case b of
       Inl e \<Rightarrow> Inl (Wrapped ''generate refresh token'' e)
     | Inr buf \<Rightarrow> let raw = base64_encode url_tail buf in Inr (raw, HashRefreshToken C raw)) }"

definition HashPassword :: "auth_lib \<Rightarrow> backend_api \<Rightarrow> string \<Rightarrow> Argon2Params \<Rightarrow> (backend_error + string) backend" where
  "HashPassword C A password p = do {
     b \<leftarrow> rand_Read A (nat (ap_SaltLength p));
     State_Monad.return (case b of
       Inl e \<Rightarrow> Inl (Wrapped ''generate salt'' e)
     | Inr salt \<Rightarrow> Inr (HashPassword_with C password p salt)) }"

text \<open>The last part of \<open>mintAndStore\<close>: the access token.\<close>

definition token_result :: "auth_lib \<Rightarrow> backend_api \<Rightarrow> auth_config \<Rightarrow> User \<Rightarrow> time \<Rightarrow> string \<Rightarrow> time \<Rightarrow> (backend_error + TokenResult) backend" where
  "token_result C A cfg user now rawRefresh refreshExpires = do {
     jti \<leftarrow> random_uuid A;
     State_Monad.return (Inr \<lparr>to_User = user, to_AccessToken = Sign C (ac_issuer cfg) (u_ID user) now jti,
       to_AccessExpiresAt = now + ji_ttl (ac_issuer cfg), to_RefreshToken = rawRefresh, to_RefreshExpiresAt = refreshExpires\<rparr>) }"

text \<open>Storing the new token: a rotation of the old one, or an insertion.\<close>

definition store_token :: "backend_api \<Rightarrow> uuid \<Rightarrow> RefreshTokenRecord option \<Rightarrow> RefreshTokenRecord \<Rightarrow> backend_error option backend" where
  "store_token A familyID old replacement = (case old of
     Some o1 \<Rightarrow> do {
       r \<leftarrow> RotateRefreshToken A (tr_ID o1) replacement;
       case r of
         Inl e \<Rightarrow> State_Monad.return (Some (Wrapped ''rotate refresh token'' e))
       | Inr won \<Rightarrow>
           if won then State_Monad.return None
           else do {
             _ \<leftarrow> RevokeRefreshTokenFamily A familyID;
             State_Monad.return (Some ErrInvalidCredentials) } }
   | None \<Rightarrow> do {
       r \<leftarrow> InsertRefreshToken A replacement;
       State_Monad.return (case r of Inl e \<Rightarrow> Some (Wrapped ''insert refresh token'' e) | Inr _ \<Rightarrow> None) })"

definition mintAndStore :: "auth_lib \<Rightarrow> backend_api \<Rightarrow> auth_config \<Rightarrow> User \<Rightarrow> uuid \<Rightarrow> RefreshTokenRecord option \<Rightarrow>
    (backend_error + TokenResult) backend" where
  "mintAndStore C A cfg user familyID old = do {
     now \<leftarrow> clock A;
     t \<leftarrow> NewRefreshToken C A;
     case t of Inl e \<Rightarrow> State_Monad.return (Inl e) | Inr (rawRefresh, refreshHash) \<Rightarrow> do {
     i \<leftarrow> new_uuid A;
     case i of Inl e \<Rightarrow> State_Monad.return (Inl (Wrapped ''generate refresh token id'' e)) | Inr tokenID \<Rightarrow> do {
     let refreshExpires = now + ac_refreshTTL cfg;
     r \<leftarrow> store_token A familyID old \<lparr>tr_ID = tokenID, tr_UserID = u_ID user, tr_FamilyID = familyID, tr_TokenHash = refreshHash,
       tr_ExpiresAt = refreshExpires, tr_RevokedAt = None, tr_ReplacedBy = None\<rparr>;
     case r of
       Some e \<Rightarrow> State_Monad.return (Inl e)
     | None \<Rightarrow> token_result C A cfg user now rawRefresh refreshExpires } } }"

definition issueTokens :: "auth_lib \<Rightarrow> backend_api \<Rightarrow> auth_config \<Rightarrow> User \<Rightarrow> (backend_error + TokenResult) backend" where
  "issueTokens C A cfg user = do {
     f \<leftarrow> new_uuid A;
     case f of
       Inl e \<Rightarrow> State_Monad.return (Inl (Wrapped ''generate family id'' e))
     | Inr familyID \<Rightarrow> mintAndStore C A cfg user familyID None }"

definition issueTokensRotating :: "auth_lib \<Rightarrow> backend_api \<Rightarrow> auth_config \<Rightarrow> User \<Rightarrow> RefreshTokenRecord \<Rightarrow> (backend_error + TokenResult) backend" where
  "issueTokensRotating C A cfg user old = mintAndStore C A cfg user (tr_FamilyID old) (Some old)"

section \<open>Operations\<close>

definition auth_createUser :: "klib \<Rightarrow> auth_lib \<Rightarrow> backend_api \<Rightarrow> auth_config \<Rightarrow> string \<Rightarrow> string \<Rightarrow> (backend_error + RegisterResult) backend" where
  "auth_createUser L C A cfg email password = (case validatePassword password of
     Some e \<Rightarrow> State_Monad.return (Inl e)
   | None \<Rightarrow> do {
       h \<leftarrow> HashPassword C A password (ac_argon cfg);
       case h of Inl e \<Rightarrow> State_Monad.return (Inl (Wrapped ''hash password'' e)) | Inr hash \<Rightarrow> do {
       i \<leftarrow> new_uuid A;
       case i of Inl e \<Rightarrow> State_Monad.return (Inl (Wrapped ''generate user id'' e)) | Inr newID \<Rightarrow> do {
       u \<leftarrow> CreateUser C A newID email hash;
       case u of Inl e \<Rightarrow> State_Monad.return (Inl e) | Inr user \<Rightarrow> do {
         _ \<leftarrow> env_Ensure L A (u_ID user);
         State_Monad.return (Inr \<lparr>rr_User = user, rr_EnvironmentPhase = ''Pending''\<rparr>) } } } })"

definition Register :: "klib \<Rightarrow> auth_lib \<Rightarrow> backend_api \<Rightarrow> auth_config \<Rightarrow> string \<Rightarrow> string \<Rightarrow> (backend_error + RegisterResult) backend" where
  "Register L C A cfg email password = (case normalizeEmail C email of
     Inl e \<Rightarrow> State_Monad.return (Inl e)
   | Inr normalized \<Rightarrow> auth_createUser L C A cfg normalized password)"

text \<open>The user of a login: looked up, or created for the bootstrap administrator.\<close>

definition bootstrap_user :: "klib \<Rightarrow> auth_lib \<Rightarrow> backend_api \<Rightarrow> auth_config \<Rightarrow> string \<Rightarrow> (backend_error + User) backend" where
  "bootstrap_user L C A cfg password = do {
     c \<leftarrow> auth_createUser L C A cfg bootstrapAdmin password;
     case c of
       Inr created \<Rightarrow> State_Monad.return (Inr (rr_User created))
     | Inl e \<Rightarrow>
         if errors_Is e ErrEmailTaken then do {
           u \<leftarrow> GetUserByEmail C A bootstrapAdmin;
           State_Monad.return (case u of
             Inl e' \<Rightarrow> Inl (Wrapped ''lookup concurrently bootstrapped admin'' e') | Inr user \<Rightarrow> Inr user) }
         else if errors_Is e ErrAuthValidation then State_Monad.return (Inl ErrInvalidCredentials)
         else State_Monad.return (Inl (Wrapped ''bootstrap admin'' e)) }"

definition login_user :: "klib \<Rightarrow> auth_lib \<Rightarrow> backend_api \<Rightarrow> auth_config \<Rightarrow> string \<Rightarrow> string \<Rightarrow> (backend_error + User) backend" where
  "login_user L C A cfg normalized password = do {
     u \<leftarrow> GetUserByEmail C A normalized;
     case u of
       Inr user \<Rightarrow> State_Monad.return (Inr user)
     | Inl e \<Rightarrow>
         if errors_Is e ErrUserNotFound
         then if normalized \<noteq> bootstrapAdmin then State_Monad.return (Inl ErrInvalidCredentials)
           else bootstrap_user L C A cfg password
         else State_Monad.return (Inl (Wrapped ''lookup user'' e)) }"

definition rehash :: "auth_lib \<Rightarrow> backend_api \<Rightarrow> auth_config \<Rightarrow> User \<Rightarrow> string \<Rightarrow> unit backend" where
  "rehash C A cfg user password =
     (if NeedsRehash C (u_PasswordHash user) (ac_argon cfg) then do {
        h \<leftarrow> HashPassword C A password (ac_argon cfg);
        case h of
          Inl _ \<Rightarrow> State_Monad.return ()
        | Inr newHash \<Rightarrow> do { _ \<leftarrow> UpdatePasswordHash A (u_ID user) newHash; State_Monad.return () } }
      else State_Monad.return ())"

definition Login :: "klib \<Rightarrow> auth_lib \<Rightarrow> backend_api \<Rightarrow> auth_config \<Rightarrow> string \<Rightarrow> string \<Rightarrow> (backend_error + TokenResult) backend" where
  "Login L C A cfg email password = (case normalizeLoginIdentifier C email of
     Inl _ \<Rightarrow> State_Monad.return (Inl ErrInvalidCredentials)
   | Inr normalized \<Rightarrow> do {
       u \<leftarrow> login_user L C A cfg normalized password;
       case u of
         Inl e \<Rightarrow> State_Monad.return (Inl e)
       | Inr user \<Rightarrow>
           if u_DisabledAt user \<noteq> None then State_Monad.return (Inl ErrInvalidCredentials)
           else if VerifyPassword C password (u_PasswordHash user) \<noteq> Some True then State_Monad.return (Inl ErrInvalidCredentials)
           else do {
             _ \<leftarrow> rehash C A cfg user password;
             issueTokens C A cfg user } })"

definition Refresh :: "auth_lib \<Rightarrow> backend_api \<Rightarrow> auth_config \<Rightarrow> string \<Rightarrow> (backend_error + TokenResult) backend" where
  "Refresh C A cfg rawToken =
     (if rawToken = [] then State_Monad.return (Inl ErrInvalidCredentials)
      else do {
        g \<leftarrow> GetRefreshTokenByHash A (HashRefreshToken C rawToken);
        case g of
          Inl e \<Rightarrow> State_Monad.return (Inl (if errors_Is e ErrRefreshTokenNotFound then ErrInvalidCredentials
            else Wrapped ''lookup refresh token'' e))
        | Inr rec \<Rightarrow>
            if tr_RevokedAt rec \<noteq> None then do {
              _ \<leftarrow> RevokeRefreshTokenFamily A (tr_FamilyID rec);
              State_Monad.return (Inl ErrInvalidCredentials) }
            else do {
              now \<leftarrow> clock A;
              if \<not> now < tr_ExpiresAt rec then State_Monad.return (Inl ErrRefreshExpired)
              else do {
                u \<leftarrow> GetUserByID A (tr_UserID rec);
                case u of
                  Inl e \<Rightarrow> State_Monad.return (Inl (if errors_Is e ErrUserNotFound then ErrInvalidCredentials
                    else Wrapped ''lookup user'' e))
                | Inr user \<Rightarrow> issueTokensRotating C A cfg user rec } } })"

definition Logout :: "auth_lib \<Rightarrow> backend_api \<Rightarrow> string \<Rightarrow> backend_error option backend" where
  "Logout C A rawToken =
     (if rawToken = [] then State_Monad.return None
      else do {
        g \<leftarrow> GetRefreshTokenByHash A (HashRefreshToken C rawToken);
        case g of
          Inl e \<Rightarrow> State_Monad.return (if errors_Is e ErrRefreshTokenNotFound then None else Some (Wrapped ''lookup refresh token'' e))
        | Inr rec \<Rightarrow> do {
            r \<leftarrow> RevokeRefreshTokenFamily A (tr_FamilyID rec);
            State_Monad.return (case r of Inl e \<Rightarrow> Some (Wrapped ''revoke family'' e) | Inr _ \<Rightarrow> None) } })"

record MeResult =
  me_User :: User
  me_EnvironmentPhase :: string

definition Me :: "klib \<Rightarrow> backend_api \<Rightarrow> uuid \<Rightarrow> (backend_error + MeResult) backend" where
  "Me L A userID = do {
     u \<leftarrow> GetUserByID A userID;
     case u of
       Inl e \<Rightarrow> State_Monad.return (Inl (if errors_Is e ErrUserNotFound then ErrInvalidCredentials else Wrapped ''lookup user'' e))
     | Inr user \<Rightarrow> do {
         p \<leftarrow> env_Phase L A (u_ID user);
         State_Monad.return (Inr \<lparr>me_User = user, me_EnvironmentPhase = (case p of Inl _ \<Rightarrow> ''Pending'' | Inr phase \<Rightarrow> phase)\<rparr>) } }"

end
