(* ===== verification/Session_Service.thy ===== *)
theory Session_Service
  imports Session_Store Auth_Service Session_Controller
begin

text \<open>
  The session service of the backend: the custom resources of sessions, \<open>backend/internal/session/kubernetes.go\<close>, the
  decision on idempotency keys, \<open>backend/internal/idempotency\<close>, the operations of \<open>service.go\<close>, the projection of the
  status of the resources into the database, \<open>projector.go\<close>, and the repair loop, \<open>repair.go\<close>. Timeouts of
  contexts are errors of the calls they cancel.
\<close>

section \<open>Custom resources\<close>

datatype Action = ActionHibernate | ActionResume | ActionRetry | ActionOther string

fun show_action :: "Action \<Rightarrow> string" where
  "show_action ActionHibernate = ''hibernate''"
| "show_action ActionResume = ''resume''"
| "show_action ActionRetry = ''retry''"
| "show_action (ActionOther s) = s"

definition desired_of_string :: "string \<Rightarrow> DesiredState" where
  "desired_of_string s = (if s = ''Running'' then DesiredStateRunning else if s = ''Hibernated'' then DesiredStateHibernated
     else DesiredStateOther s)"

definition priorityClassName :: "string \<Rightarrow> string" where
  "priorityClassName priority = (if priority = ''low'' then ''bosun-free'' else if priority = ''high'' then ''bosun-high''
     else ''bosun-normal'')"

definition agentSessionFromDomain :: "klib \<Rightarrow> session_lib \<Rightarrow> Session \<Rightarrow> AgentSession" where
  "agentSessionFromDomain L K session = zero_AgentSession\<lparr>
     as_Meta := zero_ObjectMeta\<lparr>om_Name := ss_CRName session, om_Namespace := ss_CRNamespace session,
       om_Labels := [''app.kubernetes.io/managed-by'' \<mapsto> ''bosun'', ''bosun.io/user'' \<mapsto> ss_UserID session,
         ''bosun.io/session'' \<mapsto> ss_ID session],
       om_Annotations := [LastActiveAnnotation \<mapsto> Format_RFC3339 K (ss_CreatedAt session)]\<rparr>,
     as_Spec := \<lparr>sp_SessionID = ss_ID session, sp_UserID = ss_UserID session,
       sp_DesiredState = desired_of_string (ss_DesiredState session), sp_ResumeNonce = ss_ResumeNonce session,
       sp_Runtime = ss_Runtime session, sp_Provider = \<lparr>pv_Mode = pr_Mode (ss_Provider session), pv_CredentialID = []\<rparr>,
       sp_StoragePolicy = ss_StoragePolicy session, sp_IdleTimeoutSeconds = 1800, sp_ActiveDeadlineSeconds = 28800,
       sp_PriorityClassName = priorityClassName (ss_Priority session),
       sp_MemoryRequest = q_NewQuantity L (ss_MemoryRequestBytes session)\<rparr>\<rparr>"

text \<open>The resource is the session's: its identifiers, not only its name.\<close>

definition cr_matches :: "Session \<Rightarrow> AgentSession \<Rightarrow> bool" where
  "cr_matches session cr \<longleftrightarrow> sp_SessionID (as_Spec cr) = ss_ID session \<and> sp_UserID (as_Spec cr) = ss_UserID session"

definition session_Ensure :: "klib \<Rightarrow> session_lib \<Rightarrow> backend_api \<Rightarrow> Session \<Rightarrow> backend_error option backend" where
  "session_Ensure L K A session = (let cr = agentSessionFromDomain L K session; key = ObjectKey (as_Meta cr) in do {
     r \<leftarrow> create_cr A cr;
     case r of
       None \<Rightarrow> State_Monad.return None
     | Some e \<Rightarrow>
         if \<not> IsAlreadyExists e then State_Monad.return (Some (Wrapped (''create AgentSession '' @ show_key key) (KubeError e)))
         else do {
           g \<leftarrow> get_cr A key;
           State_Monad.return (case g of
             Inl e' \<Rightarrow> Some (Wrapped (''get existing AgentSession '' @ show_key key) (KubeError e'))
           | Inr existing \<Rightarrow> if \<not> cr_matches session existing
               then Some (Failure (''AgentSession '' @ show_key key @ '' belongs to another session'')) else None) } })"

definition session_key :: "Session \<Rightarrow> nskey" where
  "session_key session = (ss_CRNamespace session, ss_CRName session)"

definition cr_Get :: "backend_api \<Rightarrow> Session \<Rightarrow> (backend_error + AgentSession) backend" where
  "cr_Get A session = do {
     g \<leftarrow> get_cr A (session_key session);
     State_Monad.return (case g of
       Inl e \<Rightarrow> if IsNotFound e then Inl ErrSessionNotFound
         else Inl (Wrapped (''get AgentSession '' @ show_key (session_key session)) (KubeError e))
     | Inr cr \<Rightarrow> if \<not> cr_matches session cr then Inl ErrSessionNotFound else Inr cr) }"

definition allowedTransition :: "AgentSessionPhase \<Rightarrow> Action \<Rightarrow> bool" where
  "allowedTransition phase action = (case action of
     ActionHibernate \<Rightarrow> phase = PhaseRunning \<or> phase = PhaseIdle
   | ActionResume \<Rightarrow> phase = PhaseHibernating \<or> phase = PhaseHibernated
   | ActionRetry \<Rightarrow> phase = PhaseFailed
   | ActionOther _ \<Rightarrow> False)"

definition transitionAlreadyRequested :: "AgentSession \<Rightarrow> Action \<Rightarrow> bool" where
  "transitionAlreadyRequested cr action = (case action of
     ActionHibernate \<Rightarrow> sp_DesiredState (as_Spec cr) = DesiredStateHibernated
   | ActionOther _ \<Rightarrow> True
   | _ \<Rightarrow> st_ObservedResumeNonce (as_Status cr) \<noteq> sp_ResumeNonce (as_Spec cr))"

text \<open>The resource with the request of an action; \<open>None\<close> for an action that is not known.\<close>

definition request :: "session_lib \<Rightarrow> Action \<Rightarrow> uuid \<Rightarrow> time \<Rightarrow> AgentSession \<Rightarrow> AgentSession option" where
  "request K action nonce now cr = (case action of
     ActionHibernate \<Rightarrow> Some (cr\<lparr>as_Spec := (as_Spec cr)\<lparr>sp_DesiredState := DesiredStateHibernated\<rparr>\<rparr>)
   | ActionOther _ \<Rightarrow> None
   | _ \<Rightarrow> Some (cr\<lparr>as_Spec := (as_Spec cr)\<lparr>sp_DesiredState := DesiredStateRunning, sp_ResumeNonce := nonce\<rparr>,
       as_Meta := (as_Meta cr)\<lparr>om_Annotations := (om_Annotations (as_Meta cr))(LastActiveAnnotation \<mapsto> Format_RFC3339 K now)\<rparr>\<rparr>))"

definition mutate_once :: "session_lib \<Rightarrow> backend_api \<Rightarrow> Session \<Rightarrow> Action \<Rightarrow> uuid \<Rightarrow> time \<Rightarrow> backend_error option backend" where
  "mutate_once K A session action nonce now = do {
     g \<leftarrow> get_cr A (session_key session);
     case g of
       Inl e \<Rightarrow> State_Monad.return (Some (if IsNotFound e then ErrSessionNotFound
         else Wrapped (''get AgentSession before '' @ show_action action) (KubeError e)))
     | Inr current \<Rightarrow>
         if \<not> cr_matches session current then State_Monad.return (Some ErrSessionNotFound)
         else if \<not> allowedTransition (st_Phase (as_Status current)) action \<or> transitionAlreadyRequested current action
           then State_Monad.return (Some ErrInvalidTransition)
         else (case request K action nonce now current of
           None \<Rightarrow> State_Monad.return (Some ErrInvalidTransition)
         | Some changed \<Rightarrow> do {
             u \<leftarrow> update_cr A changed;
             State_Monad.return (map_option (\<lambda>e. Wrapped (''update AgentSession for '' @ show_action action) (KubeError e)) u) }) }"

definition is_conflict :: "backend_error \<Rightarrow> bool" where
  "is_conflict e = (case error_root e of KubeError k \<Rightarrow> IsConflict k | _ \<Rightarrow> False)"

text \<open>\<open>Mutate\<close>; its only caller discards the updated resource.\<close>

definition Mutate :: "session_lib \<Rightarrow> backend_api \<Rightarrow> Session \<Rightarrow> Action \<Rightarrow> uuid \<Rightarrow> time \<Rightarrow> backend_error option backend" where
  "Mutate K A session action nonce now = retry_on is_conflict (backoff_steps K) (mutate_once K A session action nonce now)"

definition cr_Delete :: "backend_api \<Rightarrow> Session \<Rightarrow> backend_error option backend" where
  "cr_Delete A session = do {
     g \<leftarrow> cr_Get A session;
     case g of
       Inl e \<Rightarrow> State_Monad.return (if errors_Is e ErrSessionNotFound then None else Some e)
     | Inr cr \<Rightarrow> do {
         d \<leftarrow> delete_cr A cr (om_UID (as_Meta cr)) (om_ResourceVersion (as_Meta cr));
         State_Monad.return (case d of
           None \<Rightarrow> None
         | Some e \<Rightarrow> if IsNotFound e then None
             else Some (Wrapped (''delete AgentSession '' @ show_key (ObjectKey (as_Meta cr))) (KubeError e))) } }"

text \<open>\<open>strconv.ParseInt(s, 10, 64)\<close>: out of range is an error.\<close>

definition ParseInt64 :: "string \<Rightarrow> int option" where
  "ParseInt64 s =
     (let (neg, ds) = (case s of c # cs \<Rightarrow> if c = CHR ''-'' then (True, cs)
                         else if c = CHR ''+'' then (False, cs) else (False, s) | [] \<Rightarrow> (False, []));
          v = (if neg then - digits_val ds else digits_val ds)
      in if ds = [] \<or> \<not> list_all is_digit ds \<or> \<not> in64 v then None else Some v)"

definition resourceVersion :: "AgentSession \<Rightarrow> int" where
  "resourceVersion cr = (case ParseInt64 (om_ResourceVersion (as_Meta cr)) of None \<Rightarrow> 0 | Some v \<Rightarrow> v)"

section \<open>Idempotency\<close>

datatype Decision = Proceed | Replay | Conflict

record IdemRecord =
  id_RequestHash :: bytes
  id_Status :: int
  id_Body :: bytes

definition RequestHash :: "klib \<Rightarrow> string \<Rightarrow> string \<Rightarrow> bytes \<Rightarrow> bytes" where
  "RequestHash L method path body = sha256 L (method @ [CHR 0x00] @ path @ [CHR 0x00] @ body)"

definition Decide :: "IdemRecord option \<Rightarrow> bytes \<Rightarrow> Decision" where
  "Decide existing requestHash = (case existing of
     None \<Rightarrow> Proceed
   | Some rec \<Rightarrow> if id_RequestHash rec = requestHash then Replay else Conflict)"

definition toIdempotencyRecord :: "IdempotencyRecord option \<Rightarrow> IdemRecord option" where
  "toIdempotencyRecord rec = map_option (\<lambda>r. \<lparr>id_RequestHash = ir_RequestHash r, id_Status = ir_Status r, id_Body = ir_Body r\<rparr>) rec"

section \<open>Requests and responses\<close>

definition parseMemoryRequest :: "klib \<Rightarrow> session_lib \<Rightarrow> string \<Rightarrow> quantity option" where
  "parseMemoryRequest L K raw = (if raw = [] then Some (q_MustParse L ''2Gi'') else ParseQuantity K raw)"

definition validCreateRequest :: "klib \<Rightarrow> session_lib \<Rightarrow> CreateRequest \<Rightarrow> bool" where
  "validCreateRequest L K req \<longleftrightarrow> (let name = TrimSpace (cq_Name req) in
     ValidString name \<and> RuneCountInString name \<ge> 1 \<and> RuneCountInString name \<le> 80 \<and>
     (cq_Priority req = ''low'' \<or> cq_Priority req = ''normal'' \<or> cq_Priority req = ''high'') \<and>
     (case parseMemoryRequest L K (cq_MemoryRequest req) of
        None \<Rightarrow> False
      | Some q \<Rightarrow> q_Cmp L q (q_MustParse L ''1Gi'') \<ge> 0 \<and> q_Cmp L q (q_MustParse L ''64Gi'') \<le> 0) \<and>
     cq_Runtime req = ''claude-code'' \<and> pq_Mode (cq_Provider req) = ''platform'' \<and> pq_CredentialID (cq_Provider req) = [] \<and>
     cq_StoragePolicy req = ''local'')"

definition toDTO :: "klib \<Rightarrow> session_lib \<Rightarrow> Session \<Rightarrow> DTO" where
  "toDTO L K rec = \<lparr>dt_ID = ss_ID rec, dt_Name = ss_Name rec, dt_Priority = ss_Priority rec,
     dt_MemoryRequest = q_NewQuantity L (ss_MemoryRequestBytes rec), dt_DesiredState = ss_DesiredState rec,
     dt_Runtime = ss_Runtime rec,
     dt_Provider = \<lparr>dp_Mode = pr_Mode (ss_Provider rec),
       dp_CredentialID = (case pr_CredentialID (ss_Provider rec) of None \<Rightarrow> [] | Some i \<Rightarrow> i)\<rparr>,
     dt_StoragePolicy = ss_StoragePolicy rec, dt_Phase = ss_Phase rec, dt_PhaseReason = ss_PhaseReason rec,
     dt_LastActiveAt = (case ss_LastActiveAt rec of None \<Rightarrow> [] | Some t \<Rightarrow> Format_RFC3339 K t),
     dt_Conditions = ss_Conditions rec, dt_CreatedAt = Format_RFC3339 K (ss_CreatedAt rec)\<rparr>"

definition renderSessionEnvelope :: "klib \<Rightarrow> session_lib \<Rightarrow> Session \<Rightarrow> backend_error + bytes" where
  "renderSessionEnvelope L K rec = (case Marshal_envelope K (toDTO L K rec) of
     None \<Rightarrow> Inl (Wrapped ''marshal create session response'' (Failure ''json'')) | Some body \<Rightarrow> Inr body)"

definition newEvent :: "session_lib \<Rightarrow> backend_api \<Rightarrow> uuid \<Rightarrow> string \<Rightarrow> (string \<times> payload_value) list \<Rightarrow> time \<Rightarrow>
    (backend_error + Event) backend" where
  "newEvent K A sessionID eventType payload at = do {
     i \<leftarrow> new_uuid A;
     State_Monad.return (case i of
       Inl e \<Rightarrow> Inl (Wrapped ''generate session event ID'' e)
     | Inr eventID \<Rightarrow> (case Marshal_payload K payload of
         None \<Rightarrow> Inl (Wrapped ''marshal session event payload'' (Failure ''json''))
       | Some body \<Rightarrow> Inr \<lparr>ev_ID = eventID, ev_SessionID = sessionID, ev_Type = eventType, ev_Payload = body, ev_OccurredAt = at\<rparr>)) }"

section \<open>Operations\<close>

record CreateOutput =
  co_Status :: int
  co_Body :: bytes

definition zero_CreateOutput :: CreateOutput where
  "zero_CreateOutput = \<lparr>co_Status = 0, co_Body = []\<rparr>"

definition new_session :: "klib \<Rightarrow> uuid \<Rightarrow> CreateRequest \<Rightarrow> int \<Rightarrow> uuid \<Rightarrow> uuid \<Rightarrow> time \<Rightarrow> Session" where
  "new_session L userID req memoryBytes sessionID nonce now = \<lparr>
     ss_ID = sessionID, ss_UserID = userID, ss_Name = TrimSpace (cq_Name req), ss_Priority = cq_Priority req,
     ss_MemoryRequestBytes = memoryBytes, ss_CRNamespace = userenv_Namespace L userID, ss_CRName = CRName L sessionID,
     ss_Runtime = cq_Runtime req, ss_Provider = \<lparr>pr_Mode = pq_Mode (cq_Provider req), pr_CredentialID = None\<rparr>,
     ss_StoragePolicy = cq_StoragePolicy req, ss_DesiredState = ''Running'', ss_ResumeNonce = nonce, ss_Phase = ''Pending'',
     ss_PhaseReason = ''CreateRequested'', ss_Conditions = [], ss_LastActiveAt = Some now, ss_CRResourceVersion = 0,
     ss_CreatedAt = now, ss_UpdatedAt = now, ss_DeletedAt = None, ss_Version = 1\<rparr>"

definition created_payload :: "Session \<Rightarrow> quantity \<Rightarrow> (string \<times> payload_value) list" where
  "created_payload rec memoryRequest = [(''name'', PayloadString (ss_Name rec)), (''priority'', PayloadString (ss_Priority rec)),
     (''memoryRequest'', PayloadString memoryRequest), (''runtime'', PayloadString (ss_Runtime rec)),
     (''storagePolicy'', PayloadString (ss_StoragePolicy rec))]"

definition StatusAccepted :: int where
  "StatusAccepted = 202"

definition day :: duration where
  "day = 24 * 3600 * second"

text \<open>The end of the callback: the transaction, then the resource, whose failure only the log sees.\<close>

definition create_commit :: "klib \<Rightarrow> session_lib \<Rightarrow> backend_api \<Rightarrow> Session \<Rightarrow> Event \<Rightarrow> IdempotencyInput \<Rightarrow>
    (CreateOutput \<times> backend_error option) backend" where
  "create_commit L K A rec event idem = do {
     c \<leftarrow> CreateWithEventAndIdempotency K A rec event idem;
     case c of
       Inl e \<Rightarrow> State_Monad.return (zero_CreateOutput, Some e)
     | Inr _ \<Rightarrow> do {
         _ \<leftarrow> session_Ensure L K A rec;
         State_Monad.return (\<lparr>co_Status = StatusAccepted, co_Body = ii_Body idem\<rparr>, None) } }"

definition create_record :: "klib \<Rightarrow> session_lib \<Rightarrow> backend_api \<Rightarrow> uuid \<Rightarrow> string \<Rightarrow> string \<Rightarrow> string \<Rightarrow> bytes \<Rightarrow> CreateRequest \<Rightarrow>
    uuid \<Rightarrow> uuid \<Rightarrow> (CreateOutput \<times> backend_error option) backend" where
  "create_record L K A userID key method path requestHash req sessionID nonce = do {
     now \<leftarrow> clock A;
     let memoryRequest = the (parseMemoryRequest L K (cq_MemoryRequest req));
     let rec = new_session L userID req (q_Value L memoryRequest) sessionID nonce now;
     case renderSessionEnvelope L K rec of
       Inl e \<Rightarrow> State_Monad.return (zero_CreateOutput, Some e)
     | Inr body \<Rightarrow> do {
         e \<leftarrow> newEvent K A (ss_ID rec) ''session.created'' (created_payload rec memoryRequest) now;
         case e of
           Inl err \<Rightarrow> State_Monad.return (zero_CreateOutput, Some err)
         | Inr event \<Rightarrow> create_commit L K A rec event \<lparr>ii_Key = key, ii_Method = method, ii_Path = path, ii_RequestHash = requestHash,
             ii_Status = StatusAccepted, ii_Body = body, ii_ExpiresAt = now + day\<rparr> } }"

definition create_ids :: "klib \<Rightarrow> session_lib \<Rightarrow> backend_api \<Rightarrow> uuid \<Rightarrow> string \<Rightarrow> string \<Rightarrow> string \<Rightarrow> bytes \<Rightarrow> CreateRequest \<Rightarrow>
    (CreateOutput \<times> backend_error option) backend" where
  "create_ids L K A userID key method path requestHash req = do {
     i \<leftarrow> new_uuid A;
     case i of
       Inl e \<Rightarrow> State_Monad.return (zero_CreateOutput, Some (Wrapped ''generate session ID'' e))
     | Inr sessionID \<Rightarrow> do {
         n \<leftarrow> new_uuid A;
         case n of
           Inl e \<Rightarrow> State_Monad.return (zero_CreateOutput, Some (Wrapped ''generate resume nonce'' e))
         | Inr nonce \<Rightarrow> create_record L K A userID key method path requestHash req sessionID nonce } }"

text \<open>The callback once no record of the key exists: the environment, then the capacity.\<close>

definition create_proceed :: "klib \<Rightarrow> session_lib \<Rightarrow> backend_api \<Rightarrow> uuid \<Rightarrow> string \<Rightarrow> string \<Rightarrow> string \<Rightarrow> bytes \<Rightarrow> CreateRequest \<Rightarrow>
    (CreateOutput \<times> backend_error option) backend" where
  "create_proceed L K A userID key method path requestHash req = do {
     p \<leftarrow> env_Phase L A userID;
     case p of
       Inl e \<Rightarrow> State_Monad.return (zero_CreateOutput, Some (Wrapped ''read user environment phase'' e))
     | Inr phase \<Rightarrow>
         if phase = ''Failed'' then State_Monad.return (zero_CreateOutput, Some ErrEnvironmentFailed)
         else if phase \<noteq> ''Ready'' then State_Monad.return (zero_CreateOutput, Some ErrEnvironmentReady)
         else do {
           c \<leftarrow> CountTotal A userID;
           case c of
             Inl e \<Rightarrow> State_Monad.return (zero_CreateOutput, Some e)
           | Inr n \<Rightarrow>
               if n \<ge> MaxSessionsPerUser then State_Monad.return (zero_CreateOutput, Some ErrCapacity)
               else create_ids L K A userID key method path requestHash req } }"

definition create_callback :: "klib \<Rightarrow> session_lib \<Rightarrow> backend_api \<Rightarrow> uuid \<Rightarrow> string \<Rightarrow> string \<Rightarrow> string \<Rightarrow> bytes \<Rightarrow> CreateRequest \<Rightarrow>
    (CreateOutput \<times> backend_error option) backend" where
  "create_callback L K A userID key method path requestHash req = do {
     g \<leftarrow> GetIdempotencyKey A userID key;
     case g of
       Inl e \<Rightarrow> State_Monad.return (zero_CreateOutput, Some (Wrapped ''get session idempotency key'' e))
     | Inr existing \<Rightarrow> (case Decide (toIdempotencyRecord existing) requestHash of
         Replay \<Rightarrow> State_Monad.return (\<lparr>co_Status = ir_Status (the existing), co_Body = ir_Body (the existing)\<rparr>, None)
       | Conflict \<Rightarrow> State_Monad.return (zero_CreateOutput, Some ErrIdempotency)
       | Proceed \<Rightarrow> create_proceed L K A userID key method path requestHash req) }"

definition session_Create :: "klib \<Rightarrow> session_lib \<Rightarrow> backend_api \<Rightarrow> uuid \<Rightarrow> string \<Rightarrow> string \<Rightarrow> string \<Rightarrow> bytes \<Rightarrow> CreateRequest \<Rightarrow>
    (CreateOutput \<times> backend_error option) backend" where
  "session_Create L K A userID key method path requestHash req =
     (if key = [] \<or> \<not> validCreateRequest L K req then State_Monad.return (zero_CreateOutput, Some ErrSessionValidation)
      else WithIdempotencyLock A zero_CreateOutput (create_callback L K A userID key method path requestHash req))"

text \<open>\<open>Get\<close>: the row, with the status of the resource where it is newer.\<close>

definition overlay :: "klib \<Rightarrow> AgentSession \<Rightarrow> Session \<Rightarrow> Session" where
  "overlay L cr rec =
     (let rec1 = rec\<lparr>ss_Phase := show_phase (st_Phase (as_Status cr)), ss_Conditions := st_Conditions (as_Status cr)\<rparr>;
          rec2 = (case st_LastActiveAt (as_Status cr) of None \<Rightarrow> rec1 | Some t \<Rightarrow> rec1\<lparr>ss_LastActiveAt := Some t\<rparr>)
      in case FindStatusCondition L (st_Conditions (as_Status cr)) ''Ready'' of
           None \<Rightarrow> rec2 | Some c \<Rightarrow> rec2\<lparr>ss_PhaseReason := c_Reason c\<rparr>)"

definition session_Get :: "klib \<Rightarrow> session_lib \<Rightarrow> backend_api \<Rightarrow> uuid \<Rightarrow> uuid \<Rightarrow> (backend_error + Session) backend" where
  "session_Get L K A userID sessionID = do {
     r \<leftarrow> store_Get K A userID sessionID;
     case r of
       Inl e \<Rightarrow> State_Monad.return (Inl e)
     | Inr rec \<Rightarrow> do {
         g \<leftarrow> cr_Get A rec;
         State_Monad.return (case g of
           Inl e \<Rightarrow> if errors_Is e ErrSessionNotFound then Inr rec else Inl e
         | Inr cr \<Rightarrow> if resourceVersion cr > ss_CRResourceVersion rec then Inr (overlay L cr rec) else Inr rec) } }"

text \<open>\<open>List\<close>: the offset is computed in \<open>int32\<close>.\<close>

definition session_List :: "session_lib \<Rightarrow> backend_api \<Rightarrow> uuid \<Rightarrow> int \<Rightarrow> int \<Rightarrow> (backend_error + Page) backend" where
  "session_List K A userID page pageSize =
     (if page < 1 \<or> pageSize < 1 \<or> pageSize > 100 then State_Monad.return (Inl ErrSessionValidation)
      else store_List K A userID pageSize (i32 (i32 (page - 1) * pageSize)))"

definition transitioned :: "Session \<Rightarrow> Action \<Rightarrow> uuid \<Rightarrow> time \<Rightarrow> Session" where
  "transitioned rec action nonce now =
     (if action = ActionHibernate then rec\<lparr>ss_DesiredState := ''Hibernated''\<rparr>
      else rec\<lparr>ss_DesiredState := ''Running'', ss_ResumeNonce := nonce, ss_LastActiveAt := Some now\<rparr>)\<lparr>ss_UpdatedAt := now\<rparr>"

text \<open>The rest of \<open>Transition\<close> once the resource was updated.\<close>

definition transition_record :: "session_lib \<Rightarrow> backend_api \<Rightarrow> uuid \<Rightarrow> uuid \<Rightarrow> Action \<Rightarrow> Session \<Rightarrow> time \<Rightarrow> (backend_error + Session) backend" where
  "transition_record K A userID sessionID action rec now = do {
     e \<leftarrow> newEvent K A (ss_ID rec) (''session.'' @ show_action action @ ''_requested'')
       [(''desiredState'', PayloadString (ss_DesiredState rec)), (''resumeNonce'', PayloadString (ss_ResumeNonce rec))] now;
     case e of
       Inl err \<Rightarrow> State_Monad.return (Inl err)
     | Inr event \<Rightarrow> do {
         u \<leftarrow> UpdateDesired K A rec event;
         case u of
           Inr updated \<Rightarrow> State_Monad.return (Inr updated)
         | Inl err \<Rightarrow>
             if errors_Is err ErrConcurrentUpdate then do {
               l \<leftarrow> store_Get K A userID sessionID;
               State_Monad.return (case l of
                 Inr latest \<Rightarrow> if ss_DesiredState latest = ss_DesiredState rec \<and> ss_ResumeNonce latest = ss_ResumeNonce rec
                   then Inr latest else Inl ErrInvalidTransition
               | Inl _ \<Rightarrow> Inl ErrInvalidTransition) }
             else State_Monad.return (Inl err) } }"

text \<open>The nonce of a transition: a new one for a resume or a retry.\<close>

definition transition_nonce :: "backend_api \<Rightarrow> Action \<Rightarrow> Session \<Rightarrow> (backend_error + uuid) backend" where
  "transition_nonce A action rec =
     (if action = ActionResume \<or> action = ActionRetry then do {
        n \<leftarrow> new_uuid A;
        State_Monad.return (case n of Inl e \<Rightarrow> Inl (Wrapped ''generate transition nonce'' e) | Inr nonce \<Rightarrow> Inr nonce) }
      else State_Monad.return (Inr (ss_ResumeNonce rec)))"

definition Transition :: "session_lib \<Rightarrow> backend_api \<Rightarrow> uuid \<Rightarrow> uuid \<Rightarrow> Action \<Rightarrow> (backend_error + Session) backend" where
  "Transition K A userID sessionID action = do {
     r \<leftarrow> store_Get K A userID sessionID;
     case r of
       Inl e \<Rightarrow> State_Monad.return (Inl e)
     | Inr rec \<Rightarrow> do {
         n \<leftarrow> transition_nonce A action rec;
         case n of
           Inl e \<Rightarrow> State_Monad.return (Inl e)
         | Inr nonce \<Rightarrow> do {
             now \<leftarrow> clock A;
             m \<leftarrow> Mutate K A rec action nonce now;
             case m of
               Some e \<Rightarrow> State_Monad.return (Inl e)
             | None \<Rightarrow> transition_record K A userID sessionID action (transitioned rec action nonce now) now } } }"

definition session_Delete :: "session_lib \<Rightarrow> backend_api \<Rightarrow> uuid \<Rightarrow> uuid \<Rightarrow> (backend_error + Session) backend" where
  "session_Delete K A userID sessionID = do {
     now \<leftarrow> clock A;
     e \<leftarrow> newEvent K A sessionID ''session.delete_requested'' [(''destructive'', PayloadBool True)] now;
     case e of
       Inl err \<Rightarrow> State_Monad.return (Inl err)
     | Inr event \<Rightarrow> do {
         r \<leftarrow> SoftDelete K A userID sessionID event;
         case r of
           Inl err \<Rightarrow> State_Monad.return (Inl err)
         | Inr rec \<Rightarrow> do { _ \<leftarrow> cr_Delete A rec; State_Monad.return (Inr rec) } } }"

section \<open>Projection\<close>

definition project :: "klib \<Rightarrow> session_lib \<Rightarrow> backend_api \<Rightarrow> AgentSession \<Rightarrow> backend_error option backend" where
  "project L K A cr =
     (if st_Phase (as_Status cr) = PhaseUnset then State_Monad.return None
      else case uuid_Parse K (sp_SessionID (as_Spec cr)) of
        None \<Rightarrow> State_Monad.return None
      | Some sessionID \<Rightarrow> (case ParseInt64 (om_ResourceVersion (as_Meta cr)) of
          None \<Rightarrow> State_Monad.return (Some (Wrapped (''parse AgentSession '' @ om_Name (as_Meta cr) @ '' resourceVersion'') (Failure ''syntax'')))
        | Some rv \<Rightarrow> do {
            let reason = (case FindStatusCondition L (st_Conditions (as_Status cr)) ''Ready'' of None \<Rightarrow> [] | Some c \<Rightarrow> c_Reason c);
            now \<leftarrow> clock A;
            e \<leftarrow> newEvent K A sessionID ''session.phase_changed'' [(''phase'', PayloadString (show_phase (st_Phase (as_Status cr)))),
              (''reason'', PayloadString reason), (''resourceVersion'', PayloadInt rv)] now;
            case e of
              Inl err \<Rightarrow> State_Monad.return (Some err)
            | Inr event \<Rightarrow> do {
                p \<leftarrow> Project K A \<lparr>pj_SessionID = sessionID, pj_Phase = show_phase (st_Phase (as_Status cr)), pj_PhaseReason = reason,
                  pj_Conditions = st_Conditions (as_Status cr), pj_LastActiveAt = st_LastActiveAt (as_Status cr),
                  pj_ResourceVersion = rv, pj_OccurredAt = ev_OccurredAt event\<rparr> event;
                State_Monad.return (case p of Inl err \<Rightarrow> Some err | Inr _ \<Rightarrow> None) } }))"

definition cleanupComplete :: "session_lib \<Rightarrow> backend_api \<Rightarrow> AgentSession \<Rightarrow> backend_error option backend" where
  "cleanupComplete K A cr = (case uuid_Parse K (sp_SessionID (as_Spec cr)) of
     None \<Rightarrow> State_Monad.return None
   | Some sessionID \<Rightarrow> do {
       now \<leftarrow> clock A;
       e \<leftarrow> newEvent K A sessionID ''session.cleanup_completed'' [] now;
       case e of
         Inl err \<Rightarrow> State_Monad.return (Some err)
       | Inr event \<Rightarrow> do {
           m \<leftarrow> MarkCleanupComplete A sessionID event;
           State_Monad.return (case m of Inl err \<Rightarrow> Some err | Inr _ \<Rightarrow> None) } })"

text \<open>A loop that stops at the first error, and the two loops of the projector.\<close>

fun until_error :: "('x \<Rightarrow> backend_error option backend) \<Rightarrow> 'x list \<Rightarrow> backend_error option backend" where
  "until_error f [] = State_Monad.return None"
| "until_error f (x # xs) = do {
     r \<leftarrow> f x;
     case r of Some e \<Rightarrow> State_Monad.return (Some e) | None \<Rightarrow> until_error f xs }"

definition handle_item :: "klib \<Rightarrow> session_lib \<Rightarrow> backend_api \<Rightarrow> watch_item \<Rightarrow> backend_error option backend" where
  "handle_item L K A item = (case item of
     WatchModified cr \<Rightarrow> project L K A cr
   | WatchDeleted cr \<Rightarrow> cleanupComplete K A cr
   | WatchErrorItem \<Rightarrow> State_Monad.return (Some (Failure ''AgentSession watch error''))
   | WatchOther \<Rightarrow> State_Monad.return None)"

definition runWatch :: "klib \<Rightarrow> session_lib \<Rightarrow> backend_api \<Rightarrow> backend_error option backend" where
  "runWatch L K A = do {
     l \<leftarrow> list_cr A;
     case l of
       Inl e \<Rightarrow> State_Monad.return (Some (Wrapped ''list AgentSessions before watch'' (KubeError e)))
     | Inr (items, rv) \<Rightarrow> do {
         p \<leftarrow> until_error (project L K A) items;
         case p of
           Some e \<Rightarrow> State_Monad.return (Some e)
         | None \<Rightarrow> do {
             s \<leftarrow> watch_cr A rv;
             case s of
               Inl e \<Rightarrow> State_Monad.return (Some (Wrapped ''watch AgentSessions'' (KubeError e)))
             | Inr (stream, cancelled) \<Rightarrow> do {
                 h \<leftarrow> until_error (handle_item L K A) stream;
                 State_Monad.return (case h of
                   Some e \<Rightarrow> Some e
                 | None \<Rightarrow> if cancelled then None else Some (Failure ''AgentSession watch channel closed'')) } } } }"

section \<open>Repair\<close>

definition repair_each :: "string \<Rightarrow> (Session \<Rightarrow> backend_error option backend) \<Rightarrow> Session list \<Rightarrow> backend_error option backend" where
  "repair_each msg f sessions = until_error (\<lambda>rec. do {
     r \<leftarrow> f rec;
     State_Monad.return (map_option (Wrapped (msg @ ss_ID rec)) r) }) sessions"

definition session_RunOnce :: "klib \<Rightarrow> session_lib \<Rightarrow> backend_api \<Rightarrow> backend_error option backend" where
  "session_RunOnce L K A = do {
     p \<leftarrow> ListPending K A 100;
     case p of
       Inl e \<Rightarrow> State_Monad.return (Some e)
     | Inr pending \<Rightarrow> do {
         r \<leftarrow> repair_each ''repair missing AgentSession '' (session_Ensure L K A) pending;
         case r of
           Some e \<Rightarrow> State_Monad.return (Some e)
         | None \<Rightarrow> do {
             d \<leftarrow> ListDeleting K A 100;
             case d of
               Inl e \<Rightarrow> State_Monad.return (Some e)
             | Inr deleting \<Rightarrow> repair_each ''repair AgentSession deletion '' (cr_Delete A) deleting } } }"

end
