(* ===== verification/Session_Steps.thy ===== *)
theory Session_Steps
  imports Session_Service
begin

text \<open>
  The sessions of the database under concurrency. The transactions of the store are the steps that the API replicas, the
  projector and the repair loop take on the rows; a creation appends a row and every other step rewrites rows one by one. The
  contracts of step systems are interpreted on them: an invariant with the limit of sessions per user, and an order that no
  row goes back in.
\<close>

section \<open>Steps\<close>

inductive session_step :: "database \<Rightarrow> database \<Rightarrow> bool" where
  create: "commits (create_tx K session event idem) d d' \<Longrightarrow> session_step d d'"
| update: "commits (update_desired_tx session event) d d' \<Longrightarrow> session_step d d'"
| delete: "commits (soft_delete_tx userID sessionID event) d d' \<Longrightarrow> session_step d d'"
| project: "commits (project_tx K projection event) d d' \<Longrightarrow> session_step d d'"
| cleanup: "commits (cleanup_tx sessionID event) d d' \<Longrightarrow> session_step d d'"
| other: "db_sessions d' = db_sessions d \<Longrightarrow> session_step d d'"

text \<open>What a step may do to a row: its identity stays, versions grow, a deletion stays, the constraints of the table hold.\<close>

definition evolves :: "BosunSession \<Rightarrow> BosunSession \<Rightarrow> bool" where
  "evolves r r' \<longleftrightarrow> bs_ID r' = bs_ID r \<and> bs_UserID r' = bs_UserID r \<and> bs_CrNamespace r' = bs_CrNamespace r \<and>
     bs_CrName r' = bs_CrName r \<and> bs_MemoryRequestBytes r' = bs_MemoryRequestBytes r \<and> bs_CreatedAt r' = bs_CreatedAt r \<and>
     bs_CrResourceVersion r \<le> bs_CrResourceVersion r' \<and> bs_Version r \<le> bs_Version r' \<and>
     (bs_DeletedAt r \<noteq> None \<longrightarrow> bs_DeletedAt r' = bs_DeletedAt r) \<and> (session_checks r \<longrightarrow> session_checks r')"

definition rewritten :: "database \<Rightarrow> database \<Rightarrow> bool" where
  "rewritten d d' \<longleftrightarrow> (\<exists>f. db_sessions d' = map f (db_sessions d) \<and> (\<forall>r\<in>set (db_sessions d). evolves r (f r)))"

definition appended :: "database \<Rightarrow> database \<Rightarrow> bool" where
  "appended d d' \<longleftrightarrow> (\<exists>new. db_sessions d' = db_sessions d @ [new] \<and> session_checks new \<and> bs_DeletedAt new = None \<and>
     CountSessionsForUser (bs_UserID new) d < MaxSessionsPerUser \<and>
     (\<forall>r\<in>set (db_sessions d). bs_ID r \<noteq> bs_ID new \<and> (bs_CrNamespace r, bs_CrName r) \<noteq> (bs_CrNamespace new, bs_CrName new)))"

lemma evolves_refl [simp]: "evolves r r"
  by (simp add: evolves_def)

lemma evolves_trans: "evolves r r' \<Longrightarrow> evolves r' r'' \<Longrightarrow> evolves r r''"
  by (auto simp: evolves_def)

lemma rewritten_same: "db_sessions d' = db_sessions d \<Longrightarrow> rewritten d d'"
  unfolding rewritten_def by (intro exI [of _ id]) simp

lemma rewritten_update:
  assumes "db_sessions d' = update_where P f (db_sessions d)" and "\<And>r. r \<in> set (db_sessions d) \<Longrightarrow> P r \<Longrightarrow> evolves r (f r)"
  shows "rewritten d d'"
  unfolding rewritten_def using assms by (intro exI [of _ "\<lambda>r. if P r then f r else r"]) (simp add: update_where_def)

lemma event_sessions: "InsertSessionEvent e d = Inr d' \<Longrightarrow> db_sessions d' = db_sessions d"
  by (auto simp: InsertSessionEvent_def split: if_splits)

lemma key_sessions: "db_sessions (snd (InsertIdempotencyKey_sql now rec d)) = db_sessions d"
  by (auto simp: InsertIdempotencyKey_sql_def Let_def split: option.splits if_splits)

lemma create_appends:
  assumes "commits (create_tx K session event idem) d d'"
  shows "appended d d'"
proof -
  obtain conditions row d1 d2 now where count: "CountSessionsForUser (ss_UserID session) d < MaxSessionsPerUser"
    and new: "CreateSession (session_params session conditions) d = Inr (row, d1)"
    and event: "InsertSessionEvent (event_row event) d1 = Inr d2"
    and key: "d' = snd (InsertIdempotencyKey_sql now (key_row (ss_UserID session) idem) d2)"
    using assms by (auto simp: commits_def create_tx_def tx_nop_def insertEvent_def sql_result_def split_beta
      split: if_splits option.splits sum.splits)
  have "bs_UserID row = ss_UserID session" "db_sessions d1 = db_sessions d @ [row]" "session_checks row" "bs_DeletedAt row = None"
    "\<forall>r\<in>set (db_sessions d). bs_ID r \<noteq> bs_ID row \<and> (bs_CrNamespace r, bs_CrName r) \<noteq> (bs_CrNamespace row, bs_CrName row)"
    using new by (auto simp: CreateSession_def Let_def session_row_def session_params_def split: if_splits)
  then show ?thesis using count event_sessions [OF event] key_sessions key unfolding appended_def by auto
qed

lemma update_rewrites:
  assumes "commits (update_desired_tx session event) d d'"
  shows "rewritten d d'"
proof -
  obtain row d1 where u: "UpdateSessionDesiredState (ss_ID session) (ss_UserID session) (ss_DesiredState session) (ss_ResumeNonce session)
      (ss_LastActiveAt session) (ss_UpdatedAt session) (ss_Version session) d = Inr (row, d1)"
    and event: "InsertSessionEvent (event_row event) d1 = Inr d'"
    using assms by (auto simp: commits_def update_desired_tx_def tx_nop_def insertEvent_def sql_result_def
      split: if_splits option.splits sum.splits prod.splits)
  let ?P = "\<lambda>r. bs_ID r = ss_ID session \<and> live_of (ss_UserID session) r \<and> bs_Version r = ss_Version session"
  let ?f = "\<lambda>r. r\<lparr>bs_DesiredState := ss_DesiredState session, bs_ResumeNonce := ss_ResumeNonce session,
     bs_LastActiveAt := ss_LastActiveAt session, bs_UpdatedAt := ss_UpdatedAt session, bs_Version := bs_Version r + 1\<rparr>"
  have d1: "db_sessions d1 = update_where ?P ?f (db_sessions d)"
    and state: "\<forall>r\<in>set (db_sessions d). ?P r \<longrightarrow> ss_DesiredState session \<in> {''Running'', ''Hibernated''}"
    using u unfolding UpdateSessionDesiredState_def update_session_where_def Let_def by (auto split: if_splits)
  have "rewritten d d1"
  proof (rule rewritten_update [OF d1])
    show "evolves r (?f r)" if "r \<in> set (db_sessions d)" "?P r" for r
      using that state by (auto simp: evolves_def session_checks_def)
  qed
  then show ?thesis using event_sessions [OF event] by (simp add: rewritten_def)
qed

lemma delete_rewrites:
  assumes "commits (soft_delete_tx userID sessionID event) d d'"
  shows "rewritten d d'"
proof -
  obtain row d1 where u: "SoftDeleteSession sessionID userID (ev_OccurredAt event) d = (Some row, d1)"
    and event: "InsertSessionEvent (event_row event) d1 = Inr d'"
    using assms by (auto simp: commits_def soft_delete_tx_def tx_nop_def insertEvent_def sql_result_def
      split: if_splits option.splits sum.splits prod.splits)
  from u have "rewritten d d1"
    unfolding SoftDeleteSession_def update_session_where_def
    by (auto intro!: rewritten_update simp: evolves_def session_checks_def live_of_def)
  then show ?thesis using event_sessions [OF event] by (simp add: rewritten_def)
qed

lemma project_rewrites:
  assumes "commits (project_tx K projection event) d d'"
  shows "rewritten d d'"
proof -
  obtain conditions row d1 where u: "ProjectSessionStatus (pj_SessionID projection) (pj_Phase projection) (pj_PhaseReason projection)
      conditions (pj_LastActiveAt projection) (pj_ResourceVersion projection) (pj_OccurredAt projection) d = (Some row, d1)"
    and event: "InsertSessionEvent (event_row event) d1 = Inr d'"
    using assms by (auto simp: commits_def project_tx_def tx_nop_def insertEvent_def sql_result_def
      split: if_splits option.splits sum.splits prod.splits)
  from u have "rewritten d d1"
    unfolding ProjectSessionStatus_def update_session_where_def
    by (auto intro!: rewritten_update simp: evolves_def session_checks_def)
  then show ?thesis using event_sessions [OF event] by (simp add: rewritten_def)
qed

lemma cleanup_rewrites:
  assumes "commits (cleanup_tx sessionID event) d d'"
  shows "rewritten d d'"
proof -
  obtain rows d1 where u: "MarkSessionCleanupComplete sessionID (ev_OccurredAt event) d = (rows, d1)"
    and event: "InsertSessionEvent (event_row event) d1 = Inr d'"
    using assms by (auto simp: commits_def cleanup_tx_def tx_nop_def insertEvent_def sql_result_def
      split: if_splits option.splits sum.splits prod.splits)
  from u have "rewritten d d1"
    unfolding MarkSessionCleanupComplete_def update_session_where_def Let_def
    by (auto intro!: rewritten_update simp: evolves_def session_checks_def)
  then show ?thesis using event_sessions [OF event] by (simp add: rewritten_def)
qed

lemma session_step_cases: "session_step d d' \<Longrightarrow> appended d d' \<or> rewritten d d'"
  by (induction rule: session_step.induct)
    (auto intro: create_appends update_rewrites delete_rewrites project_rewrites cleanup_rewrites rewritten_same)

section \<open>The invariant and the order\<close>

definition session_inv :: "database \<Rightarrow> bool" where
  "session_inv d \<longleftrightarrow> distinct (map bs_ID (db_sessions d)) \<and>
     distinct (map (\<lambda>r. (bs_CrNamespace r, bs_CrName r)) (db_sessions d)) \<and>
     (\<forall>r\<in>set (db_sessions d). session_checks r) \<and> (\<forall>userID. CountSessionsForUser userID d \<le> MaxSessionsPerUser)"

definition sessions_le :: "database \<Rightarrow> database \<Rightarrow> bool" where
  "sessions_le d d' \<longleftrightarrow> (\<forall>r\<in>set (db_sessions d). \<exists>r'\<in>set (db_sessions d'). evolves r r')"

lemma live_map: "(\<And>r. r \<in> set rs \<Longrightarrow> evolves r (f r)) \<Longrightarrow> length (filter (live_of u) (map f rs)) \<le> length (filter (live_of u) rs)"
  by (induction rs) (auto simp: live_of_def evolves_def intro: le_SucI)

lemma session_inv_rewritten:
  assumes "session_inv d" and "rewritten d d'"
  shows "session_inv d'"
proof -
  obtain f where f: "db_sessions d' = map f (db_sessions d)" "\<forall>r\<in>set (db_sessions d). evolves r (f r)"
    using assms(2) by (auto simp: rewritten_def)
  then have "map bs_ID (db_sessions d') = map bs_ID (db_sessions d)"
    "map (\<lambda>r. (bs_CrNamespace r, bs_CrName r)) (db_sessions d') = map (\<lambda>r. (bs_CrNamespace r, bs_CrName r)) (db_sessions d)"
    by (auto simp: evolves_def)
  moreover have "\<forall>r\<in>set (db_sessions d'). session_checks r"
    using f assms(1) by (auto simp: session_inv_def evolves_def)
  moreover have "CountSessionsForUser u d' \<le> CountSessionsForUser u d" for u
    unfolding CountSessionsForUser_def f(1) using live_map [of "db_sessions d" f u] f(2) by simp
  ultimately show ?thesis using assms(1) unfolding session_inv_def by (metis order_trans)
qed

lemma session_inv_appended:
  assumes "session_inv d" and "appended d d'"
  shows "session_inv d'"
proof -
  obtain new where new: "db_sessions d' = db_sessions d @ [new]" "session_checks new"
    "CountSessionsForUser (bs_UserID new) d < MaxSessionsPerUser"
    "\<forall>r\<in>set (db_sessions d). bs_ID r \<noteq> bs_ID new \<and> (bs_CrNamespace r, bs_CrName r) \<noteq> (bs_CrNamespace new, bs_CrName new)"
    using assms(2) by (auto simp: appended_def)
  have "CountSessionsForUser u d' = CountSessionsForUser u d + (if live_of u new then 1 else 0)" for u
    by (simp add: CountSessionsForUser_def new(1))
  moreover have "live_of u new \<Longrightarrow> u = bs_UserID new" for u by (simp add: live_of_def)
  ultimately have "CountSessionsForUser u d' \<le> MaxSessionsPerUser" for u
    using assms(1) new(3) by (cases "live_of u new") (auto simp: session_inv_def)
  then show ?thesis using assms(1) new(1,2,4) by (auto simp: session_inv_def)
qed

interpretation sessions: step_invariant session_step session_inv
  by unfold_locales (metis session_step_cases session_inv_appended session_inv_rewritten)

interpretation session_history: step_order session_step sessions_le
proof
  show "sessions_le d d" for d unfolding sessions_le_def using evolves_refl by blast
  show "sessions_le d d''" if "sessions_le d d'" "sessions_le d' d''" for d d' d''
    using that unfolding sessions_le_def by (meson evolves_trans)
  show "sessions_le d d'" if "session_step d d'" for d d'
    using session_step_cases [OF that]
  proof
    assume "appended d d'"
    then obtain new where "db_sessions d' = db_sessions d @ [new]" by (auto simp: appended_def)
    then show ?thesis unfolding sessions_le_def by (metis UnI1 evolves_refl set_append)
  next
    assume "rewritten d d'"
    then obtain f where "db_sessions d' = map f (db_sessions d)" "\<forall>r\<in>set (db_sessions d). evolves r (f r)" by (auto simp: rewritten_def)
    then show ?thesis unfolding sessions_le_def by (metis imageI list.set_map)
  qed
qed

section \<open>The programs as steps\<close>

text \<open>Reading is a step of every reflexive system.\<close>

lemma guarantees_reads:
  assumes "relies step A" and "reflp step" and "\<And>now d r d' x. tx now d r = TxGo d' x \<Longrightarrow> d' = d"
  shows "guarantees step (db_run A name [(label, tx)] r0)"
proof (rule guarantees_db [OF assms(1)])
  fix d d'
  assume "commits [(label, tx)] d d'"
  then obtain now r y where "run_tx None now [(label, tx)] d r = TxGo d' y" by (auto simp: commits_def)
  then obtain x where "tx now d r = TxGo d' x" by (cases "tx now d r") auto
  then have "d' = d" by (rule assms(3))
  then show "step d d'" using assms(2) by (simp add: reflp_def)
qed

lemma run_tx_nops: "run_tx f now (map (\<lambda>l. (l, tx_nop)) labels) d r = TxGo d' x \<Longrightarrow> d' = d"
  by (induction labels arbitrary: f) (auto simp: tx_nop_def split: if_splits)

lemma guarantees_nops:
  assumes "relies step A" and "reflp step"
  shows "guarantees step (db_run A name (map (\<lambda>l. (l, tx_nop)) labels) r0)"
  using assms(2) by (intro guarantees_db [OF assms(1)]) (auto simp: commits_def reflp_def dest!: run_tx_nops)

lemma session_step_refl: "reflp session_step"
  by (simp add: reflp_def session_step.other)

text \<open>The operations of the store, then the programs that call them.\<close>

lemma guarantees_store:
  assumes A: "relies session_step A"
  shows "guarantees session_step (CreateWithEventAndIdempotency K A session event idem)"
    and "guarantees session_step (UpdateDesired K A session event)"
    and "guarantees session_step (SoftDelete K A userID sessionID event)"
    and "guarantees session_step (Project K A projection event)"
    and "guarantees session_step (MarkCleanupComplete A sessionID event)"
  unfolding CreateWithEventAndIdempotency_def UpdateDesired_def SoftDelete_def Project_def MarkCleanupComplete_def
  by (intro guarantee_rules guarantees_db [OF A]; rule session_step.intros; assumption)+

lemma guarantees_queries:
  assumes A: "relies step A" "reflp step"
  shows "guarantees step (CountTotal A userID)" and "guarantees step (store_Get K A userID sessionID)"
    and "guarantees step (store_List K A userID limit offset)" and "guarantees step (ListPending K A n)"
    and "guarantees step (ListDeleting K A n)" and "guarantees step (GetIdempotencyKey A scope key)"
  unfolding CountTotal_def store_Get_def store_List_def ListPending_def ListDeleting_def row_query_def rows_query_def GetIdempotencyKey_def
  by (intro guarantee_rules guarantees_reads [OF A]; auto simp: sql_result_def split: sum.splits)+

lemma guarantees_calls:
  "guarantees step (session_Ensure L K A session)" "guarantees step (cr_Get A session)" "guarantees step (cr_Delete A session)"
  "guarantees step (Mutate K A session action nonce now)" "guarantees step (newEvent K A i ty payload at)" "guarantees step (env_Phase L A u)"
  "guarantees step (transition_nonce A action session)" "guarantees step (clock A)" "guarantees step (new_uuid A)"
  unfolding session_Ensure_def cr_Get_def cr_Delete_def Mutate_def mutate_once_def newEvent_def env_Phase_def transition_nonce_def backend_call_defs
  by (intro guarantee_rules)+

lemma guarantees_until_error: "(\<And>x. guarantees step (f x)) \<Longrightarrow> guarantees step (until_error f xs)"
  by (induction xs) (simp_all add: guarantees_return guarantees_bind guarantees_case_option)

lemma guarantees_lock:
  assumes A: "relies step A" "reflp step" and "guarantees step fn"
  shows "guarantees step (WithIdempotencyLock A zero fn)"
  using guarantees_nops [OF A, of _ "[''acquire idempotency lock connection'', ''acquire idempotency lock'']"]
    guarantees_nops [OF A, of _ "[''release idempotency lock'']"] assms(3)
  unfolding WithIdempotencyLock_def by (intro guarantee_rules) simp_all

lemma guarantees_Create: "relies session_step A \<Longrightarrow> guarantees session_step (session_Create L K A userID key method path requestHash req)"
  unfolding session_Create_def create_callback_def create_proceed_def create_ids_def create_record_def create_commit_def
  by (intro guarantee_rules guarantees_lock session_step_refl guarantees_store guarantees_queries session_step_refl guarantees_calls)
    (auto intro!: guarantee_rules guarantees_lock session_step_refl guarantees_store guarantees_queries session_step_refl guarantees_calls split: Decision.split)

lemma guarantees_Transition: "relies session_step A \<Longrightarrow> guarantees session_step (Transition K A userID sessionID action)"
  unfolding Transition_def transition_record_def
  by (intro guarantee_rules guarantees_store guarantees_queries session_step_refl guarantees_calls)

lemma guarantees_Delete: "relies session_step A \<Longrightarrow> guarantees session_step (session_Delete K A userID sessionID)"
  unfolding session_Delete_def
  by (intro guarantee_rules guarantees_store guarantees_queries session_step_refl guarantees_calls)

lemma guarantees_project: "relies session_step A \<Longrightarrow> guarantees session_step (project L K A cr)"
  unfolding project_def by (intro guarantee_rules guarantees_store guarantees_calls)

lemma guarantees_cleanup: "relies session_step A \<Longrightarrow> guarantees session_step (cleanupComplete K A cr)"
  unfolding cleanupComplete_def by (intro guarantee_rules guarantees_store guarantees_calls)

lemma guarantees_runWatch: "relies session_step A \<Longrightarrow> guarantees session_step (runWatch L K A)"
  unfolding runWatch_def handle_item_def list_cr_def watch_cr_def
  by (auto intro!: guarantee_rules guarantees_until_error guarantees_project guarantees_cleanup split: watch_item.split)

lemma guarantees_RunOnce: "relies session_step A \<Longrightarrow> guarantees session_step (session_RunOnce L K A)"
  unfolding session_RunOnce_def repair_each_def
  by (intro guarantee_rules guarantees_until_error guarantees_queries session_step_refl guarantees_calls)

end
