(* ===== verification/Auth_Safety.thy ===== *)
theory Auth_Safety
  imports Auth_Service Session_Safety
begin

text \<open>
  Refresh tokens under concurrency. Other clients of the database take any number of steps between two calls of a
  program; the steps are the transactions of the store. The contracts of such systems are interpreted on them: an invariant, that a family never has two tokens in force, and an order,
  that rows stay and a revoked token stays revoked.
\<close>

section \<open>The steps on refresh tokens\<close>

definition in_force :: "uuid \<Rightarrow> BosunRefreshToken \<Rightarrow> bool" where
  "in_force family r \<longleftrightarrow> rt_FamilyID r = family \<and> rt_RevokedAt r = None"

definition family_inv :: "database \<Rightarrow> bool" where
  "family_inv d \<longleftrightarrow> distinct (map rt_ID (db_tokens d)) \<and> distinct (map rt_TokenHash (db_tokens d)) \<and>
     (\<forall>family. length (filter (in_force family) (db_tokens d)) \<le> 1)"

text \<open>Row by row: the same token, and revoked if it was.\<close>

definition same_token :: "BosunRefreshToken \<Rightarrow> BosunRefreshToken \<Rightarrow> bool" where
  "same_token r r' \<longleftrightarrow> rt_ID r' = rt_ID r \<and> rt_UserID r' = rt_UserID r \<and> rt_FamilyID r' = rt_FamilyID r \<and>
     rt_TokenHash r' = rt_TokenHash r \<and> rt_ExpiresAt r' = rt_ExpiresAt r \<and> (rt_RevokedAt r \<noteq> None \<longrightarrow> rt_RevokedAt r' \<noteq> None)"

definition tokens_le :: "database \<Rightarrow> database \<Rightarrow> bool" where
  "tokens_le d d' \<longleftrightarrow> (\<forall>r\<in>set (db_tokens d). \<exists>r'\<in>set (db_tokens d'). same_token r r')"

text \<open>
  The transactions other clients may commit: a login with a new family, a rotation of a token of the family of its replacement,
  a revocation, and whatever does not touch the tokens.
\<close>

inductive token_step :: "database \<Rightarrow> database \<Rightarrow> bool" where
  login: "commits (insert_token_tx rec) d d' \<Longrightarrow> \<forall>r\<in>set (db_tokens d). rt_FamilyID r \<noteq> tr_FamilyID rec \<Longrightarrow> token_step d d'"
| rotate: "commits (rotate_tx (rt_ID old) rec) d d' \<Longrightarrow> old \<in> set (db_tokens d) \<Longrightarrow> tr_FamilyID rec = rt_FamilyID old \<Longrightarrow> token_step d d'"
| revoke: "commits (revoke_tx family) d d' \<Longrightarrow> token_step d d'"
| other: "db_tokens d' = db_tokens d \<Longrightarrow> token_step d d'"

abbreviation others_ok :: "backend_api \<Rightarrow> bool" where
  "others_ok \<equiv> relies token_step"

lemma insert_token_commits:
  assumes "commits (insert_token_tx rec) d d'"
  obtains new where "db_tokens d' = db_tokens d @ [new]" and "rt_ID new = tr_ID rec" and "rt_FamilyID new = tr_FamilyID rec" and "rt_UserID new = tr_UserID rec"
    and "rt_TokenHash new = tr_TokenHash rec" and "rt_RevokedAt new = None"
    and "\<forall>r\<in>set (db_tokens d). rt_ID r \<noteq> tr_ID rec \<and> rt_TokenHash r \<noteq> tr_TokenHash rec"
  using assms
  by (auto simp: commits_def insert_token_tx_def sql_result_def InsertRefreshToken_sql_def insertParams_def
      split: sum.splits if_splits)

text \<open>What a rotation that wins does to the tokens.\<close>

definition rotated :: "time \<Rightarrow> uuid \<Rightarrow> RefreshTokenRecord \<Rightarrow> database \<Rightarrow> database \<Rightarrow> bool" where
  "rotated now oldID rec d d' \<longleftrightarrow> (\<exists>new.
     (\<exists>old\<in>set (db_tokens d). rt_ID old = oldID \<and> rt_RevokedAt old = None) \<and>
     db_tokens d' = update_where (\<lambda>r. rt_ID r = oldID \<and> rt_RevokedAt r = None)
       (\<lambda>r. r\<lparr>rt_RevokedAt := Some now, rt_ReplacedBy := Some (tr_ID rec)\<rparr>) (db_tokens d @ [new]) \<and>
     rt_ID new = tr_ID rec \<and> rt_FamilyID new = tr_FamilyID rec \<and> rt_TokenHash new = tr_TokenHash rec \<and> rt_RevokedAt new = None \<and>
     (\<forall>r\<in>set (db_tokens d). rt_ID r \<noteq> tr_ID rec \<and> rt_TokenHash r \<noteq> tr_TokenHash rec))"

lemma rotate_result:
  assumes "run_tx None now (rotate_tx oldID rec) d w0 = TxGo d' won" and "oldID \<in> rt_ID ` set (db_tokens d)"
  shows "won \<and> rotated now oldID rec d d'"
proof -
  obtain d1 where d1: "InsertRefreshToken_sql now (insertParams rec) d = Inr d1"
    and "(case RotateRefreshToken_sql now oldID (tr_ID rec) d1 of (None, _) \<Rightarrow> TxEnd False | (Some _, d') \<Rightarrow> TxGo d' True) = TxGo d' won"
    using assms(1) by (auto simp: rotate_tx_def tx_nop_def sql_result_def split: sum.splits prod.splits option.splits)
  then obtain x where won: "won" and x: "find (\<lambda>r. rt_ID r = oldID \<and> rt_RevokedAt r = None) (db_tokens d1) = Some x"
    and d': "db_tokens d' = update_where (\<lambda>r. rt_ID r = oldID \<and> rt_RevokedAt r = None)
       (\<lambda>r. r\<lparr>rt_RevokedAt := Some now, rt_ReplacedBy := Some (tr_ID rec)\<rparr>) (db_tokens d1)"
    by (auto simp: RotateRefreshToken_sql_def Let_def split: option.splits)
  obtain new where new: "db_tokens d1 = db_tokens d @ [new]" "rt_ID new = tr_ID rec" "rt_FamilyID new = tr_FamilyID rec"
    "rt_TokenHash new = tr_TokenHash rec" "rt_RevokedAt new = None"
    and fresh: "\<forall>r\<in>set (db_tokens d). rt_ID r \<noteq> tr_ID rec \<and> rt_TokenHash r \<noteq> tr_TokenHash rec"
    using d1 by (auto simp: InsertRefreshToken_sql_def insertParams_def split: if_splits)
  have "x \<in> set (db_tokens d1)" "rt_ID x = oldID" "rt_RevokedAt x = None" using x by (auto simp: find_Some_iff)
  moreover have "oldID \<noteq> tr_ID rec" using fresh assms(2) by auto
  ultimately have "\<exists>old\<in>set (db_tokens d). rt_ID old = oldID \<and> rt_RevokedAt old = None" using new by auto
  from this d' [unfolded new(1)] new(2-5) fresh have "rotated now oldID rec d d'"
    unfolding rotated_def by (intro exI [of _ new] conjI)
  with won show ?thesis by (rule conjI)
qed

lemma rotate_commits:
  assumes "commits (rotate_tx oldID rec) d d'" and "oldID \<in> rt_ID ` set (db_tokens d)"
  obtains now where "rotated now oldID rec d d'"
  using assms rotate_result unfolding commits_def by blast

section \<open>The invariant and the order\<close>

lemma filter_update_where:
  assumes "\<And>r. P r \<Longrightarrow> \<not> Q (f r)"
  shows "filter Q (update_where P f rows) = filter (\<lambda>r. Q r \<and> \<not> P r) rows"
  using assms by (induction rows) (auto simp: update_where_def)

lemma map_update_where: "(\<And>r. g (f r) = g r) \<Longrightarrow> map g (update_where P f rows) = map g rows"
  by (simp add: update_where_def)

lemma length_filter_le: "(\<And>x. x \<in> set xs \<Longrightarrow> P x \<Longrightarrow> Q x) \<Longrightarrow> length (filter P xs) \<le> length (filter Q xs)"
  by (induction xs) (auto intro: le_SucI)

lemma single_filter:
  assumes "length (filter P xs) \<le> 1" and "x \<in> set xs" and "P x"
  shows "filter (\<lambda>y. P y \<and> y \<noteq> x) xs = []"
proof -
  have "x \<in> set (filter P xs)" using assms(2,3) by simp
  then have "set (filter P xs) = {x}" using assms(1) by (cases "filter P xs") auto
  then show ?thesis by (auto simp: filter_empty_conv)
qed

lemma family_inv_append:
  assumes "family_inv d" and "db_tokens d' = db_tokens d @ [new]" and "\<forall>r\<in>set (db_tokens d). rt_ID r \<noteq> rt_ID new \<and> rt_TokenHash r \<noteq> rt_TokenHash new"
    and "\<forall>r\<in>set (db_tokens d). rt_FamilyID r \<noteq> rt_FamilyID new"
  shows "family_inv d'"
proof -
  have "filter (in_force (rt_FamilyID new)) (db_tokens d) = []" using assms(4) by (auto simp: filter_empty_conv in_force_def)
  then have "length (filter (in_force family) (db_tokens d @ [new])) \<le> 1" for family
    using assms(1) by (cases "family = rt_FamilyID new") (auto simp: family_inv_def in_force_def)
  then show ?thesis using assms by (auto simp: family_inv_def)
qed

lemma family_inv_rotated:
  assumes inv: "family_inv d" and rot: "rotated now (rt_ID old) rec d d'" and old: "old \<in> set (db_tokens d)"
    and family: "tr_FamilyID rec = rt_FamilyID old"
  shows "family_inv d'"
proof -
  let ?P = "\<lambda>r. rt_ID r = rt_ID old \<and> rt_RevokedAt r = None"
  let ?f = "\<lambda>r. r\<lparr>rt_RevokedAt := Some now, rt_ReplacedBy := Some (tr_ID rec)\<rparr>"
  obtain new x where x: "x \<in> set (db_tokens d)" "?P x" and d': "db_tokens d' = update_where ?P ?f (db_tokens d @ [new])"
    and new: "rt_ID new = tr_ID rec" "rt_FamilyID new = tr_FamilyID rec" "rt_TokenHash new = tr_TokenHash rec" "rt_RevokedAt new = None"
    and fresh: "\<forall>r\<in>set (db_tokens d). rt_ID r \<noteq> tr_ID rec \<and> rt_TokenHash r \<noteq> tr_TokenHash rec"
    using rot by (auto simp: rotated_def)
  have ids: "distinct (map rt_ID (db_tokens d))" using inv by (simp add: family_inv_def)
  then have xold: "x = old" using x old by (auto simp: distinct_map inj_on_def)
  have live: "filter (in_force family) (db_tokens d') = filter (\<lambda>r. in_force family r \<and> \<not> ?P r) (db_tokens d @ [new])" for family
    unfolding d' by (rule filter_update_where) (simp add: in_force_def)
  have "length (filter (in_force family) (db_tokens d')) \<le> 1" for family
  proof (cases "family = rt_FamilyID old")
    case True
    have one: "length (filter (in_force (rt_FamilyID old)) (db_tokens d)) \<le> 1" using inv by (simp add: family_inv_def)
    have "in_force (rt_FamilyID old) old" using x xold by (simp add: in_force_def)
    from single_filter [OF one old this] have "filter (\<lambda>r. in_force (rt_FamilyID old) r \<and> \<not> ?P r) (db_tokens d) = []"
      using x xold by (auto simp: filter_empty_conv)
    then show ?thesis unfolding live True by simp
  next
    case False
    then have "filter (\<lambda>r. in_force family r \<and> \<not> ?P r) [new] = []" using new family by (simp add: in_force_def)
    moreover have "length (filter (\<lambda>r. in_force family r \<and> \<not> ?P r) (db_tokens d)) \<le> length (filter (in_force family) (db_tokens d))"
      by (rule length_filter_le) simp
    moreover have "length (filter (in_force family) (db_tokens d)) \<le> 1" using inv by (simp add: family_inv_def)
    ultimately show ?thesis unfolding live by simp
  qed
  moreover have "map rt_ID (db_tokens d') = map rt_ID (db_tokens d @ [new])" "map rt_TokenHash (db_tokens d') = map rt_TokenHash (db_tokens d @ [new])"
    unfolding d' by (simp_all add: map_update_where)
  ultimately show ?thesis using inv fresh new by (auto simp: family_inv_def)
qed

lemma family_inv_revoked:
  assumes "family_inv d"
  shows "family_inv (RevokeRefreshTokenFamily_sql now family d)"
proof -
  let ?d = "RevokeRefreshTokenFamily_sql now family d"
  have "filter (in_force f) (db_tokens ?d) = filter (\<lambda>r. in_force f r \<and> \<not> (rt_FamilyID r = family \<and> rt_RevokedAt r = None)) (db_tokens d)" for f
    unfolding RevokeRefreshTokenFamily_sql_def by (simp add: filter_update_where in_force_def)
  moreover have "length (filter (\<lambda>r. in_force f r \<and> \<not> (rt_FamilyID r = family \<and> rt_RevokedAt r = None)) (db_tokens d)) \<le>
      length (filter (in_force f) (db_tokens d))" for f by (rule length_filter_le) simp
  moreover have "map rt_ID (db_tokens ?d) = map rt_ID (db_tokens d)" "map rt_TokenHash (db_tokens ?d) = map rt_TokenHash (db_tokens d)"
    by (simp_all add: RevokeRefreshTokenFamily_sql_def map_update_where)
  ultimately show ?thesis using assms by (metis (no_types, lifting) family_inv_def order_trans)
qed

lemma revoke_commits: "commits (revoke_tx family) d d' \<Longrightarrow> \<exists>now. d' = RevokeRefreshTokenFamily_sql now family d"
  by (auto simp: commits_def revoke_tx_def)

interpretation token_inv: step_invariant token_step family_inv
proof
  fix d d'
  assume inv: "family_inv d" and "token_step d d'"
  from this(2) show "family_inv d'"
  proof cases
    case (login rec)
    from insert_token_commits [OF login(1)] obtain new where "db_tokens d' = db_tokens d @ [new]" "rt_ID new = tr_ID rec"
      "rt_FamilyID new = tr_FamilyID rec" "rt_TokenHash new = tr_TokenHash rec"
      "\<forall>r\<in>set (db_tokens d). rt_ID r \<noteq> tr_ID rec \<and> rt_TokenHash r \<noteq> tr_TokenHash rec" by metis
    then show ?thesis using login(2) by (intro family_inv_append [OF inv]) auto
  next
    case (rotate old rec)
    then obtain now where "rotated now (rt_ID old) rec d d'" using rotate_commits [OF rotate(1)] by blast
    then show ?thesis using family_inv_rotated [OF inv] rotate by blast
  next
    case (revoke family)
    then show ?thesis using family_inv_revoked [OF inv] revoke_commits by blast
  next
    case other
    then show ?thesis using inv by (simp add: family_inv_def)
  qed
qed

lemma same_token_refl [simp]: "same_token r r"
  by (simp add: same_token_def)

lemma same_token_trans: "same_token r r' \<Longrightarrow> same_token r' r'' \<Longrightarrow> same_token r r''"
  by (auto simp: same_token_def)

lemma tokens_le_refl: "tokens_le d d"
  unfolding tokens_le_def using same_token_refl by blast

lemma tokens_le_append: "db_tokens d' = db_tokens d @ xs \<Longrightarrow> tokens_le d d'"
  unfolding tokens_le_def by (metis UnI1 same_token_refl set_append)

lemma tokens_le_update:
  assumes "db_tokens d' = update_where P f (db_tokens d @ xs)" and "\<And>r. P r \<Longrightarrow> same_token r (f r)"
  shows "tokens_le d d'"
  unfolding tokens_le_def
proof
  fix r
  assume "r \<in> set (db_tokens d)"
  then have "(if P r then f r else r) \<in> set (db_tokens d')" by (auto simp: assms(1) update_where_def)
  moreover have "same_token r (if P r then f r else r)" by (simp add: assms(2))
  ultimately show "\<exists>r'\<in>set (db_tokens d'). same_token r r'" by blast
qed

interpretation token_order: step_order token_step tokens_le
proof
  show "tokens_le d d" for d by (rule tokens_le_refl)
  show "tokens_le d d''" if "tokens_le d d'" "tokens_le d' d''" for d d' d''
    using that unfolding tokens_le_def by (meson same_token_trans)
  show "tokens_le d d'" if "token_step d d'" for d d'
    using that
  proof cases
    case (login rec)
    then show ?thesis by (metis insert_token_commits tokens_le_append)
  next
    case (rotate old rec)
    then obtain now where "rotated now (rt_ID old) rec d d'" using rotate_commits [OF rotate(1)] by blast
    then show ?thesis unfolding rotated_def by (auto intro!: tokens_le_update simp: same_token_def)
  next
    case (revoke family)
    then obtain now where "d' = RevokeRefreshTokenFamily_sql now family d" using revoke_commits by blast
    then show ?thesis by (auto simp: RevokeRefreshTokenFamily_sql_def same_token_def intro!: tokens_le_update [where xs = "[]"])
  next
    case other
    then show ?thesis by (simp add: tokens_le_append)
  qed
qed

section \<open>The operations as steps\<close>

lemma runs_GetRefreshTokenByHash:
  assumes "others_ok A"
  shows "runs (\<lambda>_ _. True) w (GetRefreshTokenByHash A hash) (\<lambda>r v. token_step\<^sup>*\<^sup>* (w_mem w) (w_mem v) \<and>
    (\<forall>rec. r = Inr rec \<longrightarrow> (\<exists>row\<in>set (db_tokens (w_mem v)). rt_TokenHash row = hash \<and> rec = tokenFromRow row)))"
  unfolding GetRefreshTokenByHash_def
proof (rule runs_post [OF runs_relies [OF assms]])
  fix d d' :: database
  assume "commits [(''get refresh token'', \<lambda>now d r. case GetRefreshTokenByHash_sql hash d of
    None \<Rightarrow> TxFail ErrRefreshTokenNotFound | Some row \<Rightarrow> TxGo d (tokenFromRow row))] d d'"
  then show "token_step d d'" by (auto intro: token_step.other simp: commits_def split: option.splits)
qed (auto simp: db_outcome_def Let_def GetRefreshTokenByHash_sql_def find_Some_iff
    split: if_splits option.splits)

lemma runs_GetUserByID:
  assumes "others_ok A"
  shows "runs (\<lambda>_ _. True) w (GetUserByID A i) (\<lambda>r v. token_step\<^sup>*\<^sup>* (w_mem w) (w_mem v))"
  unfolding GetUserByID_def
proof (rule runs_post [OF runs_relies [OF assms]])
  fix d d' :: database
  assume "commits [(''get user by id'', \<lambda>now d r. case GetUserByID_sql i d of
    None \<Rightarrow> TxFail ErrUserNotFound | Some row \<Rightarrow> TxGo d (userFromRow row))] d d'"
  then show "token_step d d'" by (auto intro: token_step.other simp: commits_def split: option.splits)
qed simp

lemma runs_RevokeRefreshTokenFamily:
  assumes "others_ok A"
  shows "runs (\<lambda>_ _. True) w (RevokeRefreshTokenFamily A family) (\<lambda>r v. token_step\<^sup>*\<^sup>* (w_mem w) (w_mem v))"
  unfolding RevokeRefreshTokenFamily_def
  by (rule runs_post [OF runs_relies [OF assms]]) (auto intro: token_step.revoke)

lemma runs_RotateRefreshToken:
  assumes "others_ok A" and "row \<in> set (db_tokens (w_mem w))" and "tr_FamilyID rec = rt_FamilyID row"
  shows "runs (\<lambda>_ _. True) w (RotateRefreshToken A (rt_ID row) rec) (\<lambda>r v. token_step\<^sup>*\<^sup>* (w_mem w) (w_mem v) \<and>
    (r = Inr True \<longrightarrow> (\<exists>now d. token_step\<^sup>*\<^sup>* (w_mem w) d \<and> rotated now (rt_ID row) rec d (w_mem v))))"
  unfolding RotateRefreshToken_def
proof (rule runs_post [OF runs_relies [OF assms(1)]])
  have old: "\<exists>old\<in>set (db_tokens d). same_token row old" if "token_step\<^sup>*\<^sup>* (w_mem w) d" for d
    using token_order.steps_le [OF that] assms(2) unfolding tokens_le_def by blast
  show "token_step d d'" if "token_step\<^sup>*\<^sup>* (w_mem w) d" "commits (rotate_tx (rt_ID row) rec) d d'" for d d'
  proof -
    from old [OF that(1)] obtain old where "old \<in> set (db_tokens d)" "rt_ID old = rt_ID row" "rt_FamilyID old = rt_FamilyID row"
      by (auto simp: same_token_def)
    then show ?thesis using token_step.rotate [of old rec d d'] that(2) assms(3) by simp
  qed
  fix r v
  assume *: "token_step\<^sup>*\<^sup>* (w_mem w) (w_mem v) \<and> db_outcome A ''RotateRefreshToken'' (rotate_tx (rt_ID row) rec) False w r v"
  let ?a = "b_db A (w_trace w) (w_mem w)"
  have others: "token_step\<^sup>*\<^sup>* (w_mem w) (an_db ?a)" using assms(1) by (rule relies_steps)
  have "rt_ID row \<in> rt_ID ` set (db_tokens (an_db ?a))" using old [OF others] by (metis imageI same_token_def)
  note rotate_result [OF _ this]
  moreover have "run_tx (an_fault ?a) (an_now ?a) (rotate_tx (rt_ID row) rec) (an_db ?a) False \<noteq> TxEnd True"
    by (auto simp: rotate_tx_def tx_nop_def sql_result_def split: sum.splits prod.splits option.splits if_splits)
  ultimately show "token_step\<^sup>*\<^sup>* (w_mem w) (w_mem v) \<and> (r = Inr True \<longrightarrow> (\<exists>now d. token_step\<^sup>*\<^sup>* (w_mem w) d \<and> rotated now (rt_ID row) rec d (w_mem v)))"
    using * others unfolding db_outcome_def Let_def by blast
qed

text \<open>The tables after a refresh that succeeded: the token presented is spent and its successor is the only one in force in the family.\<close>

definition refreshed :: "auth_lib \<Rightarrow> string \<Rightarrow> TokenResult \<Rightarrow> database \<Rightarrow> bool" where
  "refreshed C rawToken res d \<longleftrightarrow> (\<exists>old\<in>set (db_tokens d). \<exists>new\<in>set (db_tokens d).
     rt_TokenHash old = HashRefreshToken C rawToken \<and> rt_RevokedAt old \<noteq> None \<and>
     rt_TokenHash new = HashRefreshToken C (to_RefreshToken res) \<and>
     filter (in_force (rt_FamilyID old)) (db_tokens d) = [new])"

lemma single_in_force:
  assumes "family_inv d" and "new \<in> set (db_tokens d)" and "in_force family new"
  shows "filter (in_force family) (db_tokens d) = [new]"
proof -
  have "length (filter (in_force family) (db_tokens d)) \<le> 1" using assms(1) by (simp add: family_inv_def)
  moreover have "new \<in> set (filter (in_force family) (db_tokens d))" using assms by simp
  ultimately show ?thesis by (cases "filter (in_force family) (db_tokens d)") auto
qed

lemma rotated_refreshed:
  assumes "rotated now (rt_ID row) rec d d'" and inv: "family_inv d" and row: "row \<in> set (db_tokens d)"
    and "tr_FamilyID rec = rt_FamilyID row" and "rt_TokenHash row = HashRefreshToken C raw" and "tr_TokenHash rec = HashRefreshToken C (to_RefreshToken res)"
  shows "refreshed C raw res d'"
proof -
  let ?P = "\<lambda>r. rt_ID r = rt_ID row \<and> rt_RevokedAt r = None"
  let ?f = "\<lambda>r. r\<lparr>rt_RevokedAt := Some now, rt_ReplacedBy := Some (tr_ID rec)\<rparr>"
  obtain new x where x: "x \<in> set (db_tokens d)" "?P x" and d': "db_tokens d' = update_where ?P ?f (db_tokens d @ [new])"
    and new: "rt_ID new = tr_ID rec" "rt_FamilyID new = tr_FamilyID rec" "rt_TokenHash new = tr_TokenHash rec" "rt_RevokedAt new = None"
    and fresh: "\<forall>r\<in>set (db_tokens d). rt_ID r \<noteq> tr_ID rec \<and> rt_TokenHash r \<noteq> tr_TokenHash rec"
    using assms(1) by (auto simp: rotated_def)
  have "distinct (map rt_ID (db_tokens d))" using inv by (simp add: family_inv_def)
  then have "x = row" using x row by (auto simp: distinct_map inj_on_def)
  then have old: "?f row \<in> set (db_tokens d')" using x by (auto simp: d' update_where_def image_iff)
  have "rt_ID new \<noteq> rt_ID row" using fresh row new by auto
  then have new': "new \<in> set (db_tokens d')" by (auto simp: d' update_where_def)
  have "family_inv d'" using family_inv_rotated [OF inv assms(1) row assms(4)] .
  then have "filter (in_force (rt_FamilyID row)) (db_tokens d') = [new]"
    using new' new assms(4) by (intro single_in_force) (simp_all add: in_force_def)
  then show ?thesis unfolding refreshed_def using assms(5,6) new(3)
    by (intro bexI [OF _ old] bexI [OF _ new']) simp
qed

lemma tokens_le_row: "tokens_le d d' \<Longrightarrow> row \<in> set (db_tokens d) \<Longrightarrow> \<exists>old\<in>set (db_tokens d'). same_token row old"
  by (simp add: tokens_le_def)

lemma runs_rotating_store:
  assumes "others_ok A" and row: "row \<in> set (db_tokens (w_mem w))" and "tr_FamilyID rec = rt_FamilyID row" and "tr_ID old = rt_ID row"
  shows "runs (\<lambda>_ _. True) w (store_token A family (Some old) rec) (\<lambda>r v. token_step\<^sup>*\<^sup>* (w_mem w) (w_mem v) \<and>
    (r = None \<longrightarrow> (\<exists>now d. token_step\<^sup>*\<^sup>* (w_mem w) d \<and> rotated now (rt_ID row) rec d (w_mem v))))"
proof -
  have "runs (\<lambda>_ _. True) v (do { _ \<leftarrow> RevokeRefreshTokenFamily A family; State_Monad.return (Some ErrInvalidCredentials) })
     (\<lambda>r v'. token_step\<^sup>*\<^sup>* (w_mem w) (w_mem v') \<and> r \<noteq> None)" if "token_step\<^sup>*\<^sup>* (w_mem w) (w_mem v)" for v
    using that by (intro runs_bind runs_post [OF runs_RevokeRefreshTokenFamily [OF assms(1)]] runs_return) auto
  note revoke = runs_post [OF this]
  show ?thesis unfolding store_token_def
    by (simp add: assms(4))
      (intro runs_bind runs_post [OF runs_RotateRefreshToken [OF assms(1-3)]] runs_case_sum runs_if runs_return revoke; auto)
qed

lemma runs_issueTokensRotating:
  assumes "others_ok A" and "family_inv (w_mem w)" and row: "row \<in> set (db_tokens (w_mem w))" and hash: "rt_TokenHash row = HashRefreshToken C raw"
    and old: "tr_ID old = rt_ID row" "tr_FamilyID old = rt_FamilyID row"
  shows "runs (\<lambda>_ _. True) w (issueTokensRotating C A cfg user old) (\<lambda>r v. token_step\<^sup>*\<^sup>* (w_mem w) (w_mem v) \<and>
    (\<forall>res. r = Inr res \<longrightarrow> refreshed C raw res (w_mem v)))"
proof -
  have fin: "refreshed C raw res d'" if "token_step\<^sup>*\<^sup>* (w_mem w) d" "rotated now (rt_ID row) rec d d'" "tr_FamilyID rec = rt_FamilyID row"
    "tr_TokenHash rec = HashRefreshToken C (to_RefreshToken res)" for now rec d d' res
  proof -
    from tokens_le_row [OF token_order.steps_le [OF that(1)] row] obtain r where r: "r \<in> set (db_tokens d)" "same_token row r" by blast
    have "family_inv d" using token_inv.steps_inv that(1) assms(2) by blast
    then show ?thesis using r that hash by (intro rotated_refreshed [of now r rec d]) (simp_all add: same_token_def)
  qed
  have store: "runs (\<lambda>_ _. True) v (store_token A (tr_FamilyID old) (Some old) rec) (\<lambda>r v'. token_step\<^sup>*\<^sup>* (w_mem w) (w_mem v') \<and>
      (r = None \<longrightarrow> (\<forall>res. tr_TokenHash rec = HashRefreshToken C (to_RefreshToken res) \<longrightarrow> refreshed C raw res (w_mem v'))))"
    if v: "w_mem v = w_mem w" and rec: "tr_FamilyID rec = rt_FamilyID row" for v rec
    using row v rec old fin [OF _ _ rec] by (intro runs_post [OF runs_rotating_store [OF assms(1), of row v rec]]) auto
  show ?thesis
    unfolding issueTokensRotating_def mintAndStore_def NewRefreshToken_def backend_call_defs token_result_def
    by (intro runs_rules runs_post [OF store] TrueI; auto simp: old Let_def split: sum.splits)
qed

lemma runs_Refresh:
  assumes "others_ok A" and "family_inv (w_mem w)"
  shows "runs (\<lambda>_ _. True) w (Refresh C A cfg rawToken) (\<lambda>r v. token_step\<^sup>*\<^sup>* (w_mem w) (w_mem v) \<and>
    (\<forall>res. r = Inr res \<longrightarrow> refreshed C rawToken res (w_mem v)))"
proof -
  let ?Q = "\<lambda>r v. token_step\<^sup>*\<^sup>* (w_mem w) (w_mem v) \<and> (\<forall>res. r = Inr res \<longrightarrow> refreshed C rawToken res (w_mem v))"
  have revoke: "runs (\<lambda>_ _. True) v (do { _ \<leftarrow> RevokeRefreshTokenFamily A family; State_Monad.return (Inl ErrInvalidCredentials) }) ?Q"
    if "token_step\<^sup>*\<^sup>* (w_mem w) (w_mem v)" for v family
    using that by (intro runs_bind runs_post [OF runs_RevokeRefreshTokenFamily [OF assms(1)]] runs_return) auto
  have rotate: "runs (\<lambda>_ _. True) v (issueTokensRotating C A cfg user (tokenFromRow row)) ?Q"
    if steps: "token_step\<^sup>*\<^sup>* (w_mem w) d" "token_step\<^sup>*\<^sup>* d (w_mem v)" and row: "row \<in> set (db_tokens d)" "rt_TokenHash row = HashRefreshToken C rawToken"
    for v d user row
  proof -
    from tokens_le_row [OF token_order.steps_le [OF steps(2)] row(1)] obtain row' where "row' \<in> set (db_tokens (w_mem v))" "same_token row row'"
      by blast
    moreover have "token_step\<^sup>*\<^sup>* (w_mem w) (w_mem v)" using steps by simp
    moreover have "family_inv (w_mem v)" using token_inv.steps_inv [OF calculation(3)] assms(2) .
    ultimately show ?thesis using row(2)
      by (intro runs_post [OF runs_issueTokensRotating [OF assms(1), of v row' C rawToken]]) (auto simp: same_token_def tokenFromRow_def)
  qed
  show ?thesis unfolding Refresh_def clock_def
    by (intro runs_bind runs_if runs_return runs_case_sum runs_call runs_post [OF runs_GetRefreshTokenByHash [OF assms(1)]] revoke
        runs_post [OF runs_GetUserByID [OF assms(1)]] TrueI) (auto intro!: rotate)
qed

section \<open>Refresh tokens are used once\<close>

text \<open>
  C8. Whatever other clients commit meanwhile and whatever fails, a refresh leaves every family of tokens with at most one in
  force; when it succeeds, the token presented is revoked and the token it returns is the only one in force in the family.
\<close>

theorem Refresh_single_use:
  assumes "others_ok A" and "family_inv (w_mem w)"
  shows "family_inv (w_mem (world_after (Refresh C A cfg rawToken) w)) \<and>
    (\<forall>res. result_of (Refresh C A cfg rawToken) w = Inr res \<longrightarrow> refreshed C rawToken res (w_mem (world_after (Refresh C A cfg rawToken) w)))"
  using runs_result [OF runs_Refresh [OF assms]] token_inv.steps_inv assms(2) by blast

text \<open>A database that answers: no fault, no lost connection.\<close>

definition no_faults :: "backend_api \<Rightarrow> bool" where
  "no_faults A \<longleftrightarrow> (\<forall>t d. an_fault (b_db A t d) = None \<and> \<not> an_lost (b_db A t d))"

lemma db_run_no_faults:
  assumes "no_faults A"
  shows "result_of (db_run A name steps r0) w = (case run_tx None (an_now (b_db A (w_trace w) (w_mem w))) steps (an_db (b_db A (w_trace w) (w_mem w))) r0 of
      TxFail e \<Rightarrow> Inl e | TxEnd r \<Rightarrow> Inr r | TxGo d' r \<Rightarrow> Inr r)"
    and "w_mem (world_after (db_run A name steps r0) w) = (case run_tx None (an_now (b_db A (w_trace w) (w_mem w))) steps (an_db (b_db A (w_trace w) (w_mem w))) r0 of
      TxGo d' r \<Rightarrow> d' | _ \<Rightarrow> an_db (b_db A (w_trace w) (w_mem w)))"
  using assms by (simp_all add: no_faults_def db_run_def split: tx_result.split)

lemma get_token_no_faults:
  assumes "others_ok A" and "no_faults A" and "family_inv (w_mem w)" and row: "row \<in> set (db_tokens (w_mem w))"
  obtains row' where "same_token row row'"
    and "result_of (GetRefreshTokenByHash A (rt_TokenHash row)) w = Inr (tokenFromRow row')"
proof -
  let ?d = "an_db (b_db A (w_trace w) (w_mem w))"
  have steps: "token_step\<^sup>*\<^sup>* (w_mem w) ?d" using assms(1) by (rule relies_steps)
  from tokens_le_row [OF token_order.steps_le [OF steps] row] obtain row' where row': "row' \<in> set (db_tokens ?d)" "same_token row row'" by blast
  have "distinct (map rt_TokenHash (db_tokens ?d))" using token_inv.steps_inv [OF steps assms(3)] by (simp add: family_inv_def)
  then have same: "\<forall>r\<in>set (db_tokens ?d). rt_TokenHash r = rt_TokenHash row \<longrightarrow> r = row'"
    using row' by (auto simp: same_token_def distinct_map inj_on_def)
  have "rt_TokenHash row' = rt_TokenHash row" using row'(2) by (simp add: same_token_def)
  then have "find (\<lambda>r. rt_TokenHash r = rt_TokenHash row) (db_tokens ?d) \<noteq> None"
    using row'(1) by (simp only: find_None_iff) blast
  then obtain r where r: "find (\<lambda>r. rt_TokenHash r = rt_TokenHash row) (db_tokens ?d) = Some r" by blast
  then have "r \<in> set (db_tokens ?d)" "rt_TokenHash r = rt_TokenHash row" unfolding find_Some_iff by auto
  then have "r = row'" using same by blast
  with r have "result_of (GetRefreshTokenByHash A (rt_TokenHash row)) w = Inr (tokenFromRow row')"
    by (simp add: GetRefreshTokenByHash_def db_run_no_faults [OF assms(2)] GetRefreshTokenByHash_sql_def)
  then show ?thesis using row'(2) that by blast
qed

lemma revoked_family:
  "filter (in_force family) (db_tokens (RevokeRefreshTokenFamily_sql now family d)) = []"
  by (simp add: RevokeRefreshTokenFamily_sql_def filter_update_where in_force_def) (auto simp: filter_empty_conv)

lemma revoke_no_faults:
  assumes "no_faults A"
  shows "result_of (RevokeRefreshTokenFamily A family) w = Inr ()"
    and "filter (in_force family) (db_tokens (w_mem (world_after (RevokeRefreshTokenFamily A family) w))) = []"
  by (simp_all add: RevokeRefreshTokenFamily_def revoke_tx_def db_run_no_faults [OF assms] revoked_family)


section \<open>A sample database\<close>

definition sample_cfg :: auth_config where
  "sample_cfg = \<lparr>ac_issuer = \<lparr>ji_issuer = ''bosun'', ji_ttl = 900, ji_priv = ''key'', ji_kid = ''kid'', ji_pubs = Map.empty\<rparr>,
     ac_argon = DefaultArgon2Params, ac_refreshTTL = 1000\<rparr>"

definition plain_auth :: auth_lib where
  "plain_auth = sample_auth\<lparr>al_sha256 := (\<lambda>s. s)\<rparr>"

text \<open>An API server and a database used by nobody else, at the time 10, with identifiers and random bytes that are new.\<close>

definition quiet_api :: backend_api where
  "quiet_api = \<lparr>b_db = (\<lambda>t d. \<lparr>an_db = d, an_now = 10, an_fault = None, an_lost = False\<rparr>), b_now = (\<lambda>t. 10),
     b_uuid = (\<lambda>t. Inr (CHR ''i'' # replicate (length t) CHR ''1'')), b_random_uuid = (\<lambda>t. ''jti''),
     b_random = (\<lambda>t n. Inr (replicate n (if t = [] then CHR ''a'' else CHR ''b''))), b_create_env = (\<lambda>t ue. None),
     b_get_env = (\<lambda>t k. Inl \<lparr>ke_kind = ErrNotFound, ke_msg = []\<rparr>), b_list_env = (\<lambda>t. Inr []), b_create_cr = (\<lambda>t cr. None),
     b_get_cr = (\<lambda>t k. Inl \<lparr>ke_kind = ErrNotFound, ke_msg = []\<rparr>), b_update_cr = (\<lambda>t cr. None), b_delete_cr = (\<lambda>t cr uid rv. None),
     b_list_cr = (\<lambda>t. Inr ([], [])), b_watch_cr = (\<lambda>t rv. Inr ([], True)),
     b_get_pod = (\<lambda>t k. Inl \<lparr>ke_kind = ErrNotFound, ke_msg = []\<rparr>), b_exec = (\<lambda>t k c cmd tty. Inr []),
     b_list_pods = (\<lambda>t. Inr []), b_list_nodes = (\<lambda>t. Inr []), b_pod_metric = (\<lambda>t k. Inl \<lparr>ke_kind = ErrNotFound, ke_msg = []\<rparr>),
     b_list_pod_metrics = (\<lambda>t. Inr []), b_list_node_metrics = (\<lambda>t. Inr []), b_node_stats = (\<lambda>t n. Inl \<lparr>ke_kind = ErrNotFound, ke_msg = []\<rparr>),
     b_ping = (\<lambda>t. True), b_upgrade = (\<lambda>t. True)\<rparr>"

definition sample_token :: "uuid \<Rightarrow> string \<Rightarrow> time option \<Rightarrow> BosunRefreshToken" where
  "sample_token i raw revoked = \<lparr>rt_ID = i, rt_UserID = ''user'', rt_FamilyID = ''family'', rt_TokenHash = raw, rt_IssuedAt = 0,
     rt_ExpiresAt = 100, rt_RevokedAt = revoked, rt_ReplacedBy = None\<rparr>"

definition sample_tables :: "time option \<Rightarrow> database" where
  "sample_tables disabled = \<lparr>db_users = [\<lparr>bu_ID = ''user'', bu_Email = ''u@example.com'', bu_PasswordHash = ''hash'', bu_CreatedAt = 0,
       bu_DisabledAt = disabled\<rparr>],
     db_tokens = [sample_token ''t1'' ''old'' (Some 5), sample_token ''t2'' ''current'' None],
     db_idempotency = [], db_sessions = [], db_events = []\<rparr>"

definition quiet_world :: "database \<Rightarrow> backend_world" where
  "quiet_world d = \<lparr>w_trace = [], w_mem = d\<rparr>"

lemma quiet_ok: "others_ok quiet_api" "no_faults quiet_api" "family_inv (w_mem (quiet_world (sample_tables disabled)))"
  by (auto simp: relies_def no_faults_def quiet_api_def family_inv_def quiet_world_def sample_tables_def sample_token_def in_force_def)

lemmas quiet_simps = Refresh_def GetRefreshTokenByHash_def GetUserByID_def issueTokensRotating_def mintAndStore_def NewRefreshToken_def
  store_token_def token_result_def RotateRefreshToken_def rotate_tx_def tx_nop_def sql_result_def db_run_def backend_call_defs
  GetRefreshTokenByHash_sql_def GetUserByID_sql_def InsertRefreshToken_sql_def RotateRefreshToken_sql_def insertParams_def
  tokenFromRow_def userFromRow_def update_where_def HashRefreshToken_def refreshTokenBytes_def Let_def
  sample_cfg_def plain_auth_def quiet_api_def sample_token_def sample_tables_def quiet_world_def errors_Is_def

lemma base64_length: "length s \<le> length (base64_encode ab s)"
  by (induction ab s rule: base64_encode.induct) (simp_all add: Let_def)

lemma fresh_sample:
  "''old'' \<noteq> base64_encode url_tail (replicate 32 CHR ''b'')" "''current'' \<noteq> base64_encode url_tail (replicate 32 CHR ''b'')"
  using base64_length [of "replicate 32 CHR ''b''" url_tail] by (auto dest: arg_cong [of _ _ length])

lemma refresh_sample:
  "\<exists>res. result_of (Refresh plain_auth quiet_api sample_cfg ''current'') (quiet_world (sample_tables disabled)) = Inr res \<and>
     u_DisabledAt (to_User res) = disabled"
  by (simp add: quiet_simps fresh_sample)

theorem Refresh_single_use_witness:
  "\<exists>res. refreshed plain_auth ''current'' res (w_mem (world_after (Refresh plain_auth quiet_api sample_cfg ''current'') (quiet_world (sample_tables None))))"
proof -
  from refresh_sample [of None] obtain res where
    "result_of (Refresh plain_auth quiet_api sample_cfg ''current'') (quiet_world (sample_tables None)) = Inr res" by blast
  with Refresh_single_use [OF quiet_ok(1,3), of plain_auth sample_cfg "''current''"] show ?thesis by blast
qed


text \<open>\<open>Refresh\<close> hands new tokens to a user that is disabled, whom \<open>Login\<close> refuses.\<close>

theorem Refresh_disabled_user:
  "\<exists>res. result_of (Refresh plain_auth quiet_api sample_cfg ''current'') (quiet_world (sample_tables (Some 7))) = Inr res \<and>
     u_DisabledAt (to_User res) = Some 7"
  by (rule refresh_sample)

section \<open>Logging in\<close>

text \<open>A token for the user is in the tables, in force, with the hash of what the caller got.\<close>

definition token_stored :: "auth_lib \<Rightarrow> User \<Rightarrow> string \<Rightarrow> database \<Rightarrow> bool" where
  "token_stored C user raw d \<longleftrightarrow> (\<exists>r\<in>set (db_tokens d). rt_UserID r = u_ID user \<and> rt_TokenHash r = HashRefreshToken C raw \<and> rt_RevokedAt r = None)"

lemma runs_InsertRefreshToken:
  "runs (\<lambda>_ _. True) w (InsertRefreshToken A rec) (\<lambda>r v. r = Inr () \<longrightarrow> (\<exists>row\<in>set (db_tokens (w_mem v)).
     rt_UserID row = tr_UserID rec \<and> rt_TokenHash row = tr_TokenHash rec \<and> rt_RevokedAt row = None))"
  unfolding InsertRefreshToken_def
proof (intro runs_post [OF runs_db_run] TrueI impI)
  fix r v
  assume "db_outcome A ''InsertRefreshToken'' (insert_token_tx rec) () w r v" and "r = Inr ()"
  moreover have "run_tx f n (insert_token_tx rec) d () \<noteq> TxEnd ()" for f n d
    by (auto simp: insert_token_tx_def sql_result_def split: sum.splits)
  ultimately have "commits (insert_token_tx rec) (an_db (b_db A (w_trace w) (w_mem w))) (w_mem v)"
    by (auto simp: db_outcome_def Let_def commits_def)
  from insert_token_commits [OF this] show "\<exists>row\<in>set (db_tokens (w_mem v)).
      rt_UserID row = tr_UserID rec \<and> rt_TokenHash row = tr_TokenHash rec \<and> rt_RevokedAt row = None" by (metis in_set_conv_decomp)
qed

lemma runs_mint_new:
  "runs (\<lambda>_ _. True) w (mintAndStore C A cfg user family None) (\<lambda>r v. \<forall>res. r = Inr res \<longrightarrow> to_User res = user \<and> token_stored C user (to_RefreshToken res) (w_mem v))"
  unfolding mintAndStore_def NewRefreshToken_def store_token_def token_result_def backend_call_defs
  by (simp, intro runs_rules runs_post [OF runs_InsertRefreshToken] TrueI)
    (auto simp: token_stored_def Let_def split: sum.splits)

lemma issueTokens_result:
  assumes "result_of (issueTokens C A cfg user) w = Inr res"
  shows "to_User res = user" and "token_stored C user (to_RefreshToken res) (w_mem (world_after (issueTokens C A cfg user) w))"
  using assms runs_result [OF runs_mint_new] by (auto simp: issueTokens_def split: sum.splits)

text \<open>
  C26. A login gives tokens only for a user that is not disabled and whose stored hash the password verifies against, and the
  refresh token it returns is then in the tables, in force, for that user.
\<close>

theorem Login_authenticates:
  assumes "result_of (Login L C A cfg email password) w = Inr res"
  shows "u_DisabledAt (to_User res) = None \<and> VerifyPassword C password (u_PasswordHash (to_User res)) = Some True \<and>
    token_stored C (to_User res) (to_RefreshToken res) (w_mem (world_after (Login L C A cfg email password) w))"
  using assms issueTokens_result by (auto simp: Login_def split: sum.splits if_splits)

definition admin_tables :: database where
  "admin_tables = \<lparr>db_users = [\<lparr>bu_ID = ''user'', bu_Email = ''admin'',
       bu_PasswordHash = HashPassword_with sample_auth ''secret'' DefaultArgon2Params (replicate 16 CHR ''s''), bu_CreatedAt = 0, bu_DisabledAt = None\<rparr>],
     db_tokens = [], db_idempotency = [], db_sessions = [], db_events = []\<rparr>"

lemma admin_password:
  fixes hash :: string
  defines "hash \<equiv> HashPassword_with sample_auth ''secret'' DefaultArgon2Params (replicate 16 CHR ''s'')"
  shows "VerifyPassword sample_auth ''secret'' hash = Some True" "\<not> NeedsRehash sample_auth hash DefaultArgon2Params"
proof -
  have "params_ok DefaultArgon2Params" by (simp add: params_ok_def DefaultArgon2Params_def)
  note decode = decodeHash_HashPassword [OF sample_auth_contract this, of "''secret''" "replicate 16 CHR ''s''", folded hash_def]
  show "VerifyPassword sample_auth ''secret'' hash = Some True" "\<not> NeedsRehash sample_auth hash DefaultArgon2Params"
    unfolding VerifyPassword_def NeedsRehash_def decode by (simp_all add: DefaultArgon2Params_def sample_auth_def)
qed

lemma admin_login:
  "\<exists>res. result_of (Login L sample_auth quiet_api sample_cfg ''admin'' ''secret'') (quiet_world admin_tables) = Inr res"
proof -
  have "normalizeLoginIdentifier sample_auth ''admin'' = Inr ''admin''" by code_simp
  then show ?thesis using admin_password
    by (simp add: Login_def login_user_def GetUserByEmail_def GetUserByEmail_sql_def rehash_def issueTokens_def InsertRefreshToken_def
      insert_token_tx_def admin_tables_def quiet_simps)
qed

theorem Login_authenticates_witness:
  "\<exists>res :: TokenResult. token_stored sample_auth (to_User res) (to_RefreshToken res)
     (w_mem (world_after (Login sample_lib sample_auth quiet_api sample_cfg ''admin'' ''secret'') (quiet_world admin_tables)))"
proof -
  from admin_login obtain res where "result_of (Login sample_lib sample_auth quiet_api sample_cfg ''admin'' ''secret'') (quiet_world admin_tables) = Inr res" by blast
  from Login_authenticates [OF this] show ?thesis by blast
qed

end
