(* ===== verification/Session_Backend.thy ===== *)
theory Session_Backend
  imports Session_Steps Auth_Safety
begin

text \<open>
  What the session service of the backend guarantees: the limit of sessions per user and the history of the rows under any
  interleaving of replicas, projector and repair loop, idempotent creation, guarded transitions, a repair loop that only
  touches what the database says, and resources that the operator accepts.
\<close>

section \<open>A sample\<close>

definition sample_session_lib :: session_lib where
  "sample_session_lib = \<lparr>Marshal_conditions = (\<lambda>cs. Some ''conditions''), Unmarshal_conditions = (\<lambda>b. Some []),
     Marshal_payload = (\<lambda>p. Some ''payload''), Marshal_envelope = (\<lambda>d. Some (dt_ID d)), ParseQuantity = Some,
     uuid_Parse = Some, Format_RFC3339 = (\<lambda>t. ''now''), backoff_steps = 3\<rparr>"

definition sample_request :: CreateRequest where
  "sample_request = \<lparr>cq_Name = ''work'', cq_Priority = ''normal'', cq_MemoryRequest = [], cq_Runtime = ''claude-code'',
     cq_Provider = \<lparr>pq_Mode = ''platform'', pq_CredentialID = []\<rparr>, cq_StoragePolicy = ''local''\<rparr>"

definition sample_user :: uuid where
  "sample_user = ''01890000-0000-7000-8000-000000000099''"

text \<open>Quantities in decimal, and the three sizes the sources parse.\<close>

definition decimal_value :: "quantity \<Rightarrow> int" where
  "decimal_value q = (if q = ''2Gi'' then 2 ^ 31 else if q = ''1Gi'' then 2 ^ 30 else if q = ''64Gi'' then 2 ^ 36 else Atoi_value q)"

definition decimal_lib :: klib where
  "decimal_lib = sample_lib\<lparr>q_Value := decimal_value, q_NewQuantity := show_int,
     q_Cmp := (\<lambda>a b. decimal_value a - decimal_value b), sha256 := (\<lambda>s. s)\<rparr>"

definition ready_environment :: UserEnvironment where
  "ready_environment = (environment_cr decimal_lib sample_user)\<lparr>ue_Status := \<lparr>ut_Phase = UserEnvironmentPhaseReady,
     ut_ObservedGeneration = 1, ut_Conditions = []\<rparr>\<rparr>"

text \<open>A server with the environment ready, and identifiers numbered by the length of the trace.\<close>

definition ready_api :: backend_api where
  "ready_api = quiet_api\<lparr>b_get_env := (\<lambda>t k. Inr ready_environment), b_uuid := (\<lambda>t. Inr (''01890000-0000-7000-8000-0000000000'' @
     [char_of (48 + length t div 10 mod 10), char_of (48 + length t mod 10)]))\<rparr>"

definition session_tables :: "BosunSession list \<Rightarrow> database" where
  "session_tables rows = \<lparr>db_users = [\<lparr>bu_ID = sample_user, bu_Email = ''u@example.com'', bu_PasswordHash = ''hash'', bu_CreatedAt = 0,
       bu_DisabledAt = None\<rparr>], db_tokens = [], db_idempotency = [], db_sessions = rows, db_events = []\<rparr>"

lemma quiet_relies: "relies step quiet_api" "relies step ready_api"
  by (simp_all add: relies_def quiet_api_def ready_api_def)

lemma ready_no_faults: "no_faults ready_api"
  by (simp add: no_faults_def quiet_api_def ready_api_def)

lemma sample_request_valid: "validCreateRequest decimal_lib sample_session_lib sample_request"
  by code_simp

section \<open>The rows under interference\<close>

text \<open>
  C3. No user ever has more than 20 live sessions: whatever transactions other clients commit between the calls and
  whatever fails, creation, transition, deletion, projection and repair keep the invariant of the table of sessions (the limit,
  unique identifiers and resources, the constraints of the columns).
\<close>

theorem sessions_bounded:
  assumes "relies session_step A" and "session_inv (w_mem w)"
  shows "session_inv (w_mem (world_after (session_Create L K A userID key method path requestHash req) w)) \<and>
    session_inv (w_mem (world_after (Transition K A userID sessionID action) w)) \<and>
    session_inv (w_mem (world_after (session_Delete K A userID sessionID) w)) \<and>
    session_inv (w_mem (world_after (runWatch L K A) w)) \<and>
    session_inv (w_mem (world_after (session_RunOnce L K A) w))"
  by (intro conjI sessions.steps_inv [OF guarantees_steps assms(2)] guarantees_Create guarantees_Transition guarantees_Delete
      guarantees_runWatch guarantees_RunOnce assms(1))


theorem sessions_bounded_witness:
  "session_inv (w_mem (world_after (session_Create sample_lib sample_session_lib quiet_api ''user'' ''key'' ''POST'' ''/sessions'' ''hash''
     sample_request) (quiet_world (sample_tables None))))"
proof -
  have "session_inv (w_mem (quiet_world (sample_tables None)))"
    by (simp add: session_inv_def quiet_world_def sample_tables_def CountSessionsForUser_def MaxSessionsPerUser_def)
  from sessions_bounded [OF quiet_relies(1) this, of sample_lib sample_session_lib "''user''"] show ?thesis by blast
qed


section \<open>Creation is idempotent\<close>

text \<open>The rows of a key, and that a step leaves them alone.\<close>

definition keys_of :: "uuid \<Rightarrow> string \<Rightarrow> database \<Rightarrow> BosunIdempotencyKey list" where
  "keys_of userID key d = filter (\<lambda>r. ik_UserID r = userID \<and> ik_Key r = key) (db_idempotency d)"

definition same_keys :: "uuid \<Rightarrow> string \<Rightarrow> database \<Rightarrow> database \<Rightarrow> bool" where
  "same_keys userID key d d' \<longleftrightarrow> keys_of userID key d' = keys_of userID key d"

lemma same_keys_steps: "(same_keys userID key)\<^sup>*\<^sup>* d d' \<Longrightarrow> keys_of userID key d' = keys_of userID key d"
  by (induction rule: rtranclp_induct) (auto simp: same_keys_def)

lemma same_keys_db: "relies (same_keys userID key) A \<Longrightarrow> keys_of userID key (an_db (b_db A t d)) = keys_of userID key d"
  by (rule same_keys_steps) (rule relies_steps)

lemma same_keys_refl: "reflp (same_keys userID key)"
  by (simp add: reflp_def same_keys_def)

lemma find_filter: "find P (filter Q xs) = find (\<lambda>x. Q x \<and> P x) xs"
  by (induction xs) auto

lemma get_key_keys: "GetIdempotencyKey_sql now userID key d = find (\<lambda>r. ik_ExpiresAt r > now) (keys_of userID key d)"
  by (simp add: GetIdempotencyKey_sql_def keys_of_def find_filter conj_assoc)

lemma insert_key_keys:
  assumes "keys_of (ik_UserID rec) (ik_Key rec) d = []"
  shows "keys_of (ik_UserID rec) (ik_Key rec) (snd (InsertIdempotencyKey_sql now rec d)) = [rec\<lparr>ik_CreatedAt := now\<rparr>]"
proof -
  have "find (\<lambda>r. ik_UserID r = ik_UserID rec \<and> ik_Key r = ik_Key rec) (db_idempotency d) = None"
    using assms by (auto simp: keys_of_def find_None_iff filter_empty_conv)
  then show ?thesis using assms by (simp add: InsertIdempotencyKey_sql_def Let_def keys_of_def)
qed

text \<open>The trace and the tables after a call of the database.\<close>

lemma db_run_trace: "w_trace (world_after (db_run A name steps r0) w) = w_trace w @ [EvDb name (b_db A (w_trace w) (w_mem w))]"
  by (simp add: db_run_def split: tx_result.split)

text \<open>A request whose key has a record that has not expired.\<close>

lemma callback_replay:
  assumes "no_faults A" and "relies (same_keys userID key) A" and "keys_of userID key (w_mem w) = [row]"
    and "\<And>t d. an_now (b_db A t d) < ik_ExpiresAt row"
  shows "result_of (create_callback L K A userID key method path hash req) w =
      (if ik_RequestHash row = hash then (\<lparr>co_Status = ik_ResponseStatus row, co_Body = ik_ResponseBody row\<rparr>, None)
       else (zero_CreateOutput, Some ErrIdempotency))"
    and "world_after (create_callback L K A userID key method path hash req) w = world_after (GetIdempotencyKey A userID key) w"
proof -
  have "result_of (GetIdempotencyKey A userID key) w = Inr (Some (idempotencyFromRow row))"
    using assms(3,4) same_keys_db [OF assms(2)]
    by (simp add: GetIdempotencyKey_def db_run_no_faults [OF assms(1)] get_key_keys)
  then show "result_of (create_callback L K A userID key method path hash req) w =
      (if ik_RequestHash row = hash then (\<lparr>co_Status = ik_ResponseStatus row, co_Body = ik_ResponseBody row\<rparr>, None)
       else (zero_CreateOutput, Some ErrIdempotency))"
    and "world_after (create_callback L K A userID key method path hash req) w = world_after (GetIdempotencyKey A userID key) w"
    by (simp_all add: create_callback_def toIdempotencyRecord_def idempotencyFromRow_def Decide_def)
qed

lemma lock_no_faults:
  assumes "no_faults A"
  shows "result_of (db_run A name (map (\<lambda>l. (l, tx_nop)) labels) r) w = Inr r"
    and "w_mem (world_after (db_run A name (map (\<lambda>l. (l, tx_nop)) labels) r) w) = an_db (b_db A (w_trace w) (w_mem w))"
proof -
  have "run_tx None now (map (\<lambda>l. (l, tx_nop)) labels) d r = TxGo d r" for now d
    by (induction labels) (simp_all add: tx_nop_def)
  then show "result_of (db_run A name (map (\<lambda>l. (l, tx_nop)) labels) r) w = Inr r"
    and "w_mem (world_after (db_run A name (map (\<lambda>l. (l, tx_nop)) labels) r) w) = an_db (b_db A (w_trace w) (w_mem w))"
    by (simp_all add: db_run_no_faults [OF assms])
qed

definition lock_prog :: "backend_api \<Rightarrow> (backend_error + unit) backend" where
  "lock_prog A = db_run A ''idempotency lock'' (map (\<lambda>l. (l, tx_nop)) [''acquire idempotency lock connection'', ''acquire idempotency lock'']) ()"

definition unlock_prog :: "backend_api \<Rightarrow> (backend_error + unit) backend" where
  "unlock_prog A = db_run A ''idempotency unlock'' (map (\<lambda>l. (l, tx_nop)) [''release idempotency lock'']) ()"

lemma lock_result:
  assumes "no_faults A"
  shows "result_of (WithIdempotencyLock A z fn) w = result_of fn (world_after (lock_prog A) w)"
    and "world_after (WithIdempotencyLock A z fn) w = world_after (unlock_prog A) (world_after fn (world_after (lock_prog A) w))"
  using lock_no_faults [OF assms, of "''idempotency lock''" "[''acquire idempotency lock connection'', ''acquire idempotency lock'']" "()" w]
    lock_no_faults [OF assms, of "''idempotency unlock''" "[''release idempotency lock'']" "()"]
  by (auto simp: WithIdempotencyLock_def lock_prog_def unlock_prog_def split_beta prod_eq_iff split: option.split)

lemma lock_keys:
  assumes "no_faults A" and "relies (same_keys userID key) A"
  shows "keys_of userID key (w_mem (world_after (lock_prog A) w)) = keys_of userID key (w_mem w)"
    and "keys_of userID key (w_mem (world_after (unlock_prog A) w)) = keys_of userID key (w_mem w)"
  unfolding lock_prog_def unlock_prog_def lock_no_faults [OF assms(1)] by (rule same_keys_db [OF assms(2)])+

lemma Create_replay:
  assumes "no_faults A" and "relies (same_keys userID key) A" and "keys_of userID key (w_mem w) = [row]"
    and "\<And>t d. an_now (b_db A t d) < ik_ExpiresAt row" and "key \<noteq> []" and "validCreateRequest L K req"
  shows "result_of (session_Create L K A userID key method path hash req) w =
      (if ik_RequestHash row = hash then (\<lparr>co_Status = ik_ResponseStatus row, co_Body = ik_ResponseBody row\<rparr>, None)
       else (zero_CreateOutput, Some ErrIdempotency))"
    and "\<exists>a1 a2 a3. events_of (session_Create L K A userID key method path hash req) w =
      [EvDb ''idempotency lock'' a1, EvDb ''GetIdempotencyKey'' a2, EvDb ''idempotency unlock'' a3]"
proof -
  let ?m = "session_Create L K A userID key method path hash req"
  have row: "keys_of userID key (w_mem (world_after (lock_prog A) w)) = [row]" using lock_keys(1) [OF assms(1,2)] assms(3) by simp
  note replay = callback_replay [OF assms(1,2) row assms(4)]
  have m: "result_of ?m w = result_of (create_callback L K A userID key method path hash req) (world_after (lock_prog A) w)"
    "world_after ?m w = world_after (unlock_prog A) (world_after (create_callback L K A userID key method path hash req) (world_after (lock_prog A) w))"
    using assms(5,6) by (simp_all add: session_Create_def lock_result [OF assms(1)])
  show "result_of ?m w = (if ik_RequestHash row = hash then (\<lparr>co_Status = ik_ResponseStatus row, co_Body = ik_ResponseBody row\<rparr>, None)
       else (zero_CreateOutput, Some ErrIdempotency))" unfolding m replay ..
  show "\<exists>a1 a2 a3. events_of ?m w = [EvDb ''idempotency lock'' a1, EvDb ''GetIdempotencyKey'' a2, EvDb ''idempotency unlock'' a3]"
    unfolding events_of_def m replay unfolding lock_prog_def unlock_prog_def GetIdempotencyKey_def by (simp add: db_run_trace)
qed

text \<open>A creation that went through leaves its record.\<close>

definition recorded :: "backend_api \<Rightarrow> uuid \<Rightarrow> string \<Rightarrow> bytes \<Rightarrow> CreateOutput \<times> backend_error option \<Rightarrow> database \<Rightarrow> bool" where
  "recorded A userID key hash r d \<longleftrightarrow> (snd r = None \<longrightarrow> (\<exists>row t. keys_of userID key d = [row] \<and> ik_RequestHash row = hash \<and>
     ik_ResponseStatus row = co_Status (fst r) \<and> ik_ResponseBody row = co_Body (fst r) \<and> ik_ExpiresAt row = b_now A t + day))"

lemma recorded_keys: "recorded A userID key hash r d \<Longrightarrow> keys_of userID key d' = keys_of userID key d \<Longrightarrow> recorded A userID key hash r d'"
  by (simp add: recorded_def)

lemma recorded_error [simp]: "recorded A userID key hash (out, Some e) d"
  by (simp add: recorded_def)

lemma create_tx_keys:
  assumes "run_tx f now (create_tx K rec event idem) d () = TxGo d' ()" and "keys_of (ss_UserID rec) (ii_Key idem) d = []"
  shows "keys_of (ss_UserID rec) (ii_Key idem) d' = [(key_row (ss_UserID rec) idem)\<lparr>ik_CreatedAt := now\<rparr>]"
proof -
  obtain conditions row d1 d2 where "CreateSession (session_params rec conditions) d = Inr (row, d1)"
    and "InsertSessionEvent (event_row event) d1 = Inr d2"
    and d': "d' = snd (InsertIdempotencyKey_sql now (key_row (ss_UserID rec) idem) d2)"
    using assms(1) by (auto simp: create_tx_def tx_nop_def insertEvent_def sql_result_def split_beta
      split: if_splits option.splits sum.splits)
  then have "db_idempotency d2 = db_idempotency d"
    by (auto simp: CreateSession_def InsertSessionEvent_def Let_def split: if_splits)
  then have "keys_of (ik_UserID (key_row (ss_UserID rec) idem)) (ik_Key (key_row (ss_UserID rec) idem)) d2 = []"
    using assms(2) by (simp add: keys_of_def key_row_def)
  from insert_key_keys [OF this] show ?thesis by (simp add: d' key_row_def)
qed

lemma runs_guarantees: "guarantees step m \<Longrightarrow> runs (\<lambda>_ _. True) w m (\<lambda>_ v. step\<^sup>*\<^sup>* (w_mem w) (w_mem v))"
  by (simp add: guarantees_def)

lemma runs_create_commit:
  assumes A: "relies (same_keys (ss_UserID rec) (ii_Key idem)) A" and "keys_of (ss_UserID rec) (ii_Key idem) (w_mem w) = []"
    and "ii_Status idem = StatusAccepted" and "ii_ExpiresAt idem = b_now A t + day" and "ii_RequestHash idem = hash"
  shows "runs (\<lambda>_ _. True) w (create_commit L K A rec event idem) (\<lambda>r v. recorded A (ss_UserID rec) (ii_Key idem) hash r (w_mem v))"
proof -
  let ?ok = "\<lambda>v. keys_of (ss_UserID rec) (ii_Key idem) (w_mem v) = [(key_row (ss_UserID rec) idem)\<lparr>ik_CreatedAt := an_now (b_db A (w_trace w) (w_mem w))\<rparr>]"
  have commit: "runs (\<lambda>_ _. True) w (CreateWithEventAndIdempotency K A rec event idem) (\<lambda>r v. r = Inr () \<longrightarrow> ?ok v)"
    unfolding CreateWithEventAndIdempotency_def
  proof (intro runs_post [OF runs_db_run] TrueI impI)
    fix r v
    assume "db_outcome A ''CreateWithEventAndIdempotency'' (create_tx K rec event idem) () w r v" and "r = Inr ()"
    moreover have "run_tx f n (create_tx K rec event idem) d () \<noteq> TxEnd ()" for f n d
      by (auto simp: create_tx_def tx_nop_def insertEvent_def sql_result_def split_beta split: sum.splits option.splits if_splits)
    ultimately show "?ok v" using create_tx_keys [of None _ K rec event idem] same_keys_db [OF A] assms(2)
      by (auto simp: db_outcome_def Let_def)
  qed
  have ensure: "runs (\<lambda>_ _. True) v (session_Ensure L K A rec) (\<lambda>_ v'. ?ok v')" if "?ok v" for v
    using that by (intro runs_post [OF runs_guarantees [OF guarantees_calls(1) [where step = "same_keys (ss_UserID rec) (ii_Key idem)"]]]) (auto dest: same_keys_steps)
  have "i32 StatusAccepted = StatusAccepted" by (simp add: i32_def StatusAccepted_def)
  then have fin: "recorded A (ss_UserID rec) (ii_Key idem) hash (\<lparr>co_Status = StatusAccepted, co_Body = ii_Body idem\<rparr>, None) (w_mem v)" if "?ok v" for v
    using that assms(3-5) by (auto simp: recorded_def key_row_def)
  show ?thesis unfolding create_commit_def
    by (intro runs_bind runs_post [OF commit] runs_case_sum runs_return runs_post [OF ensure] fin) (auto simp: recorded_def)
qed

lemma runs_create_record:
  assumes A: "relies (same_keys userID key) A" and "keys_of userID key (w_mem w) = []"
  shows "runs (\<lambda>_ _. True) w (create_record L K A userID key method path hash req sessionID nonce) (\<lambda>r v. recorded A userID key hash r (w_mem v))"
  unfolding create_record_def clock_def newEvent_def new_uuid_def
  by (intro runs_rules TrueI runs_create_commit [where t = "w_trace w", THEN runs_post])
    (auto simp: recorded_def A assms(2) new_session_def)

lemma runs_create_callback:
  assumes A: "relies (same_keys userID key) A" and "keys_of userID key (w_mem w) = []"
  shows "runs (\<lambda>_ _. True) w (create_callback L K A userID key method path hash req) (\<lambda>r v. recorded A userID key hash r (w_mem v))"
proof -
  let ?none = "\<lambda>v. keys_of userID key (w_mem v) = []"
  have keep: "runs (\<lambda>_ _. True) v m (\<lambda>_ v'. ?none v')" if "guarantees (same_keys userID key) m" "?none v" for v and m :: "'x backend"
    using that(2) by (intro runs_post [OF runs_guarantees [OF that(1)]]) (auto dest: same_keys_steps)
  note calls = guarantees_calls [where step = "same_keys userID key"] and queries = guarantees_queries [OF A same_keys_refl]
  have get: "runs (\<lambda>_ _. True) w (GetIdempotencyKey A userID key) (\<lambda>r v. (\<forall>x. r = Inr x \<longrightarrow> x = None) \<and> ?none v)"
    unfolding GetIdempotencyKey_def
    using same_keys_db [OF A, of "w_trace w" "w_mem w"] assms(2)
    by (intro runs_post [OF runs_db_run]) (auto simp: db_outcome_def Let_def get_key_keys split: if_splits)
  show ?thesis
    unfolding create_callback_def create_proceed_def create_ids_def
    by (auto intro!: runs_bind runs_return runs_post [OF get] runs_post [OF keep [OF calls(6)]] runs_post [OF keep [OF queries(1)]]
        runs_post [OF keep [OF calls(9)]] runs_create_record [OF A] assms(2)
        simp: toIdempotencyRecord_def Decide_def split: sum.split)
qed

text \<open>
  C21. Creating a session is idempotent. When a creation under a new key succeeds, a repetition with the same request gets the
  recorded status and body, one with another request is refused as a conflict, and in either case the repetition only takes the
  lock, reads the key and releases the lock: no second session, no second resource. This holds on a database that answers,
  while nobody else uses the key and the record has not expired.
\<close>

theorem Create_idempotent:
  assumes "no_faults A" and "relies (same_keys userID key) A" and "keys_of userID key (w_mem w) = []"
    and "\<forall>t t' d. an_now (b_db A t d) < b_now A t' + day"
    and "result_of (session_Create L K A userID key method path hash req) w = (out, None)"
    and "v = world_after (session_Create L K A userID key method path hash req) w" and "validCreateRequest L K req'"
  shows "result_of (session_Create L K A userID key method' path' hash' req') v =
      (if hash' = hash then (out, None) else (zero_CreateOutput, Some ErrIdempotency)) \<and>
    (\<exists>a1 a2 a3. events_of (session_Create L K A userID key method' path' hash' req') v =
      [EvDb ''idempotency lock'' a1, EvDb ''GetIdempotencyKey'' a2, EvDb ''idempotency unlock'' a3])"
proof -
  let ?cb = "create_callback L K A userID key method path hash req" and ?w = "world_after (lock_prog A) w"
  have key: "key \<noteq> []" and out: "result_of ?cb ?w = (out, None)" and v: "v = world_after (unlock_prog A) (world_after ?cb ?w)"
    using assms(5,6) by (auto simp: session_Create_def lock_result [OF assms(1)] split: if_splits)
  have "keys_of userID key (w_mem ?w) = []" using lock_keys(1) [OF assms(1,2)] assms(3) by simp
  from runs_result [OF runs_create_callback [OF assms(2) this]] have "recorded A userID key hash (out, None) (w_mem (world_after ?cb ?w))"
    using out by metis
  then have "recorded A userID key hash (out, None) (w_mem v)" using v lock_keys(2) [OF assms(1,2)] recorded_keys by metis
  then obtain row t where row: "keys_of userID key (w_mem v) = [row]" "ik_RequestHash row = hash" "ik_ResponseStatus row = co_Status out"
    "ik_ResponseBody row = co_Body out" "ik_ExpiresAt row = b_now A t + day" by (auto simp: recorded_def)
  then have "an_now (b_db A t' d) < ik_ExpiresAt row" for t' d using assms(4) by simp
  from Create_replay [OF assms(1,2) row(1) this key assms(7)] show ?thesis using row by auto
qed

lemma ready_simps:
  "b_db ready_api t d = \<lparr>an_db = d, an_now = 10, an_fault = None, an_lost = False\<rparr>" "b_now ready_api t = 10"
  "b_get_env ready_api t k = Inr ready_environment" "b_create_cr ready_api t cr = None"
  "b_uuid ready_api t = Inr (''01890000-0000-7000-8000-0000000000'' @ [char_of (48 + length t div 10 mod 10), char_of (48 + length t mod 10)])"
  "ut_Phase (ue_Status ready_environment) = UserEnvironmentPhaseReady"
  by (simp_all add: ready_api_def quiet_api_def ready_environment_def)

lemma ready_run:
  "result_of (db_run ready_api name steps r0) w = (case run_tx None 10 steps (w_mem w) r0 of TxFail e \<Rightarrow> Inl e | TxEnd r \<Rightarrow> Inr r | TxGo d' r \<Rightarrow> Inr r)"
  "world_after (db_run ready_api name steps r0) w = w\<lparr>w_trace := w_trace w @ [EvDb name \<lparr>an_db = w_mem w, an_now = 10, an_fault = None, an_lost = False\<rparr>],
     w_mem := (case run_tx None 10 steps (w_mem w) r0 of TxGo d' r \<Rightarrow> d' | _ \<Rightarrow> w_mem w)\<rparr>"
  by (simp_all add: db_run_def ready_simps split: tx_result.split)

lemma sample_checks:
  "session_checks (session_row (session_params (new_session decimal_lib sample_user sample_request 2147483648 i n 10) c))"
proof -
  have "TrimSpace ''work'' = ''work''" "RuneCountInString ''work'' = 4" by code_simp+
  then show ?thesis by (simp add: session_checks_def session_row_def session_params_def new_session_def sample_request_def)
qed

lemma new_row_simps:
  "bs_UserID (session_row (session_params session c)) = ss_UserID session" "bs_ID (session_row (session_params session c)) = ss_ID session"
  "ss_UserID (new_session L u req m i n t) = u" "ss_ID (new_session L u req m i n t) = i" "be_SessionID (event_row e) = ev_SessionID e"
  by (simp_all add: session_row_def session_params_def new_session_def event_row_def)

lemma sample_create_lib:
  "parseMemoryRequest decimal_lib sample_session_lib (cq_MemoryRequest sample_request) = Some ''2Gi''" "q_Value decimal_lib ''2Gi'' = 2147483648"
  "Marshal_conditions sample_session_lib cs = Some ''conditions''" "Marshal_payload sample_session_lib p = Some ''payload''"
  "Marshal_envelope sample_session_lib e = Some (dt_ID e)"
  by (simp_all add: parseMemoryRequest_def sample_request_def decimal_lib_def sample_lib_def decimal_value_def sample_session_lib_def)

lemmas create_run_simps = create_callback_def create_proceed_def create_ids_def create_record_def create_commit_def GetIdempotencyKey_def
  env_Phase_def CountTotal_def newEvent_def backend_call_defs ready_run ready_simps CreateWithEventAndIdempotency_def renderSessionEnvelope_def
  session_Ensure_def sample_create_lib quiet_world_def Let_def tx_nop_def create_tx_def toIdempotencyRecord_def Decide_def
  GetIdempotencyKey_sql_def CountSessionsForUser_def MaxSessionsPerUser_def sql_result_def insertEvent_def InsertSessionEvent_def
  InsertIdempotencyKey_sql_def CreateSession_def sample_checks new_row_simps session_tables_def

lemma sample_Create:
  "\<exists>out. result_of (session_Create decimal_lib sample_session_lib ready_api sample_user ''key'' method path hash sample_request)
     (quiet_world (session_tables [])) = (out, None)"
  using sample_request_valid by (simp add: session_Create_def lock_result [OF ready_no_faults] lock_prog_def create_run_simps)

lemma sample_Create_sends:
  "\<exists>cr r. EvCreateCR cr r \<in> set (events_of (session_Create decimal_lib sample_session_lib ready_api sample_user ''key'' method path hash sample_request)
     (quiet_world (session_tables [])))"
  using sample_request_valid by (simp add: events_of_def session_Create_def WithIdempotencyLock_def split_beta create_run_simps)

theorem Create_idempotent_witness:
  "\<exists>out. result_of (session_Create decimal_lib sample_session_lib ready_api sample_user ''key'' ''POST'' ''/sessions'' ''hash'' sample_request)
     (world_after (session_Create decimal_lib sample_session_lib ready_api sample_user ''key'' ''POST'' ''/sessions'' ''hash'' sample_request)
       (quiet_world (session_tables []))) = (out, None)"
proof -
  from sample_Create obtain out where out: "result_of (session_Create decimal_lib sample_session_lib ready_api sample_user ''key'' ''POST'' ''/sessions''
     ''hash'' sample_request) (quiet_world (session_tables [])) = (out, None)" by blast
  have "keys_of sample_user ''key'' (w_mem (quiet_world (session_tables [])))= []" by (simp add: keys_of_def quiet_world_def session_tables_def)
  moreover have "\<forall>t t' d. an_now (b_db ready_api t d) < b_now ready_api t' + day" by (simp add: ready_simps day_def second_def)
  ultimately show ?thesis
    using Create_idempotent [OF ready_no_faults quiet_relies(2) _ _ out refl sample_request_valid, of "''POST''" "''/sessions''" "''hash''"] by auto
qed

end
