(* ===== verification/Session_Requests.thy ===== *)
theory Session_Requests
  imports Session_Backend
begin

text \<open>
  What the session service asks of the API server, event by event: transitions only from the phases that allow them. Pages
  of the list of sessions, and where the offset of a page wraps around; and what a read shows before the operator has
  written a status.
\<close>

section \<open>Transitions\<close>

text \<open>An update follows a read of the resource, which is the session's and in a phase that allows the action, and is the request of the action.\<close>

definition update_guarded :: "session_lib \<Rightarrow> uuid \<Rightarrow> uuid \<Rightarrow> Action \<Rightarrow> backend_event list \<Rightarrow> backend_event \<Rightarrow> bool" where
  "update_guarded K userID sessionID action t e \<longleftrightarrow> (\<forall>cr r. e = EvUpdateCR cr r \<longrightarrow>
     (\<exists>before key cur nonce now. t = before @ [EvGetCR key (Inr cur)] \<and> sp_SessionID (as_Spec cur) = sessionID \<and>
        sp_UserID (as_Spec cur) = userID \<and> allowedTransition (st_Phase (as_Status cur)) action \<and>
        \<not> transitionAlreadyRequested cur action \<and> request K action nonce now cur = Some cr))"

lemma update_guarded_other [simp]:
  "update_guarded K u s action t (EvDb name a)" "update_guarded K u s action t (EvClock n)" "update_guarded K u s action t (EvUUID i)"
  "update_guarded K u s action t (EvGetCR k g)"
  by (simp_all add: update_guarded_def)

lemma runs_row_query:
  assumes "\<And>a. P (w_trace w) (EvDb name a)"
  shows "runs P w (row_query A name label q) (\<lambda>r v. \<forall>row. r = Inr (Some row) \<longrightarrow> q (w_mem v) = Some row)"
  unfolding row_query_def by (rule runs_post [OF runs_db_run]) (auto simp: assms db_outcome_def Let_def split: if_splits)

lemma runs_store_Get:
  assumes "\<And>t a. P t (EvDb ''Get'' a)"
  shows "runs P w (store_Get K A userID sessionID) (\<lambda>r v. \<forall>rec. r = Inr rec \<longrightarrow> ss_ID rec = sessionID \<and> ss_UserID rec = userID)"
proof -
  have "ss_ID rec = sessionID \<and> ss_UserID rec = userID"
    if "GetSessionForUser sessionID userID d = Some row" "sessionFromRow K row = Inr rec" for d row rec
    using that by (auto simp: GetSessionForUser_def find_Some_iff live_of_def sessionFromRow_def split: option.splits)
  then show ?thesis unfolding store_Get_def
    by (intro runs_bind runs_post [OF runs_row_query] assms runs_return) (auto split: sum.splits option.splits)
qed

lemma runs_Mutate:
  assumes "ss_ID rec = sessionID" and "ss_UserID rec = userID"
  shows "runs (update_guarded K userID sessionID action) w (Mutate K A rec action nonce now) (\<lambda>_ _. True)"
proof -
  have "runs (update_guarded K userID sessionID action) v (mutate_once K A rec action nonce now) (\<lambda>_ _. True)" for v
    unfolding mutate_once_def backend_call_defs
    by (intro runs_rules) (auto simp: update_guarded_def cr_matches_def assms)
  then show ?thesis unfolding Mutate_def
    using runs_retry_on [of "\<lambda>_. True" "update_guarded K userID sessionID action" "mutate_once K A rec action nonce now" "\<lambda>_ _. True"] by simp
qed

lemma runs_Transition:
  "runs (update_guarded K userID sessionID action) w (Transition K A userID sessionID action) (\<lambda>_ _. True)"
proof -
  have update: "runs (update_guarded K userID sessionID action) v (UpdateDesired K A rec event) (\<lambda>_ _. True)" for v rec event
    unfolding UpdateDesired_def by (intro runs_bind runs_post [OF runs_db_run] runs_return) simp_all
  show ?thesis
    unfolding Transition_def transition_nonce_def transition_record_def newEvent_def clock_def new_uuid_def
    by (intro runs_rules runs_post [OF runs_store_Get] runs_post [OF runs_Mutate] runs_post [OF update]) simp_all
qed

text \<open>
  C25. A transition changes a resource only right after reading it, only the resource of that session and user, only from a
  phase that allows the action and when it was not requested before, and only in the way the action asks: hibernation sets the
  desired state, resuming and retrying set it to Running with a new nonce and the time of activity. This holds whatever the
  database and the API server answer and however often the update conflicts.
\<close>

theorem Transition_guarded:
  assumes "events_of (Transition K A userID sessionID action) w = before @ EvUpdateCR cr r # after"
  shows "\<exists>earlier key cur nonce now. w_trace w @ before = earlier @ [EvGetCR key (Inr cur)] \<and> sp_SessionID (as_Spec cur) = sessionID \<and>
    sp_UserID (as_Spec cur) = userID \<and> allowedTransition (st_Phase (as_Status cur)) action \<and>
    \<not> transitionAlreadyRequested cur action \<and> request K action nonce now cur = Some cr"
  using runs_events [OF runs_Transition assms] by (simp add: update_guarded_def)

definition sample_row :: "string \<Rightarrow> time option \<Rightarrow> BosunSession" where
  "sample_row phase deleted = (session_row (session_params (new_session decimal_lib sample_user sample_request (2 ^ 31) ''session'' ''nonce'' 5) ''c''))
     \<lparr>bs_Phase := phase, bs_DeletedAt := deleted\<rparr>"

definition running_cr :: AgentSession where
  "running_cr = (agentSessionFromDomain decimal_lib sample_session_lib (new_session decimal_lib sample_user sample_request (2 ^ 31) ''session'' ''nonce'' 5))
     \<lparr>as_Status := (as_Status zero_AgentSession)\<lparr>st_Phase := PhaseRunning\<rparr>\<rparr>"

definition running_api :: backend_api where
  "running_api = ready_api\<lparr>b_get_cr := (\<lambda>t k. Inr running_cr)\<rparr>"

lemma running_run:
  "result_of (db_run running_api name steps r0) w = (case run_tx None 10 steps (w_mem w) r0 of TxFail e \<Rightarrow> Inl e | TxEnd r \<Rightarrow> Inr r | TxGo d' r \<Rightarrow> Inr r)"
  "world_after (db_run running_api name steps r0) w = w\<lparr>w_trace := w_trace w @ [EvDb name \<lparr>an_db = w_mem w, an_now = 10, an_fault = None, an_lost = False\<rparr>],
     w_mem := (case run_tx None 10 steps (w_mem w) r0 of TxGo d' r \<Rightarrow> d' | _ \<Rightarrow> w_mem w)\<rparr>"
  "b_get_cr running_api t k = Inr running_cr" "b_update_cr running_api t cr = None" "b_now running_api t = 10"
  by (simp_all add: db_run_def running_api_def ready_api_def quiet_api_def split: tx_result.split)

lemma sample_row_session:
  obtains rec where "sessionFromRow sample_session_lib (sample_row phase deleted) = Inr rec" "ss_ID rec = ''session''" "ss_UserID rec = sample_user"
  by (simp add: sessionFromRow_def sample_session_lib_def sample_row_def new_row_simps)

lemma retry_on_success:
  assumes "result_of m w = None"
  shows "result_of (retry_on again n m) w = None" and "world_after (retry_on again n m) w = world_after m w"
  using assms by (cases n; simp)+

lemma sample_Transition:
  "\<exists>before cr r after. events_of (Transition sample_session_lib running_api sample_user ''session'' ActionHibernate)
     (quiet_world (session_tables [sample_row ''Running'' None])) = before @ EvUpdateCR cr r # after"
proof -
  let ?w = "quiet_world (session_tables [sample_row ''Running'' None])"
  from sample_row_session obtain rec where rec: "sessionFromRow sample_session_lib (sample_row ''Running'' None) = Inr rec"
    "ss_ID rec = ''session''" "ss_UserID rec = sample_user" by metis
  have row: "GetSessionForUser ''session'' sample_user (session_tables [sample_row ''Running'' None]) = Some (sample_row ''Running'' None)"
    by (simp add: GetSessionForUser_def session_tables_def live_of_def sample_row_def new_row_simps)
  have cr: "cr_matches rec running_cr" "allowedTransition (st_Phase (as_Status running_cr)) ActionHibernate"
    "\<not> transitionAlreadyRequested running_cr ActionHibernate"
    by (simp_all add: cr_matches_def rec running_cr_def agentSessionFromDomain_def new_row_simps allowedTransition_def zero_AgentSession_def
      transitionAlreadyRequested_def desired_of_string_def new_session_def)
  obtain changed where changed: "request K ActionHibernate n t running_cr = Some changed" for K n t by (simp add: request_def)
  let ?es = "[EvGetCR (session_key rec) (Inr running_cr), EvUpdateCR changed None]"
  have once: "result_of (mutate_once sample_session_lib running_api rec ActionHibernate n t) v = None"
    "world_after (mutate_once sample_session_lib running_api rec ActionHibernate n t) v = v\<lparr>w_trace := w_trace v @ ?es\<rparr>" for n t v
    by (simp_all add: mutate_once_def backend_call_defs running_run cr changed)
  note mutate = retry_on_success(1) [OF once(1)] retry_on_success(2) [OF once(1), unfolded once(2)]
  have get: "result_of (store_Get sample_session_lib running_api sample_user ''session'') ?w = Inr rec"
    "w_trace (world_after (store_Get sample_session_lib running_api sample_user ''session'') ?w) =
      [EvDb ''Get'' \<lparr>an_db = session_tables [sample_row ''Running'' None], an_now = 10, an_fault = None, an_lost = False\<rparr>]"
    by (simp_all add: store_Get_def row_query_def running_run quiet_world_def row rec)
  let ?r = "transition_record sample_session_lib running_api sample_user ''session'' ActionHibernate
    (transitioned rec ActionHibernate (ss_ResumeNonce rec) 10) 10"
  let ?v = "(world_after (store_Get sample_session_lib running_api sample_user ''session'') ?w)\<lparr>w_trace :=
    [EvDb ''Get'' \<lparr>an_db = session_tables [sample_row ''Running'' None], an_now = 10, an_fault = None, an_lost = False\<rparr>, EvClock 10] @ ?es\<rparr>"
  have "world_after (Transition sample_session_lib running_api sample_user ''session'' ActionHibernate) ?w = world_after ?r ?v"
    by (simp add: Transition_def transition_nonce_def clock_def get Mutate_def mutate running_run)
  moreover have "relies session_step running_api" by (simp add: relies_def running_api_def ready_api_def quiet_api_def)
  then have "guarantees session_step ?r"
    unfolding transition_record_def by (intro guarantee_rules guarantees_store guarantees_queries session_step_refl guarantees_calls)
  then have "w_trace (world_after ?r ?v) = w_trace ?v @ events_of ?r ?v" unfolding guarantees_def by (blast dest: runs_trace)
  ultimately have "events_of (Transition sample_session_lib running_api sample_user ''session'' ActionHibernate) ?w = w_trace ?v @ events_of ?r ?v"
    by (simp add: events_of_def quiet_world_def)
  then have "events_of (Transition sample_session_lib running_api sample_user ''session'' ActionHibernate) ?w =
      [EvDb ''Get'' \<lparr>an_db = session_tables [sample_row ''Running'' None], an_now = 10, an_fault = None, an_lost = False\<rparr>, EvClock 10,
       EvGetCR (session_key rec) (Inr running_cr)] @ EvUpdateCR changed None # events_of ?r ?v" by simp
  then show ?thesis by (intro exI)
qed

theorem Transition_guarded_witness:
  "\<exists>before cr r after earlier key cur nonce now.
     events_of (Transition sample_session_lib running_api sample_user ''session'' ActionHibernate)
       (quiet_world (session_tables [sample_row ''Running'' None])) = before @ EvUpdateCR cr r # after \<and>
     before = earlier @ [EvGetCR key (Inr cur)] \<and> allowedTransition (st_Phase (as_Status cur)) ActionHibernate \<and>
     request sample_session_lib ActionHibernate nonce now cur = Some cr"
proof -
  from sample_Transition obtain before cr r after where e: "events_of (Transition sample_session_lib running_api sample_user ''session'' ActionHibernate)
     (quiet_world (session_tables [sample_row ''Running'' None])) = before @ EvUpdateCR cr r # after" by blast
  have "w_trace (quiet_world (session_tables [sample_row ''Running'' None])) @ before = before" by (simp add: quiet_world_def)
  with Transition_guarded [OF e] show ?thesis using e by metis
qed

section \<open>Pages\<close>

text \<open>The offset of a page is what it should be while it fits into 32 bits; beyond, a far page shows the rows of an early one or fails.\<close>

theorem session_List_page:
  assumes "1 \<le> page" "1 \<le> pageSize" "pageSize \<le> 100" "page \<le> 2 ^ 31 - 1" "(page - 1) * pageSize < 2 ^ 31"
  shows "session_List K A userID page pageSize = store_List K A userID pageSize ((page - 1) * pageSize)"
proof -
  have "i32 (page - 1) = page - 1" "i32 ((page - 1) * pageSize) = (page - 1) * pageSize"
    using assms by (auto simp: i32_def)
  then show ?thesis using assms by (simp add: session_List_def)
qed

theorem session_List_wraps:
  "session_List K A userID 42949674 100 = store_List K A userID 100 4"
  "ListSessionsForUser userID 100 (i32 (i32 (21474838 - 1) * 100)) d = Inl (OtherViolation ''OFFSET must not be negative'')"
  by (simp_all add: session_List_def i32_def ListSessionsForUser_def limit_offset_def)

section \<open>Reads\<close>

text \<open>A resource without a status, as it is between its creation and the first reconciliation, blanks the phase of the row.\<close>

theorem overlay_blank:
  "st_Phase (as_Status cr) = PhaseUnset \<Longrightarrow> FindStatusCondition L (st_Conditions (as_Status cr)) ''Ready'' = None \<Longrightarrow> ss_Phase (overlay L cr rec) = []"
  by (simp add: overlay_def Let_def split: option.split)

end
