(* ===== verification/Session_Repair.thy ===== *)
theory Session_Repair
  imports Session_Requests
begin

text \<open>
  The repair loop of sessions: what a sweep may ask of the API server, that it reaches every row in need while there are at most a
  hundred of a kind, and that rows behind the first hundred are not reached.
\<close>

section \<open>What a sweep asks for\<close>

definition pending_row :: "BosunSession \<Rightarrow> bool" where
  "pending_row r \<longleftrightarrow> bs_DeletedAt r = None \<and> bs_Phase r = ''Pending''"

definition repair_ok :: "klib \<Rightarrow> session_lib \<Rightarrow> backend_event list \<Rightarrow> backend_event \<Rightarrow> bool" where
  "repair_ok L K t e = (case e of
     EvDb name a \<Rightarrow> name \<in> {''ListPending'', ''ListDeleting''}
   | EvCreateCR cr r \<Rightarrow> (\<exists>a row s. EvDb ''ListPending'' a \<in> set t \<and> row \<in> set (db_sessions (an_db a)) \<and> pending_row row \<and>
       sessionFromRow K row = Inr s \<and> cr = agentSessionFromDomain L K s)
   | EvDeleteCR cr uid rv r \<Rightarrow> (\<exists>a row. EvDb ''ListDeleting'' a \<in> set t \<and> row \<in> set (db_sessions (an_db a)) \<and> needs_cleanup row \<and>
       (\<exists>before key. t = before @ [EvGetCR key (Inr cr)]) \<and> sp_SessionID (as_Spec cr) = bs_ID row \<and> sp_UserID (as_Spec cr) = bs_UserID row \<and>
       uid = om_UID (as_Meta cr) \<and> rv = om_ResourceVersion (as_Meta cr))
   | EvGetCR key g \<Rightarrow> True
   | _ \<Rightarrow> False)"

lemma sessionsFromRows_set:
  assumes "sessionsFromRows K rows = Inr ss" and "s \<in> set ss"
  shows "\<exists>row\<in>set rows. sessionFromRow K row = Inr s"
  using assms by (induction rows arbitrary: ss) (auto split: sum.splits)

lemma runs_rows_query:
  assumes "\<And>a. P (w_trace w) (EvDb name a)"
  shows "runs P w (rows_query A name label q) (\<lambda>r v. \<exists>a. EvDb name a \<in> set (w_trace v) \<and> (\<forall>rows. r = Inr rows \<longrightarrow> q (an_db a) = Inr rows))"
  unfolding rows_query_def
proof (rule runs_post [OF runs_db_run])
  fix r v
  assume "db_outcome A name [(label, \<lambda>now d r. sql_result label (q d) (\<lambda>rows. TxGo d rows))] [] w r v"
  then show "\<exists>a. EvDb name a \<in> set (w_trace v) \<and> (\<forall>rows. r = Inr rows \<longrightarrow> q (an_db a) = Inr rows)"
    by (intro exI [of _ "b_db A (w_trace w) (w_mem w)"])
      (auto simp: db_outcome_def Let_def sql_result_def split: if_splits sum.splits)
qed (rule assms)

lemma limit_offset_set: "limit_offset n m rows = Inr xs \<Longrightarrow> x \<in> set xs \<Longrightarrow> x \<in> set rows"
  by (auto simp: limit_offset_def split: if_splits dest: in_set_takeD in_set_dropD)

lemma runs_ListPending:
  "runs (repair_ok L K) w (ListPending K A n) (\<lambda>r v. \<exists>a. EvDb ''ListPending'' a \<in> set (w_trace v) \<and>
     (\<forall>ss s. r = Inr ss \<longrightarrow> s \<in> set ss \<longrightarrow> (\<exists>row\<in>set (db_sessions (an_db a)). pending_row row \<and> sessionFromRow K row = Inr s)))"
proof -
  have "\<exists>row\<in>set (db_sessions d). pending_row row \<and> sessionFromRow K row = Inr s"
    if "ListPendingSessions n d = Inr rows" "sessionsFromRows K rows = Inr ss" "s \<in> set ss" for d rows ss s
  proof -
    from sessionsFromRows_set [OF that(2,3)] obtain row where "row \<in> set rows" "sessionFromRow K row = Inr s" by blast
    with limit_offset_set [OF that(1) [unfolded ListPendingSessions_def]] show ?thesis by (auto simp: pending_row_def)
  qed
  then show ?thesis unfolding ListPending_def
    by (intro runs_bind runs_post [OF runs_rows_query] runs_return) (auto simp: repair_ok_def split: sum.splits)
qed

lemma runs_ListDeleting:
  "runs (repair_ok L K) w (ListDeleting K A n) (\<lambda>r v. \<exists>a. EvDb ''ListDeleting'' a \<in> set (w_trace v) \<and>
     (\<forall>ss s. r = Inr ss \<longrightarrow> s \<in> set ss \<longrightarrow> (\<exists>row\<in>set (db_sessions (an_db a)). needs_cleanup row \<and> sessionFromRow K row = Inr s)))"
proof -
  have "\<exists>row\<in>set (db_sessions d). needs_cleanup row \<and> sessionFromRow K row = Inr s"
    if "ListDeletingSessions n d = Inr rows" "sessionsFromRows K rows = Inr ss" "s \<in> set ss" for d rows ss s
  proof -
    from sessionsFromRows_set [OF that(2,3)] obtain row where "row \<in> set rows" "sessionFromRow K row = Inr s" by blast
    with limit_offset_set [OF that(1) [unfolded ListDeletingSessions_def]] show ?thesis by auto
  qed
  then show ?thesis unfolding ListDeleting_def
    by (intro runs_bind runs_post [OF runs_rows_query] runs_return) (auto simp: repair_ok_def split: sum.splits)
qed

lemma runs_until_error:
  assumes "\<And>x v. x \<in> set xs \<Longrightarrow> I v \<Longrightarrow> runs P v (f x) (\<lambda>_. I)" and "I w"
  shows "runs P w (until_error f xs) (\<lambda>_. I)"
  using assms
proof (induction xs arbitrary: w)
  case Nil
  then show ?case by (simp add: runs_return)
next
  case (Cons x xs)
  then show ?case by (auto intro!: runs_bind runs_post [OF Cons.prems(1)] runs_case_option runs_return)
qed

lemma runs_Ensure_repair:
  assumes "EvDb ''ListPending'' a \<in> set (w_trace w)" and "row \<in> set (db_sessions (an_db a))" and "pending_row row" and "sessionFromRow K row = Inr s"
  shows "runs (repair_ok L K) w (session_Ensure L K A s) (\<lambda>_ v. EvDb ''ListPending'' a \<in> set (w_trace v))"
  using assms unfolding session_Ensure_def backend_call_defs
  by (intro runs_rules) (auto simp: repair_ok_def)

lemma runs_Delete_repair:
  assumes "EvDb ''ListDeleting'' a \<in> set (w_trace w)" and "row \<in> set (db_sessions (an_db a))" and "needs_cleanup row" and "sessionFromRow K row = Inr s"
  shows "runs (repair_ok L K) w (cr_Delete A s) (\<lambda>_ v. EvDb ''ListDeleting'' a \<in> set (w_trace v))"
proof -
  have "ss_ID s = bs_ID row" "ss_UserID s = bs_UserID row" using assms(4) by (auto simp: sessionFromRow_def split: option.splits)
  then show ?thesis using assms unfolding cr_Delete_def cr_Get_def backend_call_defs
    by (intro runs_rules) (fastforce simp: repair_ok_def cr_matches_def split: sum.splits if_splits)+
qed

lemma runs_repair_each:
  assumes "\<And>a s v. EvDb name a \<in> set (w_trace v) \<Longrightarrow> (\<exists>row\<in>set (db_sessions (an_db a)). Q row \<and> sessionFromRow K row = Inr s) \<Longrightarrow>
      runs P v (f s) (\<lambda>_ v'. EvDb name a \<in> set (w_trace v'))"
    and "\<exists>a. EvDb name a \<in> set (w_trace w) \<and> (\<forall>s\<in>set ss. \<exists>row\<in>set (db_sessions (an_db a)). Q row \<and> sessionFromRow K row = Inr s)"
  shows "runs P w (repair_each msg f ss) (\<lambda>_ _. True)"
proof -
  obtain a where a: "EvDb name a \<in> set (w_trace w)" "\<forall>s\<in>set ss. \<exists>row\<in>set (db_sessions (an_db a)). Q row \<and> sessionFromRow K row = Inr s"
    using assms(2) by blast
  show ?thesis unfolding repair_each_def using a
    by (intro runs_post [OF runs_until_error [where I = "\<lambda>v. EvDb name a \<in> set (w_trace v)"]])
      (auto intro!: runs_bind runs_return runs_post [OF assms(1)])
qed

lemma runs_RunOnce: "runs (repair_ok L K) w (session_RunOnce L K A) (\<lambda>_ _. True)"
proof -
  have pending: "runs (repair_ok L K) v (repair_each msg (session_Ensure L K A) ss) (\<lambda>_ _. True)"
    if "\<exists>a. EvDb ''ListPending'' a \<in> set (w_trace v) \<and> (\<forall>s\<in>set ss. \<exists>row\<in>set (db_sessions (an_db a)). pending_row row \<and> sessionFromRow K row = Inr s)"
    for v msg ss using runs_repair_each [OF _ that] runs_Ensure_repair by metis
  have deleting: "runs (repair_ok L K) v (repair_each msg (cr_Delete A) ss) (\<lambda>_ _. True)"
    if "\<exists>a. EvDb ''ListDeleting'' a \<in> set (w_trace v) \<and> (\<forall>s\<in>set ss. \<exists>row\<in>set (db_sessions (an_db a)). needs_cleanup row \<and> sessionFromRow K row = Inr s)"
    for v msg ss using runs_repair_each [OF _ that] runs_Delete_repair by metis
  show ?thesis unfolding session_RunOnce_def
    by (intro runs_bind runs_post [OF runs_ListPending] runs_case_sum runs_return runs_case_option runs_post [OF pending]
        runs_post [OF runs_ListDeleting] deleting TrueI) auto
qed

text \<open>
  C33. A repair sweep creates the resource only of a session that the database listed as live and pending, exactly as the
  service would have, deletes a resource only right after reading it, only of a session that the database listed as deleted and not
  cleaned up, with the identity and version it read as preconditions, and neither updates resources nor writes to the database.
\<close>

theorem RunOnce_repairs_only:
  assumes "events_of (session_RunOnce L K A) w = before @ e # after"
  shows "repair_ok L K (w_trace w @ before) e"
  using runs_events [OF runs_RunOnce assms] .

section \<open>A sweep reaches every row\<close>

text \<open>The events since the trace had \<open>n\<close>, and a loop that does something for every element.\<close>

definition events_from :: "nat \<Rightarrow> backend_world \<Rightarrow> backend_event set" where
  "events_from n w = set (drop n (w_trace w))"

lemma runs_grows: "runs P w m Q \<Longrightarrow> runs P w m (\<lambda>r v. Q r v \<and> (\<exists>es. w_trace v = w_trace w @ es))"
  unfolding runs_def by blast

lemma runs_until_all:
  assumes "\<And>x v. x \<in> set xs \<Longrightarrow> n \<le> length (w_trace v) \<Longrightarrow> runs P v (f x) (\<lambda>r v'. r = None \<and> D x (events_from n v'))"
    and mono: "\<And>x E E'. D x E \<Longrightarrow> E \<subseteq> E' \<Longrightarrow> D x E'" and "n \<le> length (w_trace w)"
  shows "runs P w (until_error f xs) (\<lambda>r v. r = None \<and> (\<forall>x\<in>set xs. D x (events_from n v)))"
  using assms(1,3)
proof (induction xs arbitrary: w)
  case Nil
  then show ?case by (simp add: runs_return)
next
  case (Cons x xs)
  have "runs P w (f x) (\<lambda>r v'. (r = None \<and> D x (events_from n v')) \<and> (\<exists>es. w_trace v' = w_trace w @ es))"
    using Cons.prems by (intro runs_grows) simp
  then have "runs P w (f x) (\<lambda>r v. runs P v (case r of Some e \<Rightarrow> State_Monad.return (Some e) | None \<Rightarrow> until_error f xs)
      (\<lambda>r v. r = None \<and> (\<forall>x\<in>set (x # xs). D x (events_from n v))))"
  proof (rule runs_post)
    fix r :: "backend_error option" and v :: backend_world
    assume v: "(r = None \<and> D x (events_from n v)) \<and> (\<exists>es. w_trace v = w_trace w @ es)"
    then have "n \<le> length (w_trace v)" using Cons.prems(2) by auto
    from runs_grows [OF Cons.IH [OF Cons.prems(1) this]] have rest: "runs P v (until_error f xs)
        (\<lambda>r v'. (r = None \<and> (\<forall>x\<in>set xs. D x (events_from n v'))) \<and> (\<exists>es. w_trace v' = w_trace v @ es))" by simp
    have kept: "D x (events_from n v')" if "\<exists>es. w_trace v' = w_trace v @ es" for v'
    proof (rule mono)
      show "D x (events_from n v)" using v by simp
      show "events_from n v \<subseteq> events_from n v'" using that by (auto simp: events_from_def)
    qed
    from rest have "runs P v (until_error f xs) (\<lambda>r v. r = None \<and> (\<forall>x\<in>set (x # xs). D x (events_from n v)))"
      by (rule runs_post) (simp add: kept)
    then show "runs P v (case r of Some e \<Rightarrow> State_Monad.return (Some e) | None \<Rightarrow> until_error f xs)
        (\<lambda>r v. r = None \<and> (\<forall>x\<in>set (x # xs). D x (events_from n v)))" using v by simp
  qed
  then show ?case by (simp add: runs_bind)
qed

text \<open>An API server that accepts creations, or has the resource of the session already, answers reads and accepts deletions.\<close>

definition server_ok :: "backend_api \<Rightarrow> bool" where
  "server_ok A \<longleftrightarrow> (\<forall>t cr e. b_create_cr A t cr = Some e \<longrightarrow> IsAlreadyExists e \<and> (\<forall>t'. \<exists>cr'. b_get_cr A t' (ObjectKey (as_Meta cr)) = Inr cr' \<and>
       sp_SessionID (as_Spec cr') = sp_SessionID (as_Spec cr) \<and> sp_UserID (as_Spec cr') = sp_UserID (as_Spec cr))) \<and>
     (\<forall>t k e. b_get_cr A t k = Inl e \<longrightarrow> IsNotFound e) \<and> (\<forall>t cr uid rv. b_delete_cr A t cr uid rv = None)"

definition ensured :: "klib \<Rightarrow> session_lib \<Rightarrow> Session \<Rightarrow> backend_event set \<Rightarrow> bool" where
  "ensured L K s E \<longleftrightarrow> (\<exists>r. EvCreateCR (agentSessionFromDomain L K s) r \<in> E)"

definition removed :: "Session \<Rightarrow> backend_event set \<Rightarrow> bool" where
  "removed s E \<longleftrightarrow> (\<exists>g. EvGetCR (session_key s) g \<in> E \<and>
     (\<forall>cr. g = Inr cr \<longrightarrow> cr_matches s cr \<longrightarrow> EvDeleteCR cr (om_UID (as_Meta cr)) (om_ResourceVersion (as_Meta cr)) None \<in> E))"

lemma server_okD:
  assumes "server_ok A"
  shows "b_get_cr A t k = Inl e \<Longrightarrow> IsNotFound e" and "b_delete_cr A t cr uid rv = None"
    and "b_create_cr A t cr = Some e \<Longrightarrow> IsAlreadyExists e"
    and "b_create_cr A t cr = Some e \<Longrightarrow> \<exists>cr'. b_get_cr A t' (ObjectKey (as_Meta cr)) = Inr cr' \<and>
       sp_SessionID (as_Spec cr') = sp_SessionID (as_Spec cr) \<and> sp_UserID (as_Spec cr') = sp_UserID (as_Spec cr)"
  using assms unfolding server_ok_def by blast+

lemma runs_Ensure_ok:
  assumes "server_ok A" and "n \<le> length (w_trace w)"
  shows "runs (\<lambda>_ _. True) w (session_Ensure L K A s) (\<lambda>r v. r = None \<and> ensured L K s (events_from n v))"
proof -
  let ?cr = "agentSessionFromDomain L K s"
  have made: "ensured L K s (events_from n (w\<lparr>w_trace := w_trace w @ EvCreateCR ?cr r # es\<rparr>))" for r es
    using assms(2) by (auto simp: ensured_def events_from_def)
  show ?thesis
  proof (cases "b_create_cr A (w_trace w) ?cr")
    case None
    then show ?thesis unfolding session_Ensure_def create_cr_def Let_def
      by (intro runs_bind runs_call) (simp_all add: runs_return made)
  next
    case (Some e)
    let ?t = "w_trace w @ [EvCreateCR ?cr (Some e)]"
    from server_okD(4) [OF assms(1) Some, of ?t] obtain cr' where get: "b_get_cr A ?t (ObjectKey (as_Meta ?cr)) = Inr cr'" and "cr_matches s cr'"
      by (auto simp: cr_matches_def agentSessionFromDomain_def)
    then show ?thesis using server_okD(3) [OF assms(1) Some] Some
      unfolding session_Ensure_def create_cr_def get_cr_def Let_def
      by (intro runs_bind runs_call) (simp_all add: runs_bind runs_call runs_return made)
  qed
qed

lemma runs_Delete_ok:
  assumes "server_ok A" and "n \<le> length (w_trace w)"
  shows "runs (\<lambda>_ _. True) w (cr_Delete A s) (\<lambda>r v. r = None \<and> removed s (events_from n v))"
proof -
  have none: "removed s (events_from n (w\<lparr>w_trace := w_trace w @ [EvGetCR (session_key s) g]\<rparr>))" if "\<forall>cr. g = Inr cr \<longrightarrow> \<not> cr_matches s cr" for g
    using that assms(2) by (auto simp: removed_def events_from_def)
  have some: "removed s (events_from n (w\<lparr>w_trace := w_trace w @ [EvGetCR (session_key s) (Inr cr),
      EvDeleteCR cr (om_UID (as_Meta cr)) (om_ResourceVersion (as_Meta cr)) None]\<rparr>))" for cr
    using assms(2) by (auto simp: removed_def events_from_def)
  show ?thesis unfolding cr_Delete_def cr_Get_def get_cr_def delete_cr_def
    by (intro runs_rules TrueI conjI)
      (auto simp: server_okD(2) [OF assms(1)] errors_Is_def intro!: none some dest: server_okD(1) [OF assms(1)] split: sum.splits if_splits)
qed

text \<open>The two queries of a sweep when the database answers.\<close>

definition decodes :: "session_lib \<Rightarrow> bool" where
  "decodes K \<longleftrightarrow> (\<forall>b. Unmarshal_conditions K b \<noteq> None)"

definition decoded :: "session_lib \<Rightarrow> BosunSession \<Rightarrow> Session" where
  "decoded K row = (case sessionFromRow K row of Inr s \<Rightarrow> s)"

lemma sessionsFromRows_decoded:
  assumes "decodes K"
  shows "sessionFromRow K row = Inr (decoded K row)" and "sessionsFromRows K rows = Inr (map (decoded K) rows)"
proof -
  have row: "sessionFromRow K row = Inr (decoded K row)" for row
    using assms by (auto simp: decodes_def decoded_def sessionFromRow_def split: option.split)
  then show "sessionFromRow K row = Inr (decoded K row)" .
  show "sessionsFromRows K rows = Inr (map (decoded K) rows)" by (induction rows) (simp_all add: row)
qed

lemma runs_result_is: "result_of m w = x \<Longrightarrow> w_trace (world_after m w) = w_trace w @ es \<Longrightarrow>
    runs (\<lambda>_ _. True) w m (\<lambda>r v. r = x \<and> w_trace v = w_trace w @ es)"
  by (auto simp: runs_def)

lemma runs_sweep_queries:
  fixes w :: backend_world
  assumes "no_faults A" and "decodes K"
  defines "a \<equiv> b_db A (w_trace w) (w_mem w)"
  shows "runs (\<lambda>_ _. True) w (ListPending K A 100) (\<lambda>r v. r = Inr (map (decoded K) (take 100
      (sort_key (\<lambda>r. (- sql_priority r, bs_CreatedAt r)) (filter pending_row (db_sessions (an_db a)))))) \<and>
      w_trace v = w_trace w @ [EvDb ''ListPending'' a])"
    and "runs (\<lambda>_ _. True) w (ListDeleting K A 100) (\<lambda>r v. r = Inr (map (decoded K) (take 100
      (sort_key deleted_order (filter needs_cleanup (db_sessions (an_db a)))))) \<and>
      w_trace v = w_trace w @ [EvDb ''ListDeleting'' a])"
  by (intro runs_result_is; simp add: a_def ListPending_def ListDeleting_def rows_query_def db_run_no_faults [OF assms(1)] db_run_trace sql_result_def
      ListPendingSessions_def ListDeletingSessions_def limit_offset_def sessionsFromRows_decoded [OF assms(2)] pending_row_def [abs_def])+

lemma runs_repair_each_ok:
  assumes "\<And>s v. n \<le> length (w_trace v) \<Longrightarrow> runs (\<lambda>_ _. True) v (f s) (\<lambda>r v'. r = None \<and> D s (events_from n v'))"
    and "\<And>s E E'. D s E \<Longrightarrow> E \<subseteq> E' \<Longrightarrow> D s E'" and "n \<le> length (w_trace w)"
  shows "runs (\<lambda>_ _. True) w (repair_each msg f ss) (\<lambda>r v. (r = None \<and> (\<forall>s\<in>set ss. D s (events_from n v))) \<and> (\<exists>es. w_trace v = w_trace w @ es))"
  unfolding repair_each_def
proof (rule runs_grows, rule runs_until_all [where D = D, OF _ assms(2,3)])
  show "runs (\<lambda>_ _. True) v (do { r \<leftarrow> f s; State_Monad.return (map_option (Wrapped (msg @ ss_ID s)) r) }) (\<lambda>r v'. r = None \<and> D s (events_from n v'))"
    if "n \<le> length (w_trace v)" for s v
    using that by (intro runs_bind runs_post [OF assms(1)] runs_return) auto
qed

lemma ensured_mono: "ensured L K s E \<Longrightarrow> E \<subseteq> E' \<Longrightarrow> ensured L K s E'"
  by (auto simp: ensured_def)

lemma removed_mono: "removed s E \<Longrightarrow> E \<subseteq> E' \<Longrightarrow> removed s E'"
  by (auto simp: removed_def)

lemma events_from_mono: "w_trace v' = w_trace v @ es \<Longrightarrow> events_from n v \<subseteq> events_from n v'"
  by (auto simp: events_from_def)

definition sweep_done :: "klib \<Rightarrow> session_lib \<Rightarrow> backend_api \<Rightarrow> backend_world \<Rightarrow> backend_event set \<Rightarrow> bool" where
  "sweep_done L K A w E \<longleftrightarrow>
     (\<forall>s\<in>decoded K ` set (take 100 (sort_key (\<lambda>r. (- sql_priority r, bs_CreatedAt r))
        (filter pending_row (db_sessions (an_db (b_db A (w_trace w) (w_mem w))))))). ensured L K s E) \<and>
     (\<exists>a. EvDb ''ListDeleting'' a \<in> E \<and>
        (\<forall>s\<in>decoded K ` set (take 100 (sort_key deleted_order (filter needs_cleanup (db_sessions (an_db a))))). removed s E))"

lemma runs_RunOnce_done:
  assumes "no_faults A" and "server_ok A" and "decodes K"
  shows "runs (\<lambda>_ _. True) w (session_RunOnce L K A) (\<lambda>r v. r = None \<and> sweep_done L K A w (events_from (length (w_trace w)) v))"
proof -
  let ?n = "length (w_trace w)"
  have ensure: "runs (\<lambda>_ _. True) v (repair_each msg (session_Ensure L K A) ss)
      (\<lambda>r v'. (r = None \<and> (\<forall>s\<in>set ss. ensured L K s (events_from ?n v'))) \<and> (\<exists>es. w_trace v' = w_trace v @ es))"
    if "?n \<le> length (w_trace v)" for v msg ss by (rule runs_repair_each_ok [OF runs_Ensure_ok [OF assms(2)] ensured_mono that])
  have delete: "runs (\<lambda>_ _. True) v (repair_each msg (cr_Delete A) ss)
      (\<lambda>r v'. (r = None \<and> (\<forall>s\<in>set ss. removed s (events_from ?n v'))) \<and> (\<exists>es. w_trace v' = w_trace v @ es))"
    if "?n \<le> length (w_trace v)" for v msg ss by (rule runs_repair_each_ok [OF runs_Delete_ok [OF assms(2)] removed_mono that])
  let ?pending = "map (decoded K) (take 100 (sort_key (\<lambda>r. (- sql_priority r, bs_CreatedAt r))
        (filter pending_row (db_sessions (an_db (b_db A (w_trace w) (w_mem w)))))))"
  note queries = runs_sweep_queries [OF assms(1,3)]
  have second: "runs (\<lambda>_ _. True) v (do { d \<leftarrow> ListDeleting K A 100;
        case d of Inl e \<Rightarrow> State_Monad.return (Some e) | Inr deleting \<Rightarrow> repair_each msg (cr_Delete A) deleting })
      (\<lambda>r v'. r = None \<and> sweep_done L K A w (events_from ?n v'))"
    if v: "?n \<le> length (w_trace v)" "\<forall>s\<in>set ?pending. ensured L K s (events_from ?n v)" for v msg
  proof (intro runs_bind, rule runs_post [OF queries(2)], elim conjE)
    fix r :: "backend_error + Session list" and v1 :: backend_world
    let ?a = "b_db A (w_trace v) (w_mem v)"
    assume r: "r = Inr (map (decoded K) (take 100 (sort_key deleted_order (filter needs_cleanup (db_sessions (an_db ?a))))))"
      and v1: "w_trace v1 = w_trace v @ [EvDb ''ListDeleting'' ?a]"
    have "sweep_done L K A w (events_from ?n v2)"
      if "\<forall>s\<in>set (map (decoded K) (take 100 (sort_key deleted_order (filter needs_cleanup (db_sessions (an_db ?a)))))). removed s (events_from ?n v2)"
        and v2: "w_trace v2 = w_trace v1 @ es" for v2 es
    proof -
      have "events_from ?n v \<subseteq> events_from ?n v2" "EvDb ''ListDeleting'' ?a \<in> events_from ?n v2"
        using v(1) v1 v2 by (auto simp: events_from_def)
      then show ?thesis using that(1) v(2) ensured_mono unfolding sweep_done_def list.set_map by blast
    qed
    then show "runs (\<lambda>_ _. True) v1 (case r of Inl e \<Rightarrow> State_Monad.return (Some e) | Inr deleting \<Rightarrow> repair_each msg (cr_Delete A) deleting)
        (\<lambda>r v'. r = None \<and> sweep_done L K A w (events_from ?n v'))"
      using v(1) unfolding r sum.case by (intro runs_post [OF delete]) (auto simp: v1)
  qed
  show ?thesis unfolding session_RunOnce_def
  proof (intro runs_bind, rule runs_post [OF queries(1)], elim conjE)
    fix r :: "backend_error + Session list" and v1 :: backend_world
    assume r: "r = Inr ?pending" and v1: "w_trace v1 = w_trace w @ [EvDb ''ListPending'' (b_db A (w_trace w) (w_mem w))]"
    show "runs (\<lambda>_ _. True) v1 (case r of Inl e \<Rightarrow> State_Monad.return (Some e) | Inr pending \<Rightarrow> do {
         r \<leftarrow> repair_each ''repair missing AgentSession '' (session_Ensure L K A) pending;
         case r of Some e \<Rightarrow> State_Monad.return (Some e)
         | None \<Rightarrow> do { d \<leftarrow> ListDeleting K A 100;
             case d of Inl e \<Rightarrow> State_Monad.return (Some e)
             | Inr deleting \<Rightarrow> repair_each ''repair AgentSession deletion '' (cr_Delete A) deleting } })
        (\<lambda>r v. r = None \<and> sweep_done L K A w (events_from ?n v))"
      unfolding r sum.case by (intro runs_bind runs_post [OF ensure]) (auto simp: v1 intro!: second)
  qed
qed


text \<open>
  Beyond a hundred rows this is not so. Deleted sessions are listed oldest first, a sweep writes nothing to the database, and a row leaves
  the list only when the projector sees its resource go: rows whose resource was never created, or went while nobody watched, stay,
  and a hundred of them keep later deletions from being repaired.
\<close>

theorem deletion_starved:
  assumes "100 \<le> length (filter (\<lambda>r. needs_cleanup r \<and> deleted_order r < deleted_order row) (db_sessions d))"
  shows "\<exists>rows. ListDeletingSessions 100 d = Inr rows \<and> row \<notin> set rows"
proof -
  let ?rows = "sort_key deleted_order (filter needs_cleanup (db_sessions d))"
  have early: "100 \<le> length (filter (\<lambda>r. deleted_order r < deleted_order row) ?rows)"
    using assms by (simp add: filter_sort conj_commute)
  have "row \<notin> set (take 100 ?rows)"
  proof
    assume "row \<in> set (take 100 ?rows)"
    then obtain i where i: "i < 100" "i < length ?rows" "?rows ! i = row" by (auto simp: in_set_conv_nth)
    have "filter (\<lambda>r. deleted_order r < deleted_order row) (drop i ?rows) = []"
    proof (simp only: filter_empty_conv not_less, intro ballI)
      fix r
      assume "r \<in> set (drop i ?rows)"
      then obtain j where "i \<le> j" "j < length ?rows" "r = ?rows ! j" by (auto simp: in_set_conv_nth) (metis add.commute le_add1 less_diff_conv)
      then show "deleted_order row \<le> deleted_order r"
        using sorted_nth_mono [OF sorted_sort_key [of deleted_order "filter needs_cleanup (db_sessions d)"], of i j] i by simp
    qed
    then have "filter (\<lambda>r. deleted_order r < deleted_order row) ?rows = filter (\<lambda>r. deleted_order r < deleted_order row) (take i ?rows)"
      by (metis append_Nil2 append_take_drop_id filter_append)
    moreover have "length (filter (\<lambda>r. deleted_order r < deleted_order row) (take i ?rows)) \<le> length (take i ?rows)" by (rule List.length_filter_le)
    ultimately show False using early i by simp
  qed
  then show ?thesis by (simp add: ListDeletingSessions_def limit_offset_def)
qed

definition sweep_world :: backend_world where
  "sweep_world = quiet_world (session_tables [sample_row ''Pending'' None])"

lemma sweep_ok: "no_faults running_api" "server_ok running_api" "decodes sample_session_lib"
  "an_db (b_db running_api (w_trace sweep_world) (w_mem sweep_world)) = session_tables [sample_row ''Pending'' None]"
  by (simp_all add: no_faults_def server_ok_def decodes_def running_api_def ready_api_def quiet_api_def sample_session_lib_def
    sweep_world_def quiet_world_def)

lemma sweep_rows: "filter pending_row (db_sessions (session_tables [sample_row ''Pending'' None])) = [sample_row ''Pending'' None]"
  by (simp add: session_tables_def pending_row_def sample_row_def)


theorem RunOnce_repairs_only_witness:
  "\<exists>before cr r after. events_of (session_RunOnce decimal_lib sample_session_lib running_api) sweep_world = before @ EvCreateCR cr r # after \<and>
     repair_ok decimal_lib sample_session_lib before (EvCreateCR cr r)"
proof -
  let ?m = "session_RunOnce decimal_lib sample_session_lib running_api"
  have "events_from 0 (world_after ?m sweep_world) = set (events_of ?m sweep_world)" "length (w_trace sweep_world) = 0"
    by (simp_all add: events_from_def events_of_def sweep_world_def quiet_world_def)
  then have "sweep_done decimal_lib sample_session_lib running_api sweep_world (set (events_of ?m sweep_world))"
    using runs_result [OF runs_RunOnce_done [OF sweep_ok(1-3), of sweep_world decimal_lib]] by simp
  then obtain cr r where "EvCreateCR cr r \<in> set (events_of ?m sweep_world)"
    by (auto simp: sweep_done_def sweep_ok sweep_rows ensured_def)
  then obtain before after where e: "events_of ?m sweep_world = before @ EvCreateCR cr r # after" by (meson split_list)
  have "w_trace sweep_world @ before = before" by (simp add: sweep_world_def quiet_world_def)
  with RunOnce_repairs_only [OF e] e show ?thesis by metis
qed

end
