(* ===== verification/Go_Http.thy ===== *)
theory Go_Http
  imports Rate_Limiter Go_Encoding
begin

text \<open>
  The parts of \<open>net/http\<close>, \<open>strings\<close> and \<open>path\<close> that the HTTP code of the backend uses: letter case, canonical header
  names, headers, and lexical path cleaning. A header is the list of its fields in the order in which a \<open>range\<close> loop
  visits them, so a theorem about every list is a theorem about every order.
\<close>

section \<open>Letter case\<close>

definition lower_char :: "char \<Rightarrow> char" where
  "lower_char c = (let n = nat_of_byte c in if 65 \<le> n \<and> n \<le> 90 then byte_of (n + 32) else c)"

definition upper_char :: "char \<Rightarrow> char" where
  "upper_char c = (let n = nat_of_byte c in if 97 \<le> n \<and> n \<le> 122 then byte_of (n - 32) else c)"

text \<open>
  \<open>strings.ToLower\<close> as far as ASCII results go: besides the capitals, the Kelvin sign becomes \<open>k\<close> and the dotted capital I
  becomes \<open>i\<close>. All other characters outside ASCII keep a form outside ASCII, here their bytes.
\<close>

fun str_ToLower :: "string \<Rightarrow> string" where
  "str_ToLower (c1 # c2 # c3 # s) =
     (if c1 = CHR 0xE2 \<and> c2 = CHR 0x84 \<and> c3 = CHR 0xAA then CHR ''k'' # str_ToLower s
      else if c1 = CHR 0xC4 \<and> c2 = CHR 0xB0 then CHR ''i'' # str_ToLower (c3 # s)
      else lower_char c1 # str_ToLower (c2 # c3 # s))"
| "str_ToLower [c1, c2] = (if c1 = CHR 0xC4 \<and> c2 = CHR 0xB0 then ''i'' else [lower_char c1, lower_char c2])"
| "str_ToLower [c1] = [lower_char c1]"
| "str_ToLower [] = []"

text \<open>
  \<open>strings.EqualFold(s, t)\<close> for an ASCII \<open>t\<close>: of the characters outside ASCII only the Kelvin sign (of \<open>k\<close>) and the long s
  fold to an ASCII letter.
\<close>

fun fold_case :: "string \<Rightarrow> string" where
  "fold_case (c1 # c2 # c3 # s) =
     (if c1 = CHR 0xE2 \<and> c2 = CHR 0x84 \<and> c3 = CHR 0xAA then CHR ''k'' # fold_case s
      else if c1 = CHR 0xC5 \<and> c2 = CHR 0xBF then CHR ''s'' # fold_case (c3 # s)
      else lower_char c1 # fold_case (c2 # c3 # s))"
| "fold_case [c1, c2] = (if c1 = CHR 0xC5 \<and> c2 = CHR 0xBF then ''s'' else [lower_char c1, lower_char c2])"
| "fold_case [c1] = [lower_char c1]"
| "fold_case [] = []"

definition str_EqualFold :: "string \<Rightarrow> string \<Rightarrow> bool" where
  "str_EqualFold s t \<longleftrightarrow> fold_case s = map lower_char t"

fun Contains :: "string \<Rightarrow> string \<Rightarrow> bool" where
  "Contains [] p \<longleftrightarrow> p = []"
| "Contains (c # s) p \<longleftrightarrow> HasPrefix (c # s) p \<or> Contains s p"

definition HasSuffix :: "string \<Rightarrow> string \<Rightarrow> bool" where
  "HasSuffix s p \<longleftrightarrow> HasPrefix (rev s) (rev p)"

section \<open>Headers\<close>

text \<open>The bytes of an RFC 7230 token.\<close>

definition token_byte :: "char \<Rightarrow> bool" where
  "token_byte c \<longleftrightarrow> is_digit c \<or> in_range 65 90 c \<or> in_range 97 122 c \<or>
     c \<in> set [CHR ''!'', CHR ''#'', CHR ''$'', CHR ''%'', CHR ''&'', CHR 0x27, CHR ''*'', CHR ''+'', CHR ''-'', CHR ''.'',
       CHR ''^'', CHR ''_'', CHR 0x60, CHR ''|'', CHR ''~'']"

fun canonical_from :: "bool \<Rightarrow> string \<Rightarrow> string" where
  "canonical_from upper [] = []"
| "canonical_from upper (c # s) = (if upper then upper_char c else lower_char c) # canonical_from (c = CHR ''-'') s"

definition CanonicalHeaderKey :: "string \<Rightarrow> string" where
  "CanonicalHeaderKey s = (if list_all token_byte s then canonical_from True s else s)"

type_synonym http_header = "(string \<times> string list) list"

definition header_values :: "http_header \<Rightarrow> string \<Rightarrow> string list" where
  "header_values h k = (case map_of h (CanonicalHeaderKey k) of None \<Rightarrow> [] | Some vs \<Rightarrow> vs)"

definition header_Get :: "http_header \<Rightarrow> string \<Rightarrow> string" where
  "header_Get h k = (case header_values h k of [] \<Rightarrow> [] | v # vs \<Rightarrow> v)"

definition header_Set :: "string \<Rightarrow> string \<Rightarrow> http_header \<Rightarrow> http_header" where
  "header_Set k v h = AList.update (CanonicalHeaderKey k) [v] h"

definition header_Add :: "string \<Rightarrow> string \<Rightarrow> http_header \<Rightarrow> http_header" where
  "header_Add k v h = AList.update (CanonicalHeaderKey k) (header_values h k @ [v]) h"

definition header_Del :: "string \<Rightarrow> http_header \<Rightarrow> http_header" where
  "header_Del k h = AList.delete (CanonicalHeaderKey k) h"

section \<open>Paths\<close>

definition clean_part :: "bool \<Rightarrow> string \<Rightarrow> string list \<Rightarrow> string list" where
  "clean_part rooted part stack =
     (if part = [] \<or> part = ''.'' then stack
      else if part = ''..'' then
        (case stack of dir # dirs \<Rightarrow> if dir = ''..'' then part # stack else dirs
         | [] \<Rightarrow> if rooted then [] else [part])
      else part # stack)"

fun join_slash :: "string list \<Rightarrow> string" where
  "join_slash [] = []"
| "join_slash [p] = p"
| "join_slash (p # ps) = p @ CHR ''/'' # join_slash ps"

definition path_Clean :: "string \<Rightarrow> string" where
  "path_Clean s =
     (let rooted = HasPrefix s ''/'';
          body = join_slash (rev (fold (clean_part rooted) (Split (CHR ''/'') s) []))
      in if rooted then CHR ''/'' # body else if body = [] then ''.'' else body)"

definition path_Join :: "string list \<Rightarrow> string" where
  "path_Join elems = (case filter (\<lambda>e. e \<noteq> []) elems of [] \<Rightarrow> [] | es \<Rightarrow> path_Clean (join_slash es))"

section \<open>Addresses\<close>

text \<open>\<open>net.SplitHostPort\<close>: the host, or nothing where it reports an error.\<close>

definition index_of :: "char \<Rightarrow> string \<Rightarrow> nat option" where
  "index_of c s = (if c \<in> set s then Some (length (takeWhile (\<lambda>x. x \<noteq> c) s)) else None)"

definition last_index_of :: "char \<Rightarrow> string \<Rightarrow> nat option" where
  "last_index_of c s = map_option (\<lambda>i. length s - 1 - i) (index_of c (rev s))"

definition SplitHost :: "string \<Rightarrow> string option" where
  "SplitHost s = (case last_index_of CHR '':'' s of None \<Rightarrow> None
     | Some i \<Rightarrow>
         if hd s = CHR ''['' then (case index_of CHR '']'' s of None \<Rightarrow> None
           | Some e \<Rightarrow> if e + 1 = i \<and> CHR ''['' \<notin> set (drop 1 s) \<and> CHR '']'' \<notin> set (drop (e + 1) s) then Some (take (e - 1) (drop 1 s)) else None)
         else if CHR '':'' \<in> set (take i s) \<or> CHR ''['' \<in> set s \<or> CHR '']'' \<in> set s then None else Some (take i s))"

section \<open>Laws\<close>

lemma lower_char_simps [simp]: "lower_char (lower_char c) = lower_char c" "lower_char (upper_char c) = lower_char c"
proof -
  have byte: "nat_of_byte (byte_of n) = n" if "n < 256" for n using that by (simp add: nat_of_byte_def byte_of_def)
  show "lower_char (lower_char c) = lower_char c" by (auto simp: lower_char_def Let_def byte)
  show "lower_char (upper_char c) = lower_char c" by (auto simp: lower_char_def upper_char_def Let_def byte)
qed

lemma lower_canonical_from [simp]: "map lower_char (canonical_from upper s) = map lower_char s"
  by (induction upper s rule: canonical_from.induct) auto

lemma lower_CanonicalHeaderKey [simp]: "map lower_char (CanonicalHeaderKey s) = map lower_char s"
  by (simp add: CanonicalHeaderKey_def)

lemma canonical_from_length [simp]: "length (canonical_from upper s) = length s"
  by (induction upper s rule: canonical_from.induct) auto

lemma ascii_lower: "list_all (in_range 0 127) s \<Longrightarrow> fold_case s = map lower_char s \<and> str_ToLower s = map lower_char s"
proof (induction s rule: length_induct)
  case (1 s)
  show ?case
  proof (cases s)
    case (Cons c s')
    have tail: "fold_case s' = map lower_char s' \<and> str_ToLower s' = map lower_char s'" using 1 Cons by simp
    have c: "c \<noteq> CHR 0xE2" "c \<noteq> CHR 0xC4" "c \<noteq> CHR 0xC5"
      using 1(2) Cons by (auto simp: in_range_def nat_of_byte_def)
    show ?thesis using tail c unfolding Cons by (cases s' rule: str_ToLower.cases) auto
  qed simp
qed

lemma ascii_case: "in_range 0 127 c \<Longrightarrow> in_range 0 127 (lower_char c) \<and> in_range 0 127 (upper_char c)"
  by (auto simp: in_range_def lower_char_def upper_char_def Let_def nat_of_byte_def byte_of_def)

lemma ascii_canonical_from: "list_all (in_range 0 127) s \<Longrightarrow> list_all (in_range 0 127) (canonical_from upper s)"
  by (induction upper s rule: canonical_from.induct) (auto simp: ascii_case)

lemma token_byte_ascii: "token_byte c \<Longrightarrow> in_range 0 127 c"
  by (auto simp: token_byte_def is_digit_def in_range_def nat_of_byte_def)

text \<open>A field name and its canonical form agree up to letter case.\<close>

lemma canonical_same_case [simp]:
  "fold_case (CanonicalHeaderKey s) = fold_case s" "str_ToLower (CanonicalHeaderKey s) = str_ToLower s"
proof -
  have "fold_case (CanonicalHeaderKey s) = fold_case s \<and> str_ToLower (CanonicalHeaderKey s) = str_ToLower s"
  proof (cases "list_all token_byte s")
    case True
    then have ascii: "list_all (in_range 0 127) s" by (auto simp: list_all_iff token_byte_ascii)
    show ?thesis
      using ascii_lower [OF ascii] ascii_lower [OF ascii_canonical_from [OF ascii, of True]] True
      by (simp add: CanonicalHeaderKey_def)
  qed (simp add: CanonicalHeaderKey_def)
  then show "fold_case (CanonicalHeaderKey s) = fold_case s" "str_ToLower (CanonicalHeaderKey s) = str_ToLower s" by simp_all
qed

lemma set_alist_delete: "set (AList.delete k h) = {f \<in> set h. fst f \<noteq> k}"
  by (auto simp: AList.delete_eq)

lemma distinct_alist_delete: "distinct (map fst h) \<Longrightarrow> distinct (map fst (AList.delete k h))"
  by (simp add: AList.distinct_delete)

lemma header_Add_fields:
  assumes "(n, vs) \<in> set (header_Add k v h)"
  shows "(n, vs) \<in> set h \<or> n = CanonicalHeaderKey k \<and> vs = header_values h k @ [v]"
  using assms update_subset [of "CanonicalHeaderKey k" "header_values h k @ [v]" h]
  by (auto simp: header_Add_def)

lemma header_values_in: "header_values h k = v # vs \<Longrightarrow> (CanonicalHeaderKey k, v # vs) \<in> set h"
  by (auto simp: header_values_def map_of_SomeD split: option.splits)

lemma header_values_simps [simp]:
  "header_values (header_Set k v h) k' = (if CanonicalHeaderKey k = CanonicalHeaderKey k' then [v] else header_values h k')"
  "header_values (header_Del k h) k' = (if CanonicalHeaderKey k = CanonicalHeaderKey k' then [] else header_values h k')"
  by (simp_all add: header_values_def header_Set_def header_Del_def update_conv' delete_conv')

end
