(* ===== verification/Gateway.thy ===== *)
theory Gateway
  imports Go_Http Backend
begin

text \<open>
  The LLM gateway, \<open>backend/internal/gateway\<close>: the identity check of the caller (a TokenReview of the API server against
  the session stored in the database), the forwarding of the request to the upstream provider, and the metrics. The
  memory of a request is the response header being built and the metrics; its events are the calls of the API server, of
  the database, of the upstream, of the clock and of the client connection, answered by the record \<open>gateway_api\<close>. A
  database answer is the content of the database at that moment, or an error. An upstream response is its status, header,
  the chunks of its body and how the body ends. Deadlines show as error answers.
\<close>

section \<open>Data\<close>

datatype gateway_error = ErrInvalidToken | ErrIdentityMismatch | ErrSessionUnavailable | ErrTokenReviewFailed | ErrLookup string

record TokenReviewStatus =
  tr_Authenticated :: bool
  tr_Audiences :: "string list"
  tr_Username :: string
  tr_Extra :: "string \<rightharpoonup> string list"

record SessionIdentity =
  si_SessionID :: string
  si_Namespace :: string
  si_CRName :: string
  si_Phase :: string
  si_ProviderMode :: string

record Identity =
  id_SessionID :: string
  id_Namespace :: string
  id_PodName :: string
  id_ProviderMode :: string

record HandlerConfig =
  hc_UpstreamAPIKey :: string
  hc_Provider :: string
  hc_UpstreamAuthHeader :: string
  hc_UpstreamAuthScheme :: string

record url =
  url_Scheme :: string
  url_Host :: string
  url_Path :: string
  url_RawQuery :: string

record http_request =
  rq_Method :: string
  rq_Path :: string
  rq_RawQuery :: string
  rq_Header :: http_header
  rq_Body :: bytes
  rq_ContentLength :: int

record upstream_request =
  ur_Method :: string
  ur_URL :: url
  ur_Host :: string
  ur_Header :: http_header
  ur_Body :: bytes
  ur_ContentLength :: int

record http_response =
  rs_StatusCode :: int
  rs_Header :: http_header
  rs_Chunks :: "bytes list"
  rs_EOF :: bool

datatype upstream_answer = UpstreamTimeout | UpstreamFailure | UpstreamResponse http_response

record tokenUsage =
  tu_Input :: int
  tu_Output :: int

text \<open>The counters, by their labels; the histogram is the list of the observed durations.\<close>

record gateway_metrics =
  gm_requests :: "string \<times> string \<Rightarrow> int"
  gm_errors :: "string \<times> string \<Rightarrow> int"
  gm_duration :: "(string \<times> duration) list"
  gm_usage :: "string \<times> string \<Rightarrow> int"

record gateway_mem =
  gw_header :: http_header
  gw_metrics :: gateway_metrics

datatype gateway_event =
  GwClock time
  | GwRequestID string
  | GwReview string "string list" "unit + TokenReviewStatus"
  | GwTimer bool
  | GwQuery string string "database option"
  | GwForward upstream_request upstream_answer
  | GwWriteHeader int http_header
  | GwWrite bytes bool
  | GwFlush bool

record gateway_api =
  g_now :: "gateway_event list \<Rightarrow> time"
  g_request_id :: "gateway_event list \<Rightarrow> string"
  g_review :: "gateway_event list \<Rightarrow> string \<Rightarrow> unit + TokenReviewStatus"
  g_timer :: "gateway_event list \<Rightarrow> bool"
  g_query :: "gateway_event list \<Rightarrow> database option"
  g_forward :: "gateway_event list \<Rightarrow> upstream_request \<Rightarrow> upstream_answer"
  g_write :: "gateway_event list \<Rightarrow> bytes \<Rightarrow> bool"
  g_flush :: "gateway_event list \<Rightarrow> bool"

text \<open>Pure functions of the standard library: the checks of \<open>http.NewRequestWithContext\<close> and the JSON decoder.\<close>

record gateway_lib =
  valid_request :: "string \<Rightarrow> url \<Rightarrow> bool"
  json_Unmarshal :: "bytes \<Rightarrow> json option"

type_synonym gateway_world = "(gateway_event, gateway_mem) world"
type_synonym 'a gateway = "(gateway_event, gateway_mem, 'a) prog"

section \<open>Identity\<close>

definition GatewayAudience :: string where
  "GatewayAudience = ''bosun-llm-gateway''"

definition podNameExtraKey :: string where
  "podNameExtraKey = ''authentication.kubernetes.io/pod-name''"

definition podUIDExtraKey :: string where
  "podUIDExtraKey = ''authentication.kubernetes.io/pod-uid''"

definition usernamePrefix :: string where
  "usernamePrefix = ''system:serviceaccount:''"

definition parseServiceAccountUsername :: "string \<Rightarrow> (string \<times> string) option" where
  "parseServiceAccountUsername username =
     (if \<not> HasPrefix username usernamePrefix then None
      else case Split (CHR '':'') (TrimPrefix username usernamePrefix) of
          [namespace, name] \<Rightarrow> if namespace = [] \<or> name = [] then None else Some (namespace, name)
        | _ \<Rightarrow> None)"

definition singleExtra :: "(string \<rightharpoonup> string list) \<Rightarrow> string \<Rightarrow> string option" where
  "singleExtra extra key =
     (case extra key of Some [v] \<Rightarrow> if v \<noteq> [] then Some v else None | _ \<Rightarrow> None)"

definition phaseAllowsLLM :: "string \<Rightarrow> bool" where
  "phaseAllowsLLM phase \<longleftrightarrow> phase \<in> {''Provisioning'', ''Running'', ''Idle'', ''Restoring''}"

text \<open>One retry, after a pause of 50 ms that the end of the context cuts short.\<close>

definition reviewWithRetry :: "gateway_api \<Rightarrow> string \<Rightarrow> (gateway_error + TokenReviewStatus) gateway" where
  "reviewWithRetry G token = do {
     let review = call (\<lambda>t. g_review G t token) (GwReview token [GatewayAudience]);
     r \<leftarrow> review;
     case r of Inr status \<Rightarrow> State_Monad.return (Inr status)
     | Inl _ \<Rightarrow> do {
         done \<leftarrow> call (g_timer G) GwTimer;
         if done then State_Monad.return (Inl ErrTokenReviewFailed)
         else do {
           r2 \<leftarrow> review;
           State_Monad.return (case r2 of Inr status \<Rightarrow> Inr status | Inl _ \<Rightarrow> Inl ErrTokenReviewFailed) } } }"

text \<open>\<open>DatabaseSessionResolver.Resolve\<close>.\<close>

definition Resolve :: "gateway_api \<Rightarrow> string \<Rightarrow> string \<Rightarrow> (gateway_error + SessionIdentity) gateway" where
  "Resolve G namespace crName = do {
     d \<leftarrow> call (g_query G) (GwQuery namespace crName);
     State_Monad.return (case d of None \<Rightarrow> Inl (ErrLookup ''query session identity'')
       | Some d \<Rightarrow> case GetGatewaySessionIdentity namespace crName d of
           None \<Rightarrow> Inl ErrSessionUnavailable
         | Some row \<Rightarrow> Inr \<lparr>si_SessionID = bs_ID row, si_Namespace = bs_CrNamespace row, si_CRName = bs_CrName row,
             si_Phase = bs_Phase row, si_ProviderMode = bs_ProviderMode row\<rparr>) }"

definition serviceAccountPrefix :: string where
  "serviceAccountPrefix = ''bosun-session-''"

text \<open>The part of \<open>Authenticate\<close> before the lookup: namespace, service account, Pod name and suffix of the token.\<close>

definition token_identity :: "TokenReviewStatus \<Rightarrow> gateway_error + string \<times> string \<times> string \<times> string" where
  "token_identity status =
     (if \<not> tr_Authenticated status \<or> GatewayAudience \<notin> set (tr_Audiences status) then Inl ErrInvalidToken
      else case parseServiceAccountUsername (tr_Username status) of None \<Rightarrow> Inl ErrIdentityMismatch
      | Some (namespace, serviceAccount) \<Rightarrow>
        case singleExtra (tr_Extra status) podNameExtraKey of None \<Rightarrow> Inl ErrIdentityMismatch
        | Some podName \<Rightarrow>
          if singleExtra (tr_Extra status) podUIDExtraKey = None then Inl ErrIdentityMismatch
          else if \<not> HasPrefix serviceAccount serviceAccountPrefix then Inl ErrIdentityMismatch
          else let suffix = TrimPrefix serviceAccount serviceAccountPrefix in
            if length suffix \<noteq> 12 \<or> podName \<noteq> ''agent-'' @ suffix then Inl ErrIdentityMismatch
            else Inr (namespace, serviceAccount, podName, suffix))"

text \<open>The part after it.\<close>

definition session_identity :: "klib \<Rightarrow> string \<Rightarrow> string \<Rightarrow> string \<Rightarrow> SessionIdentity \<Rightarrow> gateway_error + Identity" where
  "session_identity L namespace serviceAccount podName session =
     (if si_Namespace session \<noteq> namespace \<or> CRName L (si_SessionID session) \<noteq> si_CRName session \<or>
         ServiceAccountName L (si_SessionID session) \<noteq> serviceAccount \<or> PodName L (si_SessionID session) \<noteq> podName
      then Inl ErrIdentityMismatch
      else if \<not> phaseAllowsLLM (si_Phase session) then Inl ErrSessionUnavailable
      else Inr \<lparr>id_SessionID = si_SessionID session, id_Namespace = namespace, id_PodName = podName,
        id_ProviderMode = si_ProviderMode session\<rparr>)"

definition resolve_identity :: "klib \<Rightarrow> gateway_api \<Rightarrow> string \<times> string \<times> string \<times> string \<Rightarrow> (gateway_error + Identity) gateway" where
  "resolve_identity L G = (\<lambda>(namespace, serviceAccount, podName, suffix). do {
     s \<leftarrow> Resolve G namespace (''sess-'' @ suffix);
     State_Monad.return (case s of Inl e \<Rightarrow>
         Inl (if e = ErrSessionUnavailable then ErrSessionUnavailable else ErrLookup ''resolve gateway session identity'')
       | Inr session \<Rightarrow> session_identity L namespace serviceAccount podName session) })"

definition Authenticate :: "klib \<Rightarrow> gateway_api \<Rightarrow> string \<Rightarrow> (gateway_error + Identity) gateway" where
  "Authenticate L G token =
     (if TrimSpace token = [] then State_Monad.return (Inl ErrInvalidToken)
      else do {
        r \<leftarrow> reviewWithRetry G token;
        case r of Inl e \<Rightarrow> State_Monad.return (Inl e)
        | Inr status \<Rightarrow> case token_identity status of Inl e \<Rightarrow> State_Monad.return (Inl e)
          | Inr names \<Rightarrow> resolve_identity L G names })"

section \<open>Requests to the upstream\<close>

definition bearerToken :: "string \<Rightarrow> string option" where
  "bearerToken header =
     (if \<not> HasPrefix header ''Bearer '' then None
      else let token = TrimSpace (TrimPrefix header ''Bearer '') in if token \<noteq> [] then Some token else None)"

definition isHopByHopHeader :: "string \<Rightarrow> bool" where
  "isHopByHopHeader name \<longleftrightarrow> CanonicalHeaderKey name \<in> {''Connection'', ''Proxy-Connection'', ''Keep-Alive'',
     ''Proxy-Authenticate'', ''Proxy-Authorization'', ''Te'', ''Trailer'', ''Transfer-Encoding'', ''Upgrade''}"

text \<open>The fields of a request that are not copied, and those of a response.\<close>

definition drop_request_header :: "string \<Rightarrow> bool" where
  "drop_request_header name \<longleftrightarrow> isHopByHopHeader name \<or> str_EqualFold name ''Cookie'' \<or> str_EqualFold name ''Forwarded'' \<or>
     HasPrefix (str_ToLower name) ''x-forwarded-'' \<or> HasPrefix (str_ToLower name) ''x-bosun-''"

definition drop_response_header :: "string \<Rightarrow> bool" where
  "drop_response_header name \<longleftrightarrow> isHopByHopHeader name \<or> str_EqualFold name ''Server''"

definition copy_headers :: "(string \<Rightarrow> bool) \<Rightarrow> http_header \<Rightarrow> http_header \<Rightarrow> http_header" where
  "copy_headers skip source destination =
     fold (\<lambda>(name, values) d. if skip name then d else fold (header_Add name) values d) source destination"

definition copyRequestHeaders :: "http_header \<Rightarrow> http_header \<Rightarrow> http_header" where
  "copyRequestHeaders source destination = copy_headers drop_request_header source destination"

definition copyResponseHeaders :: "http_header \<Rightarrow> http_header \<Rightarrow> http_header" where
  "copyResponseHeaders source destination = copy_headers drop_response_header source destination"

definition joinURLPath :: "string \<Rightarrow> string \<Rightarrow> string" where
  "joinURLPath basePath requestPath =
     (if basePath = [] \<or> basePath = ''/'' then requestPath
      else let joined = path_Join [basePath, requestPath]
           in if HasSuffix requestPath ''/'' \<and> \<not> HasSuffix joined ''/'' then joined @ ''/'' else joined)"

definition upstream_credential :: "HandlerConfig \<Rightarrow> string" where
  "upstream_credential cfg =
     (if hc_UpstreamAuthScheme cfg \<noteq> [] then hc_UpstreamAuthScheme cfg @ '' '' @ hc_UpstreamAPIKey cfg else hc_UpstreamAPIKey cfg)"

definition newUpstreamRequest :: "gateway_lib \<Rightarrow> HandlerConfig \<Rightarrow> url \<Rightarrow> http_request \<Rightarrow> upstream_request option" where
  "newUpstreamRequest B cfg upstream request =
     (let target = upstream\<lparr>url_Path := joinURLPath (url_Path upstream) (rq_Path request), url_RawQuery := rq_RawQuery request\<rparr>
      in if \<not> valid_request B (rq_Method request) target then None
         else Some \<lparr>ur_Method = rq_Method request, ur_URL = target, ur_Host = url_Host upstream,
           ur_Header = header_Set (hc_UpstreamAuthHeader cfg) (upstream_credential cfg)
             (header_Del ''Proxy-Authorization'' (header_Del ''X-Api-Key'' (header_Del ''Authorization''
               (copyRequestHeaders (rq_Header request) [])))),
           ur_Body = rq_Body request, ur_ContentLength = rq_ContentLength request\<rparr>)"

section \<open>Answers\<close>

definition statusForIdentityError :: "gateway_error \<Rightarrow> int \<times> string" where
  "statusForIdentityError e =
     (case e of ErrInvalidToken \<Rightarrow> (401, ''invalid_token'')
      | ErrIdentityMismatch \<Rightarrow> (403, ''identity_mismatch'')
      | ErrSessionUnavailable \<Rightarrow> (403, ''session_unavailable'')
      | ErrTokenReviewFailed \<Rightarrow> (503, ''token_review_unavailable'')
      | ErrLookup _ \<Rightarrow> (503, ''identity_lookup_unavailable''))"

definition stableUpstreamReason :: "int \<Rightarrow> string" where
  "stableUpstreamReason status =
     (if status = 400 then ''upstream_invalid_request''
      else if status = 401 \<or> status = 403 then ''upstream_authentication_failed''
      else if status = 429 then ''upstream_rate_limited''
      else if status \<ge> 500 then ''upstream_unavailable''
      else ''upstream_request_failed'')"

text \<open>The prefix of the body that is kept to read the token usage from.\<close>

definition maxUsageCaptureBytes :: nat where
  "maxUsageCaptureBytes = 2097152"

record limitedBuffer =
  lb_buffer :: bytes
  lb_remaining :: int

definition buffer_Write :: "bytes \<Rightarrow> limitedBuffer \<Rightarrow> limitedBuffer" where
  "buffer_Write v b =
     (if lb_remaining b \<le> 0 then b
      else let v' = (if int (length v) > lb_remaining b then take (nat (lb_remaining b)) v else v)
           in b\<lparr>lb_buffer := lb_buffer b @ v', lb_remaining := lb_remaining b - int (length v')\<rparr>)"

definition set_header :: "string \<Rightarrow> string \<Rightarrow> unit gateway" where
  "set_header k v = do { m \<leftarrow> get_mem; put_mem (m\<lparr>gw_header := header_Set k v (gw_header m)\<rparr>) }"

definition write_status :: "int \<Rightarrow> unit gateway" where
  "write_status status = do { m \<leftarrow> get_mem; call (\<lambda>_. ()) (\<lambda>_. GwWriteHeader status (gw_header m)) }"

definition write_body :: "gateway_api \<Rightarrow> bytes \<Rightarrow> bool gateway" where
  "write_body G v = call (\<lambda>t. g_write G t v) (GwWrite v)"

text \<open>The reasons are plain ASCII, so the encoder writes them as they are; it sorts the names of an object.\<close>

definition error_json :: "string \<Rightarrow> bytes" where
  "error_json reason = ''{'' @ [CHR 0x22] @ ''error'' @ [CHR 0x22] @ '':{'' @ [CHR 0x22] @ ''message'' @ [CHR 0x22] @ '':''
     @ [CHR 0x22] @ reason @ [CHR 0x22] @ '','' @ [CHR 0x22] @ ''type'' @ [CHR 0x22] @ '':'' @ [CHR 0x22] @ ''api_error''
     @ [CHR 0x22] @ ''},'' @ [CHR 0x22] @ ''type'' @ [CHR 0x22] @ '':'' @ [CHR 0x22] @ ''error'' @ [CHR 0x22] @ ''}'' @ [CHR 0x0A]"

definition writeGatewayError :: "gateway_api \<Rightarrow> int \<Rightarrow> string \<Rightarrow> string \<Rightarrow> unit gateway" where
  "writeGatewayError G status reason requestID = do {
     _ \<leftarrow> (if requestID \<noteq> [] then set_header ''X-Bosun-Request-ID'' requestID else State_Monad.return ());
     _ \<leftarrow> set_header ''Content-Type'' ''application/json'';
     _ \<leftarrow> write_status status;
     _ \<leftarrow> write_body G (error_json reason);
     State_Monad.return () }"

text \<open>The loop over the chunks of the body: the answer is whether all of it arrived, and what was captured.\<close>

fun copy_chunks :: "gateway_api \<Rightarrow> bool \<Rightarrow> bool \<Rightarrow> bytes list \<Rightarrow> limitedBuffer \<Rightarrow> (bool \<times> limitedBuffer) gateway" where
  "copy_chunks G streaming eof [] capture = State_Monad.return (eof, capture)"
| "copy_chunks G streaming eof (chunk # chunks) capture =
     (if chunk = [] then copy_chunks G streaming eof chunks capture
      else do {
        let capture' = buffer_Write chunk capture;
        ok \<leftarrow> write_body G chunk;
        if \<not> ok then State_Monad.return (False, capture')
        else do {
          flushed \<leftarrow> (if streaming then call (g_flush G) GwFlush else State_Monad.return True);
          if \<not> flushed then State_Monad.return (False, capture')
          else copy_chunks G streaming eof chunks capture' } })"

definition copyResponse :: "gateway_api \<Rightarrow> http_response \<Rightarrow> limitedBuffer \<Rightarrow> (bool \<times> limitedBuffer) gateway" where
  "copyResponse G response capture =
     copy_chunks G (Contains (str_ToLower (header_Get (rs_Header response) ''Content-Type'')) ''text/event-stream'')
       (rs_EOF response) (rs_Chunks response) capture"

section \<open>Token usage\<close>

fun numericField :: "(string \<times> json) list \<Rightarrow> string list \<Rightarrow> int" where
  "numericField obj [] = 0"
| "numericField obj (name # names) =
     (case map_of obj name of Some (JNumber n) \<Rightarrow> n | _ \<Rightarrow> numericField obj names)"

definition add_usage :: "(string \<times> json) list \<Rightarrow> tokenUsage \<Rightarrow> tokenUsage" where
  "add_usage obj usage =
     (case map_of obj ''usage'' of Some (JObject u) \<Rightarrow>
        \<lparr>tu_Input = max (tu_Input usage) (numericField u [''input_tokens'', ''prompt_tokens'']),
         tu_Output = max (tu_Output usage) (numericField u [''output_tokens'', ''completion_tokens''])\<rparr>
      | _ \<Rightarrow> usage)"

fun findUsage :: "json \<Rightarrow> tokenUsage \<Rightarrow> tokenUsage" where
  "findUsage (JObject obj) usage = fold (\<lambda>field. findUsage (snd field)) obj (add_usage obj usage)"
| "findUsage (JArray items) usage = fold findUsage items usage"
| "findUsage _ usage = usage"

text \<open>
  \<open>bufio.Scanner\<close> by lines. It stops at a line that fills its buffer of \<open>maxUsageCaptureBytes\<close>; a final \<open>\r\<close> of a line is
  dropped.
\<close>

definition drop_cr :: "string \<Rightarrow> string" where
  "drop_cr s = (if s \<noteq> [] \<and> last s = CHR 0x0D then butlast s else s)"

function scan_lines :: "bytes \<Rightarrow> string list" where
  "scan_lines body =
     (let line = takeWhile (\<lambda>c. c \<noteq> CHR 0x0A) body in
      if body = [] \<or> length line \<ge> maxUsageCaptureBytes then []
      else drop_cr line # scan_lines (drop (Suc (length line)) body))"
  by pat_completeness auto
termination by (relation "measure length") (auto simp: length_greater_0_conv [symmetric] simp del: length_greater_0_conv)

declare scan_lines.simps [simp del]

definition line_payload :: "string \<Rightarrow> string option" where
  "line_payload text =
     (let line = TrimSpace text in
      if \<not> HasPrefix line ''data:'' then None
      else let payload = TrimSpace (TrimPrefix line ''data:'') in
        if payload = [] \<or> payload = ''[DONE]'' then None else Some payload)"

definition line_usage :: "gateway_lib \<Rightarrow> string \<Rightarrow> tokenUsage \<Rightarrow> tokenUsage" where
  "line_usage B text usage =
     (case line_payload text of None \<Rightarrow> usage
      | Some payload \<Rightarrow> case json_Unmarshal B payload of None \<Rightarrow> usage | Some v \<Rightarrow> findUsage v usage)"

definition extractTokenUsage :: "gateway_lib \<Rightarrow> bytes \<Rightarrow> tokenUsage" where
  "extractTokenUsage B body =
     (let zero = \<lparr>tu_Input = 0, tu_Output = 0\<rparr> in
      case json_Unmarshal B body of Some v \<Rightarrow> findUsage v zero
      | None \<Rightarrow> fold (line_usage B) (scan_lines body) zero)"

section \<open>Serving\<close>

definition bump :: "'k \<Rightarrow> int \<Rightarrow> ('k \<Rightarrow> int) \<Rightarrow> 'k \<Rightarrow> int" where
  "bump k n f = f(k := f k + n)"

text \<open>\<open>Metrics.Observe\<close>.\<close>

definition Observe :: "string \<Rightarrow> int \<Rightarrow> string \<Rightarrow> duration \<Rightarrow> tokenUsage \<Rightarrow> gateway_metrics \<Rightarrow> gateway_metrics" where
  "Observe provider status reason elapsed usage m =
     m\<lparr>gm_requests := bump (provider, show_int status) 1 (gm_requests m),
       gm_duration := gm_duration m @ [(provider, elapsed)],
       gm_errors := (if reason \<noteq> [] then bump (provider, reason) 1 (gm_errors m) else gm_errors m),
       gm_usage := (let u = (if tu_Input usage > 0 then bump (provider, ''input'') (tu_Input usage) (gm_usage m) else gm_usage m)
         in if tu_Output usage > 0 then bump (provider, ''output'') (tu_Output usage) u else u)\<rparr>"

text \<open>What the deferred function of \<open>ServeHTTP\<close> reports: status, reason, usage and session.\<close>

record gateway_report =
  gr_status :: int
  gr_reason :: string
  gr_usage :: tokenUsage
  gr_sessionID :: string

definition report :: "int \<Rightarrow> string \<Rightarrow> tokenUsage \<Rightarrow> string \<Rightarrow> gateway_report" where
  "report status reason usage sessionID = \<lparr>gr_status = status, gr_reason = reason, gr_usage = usage, gr_sessionID = sessionID\<rparr>"

definition no_usage :: tokenUsage where
  "no_usage = \<lparr>tu_Input = 0, tu_Output = 0\<rparr>"

definition refuse :: "gateway_api \<Rightarrow> string \<Rightarrow> string \<Rightarrow> int \<times> string \<Rightarrow> gateway_report gateway" where
  "refuse G requestID sessionID = (\<lambda>(status, reason). do {
     _ \<leftarrow> writeGatewayError G status reason requestID;
     State_Monad.return (report status reason no_usage sessionID) })"

text \<open>From the response of the upstream to the end.\<close>

definition relay :: "gateway_lib \<Rightarrow> gateway_api \<Rightarrow> string \<Rightarrow> string \<Rightarrow> http_response \<Rightarrow> gateway_report gateway" where
  "relay B G requestID sessionID response =
     (if rs_StatusCode response \<ge> 400 then do {
        let retryAfter = header_Get (rs_Header response) ''Retry-After'';
        _ \<leftarrow> (if retryAfter \<noteq> [] then set_header ''Retry-After'' retryAfter else State_Monad.return ());
        refuse G requestID sessionID (rs_StatusCode response, stableUpstreamReason (rs_StatusCode response)) }
      else do {
        m \<leftarrow> get_mem;
        _ \<leftarrow> put_mem (m\<lparr>gw_header := copyResponseHeaders (rs_Header response) (gw_header m)\<rparr>);
        _ \<leftarrow> set_header ''X-Bosun-Request-ID'' requestID;
        _ \<leftarrow> write_status (rs_StatusCode response);
        (ok, capture) \<leftarrow> copyResponse G response \<lparr>lb_buffer = [], lb_remaining = int maxUsageCaptureBytes\<rparr>;
        State_Monad.return (if ok then report (rs_StatusCode response) [] (extractTokenUsage B (lb_buffer capture)) sessionID
          else report (rs_StatusCode response) ''response_interrupted'' no_usage sessionID) })"

definition serve :: "klib \<Rightarrow> gateway_lib \<Rightarrow> gateway_api \<Rightarrow> HandlerConfig \<Rightarrow> url \<Rightarrow> string \<Rightarrow> http_request \<Rightarrow> gateway_report gateway" where
  "serve L B G cfg upstream requestID request =
     (case bearerToken (header_Get (rq_Header request) ''Authorization'') of
        None \<Rightarrow> refuse G requestID [] (401, ''invalid_token'')
      | Some token \<Rightarrow> do {
          r \<leftarrow> Authenticate L G token;
          case r of Inl e \<Rightarrow> refuse G requestID [] (statusForIdentityError e)
          | Inr identity \<Rightarrow>
            if id_ProviderMode identity \<noteq> ''platform'' then refuse G requestID (id_SessionID identity) (403, ''provider_not_available'')
            else case newUpstreamRequest B cfg upstream request of
              None \<Rightarrow> refuse G requestID (id_SessionID identity) (502, ''upstream_request_failed'')
            | Some u \<Rightarrow> do {
                a \<leftarrow> call (\<lambda>t. g_forward G t u) (GwForward u);
                case a of UpstreamTimeout \<Rightarrow> refuse G requestID (id_SessionID identity) (504, ''upstream_timeout'')
                | UpstreamFailure \<Rightarrow> refuse G requestID (id_SessionID identity) (502, ''upstream_unavailable'')
                | UpstreamResponse response \<Rightarrow> relay B G requestID (id_SessionID identity) response } })"

text \<open>\<open>Proxy.ServeHTTP\<close>; the identifier of the request is a fresh UUID, and the deferred function observes the outcome.\<close>

definition ServeHTTP :: "klib \<Rightarrow> gateway_lib \<Rightarrow> gateway_api \<Rightarrow> HandlerConfig \<Rightarrow> url \<Rightarrow> http_request \<Rightarrow> gateway_report gateway" where
  "ServeHTTP L B G cfg upstream request = do {
     started \<leftarrow> call (g_now G) GwClock;
     requestID \<leftarrow> call (g_request_id G) GwRequestID;
     _ \<leftarrow> set_header ''X-Bosun-Request-ID'' requestID;
     r \<leftarrow> serve L B G cfg upstream requestID request;
     ended \<leftarrow> call (g_now G) GwClock;
     m \<leftarrow> get_mem;
     _ \<leftarrow> put_mem (m\<lparr>gw_metrics := Observe (hc_Provider cfg) (gr_status r) (gr_reason r) (time_sub ended started) (gr_usage r) (gw_metrics m)\<rparr>);
     State_Monad.return r }"

end
