(* ===== verification/Gateway_Safety.thy ===== *)
theory Gateway_Safety
  imports Gateway Session_Requests
begin

text \<open>
  What the gateway guarantees whatever the API server, the database and the upstream answer: a request reaches the
  upstream only for a live session of the platform provider that the token names in full, without the credentials and
  cookies of the client; and every request gets one status line, which is what the metrics count.
\<close>

section \<open>Field names\<close>

lemma case_dash [simp]: "upper_char c = CHR ''-'' \<longleftrightarrow> c = CHR ''-''" "lower_char c = CHR ''-'' \<longleftrightarrow> c = CHR ''-''"
proof -
  have inj: "x = y \<longleftrightarrow> nat_of_byte x = nat_of_byte y" for x y by (metis byte_of_nat_of_byte)
  have byte: "nat_of_byte (byte_of n) = n" if "n < 256" for n using that by (simp add: nat_of_byte_def byte_of_def)
  have dash: "nat_of_byte (CHR ''-'') = 45" by (simp add: nat_of_byte_def)
  show "upper_char c = CHR ''-'' \<longleftrightarrow> c = CHR ''-''" "lower_char c = CHR ''-'' \<longleftrightarrow> c = CHR ''-''"
    by (auto simp: upper_char_def lower_char_def Let_def inj byte dash)
qed

lemma case_idem [simp]: "upper_char (upper_char c) = upper_char c"
  by (auto simp: upper_char_def Let_def nat_of_byte_def byte_of_def)

lemma canonical_from_idem [simp]: "canonical_from upper (canonical_from upper s) = canonical_from upper s"
  by (induction upper s rule: canonical_from.induct) auto

lemma token_byte_case: "token_byte c \<Longrightarrow> token_byte (upper_char c) \<and> token_byte (lower_char c)"
proof -
  assume "token_byte c"
  moreover have byte: "(of_char (byte_of n) :: nat) = n" if "n < 256" for n using that by (simp add: byte_of_def)
  moreover have "in_range 65 90 (byte_of (nat_of_byte c - 32))" if "97 \<le> nat_of_byte c" "nat_of_byte c \<le> 122"
    using that unfolding in_range_def by (subst (1 2) byte) (auto simp: nat_of_byte_def)
  moreover have "in_range 97 122 (byte_of (nat_of_byte c + 32))" if "65 \<le> nat_of_byte c" "nat_of_byte c \<le> 90"
    using that unfolding in_range_def by (subst (1 2) byte) (auto simp: nat_of_byte_def)
  ultimately show ?thesis by (auto simp: upper_char_def lower_char_def Let_def token_byte_def)
qed

lemma token_canonical_from: "list_all token_byte s \<Longrightarrow> list_all token_byte (canonical_from upper s)"
  by (induction upper s rule: canonical_from.induct) (auto simp: token_byte_case)

lemma CanonicalHeaderKey_idem [simp]: "CanonicalHeaderKey (CanonicalHeaderKey s) = CanonicalHeaderKey s"
  by (simp add: CanonicalHeaderKey_def token_canonical_from)

lemma drop_request_header_canonical [simp]: "drop_request_header (CanonicalHeaderKey n) = drop_request_header n"
  by (simp add: drop_request_header_def isHopByHopHeader_def str_EqualFold_def)

section \<open>Copied fields\<close>

text \<open>A header made by the operations has each field once, and every value comes from a field of the source.\<close>

definition copied :: "(string \<Rightarrow> bool) \<Rightarrow> http_header \<Rightarrow> http_header \<Rightarrow> bool" where
  "copied skip source h \<longleftrightarrow> distinct (map fst h) \<and> (\<forall>n vs v. (n, vs) \<in> set h \<longrightarrow> v \<in> set vs \<longrightarrow>
     (\<exists>n0 vs0. (n0, vs0) \<in> set source \<and> \<not> skip n0 \<and> n = CanonicalHeaderKey n0 \<and> v \<in> set vs0))"

lemma copiedD:
  assumes "copied skip source h" and "(n, vs) \<in> set h" and "v \<in> set vs"
  obtains n0 vs0 where "(n0, vs0) \<in> set source" "\<not> skip n0" "n = CanonicalHeaderKey n0" "v \<in> set vs0"
  using assms unfolding copied_def by blast

lemma copied_Add:
  assumes "copied skip source h" and "(n0, vs0) \<in> set source" and "\<not> skip n0" and "v \<in> set vs0"
  shows "copied skip source (header_Add n0 v h)"
proof -
  have "\<exists>n1 vs1. (n1, vs1) \<in> set source \<and> \<not> skip n1 \<and> n = CanonicalHeaderKey n1 \<and> x \<in> set vs1"
    if f: "(n, vs) \<in> set (header_Add n0 v h)" and x: "x \<in> set vs" for n vs x
  proof (cases "(n, vs) \<in> set h")
    case True
    then show ?thesis using copiedD [OF assms(1) _ x] by metis
  next
    case False
    then have n: "n = CanonicalHeaderKey n0" and vs: "vs = header_values h n0 @ [v]" using header_Add_fields [OF f] by auto
    show ?thesis
    proof (cases "x = v")
      case True
      then show ?thesis using n assms by auto
    next
      case False
      then have "x \<in> set (header_values h n0)" using x vs by auto
      then have "(n, header_values h n0) \<in> set h" using n by (auto simp: header_values_def map_of_SomeD split: option.splits)
      with \<open>x \<in> set (header_values h n0)\<close> show ?thesis using copiedD [OF assms(1)] by metis
    qed
  qed
  moreover have "distinct (map fst (header_Add n0 v h))"
    using assms(1) by (simp add: copied_def header_Add_def distinct_update)
  ultimately show ?thesis unfolding copied_def by blast
qed

lemma copied_values:
  assumes "copied skip source h" and "(n0, vs0) \<in> set source" and "\<not> skip n0" and "set vs \<subseteq> set vs0"
  shows "copied skip source (fold (header_Add n0) vs h)"
  using assms by (induction vs arbitrary: h) (auto intro: copied_Add)

lemma copied_copy_headers:
  assumes "set part \<subseteq> set source" and "copied skip source h"
  shows "copied skip source (copy_headers skip part h)"
  using assms
proof (induction part arbitrary: h)
  case (Cons f part)
  obtain n0 vs0 where f: "f = (n0, vs0)" by (cases f)
  have "copied skip source (if skip n0 then h else fold (header_Add n0) vs0 h)"
    using Cons.prems by (auto simp: f intro: copied_values)
  then show ?case using Cons.IH Cons.prems(1) by (simp add: copy_headers_def f)
qed (simp add: copy_headers_def)

lemma copied_Del: "copied skip source h \<Longrightarrow> copied skip source (header_Del k h)"
  by (auto simp: copied_def header_Del_def set_alist_delete distinct_alist_delete)

text \<open>
  The header of the request that goes upstream: the credential of the gateway, and fields of the client of the same name
  that are neither credentials, cookies nor about the connection.
\<close>

definition client_fields :: "HandlerConfig \<Rightarrow> http_request \<Rightarrow> http_header \<Rightarrow> bool" where
  "client_fields cfg req h \<longleftrightarrow> distinct (map fst h) \<and>
     map_of h (CanonicalHeaderKey (hc_UpstreamAuthHeader cfg)) = Some [upstream_credential cfg] \<and>
     (\<forall>n vs. (n, vs) \<in> set h \<longrightarrow> n \<noteq> CanonicalHeaderKey (hc_UpstreamAuthHeader cfg) \<longrightarrow>
        n \<notin> {''Authorization'', ''X-Api-Key'', ''Proxy-Authorization''} \<and>
        (\<forall>v\<in>set vs. \<not> drop_request_header n \<and> (\<exists>n0 vs0. (n0, vs0) \<in> set (rq_Header req) \<and> CanonicalHeaderKey n0 = n \<and> v \<in> set vs0)))"

lemma client_fields_upstream:
  assumes "newUpstreamRequest B cfg upstream req = Some u"
  shows "client_fields cfg req (ur_Header u)"
proof -
  define h where "h = header_Del ''Proxy-Authorization'' (header_Del ''X-Api-Key'' (header_Del ''Authorization''
    (copyRequestHeaders (rq_Header req) [])))"
  have canon: "CanonicalHeaderKey ''Proxy-Authorization'' = ''Proxy-Authorization''"
    "CanonicalHeaderKey ''X-Api-Key'' = ''X-Api-Key''" "CanonicalHeaderKey ''Authorization'' = ''Authorization''"
    by code_simp+
  have u: "ur_Header u = header_Set (hc_UpstreamAuthHeader cfg) (upstream_credential cfg) h"
    using assms by (auto simp: newUpstreamRequest_def h_def Let_def split: if_splits)
  have h: "copied drop_request_header (rq_Header req) h"
    unfolding h_def copyRequestHeaders_def by (intro copied_Del copied_copy_headers) (simp_all add: copied_def)
  have plain: "n \<notin> {''Authorization'', ''X-Api-Key'', ''Proxy-Authorization''}" if "(n, vs) \<in> set h" for n vs
    using that by (auto simp: h_def header_Del_def set_alist_delete canon)
  have mine: "\<not> drop_request_header n \<and> (\<exists>n0 vs0. (n0, vs0) \<in> set (rq_Header req) \<and> CanonicalHeaderKey n0 = n \<and> v \<in> set vs0)"
    if f: "(n, vs) \<in> set h" "v \<in> set vs" for n vs v
  proof -
    obtain n0 vs0 where "(n0, vs0) \<in> set (rq_Header req)" "\<not> drop_request_header n0"
        "n = CanonicalHeaderKey n0" "v \<in> set vs0"
      using copiedD [OF h f] by metis
    then show ?thesis by auto
  qed
  have kept: "(n, vs) \<in> set h" if "(n, vs) \<in> set (ur_Header u)" "n \<noteq> CanonicalHeaderKey (hc_UpstreamAuthHeader cfg)" for n vs
    using that update_subset [of "CanonicalHeaderKey (hc_UpstreamAuthHeader cfg)" "[upstream_credential cfg]" h]
    by (auto simp: u header_Set_def)
  have "distinct (map fst (ur_Header u))" using h by (simp add: u header_Set_def distinct_update copied_def)
  moreover have "map_of (ur_Header u) (CanonicalHeaderKey (hc_UpstreamAuthHeader cfg)) = Some [upstream_credential cfg]"
    by (simp add: u header_Set_def update_conv')
  ultimately show ?thesis unfolding client_fields_def using kept plain mine by meson
qed

section \<open>Who is let through\<close>

lemma Split_two: "Split sep s = [a, b] \<Longrightarrow> s = a @ sep # b"
proof (induction s arbitrary: a)
  case (Cons c s)
  show ?case
  proof (cases "c = sep")
    case True
    then have "a = []" "Split sep s = [b]" using Cons.prems by auto
    moreover have "s = b" if "Split sep s = [b]" for s b
      using that
    proof (induction s arbitrary: b)
      case (Cons c s)
      then show ?case by (cases "Split sep s") (auto split: if_splits)
    qed simp
    ultimately show ?thesis using True by simp
  next
    case False
    then obtain a' where "a = c # a'" "Split sep s = [a', b]"
      using Cons.prems by (cases "Split sep s") auto
    then show ?thesis using Cons.IH by simp
  qed
qed simp

lemma parseServiceAccountUsername_eq:
  assumes p: "parseServiceAccountUsername u = Some (namespace, name)"
  shows "u = usernamePrefix @ namespace @ '':'' @ name"
proof -
  have prefix: "HasPrefix u usernamePrefix"
    using p by (simp add: parseServiceAccountUsername_def split: if_splits)
  then have "Split (CHR '':'') (drop (length usernamePrefix) u) = [namespace, name]"
    using p by (auto simp: parseServiceAccountUsername_def TrimPrefix_def split: if_splits list.splits)
  from Split_two [OF this] have "drop (length usernamePrefix) u = namespace @ '':'' @ name" by simp
  then show ?thesis using prefix append_take_drop_id [of "length usernamePrefix" u] by (simp add: HasPrefix_def)
qed

lemma prefix_simps: "HasPrefix (p @ s) p" "TrimPrefix (p @ s) p = s"
  by (simp_all add: HasPrefix_def TrimPrefix_def)

lemma parseServiceAccountUsername_user:
  assumes "CHR '':'' \<notin> set namespace" "CHR '':'' \<notin> set name" "namespace \<noteq> []" "name \<noteq> []"
  shows "parseServiceAccountUsername (usernamePrefix @ namespace @ '':'' @ name) = Some (namespace, name)"
  using assms by (simp add: parseServiceAccountUsername_def prefix_simps Split_append Split_no_sep)

text \<open>
  The events of a run vouch for a row of the table of sessions: a token that the API server reviewed as the service account
  and the Pod of the session, and a lookup that found the row.
\<close>

definition reviewed :: "klib \<Rightarrow> string \<Rightarrow> string \<Rightarrow> TokenReviewStatus \<Rightarrow> bool" where
  "reviewed L sessionID namespace status \<longleftrightarrow> tr_Authenticated status \<and> GatewayAudience \<in> set (tr_Audiences status) \<and>
     tr_Username status = usernamePrefix @ namespace @ '':'' @ ServiceAccountName L sessionID \<and>
     tr_Extra status podNameExtraKey = Some [PodName L sessionID]"

definition vouched :: "klib \<Rightarrow> gateway_event list \<Rightarrow> string \<Rightarrow> BosunSession \<Rightarrow> bool" where
  "vouched L es token r \<longleftrightarrow>
     (\<exists>status. GwReview token [GatewayAudience] (Inr status) \<in> set es \<and> reviewed L (bs_ID r) (bs_CrNamespace r) status) \<and>
     (\<exists>d. GwQuery (bs_CrNamespace r) (CRName L (bs_ID r)) (Some d) \<in> set es \<and> r \<in> set (db_sessions d)) \<and>
     bs_DeletedAt r = None \<and> bs_CrName r = CRName L (bs_ID r) \<and> phaseAllowsLLM (bs_Phase r)"

definition lookup_event :: "gateway_event \<Rightarrow> bool" where
  "lookup_event e \<longleftrightarrow> (case e of GwReview _ _ _ \<Rightarrow> True | GwTimer _ \<Rightarrow> True | GwQuery _ _ _ \<Rightarrow> True | _ \<Rightarrow> False)"

lemma lookup_event_simps [simp]: "lookup_event (GwReview token auds r)" "lookup_event (GwTimer b)" "lookup_event (GwQuery n c d)"
  by (simp_all add: lookup_event_def)

lemma runs_reviewWithRetry:
  assumes "\<And>t e. lookup_event e \<Longrightarrow> P t e"
  shows "runs P w (reviewWithRetry G token) (\<lambda>r v. w_mem v = w_mem w \<and> (\<exists>es. w_trace v = w_trace w @ es \<and>
    (\<forall>status. r = Inr status \<longrightarrow> GwReview token [GatewayAudience] (Inr status) \<in> set es)))"
  unfolding reviewWithRetry_def
  by (intro runs_rules assms) (auto split: sum.splits)

lemma token_identity_reviewed:
  assumes "token_identity status = Inr (namespace, serviceAccount, podName, short)"
  shows "serviceAccount = serviceAccountPrefix @ short"
    and "ServiceAccountName L sid = serviceAccount \<Longrightarrow> PodName L sid = podName \<Longrightarrow> reviewed L sid namespace status"
proof -
  have pod: "tr_Extra status podNameExtraKey = Some [podName]" and name: "parseServiceAccountUsername (tr_Username status) = Some (namespace, serviceAccount)"
    and ok: "tr_Authenticated status" "GatewayAudience \<in> set (tr_Audiences status)"
    and prefix: "HasPrefix serviceAccount serviceAccountPrefix" "short = TrimPrefix serviceAccount serviceAccountPrefix"
    using assms by (auto simp: token_identity_def singleExtra_def Let_def split: if_splits option.splits list.splits)
  show "serviceAccount = serviceAccountPrefix @ short"
    using prefix append_take_drop_id [of "length serviceAccountPrefix" serviceAccount] by (simp add: TrimPrefix_def HasPrefix_def)
  show "reviewed L sid namespace status" if "ServiceAccountName L sid = serviceAccount" "PodName L sid = podName"
    using that ok pod parseServiceAccountUsername_eq [OF name] by (simp add: reviewed_def)
qed

definition vouched_identity :: "klib \<Rightarrow> gateway_event list \<Rightarrow> string \<Rightarrow> Identity \<Rightarrow> bool" where
  "vouched_identity L es token i \<longleftrightarrow>
     (\<exists>r. vouched L es token r \<and> id_SessionID i = bs_ID r \<and> id_ProviderMode i = bs_ProviderMode r)"

lemma session_identity_vouched:
  assumes review: "GwReview token [GatewayAudience] (Inr status) \<in> set es"
    and ident: "token_identity status = Inr (namespace, serviceAccount, podName, short)"
    and row: "GetGatewaySessionIdentity namespace (''sess-'' @ short) d = Some r"
    and i: "session_identity L namespace serviceAccount podName \<lparr>si_SessionID = bs_ID r, si_Namespace = bs_CrNamespace r,
      si_CRName = bs_CrName r, si_Phase = bs_Phase r, si_ProviderMode = bs_ProviderMode r\<rparr> = Inr i"
  shows "vouched_identity L (es @ [GwQuery namespace (''sess-'' @ short) (Some d)]) token i"
proof -
  have r: "r \<in> set (db_sessions d)" "bs_CrNamespace r = namespace" "bs_CrName r = ''sess-'' @ short" "bs_DeletedAt r = None"
    using row by (auto simp: GetGatewaySessionIdentity_def find_Some_iff)
  have "CRName L (bs_ID r) = bs_CrName r" "ServiceAccountName L (bs_ID r) = serviceAccount" "PodName L (bs_ID r) = podName"
    "phaseAllowsLLM (bs_Phase r)" "id_SessionID i = bs_ID r" "id_ProviderMode i = bs_ProviderMode r"
    using i by (auto simp: session_identity_def split: if_splits)
  then show ?thesis using r review token_identity_reviewed(2) [OF ident, of L "bs_ID r"]
    unfolding vouched_identity_def vouched_def by (intro exI [of _ r]) auto
qed

lemma runs_resolve_identity:
  assumes "\<And>t e. lookup_event e \<Longrightarrow> P t e" and "GwReview token [GatewayAudience] (Inr status) \<in> set es"
    and "token_identity status = Inr names" and "w_trace v = t0 @ es"
  shows "runs P v (resolve_identity L G names)
    (\<lambda>res v'. w_mem v' = w_mem v \<and> (\<exists>es. w_trace v' = t0 @ es \<and> (\<forall>i. res = Inr i \<longrightarrow> vouched_identity L es token i)))"
proof (cases names)
  case (fields namespace serviceAccount podName short)
  show ?thesis
    using assms(2-4) session_identity_vouched [of token status es namespace serviceAccount podName short]
    unfolding resolve_identity_def Resolve_def fields
    by (intro runs_rules assms(1)) (auto split: option.splits simp del: append.simps)
qed

lemma runs_Authenticate:
  assumes "\<And>t e. lookup_event e \<Longrightarrow> P t e"
  shows "runs P w (Authenticate L G token)
    (\<lambda>res v. w_mem v = w_mem w \<and> (\<exists>es. w_trace v = w_trace w @ es \<and> (\<forall>i. res = Inr i \<longrightarrow> vouched_identity L es token i)))"
    (is "runs P w _ ?Q")
proof -
  have stop: "runs P v (State_Monad.return (Inl e)) ?Q" if "w_mem v = w_mem w" "w_trace v = w_trace w @ es" for v es e
    using that by (intro runs_return) auto
  have resolve: "runs P v (resolve_identity L G names) ?Q" if "w_mem v = w_mem w" "w_trace v = w_trace w @ es"
      "GwReview token [GatewayAudience] (Inr status) \<in> set es" "token_identity status = Inr names" for v es status names
    using runs_resolve_identity [OF assms that(3,4,2)] that(1) by simp
  show ?thesis unfolding Authenticate_def
  proof (intro runs_if runs_bind)
    show "runs P w (State_Monad.return (Inl ErrInvalidToken)) ?Q" by (rule stop [of w "[]"]) simp_all
    show "runs P w (reviewWithRetry G token) (\<lambda>r v. runs P v (case r of Inl e \<Rightarrow> State_Monad.return (Inl e)
        | Inr status \<Rightarrow> case token_identity status of Inl e \<Rightarrow> State_Monad.return (Inl e)
          | Inr names \<Rightarrow> resolve_identity L G names) ?Q)"
      by (rule runs_post [OF runs_reviewWithRetry [OF assms]])
        (auto split: sum.split intro: stop resolve)
  qed
qed

section \<open>What is sent\<close>

definition forward_ok :: "klib \<Rightarrow> HandlerConfig \<Rightarrow> url \<Rightarrow> http_request \<Rightarrow> gateway_event list \<Rightarrow> upstream_request \<Rightarrow> bool" where
  "forward_ok L cfg upstream req es u \<longleftrightarrow>
     (\<exists>token r. bearerToken (header_Get (rq_Header req) ''Authorization'') = Some token \<and> vouched L es token r \<and>
        bs_ProviderMode r = ''platform'') \<and>
     client_fields cfg req (ur_Header u) \<and> ur_Host u = url_Host upstream \<and> url_Host (ur_URL u) = url_Host upstream"

definition answer_event :: "gateway_event \<Rightarrow> bool" where
  "answer_event e \<longleftrightarrow> (case e of GwWriteHeader _ _ \<Rightarrow> True | GwWrite _ _ \<Rightarrow> True | GwFlush _ \<Rightarrow> True | _ \<Rightarrow> False)"

lemma answer_event_simps [simp]: "answer_event (GwWriteHeader n h)" "answer_event (GwWrite b ok)" "answer_event (GwFlush ok)"
  by (simp_all add: answer_event_def)

text \<open>The status lines and the pieces of the body that the client gets.\<close>

fun statuses :: "gateway_event list \<Rightarrow> int list" where
  "statuses [] = []"
| "statuses (GwWriteHeader n h # es) = n # statuses es"
| "statuses (e # es) = statuses es"

fun bodies :: "gateway_event list \<Rightarrow> bytes list" where
  "bodies [] = []"
| "bodies (GwWrite b ok # es) = b # bodies es"
| "bodies (e # es) = bodies es"

fun forwards :: "gateway_event list \<Rightarrow> (upstream_request \<times> upstream_answer) list" where
  "forwards [] = []"
| "forwards (GwForward u a # es) = (u, a) # forwards es"
| "forwards (e # es) = forwards es"

lemma statuses_append [simp]: "statuses (es @ fs) = statuses es @ statuses fs"
  by (induction es rule: statuses.induct) auto

lemma bodies_append [simp]: "bodies (es @ fs) = bodies es @ bodies fs"
  by (induction es rule: bodies.induct) auto

lemma forwards_append [simp]: "forwards (es @ fs) = forwards es @ forwards fs"
  by (induction es rule: forwards.induct) auto

lemma forwards_in: "(u, a) \<in> set (forwards es) \<longleftrightarrow> GwForward u a \<in> set es"
  by (induction es rule: forwards.induct) auto

text \<open>What a run has told the client, given what it then reports.\<close>

definition told :: "gateway_event list \<Rightarrow> gateway_event list \<Rightarrow> gateway_report \<Rightarrow> bool" where
  "told t0 t r \<longleftrightarrow> (\<exists>es. t = t0 @ es \<and> forwards es = [] \<and> statuses es = [gr_status r] \<and>
     gr_status r \<ge> 400 \<and> bodies es = [error_json (gr_reason r)])"

lemma runs_set_header: "Q () (w\<lparr>w_mem := (w_mem w)\<lparr>gw_header := header_Set k v (gw_header (w_mem w))\<rparr>\<rparr>) \<Longrightarrow> runs P w (set_header k v) Q"
  unfolding set_header_def by (intro runs_rules) simp

lemma runs_refuse:
  assumes "\<And>t e. answer_event e \<Longrightarrow> P t e" and "status \<ge> 400"
  shows "runs P w (refuse G requestID sid (status, reason)) (\<lambda>r v. gw_metrics (w_mem v) = gw_metrics (w_mem w) \<and> told (w_trace w) (w_trace v) r)"
  unfolding refuse_def writeGatewayError_def write_status_def write_body_def
  by (simp only: prod.case, intro runs_rules runs_set_header assms answer_event_simps)
    (simp_all add: told_def report_def assms(2) del: append.simps)

definition streamed :: "gateway_world \<Rightarrow> bool \<Rightarrow> bytes list \<Rightarrow> bool \<Rightarrow> gateway_world \<Rightarrow> bool" where
  "streamed w eof chunks ok v \<longleftrightarrow> w_mem v = w_mem w \<and> (\<exists>es. w_trace v = w_trace w @ es \<and> forwards es = [] \<and> statuses es = [] \<and>
     prefix (bodies es) (filter (\<lambda>c. c \<noteq> []) chunks) \<and> (ok \<longrightarrow> bodies es = filter (\<lambda>c. c \<noteq> []) chunks \<and> eof))"

lemma streamed_step:
  assumes "streamed v eof chunks ok v'" and "w_mem v = w_mem w" and "w_trace v = w_trace w @ es" and "chunk \<noteq> []"
    and "forwards es = []" and "statuses es = []" and "bodies es = [chunk]"
  shows "streamed w eof (chunk # chunks) ok v'"
proof -
  obtain fs where "w_trace v' = w_trace v @ fs" "forwards fs = []" "statuses fs = []"
    "prefix (bodies fs) (filter (\<lambda>c. c \<noteq> []) chunks)" "ok \<longrightarrow> bodies fs = filter (\<lambda>c. c \<noteq> []) chunks \<and> eof"
    using assms(1) by (auto simp: streamed_def)
  then show ?thesis using assms by (auto simp: streamed_def intro!: exI [of _ "es @ fs"])
qed

lemma runs_copy_chunks:
  assumes "\<And>t e. answer_event e \<Longrightarrow> P t e"
  shows "runs P w (copy_chunks G streaming eof chunks capture) (\<lambda>x v. streamed w eof chunks (fst x) v)"
proof (induction chunks arbitrary: w capture streaming)
  case Nil
  show ?case by (simp, intro runs_rules) (simp add: streamed_def)
next
  case (Cons chunk chunks)
  have stop: "streamed w eof (chunk # chunks) False v" if "chunk \<noteq> []" "w_mem v = w_mem w" "w_trace v = w_trace w @ es"
      "forwards es = []" "statuses es = []" "bodies es = [chunk]" for v es
    using that by (auto simp: streamed_def)
  have go: "runs P v (copy_chunks G s eof chunks c) (\<lambda>x v. streamed w eof (chunk # chunks) (fst x) v)"
    if "chunk \<noteq> []" "w_mem v = w_mem w" "w_trace v = w_trace w @ es" "forwards es = []" "statuses es = []" "bodies es = [chunk]" for v es c s
    using runs_post [OF Cons.IH] streamed_step that by metis
  show ?case
  proof (cases "chunk = []")
    case True
    then show ?thesis using Cons.IH [of w streaming capture] by (simp add: streamed_def)
  next
    case False
    then show ?thesis unfolding copy_chunks.simps write_body_def
      by (simp only: if_False, intro runs_rules assms answer_event_simps) (auto intro: stop go)
  qed
qed

text \<open>A response below 400 is relayed: its status and its chunks, all of them unless the report says otherwise.\<close>

definition relayed :: "http_response \<Rightarrow> gateway_event list \<Rightarrow> gateway_report \<Rightarrow> bool" where
  "relayed response es r \<longleftrightarrow> gr_status r = rs_StatusCode response \<and>
     (let chunks = filter (\<lambda>c. c \<noteq> []) (rs_Chunks response) in
      prefix (bodies es) chunks \<and> (gr_reason r = [] \<longrightarrow> bodies es = chunks \<and> rs_EOF response))"

text \<open>A complete answer: one status line, and the error text of the gateway or a relayed response to the one request upstream.\<close>

definition answered :: "gateway_event list \<Rightarrow> gateway_report \<Rightarrow> bool" where
  "answered es r \<longleftrightarrow> statuses es = [gr_status r] \<and> length (forwards es) \<le> 1 \<and>
     (if gr_status r \<ge> 400 then bodies es = [error_json (gr_reason r)]
      else \<exists>u response. forwards es = [(u, UpstreamResponse response)] \<and> relayed response es r)"

lemma answered_refusal:
  "told t0 t r \<Longrightarrow> t0 = t1 @ fs \<Longrightarrow> statuses fs = [] \<Longrightarrow> bodies fs = [] \<Longrightarrow> length (forwards fs) \<le> 1 \<Longrightarrow>
     \<exists>es. t = t1 @ es \<and> answered es r"
  by (auto simp: told_def answered_def)

lemma runs_relay:
  assumes "\<And>t e. answer_event e \<Longrightarrow> P t e" and "w_trace w = t0 @ fs" and "forwards fs = [(u, UpstreamResponse response)]"
    and "statuses fs = []" and "bodies fs = []"
  shows "runs P w (relay B G requestID sid response)
    (\<lambda>r v. gw_metrics (w_mem v) = gw_metrics (w_mem w) \<and> (\<exists>es. w_trace v = t0 @ es \<and> answered es r))"
proof (cases "rs_StatusCode response \<ge> 400")
  case True
  have refused: "runs P v (refuse G requestID sid (rs_StatusCode response, stableUpstreamReason (rs_StatusCode response)))
      (\<lambda>r v. gw_metrics (w_mem v) = gw_metrics (w_mem w) \<and> (\<exists>es. w_trace v = t0 @ es \<and> answered es r))"
    if "w_trace v = w_trace w" "gw_metrics (w_mem v) = gw_metrics (w_mem w)" for v
    by (rule runs_post [OF runs_refuse [OF assms(1) True]]) (use that assms(2-5) in \<open>auto intro: answered_refusal\<close>)
  show ?thesis unfolding relay_def using True
    by (simp only: if_True, intro runs_rules runs_set_header) (auto intro!: refused)
next
  case False
  have finished: "answered es r" if "es = fs @ GwWriteHeader (rs_StatusCode response) h # gs" "forwards gs = []" "statuses gs = []"
      "prefix (bodies gs) (filter (\<lambda>c. c \<noteq> []) (rs_Chunks response))" "gr_status r = rs_StatusCode response"
      "gr_reason r = [] \<longrightarrow> bodies gs = filter (\<lambda>c. c \<noteq> []) (rs_Chunks response) \<and> rs_EOF response" for es gs h r
    using that assms(3-5) False by (auto simp: answered_def relayed_def Let_def)
  have copy: "runs P v (copyResponse G response c) (\<lambda>(ok, d) v. runs P v (State_Monad.return (if ok
        then report (rs_StatusCode response) [] (extractTokenUsage B (lb_buffer d)) sid
        else report (rs_StatusCode response) ''response_interrupted'' no_usage sid))
      (\<lambda>r v. gw_metrics (w_mem v) = gw_metrics (w_mem w) \<and> (\<exists>es. w_trace v = t0 @ es \<and> answered es r)))"
    if "w_trace v = w_trace w @ [GwWriteHeader (rs_StatusCode response) h]" "gw_metrics (w_mem v) = gw_metrics (w_mem w)" for v h c
    unfolding copyResponse_def
    by (rule runs_post [OF runs_copy_chunks [OF assms(1)]])
      (use that assms(2) in \<open>auto simp: streamed_def report_def intro!: runs_return finished\<close>)
  show ?thesis unfolding relay_def write_status_def using False
    by (simp only: if_False, intro runs_rules runs_set_header assms(1) answer_event_simps)
      (auto intro!: runs_post [OF copy])
qed

lemma runs_with_events:
  assumes "runs (\<lambda>_. R) w m Q" and "\<And>t e. R e \<Longrightarrow> P t e"
  shows "runs P w m (\<lambda>x v. Q x v \<and> (\<exists>es. w_trace v = w_trace w @ es \<and> (\<forall>e\<in>set es. R e)))"
  using assms unfolding runs_def by (metis in_set_conv_nth)

lemma lookup_events_silent: "\<forall>e\<in>set es. lookup_event e \<Longrightarrow> forwards es = [] \<and> statuses es = [] \<and> bodies es = []"
  by (induction es rule: forwards.induct) (auto simp: lookup_event_def)

text \<open>The rest of a run, from a world in which nothing was sent and nothing was answered yet.\<close>

definition silent :: "gateway_world \<Rightarrow> gateway_world \<Rightarrow> gateway_event list \<Rightarrow> bool" where
  "silent w v fs \<longleftrightarrow> w_trace v = w_trace w @ fs \<and> gw_metrics (w_mem v) = gw_metrics (w_mem w) \<and> statuses fs = [] \<and> bodies fs = []"

definition ended :: "gateway_world \<Rightarrow> gateway_report \<Rightarrow> gateway_world \<Rightarrow> bool" where
  "ended w r v \<longleftrightarrow> gw_metrics (w_mem v) = gw_metrics (w_mem w) \<and> (\<exists>es. w_trace v = w_trace w @ es \<and> answered es r)"

lemma runs_refuse_ended:
  assumes "\<And>t e. answer_event e \<Longrightarrow> P t e" and "silent w v fs" and "length (forwards fs) \<le> 1" and "fst code \<ge> 400"
  shows "runs P v (refuse G requestID sid code) (ended w)"
proof -
  have "runs P v (refuse G requestID sid (fst code, snd code)) (ended w)"
    using assms(2,3) by (intro runs_post [OF runs_refuse [OF assms(1,4)]]) (auto simp: ended_def silent_def intro: answered_refusal)
  then show ?thesis by simp
qed

lemma runs_relay_ended:
  assumes "\<And>t e. answer_event e \<Longrightarrow> P t e" and "silent w v fs" and "forwards fs = [(u, UpstreamResponse response)]"
  shows "runs P v (relay B G requestID sid response) (ended w)"
  using assms(2) by (intro runs_post [OF runs_relay [OF assms(1) _ assms(3)]]) (auto simp: ended_def silent_def)

lemma runs_Authenticate_silent:
  assumes "\<And>t e. lookup_event e \<Longrightarrow> P t e"
  shows "runs P w (Authenticate L G token)
    (\<lambda>r v. \<exists>fs. silent w v fs \<and> forwards fs = [] \<and> (\<forall>i. r = Inr i \<longrightarrow> vouched_identity L fs token i))"
proof (rule runs_post [OF runs_with_events [OF runs_Authenticate assms]])
  fix r and v :: gateway_world
  assume "(w_mem v = w_mem w \<and> (\<exists>es. w_trace v = w_trace w @ es \<and> (\<forall>i. r = Inr i \<longrightarrow> vouched_identity L es token i))) \<and>
    (\<exists>es. w_trace v = w_trace w @ es \<and> (\<forall>e\<in>set es. lookup_event e))"
  then show "\<exists>fs. silent w v fs \<and> forwards fs = [] \<and> (\<forall>i. r = Inr i \<longrightarrow> vouched_identity L fs token i)"
    using lookup_events_silent by (auto simp: silent_def)
qed

lemma runs_serve:
  assumes lookups: "\<And>t e. lookup_event e \<Longrightarrow> P t e" and answers: "\<And>t e. answer_event e \<Longrightarrow> P t e"
    and forward: "\<And>es u a. forward_ok L cfg upstream req es u \<Longrightarrow> P (w_trace w @ es) (GwForward u a)"
  shows "runs P w (serve L B G cfg upstream requestID req) (ended w)"
proof -
  have no: "silent w v fs \<Longrightarrow> length (forwards fs) \<le> 1 \<Longrightarrow> fst code \<ge> 400 \<Longrightarrow> runs P v (refuse G requestID sid code) (ended w)"
    for v fs sid code by (rule runs_refuse_ended [OF answers])
  have yes: "silent w v fs \<Longrightarrow> forwards fs = [(u, UpstreamResponse response)] \<Longrightarrow> runs P v (relay B G requestID sid response) (ended w)"
    for v fs u response sid by (rule runs_relay_ended [OF answers])
  have codes: "fst (statusForIdentityError e) \<ge> 400" for e by (cases e) (simp_all add: statusForIdentityError_def)
  have ok: "forward_ok L cfg upstream req es u" if "bearerToken (header_Get (rq_Header req) ''Authorization'') = Some token"
      "vouched_identity L es token i" "id_ProviderMode i = ''platform''" "newUpstreamRequest B cfg upstream req = Some u" for es u token i
    using that client_fields_upstream [OF that(4)]
    by (auto simp: forward_ok_def vouched_identity_def newUpstreamRequest_def Let_def split: if_splits)
  have sent: "runs P (v\<lparr>w_trace := w_trace v @ [GwForward u a]\<rparr>) (case a of
        UpstreamTimeout \<Rightarrow> refuse G requestID sid (504, ''upstream_timeout'')
      | UpstreamFailure \<Rightarrow> refuse G requestID sid (502, ''upstream_unavailable'')
      | UpstreamResponse response \<Rightarrow> relay B G requestID sid response) (ended w)"
    if v: "silent w v fs" "forwards fs = []" for v fs u a sid
  proof -
    have "silent w (v\<lparr>w_trace := w_trace v @ [GwForward u a]\<rparr>) (fs @ [GwForward u a])" using v by (simp add: silent_def)
    from no [OF this] yes [OF this] v(2) show ?thesis by (cases a) simp_all
  qed
  have known: "runs P v (case r of Inl e \<Rightarrow> refuse G requestID [] (statusForIdentityError e)
      | Inr identity \<Rightarrow>
        if id_ProviderMode identity \<noteq> ''platform'' then refuse G requestID (id_SessionID identity) (403, ''provider_not_available'')
        else case newUpstreamRequest B cfg upstream req of
          None \<Rightarrow> refuse G requestID (id_SessionID identity) (502, ''upstream_request_failed'')
        | Some u \<Rightarrow> do {
            a \<leftarrow> call (\<lambda>t. g_forward G t u) (GwForward u);
            case a of UpstreamTimeout \<Rightarrow> refuse G requestID (id_SessionID identity) (504, ''upstream_timeout'')
            | UpstreamFailure \<Rightarrow> refuse G requestID (id_SessionID identity) (502, ''upstream_unavailable'')
            | UpstreamResponse response \<Rightarrow> relay B G requestID (id_SessionID identity) response }) (ended w)"
    if v: "silent w v fs" "forwards fs = []" and token: "bearerToken (header_Get (rq_Header req) ''Authorization'') = Some token"
      and r: "\<forall>i. r = Inr i \<longrightarrow> vouched_identity L fs token i" for v fs r token
    using no [OF v(1)] sent [OF v] v codes r ok [OF token] forward
    by (intro runs_rules) (auto simp: silent_def)
  have start: "silent w w []" by (simp add: silent_def)
  show ?thesis unfolding serve_def
    by (intro runs_case_option runs_bind runs_post [OF runs_Authenticate_silent [OF lookups]]) (auto intro: known no [OF start])
qed

section \<open>A sample request\<close>

definition sample_status :: TokenReviewStatus where
  "sample_status = \<lparr>tr_Authenticated = True, tr_Audiences = [GatewayAudience],
     tr_Username = usernamePrefix @ userenv_Namespace decimal_lib sample_user @ '':'' @ ServiceAccountName decimal_lib ''session'',
     tr_Extra = [podNameExtraKey \<mapsto> [PodName decimal_lib ''session''], podUIDExtraKey \<mapsto> [''uid'']]\<rparr>"

definition sample_gateway :: gateway_api where
  "sample_gateway = \<lparr>g_now = (\<lambda>t. 0), g_request_id = (\<lambda>t. ''id''), g_review = (\<lambda>t token. Inr sample_status), g_timer = (\<lambda>t. False),
     g_query = (\<lambda>t. Some (session_tables [sample_row ''Running'' None])), g_forward = (\<lambda>t u. UpstreamFailure),
     g_write = (\<lambda>t b. True), g_flush = (\<lambda>t. True)\<rparr>"

definition sample_gateway_lib :: gateway_lib where
  "sample_gateway_lib = \<lparr>valid_request = (\<lambda>m u. True), json_Unmarshal = (\<lambda>b. None)\<rparr>"

definition sample_upstream :: url where
  "sample_upstream = \<lparr>url_Scheme = ''https'', url_Host = ''llm.example.com'', url_Path = [], url_RawQuery = []\<rparr>"

definition sample_handler :: HandlerConfig where
  "sample_handler = \<lparr>hc_UpstreamAPIKey = ''key'', hc_Provider = ''anthropic'', hc_UpstreamAuthHeader = ''x-api-key'', hc_UpstreamAuthScheme = []\<rparr>"

definition sample_call :: http_request where
  "sample_call = \<lparr>rq_Method = ''POST'', rq_Path = ''/v1/messages'', rq_RawQuery = [],
     rq_Header = [(''Authorization'', [''Bearer t'']), (''Cookie'', [''c''])], rq_Body = ''{}'', rq_ContentLength = 2\<rparr>"

definition sample_gateway_world :: gateway_world where
  "sample_gateway_world = \<lparr>w_trace = [], w_mem = \<lparr>gw_header = [],
     gw_metrics = \<lparr>gm_requests = (\<lambda>_. 0), gm_errors = (\<lambda>_. 0), gm_duration = [], gm_usage = (\<lambda>_. 0)\<rparr>\<rparr>\<rparr>"

lemma sample_token: "bearerToken (header_Get (rq_Header sample_call) ''Authorization'') = Some ''t''" "TrimSpace ''t'' \<noteq> []"
  by code_simp+

lemma sample_short: "ShortID decimal_lib ''session'' = ''73657373696f''" "userenv_Namespace decimal_lib sample_user = ''bosun-u-303138393030''"
proof -
  have sha: "sha256 decimal_lib s = s" for s by (simp add: decimal_lib_def)
  show "ShortID decimal_lib ''session'' = ''73657373696f''" by (simp only: ShortID_def sha) code_simp
  show "userenv_Namespace decimal_lib sample_user = ''bosun-u-303138393030''"
    by (simp only: userenv_Namespace_def userenv_ShortID_def sha) code_simp
qed

lemma sample_names: "token_identity sample_status =
  Inr (userenv_Namespace decimal_lib sample_user, ServiceAccountName decimal_lib ''session'', PodName decimal_lib ''session'', ShortID decimal_lib ''session'')"
proof -
  have user: "parseServiceAccountUsername (tr_Username sample_status) =
      Some (userenv_Namespace decimal_lib sample_user, ServiceAccountName decimal_lib ''session'')"
    unfolding sample_status_def TokenReviewStatus.select_convs
    by (rule parseServiceAccountUsername_user) (simp_all add: ServiceAccountName_def sample_short)
  have account: "ServiceAccountName decimal_lib ''session'' = serviceAccountPrefix @ ShortID decimal_lib ''session''"
    "PodName decimal_lib ''session'' = ''agent-'' @ ShortID decimal_lib ''session''"
    by (simp_all add: ServiceAccountName_def PodName_def serviceAccountPrefix_def)
  have keys: "podNameExtraKey \<noteq> podUIDExtraKey" by (simp add: podNameExtraKey_def podUIDExtraKey_def)
  have extra: "singleExtra (tr_Extra sample_status) podNameExtraKey = Some (PodName decimal_lib ''session'')"
    "singleExtra (tr_Extra sample_status) podUIDExtraKey = Some ''uid''"
    using keys by (simp_all add: singleExtra_def sample_status_def PodName_def)
  have "length (ShortID decimal_lib ''session'') = 12" by (simp add: sample_short)
  with user extra account show ?thesis
    by (simp add: token_identity_def prefix_simps Let_def del: append_Cons) (simp add: sample_status_def)
qed

lemma sample_found: "GetGatewaySessionIdentity (userenv_Namespace decimal_lib sample_user) (''sess-'' @ ShortID decimal_lib ''session'')
  (session_tables [sample_row ''Running'' None]) = Some (sample_row ''Running'' None)"
  by (simp add: GetGatewaySessionIdentity_def session_tables_def sample_row_def session_row_def session_params_def new_session_def CRName_def)

lemma sample_identity: "session_identity decimal_lib (userenv_Namespace decimal_lib sample_user) (ServiceAccountName decimal_lib ''session'')
  (PodName decimal_lib ''session'') \<lparr>si_SessionID = bs_ID (sample_row ''Running'' None), si_Namespace = bs_CrNamespace (sample_row ''Running'' None),
    si_CRName = bs_CrName (sample_row ''Running'' None), si_Phase = bs_Phase (sample_row ''Running'' None),
    si_ProviderMode = bs_ProviderMode (sample_row ''Running'' None)\<rparr> =
  Inr \<lparr>id_SessionID = ''session'', id_Namespace = userenv_Namespace decimal_lib sample_user, id_PodName = PodName decimal_lib ''session'',
    id_ProviderMode = ''platform''\<rparr>"
  by (simp add: session_identity_def sample_row_def session_row_def session_params_def new_session_def
      sample_request_def phaseAllowsLLM_def)

lemma sample_Authenticate:
  "result_of (Authenticate decimal_lib sample_gateway ''t'') w = Inr \<lparr>id_SessionID = ''session'', id_Namespace = userenv_Namespace decimal_lib sample_user,
     id_PodName = PodName decimal_lib ''session'', id_ProviderMode = ''platform''\<rparr>"
  "world_after (Authenticate decimal_lib sample_gateway ''t'') w = w\<lparr>w_trace := w_trace w @ [GwReview ''t'' [GatewayAudience] (Inr sample_status),
     GwQuery (userenv_Namespace decimal_lib sample_user) (''sess-'' @ ShortID decimal_lib ''session'') (Some (session_tables [sample_row ''Running'' None]))]\<rparr>"
  unfolding Authenticate_def reviewWithRetry_def resolve_identity_def Resolve_def Let_def
  by (simp_all add: sample_gateway_def sample_token sample_names sample_found sample_identity del: append_Cons)

lemma sample_forward:
  "\<exists>before u a after. events_of (ServeHTTP decimal_lib sample_gateway_lib sample_gateway sample_handler sample_upstream sample_call) sample_gateway_world
     = before @ GwForward u a # after"
proof -
  obtain u where u: "newUpstreamRequest sample_gateway_lib sample_handler sample_upstream sample_call = Some u"
    by (simp add: newUpstreamRequest_def sample_gateway_lib_def)
  have "g_forward sample_gateway t u = UpstreamFailure" for t by (simp add: sample_gateway_def)
  then show ?thesis unfolding ServeHTTP_def serve_def
    by (simp add: events_of_def sample_gateway_world_def sample_token sample_Authenticate u
        set_header_def refuse_def writeGatewayError_def write_status_def write_body_def Let_def) (metis append_Cons append_Nil)
qed

section \<open>Theorems\<close>

text \<open>
  C4. Whatever the API server, the database and the upstream answer, a request goes upstream only after the API server
  confirmed the bearer token for the audience of the gateway, as service account and Pod of one session, and the database
  showed that session live, in a phase that allows LLM calls and with the platform provider. It goes to the configured
  host, with the credential of the gateway and otherwise only fields of the client that are neither credentials, cookies,
  \<open>X-Bosun-\<close> or \<open>X-Forwarded-\<close> fields nor about the connection.
\<close>

theorem ServeHTTP_forwards:
  assumes "events_of (ServeHTTP L B G cfg upstream req) w = before @ GwForward u a # after"
  shows "forward_ok L cfg upstream req before u"
proof -
  let ?P = "\<lambda>t e. \<forall>u a. e = GwForward u a \<longrightarrow> (\<exists>es. t = w_trace w @ es \<and> forward_ok L cfg upstream req es u)"
  have later: "forward_ok L cfg upstream req (fs @ es) u" if "forward_ok L cfg upstream req es u" for es fs u
    using that by (fastforce simp: forward_ok_def vouched_def)
  have serve: "runs ?P v (serve L B G cfg upstream requestID req) (ended v)" if "w_trace v = w_trace w @ fs" for v fs requestID
    using that by (intro runs_serve) (auto simp: lookup_event_def answer_event_def intro: later)
  have "runs ?P w (ServeHTTP L B G cfg upstream req) (\<lambda>_ _. True)"
    unfolding ServeHTTP_def by (intro runs_rules runs_set_header runs_post [OF serve]) auto
  from runs_events [OF this assms] show ?thesis by simp
qed

theorem ServeHTTP_forwards_witness:
  "\<exists>before u a after. events_of (ServeHTTP decimal_lib sample_gateway_lib sample_gateway sample_handler sample_upstream sample_call) sample_gateway_world
     = before @ GwForward u a # after \<and> forward_ok decimal_lib sample_handler sample_upstream sample_call before u"
  using sample_forward ServeHTTP_forwards by metis

text \<open>
  C36. Every request gets exactly one status line, the one that is reported and counted, and goes upstream at most once. A
  refusal and an upstream error both carry the gateway's own JSON text with the reported reason, never the body of the
  upstream; any other answer relays status and body of the response, in full unless the report says it was interrupted.
\<close>

theorem ServeHTTP_answers:
  "answered (events_of (ServeHTTP L B G cfg upstream req) w) (result_of (ServeHTTP L B G cfg upstream req) w) \<and>
   gm_requests (gw_metrics (w_mem (world_after (ServeHTTP L B G cfg upstream req) w))) =
     bump (hc_Provider cfg, show_int (gr_status (result_of (ServeHTTP L B G cfg upstream req) w))) 1 (gm_requests (gw_metrics (w_mem w)))"
proof -
  have serve: "runs (\<lambda>_ _. True) v (serve L B G cfg upstream requestID req) (ended v)" for v requestID
    by (rule runs_serve) simp_all
  let ?Q = "\<lambda>r v. (\<exists>es. w_trace v = w_trace w @ es \<and> answered es r) \<and>
    gm_requests (gw_metrics (w_mem v)) = bump (hc_Provider cfg, show_int (gr_status r)) 1 (gm_requests (gw_metrics (w_mem w)))"
  have more: "answered (fs @ es @ gs) r" if "answered es r" "statuses fs = []" "bodies fs = []" "forwards fs = []"
      "statuses gs = []" "bodies gs = []" "forwards gs = []" for fs es gs r
    using that by (auto simp: answered_def relayed_def Let_def)
  have around: "answered (GwClock t # GwRequestID i # es @ [GwClock t']) r" if "answered es r" for t i es t' r
    using more [of es r "[GwClock t, GwRequestID i]" "[GwClock t']"] that by simp
  have "runs (\<lambda>_ _. True) w (ServeHTTP L B G cfg upstream req) ?Q" unfolding ServeHTTP_def
    by (intro runs_rules runs_set_header runs_post [OF serve] TrueI) (auto simp: ended_def Observe_def around)
  from runs_result [OF this] show ?thesis by (auto simp: events_of_def)
qed

end
