(* ===== verification/Terminal.thy ===== *)
theory Terminal
  imports Session_Service Go_Http
begin

text \<open>
  The terminal of a session, \<open>backend/internal/terminal\<close>: who may open one, the lease that keeps one connection per
  session, the limiter of activity updates, and the connection itself. Opening a terminal and updating the activity are
  programs of the backend. A connection is shared by four goroutines (read, write, input and the attached command), so
  it is a machine whose steps are what one of them does between two blocking calls; a schedule is a list of steps.
\<close>

section \<open>Data\<close>

record Frame =
  fr_Type :: string
  fr_Data :: string

record Target =
  tg_SessionID :: uuid
  tg_UserID :: uuid
  tg_Namespace :: string
  tg_CRName :: string
  tg_PodName :: string

record terminal_config =
  tf_WriteQueueCapacity :: int
  tf_InputQueueCapacity :: int
  tf_MaxFrameBytes :: int
  tf_WriteTimeout :: duration
  tf_PongTimeout :: duration
  tf_PingInterval :: duration
  tf_ActivityMinInterval :: duration

definition terminal_NewHandler_ok :: "terminal_config \<Rightarrow> bool" where
  "terminal_NewHandler_ok cfg \<longleftrightarrow> \<not> (tf_WriteQueueCapacity cfg \<le> 0 \<or> tf_InputQueueCapacity cfg \<le> 0 \<or> tf_MaxFrameBytes cfg \<le> 0 \<or>
     tf_WriteTimeout cfg \<le> 0 \<or> tf_PongTimeout cfg \<le> 0 \<or> tf_PingInterval cfg \<le> 0 \<or> tf_PingInterval cfg \<ge> tf_PongTimeout cfg \<or>
     tf_ActivityMinInterval cfg \<le> 0)"

definition Subprotocol :: string where "Subprotocol = ''bosun-terminal-v1''"
definition bearerProtocolPrefix :: string where "bearerProtocolPrefix = ''bearer.''"
definition closeReplaced :: int where "closeReplaced = 4001"
definition closeSlowClient :: int where "closeSlowClient = 4002"
definition closeInvalidFrame :: int where "closeInvalidFrame = 4003"
definition closeRuntimeEnded :: int where "closeRuntimeEnded = 4004"
definition closeGoingAway :: int where "closeGoingAway = 1001"
definition replacedReason :: string where "replacedReason = ''replaced_by_new_connection''"
definition slowClientReason :: string where "slowClientReason = ''slow_client''"
definition invalidFrameReason :: string where "invalidFrameReason = ''invalid_terminal_frame''"
definition runtimeEndedReason :: string where "runtimeEndedReason = ''terminal_runtime_ended''"
definition terminalAgentContainer :: string where "terminalAgentContainer = ''agent''"

definition closeReason :: "int \<Rightarrow> string" where
  "closeReason code =
     (if code = 1000 then ''client_closed''
      else if code = closeReplaced then replacedReason
      else if code = closeSlowClient then slowClientReason
      else if code = closeInvalidFrame then invalidFrameReason
      else if code = closeRuntimeEnded then runtimeEndedReason
      else ''websocket_'' @ show_int code)"

section \<open>Opening a terminal\<close>

datatype terminal_error = ErrForbidden | ErrNotRunning | TerminalError string kerr

text \<open>The HTTP status and the code of the answers of the package \<open>apierr\<close> that the handler uses.\<close>

definition api_SessionNotFound :: "int \<times> int" where "api_SessionNotFound = (404, 30001)"
definition api_InvalidCredentials :: "int \<times> int" where "api_InvalidCredentials = (401, 20001)"
definition api_TokenExpired :: "int \<times> int" where "api_TokenExpired = (401, 20002)"
definition api_SessionNotRunning :: "int \<times> int" where "api_SessionNotRunning = (409, 30004)"
definition api_Internal :: "int \<times> int" where "api_Internal = (500, 50001)"
definition api_Forbidden :: "int \<times> int" where "api_Forbidden = (403, 20001)"

text \<open>The argument is the list of the offered subprotocols. The first bearer protocol with a token counts.\<close>

definition terminalBearerProtocol :: "string list \<Rightarrow> string option" where
  "terminalBearerProtocol protocols =
     (let (foundTerminal, token) = fold (\<lambda>protocol (found, token).
            if protocol = Subprotocol then (True, token)
            else if HasPrefix protocol bearerProtocolPrefix \<and> token = [] then (found, TrimPrefix protocol bearerProtocolPrefix)
            else (found, token)) protocols (False, [])
      in if foundTerminal \<and> token \<noteq> [] then Some token else None)"

definition phaseAllowsAttach :: "AgentSessionPhase \<Rightarrow> bool" where
  "phaseAllowsAttach phase \<longleftrightarrow> phase = PhaseRunning \<or> phase = PhaseIdle"

definition hasAgentContainer :: "Pod \<Rightarrow> bool" where
  "hasAgentContainer pod \<longleftrightarrow> (\<exists>c\<in>set (ps_Containers (pod_Spec pod)). ct_Name c = terminalAgentContainer)"

text \<open>The checks of the resource and of the Pod.\<close>

definition check_terminal_cr :: "klib \<Rightarrow> Session \<Rightarrow> AgentSession \<Rightarrow> terminal_error option" where
  "check_terminal_cr L rec cr =
     (if om_Namespace (as_Meta cr) \<noteq> userenv_Namespace L (ss_UserID rec) \<or> sp_SessionID (as_Spec cr) \<noteq> ss_ID rec \<or>
         sp_UserID (as_Spec cr) \<noteq> ss_UserID rec then Some ErrForbidden
      else if \<not> phaseAllowsAttach (st_Phase (as_Status cr)) \<or> st_PodName (as_Status cr) = [] then Some ErrNotRunning
      else if st_PodName (as_Status cr) \<noteq> PodName L (ss_ID rec) then Some ErrForbidden
      else None)"

definition terminal_pod_ok :: "klib \<Rightarrow> Session \<Rightarrow> Pod \<Rightarrow> bool" where
  "terminal_pod_ok L rec pod \<longleftrightarrow> om_Namespace (pod_Meta pod) = userenv_Namespace L (ss_UserID rec) \<and>
     om_Name (pod_Meta pod) = PodName L (ss_ID rec) \<and>
     sget (om_Labels (pod_Meta pod)) ''app.kubernetes.io/managed-by'' = ''bosun'' \<and>
     sget (om_Labels (pod_Meta pod)) ''bosun.io/user'' = ss_UserID rec \<and>
     sget (om_Labels (pod_Meta pod)) ''bosun.io/session'' = ss_ID rec \<and> hasAgentContainer pod"

definition Authorize :: "klib \<Rightarrow> backend_api \<Rightarrow> Session \<Rightarrow> (terminal_error + Target) backend" where
  "Authorize L A rec =
     (let expectedNamespace = userenv_Namespace L (ss_UserID rec) in
      if ss_CRNamespace rec \<noteq> expectedNamespace \<or> ss_CRName rec \<noteq> CRName L (ss_ID rec) then State_Monad.return (Inl ErrForbidden)
      else do {
        g \<leftarrow> get_cr A (ss_CRNamespace rec, ss_CRName rec);
        case g of Inl e \<Rightarrow> State_Monad.return (Inl (TerminalError ''get terminal AgentSession'' e))
        | Inr cr \<Rightarrow> case check_terminal_cr L rec cr of Some e \<Rightarrow> State_Monad.return (Inl e)
          | None \<Rightarrow> do {
              p \<leftarrow> backend_get_pod A (expectedNamespace, st_PodName (as_Status cr));
              State_Monad.return (case p of Inl e \<Rightarrow> Inl (TerminalError ''get terminal Pod'' e)
                | Inr pod \<Rightarrow> if \<not> terminal_pod_ok L rec pod then Inl ErrForbidden
                    else Inr \<lparr>tg_SessionID = ss_ID rec, tg_UserID = ss_UserID rec, tg_Namespace = expectedNamespace,
                      tg_CRName = ss_CRName rec, tg_PodName = PodName L (ss_ID rec)\<rparr>) } })"

definition authorization_answer :: "terminal_error \<Rightarrow> int \<times> int" where
  "authorization_answer e = (case e of ErrForbidden \<Rightarrow> api_Forbidden | ErrNotRunning \<Rightarrow> api_SessionNotRunning | TerminalError _ _ \<Rightarrow> api_Internal)"

definition refuse_terminal :: "int \<times> int \<Rightarrow> Target option backend" where
  "refuse_terminal code = do { _ \<leftarrow> answer_client code; State_Monad.return None }"

text \<open>Up to the start of \<open>serveConnection\<close>, which gets the target.\<close>

definition ServeTerminal :: "klib \<Rightarrow> session_lib \<Rightarrow> auth_lib \<Rightarrow> JWTIssuer \<Rightarrow> backend_api \<Rightarrow> string list \<Rightarrow> string \<Rightarrow> Target option backend" where
  "ServeTerminal L K C jwt A protocols rawSessionID =
     (case uuid_Parse K rawSessionID of None \<Rightarrow> refuse_terminal api_SessionNotFound
      | Some sessionID \<Rightarrow> case terminalBearerProtocol protocols of None \<Rightarrow> refuse_terminal api_InvalidCredentials
        | Some token \<Rightarrow> do {
            now \<leftarrow> clock A;
            case Verify C jwt token now of
              Inl e \<Rightarrow> refuse_terminal (if e = ErrTokenExpired then api_TokenExpired else api_InvalidCredentials)
            | Inr claims \<Rightarrow> case uuid_Parse K (cl_UserID claims) of None \<Rightarrow> refuse_terminal api_InvalidCredentials
              | Some userID \<Rightarrow> do {
                  r \<leftarrow> GetByID K A sessionID;
                  case r of Inl e \<Rightarrow> refuse_terminal (if errors_Is e ErrSessionNotFound then api_SessionNotFound else api_Internal)
                  | Inr rec \<Rightarrow> if ss_UserID rec \<noteq> userID then refuse_terminal api_Forbidden
                      else do {
                        a \<leftarrow> Authorize L A rec;
                        case a of Inl e \<Rightarrow> refuse_terminal (authorization_answer e)
                        | Inr target \<Rightarrow> do {
                            ok \<leftarrow> upgrade A;
                            State_Monad.return (if ok then Some target else None) } } } })"

section \<open>Commands and activity\<close>

definition target_pod :: "Target \<Rightarrow> nskey" where
  "target_pod target = (tg_Namespace target, tg_PodName target)"

definition Capture :: "backend_api \<Rightarrow> Target \<Rightarrow> (kerr + bytes) backend" where
  "Capture A target = backend_exec A (target_pod target) terminalAgentContainer
     [''tmux'', ''capture-pane'', ''-p'', ''-e'', ''-S'', ''-'', ''-t'', ''bosun''] False"

definition Attach :: "backend_api \<Rightarrow> Target \<Rightarrow> (kerr + bytes) backend" where
  "Attach A target = backend_exec A (target_pod target) terminalAgentContainer
     [''tmux'', ''set-option'', ''-g'', ''terminal-overrides'', ''xterm*:smcup@:rmcup@'', '';'', ''attach-session'', ''-t'', ''bosun''] True"

definition activity_due :: "klib \<Rightarrow> time \<Rightarrow> duration \<Rightarrow> AgentSession \<Rightarrow> bool" where
  "activity_due L at minInterval cr \<longleftrightarrow>
     (case parse_RFC3339 L (sget (om_Annotations (as_Meta cr)) LastActiveAnnotation) of
        Some previous \<Rightarrow> \<not> at < previous + minInterval | None \<Rightarrow> True)"

definition with_activity :: "session_lib \<Rightarrow> time \<Rightarrow> AgentSession \<Rightarrow> AgentSession" where
  "with_activity K at cr = cr\<lparr>as_Meta := (as_Meta cr)\<lparr>om_Annotations := (om_Annotations (as_Meta cr))(LastActiveAnnotation \<mapsto> Format_RFC3339 K at)\<rparr>\<rparr>"

definition update_activity_once :: "klib \<Rightarrow> session_lib \<Rightarrow> backend_api \<Rightarrow> Target \<Rightarrow> time \<Rightarrow> duration \<Rightarrow> terminal_error option backend" where
  "update_activity_once L K A target at minInterval = do {
     g \<leftarrow> get_cr A (tg_Namespace target, tg_CRName target);
     case g of Inl e \<Rightarrow> State_Monad.return (Some (TerminalError ''get AgentSession before activity update'' e))
     | Inr cr \<Rightarrow>
         if sp_SessionID (as_Spec cr) \<noteq> tg_SessionID target \<or> sp_UserID (as_Spec cr) \<noteq> tg_UserID target \<or>
            \<not> phaseAllowsAttach (st_Phase (as_Status cr)) then State_Monad.return (Some ErrNotRunning)
         else if \<not> activity_due L at minInterval cr then State_Monad.return None
         else do {
           u \<leftarrow> update_cr A (with_activity K at cr);
           State_Monad.return (map_option (TerminalError ''update'') u) } }"

definition terminal_conflict :: "terminal_error \<Rightarrow> bool" where
  "terminal_conflict e = (case e of TerminalError _ k \<Rightarrow> IsConflict k | _ \<Rightarrow> False)"

definition UpdateActivity :: "klib \<Rightarrow> session_lib \<Rightarrow> backend_api \<Rightarrow> Target \<Rightarrow> time \<Rightarrow> duration \<Rightarrow> terminal_error option backend" where
  "UpdateActivity L K A target at minInterval =
     retry_on terminal_conflict (backoff_steps K) (update_activity_once L K A target at minInterval)"

section \<open>The activity limiter\<close>

text \<open>
  The zero time of a fresh state is \<open>None\<close>. The mutex is released during the update, so a call is two steps; the first
  one says whether an update is to be made.
\<close>

record activityState =
  av_last :: "time option"
  av_active :: bool

type_synonym activity_states = "uuid \<rightharpoonup> activityState"

definition activity_of :: "activity_states \<Rightarrow> uuid \<Rightarrow> activityState" where
  "activity_of states i = (case states i of None \<Rightarrow> \<lparr>av_last = None, av_active = False\<rparr> | Some s \<Rightarrow> s)"

definition mark_begin :: "duration \<Rightarrow> uuid \<Rightarrow> time \<Rightarrow> activity_states \<Rightarrow> bool \<times> activity_states" where
  "mark_begin interval i at states =
     (let s = activity_of states i in
      if av_active s \<or> (case av_last s of None \<Rightarrow> False | Some previous \<Rightarrow> time_sub at previous < interval) then (False, states)
      else (True, states(i \<mapsto> s\<lparr>av_active := True\<rparr>)))"

definition mark_end :: "uuid \<Rightarrow> time \<Rightarrow> bool \<Rightarrow> activity_states \<Rightarrow> activity_states" where
  "mark_end i at ok states =
     (let s = (activity_of states i)\<lparr>av_active := False\<rparr> in
      states(i \<mapsto> (if ok \<and> (case av_last s of None \<Rightarrow> True | Some previous \<Rightarrow> at > previous) then s\<lparr>av_last := Some at\<rparr> else s)))"

section \<open>The lease registry\<close>

text \<open>A client is a number. \<open>acquire\<close> gives back the client to be stopped, after the mutex is released.\<close>

type_synonym leaseRegistry = "uuid \<rightharpoonup> nat"

definition acquire :: "uuid \<Rightarrow> nat \<Rightarrow> leaseRegistry \<Rightarrow> nat option \<times> leaseRegistry" where
  "acquire i client clients = (clients i, clients(i \<mapsto> client))"

definition release :: "uuid \<Rightarrow> nat \<Rightarrow> leaseRegistry \<Rightarrow> leaseRegistry" where
  "release i client clients = (if clients i = Some client then clients(i := None) else clients)"

section \<open>A connection\<close>

text \<open>\<open>base64.StdEncoding\<close>, which pads; line breaks are skipped.\<close>

definition StdEncoding_EncodeToString :: "bytes \<Rightarrow> string" where
  "StdEncoding_EncodeToString v = base64_encode std_tail v @ replicate ((3 - length v mod 3) mod 3) (CHR ''='')"

definition StdEncoding_DecodeString :: "string \<Rightarrow> bytes option" where
  "StdEncoding_DecodeString s =
     (let t = filter (\<lambda>c. c \<noteq> CHR 0x0A \<and> c \<noteq> CHR 0x0D) s;
          body = takeWhile (\<lambda>c. c \<noteq> CHR ''='') t; pad = dropWhile (\<lambda>c. c \<noteq> CHR ''='') t
      in if length t mod 4 = 0 \<and> (pad = [] \<or> pad = ''='' \<or> pad = ''=='') then base64_decode std_tail body else None)"

text \<open>
  The state of a \<open>terminalClient\<close> and of its connection: the two channels, the pending size, whether the read, write and
  input loops still run, what \<open>stop\<close> did when it ran first, and the counters; with what was written to the socket and to the command.
\<close>

record terminalClient =
  tc_outgoing :: "Frame list"
  tc_input :: "bytes list"
  tc_size :: "(int \<times> int) option"
  tc_reading :: bool
  tc_writing :: bool
  tc_feeding :: bool
  tc_stop :: "(int \<times> string) option"
  tc_disconnects :: "string list"
  tc_dropped :: "string list"
  tc_written :: "Frame list"
  tc_stdin :: "bytes list"

definition new_client :: terminalClient where
  "new_client = \<lparr>tc_outgoing = [], tc_input = [], tc_size = None, tc_reading = True, tc_writing = True, tc_feeding = True, tc_stop = None, tc_disconnects = [],
     tc_dropped = [], tc_written = [], tc_stdin = []\<rparr>"

definition stop :: "int \<Rightarrow> string \<Rightarrow> terminalClient \<Rightarrow> terminalClient" where
  "stop code reason c =
     (if tc_stop c \<noteq> None then c
      else c\<lparr>tc_stop := Some (code, reason), tc_disconnects := tc_disconnects c @ [reason]\<rparr>)"

definition stdout_frame :: "bytes \<Rightarrow> Frame" where
  "stdout_frame data = \<lparr>fr_Type = ''stdout'', fr_Data = StdEncoding_EncodeToString data\<rparr>"

text \<open>\<open>boundedOutputWriter.Write\<close>.\<close>

definition output_Write :: "terminal_config \<Rightarrow> bytes \<Rightarrow> terminalClient \<Rightarrow> bool \<times> terminalClient" where
  "output_Write cfg data c =
     (if int (length (tc_outgoing c)) < tf_WriteQueueCapacity cfg then (True, c\<lparr>tc_outgoing := tc_outgoing c @ [stdout_frame data]\<rparr>)
      else (False, stop closeSlowClient slowClientReason (c\<lparr>tc_dropped := tc_dropped c @ [''stdout'']\<rparr>)))"

text \<open>\<open>sizeQueue.push\<close> on the channel of one size: an older size makes room.\<close>

definition size_push :: "int \<times> int \<Rightarrow> terminalClient \<Rightarrow> terminalClient" where
  "size_push sz c = c\<lparr>tc_size := Some sz\<rparr>"

text \<open>One round of the read loop with a frame; it answers whether the activity is to be marked. The decoder of sizes is a parameter.\<close>

definition end_reading :: "terminalClient \<Rightarrow> terminalClient" where
  "end_reading c = c\<lparr>tc_reading := False\<rparr>"

definition invalid_frame :: "terminalClient \<Rightarrow> bool \<times> terminalClient" where
  "invalid_frame c = (False, end_reading (stop closeInvalidFrame invalidFrameReason c))"

definition read_frame :: "terminal_config \<Rightarrow> (string \<Rightarrow> (int \<times> int) option) \<Rightarrow> Frame \<Rightarrow> terminalClient \<Rightarrow> bool \<times> terminalClient" where
  "read_frame cfg Unmarshal_resize frame c =
     (if fr_Type frame = ''stdin'' then
        (case StdEncoding_DecodeString (fr_Data frame) of None \<Rightarrow> invalid_frame c
         | Some data \<Rightarrow> if int (length data) > tf_MaxFrameBytes cfg then invalid_frame c
             else if int (length (tc_input c)) < tf_InputQueueCapacity cfg then (True, c\<lparr>tc_input := tc_input c @ [data]\<rparr>)
             else (False, end_reading (stop closeSlowClient slowClientReason (c\<lparr>tc_dropped := tc_dropped c @ [''stdin'']\<rparr>))))
      else if fr_Type frame = ''resize'' then
        (case Unmarshal_resize (fr_Data frame) of None \<Rightarrow> invalid_frame c
         | Some (cols, rows) \<Rightarrow> if cols = 0 \<or> rows = 0 then invalid_frame c else (True, size_push (cols, rows) c))
      else invalid_frame c)"

text \<open>
  The steps: the read loop gets a frame or an error (with its close code, if it has one); the write loop sends a frame or a
  ping, which the socket takes or not; the input loop hands data to the command, which takes it or not; the command
  prints, asks for a size, or ends; and another connection takes the lease. A closed socket takes nothing. A step that is
  not possible leaves the state as it is, and so schedules also hold those steps that the end of the context would
  prevent: every behaviour of the goroutines is one of a schedule.
\<close>

datatype terminal_step = ReadFrame Frame | ReadError "int option" | WriteOut bool | WritePing bool | InputOut bool
  | CommandPrints bytes | CommandSize | CommandEnds | LeaseTaken

fun connection_step :: "terminal_config \<Rightarrow> (string \<Rightarrow> (int \<times> int) option) \<Rightarrow> terminal_step \<Rightarrow> terminalClient \<Rightarrow> terminalClient" where
  "connection_step cfg U (ReadFrame frame) c = (if tc_reading c then snd (read_frame cfg U frame c) else c)"
| "connection_step cfg U (ReadError code) c =
     (if \<not> tc_reading c then c
      else end_reading (c\<lparr>tc_disconnects := tc_disconnects c @ (case code of None \<Rightarrow> [] | Some n \<Rightarrow> [closeReason n])\<rparr>))"
| "connection_step cfg U (WriteOut ok) c =
     (case tc_outgoing c of [] \<Rightarrow> c
      | frame # frames \<Rightarrow>
          if \<not> tc_writing c then c
          else if ok \<and> tc_stop c = None then c\<lparr>tc_outgoing := frames, tc_written := tc_written c @ [frame]\<rparr>
          else stop closeGoingAway runtimeEndedReason (c\<lparr>tc_outgoing := frames, tc_writing := False\<rparr>))"
| "connection_step cfg U (WritePing ok) c =
     (if \<not> tc_writing c \<or> ok \<and> tc_stop c = None then c
      else stop closeGoingAway runtimeEndedReason (c\<lparr>tc_writing := False\<rparr>))"
| "connection_step cfg U (InputOut ok) c =
     (case tc_input c of [] \<Rightarrow> c
      | data # rest \<Rightarrow>
          if \<not> tc_feeding c then c
          else if ok then c\<lparr>tc_input := rest, tc_stdin := tc_stdin c @ [data]\<rparr>
          else stop closeRuntimeEnded runtimeEndedReason (c\<lparr>tc_input := rest, tc_feeding := False\<rparr>))"
| "connection_step cfg U (CommandPrints data) c = snd (output_Write cfg data c)"
| "connection_step cfg U CommandSize c = c\<lparr>tc_size := None\<rparr>"
| "connection_step cfg U CommandEnds c = stop closeRuntimeEnded runtimeEndedReason c"
| "connection_step cfg U LeaseTaken c = stop closeReplaced replacedReason c"

text \<open>
  The start of \<open>serveConnection\<close>: the captured screen is sent first; the loops start only when that went well. The second
  argument says whether the socket takes the frame.
\<close>

definition closeInternalServerErr :: int where "closeInternalServerErr = 1011"

definition never_started :: "terminalClient \<Rightarrow> terminalClient" where
  "never_started c = c\<lparr>tc_reading := False, tc_writing := False, tc_feeding := False\<rparr>"

definition serveConnection_start :: "kerr + bytes \<Rightarrow> bool \<Rightarrow> terminalClient" where
  "serveConnection_start captured ok =
     (case captured of Inl e \<Rightarrow> stop closeInternalServerErr runtimeEndedReason (never_started new_client)
      | Inr replay \<Rightarrow>
          if replay = [] then new_client
          else if ok then new_client\<lparr>tc_written := [stdout_frame replay]\<rparr>
          else stop closeGoingAway runtimeEndedReason (never_started new_client))"

definition connection_run :: "terminal_config \<Rightarrow> (string \<Rightarrow> (int \<times> int) option) \<Rightarrow> kerr + bytes \<Rightarrow> bool \<Rightarrow> terminal_step list \<Rightarrow> terminalClient" where
  "connection_run cfg U captured ok steps = fold (connection_step cfg U) steps (serveConnection_start captured ok)"

end
