(* ===== verification/Terminal_Safety.thy ===== *)
theory Terminal_Safety
  imports Terminal Session_Requests
begin

text \<open>
  A terminal opens only for the owner of a live, running session and on the Pod of that session, and the activity update
  changes one annotation of the resource it has just read.
\<close>

section \<open>Who may open a terminal\<close>

text \<open>What the events of a run show of the session, its resource and its Pod.\<close>

definition session_seen :: "klib \<Rightarrow> session_lib \<Rightarrow> uuid \<Rightarrow> uuid \<Rightarrow> backend_event list \<Rightarrow> Session \<Rightarrow> bool" where
  "session_seen L K sessionID userID es rec \<longleftrightarrow> ss_ID rec = sessionID \<and> ss_UserID rec = userID \<and>
     (\<exists>name a row. EvDb name a \<in> set es \<and> row \<in> set (db_sessions (an_db a)) \<and> bs_DeletedAt row = None \<and> sessionFromRow K row = Inr rec)"

definition pod_seen :: "klib \<Rightarrow> backend_event list \<Rightarrow> Session \<Rightarrow> bool" where
  "pod_seen L es rec \<longleftrightarrow> (\<exists>cr pod.
     EvGetCR (userenv_Namespace L (ss_UserID rec), CRName L (ss_ID rec)) (Inr cr) \<in> set es \<and>
     sp_SessionID (as_Spec cr) = ss_ID rec \<and> sp_UserID (as_Spec cr) = ss_UserID rec \<and> phaseAllowsAttach (st_Phase (as_Status cr)) \<and>
     EvGetPod (userenv_Namespace L (ss_UserID rec), PodName L (ss_ID rec)) (Inr pod) \<in> set es \<and> terminal_pod_ok L rec pod)"

definition target_of :: "klib \<Rightarrow> Session \<Rightarrow> Target" where
  "target_of L rec = \<lparr>tg_SessionID = ss_ID rec, tg_UserID = ss_UserID rec, tg_Namespace = userenv_Namespace L (ss_UserID rec),
     tg_CRName = CRName L (ss_ID rec), tg_PodName = PodName L (ss_ID rec)\<rparr>"

definition terminal_allowed :: "klib \<Rightarrow> session_lib \<Rightarrow> auth_lib \<Rightarrow> JWTIssuer \<Rightarrow> string list \<Rightarrow> string \<Rightarrow> backend_event list \<Rightarrow> Session \<Rightarrow> bool" where
  "terminal_allowed L K C jwt protocols raw es rec \<longleftrightarrow> (\<exists>token now claims sessionID userID.
     terminalBearerProtocol protocols = Some token \<and> EvClock now \<in> set es \<and> Verify C jwt token now = Inr claims \<and>
     uuid_Parse K (cl_UserID claims) = Some userID \<and> uuid_Parse K raw = Some sessionID \<and>
     session_seen L K sessionID userID es rec \<and> pod_seen L es rec)"

lemma pod_seen_mono: "pod_seen L es rec \<Longrightarrow> set es \<subseteq> set fs \<Longrightarrow> pod_seen L fs rec"
  unfolding pod_seen_def by blast

lemma runs_GetByID:
  assumes "\<And>t a. P t (EvDb ''GetByID'' a)"
  shows "runs P w (GetByID K A sessionID) (\<lambda>r v. \<exists>a. w_trace v = w_trace w @ [EvDb ''GetByID'' a] \<and>
    (\<forall>rec. r = Inr rec \<longrightarrow> session_seen L K sessionID (ss_UserID rec) [EvDb ''GetByID'' a] rec))"
proof -
  have seen: "session_seen L K sessionID (ss_UserID rec) [EvDb ''GetByID'' a] rec"
    if "an_db a = d" "Some row = GetSessionByID sessionID d" "bs_DeletedAt row = None" "sessionFromRow K row = Inr rec" for a d row rec
    using that by (auto simp: session_seen_def GetSessionByID_def find_Some_iff eq_commute [of "Some row"] sessionFromRow_def split: option.splits)
  show ?thesis unfolding GetByID_def row_query_def
    by (intro runs_bind runs_post [OF runs_db_run] assms runs_return)
      (auto simp: db_outcome_def Let_def split: sum.splits option.splits if_splits intro: seen)
qed

lemma runs_Authorize:
  assumes "\<And>t e. \<forall>ok. e \<noteq> EvUpgrade ok \<Longrightarrow> P t e"
  shows "runs P w (Authorize L A rec) (\<lambda>r v. \<exists>es. w_trace v = w_trace w @ es \<and>
    (\<forall>target. r = Inr target \<longrightarrow> target = target_of L rec \<and> pod_seen L es rec))"
  unfolding Authorize_def get_cr_def backend_get_pod_def
  by (intro runs_rules assms)
    (auto simp: check_terminal_cr_def terminal_pod_ok_def pod_seen_def target_of_def split: sum.splits if_splits)

definition opens_terminal :: "klib \<Rightarrow> session_lib \<Rightarrow> auth_lib \<Rightarrow> JWTIssuer \<Rightarrow> string list \<Rightarrow> string \<Rightarrow> backend_event list \<Rightarrow> backend_event list \<Rightarrow> backend_event \<Rightarrow> bool" where
  "opens_terminal L K C jwt protocols raw t0 t e \<longleftrightarrow>
     (\<forall>ok. e = EvUpgrade ok \<longrightarrow> (\<exists>es rec. t = t0 @ es \<and> terminal_allowed L K C jwt protocols raw es rec))"

lemma opens_terminal_other: "\<forall>ok. e \<noteq> EvUpgrade ok \<Longrightarrow> opens_terminal L K C jwt protocols raw t0 t e"
  by (simp add: opens_terminal_def)

lemma opens_terminal_simps [simp]:
  "opens_terminal L K C jwt protocols raw t0 t (EvClock now)" "opens_terminal L K C jwt protocols raw t0 t (EvAnswer m n)"
  "opens_terminal L K C jwt protocols raw t0 t (EvDb name a)"
  by (simp_all add: opens_terminal_def)

lemma terminal_allowedI:
  assumes "uuid_Parse K raw = Some sessionID" "terminalBearerProtocol protocols = Some token" "Verify C jwt token now = Inr claims"
    "uuid_Parse K (cl_UserID claims) = Some (ss_UserID rec)" "session_seen L K sessionID (ss_UserID rec) [e] rec" "pod_seen L es rec"
  shows "terminal_allowed L K C jwt protocols raw (EvClock now # e # es @ fs) rec"
proof -
  have "session_seen L K sessionID (ss_UserID rec) (EvClock now # e # es @ fs) rec" using assms(5) by (auto simp: session_seen_def)
  moreover have "pod_seen L (EvClock now # e # es @ fs) rec"
    by (rule pod_seen_mono [OF assms(6)]) auto
  ultimately show ?thesis using assms(1-4) by (auto simp: terminal_allowed_def)
qed

lemma terminal_allowed_ex:
  assumes "uuid_Parse K raw = Some sessionID" "terminalBearerProtocol protocols = Some token" "Verify C jwt token now = Inr claims"
    "uuid_Parse K (cl_UserID claims) = Some (ss_UserID rec)" "session_seen L K sessionID (ss_UserID rec) [e] rec" "pod_seen L es rec"
  shows "\<exists>rec'. target_of L rec = target_of L rec' \<and> terminal_allowed L K C jwt protocols raw (EvClock now # e # es @ fs) rec'"
    and "Ex (terminal_allowed L K C jwt protocols raw (EvClock now # e # es @ fs))"
  using terminal_allowedI [OF assms] by blast+

lemma runs_ServeTerminal:
  "runs (opens_terminal L K C jwt protocols raw (w_trace w)) w (ServeTerminal L K C jwt A protocols raw)
     (\<lambda>r v. \<exists>es. w_trace v = w_trace w @ es \<and>
        (\<forall>target. r = Some target \<longrightarrow> (\<exists>rec. target = target_of L rec \<and> terminal_allowed L K C jwt protocols raw es rec)))"
  unfolding ServeTerminal_def refuse_terminal_def clock_def answer_client_def upgrade_def
  by (intro runs_rules runs_post [OF runs_GetByID [where L = L]] runs_post [OF runs_Authorize [OF opens_terminal_other]] opens_terminal_simps)
    (auto simp: opens_terminal_def intro: terminal_allowed_ex terminal_allowed_ex(2) [where fs = "[]", simplified])

text \<open>
  C9. Whatever the database and the API server answer, a connection is switched to a terminal only when the offered token
  verifies at the time of the request for a user, the database showed the session live and owned by that user, the API
  server showed the resource of the session, in the namespace of the user, with the identifiers of both and running or idle,
  and its Pod labelled for both with an agent container; the target served is that Pod and that resource.
\<close>

theorem ServeTerminal_authorizes:
  "(\<forall>before ok after. events_of (ServeTerminal L K C jwt A protocols raw) w = before @ EvUpgrade ok # after \<longrightarrow>
      (\<exists>rec. terminal_allowed L K C jwt protocols raw before rec)) \<and>
   (\<forall>target. result_of (ServeTerminal L K C jwt A protocols raw) w = Some target \<longrightarrow>
      (\<exists>rec. target = target_of L rec \<and> terminal_allowed L K C jwt protocols raw (events_of (ServeTerminal L K C jwt A protocols raw) w) rec))"
proof (intro conjI allI impI)
  fix before ok after
  assume "events_of (ServeTerminal L K C jwt A protocols raw) w = before @ EvUpgrade ok # after"
  from runs_events [OF runs_ServeTerminal this] show "\<exists>rec. terminal_allowed L K C jwt protocols raw before rec"
    by (auto simp: opens_terminal_def)
next
  fix target
  assume "result_of (ServeTerminal L K C jwt A protocols raw) w = Some target"
  then show "\<exists>rec. target = target_of L rec \<and> terminal_allowed L K C jwt protocols raw (events_of (ServeTerminal L K C jwt A protocols raw) w) rec"
    using runs_result [OF runs_ServeTerminal [of L K C jwt protocols raw w A]] runs_trace [OF runs_ServeTerminal [of L K C jwt protocols raw w A]] by auto
qed

text \<open>A library that accepts every signature for one user, and a running session with its Pod.\<close>

definition sample_verifier :: auth_lib where
  "sample_verifier = sample_auth\<lparr>al_verify := (\<lambda>k m g. True), Unmarshal_header := (\<lambda>t. Some \<lparr>jh_Alg = ''EdDSA'', jh_Typ = ''JWT'', jh_Kid = ''k''\<rparr>),
     Unmarshal_claims := (\<lambda>t. Some \<lparr>jc_Issuer = ''bosun'', jc_Subject = sample_user, jc_IssuedAt = 0, jc_ExpiresAt = 100, jc_TokenID = ''j''\<rparr>)\<rparr>"

definition sample_jwt :: JWTIssuer where
  "sample_jwt = \<lparr>ji_issuer = ''bosun'', ji_ttl = 900 * second, ji_priv = [], ji_kid = ''k'', ji_pubs = [''k'' \<mapsto> ''p'']\<rparr>"

definition sample_protocols :: "string list" where
  "sample_protocols = [Subprotocol, ''bearer.YQ.YQ.YQ'']"

definition attach_cr :: AgentSession where
  "attach_cr = running_cr\<lparr>as_Status := (as_Status running_cr)\<lparr>st_PodName := PodName decimal_lib ''session''\<rparr>\<rparr>"

definition attach_pod :: Pod where
  "attach_pod = zero_Pod\<lparr>pod_Meta := zero_ObjectMeta\<lparr>om_Name := PodName decimal_lib ''session'', om_Namespace := userenv_Namespace decimal_lib sample_user,
       om_Labels := [''app.kubernetes.io/managed-by'' \<mapsto> ''bosun'', ''bosun.io/user'' \<mapsto> sample_user, ''bosun.io/session'' \<mapsto> ''session'']\<rparr>,
     pod_Spec := zero_PodSpec\<lparr>ps_Containers := [zero_Container\<lparr>ct_Name := ''agent''\<rparr>]\<rparr>\<rparr>"

definition attach_api :: backend_api where
  "attach_api = running_api\<lparr>b_get_cr := (\<lambda>t k. Inr attach_cr), b_get_pod := (\<lambda>t k. Inr attach_pod)\<rparr>"

lemma attach_run:
  "result_of (db_run attach_api name steps r0) w = (case run_tx None 10 steps (w_mem w) r0 of TxFail e \<Rightarrow> Inl e | TxEnd r \<Rightarrow> Inr r | TxGo d' r \<Rightarrow> Inr r)"
  "b_get_cr attach_api t k = Inr attach_cr" "b_get_pod attach_api t k = Inr attach_pod" "b_now attach_api t = 10" "b_upgrade attach_api t = True"
  by (simp_all add: db_run_def attach_api_def running_api_def ready_api_def quiet_api_def split: tx_result.split)

lemma sample_verified: "Verify sample_verifier sample_jwt ''YQ.YQ.YQ'' 10 = Inr \<lparr>cl_UserID = sample_user, cl_IssuedAt = time_Unix 0, cl_ExpiresAt = time_Unix 100, cl_TokenID = ''j''\<rparr>"
proof -
  have "decodeSegment ''YQ'' = Some ''a''" "Split CHR ''.'' ''YQ.YQ.YQ'' = [''YQ'', ''YQ'', ''YQ'']" by code_simp+
  moreover have "Unix 10 < 100" by (simp add: Unix_def unix_epoch_def second_def)
  moreover have "sample_user \<noteq> []" by (simp add: sample_user_def)
  ultimately show ?thesis by (simp add: Verify_def sample_verifier_def sample_jwt_def verify_claims_def)
qed

lemma sample_opened: "\<exists>target. result_of (ServeTerminal decimal_lib sample_session_lib sample_verifier sample_jwt attach_api sample_protocols ''session'')
  (quiet_world (session_tables [sample_row ''Running'' None])) = Some target"
proof -
  have row: "GetSessionByID ''session'' (session_tables [sample_row ''Running'' None]) = Some (sample_row ''Running'' None)"
    by (simp add: GetSessionByID_def session_tables_def sample_row_def new_row_simps)
  obtain rec where rec: "sessionFromRow sample_session_lib (sample_row ''Running'' None) = Inr rec"
    "ss_ID rec = ''session''" "ss_UserID rec = sample_user" "ss_CRNamespace rec = userenv_Namespace decimal_lib sample_user"
    "ss_CRName rec = CRName decimal_lib ''session''"
    by (simp add: sessionFromRow_def sample_session_lib_def sample_row_def session_row_def session_params_def new_session_def)
  have live: "bs_DeletedAt (sample_row ''Running'' None) = None" by (simp add: sample_row_def)
  have token: "terminalBearerProtocol sample_protocols = Some ''YQ.YQ.YQ''" by code_simp
  have parse: "uuid_Parse sample_session_lib s = Some s" for s by (simp add: sample_session_lib_def)
  have checks: "check_terminal_cr decimal_lib rec attach_cr = None" "terminal_pod_ok decimal_lib rec attach_pod"
    by (simp_all add: check_terminal_cr_def terminal_pod_ok_def rec attach_cr_def running_cr_def attach_pod_def agentSessionFromDomain_def
        new_session_def phaseAllowsAttach_def hasAgentContainer_def terminalAgentContainer_def zero_AgentSession_def PodName_def sget_def)
  show ?thesis
    by (simp add: ServeTerminal_def token parse sample_verified clock_def GetByID_def row_query_def attach_run quiet_world_def row live rec Authorize_def
        get_cr_def backend_get_pod_def upgrade_def checks Let_def)
qed

theorem ServeTerminal_authorizes_witness:
  "\<exists>target rec. result_of (ServeTerminal decimal_lib sample_session_lib sample_verifier sample_jwt attach_api sample_protocols ''session'')
     (quiet_world (session_tables [sample_row ''Running'' None])) = Some target \<and> target = target_of decimal_lib rec"
  using sample_opened ServeTerminal_authorizes by metis

section \<open>Activity updates\<close>

text \<open>An update follows a read of the resource of the target, attachable and due, and changes only the annotation.\<close>

theorem UpdateActivity_guarded:
  assumes "events_of (UpdateActivity L K A target at minInterval) w = before @ EvUpdateCR cr r # after"
  shows "\<exists>earlier key cur. w_trace w @ before = earlier @ [EvGetCR key (Inr cur)] \<and> sp_SessionID (as_Spec cur) = tg_SessionID target \<and>
    sp_UserID (as_Spec cur) = tg_UserID target \<and> phaseAllowsAttach (st_Phase (as_Status cur)) \<and> activity_due L at minInterval cur \<and>
    cr = with_activity K at cur"
proof -
  let ?P = "\<lambda>t e. \<forall>cr r. e = EvUpdateCR cr r \<longrightarrow> (\<exists>earlier key cur. t = earlier @ [EvGetCR key (Inr cur)] \<and>
    sp_SessionID (as_Spec cur) = tg_SessionID target \<and> sp_UserID (as_Spec cur) = tg_UserID target \<and>
    phaseAllowsAttach (st_Phase (as_Status cur)) \<and> activity_due L at minInterval cur \<and> cr = with_activity K at cur)"
  have "runs ?P v (update_activity_once L K A target at minInterval) (\<lambda>_ _. True)" for v
    unfolding update_activity_once_def get_cr_def update_cr_def by (intro runs_rules) auto
  then have "runs ?P w (UpdateActivity L K A target at minInterval) (\<lambda>_ _. True)"
    unfolding UpdateActivity_def
    using runs_retry_on [of "\<lambda>_. True" ?P "update_activity_once L K A target at minInterval" "\<lambda>_ _. True"] by simp
  from runs_events [OF this assms] show ?thesis by simp
qed

end
