(* ===== verification/Terminal_Connection.thy ===== *)
theory Terminal_Connection
  imports Terminal "HOL-Library.Sublist"
begin

text \<open>
  The concurrent parts of the terminal: on any schedule of its goroutines a connection is a pair of bounded queues that
  lose and reorder nothing; of the connections of a session all but the holder of the lease are stopped; and activity
  updates of a session do not overlap and keep their distance.
\<close>

section \<open>A connection is a pair of queues\<close>

text \<open>What the client typed, what the command printed, and what the captured screen adds.\<close>

fun typed :: "terminal_step list \<Rightarrow> bytes list" where
  "typed [] = []"
| "typed (ReadFrame frame # steps) =
     (if fr_Type frame = ''stdin'' then (case StdEncoding_DecodeString (fr_Data frame) of None \<Rightarrow> [] | Some data \<Rightarrow> [data]) else []) @ typed steps"
| "typed (step # steps) = typed steps"

fun printed :: "terminal_step list \<Rightarrow> Frame list" where
  "printed [] = []"
| "printed (CommandPrints data # steps) = stdout_frame data # printed steps"
| "printed (step # steps) = printed steps"

definition replayed :: "kerr + bytes \<Rightarrow> Frame list" where
  "replayed captured = (case captured of Inr replay \<Rightarrow> if replay = [] then [] else [stdout_frame replay] | Inl e \<Rightarrow> [])"

lemma typed_append [simp]: "typed (xs @ ys) = typed xs @ typed ys"
  by (induction xs rule: typed.induct) auto

lemma printed_append [simp]: "printed (xs @ ys) = printed xs @ printed ys"
  by (induction xs rule: printed.induct) auto

text \<open>The invariant of a connection after a schedule: its input, its output and its bounds.\<close>

definition input_inv :: "terminal_config \<Rightarrow> bytes list \<Rightarrow> terminalClient \<Rightarrow> bool" where
  "input_inv cfg ins c \<longleftrightarrow> int (length (tc_input c)) \<le> tf_InputQueueCapacity cfg \<and>
     (\<forall>d\<in>set (tc_stdin c @ tc_input c). int (length d) \<le> tf_MaxFrameBytes cfg) \<and> prefix (tc_stdin c) ins \<and>
     (tc_feeding c \<longrightarrow> prefix (tc_stdin c @ tc_input c) ins \<and> (tc_reading c \<longrightarrow> tc_stdin c @ tc_input c = ins)) \<and>
     (tc_stop c = None \<longrightarrow> tc_feeding c)"

definition output_inv :: "terminal_config \<Rightarrow> Frame list \<Rightarrow> terminalClient \<Rightarrow> bool" where
  "output_inv cfg outs c \<longleftrightarrow> int (length (tc_outgoing c)) \<le> tf_WriteQueueCapacity cfg \<and> prefix (tc_written c) outs \<and>
     (tc_stop c = None \<longrightarrow> tc_written c @ tc_outgoing c = outs)"

lemma stop_simps [simp]:
  "tc_input (stop n r c) = tc_input c" "tc_stdin (stop n r c) = tc_stdin c" "tc_outgoing (stop n r c) = tc_outgoing c"
  "tc_written (stop n r c) = tc_written c" "tc_feeding (stop n r c) = tc_feeding c" "tc_reading (stop n r c) = tc_reading c"
  "tc_writing (stop n r c) = tc_writing c" "tc_stop (stop n r c) \<noteq> None"
  by (simp_all add: stop_def)

lemma prefix_front: "prefix (xs @ x # ys) zs \<Longrightarrow> prefix (xs @ [x]) zs"
  by (metis append.assoc append_Cons append_Nil append_prefixD)

lemmas frame_defs = read_frame_def invalid_frame_def end_reading_def size_push_def

lemma input_inv_step:
  assumes "input_inv cfg ins c"
  shows "input_inv cfg (ins @ typed [s]) (connection_step cfg U s c)"
proof (cases s)
  case (ReadFrame frame)
  then show ?thesis using assms
    by (auto simp: input_inv_def frame_defs split: option.splits prod.splits intro: prefix_prefix)
next
  case (InputOut ok)
  then show ?thesis using assms by (auto simp: input_inv_def split: list.splits intro: prefix_front)
qed (use assms in \<open>auto simp: input_inv_def output_Write_def end_reading_def split: list.splits\<close>)

lemma output_inv_step:
  assumes "output_inv cfg outs c"
  shows "output_inv cfg (outs @ printed [s]) (connection_step cfg U s c)"
proof (cases s)
  case (ReadFrame frame)
  then show ?thesis using assms
    by (auto simp: output_inv_def frame_defs split: option.splits prod.splits)
qed (use assms in \<open>auto simp: output_inv_def output_Write_def end_reading_def intro: prefix_prefix split: list.splits\<close>)

lemma connection_inv:
  assumes "terminal_NewHandler_ok cfg"
  shows "input_inv cfg (typed steps) (connection_run cfg U captured ok steps) \<and>
    output_inv cfg (replayed captured @ printed steps) (connection_run cfg U captured ok steps)"
proof (induction steps rule: rev_induct)
  case Nil
  show ?case using assms
    by (auto simp: connection_run_def serveConnection_start_def replayed_def input_inv_def output_inv_def new_client_def
        never_started_def terminal_NewHandler_ok_def split: sum.splits)
next
  case (snoc s steps)
  then show ?case using input_inv_step [of cfg "typed steps" _ s U] output_inv_step [of cfg "replayed captured @ printed steps" _ s U]
    by (simp add: connection_run_def)
qed

text \<open>
  C37. On any schedule of the goroutines of a connection, neither queue grows past its capacity, no input above the frame
  limit is passed on, the command receives a prefix of what the client typed and the client a prefix of the captured screen
  and what the command printed, in order. As long as the connection was not stopped nothing is lost: what was printed is
  written or queued, and while frames are read so is what was typed.
\<close>

theorem connection_pipe:
  assumes "terminal_NewHandler_ok cfg" and "c = connection_run cfg U captured ok steps"
  shows "int (length (tc_outgoing c)) \<le> tf_WriteQueueCapacity cfg \<and> int (length (tc_input c)) \<le> tf_InputQueueCapacity cfg \<and>
    (\<forall>d\<in>set (tc_stdin c). int (length d) \<le> tf_MaxFrameBytes cfg) \<and>
    prefix (tc_stdin c) (typed steps) \<and> prefix (tc_written c) (replayed captured @ printed steps) \<and>
    (tc_stop c = None \<longrightarrow> tc_written c @ tc_outgoing c = replayed captured @ printed steps \<and>
       (tc_reading c \<longrightarrow> tc_stdin c @ tc_input c = typed steps))"
  using connection_inv [OF assms(1), of steps U captured ok] by (auto simp: input_inv_def output_inv_def assms(2))

definition sample_terminal :: terminal_config where
  "sample_terminal = \<lparr>tf_WriteQueueCapacity = 1, tf_InputQueueCapacity = 1, tf_MaxFrameBytes = 16, tf_WriteTimeout = 1, tf_PongTimeout = 2,
     tf_PingInterval = 1, tf_ActivityMinInterval = 1\<rparr>"

definition sample_schedule :: "terminal_step list" where
  "sample_schedule = [CommandPrints ''a'', WriteOut True, ReadFrame \<lparr>fr_Type = ''stdin'', fr_Data = ''bA==''\<rparr>, CommandPrints ''b'', InputOut True, CommandPrints ''c'']"

theorem connection_pipe_witness:
  "terminal_NewHandler_ok sample_terminal \<and> tc_stdin (connection_run sample_terminal (\<lambda>_. None) (Inr ''$'') True sample_schedule) = [''l''] \<and>
   tc_stop (connection_run sample_terminal (\<lambda>_. None) (Inr ''$'') True sample_schedule) = Some (closeSlowClient, slowClientReason) \<and>
   prefix (tc_written (connection_run sample_terminal (\<lambda>_. None) (Inr ''$'') True sample_schedule))
     (map stdout_frame [''$'', ''a'', ''b'', ''c''])"
proof (intro conjI)
  show ok: "terminal_NewHandler_ok sample_terminal" by code_simp
  have "StdEncoding_DecodeString ''bA=='' = Some ''l''" by code_simp
  then show "tc_stdin (connection_run sample_terminal (\<lambda>_. None) (Inr ''$'') True sample_schedule) = [''l'']"
    "tc_stop (connection_run sample_terminal (\<lambda>_. None) (Inr ''$'') True sample_schedule) = Some (closeSlowClient, slowClientReason)"
    by (simp_all add: connection_run_def sample_schedule_def sample_terminal_def serveConnection_start_def new_client_def output_Write_def
        frame_defs stop_def)
  show "prefix (tc_written (connection_run sample_terminal (\<lambda>_. None) (Inr ''$'') True sample_schedule)) (map stdout_frame [''$'', ''a'', ''b'', ''c''])"
    using connection_pipe [OF ok refl, of "\<lambda>_. None" "Inr ''$''" True sample_schedule] by (simp add: replayed_def sample_schedule_def)
qed

section \<open>One connection per session\<close>

text \<open>
  The registry with what its clients have done: which have acquired and not released their lease, which are about to be
  stopped by the client that replaced them, and which were stopped. A client acquires one lease, once.
\<close>

record lease_world =
  lw_clients :: leaseRegistry
  lw_open :: "(nat \<times> uuid) set"
  lw_stopping :: "nat set"
  lw_stopped :: "nat set"
  lw_used :: "nat set"

inductive lease_step :: "lease_world \<Rightarrow> lease_world \<Rightarrow> bool" where
  acquired: "client \<notin> lw_used w \<Longrightarrow> acquire i client (lw_clients w) = (previous, clients) \<Longrightarrow>
    lease_step w (w\<lparr>lw_clients := clients, lw_open := insert (client, i) (lw_open w),
      lw_stopping := lw_stopping w \<union> set_option previous, lw_used := insert client (lw_used w)\<rparr>)"
| stopped: "client \<in> lw_stopping w \<Longrightarrow>
    lease_step w (w\<lparr>lw_stopping := lw_stopping w - {client}, lw_stopped := insert client (lw_stopped w)\<rparr>)"
| released: "(client, i) \<in> lw_open w \<Longrightarrow>
    lease_step w (w\<lparr>lw_clients := release i client (lw_clients w), lw_open := lw_open w - {(client, i)}\<rparr>)"

inductive_cases lease_stepE: "lease_step w w'"

definition lease_inv :: "lease_world \<Rightarrow> bool" where
  "lease_inv w \<longleftrightarrow> (\<forall>client i. (client, i) \<in> lw_open w \<longrightarrow> client \<in> lw_used w \<and>
       (lw_clients w i = Some client \<or> client \<in> lw_stopping w \<union> lw_stopped w)) \<and>
     (\<forall>client i. lw_clients w i = Some client \<longrightarrow> (client, i) \<in> lw_open w) \<and>
     (\<forall>client i j. (client, i) \<in> lw_open w \<longrightarrow> (client, j) \<in> lw_open w \<longrightarrow> i = j)"

interpretation leases: step_invariant lease_step lease_inv
proof
  fix w w'
  assume inv: "lease_inv w" and "lease_step w w'"
  from this(2) show "lease_inv w'"
  proof cases
    case (released client i)
    then show ?thesis using inv unfolding lease_inv_def release_def by (auto split: if_splits) (metis option.inject)
  qed (use inv in \<open>auto simp: lease_inv_def acquire_def\<close>)
qed

definition no_leases :: lease_world where
  "no_leases = \<lparr>lw_clients = Map.empty, lw_open = {}, lw_stopping = {}, lw_stopped = {}, lw_used = {}\<rparr>"

text \<open>
  C38. On any interleaving of connections that take over, stop and release the lease of a session, at most one open connection
  of a session was neither stopped nor is about to be stopped by the one that replaced it, it is the one in the registry,
  and the registry holds only open connections: a release by a connection that was replaced does not take the lease of the
  new one away.
\<close>

theorem lease_exclusive:
  assumes "lease_step\<^sup>*\<^sup>* no_leases w" and "(client, i) \<in> lw_open w" and "client \<notin> lw_stopping w \<union> lw_stopped w"
  shows "lw_clients w i = Some client \<and> (\<forall>other. (other, i) \<in> lw_open w \<and> other \<noteq> client \<longrightarrow> other \<in> lw_stopping w \<union> lw_stopped w) \<and>
    (\<forall>other j. lw_clients w j = Some other \<longrightarrow> (other, j) \<in> lw_open w)"
proof -
  have "lease_inv w" using leases.steps_inv [OF assms(1)] by (simp add: lease_inv_def no_leases_def)
  then have holder: "lw_clients w i = Some client" and registered: "\<forall>other j. lw_clients w j = Some other \<longrightarrow> (other, j) \<in> lw_open w"
    and others: "(other, i) \<in> lw_open w \<Longrightarrow> lw_clients w i = Some other \<or> other \<in> lw_stopping w \<union> lw_stopped w" for other
    using assms(2,3) unfolding lease_inv_def by blast+
  then show ?thesis by auto
qed

theorem lease_exclusive_witness:
  "\<exists>w. lease_step\<^sup>*\<^sup>* no_leases w \<and> lw_clients w ''s'' = Some 2 \<and> {(1, ''s''), (2, ''s'')} \<subseteq> lw_open w \<and> 1 \<in> lw_stopping w \<union> lw_stopped w"
proof -
  obtain w1 where w1: "lease_step no_leases w1" "lw_clients w1 = [''s'' \<mapsto> 1]" "lw_open w1 = {(1, ''s'')}" "lw_stopping w1 = {}"
      "lw_stopped w1 = {}" "lw_used w1 = {1}"
    using lease_step.acquired [of 1 no_leases "''s''" None] by (auto simp: acquire_def no_leases_def)
  obtain w2 where w2: "lease_step w1 w2" "lw_clients w2 = [''s'' \<mapsto> 2]" "lw_open w2 = {(2, ''s''), (1, ''s'')}" "lw_stopping w2 = {1}" "lw_stopped w2 = {}"
    using lease_step.acquired [of 2 w1 "''s''" "Some 1"] w1 by (auto simp: acquire_def)
  have reach: "lease_step\<^sup>*\<^sup>* no_leases w2" using w1(1) w2(1) by simp
  from lease_exclusive [OF reach, of 2 "''s''"] reach w2 show ?thesis by auto
qed

section \<open>Activity updates\<close>

text \<open>The limiter with the updates that are being made and those that succeeded, in the order in which they ended.\<close>

record activity_world =
  aw_states :: activity_states
  aw_running :: "(uuid \<times> time) set"
  aw_done :: "(uuid \<times> time) list"

inductive activity_step :: "duration \<Rightarrow> activity_world \<Rightarrow> activity_world \<Rightarrow> bool" for interval where
  began: "mark_begin interval i at (aw_states w) = (True, states) \<Longrightarrow>
    activity_step interval w (w\<lparr>aw_states := states, aw_running := insert (i, at) (aw_running w)\<rparr>)"
| finished: "(i, at) \<in> aw_running w \<Longrightarrow>
    activity_step interval w (w\<lparr>aw_states := mark_end i at ok (aw_states w), aw_running := aw_running w - {(i, at)},
      aw_done := aw_done w @ (if ok then [(i, at)] else [])\<rparr>)"

definition times_of :: "uuid \<Rightarrow> (uuid \<times> time) list \<Rightarrow> time list" where
  "times_of i done_updates = map snd (filter (\<lambda>u. fst u = i) done_updates)"

lemma times_of_simps [simp]: "times_of i [] = []" "times_of i (us @ vs) = times_of i us @ times_of i vs"
  "times_of i [(j, t)] = (if j = i then [t] else [])"
  by (simp_all add: times_of_def)

definition activity_inv :: "duration \<Rightarrow> activity_world \<Rightarrow> bool" where
  "activity_inv interval w \<longleftrightarrow> (\<forall>i. sorted_wrt (\<lambda>a b. a + interval \<le> b) (times_of i (aw_done w)) \<and>
     (\<forall>a\<in>set (times_of i (aw_done w)). \<exists>l. av_last (activity_of (aw_states w) i) = Some l \<and> a \<le> l) \<and>
     (\<forall>t. (i, t) \<in> aw_running w \<longrightarrow> av_active (activity_of (aw_states w) i) \<and>
        (\<forall>t'. (i, t') \<in> aw_running w \<longrightarrow> t' = t) \<and>
        (\<forall>l. av_last (activity_of (aw_states w) i) = Some l \<longrightarrow> l + interval \<le> t)))"

lemma activity_of_upd [simp]: "activity_of (states(i \<mapsto> s)) j = (if j = i then s else activity_of states j)"
  by (simp add: activity_of_def)

lemma mark_begin_due:
  assumes "mark_begin interval i at states = (True, states')" and "0 < interval"
  shows "\<not> av_active (activity_of states i)" and "states' = states(i \<mapsto> (activity_of states i)\<lparr>av_active := True\<rparr>)"
    and "av_last (activity_of states i) = Some l \<Longrightarrow> l + interval \<le> at"
proof -
  show "\<not> av_active (activity_of states i)" "states' = states(i \<mapsto> (activity_of states i)\<lparr>av_active := True\<rparr>)"
    using assms by (auto simp: mark_begin_def Let_def split: if_splits)
  show "l + interval \<le> at" if "av_last (activity_of states i) = Some l"
    using assms that by (auto simp: mark_begin_def Let_def time_sub_def split: if_splits)
qed

lemma activity_began:
  assumes "activity_inv interval w" and "0 < interval" and "mark_begin interval i at (aw_states w) = (True, states)"
  shows "activity_inv interval (w\<lparr>aw_states := states, aw_running := insert (i, at) (aw_running w)\<rparr>)"
  using assms(1) mark_begin_due [OF assms(3,2)] unfolding activity_inv_def by auto

lemma activity_finished:
  assumes "activity_inv interval w" and "0 < interval" and "(i, at) \<in> aw_running w"
  shows "activity_inv interval (w\<lparr>aw_states := mark_end i at ok (aw_states w), aw_running := aw_running w - {(i, at)},
    aw_done := aw_done w @ (if ok then [(i, at)] else [])\<rparr>)"
proof -
  have due: "l + interval \<le> at" if "av_last (activity_of (aw_states w) i) = Some l" for l
    using assms(1,3) that by (auto simp: activity_inv_def)
  have later: "a + interval \<le> at \<and> a \<le> at" if "a \<in> set (times_of i (aw_done w))" for a
    using assms(1,2) that due by (fastforce simp: activity_inv_def)
  show ?thesis using assms due later unfolding activity_inv_def mark_end_def Let_def
    by (auto simp: sorted_wrt_append split: option.splits)
qed

interpretation activities: step_invariant "activity_step interval" "\<lambda>w. 0 < interval \<and> activity_inv interval w" for interval
proof
  fix w w'
  assume inv: "0 < interval \<and> activity_inv interval w" and "activity_step interval w w'"
  from this(2) show "0 < interval \<and> activity_inv interval w'"
  proof cases
    case (began i at states)
    then show ?thesis using inv activity_began by blast
  next
    case (finished i at ok)
    then show ?thesis using inv activity_finished by blast
  qed
qed

theorem activity_spaced:
  assumes "(activity_step interval)\<^sup>*\<^sup>* \<lparr>aw_states = Map.empty, aw_running = {}, aw_done = []\<rparr> w" and "0 < interval"
  shows "sorted_wrt (\<lambda>a b. a + interval \<le> b) (times_of i (aw_done w)) \<and> (\<forall>t t'. (i, t) \<in> aw_running w \<and> (i, t') \<in> aw_running w \<longrightarrow> t = t')"
  using activities.steps_inv [OF assms(1)] assms(2) by (auto simp: activity_inv_def)

end
