(* ===== verification/Go_Time.thy ===== *)
theory Go_Time
  imports Go_Float Go_Strings
begin

text \<open>
  \<open>time.ParseDuration\<close>: a sign and a sequence of decimal numbers with units, in nanoseconds. Magnitudes are at most
  \<open>2 ^ 63\<close>, which the checks of the library enforce; a fraction goes through floating point.
\<close>

section \<open>Definitions\<close>

text \<open>The digits at the front; nothing when the value passes \<open>2 ^ 63\<close>.\<close>

fun leadingInt :: "int \<Rightarrow> string \<Rightarrow> (int \<times> string) option" where
  "leadingInt x [] = Some (x, [])"
| "leadingInt x (c # s) =
     (if \<not> is_digit c then Some (x, c # s)
      else if x * 10 + digits_val [c] > 2 ^ 63 then None
      else leadingInt (x * 10 + digits_val [c]) s)"

text \<open>The digits of a fraction with their scale; those that no longer fit are skipped.\<close>

fun leadingFraction :: "int \<Rightarrow> rat \<Rightarrow> bool \<Rightarrow> string \<Rightarrow> int \<times> rat \<times> string" where
  "leadingFraction x scale overflow [] = (x, scale, [])"
| "leadingFraction x scale overflow (c # s) =
     (if \<not> is_digit c then (x, scale, c # s)
      else if overflow \<or> x > (2 ^ 63 - 1) div 10 \<or> x * 10 + digits_val [c] > 2 ^ 63 then leadingFraction x scale True s
      else leadingFraction (x * 10 + digits_val [c]) (float_mult scale 10) False s)"

definition unitMap :: "string \<Rightarrow> int option" where
  "unitMap u = map_of [(''ns'', 1), (''us'', 1000), ([CHR 0xC2, CHR 0xB5, CHR ''s''], 1000), ([CHR 0xCE, CHR 0xBC, CHR ''s''], 1000), (''ms'', 1000000), (''s'', second),
     (''m'', 60 * second), (''h'', 3600 * second)] u"

definition number_char :: "char \<Rightarrow> bool" where
  "number_char c \<longleftrightarrow> c = CHR ''.'' \<or> is_digit c"

text \<open>A number: its integral part, its fraction with the scale, and the rest.\<close>

definition duration_number :: "string \<Rightarrow> (int \<times> int \<times> rat \<times> string) option" where
  "duration_number s = (case leadingInt 0 s of None \<Rightarrow> None
     | Some (v, r) \<Rightarrow>
         if HasPrefix r ''.'' then (case leadingFraction 0 1 False (drop 1 r) of (f, scale, r') \<Rightarrow>
           if length r = length s \<and> length r' = length (drop 1 r) then None else Some (v, f, scale, r'))
         else if length r = length s then None else Some (v, 0, 1, r))"

definition duration_value :: "int \<Rightarrow> int \<Rightarrow> rat \<Rightarrow> int \<Rightarrow> int option" where
  "duration_value v f scale unit =
     (if v > 2 ^ 63 div unit then None
      else let x = v * unit + (if f > 0 then \<lfloor>float_mult (float_of_int f) (float_div (float_of_int unit) scale)\<rfloor> else 0)
        in if x > 2 ^ 63 then None else Some x)"

lemma leadingInt_length: "leadingInt x s = Some (v, r) \<Longrightarrow> length r \<le> length s"
  by (induction x s rule: leadingInt.induct) (auto split: if_splits)

lemma leadingFraction_length: "leadingFraction x scale b s = (f, t, r) \<Longrightarrow> length r \<le> length s"
  by (induction x scale b s rule: leadingFraction.induct) (auto split: if_splits)

lemma duration_number_length: "duration_number s = Some (v, f, scale, r) \<Longrightarrow> length r < length s"
  by (auto simp: duration_number_def split: option.splits if_splits prod.splits dest!: leadingInt_length leadingFraction_length)

function duration_terms :: "int \<Rightarrow> string \<Rightarrow> int option" where
  "duration_terms d s =
     (if s = [] then Some d
      else case duration_number s of None \<Rightarrow> None
      | Some (v, f, scale, r) \<Rightarrow> (case unitMap (takeWhile (\<lambda>c. \<not> number_char c) r) of None \<Rightarrow> None
        | Some unit \<Rightarrow> (case duration_value v f scale unit of None \<Rightarrow> None
          | Some x \<Rightarrow> if d + x > 2 ^ 63 then None else duration_terms (d + x) (dropWhile (\<lambda>c. \<not> number_char c) r))))"
  by pat_completeness auto
termination
  by (relation "measure (\<lambda>(d, s). length s)") (auto dest!: duration_number_length intro: le_less_trans [OF length_dropWhile_le])

declare duration_terms.simps [simp del]

definition ParseDuration :: "string \<Rightarrow> duration option" where
  "ParseDuration s =
     (let neg = HasPrefix s ''-''; r = (if neg \<or> HasPrefix s ''+'' then drop 1 s else s)
      in if r = ''0'' then Some 0
         else if r = [] then None
         else case duration_terms 0 r of None \<Rightarrow> None
         | Some d \<Rightarrow> if neg then Some (- d) else if d > 2 ^ 63 - 1 then None else Some d)"

end
