(* ===== verification/Monitor.thy ===== *)
theory Monitor
  imports Session_Service Pod_Metrics Go_Time "HOL-Library.AList"
begin

text \<open>
  The live monitor, \<open>backend/internal/monitor\<close>: the decoding of the metrics server and of the Kubelet summaries, the
  sampler that turns counters into rates, the snapshots of Pods and Nodes, and the two requests. The maps of the code that
  are ranged over are association lists with one entry per key. The memory of the sampler is an argument and a result.
\<close>

section \<open>Data\<close>

record Resources =
  ru_CPUMillicores :: int
  ru_MemoryBytes :: int

definition zero_Resources :: Resources where
  "zero_Resources = \<lparr>ru_CPUMillicores = 0, ru_MemoryBytes = 0\<rparr>"

record ContainerSnapshot =
  kn_Name :: string
  kn_Usage :: "Resources option"
  kn_Requests :: Resources
  kn_Limits :: Resources
  kn_ActualLimits :: "Resources option"
  kn_ActualResourcesAvailable :: bool

record AgentResourceScalingSnapshot =
  gs_DesiredResources :: Resources
  gs_ActualResources :: "Resources option"
  gs_ActualResourcesAvailable :: bool
  gs_LoadClass :: string
  gs_RecommendedCPUMillicores :: int
  gs_LastAppliedAt :: "time option"
  gs_LastError :: string
  gs_WorkState :: string

record PodResizeSnapshot =
  rz_State :: string
  rz_Reason :: string
  rz_Message :: string

record PodSnapshot =
  po_Namespace :: string
  po_Name :: string
  po_Phase :: string
  po_Resize :: "PodResizeSnapshot option"
  po_NodeName :: string
  po_Ready :: bool
  po_Restarts :: int
  po_CreatedAt :: time
  po_MetricsObservedAt :: "time option"
  po_MetricsWindowSeconds :: rat
  po_MetricsSource :: string
  po_Usage :: "Resources option"
  po_Requests :: Resources
  po_Limits :: Resources
  po_Containers :: "ContainerSnapshot list"
  po_IsAgent :: bool
  po_SessionID :: string
  po_SessionName :: string
  po_Username :: string
  po_ResourceScaling :: "AgentResourceScalingSnapshot option"

record NodeSnapshot =
  no_Name :: string
  no_Status :: string
  no_Roles :: "string list"
  no_Kubelet :: string
  no_Usage :: "Resources option"
  no_Capacity :: Resources
  no_Allocatable :: Resources

record SessionSnapshot =
  sn_ObservedAt :: time
  sn_MetricsAvailable :: bool
  sn_Pod :: PodSnapshot

record ClusterSnapshot =
  cn_ObservedAt :: time
  cn_PodMetricsAvailable :: bool
  cn_NodeMetricsAvailable :: bool
  cn_Nodes :: "NodeSnapshot list"
  cn_Pods :: "PodSnapshot list"

record AgentOwner =
  ow_Username :: string
  ow_SessionName :: string

record PodMetric =
  mp_ObservedAt :: time
  mp_Window :: duration
  mp_Source :: string
  mp_Containers :: "(string \<times> Resources) list"

record ContainerCounter =
  kt_CPUUsageSeconds :: rat
  kt_CPUUsageNanoCores :: "64 word"
  kt_CPUUsageNanoCoresAvailable :: bool
  kt_MemoryWorkingSetBytes :: int
  kt_ObservedAt :: time

record PodCounterMetric =
  kp_ObservedAt :: time
  kp_Containers :: "(string \<times> ContainerCounter) list"

definition zero_PodCounterMetric :: PodCounterMetric where
  "zero_PodCounterMetric = \<lparr>kp_ObservedAt = 0, kp_Containers = []\<rparr>"

text \<open>The struct \<open>kubeletSummary\<close>; a missing object or number is \<open>None\<close>.\<close>

record stats_container =
  so_Name :: string
  so_CPU :: "summary_cpu option"
  so_Memory :: "64 word option option"

record stats_pod =
  so_Namespace :: string
  so_PodName :: string
  so_Containers :: "stats_container list"

text \<open>
  Accessors of untyped objects, whose \<open>None\<close> is \<open>found = false\<close>, parsers whose results on an error the code discards, the JSON
  decoder, and the order in which a \<open>range\<close> visits the labels of an object.
\<close>

record monitor_lib =
  NestedSlice :: "json \<Rightarrow> string \<Rightarrow> kerr + json list option"
  NestedString :: "json \<Rightarrow> string \<Rightarrow> string"
  NestedStringMap :: "json \<Rightarrow> string \<Rightarrow> kerr + (string \<rightharpoonup> string) option"
  GetNamespace :: "json \<Rightarrow> string"
  GetName :: "json \<Rightarrow> string"
  parse_stats_time :: "string \<Rightarrow> time option"
  Unmarshal_stats :: "bytes \<Rightarrow> kerr + stats_pod list"
  label_keys :: "ObjectMeta \<Rightarrow> string list"

section \<open>Metrics server and Kubelet summaries\<close>

definition parse_quantity :: "(quantity \<Rightarrow> int) \<Rightarrow> session_lib \<Rightarrow> string \<Rightarrow> string \<Rightarrow> (string \<rightharpoonup> string) \<Rightarrow> kerr + int" where
  "parse_quantity val K name key usage = (let raw = sget usage key in
     if raw = [] then Inr 0
     else case ParseQuantity K raw of None \<Rightarrow> Inl (Errorf (''parse '' @ name @ '' quantity'')) | Some q \<Rightarrow> Inr (val q))"

definition parseUsage :: "klib \<Rightarrow> session_lib \<Rightarrow> (string \<rightharpoonup> string) \<Rightarrow> kerr + Resources" where
  "parseUsage L K usage = (case parse_quantity (q_MilliValue L) K ''CPU'' ''cpu'' usage of Inl e \<Rightarrow> Inl e
     | Inr cpu \<Rightarrow> case parse_quantity (q_Value L) K ''memory'' ''memory'' usage of Inl e \<Rightarrow> Inl e
       | Inr memory \<Rightarrow> Inr \<lparr>ru_CPUMillicores = cpu, ru_MemoryBytes = memory\<rparr>)"

definition metricTimestamp :: "monitor_lib \<Rightarrow> json \<Rightarrow> time" where
  "metricTimestamp N item = (case parse_stats_time N (NestedString N item ''timestamp'') of None \<Rightarrow> 0 | Some t \<Rightarrow> t)"

definition metricWindow :: "monitor_lib \<Rightarrow> json \<Rightarrow> duration" where
  "metricWindow N item = (case ParseDuration (NestedString N item ''window'') of None \<Rightarrow> 0 | Some d \<Rightarrow> d)"

fun metric_containers :: "klib \<Rightarrow> session_lib \<Rightarrow> monitor_lib \<Rightarrow> string \<Rightarrow> json list \<Rightarrow> (string \<times> Resources) list \<Rightarrow>
    kerr + (string \<times> Resources) list" where
  "metric_containers L K N label [] result = Inr result"
| "metric_containers L K N label (JObject members # rest) result =
     (let container = JObject members; name = NestedString N container ''name'' in
      case NestedStringMap N container ''usage'' of
        Inr (Some usage) \<Rightarrow> (case parseUsage L K usage of
            Inl e \<Rightarrow> Inl (Wrapf (label @ '' container '' @ name) e)
          | Inr value \<Rightarrow> metric_containers L K N label rest (AList.update name value result))
      | _ \<Rightarrow> Inl (Errorf (label @ '' container '' @ name @ '' usage'')))"
| "metric_containers L K N label (raw # rest) result = Inl (Errorf (label @ '' container''))"

definition podMetricFromUnstructured :: "klib \<Rightarrow> session_lib \<Rightarrow> monitor_lib \<Rightarrow> json \<Rightarrow> kerr + PodMetric" where
  "podMetricFromUnstructured L K N item =
     (let label = ''decode PodMetrics '' @ GetNamespace N item @ ''/'' @ GetName N item;
          metric = \<lparr>mp_ObservedAt = metricTimestamp N item, mp_Window = metricWindow N item, mp_Source = ''metrics-server'', mp_Containers = []\<rparr>
      in case NestedSlice N item ''containers'' of
           Inl e \<Rightarrow> Inl (Wrapf (label @ '' containers'') e)
         | Inr None \<Rightarrow> Inr metric
         | Inr (Some containers) \<Rightarrow> (case metric_containers L K N label containers [] of
             Inl e \<Rightarrow> Inl e | Inr result \<Rightarrow> Inr (metric\<lparr>mp_Containers := result\<rparr>)))"

definition GetPodMetric :: "klib \<Rightarrow> session_lib \<Rightarrow> monitor_lib \<Rightarrow> backend_api \<Rightarrow> nskey \<Rightarrow> (kerr + PodMetric) backend" where
  "GetPodMetric L K N A k = do {
     r \<leftarrow> get_pod_metric A k;
     State_Monad.return (case r of Inl e \<Rightarrow> Inl e | Inr item \<Rightarrow> podMetricFromUnstructured L K N item) }"

fun decode_pod_metrics :: "klib \<Rightarrow> session_lib \<Rightarrow> monitor_lib \<Rightarrow> json list \<Rightarrow> (string \<rightharpoonup> PodMetric) \<Rightarrow> kerr + (string \<rightharpoonup> PodMetric)" where
  "decode_pod_metrics L K N [] result = Inr result"
| "decode_pod_metrics L K N (item # items) result = (case podMetricFromUnstructured L K N item of
     Inl e \<Rightarrow> Inl e
   | Inr metric \<Rightarrow> decode_pod_metrics L K N items (result(GetNamespace N item @ ''/'' @ GetName N item \<mapsto> metric)))"

definition ListPodMetrics :: "klib \<Rightarrow> session_lib \<Rightarrow> monitor_lib \<Rightarrow> backend_api \<Rightarrow> (kerr + (string \<rightharpoonup> PodMetric)) backend" where
  "ListPodMetrics L K N A = do {
     r \<leftarrow> list_pod_metrics A;
     State_Monad.return (case r of Inl e \<Rightarrow> Inl e | Inr items \<Rightarrow> decode_pod_metrics L K N items Map.empty) }"

fun decode_node_metrics :: "klib \<Rightarrow> session_lib \<Rightarrow> monitor_lib \<Rightarrow> json list \<Rightarrow> (string \<rightharpoonup> Resources) \<Rightarrow> kerr + (string \<rightharpoonup> Resources)" where
  "decode_node_metrics L K N [] result = Inr result"
| "decode_node_metrics L K N (item # items) result = (case NestedStringMap N item ''usage'' of
     Inl e \<Rightarrow> Inl (Wrapf (''decode NodeMetrics '' @ GetName N item @ '' usage'') e)
   | Inr None \<Rightarrow> decode_node_metrics L K N items result
   | Inr (Some usage) \<Rightarrow> (case parseUsage L K usage of
       Inl e \<Rightarrow> Inl (Wrapf (''decode NodeMetrics '' @ GetName N item) e)
     | Inr resources \<Rightarrow> decode_node_metrics L K N items (result(GetName N item \<mapsto> resources))))"

definition ListNodeMetrics :: "klib \<Rightarrow> session_lib \<Rightarrow> monitor_lib \<Rightarrow> backend_api \<Rightarrow> (kerr + (string \<rightharpoonup> Resources)) backend" where
  "ListNodeMetrics L K N A = do {
     r \<leftarrow> list_node_metrics A;
     State_Monad.return (case r of Inl e \<Rightarrow> Inl e | Inr items \<Rightarrow> decode_node_metrics L K N items Map.empty) }"

definition container_counter :: "monitor_lib \<Rightarrow> stats_container \<Rightarrow> ContainerCounter option" where
  "container_counter N container = (case so_CPU container of None \<Rightarrow> None
     | Some cpu \<Rightarrow>
         if so_Name container = [] \<or> su_UsageNanoCores cpu = None \<and> su_UsageCoreNanoSeconds cpu = None then None
         else case parse_stats_time N (su_Time cpu) of None \<Rightarrow> None
           | Some observedAt \<Rightarrow> if observedAt = 0 then None else Some \<lparr>
               kt_CPUUsageSeconds = (case su_UsageCoreNanoSeconds cpu of None \<Rightarrow> 0 | Some n \<Rightarrow> counter_seconds (uint n)),
               kt_CPUUsageNanoCores = (case su_UsageNanoCores cpu of None \<Rightarrow> 0 | Some n \<Rightarrow> n),
               kt_CPUUsageNanoCoresAvailable = (su_UsageNanoCores cpu \<noteq> None),
               kt_MemoryWorkingSetBytes = (case so_Memory container of Some (Some n) \<Rightarrow> sint n | _ \<Rightarrow> 0),
               kt_ObservedAt = observedAt\<rparr>)"

definition add_counter :: "monitor_lib \<Rightarrow> stats_container \<Rightarrow> PodCounterMetric \<Rightarrow> PodCounterMetric" where
  "add_counter N container metric = (case container_counter N container of None \<Rightarrow> metric
     | Some counter \<Rightarrow> \<lparr>
         kp_ObservedAt = (if kp_ObservedAt metric = 0 \<or> kt_ObservedAt counter < kp_ObservedAt metric then kt_ObservedAt counter
           else kp_ObservedAt metric),
         kp_Containers = AList.update (so_Name container) counter (kp_Containers metric)\<rparr>)"

definition add_pod_counters :: "monitor_lib \<Rightarrow> stats_pod \<Rightarrow> (string \<times> PodCounterMetric) list \<Rightarrow> (string \<times> PodCounterMetric) list" where
  "add_pod_counters N pod result =
     (if so_Namespace pod = [] \<or> so_PodName pod = [] then result
      else let metric = fold (add_counter N) (so_Containers pod) zero_PodCounterMetric in
        if kp_Containers metric \<noteq> [] then AList.update (so_Namespace pod @ ''/'' @ so_PodName pod) metric result else result)"

definition podCountersFromSummary :: "monitor_lib \<Rightarrow> bytes \<Rightarrow> kerr + (string \<times> PodCounterMetric) list" where
  "podCountersFromSummary N raw = (case Unmarshal_stats N raw of
     Inl e \<Rightarrow> Inl (Wrapf ''parse Kubelet stats summary'' e) | Inr pods \<Rightarrow> Inr (fold (add_pod_counters N) pods []))"

definition GetNodePodCounters :: "monitor_lib \<Rightarrow> backend_api \<Rightarrow> string \<Rightarrow> (kerr + (string \<times> PodCounterMetric) list) backend" where
  "GetNodePodCounters N A nodeName = do {
     r \<leftarrow> node_stats A nodeName;
     State_Monad.return (case r of Inl e \<Rightarrow> Inl e | Inr raw \<Rightarrow> podCountersFromSummary N raw) }"

definition metricsUnavailable :: "kerr \<Rightarrow> bool" where
  "metricsUnavailable e \<longleftrightarrow> IsNotFound e \<or> IsServiceUnavailable e \<or> IsForbidden e"

section \<open>The sampler of live metrics\<close>

definition minimumLiveSampleInterval :: duration where
  "minimumLiveSampleInterval = 500 * 1000000"

definition maximumLiveSampleInterval :: duration where
  "maximumLiveSampleInterval = 2 * 60 * second"

record liveCPUState =
  lv_counterSeconds :: rat
  lv_rawObservedAt :: time
  lv_usage :: int
  lv_memoryBytes :: int
  lv_usageObservedAt :: time
  lv_ready :: bool

definition zero_liveCPUState :: liveCPUState where
  "zero_liveCPUState = \<lparr>lv_counterSeconds = 0, lv_rawObservedAt = 0, lv_usage = 0, lv_memoryBytes = 0, lv_usageObservedAt = 0,
     lv_ready = False\<rparr>"

type_synonym live_states = "string \<rightharpoonup> liveCPUState"

definition live_nanoCoresToMillicores :: "64 word \<Rightarrow> int" where
  "live_nanoCoresToMillicores nanoCores = sint ((nanoCores + 500000) div 1000000)"

definition measured :: "ContainerCounter \<Rightarrow> time \<Rightarrow> int \<Rightarrow> liveCPUState" where
  "measured counter seenAt usage = \<lparr>lv_counterSeconds = kt_CPUUsageSeconds counter, lv_rawObservedAt = seenAt, lv_usage = usage,
     lv_memoryBytes = kt_MemoryWorkingSetBytes counter, lv_usageObservedAt = seenAt, lv_ready = True\<rparr>"

text \<open>The \<open>switch\<close> of \<open>podMetric\<close>: the state after a counter observed at the time \<open>seenAt\<close>.\<close>

definition next_state :: "ContainerCounter \<Rightarrow> time \<Rightarrow> liveCPUState \<Rightarrow> liveCPUState" where
  "next_state counter seenAt state = (let elapsed = time_sub seenAt (lv_rawObservedAt state) in
     if kt_CPUUsageNanoCoresAvailable counter \<and> (lv_rawObservedAt state = 0 \<or> seenAt > lv_rawObservedAt state)
     then measured counter seenAt (live_nanoCoresToMillicores (kt_CPUUsageNanoCores counter))
     else if lv_rawObservedAt state = 0 \<or> kt_CPUUsageSeconds counter < lv_counterSeconds state \<or> seenAt < lv_rawObservedAt state \<or>
       elapsed > maximumLiveSampleInterval
     then zero_liveCPUState\<lparr>lv_counterSeconds := kt_CPUUsageSeconds counter, lv_rawObservedAt := seenAt\<rparr>
     else if elapsed \<ge> minimumLiveSampleInterval
     then measured counter seenAt (max 0 (seconds_rate (kt_CPUUsageSeconds counter) (lv_counterSeconds state) elapsed))
     else state)"

definition counter_time :: "PodCounterMetric \<Rightarrow> ContainerCounter \<Rightarrow> time" where
  "counter_time snapshot counter = (if kt_ObservedAt counter = 0 then kp_ObservedAt snapshot else kt_ObservedAt counter)"

definition live_state :: "live_states \<Rightarrow> string \<Rightarrow> liveCPUState" where
  "live_state states key = (case states key of None \<Rightarrow> zero_liveCPUState | Some state \<Rightarrow> state)"

definition sample_container :: "string \<Rightarrow> PodCounterMetric \<Rightarrow> string \<times> ContainerCounter \<Rightarrow>
    PodMetric \<times> bool \<times> live_states \<Rightarrow> PodMetric \<times> bool \<times> live_states" where
  "sample_container podKey snapshot = (\<lambda>(containerName, counter) (result, complete, states).
     let stateKey = podKey @ ''/'' @ containerName;
         state = next_state counter (counter_time snapshot counter) (live_state states stateKey);
         states' = states(stateKey \<mapsto> state)
     in if \<not> lv_ready state then (result, False, states')
        else (result\<lparr>mp_Containers := AList.update containerName
              \<lparr>ru_CPUMillicores = lv_usage state, ru_MemoryBytes = lv_memoryBytes state\<rparr> (mp_Containers result),
            mp_ObservedAt := min (mp_ObservedAt result) (lv_usageObservedAt state)\<rparr>, complete, states'))"

definition live_podMetric :: "string \<Rightarrow> PodCounterMetric \<Rightarrow> live_states \<Rightarrow> PodMetric \<times> bool \<times> live_states" where
  "live_podMetric podKey snapshot states = fold (sample_container podKey snapshot) (kp_Containers snapshot)
     (\<lparr>mp_ObservedAt = kp_ObservedAt snapshot, mp_Window = 0, mp_Source = ''kubelet-summary'', mp_Containers = []\<rparr>,
      kp_Containers snapshot \<noteq> [], states)"

section \<open>Snapshots\<close>

definition resourceList :: "klib \<Rightarrow> ResourceList \<Rightarrow> Resources" where
  "resourceList L rl = \<lparr>ru_CPUMillicores = (case rl ''cpu'' of None \<Rightarrow> 0 | Some q \<Rightarrow> q_MilliValue L q),
     ru_MemoryBytes = (case rl ''memory'' of None \<Rightarrow> 0 | Some q \<Rightarrow> q_Value L q)\<rparr>"

definition add_resources :: "Resources \<Rightarrow> Resources \<Rightarrow> Resources" where
  "add_resources left right = \<lparr>ru_CPUMillicores = i64 (ru_CPUMillicores left + ru_CPUMillicores right),
     ru_MemoryBytes = i64 (ru_MemoryBytes left + ru_MemoryBytes right)\<rparr>"

definition monitor_podReady :: "Pod \<Rightarrow> bool" where
  "monitor_podReady pod = (case find (\<lambda>c. pc_Type c = ''Ready'') (pod_Conditions pod) of
     None \<Rightarrow> False | Some c \<Rightarrow> pc_Status c = ''True'')"

definition podResizeSnapshot :: "Pod \<Rightarrow> PodResizeSnapshot option" where
  "podResizeSnapshot pod =
     (let active = (\<lambda>ty. find (\<lambda>c. pc_Type c = ty \<and> pc_Status c = ''True'') (pod_Conditions pod));
          snapshot = (\<lambda>c. \<lparr>rz_State = pc_Type c, rz_Reason = pc_Reason c, rz_Message = pc_Message c\<rparr>)
      in case active ''PodResizeInProgress'' of Some c \<Rightarrow> Some (snapshot c) | None \<Rightarrow> map_option snapshot (active ''PodResizePending''))"

definition findContainerStatus :: "Pod \<Rightarrow> string \<Rightarrow> ContainerStatus option" where
  "findContainerStatus pod name = find (\<lambda>s. cs_Name s = name) (pod_ContainerStatuses pod)"

definition monitor_findContainer :: "Pod \<Rightarrow> string \<Rightarrow> Container option" where
  "monitor_findContainer pod name = find (\<lambda>c. ct_Name c = name) (ps_Containers (pod_Spec pod))"

definition monitorAgentContainer :: string where
  "monitorAgentContainer = ''agent''"

text \<open>The limits that the status of a container reports.\<close>

definition actual_limits :: "klib \<Rightarrow> Pod \<Rightarrow> string \<Rightarrow> Resources option" where
  "actual_limits L pod name = (case findContainerStatus pod name of None \<Rightarrow> None
     | Some status \<Rightarrow> map_option (\<lambda>r. resourceList L (rr_Limits r)) (cs_Resources status))"

fun show_load :: "ResourceLoadClass \<Rightarrow> string" where
  "show_load LoadUnset = []"
| "show_load LoadUnknown = ''Unknown''"
| "show_load LoadWarmingUp = ''WarmingUp''"
| "show_load LoadCPUHigh = ''CPUHigh''"
| "show_load LoadCPULow = ''CPULow''"
| "show_load LoadStable = ''Stable''"

text \<open>Its callers pass a Pod, never \<open>nil\<close>.\<close>

definition snapshotAgentScaling :: "klib \<Rightarrow> AgentSession \<Rightarrow> Pod \<Rightarrow> AgentResourceScalingSnapshot" where
  "snapshotAgentScaling L cr pod = (let scaling = st_ResourceScaling (as_Status cr) in \<lparr>
     gs_DesiredResources = (case monitor_findContainer pod monitorAgentContainer of None \<Rightarrow> zero_Resources
       | Some agent \<Rightarrow> resourceList L (rr_Limits (ct_Resources agent))),
     gs_ActualResources = actual_limits L pod monitorAgentContainer,
     gs_ActualResourcesAvailable = (actual_limits L pod monitorAgentContainer \<noteq> None),
     gs_LoadClass = (case scaling of None \<Rightarrow> [] | Some s \<Rightarrow> show_load (sc_LoadClass s)),
     gs_RecommendedCPUMillicores = (case scaling of None \<Rightarrow> 0 | Some s \<Rightarrow> sc_RecommendedCPUMillicores s),
     gs_LastAppliedAt = (case scaling of None \<Rightarrow> None | Some s \<Rightarrow> sc_LastAppliedAt s),
     gs_LastError = (case scaling of None \<Rightarrow> [] | Some s \<Rightarrow> sc_LastError s),
     gs_WorkState = (case FindStatusCondition L (st_Conditions (as_Status cr)) ''Ready'' of None \<Rightarrow> [] | Some c \<Rightarrow> c_Reason c)\<rparr>)"

definition snapshot_container :: "klib \<Rightarrow> Pod \<Rightarrow> PodMetric option \<Rightarrow> Container \<Rightarrow> ContainerSnapshot" where
  "snapshot_container L pod metric container = \<lparr>
     kn_Name = ct_Name container,
     kn_Usage = (case metric of None \<Rightarrow> None | Some m \<Rightarrow> map_of (mp_Containers m) (ct_Name container)),
     kn_Requests = resourceList L (rr_Requests (ct_Resources container)),
     kn_Limits = resourceList L (rr_Limits (ct_Resources container)),
     kn_ActualLimits = actual_limits L pod (ct_Name container),
     kn_ActualResourcesAvailable = (actual_limits L pod (ct_Name container) \<noteq> None)\<rparr>"

definition sum_resources :: "Resources list \<Rightarrow> Resources" where
  "sum_resources rs = fold (\<lambda>r total. add_resources total r) rs zero_Resources"

definition pod_session :: "Pod \<Rightarrow> string" where
  "pod_session pod = sget (om_Labels (pod_Meta pod)) ''bosun.io/session''"

definition is_agent :: "Pod \<Rightarrow> bool" where
  "is_agent pod \<longleftrightarrow> pod_session pod \<noteq> [] \<and> sget (om_Labels (pod_Meta pod)) ''app.kubernetes.io/managed-by'' = ''bosun''"

text \<open>A \<open>nil\<close> map of owners reads like an empty one.\<close>

definition snapshotPod :: "klib \<Rightarrow> Pod \<Rightarrow> PodMetric option \<Rightarrow> (string \<rightharpoonup> AgentOwner) \<Rightarrow> (string \<rightharpoonup> AgentSession) \<Rightarrow> PodSnapshot" where
  "snapshotPod L pod metric owners scalingBySession =
     (let containers = map (snapshot_container L pod metric) (ps_Containers (pod_Spec pod));
          owner = (if is_agent pod then owners (pod_session pod) else None)
      in \<lparr>po_Namespace = om_Namespace (pod_Meta pod), po_Name = om_Name (pod_Meta pod),
       po_Phase = (if om_DeletionTimestamp (pod_Meta pod) \<noteq> None then ''Terminating'' else pod_Phase pod),
       po_Resize = podResizeSnapshot pod, po_NodeName = ps_NodeName (pod_Spec pod), po_Ready = monitor_podReady pod,
       po_Restarts = fold (\<lambda>s n. i32 (n + cs_RestartCount s)) (pod_ContainerStatuses pod) 0,
       po_CreatedAt = om_CreationTimestamp (pod_Meta pod),
       po_MetricsObservedAt = (case metric of None \<Rightarrow> None | Some m \<Rightarrow> if mp_ObservedAt m = 0 then None else Some (mp_ObservedAt m)),
       po_MetricsWindowSeconds = (case metric of None \<Rightarrow> 0 | Some m \<Rightarrow> Seconds (mp_Window m)),
       po_MetricsSource = (case metric of None \<Rightarrow> [] | Some m \<Rightarrow> mp_Source m),
       po_Usage = map_option (\<lambda>m. sum_resources (map snd (mp_Containers m))) metric,
       po_Requests = sum_resources (map kn_Requests containers), po_Limits = sum_resources (map kn_Limits containers),
       po_Containers = containers, po_IsAgent = is_agent pod, po_SessionID = pod_session pod,
       po_SessionName = (case owner of None \<Rightarrow> [] | Some ow \<Rightarrow> ow_SessionName ow),
       po_Username = (case owner of None \<Rightarrow> [] | Some ow \<Rightarrow> ow_Username ow),
       po_ResourceScaling = (if is_agent pod then map_option (\<lambda>cr. snapshotAgentScaling L cr pod) (scalingBySession (pod_session pod)) else None)\<rparr>)"

definition node_role_prefix :: string where
  "node_role_prefix = ''node-role.kubernetes.io/''"

definition snapshotNode :: "klib \<Rightarrow> monitor_lib \<Rightarrow> Node \<Rightarrow> Resources option \<Rightarrow> NodeSnapshot" where
  "snapshotNode L N node usage =
     (let roles = map (drop (length node_role_prefix)) (filter (\<lambda>label. length label > length node_role_prefix \<and> HasPrefix label node_role_prefix)
            (label_keys N (nd_Meta node)));
          role = sget (om_Labels (nd_Meta node)) ''role''
      in \<lparr>no_Name = om_Name (nd_Meta node),
       no_Status = (if (''Ready'', ''True'') \<in> set (nd_Conditions node) then ''Ready'' else ''NotReady''),
       no_Roles = sort (roles @ (if role = [] then [] else [role])),
       no_Kubelet = nd_KubeletVersion node, no_Usage = usage, no_Capacity = resourceList L (nd_Capacity node),
       no_Allocatable = resourceList L (nd_Allocatable node)\<rparr>)"

section \<open>Requests\<close>

text \<open>The deadline of eight seconds shows as an error answer.\<close>

definition agent_owners :: "database \<Rightarrow> string \<rightharpoonup> AgentOwner" where
  "agent_owners d = fold (\<lambda>row owners. case find (\<lambda>u. bu_ID u = bs_UserID row) (db_users d) of None \<Rightarrow> owners
     | Some user \<Rightarrow> owners(bs_ID row \<mapsto> \<lparr>ow_Username = bu_Email user, ow_SessionName = bs_DisplayName row\<rparr>)) (db_sessions d) Map.empty"

definition ListAgentOwners :: "backend_api \<Rightarrow> (backend_error + (string \<rightharpoonup> AgentOwner)) backend" where
  "ListAgentOwners A = db_run A ''ListAgentOwners'' [(''list agent Pod owners'', \<lambda>now d r. TxGo d (agent_owners d))] Map.empty"

definition ListAgentSessions :: "backend_api \<Rightarrow> (kerr + AgentSession list) backend" where
  "ListAgentSessions A = do {
     r \<leftarrow> list_cr A;
     State_Monad.return (case r of Inl e \<Rightarrow> Inl e | Inr (items, _) \<Rightarrow> Inr items) }"

definition pod_key :: "ObjectMeta \<Rightarrow> string" where
  "pod_key m = om_Namespace m @ ''/'' @ om_Name m"

text \<open>The metric of a session: the live one where the sampler has it, else the one of the metrics server.\<close>

definition session_metric :: "monitor_lib \<Rightarrow> backend_api \<Rightarrow> live_states \<Rightarrow> Pod \<Rightarrow> PodMetric option \<Rightarrow> (PodMetric option \<times> live_states) backend" where
  "session_metric N A live pod metric =
     (if ps_NodeName (pod_Spec pod) = [] then State_Monad.return (metric, live)
      else do {
        c \<leftarrow> GetNodePodCounters N A (ps_NodeName (pod_Spec pod));
        State_Monad.return (case c of Inl _ \<Rightarrow> (metric, live)
          | Inr counters \<Rightarrow> (case live_podMetric (pod_key (pod_Meta pod))
                (case map_of counters (pod_key (pod_Meta pod)) of None \<Rightarrow> zero_PodCounterMetric | Some k \<Rightarrow> k) live of
              (liveMetric, ready, live') \<Rightarrow> (if ready then Some liveMetric else metric, live'))) })"

definition kube_failure :: "string \<Rightarrow> kerr \<Rightarrow> backend_error" where
  "kube_failure label e = Wrapped label (KubeError e)"

definition session_result :: "klib \<Rightarrow> backend_api \<Rightarrow> Session \<Rightarrow> Pod \<Rightarrow> PodMetric option \<Rightarrow> (backend_error + SessionSnapshot) backend" where
  "session_result L A rec pod metric = do {
     g \<leftarrow> get_cr A (ss_CRNamespace rec, ss_CRName rec);
     case g of
       Inl e \<Rightarrow> State_Monad.return (Inl (if IsNotFound e then ErrSessionNotFound else kube_failure ''get session AgentSession'' e))
     | Inr cr \<Rightarrow> do {
         now \<leftarrow> clock A;
         State_Monad.return (Inr \<lparr>sn_ObservedAt = now, sn_MetricsAvailable = (metric \<noteq> None),
           sn_Pod = snapshotPod L pod metric Map.empty [sp_SessionID (as_Spec cr) \<mapsto> cr]\<rparr>) } }"

text \<open>The request once the Pod is read, and from its start.\<close>

definition session_of_pod :: "klib \<Rightarrow> session_lib \<Rightarrow> monitor_lib \<Rightarrow> backend_api \<Rightarrow> live_states \<Rightarrow> Session \<Rightarrow> Pod \<Rightarrow>
    ((backend_error + SessionSnapshot) \<times> live_states) backend" where
  "session_of_pod L K N A live rec pod = do {
     m \<leftarrow> GetPodMetric L K N A (ObjectKey (pod_Meta pod));
     (metric, live') \<leftarrow> session_metric N A live pod (case m of Inl _ \<Rightarrow> None | Inr x \<Rightarrow> Some x);
     case (if metric = None then (case m of Inl e \<Rightarrow> if metricsUnavailable e then None else Some e | Inr _ \<Rightarrow> None) else None) of
       Some e \<Rightarrow> State_Monad.return (Inl (kube_failure ''get session Pod metrics'' e), live')
     | None \<Rightarrow> do { s \<leftarrow> session_result L A rec pod metric; State_Monad.return (s, live') } }"

definition monitor_Session :: "klib \<Rightarrow> session_lib \<Rightarrow> monitor_lib \<Rightarrow> backend_api \<Rightarrow> live_states \<Rightarrow> uuid \<Rightarrow> uuid \<Rightarrow>
    ((backend_error + SessionSnapshot) \<times> live_states) backend" where
  "monitor_Session L K N A live userID sessionID = do {
     r \<leftarrow> store_Get K A userID sessionID;
     case r of Inl e \<Rightarrow> State_Monad.return (Inl e, live)
     | Inr rec \<Rightarrow> do {
         p \<leftarrow> backend_get_pod A (ss_CRNamespace rec, PodName L (ss_ID rec));
         case p of
           Inl e \<Rightarrow> State_Monad.return (Inl (if IsNotFound e then ErrSessionNotFound else kube_failure ''get session Pod'' e), live)
         | Inr pod \<Rightarrow> session_of_pod L K N A live rec pod } }"

definition sample_counters :: "(string \<times> PodCounterMetric) list \<Rightarrow> (string \<rightharpoonup> PodMetric) \<times> bool \<times> live_states \<Rightarrow>
    (string \<rightharpoonup> PodMetric) \<times> bool \<times> live_states" where
  "sample_counters = fold (\<lambda>(podKey, counter) (podMetrics, available, live).
     case live_podMetric podKey counter live of
       (liveMetric, ready, live') \<Rightarrow> (if ready then podMetrics(podKey \<mapsto> liveMetric) else podMetrics, available \<or> ready, live'))"

definition sample_node_counters :: "monitor_lib \<Rightarrow> backend_api \<Rightarrow> Node \<Rightarrow> (string \<rightharpoonup> PodMetric) \<times> bool \<times> live_states \<Rightarrow>
    ((string \<rightharpoonup> PodMetric) \<times> bool \<times> live_states) backend" where
  "sample_node_counters N A node acc = do {
     c \<leftarrow> GetNodePodCounters N A (om_Name (nd_Meta node));
     State_Monad.return (case c of Inl _ \<Rightarrow> acc | Inr counters \<Rightarrow> sample_counters counters acc) }"

definition cluster_result :: "klib \<Rightarrow> monitor_lib \<Rightarrow> time \<Rightarrow> Node list \<Rightarrow> Pod list \<Rightarrow> (string \<rightharpoonup> AgentOwner) \<Rightarrow> AgentSession list \<Rightarrow>
    (string \<rightharpoonup> PodMetric) \<times> bool \<Rightarrow> kerr + (string \<rightharpoonup> Resources) \<Rightarrow> ClusterSnapshot" where
  "cluster_result L N now nodes pods owners sessions pm nm =
     (let scaling = fold (\<lambda>s scaling. scaling(sp_SessionID (as_Spec s) \<mapsto> s)) sessions Map.empty;
          nodeMetrics = (case nm of Inl _ \<Rightarrow> Map.empty | Inr x \<Rightarrow> x)
      in \<lparr>cn_ObservedAt = now, cn_PodMetricsAvailable = snd pm, cn_NodeMetricsAvailable = (\<not> isl nm),
       cn_Nodes = sort_key no_Name (map (\<lambda>node. snapshotNode L N node (nodeMetrics (om_Name (nd_Meta node)))) nodes),
       cn_Pods = sort_key (\<lambda>p. (po_Namespace p, po_Name p))
         (map (\<lambda>pod. snapshotPod L pod (fst pm (pod_key (pod_Meta pod))) owners scaling) pods)\<rparr>)"

text \<open>The metrics of the cluster: an error that says they are unavailable is tolerated.\<close>

definition fatal :: "string \<Rightarrow> kerr + 'a \<Rightarrow> backend_error option" where
  "fatal label r = (case r of Inl e \<Rightarrow> if metricsUnavailable e then None else Some (kube_failure label e) | Inr _ \<Rightarrow> None)"

definition cluster_metrics :: "klib \<Rightarrow> session_lib \<Rightarrow> monitor_lib \<Rightarrow> backend_api \<Rightarrow> live_states \<Rightarrow> Node list \<Rightarrow>
    ((backend_error + ((string \<rightharpoonup> PodMetric) \<times> bool) \<times> (kerr + (string \<rightharpoonup> Resources))) \<times> live_states) backend" where
  "cluster_metrics L K N A live nodes = do {
     pm \<leftarrow> ListPodMetrics L K N A;
     case fatal ''list Pod metrics'' pm of Some e \<Rightarrow> State_Monad.return (Inl e, live)
     | None \<Rightarrow> do {
         nm \<leftarrow> ListNodeMetrics L K N A;
         case fatal ''list Node metrics'' nm of Some e \<Rightarrow> State_Monad.return (Inl e, live)
         | None \<Rightarrow> do {
             (podMetrics, available, live') \<leftarrow> fold_prog (sample_node_counters N A) nodes
               (case pm of Inl _ \<Rightarrow> Map.empty | Inr x \<Rightarrow> x, \<not> isl pm, live);
             State_Monad.return (Inr ((podMetrics, available), nm), live') } } }"

definition monitor_Cluster :: "klib \<Rightarrow> session_lib \<Rightarrow> monitor_lib \<Rightarrow> backend_api \<Rightarrow> live_states \<Rightarrow>
    ((backend_error + ClusterSnapshot) \<times> live_states) backend" where
  "monitor_Cluster L K N A live = do {
     n \<leftarrow> list_nodes A;
     case n of Inl e \<Rightarrow> State_Monad.return (Inl (kube_failure ''list Nodes'' e), live) | Inr nodes \<Rightarrow> do {
     p \<leftarrow> list_pods A;
     case p of Inl e \<Rightarrow> State_Monad.return (Inl (kube_failure ''list Pods'' e), live) | Inr pods \<Rightarrow> do {
     ow \<leftarrow> ListAgentOwners A;
     case ow of Inl e \<Rightarrow> State_Monad.return (Inl e, live) | Inr owners \<Rightarrow> do {
     s \<leftarrow> ListAgentSessions A;
     case s of Inl e \<Rightarrow> State_Monad.return (Inl (kube_failure ''list AgentSessions'' e), live) | Inr sessions \<Rightarrow> do {
     (m, live') \<leftarrow> cluster_metrics L K N A live nodes;
     case m of Inl e \<Rightarrow> State_Monad.return (Inl e, live')
     | Inr (pm, nm) \<Rightarrow> do {
         now \<leftarrow> clock A;
         State_Monad.return (Inr (cluster_result L N now nodes pods owners sessions pm nm), live') } } } } } }"

end
