(* ===== verification/Api_Server.thy ===== *)
theory Api_Server
  imports Monitor Terminal
begin

text \<open>
  The HTTP application of the backend, \<open>backend/internal/app\<close>: the routes, the middleware and the handlers, with the errors of
  \<open>apierr\<close> and the envelopes of \<open>envelope\<close>. A request arrives as gin hands it to a handler: the pattern of the route it
  matched, the value of \<open>:id\<close>, headers, query, cookies and body. The response is a value; where the code writes JSON it is the
  data that is encoded. The memory of the process, the two limiters of logins and the states of the live sampler, is an
  argument and a result.
\<close>

section \<open>Errors and responses\<close>

text \<open>The texts that differ from the one of the error.\<close>

datatype api_message = ErrorText | MissingKeyText | EmailTakenText | OkText | DeletionText

definition api_InvalidArgument :: "int \<times> int" where "api_InvalidArgument = (400, 10001)"
definition api_IdempotencyConflict :: "int \<times> int" where "api_IdempotencyConflict = (409, 10002)"
definition api_RateLimited :: "int \<times> int" where "api_RateLimited = (429, 20003)"
definition api_InvalidTransition :: "int \<times> int" where "api_InvalidTransition = (409, 30002)"
definition api_CapacityUnavailable :: "int \<times> int" where "api_CapacityUnavailable = (409, 30003)"
definition api_EnvironmentFailed :: "int \<times> int" where "api_EnvironmentFailed = (409, 30005)"
definition api_EnvironmentNotReady :: "int \<times> int" where "api_EnvironmentNotReady = (409, 30006)"

lemmas api_codes = api_InvalidArgument_def api_IdempotencyConflict_def api_RateLimited_def api_InvalidTransition_def
  api_CapacityUnavailable_def api_EnvironmentFailed_def api_EnvironmentNotReady_def api_SessionNotFound_def api_InvalidCredentials_def
  api_TokenExpired_def api_Internal_def

record userDTO =
  ud_ID :: string
  ud_Email :: string
  ud_CreatedAt :: string

record tokenResponse =
  tk_AccessToken :: string
  tk_TokenType :: string
  tk_AccessExpiresAt :: string
  tk_User :: userDTO

record registerResponse =
  re_User :: userDTO
  re_EnvironmentPhase :: string

datatype api_body =
  ErrorBody int api_message
  | RawBody bytes
  | TokenBody tokenResponse
  | MeBody registerResponse
  | LoggedOutBody
  | SessionBody api_message DTO
  | SessionsBody "DTO list" int
  | ResourcesBody SessionSnapshot
  | ClusterBody ClusterSnapshot
  | StatusBody string string
  | TerminalBody "Target option"
  | NoRouteBody

record http_cookie =
  ck_Name :: string
  ck_Value :: string
  ck_Path :: string
  ck_MaxAge :: int
  ck_HttpOnly :: bool
  ck_Secure :: bool
  ck_SameSiteStrict :: bool

record api_response =
  aw_Status :: int
  aw_Body :: api_body
  aw_Cookies :: "http_cookie list"

record api_request =
  ap_Method :: string
  ap_FullPath :: string
  ap_ID :: string
  ap_Header :: http_header
  ap_Protocols :: "string list"
  ap_Query :: strmap
  ap_Cookies :: strmap
  ap_Body :: "bytes option"
  ap_RemoteAddr :: string

definition StatusOK :: int where "StatusOK = 200"

definition json_reply :: "int \<Rightarrow> api_body \<Rightarrow> api_response" where
  "json_reply status body = \<lparr>aw_Status = status, aw_Body = body, aw_Cookies = []\<rparr>"

definition writeErrorMessage :: "int \<times> int \<Rightarrow> api_message \<Rightarrow> api_response" where
  "writeErrorMessage e message = json_reply (fst e) (ErrorBody (snd e) message)"

definition apierr_Write :: "int \<times> int \<Rightarrow> api_response" where
  "apierr_Write e = json_reply (fst e) (ErrorBody (snd e) ErrorText)"

definition envelope_OK :: "api_body \<Rightarrow> api_response" where
  "envelope_OK body = json_reply StatusOK body"

definition mapSessionError :: "backend_error \<Rightarrow> int \<times> int" where
  "mapSessionError e =
     (if errors_Is e ErrSessionValidation then api_InvalidArgument
      else if errors_Is e ErrIdempotency then api_IdempotencyConflict
      else if errors_Is e ErrSessionNotFound then api_SessionNotFound
      else if errors_Is e ErrInvalidTransition \<or> errors_Is e ErrConcurrentUpdate then api_InvalidTransition
      else if errors_Is e ErrCapacity then api_CapacityUnavailable
      else if errors_Is e ErrEnvironmentFailed then api_EnvironmentFailed
      else if errors_Is e ErrEnvironmentReady then api_EnvironmentNotReady
      else api_Internal)"

definition mapAuthError :: "backend_error \<Rightarrow> int \<times> int" where
  "mapAuthError e =
     (if errors_Is e ErrAuthValidation then api_InvalidArgument
      else if errors_Is e ErrEmailTaken then api_InvalidArgument
      else if errors_Is e ErrInvalidCredentials then api_InvalidCredentials
      else if errors_Is e ErrRefreshExpired then api_TokenExpired
      else api_Internal)"

section \<open>Configuration, memory and libraries\<close>

record CookieConfig =
  cc_Name :: string
  cc_Path :: string
  cc_Secure :: bool
  cc_TTL :: duration

record authHandler =
  ah_svc :: auth_config
  ah_cookie :: CookieConfig
  ah_trustedProxyHeader :: string

record api_mem =
  am_loginByIP :: Limiter
  am_loginByEmail :: Limiter
  am_live :: live_states

text \<open>The JSON decoder and encoder; the decoder of a login reads from the body, that of the others from its bytes.\<close>

record app_lib =
  Unmarshal_register :: "bytes \<Rightarrow> (string \<times> string) option"
  Bind_login :: "bytes option \<Rightarrow> (string \<times> string) option"
  Unmarshal_create :: "bytes \<Rightarrow> CreateRequest option"
  Marshal_registered :: "registerResponse \<Rightarrow> bytes"
  Marshal_error :: "int \<Rightarrow> api_message \<Rightarrow> bytes"

record api_env =
  ev_L :: klib
  ev_K :: session_lib
  ev_C :: auth_lib
  ev_N :: monitor_lib
  ev_J :: app_lib
  ev_A :: backend_api
  ev_h :: authHandler

section \<open>Middleware\<close>

definition clientIP :: "api_request \<Rightarrow> string \<Rightarrow> string" where
  "clientIP c trustedHeader =
     (if trustedHeader \<noteq> [] \<and> header_Get (ap_Header c) trustedHeader \<noteq> []
      then TrimSpace (hd (Split CHR '','' (header_Get (ap_Header c) trustedHeader)))
      else case SplitHost (ap_RemoteAddr c) of None \<Rightarrow> ap_RemoteAddr c | Some host \<Rightarrow> host)"

text \<open>The request identifier of a response: reused or new.\<close>

definition requestIDMiddleware :: "backend_api \<Rightarrow> api_request \<Rightarrow> string backend" where
  "requestIDMiddleware A c = (let i = header_Get (ap_Header c) ''X-Request-Id'' in
     if i = [] then random_uuid A else State_Monad.return i)"

definition bearer_token :: "api_request \<Rightarrow> string option" where
  "bearer_token c = (let header = header_Get (ap_Header c) ''Authorization'' in
     if HasPrefix header ''Bearer '' then Some (TrimSpace (drop (length ''Bearer '') header)) else None)"

text \<open>The user identifier for the context of the request, or the answer that ends it.\<close>

definition requireAuth :: "api_env \<Rightarrow> api_request \<Rightarrow> (api_response + string) backend" where
  "requireAuth E c = (case bearer_token c of
     None \<Rightarrow> State_Monad.return (Inl (apierr_Write api_InvalidCredentials))
   | Some token \<Rightarrow> do {
       now \<leftarrow> clock (ev_A E);
       State_Monad.return (case Verify (ev_C E) (ac_issuer (ah_svc (ev_h E))) token now of
         Inl e \<Rightarrow> Inl (apierr_Write (if e = ErrTokenExpired then api_TokenExpired else api_InvalidCredentials))
       | Inr claims \<Rightarrow> Inr (cl_UserID claims)) })"

section \<open>Authentication handlers\<close>

definition toUserDTO :: "session_lib \<Rightarrow> User \<Rightarrow> userDTO" where
  "toUserDTO K u = \<lparr>ud_ID = u_ID u, ud_Email = u_Email u, ud_CreatedAt = Format_RFC3339 K (u_CreatedAt u)\<rparr>"

definition toIdemRecord :: "IdempotencyRecord option \<Rightarrow> IdemRecord option" where
  "toIdemRecord r = map_option (\<lambda>x. \<lparr>id_RequestHash = ir_RequestHash x, id_Status = ir_Status x, id_Body = ir_Body x\<rparr>) r"

definition renderOK :: "app_lib \<Rightarrow> registerResponse \<Rightarrow> int \<times> bytes" where
  "renderOK J data = (StatusOK, Marshal_registered J data)"

definition renderError :: "app_lib \<Rightarrow> int \<times> int \<Rightarrow> api_message \<Rightarrow> int \<times> bytes" where
  "renderError J e message = (fst e, Marshal_error J (snd e) message)"

definition uuid_Nil :: uuid where
  "uuid_Nil = ''00000000-0000-0000-0000-000000000000''"

definition register_record :: "api_request \<Rightarrow> string \<Rightarrow> bytes \<Rightarrow> int \<times> bytes \<Rightarrow> time \<Rightarrow> IdempotencyRecord" where
  "register_record c key requestHash reply now = \<lparr>ir_Scope = uuid_Nil, ir_Key = key, ir_Method = ap_Method c, ir_Path = ap_FullPath c,
     ir_RequestHash = requestHash, ir_Status = fst reply, ir_Body = snd reply, ir_ExpiresAt = now + day\<rparr>"

text \<open>A registration under a key without a record; only a success is recorded.\<close>

definition register_new :: "api_env \<Rightarrow> api_request \<Rightarrow> string \<Rightarrow> bytes \<Rightarrow> bytes \<Rightarrow> ((int \<times> bytes) \<times> backend_error option) backend" where
  "register_new E c key body requestHash = (case Unmarshal_register (ev_J E) body of
     None \<Rightarrow> State_Monad.return (renderError (ev_J E) api_InvalidArgument ErrorText, None)
   | Some (email, password) \<Rightarrow> do {
       r \<leftarrow> Register (ev_L E) (ev_C E) (ev_A E) (ah_svc (ev_h E)) email password;
       case r of
         Inl e \<Rightarrow> State_Monad.return (renderError (ev_J E) (mapAuthError e) (if errors_Is e ErrEmailTaken then EmailTakenText else ErrorText), None)
       | Inr res \<Rightarrow> do {
           let reply = renderOK (ev_J E) \<lparr>re_User = toUserDTO (ev_K E) (rr_User res), re_EnvironmentPhase = rr_EnvironmentPhase res\<rparr>;
           now \<leftarrow> clock (ev_A E);
           i \<leftarrow> InsertIdempotencyKey (ev_A E) (register_record c key requestHash reply now);
           State_Monad.return (reply, case i of Inl e \<Rightarrow> Some (Wrapped ''insert idempotency key'' e)
             | Inr inserted \<Rightarrow> if inserted then None else Some (Failure ''active idempotency key appeared while lock was held'')) } })"

definition register_callback :: "api_env \<Rightarrow> api_request \<Rightarrow> string \<Rightarrow> bytes \<Rightarrow> bytes \<Rightarrow> ((int \<times> bytes) \<times> backend_error option) backend" where
  "register_callback E c key body requestHash = do {
     g \<leftarrow> GetIdempotencyKey (ev_A E) uuid_Nil key;
     case g of
       Inl e \<Rightarrow> State_Monad.return ((0, []), Some (Wrapped ''get idempotency key'' e))
     | Inr existing \<Rightarrow> (case Decide (toIdemRecord existing) requestHash of
         Replay \<Rightarrow> State_Monad.return ((ir_Status (the existing), ir_Body (the existing)), None)
       | Conflict \<Rightarrow> State_Monad.return (renderError (ev_J E) api_IdempotencyConflict ErrorText, None)
       | Proceed \<Rightarrow> register_new E c key body requestHash) }"

definition register :: "api_env \<Rightarrow> api_request \<Rightarrow> api_response backend" where
  "register E c = (let key = header_Get (ap_Header c) ''Idempotency-Key'' in
     if key = [] then State_Monad.return (writeErrorMessage api_InvalidArgument MissingKeyText)
     else case ap_Body c of None \<Rightarrow> State_Monad.return (apierr_Write api_InvalidArgument)
       | Some body \<Rightarrow> do {
           (reply, err) \<leftarrow> WithIdempotencyLock (ev_A E) (0, [])
             (register_callback E c key body (RequestHash (ev_L E) (ap_Method c) (ap_FullPath c) body));
           State_Monad.return (if err \<noteq> None then apierr_Write api_Internal else json_reply (fst reply) (RawBody (snd reply))) })"

text \<open>\<open>int(d.Seconds())\<close> of a cookie's lifetime.\<close>

definition cookie_age :: "duration \<Rightarrow> int" where
  "cookie_age d = (if Seconds d \<ge> 0 then \<lfloor>Seconds d\<rfloor> else - \<lfloor>- Seconds d\<rfloor>)"

definition refresh_cookie :: "CookieConfig \<Rightarrow> string \<Rightarrow> int \<Rightarrow> http_cookie" where
  "refresh_cookie cfg raw age = \<lparr>ck_Name = cc_Name cfg, ck_Value = raw, ck_Path = cc_Path cfg, ck_MaxAge = age, ck_HttpOnly = True,
     ck_Secure = cc_Secure cfg, ck_SameSiteStrict = True\<rparr>"

definition setRefreshCookie :: "CookieConfig \<Rightarrow> string \<Rightarrow> api_response \<Rightarrow> api_response" where
  "setRefreshCookie cfg raw r = r\<lparr>aw_Cookies := aw_Cookies r @ [refresh_cookie cfg raw (cookie_age (cc_TTL cfg))]\<rparr>"

definition clearRefreshCookie :: "CookieConfig \<Rightarrow> api_response \<Rightarrow> api_response" where
  "clearRefreshCookie cfg r = r\<lparr>aw_Cookies := aw_Cookies r @ [refresh_cookie cfg [] (- 1)]\<rparr>"

definition token_reply :: "session_lib \<Rightarrow> CookieConfig \<Rightarrow> TokenResult \<Rightarrow> api_response" where
  "token_reply K cfg tok = setRefreshCookie cfg (to_RefreshToken tok) (json_reply StatusOK (TokenBody \<lparr>tk_AccessToken = to_AccessToken tok,
     tk_TokenType = ''Bearer'', tk_AccessExpiresAt = Format_RFC3339 K (to_AccessExpiresAt tok), tk_User = toUserDTO K (to_User tok)\<rparr>))"

definition normalizeForKey :: "auth_lib \<Rightarrow> string \<Rightarrow> string" where
  "normalizeForKey C email = ToLower C (TrimSpace email)"

text \<open>Both limiters count only when the first one allows the attempt.\<close>

definition allow_login :: "string \<Rightarrow> string \<Rightarrow> time \<Rightarrow> api_mem \<Rightarrow> bool \<times> api_mem" where
  "allow_login ip emailKey now m = (case Allow ip now (am_loginByIP m) of (ok, l) \<Rightarrow>
     let m' = m\<lparr>am_loginByIP := l\<rparr> in
     if \<not> ok then (False, m')
     else case Allow emailKey now (am_loginByEmail m') of (ok', l') \<Rightarrow> (ok', m'\<lparr>am_loginByEmail := l'\<rparr>))"

definition login :: "api_env \<Rightarrow> api_request \<Rightarrow> api_mem \<Rightarrow> (api_response \<times> api_mem) backend" where
  "login E c m = (case Bind_login (ev_J E) (ap_Body c) of
     None \<Rightarrow> State_Monad.return (apierr_Write api_InvalidArgument, m)
   | Some (email, password) \<Rightarrow> do {
       now \<leftarrow> clock (ev_A E);
       case allow_login (clientIP c (ah_trustedProxyHeader (ev_h E))) (normalizeForKey (ev_C E) email) now m of (ok, m') \<Rightarrow>
       if \<not> ok then State_Monad.return (apierr_Write api_RateLimited, m')
       else do {
         r \<leftarrow> Login (ev_L E) (ev_C E) (ev_A E) (ah_svc (ev_h E)) email password;
         State_Monad.return (case r of Inl e \<Rightarrow> apierr_Write (mapAuthError e) | Inr tok \<Rightarrow> token_reply (ev_K E) (ah_cookie (ev_h E)) tok, m') } })"

definition refresh :: "api_env \<Rightarrow> api_request \<Rightarrow> api_response backend" where
  "refresh E c = do {
     r \<leftarrow> Refresh (ev_C E) (ev_A E) (ah_svc (ev_h E)) (sget (ap_Cookies c) (cc_Name (ah_cookie (ev_h E))));
     State_Monad.return (case r of
       Inl e \<Rightarrow> clearRefreshCookie (ah_cookie (ev_h E)) (apierr_Write (mapAuthError e))
     | Inr tok \<Rightarrow> token_reply (ev_K E) (ah_cookie (ev_h E)) tok) }"

definition logout :: "api_env \<Rightarrow> api_request \<Rightarrow> api_response backend" where
  "logout E c = do {
     r \<leftarrow> Logout (ev_C E) (ev_A E) (sget (ap_Cookies c) (cc_Name (ah_cookie (ev_h E))));
     State_Monad.return (if r \<noteq> None then apierr_Write api_Internal
       else clearRefreshCookie (ah_cookie (ev_h E)) (json_reply StatusOK LoggedOutBody)) }"

definition me :: "api_env \<Rightarrow> string \<Rightarrow> api_response backend" where
  "me E userIDStr = (case uuid_Parse (ev_K E) userIDStr of
     None \<Rightarrow> State_Monad.return (apierr_Write api_InvalidCredentials)
   | Some userID \<Rightarrow> do {
       r \<leftarrow> Me (ev_L E) (ev_A E) userID;
       State_Monad.return (case r of Inl e \<Rightarrow> apierr_Write (mapAuthError e)
         | Inr res \<Rightarrow> json_reply StatusOK (MeBody \<lparr>re_User = toUserDTO (ev_K E) (me_User res), re_EnvironmentPhase = me_EnvironmentPhase res\<rparr>)) })"

section \<open>Session handlers\<close>

definition authenticatedUserID :: "session_lib \<Rightarrow> string \<Rightarrow> uuid option" where
  "authenticatedUserID K user = uuid_Parse K user"

definition sessionIDs :: "session_lib \<Rightarrow> string \<Rightarrow> api_request \<Rightarrow> (uuid \<times> uuid) option" where
  "sessionIDs K user c = (case authenticatedUserID K user of None \<Rightarrow> None
     | Some userID \<Rightarrow> map_option (\<lambda>sessionID. (userID, sessionID)) (uuid_Parse K (ap_ID c)))"

text \<open>\<open>strconv.ParseInt(s, 10, 32)\<close>.\<close>

definition ParseInt32 :: "string \<Rightarrow> int option" where
  "ParseInt32 s = (case ParseInt64 s of None \<Rightarrow> None | Some v \<Rightarrow> if - (2 ^ 31) \<le> v \<and> v < 2 ^ 31 then Some v else None)"

definition page_param :: "strmap \<Rightarrow> string \<Rightarrow> int \<Rightarrow> int option" where
  "page_param query name fallback = (if sget query name = [] then Some fallback else ParseInt32 (sget query name))"

definition pagination :: "api_request \<Rightarrow> (int \<times> int) option" where
  "pagination c = (case page_param (ap_Query c) ''page'' 1 of None \<Rightarrow> None
     | Some page \<Rightarrow> (case page_param (ap_Query c) ''page_size'' 20 of None \<Rightarrow> None
       | Some n \<Rightarrow> if page < 1 \<or> n < 1 \<or> n > 100 then None else Some (page, n)))"

definition create_handler :: "api_env \<Rightarrow> string \<Rightarrow> api_request \<Rightarrow> api_response backend" where
  "create_handler E user c = (let key = header_Get (ap_Header c) ''Idempotency-Key'' in
     if key = [] then State_Monad.return (writeErrorMessage api_InvalidArgument MissingKeyText)
     else case ap_Body c of None \<Rightarrow> State_Monad.return (apierr_Write api_InvalidArgument)
       | Some body \<Rightarrow> (case Unmarshal_create (ev_J E) body of None \<Rightarrow> State_Monad.return (apierr_Write api_InvalidArgument)
         | Some req \<Rightarrow> (case authenticatedUserID (ev_K E) user of None \<Rightarrow> State_Monad.return (apierr_Write api_InvalidCredentials)
           | Some userID \<Rightarrow> do {
               (out, err) \<leftarrow> session_Create (ev_L E) (ev_K E) (ev_A E) userID key (ap_Method c) (ap_FullPath c)
                 (RequestHash (ev_L E) (ap_Method c) (ap_FullPath c) body) req;
               State_Monad.return (case err of Some e \<Rightarrow> apierr_Write (mapSessionError e)
                 | None \<Rightarrow> json_reply (co_Status out) (RawBody (co_Body out))) })))"

definition list_handler :: "api_env \<Rightarrow> string \<Rightarrow> api_request \<Rightarrow> api_response backend" where
  "list_handler E user c = (case authenticatedUserID (ev_K E) user of None \<Rightarrow> State_Monad.return (apierr_Write api_InvalidCredentials)
     | Some userID \<Rightarrow> (case pagination c of None \<Rightarrow> State_Monad.return (apierr_Write api_InvalidArgument)
       | Some (page, n) \<Rightarrow> do {
           r \<leftarrow> session_List (ev_K E) (ev_A E) userID page n;
           State_Monad.return (case r of Inl e \<Rightarrow> apierr_Write (mapSessionError e)
             | Inr result \<Rightarrow> json_reply StatusOK (SessionsBody (map (toDTO (ev_L E) (ev_K E)) (pg_Items result)) (pg_Total result))) }))"

text \<open>The answer with one session.\<close>

definition session_reply :: "api_env \<Rightarrow> int \<Rightarrow> api_message \<Rightarrow> backend_error + Session \<Rightarrow> api_response" where
  "session_reply E status message r = (case r of Inl e \<Rightarrow> apierr_Write (mapSessionError e)
     | Inr rec \<Rightarrow> json_reply status (SessionBody message (toDTO (ev_L E) (ev_K E) rec)))"

definition get_handler :: "api_env \<Rightarrow> string \<Rightarrow> api_request \<Rightarrow> api_response backend" where
  "get_handler E user c = (case sessionIDs (ev_K E) user c of None \<Rightarrow> State_Monad.return (apierr_Write api_SessionNotFound)
     | Some (userID, sessionID) \<Rightarrow> do {
         r \<leftarrow> session_Get (ev_L E) (ev_K E) (ev_A E) userID sessionID;
         State_Monad.return (session_reply E StatusOK OkText r) })"

definition transition_handler :: "api_env \<Rightarrow> Action \<Rightarrow> string \<Rightarrow> api_request \<Rightarrow> api_response backend" where
  "transition_handler E action user c = (case sessionIDs (ev_K E) user c of None \<Rightarrow> State_Monad.return (apierr_Write api_SessionNotFound)
     | Some (userID, sessionID) \<Rightarrow> do {
         r \<leftarrow> Transition (ev_K E) (ev_A E) userID sessionID action;
         State_Monad.return (session_reply E StatusAccepted OkText r) })"

definition delete_handler :: "api_env \<Rightarrow> string \<Rightarrow> api_request \<Rightarrow> api_response backend" where
  "delete_handler E user c = (case sessionIDs (ev_K E) user c of None \<Rightarrow> State_Monad.return (apierr_Write api_SessionNotFound)
     | Some (userID, sessionID) \<Rightarrow> do {
         r \<leftarrow> session_Delete (ev_K E) (ev_A E) userID sessionID;
         State_Monad.return (session_reply E StatusAccepted DeletionText r) })"

section \<open>Monitor handlers\<close>

definition resources_handler :: "api_env \<Rightarrow> string \<Rightarrow> api_request \<Rightarrow> api_mem \<Rightarrow> (api_response \<times> api_mem) backend" where
  "resources_handler E user c m = (case sessionIDs (ev_K E) user c of None \<Rightarrow> State_Monad.return (apierr_Write api_SessionNotFound, m)
     | Some (userID, sessionID) \<Rightarrow> do {
         (r, live) \<leftarrow> monitor_Session (ev_L E) (ev_K E) (ev_N E) (ev_A E) (am_live m) userID sessionID;
         State_Monad.return (case r of Inl e \<Rightarrow> apierr_Write (mapSessionError e) | Inr snap \<Rightarrow> envelope_OK (ResourcesBody snap), m\<lparr>am_live := live\<rparr>) })"

definition cluster_handler :: "api_env \<Rightarrow> api_mem \<Rightarrow> (api_response \<times> api_mem) backend" where
  "cluster_handler E m = do {
     (r, live) \<leftarrow> monitor_Cluster (ev_L E) (ev_K E) (ev_N E) (ev_A E) (am_live m);
     State_Monad.return (case r of Inl e \<Rightarrow> apierr_Write api_Internal | Inr snap \<Rightarrow> envelope_OK (ClusterBody snap), m\<lparr>am_live := live\<rparr>) }"

section \<open>Routes\<close>

datatype route = Healthz | Readyz | RegisterRoute | LoginRoute | RefreshRoute | LogoutRoute | MeRoute | CreateRoute | ListRoute | GetRoute
  | DeleteRoute | TransitionRoute Action | ResourcesRoute | ClusterRoute | TerminalRoute

text \<open>Method, pattern, whether \<open>requireAuth\<close> runs first, and the handler. The page of the Prometheus registry is left out.\<close>

definition route_table :: "(string \<times> string \<times> bool \<times> route) list" where
  "route_table = [(''GET'', ''/healthz'', False, Healthz), (''GET'', ''/readyz'', False, Readyz),
     (''POST'', ''/api/v1/auth/register'', False, RegisterRoute), (''POST'', ''/api/v1/auth/login'', False, LoginRoute),
     (''POST'', ''/api/v1/auth/refresh'', False, RefreshRoute), (''POST'', ''/api/v1/auth/logout'', False, LogoutRoute),
     (''GET'', ''/api/v1/me'', True, MeRoute), (''POST'', ''/api/v1/sessions'', True, CreateRoute), (''GET'', ''/api/v1/sessions'', True, ListRoute),
     (''GET'', ''/api/v1/sessions/:id'', True, GetRoute), (''DELETE'', ''/api/v1/sessions/:id'', True, DeleteRoute),
     (''POST'', ''/api/v1/sessions/:id/hibernate'', True, TransitionRoute ActionHibernate),
     (''POST'', ''/api/v1/sessions/:id/resume'', True, TransitionRoute ActionResume),
     (''POST'', ''/api/v1/sessions/:id/retry'', True, TransitionRoute ActionRetry),
     (''GET'', ''/api/v1/sessions/:id/resources'', True, ResourcesRoute), (''GET'', ''/api/v1/admin/cluster'', False, ClusterRoute),
     (''GET'', ''/api/v1/sessions/:id/terminal'', False, TerminalRoute)]"

definition find_route :: "api_request \<Rightarrow> (bool \<times> route) option" where
  "find_route c = map_option (\<lambda>(_, _, auth, r). (auth, r)) (find (\<lambda>(method, path, _, _). method = ap_Method c \<and> path = ap_FullPath c) route_table)"

definition keep_mem :: "api_mem \<Rightarrow> api_response backend \<Rightarrow> (api_response \<times> api_mem) backend" where
  "keep_mem m p = do { r \<leftarrow> p; State_Monad.return (r, m) }"

text \<open>
  The handler of a route; \<open>user\<close> is the identifier that \<open>requireAuth\<close> put into the context. The terminal writes its answer itself,
  which is an event of \<open>ServeTerminal\<close>.
\<close>

fun run_handler :: "api_env \<Rightarrow> route \<Rightarrow> string \<Rightarrow> api_request \<Rightarrow> api_mem \<Rightarrow> (api_response \<times> api_mem) backend" where
  "run_handler E Healthz user c m = State_Monad.return (envelope_OK (StatusBody ''ok'' ''api''), m)"
| "run_handler E Readyz user c m = do {
     ok \<leftarrow> ping (ev_A E);
     State_Monad.return (if ok then envelope_OK (StatusBody ''ready'' ''api'') else apierr_Write api_Internal, m) }"
| "run_handler E RegisterRoute user c m = keep_mem m (register E c)"
| "run_handler E LoginRoute user c m = login E c m"
| "run_handler E RefreshRoute user c m = keep_mem m (refresh E c)"
| "run_handler E LogoutRoute user c m = keep_mem m (logout E c)"
| "run_handler E MeRoute user c m = keep_mem m (me E user)"
| "run_handler E CreateRoute user c m = keep_mem m (create_handler E user c)"
| "run_handler E ListRoute user c m = keep_mem m (list_handler E user c)"
| "run_handler E GetRoute user c m = keep_mem m (get_handler E user c)"
| "run_handler E DeleteRoute user c m = keep_mem m (delete_handler E user c)"
| "run_handler E (TransitionRoute action) user c m = keep_mem m (transition_handler E action user c)"
| "run_handler E ResourcesRoute user c m = resources_handler E user c m"
| "run_handler E ClusterRoute user c m = cluster_handler E m"
| "run_handler E TerminalRoute user c m = do {
     t \<leftarrow> ServeTerminal (ev_L E) (ev_K E) (ev_C E) (ac_issuer (ah_svc (ev_h E))) (ev_A E) (ap_Protocols c) (ap_ID c);
     State_Monad.return (json_reply 0 (TerminalBody t), m) }"

text \<open>A request through the router; the identifier goes into the header of the response.\<close>

definition serve_api :: "api_env \<Rightarrow> api_request \<Rightarrow> api_mem \<Rightarrow> (string \<times> api_response \<times> api_mem) backend" where
  "serve_api E c m = do {
     i \<leftarrow> requestIDMiddleware (ev_A E) c;
     case find_route c of
       None \<Rightarrow> State_Monad.return (i, json_reply 404 NoRouteBody, m)
     | Some (auth, r) \<Rightarrow>
         if auth then do {
           a \<leftarrow> requireAuth E c;
           case a of Inl reply \<Rightarrow> State_Monad.return (i, reply, m)
           | Inr user \<Rightarrow> do { x \<leftarrow> run_handler E r user c m; State_Monad.return (i, x) } }
         else do { x \<leftarrow> run_handler E r [] c m; State_Monad.return (i, x) } }"

end
