(* ===== verification/Backend_Config.thy ===== *)
theory Backend_Config
  imports Go_Time Gateway Api_Server
begin

text \<open>
  The configuration of the backend, \<open>backend/internal/config\<close>, and what the two programs \<open>cmd/api\<close> and \<open>cmd/gateway\<close> build
  from it. The environment is a function from names to values, empty where a variable is not set. Parsing of URLs, keys and log
  levels, and reading a file, are parameters. An error is the text the code reports, without the error it wraps.
\<close>

section \<open>Values of the environment\<close>

type_synonym environ = "string \<Rightarrow> string"

record parsed_url =
  pu_url :: url
  pu_User :: bool
  pu_Fragment :: string

record config_lib =
  url_Parse :: "string \<Rightarrow> parsed_url option"
  level_UnmarshalText :: "string \<Rightarrow> int option"
  os_ReadFile :: "string \<Rightarrow> string option"
  pem_Decode :: "string \<Rightarrow> bytes option"
  ParsePKCS8PrivateKey :: "bytes \<Rightarrow> string + bytes option"

text \<open>\<open>ParsePKCS8PrivateKey\<close>: an error, nothing for a key of another algorithm, or an Ed25519 key.\<close>

fun then_load :: "'e + 'a \<Rightarrow> ('a \<Rightarrow> 'e + 'b) \<Rightarrow> 'e + 'b" where
  "then_load (Inl e) f = Inl e"
| "then_load (Inr x) f = f x"

definition valueOrDefault :: "environ \<Rightarrow> string \<Rightarrow> string \<Rightarrow> string" where
  "valueOrDefault env key fallback = (if env key \<noteq> [] then env key else fallback)"

definition duration_value_of :: "environ \<Rightarrow> string \<Rightarrow> duration \<Rightarrow> string + duration" where
  "duration_value_of env key fallback =
     (if env key = [] then Inr fallback
      else case ParseDuration (env key) of
        None \<Rightarrow> Inl (key @ '' must be a duration'')
      | Some v \<Rightarrow> if v \<le> 0 then Inl (key @ '' must be positive'') else Inr v)"

definition positiveInt64 :: "environ \<Rightarrow> string \<Rightarrow> int \<Rightarrow> string + int" where
  "positiveInt64 env key fallback =
     (if env key = [] then Inr fallback
      else case ParseInt64 (env key) of
        None \<Rightarrow> Inl (key @ '' must be an integer'')
      | Some v \<Rightarrow> if v \<le> 0 then Inl (key @ '' must be positive'') else Inr v)"

text \<open>On the platforms of the images \<open>int\<close> has 64 bits, and \<open>Atoi\<close> fails where \<open>ParseInt\<close> does.\<close>

definition positiveInt :: "environ \<Rightarrow> string \<Rightarrow> int \<Rightarrow> string + int" where
  "positiveInt env key fallback =
     (if env key = [] then Inr fallback
      else case ParseInt64 (env key) of
        None \<Rightarrow> Inl (key @ '' must be an integer'')
      | Some v \<Rightarrow> if v \<le> 0 then Inl (key @ '' must be positive'') else Inr v)"

definition ParseBool :: "string \<Rightarrow> bool option" where
  "ParseBool s = (if s \<in> {''1'', ''t'', ''T'', ''TRUE'', ''true'', ''True''} then Some True
     else if s \<in> {''0'', ''f'', ''F'', ''FALSE'', ''false'', ''False''} then Some False else None)"

definition boolValue :: "environ \<Rightarrow> string \<Rightarrow> bool \<Rightarrow> string + bool" where
  "boolValue env key fallback =
     (if env key = [] then Inr fallback
      else case ParseBool (env key) of None \<Rightarrow> Inl (key @ '' must be a boolean'') | Some v \<Rightarrow> Inr v)"

definition parseLogLevel :: "config_lib \<Rightarrow> string \<Rightarrow> string + int" where
  "parseLogLevel F raw = (case level_UnmarshalText F raw of None \<Rightarrow> Inl ''BOSUN_LOG_LEVEL is invalid'' | Some level \<Rightarrow> Inr level)"

section \<open>The gateway\<close>

text \<open>The two regular expressions.\<close>

definition lower_alnum :: "char \<Rightarrow> bool" where
  "lower_alnum c \<longleftrightarrow> in_range 97 122 c \<or> is_digit c"

definition providerNamePattern :: "string \<Rightarrow> bool" where
  "providerNamePattern s \<longleftrightarrow> s \<noteq> [] \<and> length s \<le> 63 \<and> lower_alnum (hd s) \<and> lower_alnum (last s) \<and>
     list_all (\<lambda>c. lower_alnum c \<or> c = CHR ''-'') s"

definition authSchemePattern :: "string \<Rightarrow> bool" where
  "authSchemePattern s \<longleftrightarrow> s \<noteq> [] \<and> (in_range 65 90 (hd s) \<or> in_range 97 122 (hd s)) \<and>
     list_all (\<lambda>c. in_range 65 90 c \<or> in_range 97 122 c \<or> is_digit c \<or> c \<in> {CHR ''.'', CHR ''_'', CHR ''~'', CHR ''-''}) s"

record GatewayConfig =
  gc_UpstreamURL :: string
  gc_UpstreamAPIKey :: string
  gc_Provider :: string
  gc_UpstreamAuthHeader :: string
  gc_UpstreamAuthScheme :: string
  gc_TokenReviewTimeout :: duration
  gc_SessionLookupTimeout :: duration
  gc_UpstreamTimeout :: duration

definition upstream_url_ok :: "config_lib \<Rightarrow> string \<Rightarrow> bool" where
  "upstream_url_ok F raw = (case url_Parse F raw of None \<Rightarrow> False
     | Some endpoint \<Rightarrow> \<not> (url_Scheme (pu_url endpoint) \<noteq> ''https'' \<or> url_Host (pu_url endpoint) = [] \<or> pu_User endpoint \<or>
         url_RawQuery (pu_url endpoint) \<noteq> [] \<or> pu_Fragment endpoint \<noteq> []))"

definition auth_scheme :: "string \<Rightarrow> string \<Rightarrow> string + string" where
  "auth_scheme header scheme =
     (if header = ''Authorization'' then Inr (if scheme = [] then ''Bearer'' else scheme)
      else if header = ''X-Api-Key'' then
        if scheme \<noteq> [] then Inl ''BOSUN_GATEWAY_UPSTREAM_AUTH_SCHEME must be empty for X-Api-Key'' else Inr scheme
      else Inl ''BOSUN_GATEWAY_UPSTREAM_AUTH_HEADER must be Authorization or X-Api-Key'')"

definition loadGatewayConfig :: "config_lib \<Rightarrow> environ \<Rightarrow> string + GatewayConfig" where
  "loadGatewayConfig F env =
     (let raw = env ''BOSUN_GATEWAY_UPSTREAM_URL''; key = env ''BOSUN_GATEWAY_UPSTREAM_API_KEY'';
          provider = valueOrDefault env ''BOSUN_GATEWAY_PROVIDER'' ''platform-default'';
          header = CanonicalHeaderKey (valueOrDefault env ''BOSUN_GATEWAY_UPSTREAM_AUTH_HEADER'' ''x-api-key'')
      in if raw = [] then Inl ''BOSUN_GATEWAY_UPSTREAM_URL is required''
         else if \<not> upstream_url_ok F raw then Inl ''BOSUN_GATEWAY_UPSTREAM_URL must be an HTTPS base URL without credentials, query, or fragment''
         else if key = [] then Inl ''BOSUN_GATEWAY_UPSTREAM_API_KEY is required''
         else if CHR 0x0D \<in> set key \<or> CHR 0x0A \<in> set key then Inl ''BOSUN_GATEWAY_UPSTREAM_API_KEY contains invalid characters''
         else if \<not> providerNamePattern provider then Inl ''BOSUN_GATEWAY_PROVIDER must be a lowercase DNS label''
         else then_load (auth_scheme header (env ''BOSUN_GATEWAY_UPSTREAM_AUTH_SCHEME'')) (\<lambda>scheme.
           if scheme \<noteq> [] \<and> \<not> authSchemePattern scheme then Inl ''BOSUN_GATEWAY_UPSTREAM_AUTH_SCHEME is invalid''
           else then_load (duration_value_of env ''BOSUN_GATEWAY_TOKEN_REVIEW_TIMEOUT'' (3 * second)) (\<lambda>review.
             then_load (duration_value_of env ''BOSUN_GATEWAY_SESSION_LOOKUP_TIMEOUT'' (3 * second)) (\<lambda>lookup_timeout.
             then_load (duration_value_of env ''BOSUN_GATEWAY_UPSTREAM_TIMEOUT'' (600 * second)) (\<lambda>timeout.
               Inr \<lparr>gc_UpstreamURL = raw, gc_UpstreamAPIKey = key, gc_Provider = provider, gc_UpstreamAuthHeader = header, gc_UpstreamAuthScheme = scheme,
                 gc_TokenReviewTimeout = review, gc_SessionLookupTimeout = lookup_timeout, gc_UpstreamTimeout = timeout\<rparr>)))))"

section \<open>Both programs\<close>

datatype Component = ComponentAPI | ComponentGateway

record Config =
  cf_Component :: Component
  cf_ListenAddress :: string
  cf_DatabaseURL :: string
  cf_LogLevel :: int
  cf_DatabaseConnectTimeout :: duration
  cf_DatabaseMigrateTimeout :: duration
  cf_ReadHeaderTimeout :: duration
  cf_ShutdownTimeout :: duration
  cf_Gateway :: "GatewayConfig option"

definition config_prefix :: "Component \<Rightarrow> string" where
  "config_prefix component = (case component of ComponentAPI \<Rightarrow> ''BOSUN_API_'' | ComponentGateway \<Rightarrow> ''BOSUN_GATEWAY_'')"

definition defaultAddress :: "Component \<Rightarrow> string" where
  "defaultAddress component = (case component of ComponentAPI \<Rightarrow> '':8080'' | ComponentGateway \<Rightarrow> '':8081'')"

definition config_Load :: "config_lib \<Rightarrow> environ \<Rightarrow> Component \<Rightarrow> string + Config" where
  "config_Load F env component =
     (let p = config_prefix component; address = valueOrDefault env (p @ ''LISTEN_ADDRESS'') (defaultAddress component); db = env ''BOSUN_DATABASE_URL''
      in if db = [] then Inl ''BOSUN_DATABASE_URL is required''
         else then_load (parseLogLevel F (valueOrDefault env ''BOSUN_LOG_LEVEL'' ''info'')) (\<lambda>level.
           then_load (duration_value_of env (p @ ''DATABASE_CONNECT_TIMEOUT'') (5 * second)) (\<lambda>connect.
           then_load (if component = ComponentAPI then duration_value_of env (p @ ''DATABASE_MIGRATE_TIMEOUT'') (30 * second) else Inr (30 * second)) (\<lambda>migrate.
           then_load (duration_value_of env (p @ ''READ_HEADER_TIMEOUT'') (5 * second)) (\<lambda>read_header.
           then_load (duration_value_of env (p @ ''SHUTDOWN_TIMEOUT'') (10 * second)) (\<lambda>shutdown.
           then_load (if component = ComponentGateway then then_load (loadGatewayConfig F env) (\<lambda>g. Inr (Some g)) else Inr None) (\<lambda>g.
             Inr \<lparr>cf_Component = component, cf_ListenAddress = address, cf_DatabaseURL = db, cf_LogLevel = level, cf_DatabaseConnectTimeout = connect,
               cf_DatabaseMigrateTimeout = migrate, cf_ReadHeaderTimeout = read_header, cf_ShutdownTimeout = shutdown, cf_Gateway = g\<rparr>)))))))"

section \<open>The API: authentication and terminal\<close>

record AuthConfig =
  at_JWTPrivateKey :: bytes
  at_Issuer :: string
  at_AccessTokenTTL :: duration
  at_RefreshTokenTTL :: duration
  at_Argon2 :: Argon2Params
  at_RefreshCookieName :: string
  at_RefreshCookiePath :: string
  at_RefreshCookieSecure :: bool
  at_LoginIPLimit :: int
  at_LoginIPWindow :: duration
  at_LoginEmailLimit :: int
  at_LoginEmailWindow :: duration
  at_LoginLimiterCap :: int
  at_TrustedProxyHeader :: string
  at_RepairInterval :: duration

definition raw_private_key :: "config_lib \<Rightarrow> environ \<Rightarrow> string + string" where
  "raw_private_key F env =
     (if env ''BOSUN_API_JWT_PRIVATE_KEY'' = [] \<and> env ''BOSUN_API_JWT_PRIVATE_KEY_FILE'' \<noteq> []
      then (case os_ReadFile F (env ''BOSUN_API_JWT_PRIVATE_KEY_FILE'') of
          None \<Rightarrow> Inl ''read BOSUN_API_JWT_PRIVATE_KEY_FILE'' | Some content \<Rightarrow> Inr content)
      else Inr (env ''BOSUN_API_JWT_PRIVATE_KEY''))"

definition loadEd25519PrivateKey :: "config_lib \<Rightarrow> environ \<Rightarrow> string + bytes" where
  "loadEd25519PrivateKey F env = then_load (raw_private_key F env) (\<lambda>raw.
     if raw = [] then Inl ''BOSUN_API_JWT_PRIVATE_KEY or BOSUN_API_JWT_PRIVATE_KEY_FILE is required''
     else case pem_Decode F raw of
       None \<Rightarrow> Inl ''JWT private key is not valid PEM''
     | Some block \<Rightarrow> (case ParsePKCS8PrivateKey F block of
         Inl e \<Rightarrow> Inl ''parse JWT private key (want PKCS#8 Ed25519)''
       | Inr None \<Rightarrow> Inl ''JWT private key is not ed25519.PrivateKey''
       | Inr (Some key) \<Rightarrow> Inr key))"

definition LoadAuth :: "config_lib \<Rightarrow> environ \<Rightarrow> string + AuthConfig" where
  "LoadAuth F env =
     then_load (loadEd25519PrivateKey F env) (\<lambda>key.
     then_load (duration_value_of env ''BOSUN_API_ACCESS_TOKEN_TTL'' (900 * second)) (\<lambda>access.
     then_load (duration_value_of env ''BOSUN_API_REFRESH_TOKEN_TTL'' (14 * day)) (\<lambda>refresh_ttl.
     then_load (duration_value_of env ''BOSUN_API_LOGIN_IP_WINDOW'' (60 * second)) (\<lambda>ipWindow.
     then_load (duration_value_of env ''BOSUN_API_LOGIN_EMAIL_WINDOW'' (900 * second)) (\<lambda>emailWindow.
     then_load (duration_value_of env ''BOSUN_API_REPAIR_INTERVAL'' (300 * second)) (\<lambda>repair.
     then_load (positiveInt env ''BOSUN_API_LOGIN_IP_LIMIT'' 10) (\<lambda>ipLimit.
     then_load (positiveInt env ''BOSUN_API_LOGIN_EMAIL_LIMIT'' 5) (\<lambda>emailLimit.
     then_load (positiveInt env ''BOSUN_API_LOGIN_LIMITER_CAPACITY'' 10000) (\<lambda>capacity.
     then_load (boolValue env ''BOSUN_API_REFRESH_COOKIE_SECURE'' True) (\<lambda>secure.
       Inr \<lparr>at_JWTPrivateKey = key, at_Issuer = valueOrDefault env ''BOSUN_API_JWT_ISSUER'' ''bosun'', at_AccessTokenTTL = access,
         at_RefreshTokenTTL = refresh_ttl, at_Argon2 = DefaultArgon2Params,
         at_RefreshCookieName = valueOrDefault env ''BOSUN_API_REFRESH_COOKIE_NAME'' ''bosun_refresh'',
         at_RefreshCookiePath = valueOrDefault env ''BOSUN_API_REFRESH_COOKIE_PATH'' ''/api/v1/auth'', at_RefreshCookieSecure = secure,
         at_LoginIPLimit = ipLimit, at_LoginIPWindow = ipWindow, at_LoginEmailLimit = emailLimit, at_LoginEmailWindow = emailWindow,
         at_LoginLimiterCap = capacity, at_TrustedProxyHeader = env ''BOSUN_API_TRUSTED_PROXY_HEADER'', at_RepairInterval = repair\<rparr>))))))))))"

definition LoadTerminal :: "environ \<Rightarrow> string + terminal_config" where
  "LoadTerminal env =
     then_load (positiveInt env ''BOSUN_API_TERMINAL_WRITE_QUEUE_CAPACITY'' 64) (\<lambda>write_queue.
     then_load (positiveInt env ''BOSUN_API_TERMINAL_INPUT_QUEUE_CAPACITY'' 64) (\<lambda>input_queue.
     then_load (positiveInt64 env ''BOSUN_API_TERMINAL_MAX_FRAME_BYTES'' 65536) (\<lambda>max_frame.
     then_load (duration_value_of env ''BOSUN_API_TERMINAL_WRITE_TIMEOUT'' (10 * second)) (\<lambda>write_timeout.
     then_load (duration_value_of env ''BOSUN_API_TERMINAL_PONG_TIMEOUT'' (60 * second)) (\<lambda>pong.
     then_load (duration_value_of env ''BOSUN_API_TERMINAL_PING_INTERVAL'' (30 * second)) (\<lambda>ping_interval.
     then_load (duration_value_of env ''BOSUN_API_TERMINAL_ACTIVITY_MIN_INTERVAL'' (15 * second)) (\<lambda>activity.
       if ping_interval \<ge> pong then Inl ''BOSUN_API_TERMINAL_PING_INTERVAL must be shorter than BOSUN_API_TERMINAL_PONG_TIMEOUT''
       else Inr \<lparr>tf_WriteQueueCapacity = write_queue, tf_InputQueueCapacity = input_queue, tf_MaxFrameBytes = max_frame,
         tf_WriteTimeout = write_timeout, tf_PongTimeout = pong, tf_PingInterval = ping_interval, tf_ActivityMinInterval = activity\<rparr>)))))))"

section \<open>What the programs build\<close>

text \<open>
  The handler, the memory and the terminal of the API server, or an error before it listens. The connections to the database and
  the cluster that \<open>run\<close> opens in between are left out.
\<close>

definition api_run :: "config_lib \<Rightarrow> auth_lib \<Rightarrow> environ \<Rightarrow> string + authHandler \<times> api_mem \<times> terminal_config" where
  "api_run F C env =
     then_load (config_Load F env ComponentAPI) (\<lambda>cfg.
     then_load (LoadAuth F env) (\<lambda>auth.
     then_load (LoadTerminal env) (\<lambda>terminal.
       case NewJWTIssuer C (at_Issuer auth) (at_JWTPrivateKey auth) (at_AccessTokenTTL auth) of
         None \<Rightarrow> Inl ''jwt issuer init failed''
       | Some issuer \<Rightarrow>
           if \<not> terminal_NewHandler_ok terminal then Inl ''terminal handler init failed''
           else Inr (\<lparr>ah_svc = \<lparr>ac_issuer = issuer, ac_argon = at_Argon2 auth, ac_refreshTTL = at_RefreshTokenTTL auth\<rparr>,
               ah_cookie = \<lparr>cc_Name = at_RefreshCookieName auth, cc_Path = at_RefreshCookiePath auth, cc_Secure = at_RefreshCookieSecure auth,
                 cc_TTL = at_RefreshTokenTTL auth\<rparr>, ah_trustedProxyHeader = at_TrustedProxyHeader auth\<rparr>,
             \<lparr>am_loginByIP = limiter_New (at_LoginIPLimit auth) (at_LoginIPWindow auth) (at_LoginLimiterCap auth),
               am_loginByEmail = limiter_New (at_LoginEmailLimit auth) (at_LoginEmailWindow auth) (at_LoginLimiterCap auth), am_live = Map.empty\<rparr>,
             terminal))))"

definition gateway_run :: "config_lib \<Rightarrow> environ \<Rightarrow> string + HandlerConfig \<times> url" where
  "gateway_run F env =
     then_load (config_Load F env ComponentGateway) (\<lambda>cfg.
       case cf_Gateway cfg of None \<Rightarrow> Inl ''gateway handler creation failed''
       | Some g \<Rightarrow> (case url_Parse F (gc_UpstreamURL g) of
           None \<Rightarrow> Inl ''gateway handler creation failed''
         | Some upstream \<Rightarrow> Inr (\<lparr>hc_UpstreamAPIKey = gc_UpstreamAPIKey g, hc_Provider = gc_Provider g,
             hc_UpstreamAuthHeader = gc_UpstreamAuthHeader g, hc_UpstreamAuthScheme = gc_UpstreamAuthScheme g\<rparr>, pu_url upstream)))"

end
