(* ===== verification/Monitor_Safety.thy ===== *)
theory Monitor_Safety
  imports Monitor Terminal_Safety
begin

text \<open>
  What the monitor shows is measured, belongs to who asks, and is complete: every rate of the sampler comes from counters that
  were observed, a session request reads only what belongs to a session of the user, and the cluster page lists every Pod
  and Node once, in order.
\<close>

section \<open>The sampler\<close>

text \<open>The sampler after a sequence of calls, and the observations that these calls brought for a container.\<close>

definition run_sampler :: "(string \<times> PodCounterMetric) list \<Rightarrow> live_states" where
  "run_sampler calls = fold (\<lambda>(podKey, snapshot) states. snd (snd (live_podMetric podKey snapshot states))) calls Map.empty"

definition observed :: "(string \<times> PodCounterMetric) list \<Rightarrow> string \<Rightarrow> time \<Rightarrow> ContainerCounter \<Rightarrow> bool" where
  "observed calls key t c \<longleftrightarrow> (\<exists>(podKey, snapshot)\<in>set calls. \<exists>(name, counter)\<in>set (kp_Containers snapshot).
     key = podKey @ ''/'' @ name \<and> c = counter \<and> t = counter_time snapshot counter)"

text \<open>The accuracy of a rate over counters of less than 36 years of CPU time.\<close>

lemma rate_accurate:
  assumes "minimumLiveSampleInterval \<le> t" and "0 \<le> n0" and "n0 \<le> n" and "n \<le> 2 ^ 60"
  shows "\<bar>of_int (max 0 (seconds_rate (counter_seconds n) (counter_seconds n0) t)) - 1000 * (of_int (n - n0) / of_int t :: rat)\<bar> \<le> 51 / 100"
proof -
  have t: "500000000 \<le> t" using assms(1) by (simp add: minimumLiveSampleInterval_def)
  then have "0 \<le> 1000 * (of_int (n - n0) / of_int t :: rat)" using assms(3) by simp
  moreover have "\<bar>of_int (seconds_rate (counter_seconds n) (counter_seconds n0) t) - 1000 * (of_int (n - n0) / of_int t :: rat)\<bar> \<le> 51 / 100"
    using assms t by (intro seconds_rate_near) simp_all
  ultimately show ?thesis by (intro max_near)
qed

definition accurate :: "time \<Rightarrow> rat \<Rightarrow> time \<Rightarrow> rat \<Rightarrow> int \<Rightarrow> bool" where
  "accurate t0 s0 t s usage \<longleftrightarrow> (\<forall>n n0. s = counter_seconds n \<and> s0 = counter_seconds n0 \<and> 0 \<le> n0 \<and> n0 \<le> n \<and> n \<le> 2 ^ 60 \<longrightarrow>
     \<bar>of_int usage - 1000 * (of_int (n - n0) / of_int (t - t0) :: rat)\<bar> \<le> 51 / 100)"

text \<open>A usage that an observation gives directly, or as the rate since an earlier one.\<close>

definition rate_of :: "(time \<Rightarrow> ContainerCounter \<Rightarrow> bool) \<Rightarrow> time \<Rightarrow> ContainerCounter \<Rightarrow> int \<Rightarrow> bool" where
  "rate_of obs t c usage \<longleftrightarrow>
     kt_CPUUsageNanoCoresAvailable c \<and> usage = live_nanoCoresToMillicores (kt_CPUUsageNanoCores c) \<or>
     (\<exists>t0 c0. obs t0 c0 \<and> minimumLiveSampleInterval \<le> t - t0 \<and> t - t0 \<le> maximumLiveSampleInterval \<and>
        kt_CPUUsageSeconds c0 \<le> kt_CPUUsageSeconds c \<and>
        usage = max 0 (seconds_rate (kt_CPUUsageSeconds c) (kt_CPUUsageSeconds c0) (t - t0)) \<and>
        accurate t0 (kt_CPUUsageSeconds c0) t (kt_CPUUsageSeconds c) usage)"

definition justified :: "(time \<Rightarrow> ContainerCounter \<Rightarrow> bool) \<Rightarrow> liveCPUState \<Rightarrow> bool" where
  "justified obs st \<longleftrightarrow>
     (lv_rawObservedAt st \<noteq> 0 \<longrightarrow> (\<exists>c. obs (lv_rawObservedAt st) c \<and> lv_counterSeconds st = kt_CPUUsageSeconds c)) \<and>
     (lv_ready st \<longrightarrow> (\<exists>c. obs (lv_usageObservedAt st) c \<and> lv_memoryBytes st = kt_MemoryWorkingSetBytes c \<and>
        rate_of obs (lv_usageObservedAt st) c (lv_usage st)))"

lemma rate_of_mono: "rate_of obs t c u \<Longrightarrow> (\<And>t c. obs t c \<Longrightarrow> obs' t c) \<Longrightarrow> rate_of obs' t c u"
  unfolding rate_of_def by blast

lemma justified_mono: "justified obs st \<Longrightarrow> (\<And>t c. obs t c \<Longrightarrow> obs' t c) \<Longrightarrow> justified obs' st"
  unfolding justified_def using rate_of_mono [of obs _ _ _ obs'] by blast

lemma justified_zero: "justified obs zero_liveCPUState"
  by (simp add: justified_def zero_liveCPUState_def)

lemma next_state_justified:
  assumes "justified obs st" and "obs seenAt c"
  shows "justified obs (next_state c seenAt st)"
proof -
  have sub: "seenAt - lv_rawObservedAt st = time_sub seenAt (lv_rawObservedAt st)"
    if "minimumLiveSampleInterval \<le> time_sub seenAt (lv_rawObservedAt st)" "\<not> time_sub seenAt (lv_rawObservedAt st) > maximumLiveSampleInterval"
    using that by (simp add: time_sub_def minimumLiveSampleInterval_def maximumLiveSampleInterval_def second_def min_def max_def split: if_splits)
  have rate: "rate_of obs seenAt c (max 0 (seconds_rate (kt_CPUUsageSeconds c) (lv_counterSeconds st) (time_sub seenAt (lv_rawObservedAt st))))"
    if "lv_rawObservedAt st \<noteq> 0" "\<not> kt_CPUUsageSeconds c < lv_counterSeconds st"
      "minimumLiveSampleInterval \<le> time_sub seenAt (lv_rawObservedAt st)" "\<not> time_sub seenAt (lv_rawObservedAt st) > maximumLiveSampleInterval"
    using that assms(1) sub [OF that(3,4)] unfolding rate_of_def justified_def accurate_def by (metis not_less rate_accurate)
  show ?thesis using assms rate unfolding next_state_def Let_def
    by (auto simp: justified_def measured_def zero_liveCPUState_def rate_of_def)
qed

text \<open>One call of the sampler: its states stay justified, and what it reports is one of them.\<close>

definition call_inv :: "(string \<Rightarrow> time \<Rightarrow> ContainerCounter \<Rightarrow> bool) \<Rightarrow> string \<Rightarrow> PodMetric \<times> bool \<times> live_states \<Rightarrow> bool" where
  "call_inv obs podKey = (\<lambda>(metric, complete, states). (\<forall>key. justified (obs key) (live_state states key)) \<and>
     (\<forall>(name, r)\<in>set (mp_Containers metric). \<exists>st. justified (obs (podKey @ ''/'' @ name)) st \<and> lv_ready st \<and>
        mp_ObservedAt metric \<le> lv_usageObservedAt st \<and> r = \<lparr>ru_CPUMillicores = lv_usage st, ru_MemoryBytes = lv_memoryBytes st\<rparr>))"

lemma live_state_upd: "live_state (states(k \<mapsto> st)) key = (if key = k then st else live_state states key)"
  by (simp add: live_state_def)

lemma set_update_alist: "x \<in> set (AList.update k v xs) \<Longrightarrow> x = (k, v) \<or> x \<in> set xs"
  by (induction xs) (auto split: if_splits)

lemma sample_container_inv:
  assumes "call_inv obs podKey acc" and "obs (podKey @ ''/'' @ name) (counter_time snapshot counter) counter"
  shows "call_inv obs podKey (sample_container podKey snapshot (name, counter) acc)"
proof -
  obtain metric complete states where acc: "acc = (metric, complete, states)" by (cases acc)
  let ?key = "podKey @ ''/'' @ name" and ?st = "next_state counter (counter_time snapshot counter) (live_state states (podKey @ ''/'' @ name))"
  have st: "justified (obs ?key) ?st" using assms by (intro next_state_justified) (auto simp: call_inv_def acc)
  have "\<forall>key. justified (obs key) (live_state (states(?key \<mapsto> ?st)) key)"
    using assms(1) st by (simp add: call_inv_def acc live_state_upd)
  then show ?thesis using assms(1) st
    by (fastforce simp: call_inv_def acc sample_container_def Let_def dest!: set_update_alist intro: order_trans [OF min.cobounded1])
qed

lemma live_podMetric_inv:
  assumes "\<And>key. justified (obs key) (live_state states key)"
    and "\<And>name counter. (name, counter) \<in> set (kp_Containers snapshot) \<Longrightarrow> obs (podKey @ ''/'' @ name) (counter_time snapshot counter) counter"
  shows "call_inv obs podKey (live_podMetric podKey snapshot states)"
  unfolding live_podMetric_def
proof (rule fold_invariant [where Q = "\<lambda>x. x \<in> set (kp_Containers snapshot)"])
  show "call_inv obs podKey (\<lparr>mp_ObservedAt = kp_ObservedAt snapshot, mp_Window = 0, mp_Source = ''kubelet-summary'', mp_Containers = []\<rparr>,
      kp_Containers snapshot \<noteq> [], states)" using assms(1) by (simp add: call_inv_def)
  fix x acc
  assume "x \<in> set (kp_Containers snapshot)" and acc: "call_inv obs podKey acc"
  moreover obtain name counter where "x = (name, counter)" by fastforce
  ultimately show "call_inv obs podKey (sample_container podKey snapshot x acc)"
    using sample_container_inv [OF acc assms(2)] by simp
qed simp

lemma run_sampler_justified: "justified (observed calls key) (live_state (run_sampler calls) key)"
proof (induction calls arbitrary: key rule: rev_induct)
  case Nil
  then show ?case by (simp add: run_sampler_def live_state_def justified_zero)
next
  case (snoc call calls)
  obtain podKey snapshot where call: "call = (podKey, snapshot)" by (cases call)
  have "call_inv (observed (calls @ [call])) podKey (live_podMetric podKey snapshot (run_sampler calls))"
    by (rule live_podMetric_inv) (auto intro: justified_mono [OF snoc.IH] simp: observed_def call)
  then show ?case by (auto simp: call_inv_def run_sampler_def call split: prod.splits)
qed

text \<open>A complete call reports every container of its snapshot.\<close>

lemma sample_container_keys:
  "fst ` set (mp_Containers (fst (sample_container podKey snapshot (name, counter) acc))) \<subseteq> insert name (fst ` set (mp_Containers (fst acc)))"
  "fst (snd (sample_container podKey snapshot (name, counter) acc)) \<Longrightarrow> fst (snd acc) \<and>
     fst ` set (mp_Containers (fst (sample_container podKey snapshot (name, counter) acc))) = insert name (fst ` set (mp_Containers (fst acc)))"
  by (cases acc; force simp: sample_container_def Let_def update_keys dom_update split: if_splits dest: set_update_alist)+

lemma sample_containers_complete:
  assumes "fst (snd (fold (sample_container podKey snapshot) cs acc))"
  shows "fst (snd acc) \<and> fst ` set (mp_Containers (fst (fold (sample_container podKey snapshot) cs acc))) = fst ` set cs \<union> fst ` set (mp_Containers (fst acc))"
  using assms
proof (induction cs arbitrary: acc)
  case (Cons x cs)
  obtain name counter where x: "x = (name, counter)" by fastforce
  from Cons.IH [of "sample_container podKey snapshot x acc"] Cons.prems sample_container_keys(2) [of podKey snapshot name counter acc]
  show ?case by (auto simp: x)
qed simp

text \<open>
  C23. What the live sampler reports was measured. After any sequence of calls, each usage in its answer is the rate that an
  observation of that container gave, or the growth of its counter since another observation of that container, half a
  second to two minutes before, accurate to 0.51 millicores for counters of up to 36 years of CPU time; the memory is
  that of the same observation, and the time of the answer is not after it. An answer marked complete has an entry for
  every container of a snapshot that has some.
\<close>

theorem live_podMetric_measured:
  assumes "live_podMetric podKey snapshot (run_sampler calls) = (metric, ready, states)" and "obs = observed (calls @ [(podKey, snapshot)])"
  shows "(\<forall>(name, r)\<in>set (mp_Containers metric). \<exists>t c. obs (podKey @ ''/'' @ name) t c \<and> mp_ObservedAt metric \<le> t \<and>
      ru_MemoryBytes r = kt_MemoryWorkingSetBytes c \<and> rate_of (obs (podKey @ ''/'' @ name)) t c (ru_CPUMillicores r)) \<and>
    (ready \<longrightarrow> kp_Containers snapshot \<noteq> [] \<and> fst ` set (mp_Containers metric) = fst ` set (kp_Containers snapshot))"
proof (intro conjI impI)
  have "call_inv obs podKey (metric, ready, states)" unfolding assms(1) [symmetric]
    by (rule live_podMetric_inv) (auto intro: justified_mono [OF run_sampler_justified] simp: observed_def assms(2))
  then show "\<forall>(name, r)\<in>set (mp_Containers metric). \<exists>t c. obs (podKey @ ''/'' @ name) t c \<and> mp_ObservedAt metric \<le> t \<and>
      ru_MemoryBytes r = kt_MemoryWorkingSetBytes c \<and> rate_of (obs (podKey @ ''/'' @ name)) t c (ru_CPUMillicores r)"
    by (fastforce simp: call_inv_def justified_def)
next
  assume ready
  then show "kp_Containers snapshot \<noteq> []" and "fst ` set (mp_Containers metric) = fst ` set (kp_Containers snapshot)"
    using sample_containers_complete [of podKey snapshot "kp_Containers snapshot"
      "(\<lparr>mp_ObservedAt = kp_ObservedAt snapshot, mp_Window = 0, mp_Source = ''kubelet-summary'', mp_Containers = []\<rparr>, kp_Containers snapshot \<noteq> [], run_sampler calls)"]
      assms(1) by (simp_all add: live_podMetric_def)
qed

definition sample_snapshot :: PodCounterMetric where
  "sample_snapshot = \<lparr>kp_ObservedAt = 7, kp_Containers = [(''agent'', \<lparr>kt_CPUUsageSeconds = 0, kt_CPUUsageNanoCores = 2000000,
     kt_CPUUsageNanoCoresAvailable = True, kt_MemoryWorkingSetBytes = 4096, kt_ObservedAt = 7\<rparr>)]\<rparr>"

theorem live_podMetric_measured_witness:
  "\<exists>metric states. live_podMetric ''ns/pod'' sample_snapshot (run_sampler [(''ns/pod'', sample_snapshot)]) = (metric, True, states) \<and>
     fst ` set (mp_Containers metric) = {''agent''}"
proof -
  obtain metric states where m: "live_podMetric ''ns/pod'' sample_snapshot (run_sampler [(''ns/pod'', sample_snapshot)]) = (metric, True, states)"
    by (simp add: live_podMetric_def run_sampler_def sample_snapshot_def sample_container_def counter_time_def next_state_def live_state_def
        zero_liveCPUState_def measured_def time_sub_def maximumLiveSampleInterval_def minimumLiveSampleInterval_def second_def Let_def)
  from live_podMetric_measured [OF m refl] m show ?thesis by (auto simp: sample_snapshot_def)
qed

section \<open>The request of a session\<close>

text \<open>A row of the user that the database showed, a Pod that the API server showed for it, and what a request may read.\<close>

definition own_session :: "session_lib \<Rightarrow> uuid \<Rightarrow> uuid \<Rightarrow> backend_event list \<Rightarrow> Session \<Rightarrow> bool" where
  "own_session K userID sessionID es rec \<longleftrightarrow> (\<exists>a row. EvDb ''Get'' a \<in> set es \<and> row \<in> set (db_sessions (an_db a)) \<and>
     bs_ID row = sessionID \<and> live_of userID row \<and> sessionFromRow K row = Inr rec)"

definition own_pod :: "klib \<Rightarrow> session_lib \<Rightarrow> uuid \<Rightarrow> uuid \<Rightarrow> backend_event list \<Rightarrow> Session \<Rightarrow> Pod \<Rightarrow> bool" where
  "own_pod L K userID sessionID es rec pod \<longleftrightarrow> own_session K userID sessionID es rec \<and>
     EvGetPod (ss_CRNamespace rec, PodName L (ss_ID rec)) (Inr pod) \<in> set es"

fun monitor_reads :: "klib \<Rightarrow> session_lib \<Rightarrow> uuid \<Rightarrow> uuid \<Rightarrow> backend_event list \<Rightarrow> backend_event \<Rightarrow> bool" where
  "monitor_reads L K userID sessionID es (EvDb name a) = (name = ''Get'')"
| "monitor_reads L K userID sessionID es (EvClock t) = True"
| "monitor_reads L K userID sessionID es (EvGetPod k r) = (\<exists>rec. own_session K userID sessionID es rec \<and> k = (ss_CRNamespace rec, PodName L (ss_ID rec)))"
| "monitor_reads L K userID sessionID es (EvGetCR k r) = (\<exists>rec. own_session K userID sessionID es rec \<and> k = (ss_CRNamespace rec, ss_CRName rec))"
| "monitor_reads L K userID sessionID es (EvPodMetric k r) = (\<exists>rec pod. own_pod L K userID sessionID es rec pod \<and> k = ObjectKey (pod_Meta pod))"
| "monitor_reads L K userID sessionID es (EvNodeStats node r) = (\<exists>rec pod. own_pod L K userID sessionID es rec pod \<and> node = ps_NodeName (pod_Spec pod))"
| "monitor_reads L K userID sessionID es e = False"

lemma own_mono: "own_session K userID sessionID es rec \<Longrightarrow> own_session K userID sessionID (es @ fs) rec"
  "own_session K userID sessionID fs rec \<Longrightarrow> own_session K userID sessionID (es @ fs) rec"
  "own_pod L K userID sessionID es rec pod \<Longrightarrow> own_pod L K userID sessionID (es @ fs) rec pod"
  unfolding own_pod_def own_session_def by auto

lemma runs_store_Get_own:
  assumes "\<And>a. P (w_trace w) (EvDb ''Get'' a)"
  shows "runs P w (store_Get K A userID sessionID) (\<lambda>r v. \<exists>a. w_trace v = w_trace w @ [EvDb ''Get'' a] \<and>
    (\<forall>rec. r = Inr rec \<longrightarrow> own_session K userID sessionID [EvDb ''Get'' a] rec))"
proof -
  have own: "own_session K userID sessionID [EvDb ''Get'' a] rec"
    if "an_db a = d" "Some row = GetSessionForUser sessionID userID d" "sessionFromRow K row = Inr rec" for a d row rec
  proof -
    have "row \<in> set (db_sessions d)" "bs_ID row = sessionID" "live_of userID row"
      using that(2) by (auto simp: GetSessionForUser_def find_Some_iff eq_commute [of "Some row"])
    then show ?thesis using that unfolding own_session_def by auto
  qed
  show ?thesis unfolding store_Get_def row_query_def
    by (intro runs_bind runs_post [OF runs_db_run] assms runs_return)
      (auto simp: db_outcome_def Let_def split: sum.splits option.splits if_splits intro: own)
qed

text \<open>The calls once the Pod is known: each is allowed at the trace it is made at, and the facts stay known.\<close>

definition reads_since :: "klib \<Rightarrow> session_lib \<Rightarrow> uuid \<Rightarrow> uuid \<Rightarrow> backend_event list \<Rightarrow> backend_event list \<Rightarrow> backend_event \<Rightarrow> bool" where
  "reads_since L K userID sessionID t0 t e \<longleftrightarrow> (\<exists>es. t = t0 @ es \<and> monitor_reads L K userID sessionID es e)"

definition pod_known :: "klib \<Rightarrow> session_lib \<Rightarrow> uuid \<Rightarrow> uuid \<Rightarrow> backend_event list \<Rightarrow> Session \<Rightarrow> Pod \<Rightarrow> backend_world \<Rightarrow> bool" where
  "pod_known L K userID sessionID t0 rec pod v \<longleftrightarrow> (\<exists>es. w_trace v = t0 @ es \<and> own_pod L K userID sessionID es rec pod)"

lemma pod_known_step:
  "pod_known L K userID sessionID t0 rec pod v \<Longrightarrow> pod_known L K userID sessionID t0 rec pod (v\<lparr>w_trace := w_trace v @ [e]\<rparr>)"
  unfolding pod_known_def by (auto intro: own_mono)

lemma pod_known_reads:
  assumes "pod_known L K userID sessionID t0 rec pod v"
  shows "reads_since L K userID sessionID t0 (w_trace v) (EvPodMetric (ObjectKey (pod_Meta pod)) m)"
    and "reads_since L K userID sessionID t0 (w_trace v) (EvNodeStats (ps_NodeName (pod_Spec pod)) n)"
    and "reads_since L K userID sessionID t0 (w_trace v) (EvGetCR (ss_CRNamespace rec, ss_CRName rec) c)"
    and "reads_since L K userID sessionID t0 (w_trace v) (EvClock t)"
  using assms unfolding pod_known_def reads_since_def by (auto simp: own_pod_def)

lemma runs_session_metric:
  assumes "pod_known L K userID sessionID t0 rec pod w"
  shows "runs (reads_since L K userID sessionID t0) w (session_metric N A live pod metric) (\<lambda>_. pod_known L K userID sessionID t0 rec pod)"
  unfolding session_metric_def GetNodePodCounters_def node_stats_def
  by (intro runs_rules pod_known_reads [OF assms] pod_known_step assms)

definition shows_pod :: "Pod \<Rightarrow> backend_error + SessionSnapshot \<Rightarrow> bool" where
  "shows_pod pod r \<longleftrightarrow> (\<forall>snap. r = Inr snap \<longrightarrow> po_Namespace (sn_Pod snap) = om_Namespace (pod_Meta pod) \<and> po_Name (sn_Pod snap) = om_Name (pod_Meta pod))"

lemma runs_session_result:
  assumes "pod_known L K userID sessionID t0 rec pod w"
  shows "runs (reads_since L K userID sessionID t0) w (session_result L A rec pod metric) (\<lambda>r v. pod_known L K userID sessionID t0 rec pod v \<and>
    shows_pod pod r)"
  unfolding session_result_def get_cr_def clock_def
  by (intro runs_rules pod_known_reads [OF assms] pod_known_reads(4) [OF pod_known_step [OF assms]] conjI pod_known_step assms) (auto simp: shows_pod_def snapshotPod_def Let_def)

lemma runs_session_of_pod:
  assumes "pod_known L K userID sessionID t0 rec pod w"
  shows "runs (reads_since L K userID sessionID t0) w (session_of_pod L K N A live rec pod)
    (\<lambda>r v. pod_known L K userID sessionID t0 rec pod v \<and> shows_pod pod (fst r))"
  unfolding session_of_pod_def GetPodMetric_def get_pod_metric_def
  by (intro runs_bind runs_call runs_return runs_post [OF runs_session_metric [OF pod_known_step [OF assms]]] runs_case_prod runs_case_option
      runs_post [OF runs_session_result] pod_known_reads [OF assms]) (auto simp: shows_pod_def)

lemma runs_monitor_Session:
  "runs (reads_since L K userID sessionID (w_trace w)) w (monitor_Session L K N A live userID sessionID)
     (\<lambda>r v. \<forall>snap. fst r = Inr snap \<longrightarrow> (\<exists>rec pod. pod_known L K userID sessionID (w_trace w) rec pod v \<and> shows_pod pod (Inr snap)))"
proof -
  let ?P = "reads_since L K userID sessionID (w_trace w)" and ?known = "pod_known L K userID sessionID (w_trace w)"
  have pod: "?P (w_trace w @ [e]) (EvGetPod (ss_CRNamespace rec, PodName L (ss_ID rec)) r)" if "own_session K userID sessionID [e] rec" for e rec r
    using that by (auto simp: reads_since_def)
  have known: "?known rec pod (v\<lparr>w_trace := w_trace w @ [e, EvGetPod (ss_CRNamespace rec, PodName L (ss_ID rec)) (Inr pod)]\<rparr>)"
    if "own_session K userID sessionID [e] rec" for e rec pod v
    using own_mono(1) [OF that, of "[EvGetPod (ss_CRNamespace rec, PodName L (ss_ID rec)) (Inr pod)]"] by (simp add: pod_known_def own_pod_def)
  have tail: "runs ?P v (session_of_pod L K N A live rec pod) (\<lambda>r v. \<forall>snap. fst r = Inr snap \<longrightarrow> (\<exists>rec pod. ?known rec pod v \<and> shows_pod pod (Inr snap)))"
    if "?known rec pod v" for rec pod v
    by (rule runs_post [OF runs_session_of_pod [OF that]]) (metis (lifting))
  show ?thesis unfolding monitor_Session_def backend_get_pod_def
    by (intro runs_bind runs_post [OF runs_store_Get_own] runs_case_sum runs_return runs_call)
      (auto simp: reads_since_def [of _ _ _ _ "w_trace w" "w_trace w"] pod split: sum.split
        intro!: runs_return tail [OF known])
qed

text \<open>
  C29. Whatever the database, the API server, the metrics server and the Kubelets answer, a request for the resources of a
  session writes nothing and reads only what belongs to a live session that the database showed for this user: its Pod and its
  resource by their names, the metrics of that Pod and the summary of its Node. A snapshot shows that Pod.
\<close>

theorem monitor_Session_confined:
  assumes "events_of (monitor_Session L K N A live userID sessionID) w = es"
  shows "(\<forall>before e after. es = before @ e # after \<longrightarrow> monitor_reads L K userID sessionID before e) \<and>
    (\<forall>snap live'. result_of (monitor_Session L K N A live userID sessionID) w = (Inr snap, live') \<longrightarrow>
      (\<exists>rec pod. own_pod L K userID sessionID es rec pod \<and> po_Namespace (sn_Pod snap) = om_Namespace (pod_Meta pod) \<and>
        po_Name (sn_Pod snap) = om_Name (pod_Meta pod)))"
proof (intro conjI allI impI)
  note run = runs_monitor_Session [of L K userID sessionID w N A live]
  fix before e after
  assume "es = before @ e # after"
  from runs_events [OF run assms [unfolded this]] show "monitor_reads L K userID sessionID before e" by (simp add: reads_since_def)
next
  note run = runs_monitor_Session [of L K userID sessionID w N A live]
  fix snap live'
  assume "result_of (monitor_Session L K N A live userID sessionID) w = (Inr snap, live')"
  then show "\<exists>rec pod. own_pod L K userID sessionID es rec pod \<and> po_Namespace (sn_Pod snap) = om_Namespace (pod_Meta pod) \<and>
      po_Name (sn_Pod snap) = om_Name (pod_Meta pod)"
    using runs_result [OF run] runs_trace [OF run] assms by (auto simp: pod_known_def shows_pod_def)
qed

definition sample_monitor_lib :: monitor_lib where
  "sample_monitor_lib = \<lparr>NestedSlice = (\<lambda>j k. Inr None), NestedString = (\<lambda>j k. []), NestedStringMap = (\<lambda>j k. Inr None), GetNamespace = (\<lambda>j. []),
     GetName = (\<lambda>j. []), parse_stats_time = (\<lambda>s. None), Unmarshal_stats = (\<lambda>b. Inr []), label_keys = (\<lambda>m. [])\<rparr>"

lemma attach_metric: "b_pod_metric attach_api t k = Inl \<lparr>ke_kind = ErrNotFound, ke_msg = []\<rparr>"
  by (simp add: attach_api_def running_api_def ready_api_def quiet_api_def)

lemma sample_monitored:
  "\<exists>snap. result_of (monitor_Session decimal_lib sample_session_lib sample_monitor_lib attach_api Map.empty sample_user ''session'')
     (quiet_world (session_tables [sample_row ''Running'' None])) = (Inr snap, Map.empty)"
proof -
  have row: "GetSessionForUser ''session'' sample_user (session_tables [sample_row ''Running'' None]) = Some (sample_row ''Running'' None)"
    by (simp add: GetSessionForUser_def live_of_def session_tables_def sample_row_def new_row_simps)
  obtain rec where "sessionFromRow sample_session_lib (sample_row ''Running'' None) = Inr rec"
    by (simp add: sessionFromRow_def sample_session_lib_def)
  then show ?thesis
    by (simp add: monitor_Session_def store_Get_def row_query_def attach_run quiet_world_def row backend_get_pod_def session_of_pod_def
        GetPodMetric_def get_pod_metric_def session_metric_def attach_pod_def zero_PodSpec_def metricsUnavailable_def attach_metric session_result_def get_cr_def clock_def)
qed

theorem monitor_Session_confined_witness:
  "\<exists>snap rec pod. result_of (monitor_Session decimal_lib sample_session_lib sample_monitor_lib attach_api Map.empty sample_user ''session'')
     (quiet_world (session_tables [sample_row ''Running'' None])) = (Inr snap, Map.empty) \<and>
     own_pod decimal_lib sample_session_lib sample_user ''session'' (events_of (monitor_Session decimal_lib sample_session_lib sample_monitor_lib attach_api
       Map.empty sample_user ''session'') (quiet_world (session_tables [sample_row ''Running'' None]))) rec pod \<and> po_Name (sn_Pod snap) = om_Name (pod_Meta pod)"
proof -
  obtain snap where r: "result_of (monitor_Session decimal_lib sample_session_lib sample_monitor_lib attach_api Map.empty sample_user ''session'')
     (quiet_world (session_tables [sample_row ''Running'' None])) = (Inr snap, Map.empty)" using sample_monitored ..
  from monitor_Session_confined [OF refl, THEN conjunct2, rule_format, OF r] show ?thesis using r by blast
qed

section \<open>The cluster\<close>

lemma agent_owners_row:
  assumes "agent_owners d key = Some ow"
  shows "\<exists>row\<in>set (db_sessions d). \<exists>user\<in>set (db_users d). bs_ID row = key \<and> bs_UserID row = bu_ID user \<and>
    ow = \<lparr>ow_Username = bu_Email user, ow_SessionName = bs_DisplayName row\<rparr>"
proof -
  define f where "f = (\<lambda>(row :: BosunSession) owners. case find (\<lambda>u. bu_ID u = bs_UserID row) (db_users d) of None \<Rightarrow> owners
     | Some user \<Rightarrow> owners(bs_ID row \<mapsto> \<lparr>ow_Username = bu_Email user, ow_SessionName = bs_DisplayName row\<rparr>))"
  let ?I = "\<lambda>owners. \<forall>key ow. owners key = Some ow \<longrightarrow> (\<exists>row\<in>set (db_sessions d). \<exists>user\<in>set (db_users d). bs_ID row = key \<and>
      bs_UserID row = bu_ID user \<and> ow = \<lparr>ow_Username = bu_Email user, ow_SessionName = bs_DisplayName row\<rparr>)"
  have "?I (fold f (db_sessions d) Map.empty)"
  proof (rule fold_invariant [where P = "?I" and Q = "\<lambda>r. r \<in> set (db_sessions d)"])
    fix row owners
    assume row: "row \<in> set (db_sessions d)" and I: "?I owners"
    show "?I (f row owners)"
    proof (cases "find (\<lambda>u. bu_ID u = bs_UserID row) (db_users d)")
      case (Some user)
      then have "user \<in> set (db_users d)" "bs_UserID row = bu_ID user" by (auto simp: find_Some_iff)
      moreover have "f row owners = owners(bs_ID row \<mapsto> \<lparr>ow_Username = bu_Email user, ow_SessionName = bs_DisplayName row\<rparr>)" by (simp add: f_def Some)
      ultimately show ?thesis using row I by auto
    qed (use I in \<open>simp add: f_def\<close>)
  qed simp_all
  then show ?thesis using assms by (auto simp: agent_owners_def f_def)
qed

definition cluster_ok :: "backend_event list \<Rightarrow> ClusterSnapshot \<Rightarrow> bool" where
  "cluster_ok es snap \<longleftrightarrow> (\<exists>nodes pods a. EvListNodes (Inr nodes) \<in> set es \<and> EvListPods (Inr pods) \<in> set es \<and> EvDb ''ListAgentOwners'' a \<in> set es \<and>
     mset (map no_Name (cn_Nodes snap)) = mset (map (\<lambda>n. om_Name (nd_Meta n)) nodes) \<and>
     mset (map (\<lambda>p. (po_Namespace p, po_Name p)) (cn_Pods snap)) = mset (map (\<lambda>p. ObjectKey (pod_Meta p)) pods) \<and>
     (\<forall>p\<in>set (cn_Pods snap). po_Username p \<noteq> [] \<longrightarrow> po_IsAgent p \<and> (\<exists>row\<in>set (db_sessions (an_db a)). \<exists>user\<in>set (db_users (an_db a)).
        bs_ID row = po_SessionID p \<and> bs_UserID row = bu_ID user \<and> po_Username p = bu_Email user \<and> po_SessionName p = bs_DisplayName row)))"

lemma cluster_result_ok:
  assumes "EvListNodes (Inr nodes) \<in> set es" and "EvListPods (Inr pods) \<in> set es" and "EvDb ''ListAgentOwners'' a \<in> set es"
  shows "cluster_ok es (cluster_result L N now nodes pods (agent_owners (an_db a)) sessions pm nm)"
proof -
  have owner: "po_IsAgent (snapshotPod L pod m (agent_owners d) sc) \<and> (\<exists>row\<in>set (db_sessions d). \<exists>user\<in>set (db_users d).
      bs_ID row = po_SessionID (snapshotPod L pod m (agent_owners d) sc) \<and> bs_UserID row = bu_ID user \<and>
      po_Username (snapshotPod L pod m (agent_owners d) sc) = bu_Email user \<and> po_SessionName (snapshotPod L pod m (agent_owners d) sc) = bs_DisplayName row)"
    if "po_Username (snapshotPod L pod m (agent_owners d) sc) \<noteq> []" for pod m sc d
    using that agent_owners_row [of d "pod_session pod"] by (fastforce simp: snapshotPod_def Let_def split: option.splits if_splits)
  have "mset (map no_Name (cn_Nodes (cluster_result L N now nodes pods (agent_owners (an_db a)) sessions pm nm))) = mset (map (\<lambda>n. om_Name (nd_Meta n)) nodes)"
    by (simp add: cluster_result_def Let_def snapshotNode_def image_mset.compositionality comp_def)
  moreover have "mset (map (\<lambda>p. (po_Namespace p, po_Name p)) (cn_Pods (cluster_result L N now nodes pods (agent_owners (an_db a)) sessions pm nm))) =
      mset (map (\<lambda>p. ObjectKey (pod_Meta p)) pods)"
    by (simp add: cluster_result_def Let_def snapshotPod_def image_mset.compositionality comp_def ObjectKey_def)
  moreover have "set (cn_Pods (cluster_result L N now nodes pods (agent_owners (an_db a)) sessions pm nm)) \<subseteq>
      {snapshotPod L pod m (agent_owners (an_db a)) sc |pod m sc. True}" by (auto simp: cluster_result_def Let_def)
  ultimately show ?thesis using assms owner unfolding cluster_ok_def by blast
qed

lemma runs_cluster_metrics: "runs (\<lambda>_ _. True) w (cluster_metrics L K N A live nodes) (\<lambda>_ _. True)"
  unfolding cluster_metrics_def ListPodMetrics_def ListNodeMetrics_def list_pod_metrics_def list_node_metrics_def sample_node_counters_def
    GetNodePodCounters_def node_stats_def
  by (intro runs_rules TrueI runs_fold_prog [where I = "\<lambda>_ _. True", THEN runs_post])

lemma runs_more: "runs P w m Q \<Longrightarrow> runs P w m (\<lambda>r v. Q r v \<and> (\<exists>es. w_trace v = w_trace w @ es))"
  unfolding runs_def by blast

lemma runs_ListAgentOwners:
  "runs (\<lambda>_ _. True) w (ListAgentOwners A) (\<lambda>r v. \<exists>a. w_trace v = w_trace w @ [EvDb ''ListAgentOwners'' a] \<and>
     (\<forall>owners. r = Inr owners \<longrightarrow> owners = agent_owners (an_db a)))"
  unfolding ListAgentOwners_def by (intro runs_post [OF runs_db_run]) (auto simp: db_outcome_def Let_def split: if_splits)

lemma runs_monitor_Cluster:
  "runs (\<lambda>_ _. True) w (monitor_Cluster L K N A live) (\<lambda>r v. \<exists>es. w_trace v = w_trace w @ es \<and> (\<forall>snap. fst r = Inr snap \<longrightarrow> cluster_ok es snap))"
  unfolding monitor_Cluster_def list_nodes_def list_pods_def ListAgentSessions_def list_cr_def clock_def
  by (intro runs_rules TrueI runs_post [OF runs_ListAgentOwners] runs_post [OF runs_more [OF runs_cluster_metrics]])
    (auto intro!: cluster_result_ok)

text \<open>
  A snapshot of the cluster is complete and in order: the Nodes sorted by name and the Pods by namespace and name are
  those that the API server listed, each once, whatever the metrics. A Pod carries the name of a user only when it is labelled as an
  agent, and then that of the owner of its session in the database.
\<close>

theorem monitor_Cluster_lists:
  assumes "result_of (monitor_Cluster L K N A live) w = (Inr snap, live')"
  shows "sorted (map no_Name (cn_Nodes snap)) \<and> sorted (map (\<lambda>p. (po_Namespace p, po_Name p)) (cn_Pods snap)) \<and>
    cluster_ok (events_of (monitor_Cluster L K N A live) w) snap"
proof -
  note run = runs_monitor_Cluster [of w L K N A live]
  have "cluster_ok (events_of (monitor_Cluster L K N A live) w) snap" using runs_result [OF run] runs_trace [OF run] assms by auto
  moreover have "runs (\<lambda>_ _. True) w (monitor_Cluster L K N A live) (\<lambda>r v. \<forall>snap. fst r = Inr snap \<longrightarrow>
      sorted (map no_Name (cn_Nodes snap)) \<and> sorted (map (\<lambda>p. (po_Namespace p, po_Name p)) (cn_Pods snap)))"
    unfolding monitor_Cluster_def list_nodes_def list_pods_def ListAgentSessions_def list_cr_def clock_def
    by (intro runs_rules TrueI runs_post [OF runs_ListAgentOwners] runs_post [OF runs_cluster_metrics])
      (auto simp: cluster_result_def Let_def)
  ultimately show ?thesis using runs_result assms by fastforce
qed

theorem monitor_Cluster_lists_witness:
  "\<exists>snap. result_of (monitor_Cluster decimal_lib sample_session_lib sample_monitor_lib (quiet_api\<lparr>b_list_pods := (\<lambda>t. Inr [attach_pod])\<rparr>) Map.empty)
     (quiet_world (session_tables [])) = (Inr snap, Map.empty) \<and> length (cn_Pods snap) = 1 \<and> sorted (map no_Name (cn_Nodes snap))"
proof -
  let ?A = "quiet_api\<lparr>b_list_pods := (\<lambda>t. Inr [attach_pod])\<rparr>"
  obtain snap where snap: "result_of (monitor_Cluster decimal_lib sample_session_lib sample_monitor_lib ?A Map.empty) (quiet_world (session_tables [])) = (Inr snap, Map.empty)"
    and "length (cn_Pods snap) = 1"
    by (simp add: monitor_Cluster_def list_nodes_def list_pods_def ListAgentSessions_def list_cr_def clock_def cluster_metrics_def ListPodMetrics_def
        ListNodeMetrics_def list_pod_metrics_def list_node_metrics_def ListAgentOwners_def db_run_def quiet_api_def fatal_def cluster_result_def Let_def)
  then show ?thesis using monitor_Cluster_lists [OF snap] by auto
qed

end
