(* ===== verification/Api_Safety.thy ===== *)
theory Api_Safety
  imports Api_Server Session_Steps Monitor_Safety "HOL-Library.Sublist"
begin

text \<open>
  What the API server guarantees across its layers: a request that is authenticated as a user reaches only what belongs to that user, one
  that is not reaches nothing, registration is idempotent, and attempts to log in are limited before a password is checked.
\<close>

section \<open>Programs that stay within a user\<close>

text \<open>The rows of other users stay, and every resource written carries the identifier of the user.\<close>

definition keeps_others :: "uuid \<Rightarrow> database \<Rightarrow> database \<Rightarrow> bool" where
  "keeps_others u d d' \<longleftrightarrow> filter (\<lambda>r. bs_UserID r \<noteq> u) (db_sessions d') = filter (\<lambda>r. bs_UserID r \<noteq> u) (db_sessions d)"

fun own_write :: "uuid \<Rightarrow> backend_event \<Rightarrow> bool" where
  "own_write u (EvCreateCR cr r) = (sp_UserID (as_Spec cr) = u)"
| "own_write u (EvUpdateCR cr r) = (sp_UserID (as_Spec cr) = u)"
| "own_write u (EvDeleteCR cr uid rv r) = (sp_UserID (as_Spec cr) = u)"
| "own_write u (EvCreateEnv ue r) = False"
| "own_write u (EvExec k container command tty r) = False"
| "own_write u (EvUpgrade ok) = False"
| "own_write u e = True"

definition isolates :: "uuid \<Rightarrow> 'a backend \<Rightarrow> ('a \<Rightarrow> bool) \<Rightarrow> bool" where
  "isolates u m R \<longleftrightarrow> (\<forall>w. runs (\<lambda>_. own_write u) w m (\<lambda>x v. keeps_others u (w_mem w) (w_mem v) \<and> R x))"

lemma runs_all_events:
  assumes "runs (\<lambda>_. P) w m Q"
  shows "\<forall>e\<in>set (events_of m w). P e"
proof
  fix e
  assume "e \<in> set (events_of m w)"
  then obtain before after where "events_of m w = before @ e # after" by (auto dest: split_list)
  from runs_events [OF assms this] show "P e" .
qed

named_theorems isolate_rules \<open>rules that decompose a program that stays within a user\<close>

lemma keeps_refl [simp]: "keeps_others u d d"
  by (simp add: keeps_others_def)

lemma keeps_trans: "keeps_others u d d' \<Longrightarrow> keeps_others u d' d'' \<Longrightarrow> keeps_others u d d''"
  by (simp add: keeps_others_def)

lemma keeps_steps: "(keeps_others u)\<^sup>*\<^sup>* d d' \<Longrightarrow> keeps_others u d d'"
  by (induction rule: rtranclp_induct) (auto intro: keeps_trans)

lemma isolates_return [isolate_rules]: "R x \<Longrightarrow> isolates u (State_Monad.return x) R"
  by (simp add: isolates_def runs_return)

lemma isolates_bind:
  assumes "isolates u m Q" and "\<And>x. Q x \<Longrightarrow> isolates u (f x) R"
  shows "isolates u (State_Monad.bind m f) R"
  unfolding isolates_def
proof (intro allI runs_bind)
  fix w
  show "runs (\<lambda>_. own_write u) w m (\<lambda>x v. runs (\<lambda>_. own_write u) v (f x) (\<lambda>x v'. keeps_others u (w_mem w) (w_mem v') \<and> R x))"
  proof (rule runs_post [OF assms(1) [unfolded isolates_def, rule_format]])
    fix x and v :: backend_world
    assume "keeps_others u (w_mem w) (w_mem v) \<and> Q x"
    then show "runs (\<lambda>_. own_write u) v (f x) (\<lambda>x v'. keeps_others u (w_mem w) (w_mem v') \<and> R x)"
      by (intro runs_post [OF assms(2) [unfolded isolates_def, rule_format, of x v]]) (auto intro: keeps_trans)
  qed
qed

lemma isolates_weaken: "isolates u m Q \<Longrightarrow> (\<And>x. Q x \<Longrightarrow> R x) \<Longrightarrow> isolates u m R"
  unfolding isolates_def by (auto intro: runs_post)

text \<open>The rule for programs whose result does not matter.\<close>

lemma isolates_seq [isolate_rules]: "isolates u m (\<lambda>_. True) \<Longrightarrow> (\<And>x. isolates u (f x) R) \<Longrightarrow> isolates u (State_Monad.bind m f) R"
  by (rule isolates_bind)

lemma isolates_call [isolate_rules]: "(\<And>x. own_write u (event x)) \<Longrightarrow> isolates u (call answer event) (\<lambda>_. True)"
  by (simp add: isolates_def runs_call)

lemma isolates_if [isolate_rules]: "(b \<Longrightarrow> isolates u m R) \<Longrightarrow> (\<not> b \<Longrightarrow> isolates u n R) \<Longrightarrow> isolates u (if b then m else n) R"
  by simp

lemma isolates_case_sum [isolate_rules]:
  "(\<And>e. r = Inl e \<Longrightarrow> isolates u (f e) R) \<Longrightarrow> (\<And>x. r = Inr x \<Longrightarrow> isolates u (g x) R) \<Longrightarrow> isolates u (case r of Inl e \<Rightarrow> f e | Inr x \<Rightarrow> g x) R"
  by (cases r) simp_all

lemma isolates_case_option [isolate_rules]:
  "(r = None \<Longrightarrow> isolates u m R) \<Longrightarrow> (\<And>x. r = Some x \<Longrightarrow> isolates u (g x) R) \<Longrightarrow> isolates u (case r of None \<Rightarrow> m | Some x \<Rightarrow> g x) R"
  by (cases r) simp_all

lemma isolates_case_prod [isolate_rules]: "(\<And>x y. r = (x, y) \<Longrightarrow> isolates u (g x y) R) \<Longrightarrow> isolates u (case r of (x, y) \<Rightarrow> g x y) R"
  by (cases r) simp

lemma isolates_let [isolate_rules]: "isolates u (f x) R \<Longrightarrow> isolates u (Let x f) R"
  by simp

lemma isolates_retry_on: "isolates u m (\<lambda>_. True) \<Longrightarrow> isolates u (retry_on again n m) (\<lambda>_. True)"
  by (induction n) (simp_all add: isolates_seq isolates_case_option isolates_if isolates_return)

text \<open>Transactions.\<close>

lemma isolates_db:
  assumes "relies (keeps_others u) A" and "\<And>d d'. commits steps d d' \<Longrightarrow> keeps_others u d d'"
    and "\<And>now d d' r. run_tx None now steps d r0 = TxGo d' r \<Longrightarrow> R (Inr r)" and "\<And>e. R (Inl e)"
    and "\<And>fault now d r. run_tx fault now steps d r0 = TxEnd r \<Longrightarrow> R (Inr r)"
  shows "isolates u (db_run A name steps r0) R"
  unfolding isolates_def
proof (intro allI runs_post [OF runs_db_run] conjI)
  fix w r v
  assume out: "db_outcome A name steps r0 w r v"
  show "keeps_others u (w_mem w) (w_mem v)"
    by (rule keeps_steps, rule db_outcome_steps [OF assms(1) out], rule assms(2))
  show "R r" using out assms(3-5) by (auto simp: db_outcome_def Let_def)
qed simp

lemma isolates_reads:
  assumes "relies (keeps_others u) A" and "\<And>now d r d' x. tx now d r = TxGo d' x \<Longrightarrow> d' = d"
  shows "isolates u (db_run A name [(label, tx)] r0) (\<lambda>_. True)"
proof (rule isolates_db [OF assms(1)])
  fix d d'
  assume "commits [(label, tx)] d d'"
  then obtain now r y where "run_tx None now [(label, tx)] d r = TxGo d' y" by (auto simp: commits_def)
  then obtain x where "tx now d r = TxGo d' x" by (cases "tx now d r") auto
  then have "d' = d" by (rule assms(2))
  then show "keeps_others u d d'" by simp
qed simp_all

lemma isolates_nops: "relies (keeps_others u) A \<Longrightarrow> isolates u (db_run A name (map (\<lambda>l. (l, tx_nop)) labels) r0) (\<lambda>_. True)"
  by (rule isolates_db) (auto simp: commits_def dest!: run_tx_nops)

lemma filter_update_owned: "(\<And>r. P r \<Longrightarrow> bs_UserID r = u \<and> bs_UserID (f r) = u) \<Longrightarrow>
    filter (\<lambda>r. bs_UserID r \<noteq> u) (update_where P f rs) = filter (\<lambda>r. bs_UserID r \<noteq> u) rs"
  by (induction rs) (auto simp: update_where_def)

section \<open>The session service\<close>

lemma commits_own:
  shows "commits (create_tx K session event idem) d d' \<Longrightarrow> keeps_others (ss_UserID session) d d'"
    and "commits (update_desired_tx session event) d d' \<Longrightarrow> keeps_others (ss_UserID session) d d'"
    and "commits (soft_delete_tx u sessionID event) d d' \<Longrightarrow> keeps_others u d d'"
proof -
  show "keeps_others (ss_UserID session) d d'" if commit: "commits (create_tx K session event idem) d d'"
  proof -
    obtain conditions row d1 d2 now where "CreateSession (session_params session conditions) d = Inr (row, d1)"
      and event: "InsertSessionEvent (event_row event) d1 = Inr d2"
      and key: "d' = snd (InsertIdempotencyKey_sql now (key_row (ss_UserID session) idem) d2)"
      using commit by (auto simp: commits_def create_tx_def tx_nop_def insertEvent_def sql_result_def split_beta
        split: if_splits option.splits sum.splits)
    then have "bs_UserID row = ss_UserID session" "db_sessions d1 = db_sessions d @ [row]"
      by (auto simp: CreateSession_def Let_def session_row_def session_params_def split: if_splits)
    then show ?thesis using event_sessions [OF event] key_sessions key by (simp add: keeps_others_def)
  qed
  show "keeps_others (ss_UserID session) d d'" if "commits (update_desired_tx session event) d d'"
    using that by (auto simp: commits_def update_desired_tx_def tx_nop_def insertEvent_def sql_result_def keeps_others_def live_of_def
        UpdateSessionDesiredState_def update_session_where_def Let_def split: if_splits option.splits sum.splits prod.splits dest!: event_sessions intro!: filter_update_owned)
  show "keeps_others u d d'" if "commits (soft_delete_tx u sessionID event) d d'"
    using that by (auto simp: commits_def soft_delete_tx_def tx_nop_def insertEvent_def sql_result_def keeps_others_def live_of_def
        SoftDeleteSession_def update_session_where_def split: if_splits option.splits sum.splits prod.splits dest!: event_sessions intro!: filter_update_owned)
qed

lemma sessionFromRow_user: "sessionFromRow K row = Inr rec \<Longrightarrow> ss_UserID rec = bs_UserID row"
  by (auto simp: sessionFromRow_def split: option.splits)

abbreviation owned_by :: "uuid \<Rightarrow> backend_error + Session \<Rightarrow> bool" where
  "owned_by u r \<equiv> \<forall>rec. r = Inr rec \<longrightarrow> ss_UserID rec = u"

lemma isolates_store_Get:
  assumes "relies (keeps_others u) A"
  shows "isolates u (store_Get K A u sessionID) (owned_by u)"
proof -
  have "isolates u (row_query A ''Get'' ''get session'' (GetSessionForUser sessionID u)) (\<lambda>r. \<forall>row. r = Inr (Some row) \<longrightarrow> bs_UserID row = u)"
    unfolding row_query_def using assms
    by (rule isolates_db) (auto simp: commits_def GetSessionForUser_def live_of_def find_Some_iff split: if_splits)
  then show ?thesis unfolding store_Get_def
    by (rule isolates_bind) (auto intro!: isolates_return split: sum.splits option.splits dest: sessionFromRow_user)
qed

lemma isolates_queries:
  assumes A: "relies (keeps_others u) A"
  shows "isolates u (CountTotal A userID) (\<lambda>_. True)" and "isolates u (store_List K A userID limit offset) (\<lambda>_. True)"
    and "isolates u (GetIdempotencyKey A scope key) (\<lambda>_. True)" and "isolates u (GetUserByID A userID) (\<lambda>_. True)"
  unfolding CountTotal_def store_List_def rows_query_def GetIdempotencyKey_def GetUserByID_def
  by (intro isolate_rules isolates_reads [OF A] TrueI; auto simp: sql_result_def split: sum.splits option.splits)+

lemma isolates_calls:
  "isolates u (newEvent K A i ty payload t) (\<lambda>_. True)" "isolates u (env_Phase L A userID) (\<lambda>_. True)"
  "isolates u (transition_nonce A action session) (\<lambda>_. True)" "isolates u (clock A) (\<lambda>_. True)" "isolates u (new_uuid A) (\<lambda>_. True)"
  unfolding newEvent_def env_Phase_def transition_nonce_def backend_call_defs
  by (intro isolate_rules TrueI; simp)+

lemma isolates_cr_Get: "isolates u (cr_Get A session) (\<lambda>r. \<forall>cr. r = Inr cr \<longrightarrow> sp_UserID (as_Spec cr) = ss_UserID session)"
  unfolding cr_Get_def get_cr_def by (intro isolate_rules) (auto simp: cr_matches_def split: sum.splits if_splits)

lemma isolates_resources:
  assumes "ss_UserID session = u"
  shows "isolates u (session_Ensure L K A session) (\<lambda>_. True)" and "isolates u (Mutate K A session action nonce now) (\<lambda>_. True)"
    and "isolates u (cr_Delete A session) (\<lambda>_. True)"
proof -
  show "isolates u (session_Ensure L K A session) (\<lambda>_. True)"
    unfolding session_Ensure_def create_cr_def get_cr_def Let_def by (intro isolate_rules TrueI) (simp_all add: assms agentSessionFromDomain_def)
  have req: "sp_UserID (as_Spec changed) = sp_UserID (as_Spec cr)" if "request K action nonce now cr = Some changed" for cr changed
    using that by (auto simp: request_def split: Action.splits)
  have "isolates u (mutate_once K A session action nonce now) (\<lambda>_. True)"
    unfolding mutate_once_def get_cr_def update_cr_def by (intro isolate_rules TrueI) (auto dest!: req simp: cr_matches_def assms)
  then show "isolates u (Mutate K A session action nonce now) (\<lambda>_. True)" unfolding Mutate_def by (rule isolates_retry_on)
  show "isolates u (cr_Delete A session) (\<lambda>_. True)" unfolding cr_Delete_def delete_cr_def
    by (intro isolates_bind [OF isolates_cr_Get] isolate_rules TrueI) (simp add: assms)
qed

lemma isolates_lock:
  assumes A: "relies (keeps_others u) A" and "isolates u fn (\<lambda>_. True)"
  shows "isolates u (WithIdempotencyLock A zero fn) (\<lambda>_. True)"
  using isolates_nops [OF A, of _ "[''acquire idempotency lock connection'', ''acquire idempotency lock'']"]
    isolates_nops [OF A, of _ "[''release idempotency lock'']"] assms(2)
  unfolding WithIdempotencyLock_def by (intro isolate_rules TrueI) simp_all

lemma isolates_create_tx:
  assumes "relies (keeps_others u) A" and "ss_UserID session = u"
  shows "isolates u (CreateWithEventAndIdempotency K A session event idem) (\<lambda>_. True)"
  unfolding CreateWithEventAndIdempotency_def using assms(1)
  by (rule isolates_db) (auto simp flip: assms(2) intro: commits_own)

lemma isolates_UpdateDesired:
  assumes "relies (keeps_others u) A" and "ss_UserID session = u"
  shows "isolates u (UpdateDesired K A session event) (\<lambda>_. True)"
proof -
  have "isolates u (db_run A ''UpdateDesired'' (update_desired_tx session event) None) (\<lambda>_. True)"
    using assms(1) by (rule isolates_db) (auto simp flip: assms(2) intro: commits_own)
  then show ?thesis unfolding UpdateDesired_def by (intro isolate_rules TrueI)
qed

lemma isolates_SoftDelete:
  assumes "relies (keeps_others u) A"
  shows "isolates u (SoftDelete K A u sessionID event) (owned_by u)"
proof -
  have "isolates u (db_run A ''SoftDelete'' (soft_delete_tx u sessionID event) None) (\<lambda>r. \<forall>row. r = Inr (Some row) \<longrightarrow> bs_UserID row = u)"
    using assms
  proof (rule isolates_db)
    show "keeps_others u d d'" if "commits (soft_delete_tx u sessionID event) d d'" for d d' using that by (rule commits_own)
  qed (auto simp: soft_delete_tx_def tx_nop_def insertEvent_def sql_result_def SoftDeleteSession_def update_session_where_def live_of_def find_Some_iff
      split: if_splits option.splits sum.splits prod.splits)
  then show ?thesis unfolding SoftDelete_def
    by (rule isolates_bind) (auto intro!: isolates_return simp: committed_row_def split: sum.splits option.splits dest: sessionFromRow_user)
qed

lemma isolates_Create:
  assumes A: "relies (keeps_others u) A"
  shows "isolates u (session_Create L K A u key method path requestHash req) (\<lambda>_. True)"
  unfolding session_Create_def create_callback_def create_proceed_def create_ids_def create_record_def create_commit_def
  by (intro isolate_rules isolates_lock [OF A] isolates_queries [OF A] isolates_calls)
    (auto intro!: isolate_rules isolates_create_tx [OF A] isolates_queries [OF A] isolates_calls isolates_resources split: Decision.split
      simp: new_session_def)

lemma isolates_Transition:
  assumes A: "relies (keeps_others u) A"
  shows "isolates u (Transition K A u sessionID action) (\<lambda>_. True)"
  unfolding Transition_def transition_record_def
  by (intro isolates_bind [OF isolates_store_Get [OF A]] isolate_rules isolates_calls isolates_resources isolates_UpdateDesired [OF A]
      isolates_store_Get [OF A, THEN isolates_weaken]) (auto simp: transitioned_def)

lemma isolates_Delete:
  assumes A: "relies (keeps_others u) A"
  shows "isolates u (session_Delete K A u sessionID) (\<lambda>_. True)"
  unfolding session_Delete_def
  by (intro isolate_rules isolates_calls isolates_bind [OF isolates_SoftDelete [OF A]] isolates_resources) auto

lemma isolates_Get:
  assumes A: "relies (keeps_others u) A"
  shows "isolates u (session_Get L K A u sessionID) (\<lambda>_. True)"
  unfolding session_Get_def
  by (intro isolates_bind [OF isolates_store_Get [OF A]] isolate_rules isolates_cr_Get [THEN isolates_weaken]) auto

lemma isolates_monitor_Session:
  assumes A: "relies (keeps_others u) A"
  shows "isolates u (monitor_Session L K N A live u sessionID) (\<lambda>_. True)"
  unfolding monitor_Session_def session_of_pod_def GetPodMetric_def session_metric_def GetNodePodCounters_def session_result_def
  by (intro isolates_bind [OF isolates_store_Get [OF A]] isolate_rules isolates_calls TrueI)
    (auto simp: backend_call_defs intro!: isolate_rules)

section \<open>Requests\<close>

text \<open>Whenever the token of a request verifies, it is for the user \<open>u\<close>, or for no user at all.\<close>

definition acts_as :: "api_env \<Rightarrow> api_request \<Rightarrow> uuid \<Rightarrow> bool" where
  "acts_as E c u \<longleftrightarrow> (\<forall>token now claims. bearer_token c = Some token \<and> Verify (ev_C E) (ac_issuer (ah_svc (ev_h E))) token now = Inr claims \<longrightarrow>
     uuid_Parse (ev_K E) (cl_UserID claims) \<in> {None, Some u})"

lemma isolates_requireAuth:
  assumes "acts_as E c u"
  shows "isolates u (requireAuth E c) (\<lambda>r. \<forall>user. r = Inr user \<longrightarrow> uuid_Parse (ev_K E) user \<in> {None, Some u})"
  using assms unfolding requireAuth_def acts_as_def
  by (intro isolate_rules isolates_calls) (auto split: sum.splits)

lemmas session_handler_defs = me_def create_handler_def list_handler_def get_handler_def transition_handler_def delete_handler_def
  resources_handler_def keep_mem_def

lemma isolates_handler:
  assumes A: "relies (keeps_others u) (ev_A E)" and user: "uuid_Parse (ev_K E) user \<in> {None, Some u}"
    and r: "r \<in> {MeRoute, CreateRoute, ListRoute, GetRoute, DeleteRoute, TransitionRoute a, ResourcesRoute}"
  shows "isolates u (run_handler E r user c m) (\<lambda>_. True)"
proof -
  have ids: "userID = u" if "authenticatedUserID (ev_K E) user = Some userID \<or> sessionIDs (ev_K E) user c = Some (userID, sessionID)" for userID sessionID
    using that user by (auto simp: authenticatedUserID_def sessionIDs_def split: option.splits)
  have me: "isolates u (me E user) (\<lambda>_. True)" unfolding me_def Me_def
    by (intro isolate_rules isolates_queries [OF A] isolates_calls) auto
  have create: "isolates u (create_handler E user c) (\<lambda>_. True)" unfolding create_handler_def
    by (intro isolate_rules) (auto dest!: ids [OF disjI1] intro!: isolates_Create [OF A])
  have list: "isolates u (list_handler E user c) (\<lambda>_. True)" unfolding list_handler_def session_List_def
    by (intro isolate_rules isolates_queries [OF A]) auto
  have "isolates u (get_handler E user c) (\<lambda>_. True)" "isolates u (delete_handler E user c) (\<lambda>_. True)"
    "isolates u (transition_handler E a user c) (\<lambda>_. True)" "isolates u (resources_handler E user c m) (\<lambda>_. True)"
    unfolding get_handler_def delete_handler_def transition_handler_def resources_handler_def
    by (intro isolate_rules; auto dest!: ids [OF disjI2] intro!: isolates_Get [OF A] isolates_Delete [OF A] isolates_Transition [OF A] isolates_monitor_Session [OF A])+
  then show ?thesis using r me create list by (auto simp: keep_mem_def intro!: isolate_rules)
qed

lemma authenticated_routes:
  assumes "find_route c = Some (True, r)"
  shows "\<exists>a. r \<in> {MeRoute, CreateRoute, ListRoute, GetRoute, DeleteRoute, TransitionRoute a, ResourcesRoute}"
  using assms by (auto simp: find_route_def route_table_def split: if_splits)

lemma isolates_serve:
  assumes A: "relies (keeps_others u) (ev_A E)" and "acts_as E c u" and "find_route c = Some (True, r)"
  shows "isolates u (serve_api E c m) (\<lambda>_. True)"
proof -
  obtain a where r: "r \<in> {MeRoute, CreateRoute, ListRoute, GetRoute, DeleteRoute, TransitionRoute a, ResourcesRoute}"
    using authenticated_routes [OF assms(3)] by auto
  have "isolates u (requestIDMiddleware (ev_A E) c) (\<lambda>_. True)"
    unfolding requestIDMiddleware_def random_uuid_def by (intro isolate_rules TrueI) simp
  then show ?thesis unfolding serve_api_def assms(3)
    by (auto intro!: isolate_rules isolates_bind [OF isolates_requireAuth [OF assms(2)]] isolates_handler [OF A _ r] split: sum.splits)
qed

text \<open>
  C5. Users are isolated. Whatever the API server answers, a request to a route that asks for authentication, whose token is
  for the user \<open>u\<close>, leaves the session rows of every other user as they are, as long as the other clients do; it creates, updates
  and deletes only AgentSession resources that carry \<open>u\<close> as their user, and it runs no command and opens no terminal.
\<close>

theorem requests_isolated:
  assumes "relies (keeps_others u) (ev_A E)" and "acts_as E c u" and "find_route c = Some (True, r)"
  shows "keeps_others u (w_mem w) (w_mem (world_after (serve_api E c m) w)) \<and> (\<forall>e\<in>set (events_of (serve_api E c m) w). own_write u e)"
proof -
  note run = isolates_serve [OF assms, of m, unfolded isolates_def, rule_format, of w]
  show ?thesis using runs_result [OF run] runs_all_events [OF run] by simp
qed

definition sample_app :: app_lib where
  "sample_app = \<lparr>Unmarshal_register = (\<lambda>b. Some (''a@b.c'', b)), Bind_login = (\<lambda>b. Some (''a@b.c'', ''password'')),
     Unmarshal_create = (\<lambda>b. Some sample_request), Marshal_registered = (\<lambda>r. ud_ID (re_User r)), Marshal_error = (\<lambda>code text. ''error'')\<rparr>"

definition sample_server :: api_env where
  "sample_server = \<lparr>ev_L = decimal_lib, ev_K = sample_session_lib, ev_C = sample_verifier, ev_N = sample_monitor_lib, ev_J = sample_app, ev_A = attach_api,
     ev_h = \<lparr>ah_svc = \<lparr>ac_issuer = sample_jwt, ac_argon = DefaultArgon2Params, ac_refreshTTL = 1000\<rparr>,
       ah_cookie = \<lparr>cc_Name = ''bosun_refresh'', cc_Path = ''/api/v1/auth'', cc_Secure = True, cc_TTL = 1000\<rparr>, ah_trustedProxyHeader = []\<rparr>\<rparr>"

definition sample_delete :: api_request where
  "sample_delete = \<lparr>ap_Method = ''DELETE'', ap_FullPath = ''/api/v1/sessions/:id'', ap_ID = ''session'',
     ap_Header = [(''Authorization'', [''Bearer YQ.YQ.YQ''])], ap_Protocols = [], ap_Query = Map.empty, ap_Cookies = Map.empty, ap_Body = None, ap_RemoteAddr = ''10.0.0.1:80''\<rparr>"

definition sample_mem :: api_mem where
  "sample_mem = \<lparr>am_loginByIP = limiter_New 5 60 100, am_loginByEmail = limiter_New 2 60 100, am_live = Map.empty\<rparr>"

lemma sample_acts_as: "acts_as sample_server sample_delete sample_user"
  by (auto simp: acts_as_def sample_server_def Verify_def verify_claims_def sample_verifier_def sample_session_lib_def Let_def bind_eq_Some_conv
      split: list.splits option.splits if_splits sum.splits)

lemma sample_route_found: "find_route sample_delete = Some (True, DeleteRoute)"
  by (simp add: find_route_def route_table_def sample_delete_def)

theorem requests_isolated_witness:
  "keeps_others sample_user (session_tables [sample_row ''Running'' None])
     (w_mem (world_after (serve_api sample_server sample_delete sample_mem) (quiet_world (session_tables [sample_row ''Running'' None])))) \<and>
   list_all (own_write sample_user) (events_of (serve_api sample_server sample_delete sample_mem) (quiet_world (session_tables [sample_row ''Running'' None])))"
proof -
  have "relies (keeps_others sample_user) (ev_A sample_server)"
    by (simp add: relies_def sample_server_def attach_api_def running_api_def ready_api_def quiet_api_def)
  from requests_isolated [OF this sample_acts_as sample_route_found, of "quiet_world (session_tables [sample_row ''Running'' None])" sample_mem]
  show ?thesis by (simp add: quiet_world_def list_all_iff)
qed

section \<open>Requests without a user\<close>

definition unverified :: "api_env \<Rightarrow> api_request \<Rightarrow> bool" where
  "unverified E c \<longleftrightarrow> (\<forall>token now. bearer_token c = Some token \<longrightarrow> (\<exists>e. Verify (ev_C E) (ac_issuer (ah_svc (ev_h E))) token now = Inl e))"

fun local_event :: "backend_event \<Rightarrow> bool" where
  "local_event (EvClock t) = True"
| "local_event (EvRandomUUID i) = True"
| "local_event e = False"

lemma runs_unverified:
  assumes "unverified E c" and "find_route c = Some (True, r)"
  shows "runs (\<lambda>_. local_event) w (serve_api E c m) (\<lambda>(i, reply, m') v. reply \<in> {apierr_Write api_InvalidCredentials, apierr_Write api_TokenExpired} \<and>
    m' = m \<and> w_mem v = w_mem w)"
proof -
  have "runs (\<lambda>_. local_event) v (requireAuth E c)
      (\<lambda>a v'. a \<in> {Inl (apierr_Write api_InvalidCredentials), Inl (apierr_Write api_TokenExpired)} \<and> w_mem v' = w_mem v)" for v
  proof (cases "bearer_token c")
    case None
    then show ?thesis by (simp add: requireAuth_def runs_return)
  next
    case (Some token)
    then have "\<exists>e. Verify (ev_C E) (ac_issuer (ah_svc (ev_h E))) token now = Inl e" for now using assms(1) by (simp add: unverified_def)
    then have "Verify (ev_C E) (ac_issuer (ah_svc (ev_h E))) token now \<noteq> Inr claims" for now claims by (metis sum.distinct(1))
    then show ?thesis unfolding requireAuth_def clock_def Some option.case by (intro runs_rules) (auto split: sum.split)
  qed
  note auth = runs_post [OF this]
  have "runs (\<lambda>_. local_event) w (requestIDMiddleware (ev_A E) c) (\<lambda>_ v. w_mem v = w_mem w)"
    unfolding requestIDMiddleware_def random_uuid_def Let_def by (intro runs_rules) auto
  then show ?thesis unfolding serve_api_def assms(2) option.case prod.case if_True
    by (intro runs_bind, elim runs_post) (intro runs_bind auth, auto simp: runs_return)
qed

text \<open>
  C28. Nothing happens without a token. A request to a route that asks for authentication, without a bearer token or with one that does not verify,
  is answered with status 401 and one of the two codes for it; the memory of the process and the database stay as they are, and neither the
  database nor the cluster is even asked.
\<close>

theorem unauthenticated_refused:
  assumes "unverified E c" and "find_route c = Some (True, r)"
  shows "\<exists>i code. result_of (serve_api E c m) w = (i, \<lparr>aw_Status = 401, aw_Body = ErrorBody code ErrorText, aw_Cookies = []\<rparr>, m) \<and> code \<in> {20001, 20002} \<and>
    w_mem (world_after (serve_api E c m) w) = w_mem w \<and> (\<forall>e\<in>set (events_of (serve_api E c m) w). local_event e)"
proof -
  note run = runs_unverified [OF assms, of w m]
  obtain i reply where "result_of (serve_api E c m) w = (i, reply, m)" "reply \<in> {apierr_Write api_InvalidCredentials, apierr_Write api_TokenExpired}"
    "w_mem (world_after (serve_api E c m) w) = w_mem w" using runs_result [OF run] by (auto split: prod.splits)
  then show ?thesis using runs_all_events [OF run] by (auto simp: apierr_Write_def json_reply_def api_codes)
qed

theorem unauthenticated_refused_witness:
  "\<exists>i code. result_of (serve_api sample_server (sample_delete\<lparr>ap_Header := []\<rparr>) sample_mem) (quiet_world (session_tables [sample_row ''Running'' None])) =
     (i, \<lparr>aw_Status = 401, aw_Body = ErrorBody code ErrorText, aw_Cookies = []\<rparr>, sample_mem) \<and> code \<in> {20001, 20002}"
proof -
  have "bearer_token (sample_delete\<lparr>ap_Header := []\<rparr>) = None" by code_simp
  then have "unverified sample_server (sample_delete\<lparr>ap_Header := []\<rparr>)" by (simp add: unverified_def)
  moreover have "find_route (sample_delete\<lparr>ap_Header := []\<rparr>) = Some (True, DeleteRoute)" using sample_route_found by (simp add: find_route_def)
  ultimately show ?thesis using unauthenticated_refused by blast
qed

section \<open>Attempts to log in\<close>

text \<open>
  The attempts in the order in which the limiters see them, each with the address, the key of the email and the time, and those that get
  through to the check of the password.
\<close>

fun login_run :: "(string \<times> string \<times> time) list \<Rightarrow> api_mem \<Rightarrow> (string \<times> string \<times> time) list" where
  "login_run [] m = []"
| "login_run ((ip, email, now) # xs) m = (case allow_login ip email now m of (ok, m') \<Rightarrow> (if ok then [(ip, email, now)] else []) @ login_run xs m')"

lemma login_run_ip:
  "subseq (map (\<lambda>x. (fst x, snd (snd x))) (login_run xs m)) (fst (limiter_run (map (\<lambda>x. (CallAllow (fst x), snd (snd x))) xs) (am_loginByIP m)))"
  by (induction xs m rule: login_run.induct) (auto simp: allow_login_def Let_def split_beta)

text \<open>The calls of the second limiter: the attempts that the first one lets through.\<close>

lemma login_run_email:
  "\<exists>ys. subseq ys xs \<and> map snd (login_run xs m) =
     fst (limiter_run (map (\<lambda>x. (CallAllow (fst (snd x)), snd (snd x))) ys) (am_loginByEmail m))"
proof (induction xs m rule: login_run.induct)
  case (2 ip email now xs m)
  obtain ok m' where a: "allow_login ip email now m = (ok, m')" by fastforce
  from "2.IH" [OF a [symmetric]] obtain ys where ys: "subseq ys xs" "map snd (login_run xs m') =
     fst (limiter_run (map (\<lambda>x. (CallAllow (fst (snd x)), snd (snd x))) ys) (am_loginByEmail m'))" by blast
  show ?case
  proof (cases "fst (Allow ip now (am_loginByIP m))")
    case True
    then have "allow_login ip email now m = (case Allow email now (am_loginByEmail m) of (ok', l') \<Rightarrow>
        (ok', m\<lparr>am_loginByIP := snd (Allow ip now (am_loginByIP m)), am_loginByEmail := l'\<rparr>))" by (simp add: allow_login_def split_beta Let_def)
    with a ys show ?thesis by (intro exI [of _ "(ip, email, now) # ys"]) (auto simp: split_beta Let_def)
  next
    case False
    then have "ok = False \<and> am_loginByEmail m' = am_loginByEmail m" using a by (auto simp: allow_login_def split_beta Let_def)
    with a ys show ?thesis by (intro exI [of _ ys]) auto
  qed
qed (auto intro: exI [of _ "[]"])

lemma count_in_subseq:
  assumes "subseq xs ys"
  shows "count_in (granted_to key xs) a b \<le> count_in (granted_to key ys) a b"
proof -
  have "subseq (filter (\<lambda>x. a \<le> x \<and> x < b) (granted_to key xs)) (filter (\<lambda>x. a \<le> x \<and> x < b) (granted_to key ys))"
    unfolding granted_to_def by (intro subseq_filter subseq_map assms)
  then show ?thesis unfolding count_in_def by (simp add: list_emb_length)
qed

lemma sorted_subseq: "subseq xs ys \<Longrightarrow> sorted ys \<Longrightarrow> sorted (xs :: time list)"
  by (induction rule: list_emb.induct) (auto dest: list_emb_set)

lemma login_refused:
  assumes "Bind_login (ev_J E) (ap_Body c) = Some (email, password)"
    and "\<not> fst (allow_login (clientIP c (ah_trustedProxyHeader (ev_h E))) (normalizeForKey (ev_C E) email) (b_now (ev_A E) (w_trace w)) m)"
  shows "fst (result_of (login E c m) w) = apierr_Write api_RateLimited" "events_of (login E c m) w = [EvClock (b_now (ev_A E) (w_trace w))]"
  using assms by (simp_all add: login_def clock_def events_of_def split_beta)

lemma login_limited:
  assumes "sorted (map (\<lambda>x. snd (snd x)) xs)" and "0 < w" and "1 \<le> n" and "0 < w'" and "1 \<le> n'"
    and "m = \<lparr>am_loginByIP = limiter_New n w capacity, am_loginByEmail = limiter_New n' w' capacity', am_live = live\<rparr>"
  shows "count_in (granted_to ip (map (\<lambda>x. (fst x, snd (snd x))) (login_run xs m))) t (t + w) \<le> 2 * n \<and>
    count_in (granted_to key (map snd (login_run xs m))) t (t + w') \<le> 2 * n' \<and>
    (\<forall>E c email password m wd. Bind_login (ev_J E) (ap_Body c) = Some (email, password) \<and>
      \<not> fst (allow_login (clientIP c (ah_trustedProxyHeader (ev_h E))) (normalizeForKey (ev_C E) email) (b_now (ev_A E) (w_trace wd)) m) \<longrightarrow>
      aw_Status (fst (result_of (login E c m) wd)) = 429 \<and> events_of (login E c m) wd = [EvClock (b_now (ev_A E) (w_trace wd))])"
proof (intro conjI allI impI)
  have "sorted (map snd (map (\<lambda>x. (CallAllow (fst x), snd (snd x))) xs))" using assms(1) by (simp add: comp_def)
  from limiter_rate [OF this assms(2,3), of ip capacity t] count_in_subseq [OF login_run_ip, of ip xs m t "t + w"]
  show "count_in (granted_to ip (map (\<lambda>x. (fst x, snd (snd x))) (login_run xs m))) t (t + w) \<le> 2 * n" by (simp add: assms(6))
  obtain ys where ys: "subseq ys xs" "map snd (login_run xs m) =
     fst (limiter_run (map (\<lambda>x. (CallAllow (fst (snd x)), snd (snd x))) ys) (am_loginByEmail m))" using login_run_email by blast
  have "sorted (map (\<lambda>x. snd (snd x)) ys)" using assms(1) sorted_subseq [OF subseq_map [OF ys(1)]] by blast
  then have "sorted (map snd (map (\<lambda>x. (CallAllow (fst (snd x)), snd (snd x))) ys))" by (simp add: comp_def)
  from limiter_rate [OF this assms(4,5)]
  show "count_in (granted_to key (map snd (login_run xs m))) t (t + w') \<le> 2 * n'" unfolding ys(2) by (simp add: assms(6))
qed (auto simp: login_refused apierr_Write_def json_reply_def api_codes)

section \<open>Registration is idempotent\<close>

lemma guarantees_Register:
  assumes "relies (same_keys scope key) A"
  shows "guarantees (same_keys scope key) (Register L C A cfg email password)"
proof -
  have "guarantees (same_keys scope key) (CreateUser C A i e h)" for i e h
    unfolding CreateUser_def
    by (rule guarantees_db [OF assms]) (auto simp: commits_def create_user_tx_def CreateUser_sql_def same_keys_def keys_of_def Let_def
        split: sum.splits sql_error.splits if_splits prod.splits)
  then show ?thesis unfolding Register_def auth_createUser_def HashPassword_def env_Ensure_def backend_call_defs
    by (intro guarantee_rules)
qed

lemma mapAuthError_status: "fst (mapAuthError e) \<noteq> StatusOK"
  by (simp add: mapAuthError_def api_codes StatusOK_def)

text \<open>A registration that succeeds leaves its record.\<close>

abbreviation registered :: "backend_api \<Rightarrow> string \<Rightarrow> bytes \<Rightarrow> (int \<times> bytes) \<times> backend_error option \<Rightarrow> database \<Rightarrow> bool" where
  "registered A key hash r d \<equiv> fst (fst r) = StatusOK \<longrightarrow> recorded A uuid_Nil key hash (\<lparr>co_Status = fst (fst r), co_Body = snd (fst r)\<rparr>, snd r) d"

lemma runs_insert_key:
  assumes A: "relies (same_keys uuid_Nil key) A" and "keys_of uuid_Nil key (w_mem w) = []"
  shows "runs (\<lambda>_ _. True) w (InsertIdempotencyKey A (register_record c key hash reply now))
    (\<lambda>r v. r = Inr True \<longrightarrow> (\<exists>row. keys_of uuid_Nil key (w_mem v) = [row] \<and> ik_RequestHash row = hash \<and> ik_ResponseStatus row = fst reply \<and>
      ik_ResponseBody row = snd reply \<and> ik_ExpiresAt row = now + day))"
  unfolding InsertIdempotencyKey_def
proof (intro runs_post [OF runs_db_run] TrueI impI)
  fix r v
  let ?rec = "idempotency_row (register_record c key hash reply now)" and ?a = "b_db A (w_trace w) (w_mem w)"
  assume "db_outcome A ''InsertIdempotencyKey'' (insert_key_tx (register_record c key hash reply now)) False w r v" and "r = Inr True"
  then have "w_mem v = snd (InsertIdempotencyKey_sql (an_now ?a) ?rec (an_db ?a))"
    by (auto simp: db_outcome_def Let_def insert_key_tx_def split_beta split: if_splits)
  moreover have rec: "ik_UserID ?rec = uuid_Nil" "ik_Key ?rec = key" by (simp_all add: idempotency_row_def register_record_def)
  moreover have "keys_of uuid_Nil key (an_db ?a) = []" using same_keys_db [OF A] assms(2) by simp
  ultimately have "keys_of uuid_Nil key (w_mem v) = [?rec\<lparr>ik_CreatedAt := an_now ?a\<rparr>]" using insert_key_keys [of ?rec "an_db ?a" "an_now ?a"] by simp
  then show "\<exists>row. keys_of uuid_Nil key (w_mem v) = [row] \<and> ik_RequestHash row = hash \<and> ik_ResponseStatus row = fst reply \<and>
      ik_ResponseBody row = snd reply \<and> ik_ExpiresAt row = now + day" by (simp add: idempotency_row_def register_record_def)
qed

lemma runs_register_callback:
  assumes A: "relies (same_keys uuid_Nil key) (ev_A E)" and "keys_of uuid_Nil key (w_mem w) = []"
  shows "runs (\<lambda>_ _. True) w (register_callback E c key body hash) (\<lambda>r v. registered (ev_A E) key hash r (w_mem v))"
proof -
  let ?none = "\<lambda>v :: backend_world. keys_of uuid_Nil key (w_mem v) = []"
  have get: "runs (\<lambda>_ _. True) w (GetIdempotencyKey (ev_A E) uuid_Nil key) (\<lambda>r v. (\<forall>x. r = Inr x \<longrightarrow> x = None) \<and> ?none v)"
    unfolding GetIdempotencyKey_def using same_keys_db [OF A, of "w_trace w" "w_mem w"] assms(2)
    by (intro runs_post [OF runs_db_run]) (auto simp: db_outcome_def Let_def get_key_keys split: if_splits)
  have new: "runs (\<lambda>_ _. True) v (Register (ev_L E) (ev_C E) (ev_A E) (ah_svc (ev_h E)) email password) (\<lambda>_. ?none)" if "?none v" for v email password
    using that by (intro runs_post [OF runs_guarantees [OF guarantees_Register [OF A]]]) (auto dest: same_keys_steps)
  have insert: "runs (\<lambda>_ _. True) v' (InsertIdempotencyKey (ev_A E) (register_record c key hash reply (b_now (ev_A E) t)))
    (\<lambda>r v. r = Inr True \<longrightarrow> recorded (ev_A E) uuid_Nil key hash (\<lparr>co_Status = fst reply, co_Body = snd reply\<rparr>, None) (w_mem v))"
    if "?none v'" for v' reply t
    using that by (intro runs_post [OF runs_insert_key [OF A]]) (auto simp: recorded_def)
  have "runs (\<lambda>_ _. True) v (register_new E c key body hash) (\<lambda>r v. registered (ev_A E) key hash r (w_mem v))" if "?none v" for v
    unfolding register_new_def clock_def Let_def
    by (auto intro!: runs_bind runs_return runs_call runs_post [OF new [OF that]] runs_post [OF insert] split: option.split sum.split
        simp: renderError_def mapAuthError_status [unfolded StatusOK_def] api_codes StatusOK_def)
  then show ?thesis unfolding register_callback_def
    by (auto intro!: runs_bind runs_return runs_post [OF get] simp: toIdemRecord_def Decide_def StatusOK_def split: sum.split)
qed

lemma register_replay:
  assumes "no_faults (ev_A E)" and "relies (same_keys uuid_Nil key) (ev_A E)" and "keys_of uuid_Nil key (w_mem w) = [row]"
    and "\<And>t d. an_now (b_db (ev_A E) t d) < ik_ExpiresAt row" and "header_Get (ap_Header c) ''Idempotency-Key'' = key" and "key \<noteq> []" and "ap_Body c = Some body"
  shows "result_of (register E c) w = (if ik_RequestHash row = RequestHash (ev_L E) (ap_Method c) (ap_FullPath c) body
      then json_reply (ik_ResponseStatus row) (RawBody (ik_ResponseBody row))
      else json_reply (fst api_IdempotencyConflict) (RawBody (Marshal_error (ev_J E) (snd api_IdempotencyConflict) ErrorText)))"
    and "\<exists>a1 a2 a3. events_of (register E c) w = [EvDb ''idempotency lock'' a1, EvDb ''GetIdempotencyKey'' a2, EvDb ''idempotency unlock'' a3]"
proof -
  let ?A = "ev_A E" and ?hash = "RequestHash (ev_L E) (ap_Method c) (ap_FullPath c) body"
  let ?v = "world_after (lock_prog ?A) w" and ?cb = "register_callback E c key body ?hash"
  have "keys_of uuid_Nil key (an_db (b_db ?A (w_trace ?v) (w_mem ?v))) = [row]" using lock_keys(1) [OF assms(1,2)] same_keys_db [OF assms(2)] assms(3) by simp
  then have "result_of (GetIdempotencyKey ?A uuid_Nil key) ?v = Inr (Some (idempotencyFromRow row))"
    using assms(4) by (simp add: GetIdempotencyKey_def db_run_no_faults [OF assms(1)] get_key_keys)
  then have cb: "result_of ?cb ?v = ((if ik_RequestHash row = ?hash then (ik_ResponseStatus row, ik_ResponseBody row)
        else renderError (ev_J E) api_IdempotencyConflict ErrorText), None)" "world_after ?cb ?v = world_after (GetIdempotencyKey ?A uuid_Nil key) ?v"
    by (simp_all add: register_callback_def toIdemRecord_def idempotencyFromRow_def Decide_def)
  show "result_of (register E c) w = (if ik_RequestHash row = ?hash then json_reply (ik_ResponseStatus row) (RawBody (ik_ResponseBody row))
      else json_reply (fst api_IdempotencyConflict) (RawBody (Marshal_error (ev_J E) (snd api_IdempotencyConflict) ErrorText)))"
    using assms(5-7) by (simp add: register_def lock_result [OF assms(1)] cb renderError_def)
  have "world_after (register E c) w = world_after (unlock_prog ?A) (world_after (GetIdempotencyKey ?A uuid_Nil key) ?v)"
    using assms(5-7) by (simp add: register_def lock_result [OF assms(1)] cb split_beta)
  then show "\<exists>a1 a2 a3. events_of (register E c) w = [EvDb ''idempotency lock'' a1, EvDb ''GetIdempotencyKey'' a2, EvDb ''idempotency unlock'' a3]"
    unfolding events_of_def lock_prog_def unlock_prog_def GetIdempotencyKey_def by (simp add: db_run_trace)
qed

lemma register_leaves_record:
  assumes "no_faults (ev_A E)" and "relies (same_keys uuid_Nil key) (ev_A E)" and "keys_of uuid_Nil key (w_mem w) = []"
    and "header_Get (ap_Header c) ''Idempotency-Key'' = key" and "aw_Status (result_of (register E c) w) = StatusOK"
  obtains row t body where "ap_Body c = Some body" "keys_of uuid_Nil key (w_mem (world_after (register E c) w)) = [row]" "ik_ExpiresAt row = b_now (ev_A E) t + day"
    "ik_RequestHash row = RequestHash (ev_L E) (ap_Method c) (ap_FullPath c) body"
    "result_of (register E c) w = json_reply (ik_ResponseStatus row) (RawBody (ik_ResponseBody row))"
proof -
  let ?A = "ev_A E" and ?v = "world_after (lock_prog (ev_A E)) w"
  have key: "key \<noteq> []" using assms(4,5) by (auto simp: register_def Let_def writeErrorMessage_def json_reply_def api_codes StatusOK_def)
  then obtain body where body: "ap_Body c = Some body" using assms(4,5)
    by (cases "ap_Body c") (auto simp: register_def Let_def apierr_Write_def json_reply_def api_codes StatusOK_def)
  let ?hash = "RequestHash (ev_L E) (ap_Method c) (ap_FullPath c) body"
  let ?cb = "register_callback E c key body ?hash"
  have reg: "result_of (register E c) w = (if snd (result_of ?cb ?v) \<noteq> None then apierr_Write api_Internal
      else json_reply (fst (fst (result_of ?cb ?v))) (RawBody (snd (fst (result_of ?cb ?v)))))"
    "world_after (register E c) w = world_after (unlock_prog ?A) (world_after ?cb ?v)"
    using assms(4) key body by (simp_all add: register_def lock_result [OF assms(1)] split_beta)
  have ok: "snd (result_of ?cb ?v) = None" "fst (fst (result_of ?cb ?v)) = StatusOK"
    using assms(5) unfolding reg by (auto simp: apierr_Write_def json_reply_def api_codes StatusOK_def split: if_splits)
  have "keys_of uuid_Nil key (w_mem ?v) = []" using lock_keys(1) [OF assms(1,2)] assms(3) by simp
  from runs_result [OF runs_register_callback [OF assms(2) this, of c body ?hash]] ok
  obtain row t where "keys_of uuid_Nil key (w_mem (world_after ?cb ?v)) = [row]" "ik_RequestHash row = ?hash"
    "ik_ResponseStatus row = fst (fst (result_of ?cb ?v))" "ik_ResponseBody row = snd (fst (result_of ?cb ?v))" "ik_ExpiresAt row = b_now ?A t + day"
    by (auto simp: recorded_def)
  with that [OF body] show thesis using lock_keys(2) [OF assms(1,2)] by (simp add: reg ok)
qed

text \<open>
  C20. Registration is idempotent. When a registration under a new key succeeds, a repetition under the key with the same request gets the same
  status and the same bytes, one with another request is refused with status 409, and in either case the repetition only takes the lock, reads
  the key and releases the lock: no second user and no second environment. This holds on a database that answers, while nobody else uses
  the key and the record has not expired.
\<close>

theorem register_idempotent:
  assumes "no_faults (ev_A E)" and "relies (same_keys uuid_Nil key) (ev_A E)" and "keys_of uuid_Nil key (w_mem w) = []"
    and "\<forall>t t' d. an_now (b_db (ev_A E) t d) < b_now (ev_A E) t' + day"
    and "header_Get (ap_Header c) ''Idempotency-Key'' = key" and "ap_Body c = Some body" and "aw_Status (result_of (register E c) w) = 200"
    and "header_Get (ap_Header c') ''Idempotency-Key'' = key" and "ap_Body c' = Some body'"
  shows "result_of (register E c') (world_after (register E c) w) =
      (if RequestHash (ev_L E) (ap_Method c') (ap_FullPath c') body' = RequestHash (ev_L E) (ap_Method c) (ap_FullPath c) body
       then result_of (register E c) w else json_reply 409 (RawBody (Marshal_error (ev_J E) 10002 ErrorText))) \<and>
    (\<exists>a1 a2 a3. events_of (register E c') (world_after (register E c) w) =
      [EvDb ''idempotency lock'' a1, EvDb ''GetIdempotencyKey'' a2, EvDb ''idempotency unlock'' a3])"
proof -
  from assms(7) have "aw_Status (result_of (register E c) w) = StatusOK" by (simp add: StatusOK_def)
  from register_leaves_record [OF assms(1-3,5) this] assms(6) obtain row t
    where row: "keys_of uuid_Nil key (w_mem (world_after (register E c) w)) = [row]" "ik_ExpiresAt row = b_now (ev_A E) t + day"
    "ik_RequestHash row = RequestHash (ev_L E) (ap_Method c) (ap_FullPath c) body"
    "result_of (register E c) w = json_reply (ik_ResponseStatus row) (RawBody (ik_ResponseBody row))" by (metis option.inject)
  have key: "key \<noteq> []" using assms(5,7) by (auto simp: register_def Let_def writeErrorMessage_def json_reply_def api_codes)
  have "an_now (b_db (ev_A E) t' d) < ik_ExpiresAt row" for t' d using assms(4) row(2) by simp
  from register_replay [OF assms(1,2) row(1) this assms(8) key assms(9)] show ?thesis using row(3,4) by (auto simp: api_codes)
qed

definition sample_registration :: api_request where
  "sample_registration = \<lparr>ap_Method = ''POST'', ap_FullPath = ''/api/v1/auth/register'', ap_ID = [],
     ap_Header = [(''Idempotency-Key'', [''key''])], ap_Protocols = [], ap_Query = Map.empty, ap_Cookies = Map.empty, ap_Body = Some ''a long password'',
     ap_RemoteAddr = ''10.0.0.1:80''\<rparr>"

lemma sample_server_simps:
  "ev_L sample_server = decimal_lib" "ev_K sample_server = sample_session_lib" "ev_C sample_server = sample_verifier" "ev_J sample_server = sample_app"
  "ah_svc (ev_h sample_server) = \<lparr>ac_issuer = sample_jwt, ac_argon = DefaultArgon2Params, ac_refreshTTL = 1000\<rparr>"
  by (simp_all add: sample_server_def)

lemma sample_registers:
  "aw_Status (result_of (register (sample_server\<lparr>ev_A := ready_api\<rparr>) sample_registration) (quiet_world (session_tables []))) = 200"
proof -
  have "header_Get (ap_Header sample_registration) ''Idempotency-Key'' = ''key''" "normalizeEmail sample_verifier ''a@b.c'' = Inr ''a@b.c''"
    "validatePassword ''a long password'' = None" by code_simp+
  moreover have "b_create_env ready_api t ue = None" "b_random ready_api t n = Inr (replicate n (if t = [] then CHR ''a'' else CHR ''b''))" for t ue n
    by (simp_all add: ready_api_def quiet_api_def)
  moreover have "(char_of (48 :: nat) :: char) = CHR ''0''" by code_simp
  moreover have "sql_lower sample_verifier s = s" for s by (simp add: sample_verifier_def sample_auth_def)
  moreover have "ap_Body sample_registration = Some ''a long password''" "Unmarshal_register sample_app ''a long password'' = Some (''a@b.c'', ''a long password'')"
    by (simp_all add: sample_registration_def sample_app_def)
  ultimately show ?thesis
    by (simp add: register_def lock_result [OF ready_no_faults] lock_prog_def sample_server_simps register_callback_def register_new_def HashPassword_def env_Ensure_def
        toIdemRecord_def Register_def auth_createUser_def create_run_simps CreateUser_def create_user_tx_def CreateUser_sql_def InsertIdempotencyKey_def
        insert_key_tx_def json_reply_def renderOK_def StatusOK_def sample_user_def)
qed

theorem register_idempotent_witness:
  "result_of (register (sample_server\<lparr>ev_A := ready_api\<rparr>) sample_registration)
     (world_after (register (sample_server\<lparr>ev_A := ready_api\<rparr>) sample_registration) (quiet_world (session_tables []))) =
   result_of (register (sample_server\<lparr>ev_A := ready_api\<rparr>) sample_registration) (quiet_world (session_tables []))"
proof -
  let ?E = "sample_server\<lparr>ev_A := ready_api\<rparr>" and ?w = "quiet_world (session_tables [])"
  have "header_Get (ap_Header sample_registration) ''Idempotency-Key'' = ''key''" by code_simp
  moreover have "ap_Body sample_registration = Some ''a long password''" by (simp add: sample_registration_def)
  moreover have "\<forall>t t' d. an_now (b_db ready_api t d) < b_now ready_api t' + day" by (simp add: ready_simps day_def second_def)
  moreover have "keys_of uuid_Nil ''key'' (w_mem ?w) = []" by (simp add: keys_of_def quiet_world_def session_tables_def)
  ultimately show ?thesis using register_idempotent [of ?E "''key''" ?w sample_registration "''a long password''" sample_registration "''a long password''"]
      ready_no_faults quiet_relies(2) sample_registers by simp
qed

end
