(* ===== verification/Config_Safety.thy ===== *)
theory Config_Safety
  imports Backend_Config Api_Safety Gateway_Safety
begin

text \<open>
  What the configuration guarantees to the rest of the backend: a server that starts has the positive limits, the terminal
  and the upstream that the theorems about the components ask for.
\<close>

section \<open>Values\<close>

lemma then_load_Inr: "then_load r f = Inr y \<longleftrightarrow> (\<exists>x. r = Inr x \<and> f x = Inr y)"
  by (cases r) auto

lemma loaded_positive:
  "duration_value_of env key (numeral d) = Inr v \<Longrightarrow> 0 < v"
  "positiveInt env key (numeral n) = Inr k \<Longrightarrow> 0 < k"
  "positiveInt64 env key (numeral n) = Inr k \<Longrightarrow> 0 < k"
  by (auto simp: duration_value_of_def positiveInt_def positiveInt64_def split: if_splits option.splits)

lemma LoadTerminal_ok:
  assumes "LoadTerminal env = Inr t"
  shows "terminal_NewHandler_ok t"
proof -
  have "0 < tf_WriteQueueCapacity t" "0 < tf_InputQueueCapacity t" "0 < tf_MaxFrameBytes t" "0 < tf_WriteTimeout t" "0 < tf_PongTimeout t"
    "0 < tf_PingInterval t" "0 < tf_ActivityMinInterval t" "tf_PingInterval t < tf_PongTimeout t"
    using assms unfolding LoadTerminal_def then_load_Inr by (auto simp: second_def split: if_splits dest: loaded_positive)
  then show ?thesis by (simp add: terminal_NewHandler_ok_def)
qed

lemma LoadAuth_positive:
  assumes "LoadAuth F env = Inr a"
  shows "0 < at_LoginIPLimit a" "0 < at_LoginEmailLimit a" "0 < at_LoginIPWindow a" "0 < at_LoginEmailWindow a" "0 < at_AccessTokenTTL a" "0 < at_RefreshTokenTTL a"
  using assms unfolding LoadAuth_def then_load_Inr by (auto simp: second_def day_def dest: loaded_positive)

lemma LoadAuth_key:
  assumes "LoadAuth F env = Inr a"
  shows "\<exists>block. ParsePKCS8PrivateKey F block = Inr (Some (at_JWTPrivateKey a))"
  using assms by (auto simp: LoadAuth_def loadEd25519PrivateKey_def then_load_Inr split: if_splits option.splits sum.splits)

section \<open>The API\<close>

definition server_of :: "AuthConfig \<Rightarrow> JWTIssuer \<Rightarrow> terminal_config \<Rightarrow> authHandler \<times> api_mem \<times> terminal_config" where
  "server_of auth issuer terminal = (\<lparr>ah_svc = \<lparr>ac_issuer = issuer, ac_argon = at_Argon2 auth, ac_refreshTTL = at_RefreshTokenTTL auth\<rparr>,
     ah_cookie = \<lparr>cc_Name = at_RefreshCookieName auth, cc_Path = at_RefreshCookiePath auth, cc_Secure = at_RefreshCookieSecure auth,
       cc_TTL = at_RefreshTokenTTL auth\<rparr>, ah_trustedProxyHeader = at_TrustedProxyHeader auth\<rparr>,
     \<lparr>am_loginByIP = limiter_New (at_LoginIPLimit auth) (at_LoginIPWindow auth) (at_LoginLimiterCap auth),
       am_loginByEmail = limiter_New (at_LoginEmailLimit auth) (at_LoginEmailWindow auth) (at_LoginLimiterCap auth), am_live = Map.empty\<rparr>, terminal)"

lemma api_run_Inr:
  "api_run F C env = Inr server \<longleftrightarrow> (\<exists>cfg a t i. config_Load F env ComponentAPI = Inr cfg \<and> LoadAuth F env = Inr a \<and> LoadTerminal env = Inr t \<and>
     NewJWTIssuer C (at_Issuer a) (at_JWTPrivateKey a) (at_AccessTokenTTL a) = Some i \<and> server = server_of a i t)"
  unfolding api_run_def server_of_def
  by (cases "config_Load F env ComponentAPI"; cases "LoadAuth F env"; cases "LoadTerminal env") (auto simp: LoadTerminal_ok split: option.splits)


definition sample_config :: config_lib where
  "sample_config = \<lparr>url_Parse = (\<lambda>raw. Some \<lparr>pu_url = \<lparr>url_Scheme = ''https'', url_Host = ''llm.example'', url_Path = ''/v1'', url_RawQuery = []\<rparr>, pu_User = False, pu_Fragment = []\<rparr>),
     level_UnmarshalText = (\<lambda>t. Some 0), os_ReadFile = (\<lambda>f. None), pem_Decode = Some, ParsePKCS8PrivateKey = (\<lambda>b. Inr (Some (replicate 64 CHR ''k'')))\<rparr>"

definition sample_environ :: environ where
  "sample_environ = (\<lambda>_. [])(''BOSUN_DATABASE_URL'' := ''postgres://db'', ''BOSUN_API_JWT_PRIVATE_KEY'' := ''pem'', ''BOSUN_API_LOGIN_IP_LIMIT'' := ''3'',
     ''BOSUN_API_LOGIN_IP_WINDOW'' := ''1m30s'', ''BOSUN_GATEWAY_UPSTREAM_URL'' := ''https://llm.example/v1'', ''BOSUN_GATEWAY_UPSTREAM_API_KEY'' := ''sk'')"

lemma sample_started: "\<exists>h t. api_run sample_config sample_auth sample_environ = Inr (h,
    \<lparr>am_loginByIP = limiter_New 3 (90 * second) 10000, am_loginByEmail = limiter_New 5 (900 * second) 10000, am_live = Map.empty\<rparr>, t)"
proof -
  have "ParseDuration ''1m30s'' = Some (90 * second)" "ParseInt64 ''3'' = Some 3" by code_simp+
  then show ?thesis
    by (simp add: api_run_def config_Load_def LoadAuth_def LoadTerminal_def loadEd25519PrivateKey_def raw_private_key_def sample_config_def sample_environ_def
        parseLogLevel_def duration_value_of_def positiveInt_def positiveInt64_def boolValue_def config_prefix_def NewJWTIssuer_def Let_def second_def
        terminal_NewHandler_ok_def)
qed


text \<open>
  C19. Guessing passwords is slow. For every environment with which the API server starts, in any history of attempts to log in with a clock that
  does not go back, every interval of the length of the configured window sees at most twice the configured limit of attempts get through
  from one address, and likewise for one email, whatever the other attempts are. An attempt that does not get through is answered with
  status 429 before the database is asked or a password is checked.
\<close>

theorem configured_logins_limited:
  assumes "LoadAuth F env = Inr a" and "api_run F C env = Inr (h, m, t)" and "sorted (map (\<lambda>x. snd (snd x)) xs)"
  shows "count_in (granted_to ip (map (\<lambda>x. (fst x, snd (snd x))) (login_run xs m))) s (s + at_LoginIPWindow a) \<le> 2 * at_LoginIPLimit a \<and>
    count_in (granted_to key (map snd (login_run xs m))) s (s + at_LoginEmailWindow a) \<le> 2 * at_LoginEmailLimit a \<and>
    (\<forall>E c email password m wd. Bind_login (ev_J E) (ap_Body c) = Some (email, password) \<and>
      \<not> fst (allow_login (clientIP c (ah_trustedProxyHeader (ev_h E))) (normalizeForKey (ev_C E) email) (b_now (ev_A E) (w_trace wd)) m) \<longrightarrow>
      aw_Status (fst (result_of (login E c m) wd)) = 429 \<and> events_of (login E c m) wd = [EvClock (b_now (ev_A E) (w_trace wd))])"
proof -
  have m: "m = \<lparr>am_loginByIP = limiter_New (at_LoginIPLimit a) (at_LoginIPWindow a) (at_LoginLimiterCap a),
      am_loginByEmail = limiter_New (at_LoginEmailLimit a) (at_LoginEmailWindow a) (at_LoginLimiterCap a), am_live = Map.empty\<rparr>"
    using assms(1,2) by (auto simp: api_run_Inr server_of_def)
  have "1 \<le> at_LoginIPLimit a" "1 \<le> at_LoginEmailLimit a" using LoadAuth_positive(1,2) [OF assms(1)] by auto
  from login_limited [OF assms(3) LoadAuth_positive(3) [OF assms(1)] this(1) LoadAuth_positive(4) [OF assms(1)] this(2) m] show ?thesis .
qed

theorem configured_logins_limited_witness:
  "\<exists>h m t. api_run sample_config sample_auth sample_environ = Inr (h, m, t) \<and>
     count_in (granted_to ''10.0.0.1'' (map (\<lambda>x. (fst x, snd (snd x))) (login_run [(''10.0.0.1'', ''a@b.c'', 1), (''10.0.0.2'', ''a@b.c'', 2), (''10.0.0.1'', ''d@e.f'', 2)] m)))
       0 (90 * second) \<le> 6"
proof -
  obtain h m t where run: "api_run sample_config sample_auth sample_environ = Inr (h, m, t)" using sample_started by blast
  obtain a where a: "LoadAuth sample_config sample_environ = Inr a" using run by (auto simp: api_run_Inr)
  have "ParseDuration ''1m30s'' = Some (90 * second)" "ParseInt64 ''3'' = Some 3" by code_simp+
  then have "at_LoginIPWindow a = 90 * second" "at_LoginIPLimit a = 3" using a
    by (auto simp: LoadAuth_def then_load_Inr duration_value_of_def positiveInt_def sample_environ_def second_def split: if_splits)
  then show ?thesis using run configured_logins_limited [OF a run, of "[(''10.0.0.1'', ''a@b.c'', 1), (''10.0.0.2'', ''a@b.c'', 2), (''10.0.0.1'', ''d@e.f'', 2)]" "''10.0.0.1''" 0 "[]"]
    by auto
qed

section \<open>The gateway\<close>

lemma auth_scheme_ok: "auth_scheme header scheme = Inr s \<Longrightarrow> header \<in> {''Authorization'', ''X-Api-Key''}"
  by (auto simp: auth_scheme_def split: if_splits)

lemma authSchemePattern_no_break: "authSchemePattern s \<Longrightarrow> CHR 0x0D \<notin> set s \<and> CHR 0x0A \<notin> set s"
  by (auto simp: authSchemePattern_def list_all_iff in_range_def is_digit_def nat_of_byte_def)

definition gateway_config_ok :: "config_lib \<Rightarrow> environ \<Rightarrow> GatewayConfig \<Rightarrow> bool" where
  "gateway_config_ok F env g \<longleftrightarrow> upstream_url_ok F (gc_UpstreamURL g) \<and> gc_UpstreamAPIKey g = env ''BOSUN_GATEWAY_UPSTREAM_API_KEY'' \<and>
     gc_UpstreamAuthHeader g \<in> {''Authorization'', ''X-Api-Key''} \<and>
     (\<forall>c\<in>{CHR 0x0D, CHR 0x0A}. c \<notin> set (gc_UpstreamAPIKey g) \<and> c \<notin> set (gc_UpstreamAuthScheme g))"

lemma loadGatewayConfig_ok:
  assumes "loadGatewayConfig F env = Inr g"
  shows "gateway_config_ok F env g"
proof -
  note load = assms [unfolded loadGatewayConfig_def Let_def]
  have ok: "upstream_url_ok F (gc_UpstreamURL g)" "gc_UpstreamAPIKey g = env ''BOSUN_GATEWAY_UPSTREAM_API_KEY''"
      "CHR 0x0D \<notin> set (gc_UpstreamAPIKey g)" "CHR 0x0A \<notin> set (gc_UpstreamAPIKey g)" "gc_UpstreamAuthScheme g = [] \<or> authSchemePattern (gc_UpstreamAuthScheme g)"
      "auth_scheme (gc_UpstreamAuthHeader g) (env ''BOSUN_GATEWAY_UPSTREAM_AUTH_SCHEME'') = Inr (gc_UpstreamAuthScheme g)"
    using load by (auto simp only: then_load_Inr sum.distinct sum.inject GatewayConfig.simps split: if_split_asm)
  then show ?thesis using auth_scheme_ok [OF ok(6)] authSchemePattern_no_break [of "gc_UpstreamAuthScheme g"] by (auto simp: gateway_config_ok_def)
qed

lemma config_Load_gateway:
  assumes "config_Load F env ComponentGateway = Inr cfg" and "cf_Gateway cfg = Some g"
  shows "loadGatewayConfig F env = Inr g"
  using assms by (cases "loadGatewayConfig F env") (auto simp add: config_Load_def Let_def then_load_Inr split: if_split_asm)

lemma gateway_run_Inr:
  assumes "gateway_run F env = Inr (hc, u)"
  obtains g pu where "gateway_config_ok F env g" "url_Parse F (gc_UpstreamURL g) = Some pu" "u = pu_url pu" "hc = \<lparr>hc_UpstreamAPIKey = gc_UpstreamAPIKey g,
      hc_Provider = gc_Provider g, hc_UpstreamAuthHeader = gc_UpstreamAuthHeader g, hc_UpstreamAuthScheme = gc_UpstreamAuthScheme g\<rparr>"
proof -
  obtain cfg where cfg: "config_Load F env ComponentGateway = Inr cfg" using assms by (cases "config_Load F env ComponentGateway") (simp_all add: gateway_run_def)
  obtain g where g: "cf_Gateway cfg = Some g" using assms by (cases "cf_Gateway cfg") (simp_all add: gateway_run_def cfg)
  obtain pu where pu: "url_Parse F (gc_UpstreamURL g) = Some pu" using assms by (cases "url_Parse F (gc_UpstreamURL g)") (simp_all add: gateway_run_def cfg g)
  have "gateway_config_ok F env g" using config_Load_gateway [OF cfg g] by (rule loadGatewayConfig_ok)
  then show thesis using assms by (intro that [of g pu]) (simp_all add: gateway_run_def cfg g pu)
qed



end
