(* ===== verification/Auth_Proxy.thy ===== *)
theory Auth_Proxy
  imports Gateway Go_Time Backend
begin

text \<open>
  The proxy beside every agent, \<open>images/agent/cmd/auth-proxy\<close>: it sends the calls of the agent to the gateway with the token of
  the Pod, and drains before the Pod hibernates. A request and a drain are goroutines; a step of one is what it does between two accesses
  to the shared atomics, so any interleaving of the program is a sequence of these steps. The reverse proxy of \<open>net/http/httputil\<close> is
  modelled as far as it rewrites the request.
\<close>

section \<open>The request to the gateway\<close>

text \<open>\<open>joinURLPath\<close> of the proxy; the gateway has its own.\<close>

definition proxy_joinURLPath :: "string \<Rightarrow> string \<Rightarrow> string" where
  "proxy_joinURLPath basePath requestPath =
     (if basePath = [] \<or> basePath = ''/'' then requestPath
      else let joined = path_Join [basePath, requestPath]
           in if HasSuffix requestPath ''/'' \<and> \<not> HasSuffix joined ''/'' then joined @ ''/'' else joined)"

definition Director :: "url \<Rightarrow> string \<Rightarrow> http_request \<Rightarrow> upstream_request" where
  "Director target token r = \<lparr>ur_Method = rq_Method r,
     ur_URL = \<lparr>url_Scheme = url_Scheme target, url_Host = url_Host target, url_Path = proxy_joinURLPath (url_Path target) (rq_Path r),
       url_RawQuery = rq_RawQuery r\<rparr>,
     ur_Host = url_Host target,
     ur_Header = header_Set ''Authorization'' (''Bearer '' @ token)
       (header_Del ''Proxy-Authorization'' (header_Del ''X-Api-Key'' (header_Del ''Authorization'' (rq_Header r)))),
     ur_Body = rq_Body r, ur_ContentLength = rq_ContentLength r\<rparr>"

text \<open>
  What \<open>ReverseProxy.ServeHTTP\<close> does to the header after the director: fields named by \<open>Connection\<close> and the hop-by-hop fields go,
  \<open>Te\<close> and an upgrade are put back, the address of the client is added, and no default user agent is sent.
\<close>

definition TrimString :: "string \<Rightarrow> string" where
  "TrimString s = (let sp = (\<lambda>c. c \<in> {CHR '' '', CHR 0x09, CHR 0x0A, CHR 0x0D}) in rev (dropWhile sp (rev (dropWhile sp s))))"

definition connection_names :: "http_header \<Rightarrow> string list" where
  "connection_names h = filter (\<lambda>n. n \<noteq> []) (map TrimString (concat (map (Split CHR '','') (header_values h ''Connection''))))"

definition hopHeaders :: "string list" where
  "hopHeaders = [''Connection'', ''Proxy-Connection'', ''Keep-Alive'', ''Proxy-Authenticate'', ''Proxy-Authorization'', ''Te'', ''Trailer'', ''Transfer-Encoding'', ''Upgrade'']"

definition removeHopByHopHeaders :: "http_header \<Rightarrow> http_header" where
  "removeHopByHopHeaders h = fold header_Del (connection_names h @ hopHeaders) h"

definition contains_token :: "string list \<Rightarrow> string \<Rightarrow> bool" where
  "contains_token vs token \<longleftrightarrow> (\<exists>v\<in>set vs. \<exists>p\<in>set (Split CHR '','' v). map lower_char (TrimString p) = map lower_char token)"

definition upgradeType :: "http_header \<Rightarrow> string" where
  "upgradeType h = (if contains_token (header_values h ''Connection'') ''Upgrade'' then header_Get h ''Upgrade'' else [])"

definition put_upgrade :: "string \<Rightarrow> http_header \<Rightarrow> http_header" where
  "put_upgrade t h = (if t = [] then h else header_Set ''Upgrade'' t (header_Set ''Connection'' ''Upgrade'' h))"

definition forwarded_for :: "string \<Rightarrow> http_header \<Rightarrow> http_header" where
  "forwarded_for remoteAddr h = (case SplitHost remoteAddr of None \<Rightarrow> h
     | Some ip \<Rightarrow> header_Set ''X-Forwarded-For'' (concat (map (\<lambda>v. v @ '', '') (header_values h ''X-Forwarded-For'')) @ ip) h)"

definition keep_agent :: "http_header \<Rightarrow> http_header" where
  "keep_agent h = (if ''User-Agent'' \<in> fst ` set h then h else header_Set ''User-Agent'' [] h)"

text \<open>The request that leaves, or nothing when the reverse proxy refuses the upgrade.\<close>

definition proxied :: "url \<Rightarrow> string \<Rightarrow> string \<Rightarrow> http_request \<Rightarrow> upstream_request option" where
  "proxied target token remoteAddr r =
     (let out = Director target token r; up = upgradeType (ur_Header out);
          te = contains_token (header_values (rq_Header r) ''Te'') ''trailers'';
          h = removeHopByHopHeaders (ur_Header out);
          h' = (if te then header_Set ''Te'' ''trailers'' h else h)
      in if \<not> list_all (in_range 32 126) up then None
         else Some (out\<lparr>ur_Header := keep_agent (forwarded_for remoteAddr (put_upgrade up h'))\<rparr>))"

section \<open>Requests\<close>

record proxyState =
  ps_draining :: bool
  ps_activeRequests :: int

text \<open>
  Where a request is: before the first load of \<open>draining\<close>, before the counter is raised, before the second load, before the token
  is read, in the reverse proxy, before the deferred decrement, and at the end.
\<close>

datatype request_pc = Arrived | Entering | Entered | Admitted | Proxying | Leaving | Gone

record request_thread =
  rt_request :: http_request
  rt_remote :: string
  rt_pc :: request_pc
  rt_sent :: "upstream_request option"
  rt_reply :: "(int \<times> string) option"

datatype proxy_outcome = GatewayReply int | GatewayError bool | GatewayAborted

text \<open>The answer of \<open>ErrorHandler\<close>, and the reason it logs: whether the deadline passed.\<close>

definition stableProxyReason :: "bool \<Rightarrow> string" where
  "stableProxyReason deadlineExceeded = (if deadlineExceeded then ''gateway_timeout'' else ''gateway_unavailable'')"

definition proxy_reply :: "proxy_outcome \<Rightarrow> (int \<times> string) option" where
  "proxy_reply out = (case out of GatewayReply status \<Rightarrow> Some (status, []) | GatewayError _ \<Rightarrow> Some (502, ''gateway_unavailable'') | GatewayAborted \<Rightarrow> None)"

text \<open>The file with the token and what the transport answers are the environment's.\<close>

record proxy_input =
  pi_file :: "bytes option"
  pi_outcome :: proxy_outcome
  pi_now :: time
  pi_cancelled :: bool

definition request_step :: "url \<Rightarrow> proxy_input \<Rightarrow> proxyState \<Rightarrow> request_thread \<Rightarrow> proxyState \<times> request_thread" where
  "request_step target x s t = (case rt_pc t of
     Arrived \<Rightarrow> if ps_draining s then (s, t\<lparr>rt_pc := Gone, rt_reply := Some (503, ''proxy_draining'')\<rparr>) else (s, t\<lparr>rt_pc := Entering\<rparr>)
   | Entering \<Rightarrow> (s\<lparr>ps_activeRequests := i64 (ps_activeRequests s + 1)\<rparr>, t\<lparr>rt_pc := Entered\<rparr>)
   | Entered \<Rightarrow> if ps_draining s then (s, t\<lparr>rt_pc := Leaving, rt_reply := Some (503, ''proxy_draining'')\<rparr>) else (s, t\<lparr>rt_pc := Admitted\<rparr>)
   | Admitted \<Rightarrow> (case pi_file x of
       None \<Rightarrow> (s, t\<lparr>rt_pc := Leaving, rt_reply := Some (503, ''token_unavailable'')\<rparr>)
     | Some content \<Rightarrow>
         if TrimSpace content = [] then (s, t\<lparr>rt_pc := Leaving, rt_reply := Some (503, ''token_unavailable'')\<rparr>)
         else (case proxied target (TrimSpace content) (rt_remote t) (rt_request t) of
           None \<Rightarrow> (s, t\<lparr>rt_pc := Leaving, rt_reply := Some (502, ''gateway_unavailable'')\<rparr>)
         | Some out \<Rightarrow> (s, t\<lparr>rt_pc := Proxying, rt_sent := Some out\<rparr>)))
   | Proxying \<Rightarrow> (s, t\<lparr>rt_pc := Leaving, rt_reply := proxy_reply (pi_outcome x)\<rparr>)
   | Leaving \<Rightarrow> (s\<lparr>ps_activeRequests := i64 (ps_activeRequests s - 1)\<rparr>, t\<lparr>rt_pc := Gone\<rparr>)
   | Gone \<Rightarrow> (s, t))"

section \<open>Drains\<close>

text \<open>
  A drain has to be parsed, waits for its deadline at the head of the loop or in the \<open>select\<close> until a time, reads the counter a
  last time, and has answered with what it read, was refused, or was given up with its request.
\<close>

datatype drain_pc = Asked | Waiting time | Sleeping time time | Reporting | Answered int | Refused int string | GivenUp

record drain_thread =
  dt_method :: string
  dt_timeout :: string
  dt_pc :: drain_pc

definition millisecond :: duration where
  "millisecond = 1000000"

text \<open>The time to wait, from the parameter of the query; nothing when it is refused.\<close>

definition drain_timeout :: "string \<Rightarrow> duration option" where
  "drain_timeout raw = (if raw = [] then Some (25 * second)
     else case ParseDuration raw of None \<Rightarrow> None | Some d \<Rightarrow> if d \<le> 0 \<or> d > 30 * second then None else Some d)"

definition handleDrain :: "proxy_input \<Rightarrow> proxyState \<Rightarrow> drain_thread \<Rightarrow> proxyState \<times> drain_thread" where
  "handleDrain x s t = (case dt_pc t of
     Asked \<Rightarrow>
       if dt_method t \<noteq> ''POST'' then (s, t\<lparr>dt_pc := Refused 405 ''method_not_allowed''\<rparr>)
       else (case drain_timeout (dt_timeout t) of
         None \<Rightarrow> (s, t\<lparr>dt_pc := Refused 400 ''invalid_timeout''\<rparr>)
       | Some timeout \<Rightarrow> (s\<lparr>ps_draining := True\<rparr>, t\<lparr>dt_pc := Waiting (pi_now x + timeout)\<rparr>))
   | Waiting deadline \<Rightarrow>
       if ps_activeRequests s > 0 \<and> pi_now x < deadline then (s, t\<lparr>dt_pc := Sleeping deadline (pi_now x + 25 * millisecond)\<rparr>)
       else (s, t\<lparr>dt_pc := Reporting\<rparr>)
   | Sleeping deadline wake \<Rightarrow>
       if pi_cancelled x then (s, t\<lparr>dt_pc := GivenUp\<rparr>)
       else if pi_now x < wake then (s, t) else (s, t\<lparr>dt_pc := Waiting deadline\<rparr>)
   | Reporting \<Rightarrow> (s, t\<lparr>dt_pc := Answered (ps_activeRequests s)\<rparr>)
   | _ \<Rightarrow> (s, t))"

text \<open>The status of the answer.\<close>

definition drain_status :: "int \<Rightarrow> int" where
  "drain_status active = (if active > 0 then 409 else 200)"

section \<open>The health check\<close>

text \<open>The exit code of \<open>-healthcheck\<close>; \<open>get\<close> is the status of the answer, if one comes within the timeout.\<close>

definition runHealthcheck :: "(string \<Rightarrow> int option) \<Rightarrow> string \<Rightarrow> int" where
  "runHealthcheck get rawURL = (case get rawURL of None \<Rightarrow> 1 | Some status \<Rightarrow> if status \<noteq> 200 then 1 else 0)"

section \<open>The proxy\<close>

record proxy_world =
  pw_state :: proxyState
  pw_requests :: "request_thread list"
  pw_drains :: "drain_thread list"

text \<open>
  A step of the program: a request or a drain arrives, or one goroutine moves. A process has far fewer than \<open>2 ^ 62\<close> goroutines.
\<close>

inductive proxy_step :: "url \<Rightarrow> proxy_world \<Rightarrow> proxy_world \<Rightarrow> bool" for target where
  arrives: "rq_Path r \<notin> {''/healthz'', ''/__bosun/drain''} \<Longrightarrow> length (pw_requests w) < 2 ^ 62 \<Longrightarrow>
    proxy_step target w (w\<lparr>pw_requests := pw_requests w @ [\<lparr>rt_request = r, rt_remote = remote, rt_pc = Arrived, rt_sent = None, rt_reply = None\<rparr>]\<rparr>)"
| asks: "proxy_step target w (w\<lparr>pw_drains := pw_drains w @ [\<lparr>dt_method = method, dt_timeout = timeout, dt_pc = Asked\<rparr>]\<rparr>)"
| serves: "i < length (pw_requests w) \<Longrightarrow> request_step target x (pw_state w) (pw_requests w ! i) = (s, t) \<Longrightarrow>
    proxy_step target w (w\<lparr>pw_state := s, pw_requests := (pw_requests w)[i := t]\<rparr>)"
| drains: "i < length (pw_drains w) \<Longrightarrow> handleDrain x (pw_state w) (pw_drains w ! i) = (s, t) \<Longrightarrow>
    proxy_step target w (w\<lparr>pw_state := s, pw_drains := (pw_drains w)[i := t]\<rparr>)"

definition proxy_start :: proxy_world where
  "proxy_start = \<lparr>pw_state = \<lparr>ps_draining = False, ps_activeRequests = 0\<rparr>, pw_requests = [], pw_drains = []\<rparr>"

end
