(* ===== verification/Auth_Proxy_Safety.thy ===== *)
theory Auth_Proxy_Safety
  imports Auth_Proxy
begin

text \<open>
  What the proxy beside the agent guarantees: the gateway gets the token of the Pod and no other credential, and after a drain
  that answers with success no request is in flight and none is sent any more, under any interleaving.
\<close>

section \<open>Counting requests\<close>

definition in_flight :: "request_thread \<Rightarrow> bool" where
  "in_flight t \<longleftrightarrow> rt_pc t \<in> {Entered, Admitted, Proxying, Leaving}"

lemma length_filter_update:
  assumes "i < length xs"
  shows "int (length (filter P (xs[i := x]))) = int (length (filter P xs)) - of_bool (P (xs ! i)) + of_bool (P x)"
  using assms
proof (induction xs arbitrary: i)
  case (Cons y ys)
  then show ?case by (cases i) auto
qed simp

definition drained :: "drain_thread \<Rightarrow> bool" where
  "drained d \<longleftrightarrow> (\<exists>n. dt_pc d = Answered n \<and> n \<le> 0)"

definition proxy_inv :: "proxy_world \<Rightarrow> bool" where
  "proxy_inv w \<longleftrightarrow> ps_activeRequests (pw_state w) = int (length (filter in_flight (pw_requests w))) \<and> length (pw_requests w) \<le> 2 ^ 62 \<and>
     (\<forall>d\<in>set (pw_drains w). dt_pc d \<notin> {Asked} \<union> {Refused n r |n r. True} \<longrightarrow> ps_draining (pw_state w)) \<and>
     ((\<exists>d\<in>set (pw_drains w). drained d) \<longrightarrow> (\<forall>t\<in>set (pw_requests w). rt_pc t \<notin> {Admitted, Proxying}))"

lemma active_range:
  assumes "length xs \<le> 2 ^ 62"
  shows "i64 (int (length (filter in_flight xs)) + 1) = int (length (filter in_flight xs)) + 1"
    and "i64 (int (length (filter in_flight xs)) - 1) = int (length (filter in_flight xs)) - 1"
proof -
  have "int (length (filter in_flight xs)) \<le> 2 ^ 62" using order_trans [OF length_filter_le assms, of in_flight] by simp
  then show "i64 (int (length (filter in_flight xs)) + 1) = int (length (filter in_flight xs)) + 1"
    "i64 (int (length (filter in_flight xs)) - 1) = int (length (filter in_flight xs)) - 1"
    by (simp_all add: i64_in64 in64_def)
qed

text \<open>A step of a request changes the counter with its place, keeps the flag, and lets nothing in once the flag is up.\<close>

lemma request_step_simps:
  assumes "request_step target x s t = (s', t')"
  shows "ps_draining s' = ps_draining s"
    and "ps_draining s \<and> rt_pc t \<notin> {Admitted, Proxying} \<Longrightarrow> rt_pc t' \<notin> {Admitted, Proxying} \<and> rt_sent t' = rt_sent t"
  using assms by (auto simp: request_step_def split: request_pc.splits if_splits option.splits)

lemma request_step_counts:
  assumes "request_step target x s t = (s', t')"
  shows "ps_activeRequests s' = (if in_flight t = in_flight t' then ps_activeRequests s
    else if in_flight t' then i64 (ps_activeRequests s + 1) else i64 (ps_activeRequests s - 1))"
  using assms by (auto simp: request_step_def in_flight_def split: request_pc.splits if_splits option.splits)

lemma handleDrain_simps:
  assumes "handleDrain x s t = (s', t')"
  shows "ps_activeRequests s' = ps_activeRequests s" and "ps_draining s \<Longrightarrow> ps_draining s'"
    and "dt_pc t' \<notin> {Asked} \<union> {Refused n r |n r. True} \<Longrightarrow> dt_pc t \<notin> {Asked} \<union> {Refused n r |n r. True} \<or> ps_draining s'"
    and "drained t' \<Longrightarrow> drained t \<or> dt_pc t = Reporting \<and> ps_activeRequests s \<le> 0"
  using assms by (auto simp: handleDrain_def drained_def split: drain_pc.splits if_splits option.splits)

lemma proxy_inv_serves:
  assumes inv: "proxy_inv w" and i: "i < length (pw_requests w)" and step: "request_step target x (pw_state w) (pw_requests w ! i) = (s, t)"
  shows "proxy_inv (w\<lparr>pw_state := s, pw_requests := (pw_requests w)[i := t]\<rparr>)"
proof -
  let ?xs = "pw_requests w" and ?t = "pw_requests w ! i"
  have active: "ps_activeRequests (pw_state w) = int (length (filter in_flight ?xs))" and len: "length ?xs \<le> 2 ^ 62"
    using inv by (simp_all add: proxy_inv_def)
  have "ps_activeRequests s = int (length (filter in_flight (?xs[i := t])))"
    unfolding length_filter_update [OF i] request_step_counts [OF step] active active_range [OF len] by simp
  moreover have "rt_pc u \<notin> {Admitted, Proxying}" if "\<exists>d\<in>set (pw_drains w). drained d" and u: "u \<in> set (?xs[i := t])" for u
  proof -
    have none: "\<forall>u\<in>set ?xs. rt_pc u \<notin> {Admitted, Proxying}" using inv that(1) by (simp add: proxy_inv_def)
    have "ps_draining (pw_state w)" using inv that(1) unfolding proxy_inv_def drained_def by force
    then have "rt_pc t \<notin> {Admitted, Proxying}" using request_step_simps(2) [OF step] none i nth_mem by blast
    then show ?thesis using u none set_update_subset_insert by fastforce
  qed
  ultimately show ?thesis using inv request_step_simps(1) [OF step] by (simp add: proxy_inv_def)
qed

lemma proxy_inv_drains:
  assumes inv: "proxy_inv w" and i: "i < length (pw_drains w)" and step: "handleDrain x (pw_state w) (pw_drains w ! i) = (s, t)"
  shows "proxy_inv (w\<lparr>pw_state := s, pw_drains := (pw_drains w)[i := t]\<rparr>)"
proof -
  let ?d = "pw_drains w ! i"
  have d: "?d \<in> set (pw_drains w)" using i by simp
  have sub: "set ((pw_drains w)[i := t]) \<subseteq> insert t (set (pw_drains w))" by (rule set_update_subset_insert)
  have quiet: "rt_pc u \<notin> {Admitted, Proxying}" if e: "e \<in> set ((pw_drains w)[i := t])" "drained e" and u: "u \<in> set (pw_requests w)" for e u
  proof (cases "\<exists>e\<in>set (pw_drains w). drained e")
    case True
    then show ?thesis using inv u by (simp add: proxy_inv_def)
  next
    case False
    then have "ps_activeRequests (pw_state w) \<le> 0" using e sub d handleDrain_simps(4) [OF step] by blast
    then have "filter in_flight (pw_requests w) = []" using inv by (simp add: proxy_inv_def)
    then show ?thesis using u by (auto simp: filter_empty_conv in_flight_def)
  qed
  have "ps_draining s" if "e \<in> set ((pw_drains w)[i := t])" "dt_pc e \<notin> {Asked} \<union> {Refused n r |n r. True}" for e
    using that sub d handleDrain_simps(2,3) [OF step] inv unfolding proxy_inv_def by blast
  with quiet show ?thesis using inv handleDrain_simps(1) [OF step] by (auto simp: proxy_inv_def)
qed

interpretation proxy: step_invariant "proxy_step target" proxy_inv for target
proof
  fix w w'
  assume inv: "proxy_inv w" and "proxy_step target w w'"
  from this(2) show "proxy_inv w'"
  proof cases
    case (serves i x s t)
    then show ?thesis using proxy_inv_serves [OF inv] by simp
  next
    case (drains i x s t)
    then show ?thesis using proxy_inv_drains [OF inv] by simp
  qed (use inv in \<open>auto simp: proxy_inv_def in_flight_def drained_def\<close>)
qed

section \<open>A drained proxy\<close>

text \<open>The requests sent so far stay, and a request that comes later sends nothing.\<close>

definition sent_same :: "proxy_world \<Rightarrow> proxy_world \<Rightarrow> bool" where
  "sent_same w w' \<longleftrightarrow> (\<exists>n. map rt_sent (pw_requests w') = map rt_sent (pw_requests w) @ replicate n None)"

lemma drained_step:
  assumes step: "proxy_step target w w'" and inv: "proxy_inv w" and d: "d \<in> set (pw_drains w)" "drained d"
  shows "sent_same w w' \<and> (\<exists>d\<in>set (pw_drains w'). drained d)"
  using step
proof cases
  case (serves i x s t)
  have "ps_draining (pw_state w) \<and> rt_pc (pw_requests w ! i) \<notin> {Admitted, Proxying}"
    using inv d serves(2) nth_mem unfolding proxy_inv_def drained_def by force
  then have "rt_sent t = rt_sent (pw_requests w ! i)" using request_step_simps(2) [OF serves(3)] by blast
  then have "map rt_sent (pw_requests w') = map rt_sent (pw_requests w)" using serves(1,2) by (simp add: map_update list_update_same_conv)
  then show ?thesis using d serves(1) by (auto simp: sent_same_def)
next
  case (drains i x s t)
  have "\<exists>d\<in>set ((pw_drains w)[i := t]). drained d"
  proof (cases "pw_drains w ! i = d")
    case True
    then have "drained t" using drains(3) d(2) by (auto simp: handleDrain_def drained_def)
    then show ?thesis using drains(2) set_update_memI by fastforce
  next
    case False
    then obtain j where "j < length (pw_drains w)" "pw_drains w ! j = d" "j \<noteq> i" using d(1) by (auto simp: in_set_conv_nth)
    then have "d \<in> set ((pw_drains w)[i := t])" by (metis length_list_update nth_list_update_neq nth_mem)
    then show ?thesis using d(2) by blast
  qed
  then show ?thesis using drains(1) by (auto simp: sent_same_def intro: exI [of _ 0])
next
  case (arrives r remote)
  then show ?thesis using d by (auto simp: sent_same_def intro: exI [of _ 1])
next
  case (asks verb timeout)
  then show ?thesis using d by (auto simp: sent_same_def intro: exI [of _ 0])
qed

lemma sent_same_trans: "sent_same w w' \<Longrightarrow> sent_same w' w'' \<Longrightarrow> sent_same w w''"
  by (auto simp: sent_same_def replicate_add [symmetric])

lemma drained_steps:
  assumes "(proxy_step target)\<^sup>*\<^sup>* w w'" and "proxy_inv w" and "d \<in> set (pw_drains w)" and "drained d"
  shows "sent_same w w' \<and> proxy_inv w' \<and> (\<exists>d\<in>set (pw_drains w'). drained d)"
  using assms
proof (induction rule: rtranclp_induct)
  case base
  then show ?case by (auto simp: sent_same_def intro: exI [of _ 0])
next
  case (step v w')
  then obtain e where "sent_same w v" "proxy_inv v" "e \<in> set (pw_drains v)" "drained e" by blast
  with drained_step [OF step(2)] proxy.step_inv [OF _ step(2)] show ?case by (blast intro: sent_same_trans)
qed

text \<open>
  C6. A drain that succeeds is final. Under any interleaving of requests and drains, once a drain was answered with status 200 no request is with the
  gateway, and whatever happens afterwards none ever is again: the requests that were sent are the same, and every request that
  arrives later sends nothing. So the Pod may be deleted without cutting a call of the agent.
\<close>

theorem drain_final:
  assumes "(proxy_step target)\<^sup>*\<^sup>* proxy_start w" and "d \<in> set (pw_drains w)" and "dt_pc d = Answered n" and "drain_status n = 200"
    and "(proxy_step target)\<^sup>*\<^sup>* w w'"
  shows "(\<forall>t\<in>set (pw_requests w'). rt_pc t \<noteq> Proxying) \<and>
    (\<exists>k. map rt_sent (pw_requests w') = map rt_sent (pw_requests w) @ replicate k None)"
proof -
  have "proxy_inv w" by (rule proxy.steps_inv [OF assms(1)]) (simp add: proxy_inv_def proxy_start_def)
  moreover have "drained d" using assms(3,4) by (auto simp: drained_def drain_status_def split: if_splits)
  ultimately have "sent_same w w' \<and> proxy_inv w' \<and> (\<exists>d\<in>set (pw_drains w'). drained d)" using drained_steps [OF assms(5)] assms(2) by blast
  then show ?thesis unfolding proxy_inv_def sent_same_def by blast
qed

text \<open>A schedule, and the run of it.\<close>

datatype proxy_action = Arrive http_request string | Ask string string | Serve nat proxy_input | Drain nat proxy_input

fun proxy_do :: "url \<Rightarrow> proxy_action \<Rightarrow> proxy_world \<Rightarrow> proxy_world" where
  "proxy_do target (Arrive r remote) w = (if rq_Path r \<notin> {''/healthz'', ''/__bosun/drain''} \<and> length (pw_requests w) < 2 ^ 62
     then w\<lparr>pw_requests := pw_requests w @ [\<lparr>rt_request = r, rt_remote = remote, rt_pc = Arrived, rt_sent = None, rt_reply = None\<rparr>]\<rparr> else w)"
| "proxy_do target (Ask method timeout) w = w\<lparr>pw_drains := pw_drains w @ [\<lparr>dt_method = method, dt_timeout = timeout, dt_pc = Asked\<rparr>]\<rparr>"
| "proxy_do target (Serve i x) w = (if i < length (pw_requests w) then case request_step target x (pw_state w) (pw_requests w ! i) of (s, t) \<Rightarrow>
     w\<lparr>pw_state := s, pw_requests := (pw_requests w)[i := t]\<rparr> else w)"
| "proxy_do target (Drain i x) w = (if i < length (pw_drains w) then case handleDrain x (pw_state w) (pw_drains w ! i) of (s, t) \<Rightarrow>
     w\<lparr>pw_state := s, pw_drains := (pw_drains w)[i := t]\<rparr> else w)"

lemma proxy_do_steps: "(proxy_step target)\<^sup>*\<^sup>* w (fold (proxy_do target) as w)"
proof (induction as arbitrary: w)
  case (Cons a as)
  have "(proxy_step target)\<^sup>*\<^sup>* w (proxy_do target a w)"
    by (cases a) (auto intro!: r_into_rtranclp proxy_step.intros split: prod.splits)
  then show ?case using Cons.IH by (auto intro: rtranclp_trans)
qed simp

definition sample_target :: url where
  "sample_target = \<lparr>url_Scheme = ''http'', url_Host = ''bosun-gateway'', url_Path = [], url_RawQuery = []\<rparr>"

definition sample_agent_call :: http_request where
  "sample_agent_call = \<lparr>rq_Method = ''POST'', rq_Path = ''/v1/messages'', rq_RawQuery = [], rq_Header = [(''X-Api-Key'', [''k''])], rq_Body = [], rq_ContentLength = 0\<rparr>"

definition sample_tick :: "time \<Rightarrow> proxy_input" where
  "sample_tick now = \<lparr>pi_file = Some ''token'', pi_outcome = GatewayReply 200, pi_now = now, pi_cancelled = False\<rparr>"

text \<open>One request is sent and answered while a drain waits; later another one comes too late.\<close>

definition sample_actions :: "proxy_action list" where
  "sample_actions = [Arrive sample_agent_call [], Serve 0 (sample_tick 0), Serve 0 (sample_tick 0), Serve 0 (sample_tick 0), Serve 0 (sample_tick 0), Ask ''POST'' [],
     Drain 0 (sample_tick 0), Drain 0 (sample_tick 0), Serve 0 (sample_tick 1), Serve 0 (sample_tick 1), Drain 0 (sample_tick second),
     Drain 0 (sample_tick second), Drain 0 (sample_tick second)]"

lemma sample_proxied: "\<exists>out. proxied sample_target ''token'' [] sample_agent_call = Some out"
proof -
  have "\<not> Option.is_none (proxied sample_target ''token'' [] sample_agent_call)" by code_simp
  then show ?thesis by (auto simp: Option.is_none_def)
qed

lemma sample_drained:
  "\<exists>t d. fold (proxy_do sample_target) sample_actions proxy_start =
     \<lparr>pw_state = \<lparr>ps_draining = True, ps_activeRequests = 0\<rparr>, pw_requests = [t], pw_drains = [d]\<rparr> \<and> rt_sent t \<noteq> None \<and> dt_pc d = Answered 0"
proof -
  obtain out where "proxied sample_target ''token'' [] sample_agent_call = Some out" using sample_proxied by blast
  moreover have "TrimSpace ''token'' = ''token''" "rq_Path sample_agent_call = ''/v1/messages''" by code_simp+
  ultimately show ?thesis
    by (simp add: sample_actions_def proxy_start_def request_step_def handleDrain_def sample_tick_def drain_timeout_def second_def millisecond_def
        i64_def proxy_reply_def)
qed

definition sample_late :: "proxy_action list" where
  "sample_late = [Arrive sample_agent_call [], Serve 1 (sample_tick second), Serve 1 (sample_tick second), Serve 1 (sample_tick second)]"

lemma proxy_do_serve_length: "length (pw_requests (proxy_do target (Serve i x) w)) = length (pw_requests w)"
  by (simp split: prod.split)

lemma sample_late_length: "length (pw_requests w) = 1 \<Longrightarrow> length (pw_requests (fold (proxy_do sample_target) sample_late w)) = 2"
  by (simp add: sample_late_def proxy_do_serve_length sample_agent_call_def del: proxy_do.simps(3))

theorem drain_final_witness:
  "\<exists>w w' t d. (proxy_step sample_target)\<^sup>*\<^sup>* proxy_start w \<and> pw_requests w = [t] \<and> rt_sent t \<noteq> None \<and> pw_drains w = [d] \<and> dt_pc d = Answered 0 \<and>
     (proxy_step sample_target)\<^sup>*\<^sup>* w w' \<and> list_all (\<lambda>t. rt_pc t \<noteq> Proxying) (pw_requests w') \<and> map rt_sent (pw_requests w') = [rt_sent t, None]"
proof -
  define w where "w = fold (proxy_do sample_target) sample_actions proxy_start"
  define w' where "w' = fold (proxy_do sample_target) sample_late w"
  obtain t d where w: "pw_requests w = [t]" "rt_sent t \<noteq> None" "pw_drains w = [d]" "dt_pc d = Answered 0" using sample_drained by (auto simp: w_def)
  have reach: "(proxy_step sample_target)\<^sup>*\<^sup>* proxy_start w" and later: "(proxy_step sample_target)\<^sup>*\<^sup>* w w'"
    unfolding w_def w'_def by (rule proxy_do_steps)+
  have "drain_status 0 = 200" "d \<in> set (pw_drains w)" using w(3) by (simp_all add: drain_status_def)
  note final = drain_final [OF reach this(2) w(4) this(1) later]
  then obtain k where sent: "map rt_sent (pw_requests w') = rt_sent t # replicate k None" using w(1) by auto
  moreover have "length (pw_requests w') = 2" unfolding w'_def by (rule sample_late_length) (simp add: w(1))
  ultimately have "k = 1" by (metis One_nat_def Suc_1 diff_Suc_1 length_Cons length_map length_replicate)
  with sent have "map rt_sent (pw_requests w') = [rt_sent t, None]" by simp
  moreover have "list_all (\<lambda>t. rt_pc t \<noteq> Proxying) (pw_requests w')" using final unfolding list_all_iff by blast
  ultimately show ?thesis using reach later w by (intro exI [of _ w] exI [of _ w'] exI [of _ t] exI [of _ d] conjI)
qed

section \<open>A drain ends\<close>

text \<open>The steps of one drain, each with the state of the proxy and the time at which it happens.\<close>

definition drain_run :: "(proxyState \<times> proxy_input) list \<Rightarrow> drain_thread \<Rightarrow> drain_thread" where
  "drain_run xs d = fold (\<lambda>(s, x) t. snd (handleDrain x s t)) xs d"

fun drain_rank :: "drain_pc \<Rightarrow> nat" where
  "drain_rank Asked = 4"
| "drain_rank (Sleeping deadline wake) = 3"
| "drain_rank (Waiting deadline) = 2"
| "drain_rank Reporting = 1"
| "drain_rank _ = 0"

text \<open>A drain that was begun waits no longer than until \<open>b\<close>.\<close>

fun waits_until :: "time \<Rightarrow> drain_pc \<Rightarrow> bool" where
  "waits_until b Asked \<longleftrightarrow> False"
| "waits_until b (Waiting deadline) \<longleftrightarrow> deadline \<le> b"
| "waits_until b (Sleeping deadline wake) \<longleftrightarrow> deadline \<le> b \<and> wake \<le> deadline + 25 * millisecond"
| "waits_until b _ \<longleftrightarrow> True"

lemma waits_until_step: "waits_until b (dt_pc t) \<Longrightarrow> waits_until b (dt_pc (snd (handleDrain x s t)))"
  by (cases "dt_pc t") (auto simp: handleDrain_def millisecond_def)

lemma waits_until_run: "waits_until b (dt_pc t) \<Longrightarrow> waits_until b (dt_pc (drain_run xs t))"
  unfolding drain_run_def by (induction xs arbitrary: t) (auto simp: waits_until_step)

lemma late_step:
  assumes "waits_until b (dt_pc t)" and "b + 25 * millisecond \<le> pi_now x"
  shows "drain_rank (dt_pc (snd (handleDrain x s t))) \<le> drain_rank (dt_pc t) - 1"
  using assms by (cases "dt_pc t") (auto simp: handleDrain_def millisecond_def)

lemma drain_begins: "dt_pc d = Asked \<Longrightarrow> waits_until (pi_now x + 30 * second) (dt_pc (snd (handleDrain x s d)))"
  by (auto simp: handleDrain_def drain_timeout_def second_def split: option.splits if_splits)

text \<open>
  C32. A drain ends. Whatever the other goroutines do and however often the drain looks, once 30 seconds and one tick of 25 milliseconds have passed since its
  first step, three more steps of its own are enough: it was refused, was given up with its request, or has answered with the number of
  requests it found.
\<close>

theorem drain_ends:
  assumes "dt_pc d = Asked" and "\<forall>y\<in>{y1, y2, y3}. pi_now (snd x) + 30 * second + 25 * millisecond \<le> pi_now (snd y)"
  shows "\<exists>n code reason. dt_pc (drain_run (x # xs @ [y1, y2, y3]) d) \<in> {Answered n, Refused code reason, GivenUp}"
proof -
  let ?b = "pi_now (snd x) + 30 * second"
  define t0 where "t0 = drain_run xs (snd (handleDrain (snd x) (fst x) d))"
  define t1 where "t1 = snd (handleDrain (snd y1) (fst y1) t0)"
  define t2 where "t2 = snd (handleDrain (snd y2) (fst y2) t1)"
  define t3 where "t3 = snd (handleDrain (snd y3) (fst y3) t2)"
  have w0: "waits_until ?b (dt_pc t0)" unfolding t0_def by (intro waits_until_run drain_begins assms(1))
  have w1: "waits_until ?b (dt_pc t1)" unfolding t1_def by (rule waits_until_step [OF w0])
  have w2: "waits_until ?b (dt_pc t2)" unfolding t2_def by (rule waits_until_step [OF w1])
  have "drain_rank (dt_pc t0) \<le> 3" using w0 by (cases "dt_pc t0") auto
  moreover have "drain_rank (dt_pc t1) \<le> drain_rank (dt_pc t0) - 1" unfolding t1_def using assms(2) by (intro late_step [OF w0]) simp
  moreover have "drain_rank (dt_pc t2) \<le> drain_rank (dt_pc t1) - 1" unfolding t2_def using assms(2) by (intro late_step [OF w1]) simp
  moreover have "drain_rank (dt_pc t3) \<le> drain_rank (dt_pc t2) - 1" unfolding t3_def using assms(2) by (intro late_step [OF w2]) simp
  ultimately have "drain_rank (dt_pc t3) = 0" by linarith
  moreover have "drain_run (x # xs @ [y1, y2, y3]) d = t3" by (simp add: drain_run_def t0_def t1_def t2_def t3_def split_beta)
  ultimately show ?thesis by (cases "dt_pc t3") auto
qed

theorem drain_ends_witness:
  "dt_pc (drain_run [(\<lparr>ps_draining = False, ps_activeRequests = 1\<rparr>, sample_tick 0), (\<lparr>ps_draining = True, ps_activeRequests = 1\<rparr>, sample_tick second),
     (\<lparr>ps_draining = True, ps_activeRequests = 1\<rparr>, sample_tick (31 * second)), (\<lparr>ps_draining = True, ps_activeRequests = 1\<rparr>, sample_tick (31 * second)),
     (\<lparr>ps_draining = True, ps_activeRequests = 1\<rparr>, sample_tick (31 * second))] \<lparr>dt_method = ''POST'', dt_timeout = [], dt_pc = Asked\<rparr>) = Answered 1"
proof -
  let ?s = "\<lparr>ps_draining = True, ps_activeRequests = 1\<rparr>" and ?d = "\<lparr>dt_method = ''POST'', dt_timeout = [], dt_pc = Asked\<rparr>"
  let ?x = "(\<lparr>ps_draining = False, ps_activeRequests = 1\<rparr>, sample_tick 0)" and ?y = "(?s, sample_tick (31 * second))"
  have "\<exists>n code reason. dt_pc (drain_run (?x # [(?s, sample_tick second)] @ [?y, ?y, ?y]) ?d) \<in> {Answered n, Refused code reason, GivenUp}"
    by (rule drain_ends) (simp_all add: sample_tick_def second_def millisecond_def)
  then show ?thesis by (auto simp: drain_run_def handleDrain_def sample_tick_def drain_timeout_def second_def millisecond_def)
qed

section \<open>The credential of a request\<close>

lemma header_values_dels:
  "header_values (fold header_Del ks h) k = (if \<exists>n\<in>set ks. CanonicalHeaderKey n = CanonicalHeaderKey k then [] else header_values h k)"
  by (induction ks arbitrary: h) auto

lemma proxy_field_names:
  "CanonicalHeaderKey ''Authorization'' = ''Authorization''" "CanonicalHeaderKey ''X-Api-Key'' = ''X-Api-Key''"
  "CanonicalHeaderKey ''Proxy-Authorization'' = ''Proxy-Authorization''" "CanonicalHeaderKey ''Connection'' = ''Connection''"
  "CanonicalHeaderKey ''Te'' = ''Te''" "CanonicalHeaderKey ''Upgrade'' = ''Upgrade''" "CanonicalHeaderKey ''X-Forwarded-For'' = ''X-Forwarded-For''"
  "CanonicalHeaderKey ''User-Agent'' = ''User-Agent''"
  by code_simp+

text \<open>The last steps of the reverse proxy leave the fields for credentials alone.\<close>

lemma header_values_last:
  assumes "CanonicalHeaderKey k \<in> {''Authorization'', ''X-Api-Key'', ''Proxy-Authorization''}"
  shows "header_values (keep_agent h) k = header_values h k" "header_values (forwarded_for remote h) k = header_values h k"
    "header_values (put_upgrade up h) k = header_values h k" "header_values (if te then header_Set ''Te'' ''trailers'' h else h) k = header_values h k"
proof -
  have "CanonicalHeaderKey k \<notin> {''User-Agent'', ''X-Forwarded-For'', ''Upgrade'', ''Connection'', ''Te''}" using assms by auto
  then have "header_values (header_Set n v h) k = header_values h k" if "n \<in> {''User-Agent'', ''X-Forwarded-For'', ''Upgrade'', ''Connection'', ''Te''}" for n v h
    using that proxy_field_names by auto
  then show "header_values (keep_agent h) k = header_values h k" "header_values (forwarded_for remote h) k = header_values h k"
    "header_values (put_upgrade up h) k = header_values h k" "header_values (if te then header_Set ''Te'' ''trailers'' h else h) k = header_values h k"
    by (simp_all add: keep_agent_def forwarded_for_def put_upgrade_def split: option.split)
qed

definition names_authorization :: "http_request \<Rightarrow> bool" where
  "names_authorization r \<longleftrightarrow> ''Authorization'' \<in> set (map CanonicalHeaderKey (connection_names (rq_Header r)))"

lemma proxied_values:
  assumes "proxied target token remote r = Some out"
  shows "header_values (ur_Header out) ''Authorization'' = (if names_authorization r then [] else [''Bearer '' @ token])"
    and "header_values (ur_Header out) ''X-Api-Key'' = []" and "header_values (ur_Header out) ''Proxy-Authorization'' = []"
    and "ur_URL out = ur_URL (Director target token r)" and "ur_Host out = url_Host target"
proof -
  let ?h = "ur_Header (Director target token r)"
  have conn: "connection_names ?h = connection_names (rq_Header r)"
    by (simp add: connection_names_def Director_def proxy_field_names)
  have hop: "\<not> (\<exists>n\<in>set hopHeaders. CanonicalHeaderKey n = ''Authorization'')" by code_simp
  define te where "te = contains_token (header_values (rq_Header r) ''Te'') ''trailers''"
  define up where "up = upgradeType ?h"
  have out: "out = (Director target token r)\<lparr>ur_Header := keep_agent (forwarded_for remote (put_upgrade up
      (if te then header_Set ''Te'' ''trailers'' (removeHopByHopHeaders ?h) else removeHopByHopHeaders ?h)))\<rparr>"
    using assms unfolding proxied_def Let_def te_def up_def by (metis option.distinct(1) option.inject)
  have "header_values (ur_Header out) k = header_values (removeHopByHopHeaders ?h) k"
    if "CanonicalHeaderKey k \<in> {''Authorization'', ''X-Api-Key'', ''Proxy-Authorization''}" for k
  proof -
    have "ur_Header out = keep_agent (forwarded_for remote (put_upgrade up
      (if te then header_Set ''Te'' ''trailers'' (removeHopByHopHeaders ?h) else removeHopByHopHeaders ?h)))" by (simp add: out)
    then show ?thesis by (simp only: header_values_last [OF that])
  qed
  then have vals: "header_values (ur_Header out) k = (if \<exists>n\<in>set (connection_names (rq_Header r) @ hopHeaders). CanonicalHeaderKey n = CanonicalHeaderKey k
      then [] else header_values ?h k)"
    if "CanonicalHeaderKey k \<in> {''Authorization'', ''X-Api-Key'', ''Proxy-Authorization''}" for k
    using that by (simp only: removeHopByHopHeaders_def header_values_dels conn)
  have dir: "header_values ?h ''Authorization'' = [''Bearer '' @ token]" "header_values ?h ''X-Api-Key'' = []" "header_values ?h ''Proxy-Authorization'' = []"
    by (simp_all add: Director_def proxy_field_names)
  have "names_authorization r \<longleftrightarrow> (\<exists>n\<in>set (connection_names (rq_Header r) @ hopHeaders). CanonicalHeaderKey n = CanonicalHeaderKey ''Authorization'')"
    using hop unfolding names_authorization_def proxy_field_names by force
  then show "header_values (ur_Header out) ''Authorization'' = (if names_authorization r then [] else [''Bearer '' @ token])"
    using vals [of "''Authorization''"] by (simp only: proxy_field_names dir insert_iff simp_thms)
  show "header_values (ur_Header out) ''X-Api-Key'' = []" "header_values (ur_Header out) ''Proxy-Authorization'' = []"
    using vals [of "''X-Api-Key''"] vals [of "''Proxy-Authorization''"] by (simp_all only: proxy_field_names dir insert_iff simp_thms if_cancel)
  show "ur_URL out = ur_URL (Director target token r)" "ur_Host out = url_Host target"
    unfolding out by (simp_all add: Director_def)
qed

text \<open>
  C22. The gateway sees the Pod and nobody else. Whatever the agent sends, a request leaves for the configured gateway without any \<open>X-Api-Key\<close> or
  \<open>Proxy-Authorization\<close>; its only \<open>Authorization\<close> is the token of the Pod, from which the gateway reads exactly the token in the file. The one
  exception is a request that names \<open>Authorization\<close> in its \<open>Connection\<close> field: the reverse proxy then drops the token again, and the gateway
  gets no token at all.
\<close>

theorem request_step_token:
  assumes "request_step target x s t = (s', t')" and "rt_sent t' = Some out" and "rt_sent t = None"
  shows "url_Scheme (ur_URL out) = url_Scheme target \<and> url_Host (ur_URL out) = url_Host target \<and> ur_Host out = url_Host target \<and>
    url_Path (ur_URL out) = proxy_joinURLPath (url_Path target) (rq_Path (rt_request t)) \<and>
    header_values (ur_Header out) ''X-Api-Key'' = [] \<and> header_values (ur_Header out) ''Proxy-Authorization'' = [] \<and>
    (\<exists>content. pi_file x = Some content \<and> (if names_authorization (rt_request t) then bearerToken (header_Get (ur_Header out) ''Authorization'') = None
      else length (header_values (ur_Header out) ''Authorization'') = 1 \<and> bearerToken (header_Get (ur_Header out) ''Authorization'') = Some (TrimSpace content)))"
proof -
  obtain content where content: "pi_file x = Some content" "TrimSpace content \<noteq> []" "proxied target (TrimSpace content) (rt_remote t) (rt_request t) = Some out"
    using assms by (auto simp: request_step_def split: request_pc.splits if_splits option.splits)
  have "bearerToken (''Bearer '' @ TrimSpace content) = Some (TrimSpace content)" "bearerToken [] = None"
    using content(2) by (simp_all add: bearerToken_def HasPrefix_def TrimPrefix_def)
  then show ?thesis using content(1) proxied_values [OF content(3)] by (auto simp: header_Get_def Director_def)
qed

theorem request_step_token_witness:
  "\<exists>out. rt_sent (snd (request_step sample_target (sample_tick 0) \<lparr>ps_draining = False, ps_activeRequests = 1\<rparr>
       \<lparr>rt_request = sample_agent_call, rt_remote = [], rt_pc = Admitted, rt_sent = None, rt_reply = None\<rparr>)) = Some out \<and>
     header_values (ur_Header out) ''X-Api-Key'' = [] \<and> bearerToken (header_Get (ur_Header out) ''Authorization'') = Some ''token''"
proof -
  let ?t = "\<lparr>rt_request = sample_agent_call, rt_remote = [], rt_pc = Admitted, rt_sent = None, rt_reply = None\<rparr>"
  have trim: "TrimSpace ''token'' = ''token''" "\<not> names_authorization sample_agent_call" by code_simp+
  obtain out where out: "proxied sample_target ''token'' [] sample_agent_call = Some out" using sample_proxied by blast
  have step: "request_step sample_target (sample_tick 0) \<lparr>ps_draining = False, ps_activeRequests = 1\<rparr> ?t =
      (\<lparr>ps_draining = False, ps_activeRequests = 1\<rparr>, ?t\<lparr>rt_pc := Proxying, rt_sent := Some out\<rparr>)"
    using out trim by (simp add: request_step_def sample_tick_def)
  from request_step_token [OF step, of out] trim show ?thesis unfolding step by (simp add: sample_tick_def)
qed

end
