(* ===== verification/Spec2Isabelle.thy ===== *)
theory Spec2Isabelle
  imports Session_Lifecycle Autoscaler_Safety User_Environment_Safety Rate_Limiter Session_Repair Gateway_Safety Terminal_Safety Terminal_Connection Config_Safety Auth_Proxy_Safety
begin

text \<open>
  A verification development for Bosun, a platform that runs coding agents in Kubernetes Pods.

  \<^bold>\<open>The program.\<close> The \<^emph>\<open>operator\<close> (\<open>operator/\<close>) reconciles two custom resources: an AgentSession becomes a
  workspace claim, a service account and an agent Pod, is hibernated and restored, and is cleaned up; a UserEnvironment
  becomes a namespace with quota, limits and network policies. Its autoscaler reads CPU samples from the Kubelets,
  classifies the load and resizes agent Pods within the capacity of each Node. The \<^emph>\<open>backend\<close> (\<open>backend/\<close>) holds users
  and sessions in PostgreSQL, signs access tokens, rotates refresh tokens, creates the resources the operator
  reconciles, mirrors their status back into the database, repairs what got lost, serves terminals over WebSockets, and
  runs the LLM gateway that agents call with the token of their Pod, which a small proxy in the Pod (\<open>images/agent/cmd/auth-proxy\<close>)
  attaches. Components meet in the API server (resources), in
  the database (rows) and in names derived from identifiers (\<open>operator/pkg/sessionidentity\<close>).

  \<^bold>\<open>How code is modelled.\<close> Pure functions are HOL functions over the data of the sources: structs are records with a
  prefix per struct, enumerations are datatypes, strings are byte lists, \<open>int64\<close> arithmetic wraps through \<open>i64\<close> and
  \<open>sum64\<close> (\<open>int32\<close> through \<open>i32\<close>) wherever a result can leave its range, maps are functions to options, and association lists where the order of a
  \<open>range\<close> loop or the number of entries matters. Code with effects is a program of \<open>Effects\<close>: a state monad over the
  trace of the calls made so far and the memory of the process. The outside (API server, Kubelets, database, upstream,
  clock, random source) is a record of functions of the trace, an argument of the definitions, so it may answer
  anything, at any time, including errors and conflicts; theorems hold for all of them. \<open>runs P w m Q\<close> is the judgement
  that every call of \<open>m\<close> satisfies \<open>P\<close> when it is made and the end satisfies \<open>Q\<close>. Code that is not in the repository
  (quantities, condition helpers, SHA-256, Ed25519, argon2, JSON, UUID parsing) is a record of pure functions (\<open>klib\<close>, \<open>metrics_lib\<close>, \<open>user_api\<close>,
  \<open>auth_lib\<close>, \<open>session_lib\<close>, \<open>gateway_lib\<close>, \<open>monitor_lib\<close>, \<open>app_lib\<close>, \<open>config_lib\<close>); what a theorem needs of it is a named contract with a sample that
  satisfies it.

  \<^bold>\<open>The theories.\<close>
  \<^item> \<open>Prelude\<close>, \<open>Go_Strings\<close>, \<open>Go_Encoding\<close>, \<open>Go_Http\<close>, \<open>Go_Float\<close>, \<open>Go_Time\<close>: integers, sums, strings, base64, UTF-8, scanning, headers,
    paths, rounding of \<open>float64\<close> and parsing of durations of Go's standard library. \<open>Effects\<close>: programs and \<open>runs\<close>.
  \<^item> \<open>Cpu_Scheduler\<close> (\<open>cpu_scheduler.go\<close>): \<open>maxMinCPU\<close> and \<open>proportionalCPU\<close>; the locales \<open>cpu_allocator\<close> and
    \<open>exact_allocator\<close> state what a planner needs of an allocator and are interpreted on both. Exact totals, limits,
    max-min fairness up to rounding, independence of the iteration order.
  \<^item> \<open>Resource_Policy\<close> (\<open>pkg/resourcepolicy\<close>): sample windows and recommendations, their invariant and bounds.
  \<^item> \<open>Kube_Types\<close> (\<open>api/v1alpha1\<close>, \<open>pkg/sessionidentity\<close>), \<open>Kube_World\<close>: resources, core objects, API calls.
  \<^item> \<open>Quiescer\<close>, \<open>Session_Controller\<close> (\<open>kubernetes_quiescer.go\<close>, \<open>agentsession_controller.go\<close>): \<open>Reconcile\<close> with every
    branch. \<open>Session_Safety\<close>: when a run may delete or create Pods, claims, accounts and the finalizer, and that every
    status update is a step of the phase machine \<open>phase_step\<close>. \<open>Session_Lifecycle\<close>: hibernation, busy agents, the
    retry budget, final states, the security of the Pod.
  \<^item> \<open>Node_Planner\<close>, \<open>Pod_Metrics\<close>, \<open>Resource_Autoscaler\<close>, \<open>Autoscaler_Safety\<close> (\<open>resource_autoscaler.go\<close>,
    \<open>pod_metrics.go\<close>): the plan of a Node within its capacity, one Kubelet summary per cycle, and what a cycle may
    change, with the invariant of its memory.
  \<^item> \<open>User_Environment\<close>, \<open>User_Environment_Safety\<close> (\<open>userenvironment_controller.go\<close>): the baseline of a namespace,
    what is written and when it is reported ready.
  \<^item> \<open>Rate_Limiter\<close> (\<open>ratelimit\<close>), \<open>Auth_Tokens\<close>, \<open>Auth_Store\<close>, \<open>Auth_Service\<close>, \<open>Auth_Safety\<close> (\<open>auth\<close>, \<open>userenv\<close>):
    rates, token and password round trips, single use of refresh tokens, revocation of families, login.
  \<^item> \<open>Database\<close> (\<open>database/sqlc\<close> and the migrations), \<open>Backend\<close>: tables, queries, transactions; and the locales
    \<open>step_invariant\<close> and \<open>step_order\<close> of interfering steps, interpreted on the transactions of the stores, on leases
    and on activity updates.
  \<^item> \<open>Session_Store\<close>, \<open>Session_Service\<close> (\<open>session\<close>, \<open>idempotency\<close>), \<open>Session_Steps\<close>, \<open>Session_Backend\<close>,
    \<open>Session_Requests\<close>, \<open>Session_Repair\<close>: creation, transitions, deletion, projection and repair; the limit per user
    and the history of rows under interference, idempotent creation, guarded updates, what a sweep repairs and reaches.
  \<^item> \<open>Gateway\<close>, \<open>Gateway_Safety\<close> (\<open>gateway\<close>): who reaches the upstream and with which headers, one answer per request.
  \<^item> \<open>Terminal\<close>, \<open>Terminal_Safety\<close>, \<open>Terminal_Connection\<close> (\<open>terminal\<close>): who may open a terminal, the connection as a
    machine of the steps of its goroutines, leases and activity updates as step relations.
  \<^item> \<open>Monitor\<close>, \<open>Monitor_Safety\<close> (\<open>monitor\<close>): snapshots of a session and of the cluster, the sampler of live CPU rates; whose Pod is
    shown, and how near a rate is to the exact one in floating point.
  \<^item> \<open>Api_Server\<close>, \<open>Api_Safety\<close> (\<open>app\<close>, \<open>apierr\<close>, \<open>envelope\<close>): every route with its middleware and handler; users are isolated from each
    other, requests without a token change nothing, registration is idempotent.
  \<^item> \<open>Backend_Config\<close>, \<open>Config_Safety\<close> (\<open>config\<close>, \<open>cmd/api\<close>, \<open>cmd/gateway\<close>): the three configurations and what the programs build from them; a
    server that starts satisfies what the theorems about its components assume, such as the limits of logins.
  \<^item> \<open>Auth_Proxy\<close>, \<open>Auth_Proxy_Safety\<close> (\<open>images/agent/cmd/auth-proxy\<close>): the proxy in the Pod as a step relation over its goroutines; a drain
    that succeeds is final, every drain ends, and the gateway reads the token of the Pod.
  \<^item> This theory: properties across components. What the backend creates passes the validation of the operator, and the
    Pod that the operator starts is admitted by the gateway.

  \<^bold>\<open>Concurrency.\<close> A call of the database is one transaction on the tables as the other clients left them (\<open>an_db\<close>); it
  may fail at any statement (\<open>an_fault\<close>), and its commit may succeed although the answer is lost (\<open>an_lost\<close>).
  Theorems about interference assume that the others only take steps of the stores (\<open>relies\<close>), and the programs are
  shown to take only such steps themselves (\<open>guarantees\<close>). Transactions run one after the other: races that READ
  COMMITTED allows inside a transaction are outside the model. Goroutines of a terminal connection interleave freely;
  mutexes make the operations of the limiter, the registry and the activity limiter single steps. Goroutines of the proxy in the Pod interleave between
  any two accesses to its atomics.

  \<^bold>\<open>Bounds and termination.\<close> Loops over lists are structural. The rounds of \<open>maxMinCPU\<close> and the scanners have
  termination proofs. Retry loops run at most \<open>retry_steps\<close> or \<open>backoff_steps\<close> times more, the number that the backoff of
  the library allows, which is a parameter. The autoscaler's ticker and the watch of the projector are bounded by a
  number of ticks or by the items a watch delivers, both arbitrary. Nothing else uses fuel.

  \<^bold>\<open>Not modelled.\<close> Logging, schema migration through a third-party library, flag parsing and the wiring of the programs beyond
  what \<open>api_run\<close> and \<open>gateway_run\<close> show. Generated deep copies are the identity on immutable values. The page of the Prometheus registry and the answer
  to a panic are left out of the routes. The frontend, the deployment and the rest of the images are not Go code.
  Logging, metrics registries other than the gateway's, and timeouts as such (they show as errors) are left out. Times
  keep their nanoseconds, which PostgreSQL would round to microseconds.
\<close>

section \<open>What the backend creates, the operator accepts\<close>

text \<open>The documented behaviour of quantities: values are 64-bit, \<open>Value\<close> rounds up and so follows the order, and an integer quantity reads back.\<close>

definition quantity_contract :: "klib \<Rightarrow> bool" where
  "quantity_contract L \<longleftrightarrow> (\<forall>q. in64 (q_Value L q)) \<and> (\<forall>n. in64 n \<longrightarrow> q_Value L (q_NewQuantity L n) = n) \<and>
     (\<forall>p q. q_Cmp L p q \<ge> 0 \<longrightarrow> q_Value L q \<le> q_Value L p) \<and> (\<forall>p q. q_Cmp L p q \<le> 0 \<longrightarrow> q_Value L p \<le> q_Value L q)"

definition accepted_cr :: "klib \<Rightarrow> uuid \<Rightarrow> AgentSession \<Rightarrow> bool" where
  "accepted_cr L userID cr \<longleftrightarrow> validateAgentSession L cr = None \<and> om_Namespace (as_Meta cr) = userenv_Namespace L userID"

lemma new_session_accepted:
  assumes "quantity_contract L" and "validCreateRequest L K req" and "uuid_v7 userID" and "uuid_v7 sessionID"
  shows "accepted_cr L userID (agentSessionFromDomain L K
    (new_session L userID req (q_Value L (the (parseMemoryRequest L K (cq_MemoryRequest req)))) sessionID nonce now))"
proof -
  obtain q where q: "parseMemoryRequest L K (cq_MemoryRequest req) = Some q" "q_Cmp L q (q_MustParse L ''1Gi'') \<ge> 0" "q_Cmp L q (q_MustParse L ''64Gi'') \<le> 0"
    using assms(2) by (auto simp: validCreateRequest_def Let_def split: option.splits)
  have range: "q_Value L (q_MustParse L ''1Gi'') \<le> q_Value L q" "q_Value L q \<le> q_Value L (q_MustParse L ''64Gi'')"
      "q_Value L (q_NewQuantity L (q_Value L q)) = q_Value L q"
    using assms(1) q(2,3) by (auto simp: quantity_contract_def)
  have "cq_Runtime req = ''claude-code''" "pq_Mode (cq_Provider req) = ''platform''" "cq_StoragePolicy req = ''local''"
    "cq_Priority req = ''low'' \<or> cq_Priority req = ''normal'' \<or> cq_Priority req = ''high''"
    using assms(2) by (auto simp: validCreateRequest_def Let_def)
  with range assms(3,4) show ?thesis
    by (auto simp: accepted_cr_def validateAgentSession_def agentSessionFromDomain_def new_session_def q(1) Policy_def mustBytes_def sget_def
        managedByLabel_def managedByValue_def userLabel_def sessionLabel_def supportedPriorityClass_def priorityClassName_def
        lowPriorityClass_def normalPriorityClass_def highPriorityClass_def Let_def)
qed

definition creates_accepted :: "klib \<Rightarrow> uuid \<Rightarrow> backend_event list \<Rightarrow> backend_event \<Rightarrow> bool" where
  "creates_accepted L userID t e \<longleftrightarrow> (\<forall>cr r. e = EvCreateCR cr r \<longrightarrow> accepted_cr L userID cr)"

lemma creates_accepted_other [simp]:
  "creates_accepted L u t (EvDb name a)" "creates_accepted L u t (EvClock n)" "creates_accepted L u t (EvUUID i)"
  "creates_accepted L u t (EvGetCR k g)" "creates_accepted L u t (EvGetEnv k g')"
  by (simp_all add: creates_accepted_def)

lemma runs_db_any: "runs (creates_accepted L u) w (db_run A name steps r0) (\<lambda>_ _. True)"
  by (rule runs_post [OF runs_db_run]) simp_all

lemma runs_Create_accepted:
  assumes "quantity_contract L" and "uuid_v7 userID" and "\<And>t i. b_uuid A t = Inr i \<Longrightarrow> uuid_v7 i"
  shows "runs (creates_accepted L userID) w (session_Create L K A userID key method path hash req) (\<lambda>_ _. True)"
proof (cases "validCreateRequest L K req")
  case True
  have made: "runs (creates_accepted L userID) v (session_Ensure L K A (new_session L userID req
      (q_Value L (the (parseMemoryRequest L K (cq_MemoryRequest req)))) sessionID nonce now)) (\<lambda>_ _. True)"
    if "uuid_v7 sessionID" for v sessionID nonce now
    unfolding session_Ensure_def create_cr_def get_cr_def
    by (intro runs_rules) (simp_all add: creates_accepted_def new_session_accepted [OF assms(1) True assms(2) that])
  have recorded: "runs (creates_accepted L userID) v (create_record L K A userID key method path hash req sessionID nonce) (\<lambda>_ _. True)"
    if "uuid_v7 sessionID" for v sessionID nonce
    unfolding create_record_def create_commit_def newEvent_def clock_def new_uuid_def CreateWithEventAndIdempotency_def
    by (intro runs_rules runs_post [OF runs_db_any] runs_post [OF made] that) simp_all
  have proceed: "runs (creates_accepted L userID) v (create_proceed L K A userID key method path hash req) (\<lambda>_ _. True)" for v
    unfolding create_proceed_def create_ids_def new_uuid_def env_Phase_def get_env_def CountTotal_def
    by (intro runs_rules runs_post [OF runs_db_any] runs_post [OF recorded] assms(3)) auto
  have callback: "runs (creates_accepted L userID) v (create_callback L K A userID key method path hash req) (\<lambda>_ _. True)" for v
    unfolding create_callback_def GetIdempotencyKey_def
    by (intro runs_bind runs_post [OF runs_db_any] runs_case_sum) (auto split: Decision.split intro!: runs_return proceed)
  show ?thesis
    unfolding session_Create_def WithIdempotencyLock_def
    by (intro runs_rules runs_post [OF runs_db_any] runs_post [OF callback]) simp_all
qed (simp add: session_Create_def runs_return)

text \<open>
  C10. Every AgentSession that the creation of a session sends to the API server passes the validation of the operator, and
  lies in the namespace of the UserEnvironment that registration makes for the user, which passes it too: whatever request
  came in and whatever the servers answered, as long as identifiers are UUIDs of version 7.
\<close>

theorem backend_objects_accepted:
  assumes "quantity_contract L" and "uuid_v7 userID" and "\<And>t i. b_uuid A t = Inr i \<Longrightarrow> uuid_v7 i"
    and "EvCreateCR cr r \<in> set (events_of (session_Create L K A userID key method path hash req) w)"
  shows "validateAgentSession L cr = None \<and> validateUserEnvironment L (environment_cr L userID) = None \<and>
    om_Namespace (as_Meta cr) = us_Namespace (ue_Spec (environment_cr L userID))"
proof -
  obtain before after where "events_of (session_Create L K A userID key method path hash req) w = before @ EvCreateCR cr r # after"
    using assms(4) by (meson split_list)
  from runs_events [OF runs_Create_accepted [OF assms(1-3)] this] have "accepted_cr L userID cr" by (simp add: creates_accepted_def)
  moreover have "validateUserEnvironment L (environment_cr L userID) = None"
    using assms(2) by (simp add: validateUserEnvironment_def environment_cr_def shortUserID_def userenv_CRName_def userenv_Namespace_def
        userenv_ShortID_def userenv_shortIDLength_def sget_def managedByLabel_def managedByValue_def userLabel_def quotaProfileMVP_def Let_def)
  ultimately show ?thesis by (simp add: accepted_cr_def environment_cr_def)
qed

lemma decimal_value_show: "in64 n \<Longrightarrow> decimal_value (show_int n) = n"
proof -
  assume n: "in64 n"
  have digits: "list_all is_digit (show_nat k)" "show_nat k \<noteq> []" for k using show_nat_digits [of k] by auto
  have "Atoi (show_int n) = Some n"
  proof (cases "n < 0")
    case True
    then have "digits_val (show_nat (nat (- n))) = - n" by (simp add: digits_val_show)
    with True n digits show ?thesis by (auto simp: Atoi_def show_int_def in64_def)
  next
    case False
    then show ?thesis using Atoi_show_nat [of "nat n"] n by (simp add: show_int_def in64_def)
  qed
  moreover have "CHR ''i'' \<notin> set (show_int n)"
    using show_nat_no_sep [of "CHR ''i''"] by (auto simp: show_int_def is_digit_def)
  then have "show_int n \<notin> {''2Gi'', ''1Gi'', ''64Gi''}" by auto
  ultimately show ?thesis by (auto simp: decimal_value_def Atoi_value_def)
qed

lemma decimal_contract: "quantity_contract decimal_lib"
proof -
  have "in64 (decimal_value q)" for q
    by (auto simp: decimal_value_def Atoi_value_def Atoi_def in64_def Let_def split: option.splits list.splits if_splits)
  then show ?thesis by (simp add: quantity_contract_def decimal_lib_def decimal_value_show)
qed

lemma sample_uuid: "is_lower_hex c \<Longrightarrow> is_lower_hex d \<Longrightarrow> uuid_v7 (''01890000-0000-7000-8000-0000000000'' @ [c, d])"
  by (simp add: uuid_v7_def is_lower_hex_def is_digit_def upt_rec)

lemma ready_uuid: "b_uuid ready_api t = Inr i \<Longrightarrow> uuid_v7 i"
proof -
  have digit: "is_lower_hex (char_of (48 + n mod 10))" for n :: nat
  proof -
    have "n mod 10 \<le> 9" by linarith
    then show ?thesis by (simp add: is_lower_hex_def is_digit_def)
  qed
  show "b_uuid ready_api t = Inr i \<Longrightarrow> uuid_v7 i" using sample_uuid digit by (auto simp: ready_simps)
qed

theorem backend_objects_accepted_witness:
  "quantity_contract decimal_lib \<and> uuid_v7 sample_user \<and>
   (\<exists>cr r. EvCreateCR cr r \<in> set (events_of (session_Create decimal_lib sample_session_lib ready_api sample_user ''key'' ''POST'' ''/sessions'' ''hash''
     sample_request) (quiet_world (session_tables []))) \<and> validateAgentSession decimal_lib cr = None)"
proof -
  have user: "uuid_v7 sample_user" using sample_uuid [of "CHR ''9''" "CHR ''9''"] by (simp add: sample_user_def is_lower_hex_def is_digit_def)
  obtain cr r where sent: "EvCreateCR cr r \<in> set (events_of (session_Create decimal_lib sample_session_lib ready_api sample_user ''key'' ''POST''
    ''/sessions'' ''hash'' sample_request) (quiet_world (session_tables [])))" using sample_Create_sends by blast
  from backend_objects_accepted [OF decimal_contract user ready_uuid sent] have "validateAgentSession decimal_lib cr = None" by simp
  with decimal_contract user sent show ?thesis by blast
qed

section \<open>The agent that the operator starts, the gateway admits\<close>

text \<open>What a TokenReview says of a token mounted in a Pod.\<close>

definition reviewed_pod :: "Pod \<Rightarrow> TokenReviewStatus \<Rightarrow> bool" where
  "reviewed_pod pod status \<longleftrightarrow> tr_Authenticated status \<and> GatewayAudience \<in> set (tr_Audiences status) \<and>
     tr_Username status = usernamePrefix @ om_Namespace (pod_Meta pod) @ '':'' @ ps_ServiceAccountName (pod_Spec pod) \<and>
     tr_Extra status podNameExtraKey = Some [om_Name (pod_Meta pod)] \<and> (\<exists>uid. uid \<noteq> [] \<and> tr_Extra status podUIDExtraKey = Some [uid])"

text \<open>The row of a session and its resource, as the backend writes both.\<close>

definition row_of_cr :: "klib \<Rightarrow> BosunSession \<Rightarrow> AgentSession \<Rightarrow> bool" where
  "row_of_cr L r cr \<longleftrightarrow> bs_CrNamespace r = userenv_Namespace L (bs_UserID r) \<and> bs_CrName r = CRName L (bs_ID r) \<and>
     om_Namespace (as_Meta cr) = bs_CrNamespace r \<and> sp_SessionID (as_Spec cr) = bs_ID r"

lemma hex_no_colon: "CHR '':'' \<notin> set (hex_encode s)"
proof -
  have "CHR '':'' \<noteq> hex_digit n" if "n < 16" for n
  proof -
    have "(of_char (hex_digit n) :: nat) = (if n < 10 then 48 + n else 87 + n)" using that by (simp add: hex_digit_def)
    then have "(of_char (hex_digit n) :: nat) \<noteq> of_char (CHR '':'')" using that by simp
    then show ?thesis by metis
  qed
  moreover have "(of_char c :: nat) div 16 < 16" for c using nat_of_byte_less [of c] by (simp add: nat_of_byte_def less_mult_imp_div_less)
  ultimately show ?thesis by (auto simp: hex_encode_def)
qed

lemma short_no_colon: "CHR '':'' \<notin> set (ShortID L i)" "CHR '':'' \<notin> set (userenv_ShortID L i)"
  using hex_no_colon by (auto simp: ShortID_def userenv_ShortID_def dest!: in_set_takeD)

lemma pod_token_identity:
  assumes "row_of_cr L r cr" and "6 \<le> length (sha256 L (bs_ID r))" and "reviewed_pod (desiredPod L rc cr pvcName) status"
  shows "token_identity status = Inr (bs_CrNamespace r, ServiceAccountName L (bs_ID r), PodName L (bs_ID r), ShortID L (bs_ID r))"
proof -
  have pod: "om_Namespace (pod_Meta (desiredPod L rc cr pvcName)) = bs_CrNamespace r" "om_Name (pod_Meta (desiredPod L rc cr pvcName)) = PodName L (bs_ID r)"
    "ps_ServiceAccountName (pod_Spec (desiredPod L rc cr pvcName)) = ServiceAccountName L (bs_ID r)"
    using assms(1) by (simp_all add: desiredPod_def row_of_cr_def)
  have user: "parseServiceAccountUsername (tr_Username status) = Some (bs_CrNamespace r, ServiceAccountName L (bs_ID r))"
    using assms(1,3) parseServiceAccountUsername_user [of "bs_CrNamespace r" "ServiceAccountName L (bs_ID r)"] short_no_colon
    by (auto simp: reviewed_pod_def pod row_of_cr_def userenv_Namespace_def ServiceAccountName_def)
  have account: "ServiceAccountName L (bs_ID r) = serviceAccountPrefix @ ShortID L (bs_ID r)" "PodName L (bs_ID r) = ''agent-'' @ ShortID L (bs_ID r)"
    by (simp_all add: ServiceAccountName_def PodName_def serviceAccountPrefix_def)
  have "singleExtra (tr_Extra status) podNameExtraKey = Some (PodName L (bs_ID r))" "singleExtra (tr_Extra status) podUIDExtraKey \<noteq> None"
    "tr_Authenticated status" "GatewayAudience \<in> set (tr_Audiences status)"
    using assms(3) by (auto simp: reviewed_pod_def pod singleExtra_def PodName_def)
  moreover have "length (ShortID L (bs_ID r)) = 12" using assms(2) by (simp add: ShortID_def shortIDLength_def hex_encode_length)
  ultimately show ?thesis using user account by (simp add: token_identity_def prefix_simps Let_def del: append_Cons)
qed

text \<open>
  C35. The names of the operator, the backend and the gateway fit: the token of the Pod that the operator makes for the resource
  of a session is admitted by the gateway as that session, when the API server reviews it as the token of that Pod, the
  database holds the row of the session live and unique, and its phase allows LLM calls.
\<close>

theorem gateway_admits_agent:
  assumes "row_of_cr L r cr" and "6 \<le> length (sha256 L (bs_ID r))"
    and "\<And>t. \<exists>status. g_review G t token = Inr status \<and> reviewed_pod (desiredPod L rc cr pvcName) status" and "\<And>t. g_query G t = Some d"
    and "session_inv d" and "r \<in> set (db_sessions d)" and "bs_DeletedAt r = None" and "phaseAllowsLLM (bs_Phase r)" and "TrimSpace token \<noteq> []"
  shows "result_of (Authenticate L G token) w = Inr \<lparr>id_SessionID = bs_ID r, id_Namespace = bs_CrNamespace r, id_PodName = PodName L (bs_ID r),
    id_ProviderMode = bs_ProviderMode r\<rparr>"
proof -
  obtain status where status: "g_review G (w_trace w) token = Inr status" "reviewed_pod (desiredPod L rc cr pvcName) status" using assms(3) by blast
  have names: "token_identity status = Inr (bs_CrNamespace r, ServiceAccountName L (bs_ID r), PodName L (bs_ID r), ShortID L (bs_ID r))"
    using assms(1,2) status(2) by (rule pod_token_identity)
  have cr: "bs_CrName r = ''sess-'' @ ShortID L (bs_ID r)" using assms(1) by (simp add: row_of_cr_def CRName_def)
  have unique: "r' = r" if "r' \<in> set (db_sessions d)" "bs_CrNamespace r' = bs_CrNamespace r" "bs_CrName r' = bs_CrName r" for r'
    using that assms(5,6) by (auto simp: session_inv_def distinct_map inj_on_def)
  have found: "GetGatewaySessionIdentity (bs_CrNamespace r) (''sess-'' @ ShortID L (bs_ID r)) d = Some r"
  proof (cases "GetGatewaySessionIdentity (bs_CrNamespace r) (''sess-'' @ ShortID L (bs_ID r)) d")
    case None
    then show ?thesis using assms(6,7) cr by (auto simp: GetGatewaySessionIdentity_def find_None_iff)
  next
    case (Some r')
    then have "r' = r" using cr by (intro unique) (auto simp: GetGatewaySessionIdentity_def find_Some_iff)
    then show ?thesis using Some by simp
  qed
  show ?thesis using assms(4,8,9)
    by (simp add: Authenticate_def reviewWithRetry_def resolve_identity_def Resolve_def status names found session_identity_def CRName_def cr Let_def del: append_Cons)
qed

theorem gateway_admits_agent_witness:
  "result_of (Authenticate decimal_lib sample_gateway ''t'') sample_gateway_world = Inr \<lparr>id_SessionID = ''session'',
     id_Namespace = userenv_Namespace decimal_lib sample_user, id_PodName = PodName decimal_lib ''session'', id_ProviderMode = ''platform''\<rparr>"
proof -
  let ?r = "sample_row ''Running'' None" and ?pod = "desiredPod decimal_lib sample_reconciler running_cr ''pvc''"
  have row: "bs_ID ?r = ''session''" "bs_UserID ?r = sample_user" "bs_CrNamespace ?r = userenv_Namespace decimal_lib sample_user"
      "bs_CrName ?r = CRName decimal_lib ''session''" "bs_DeletedAt ?r = None" "bs_Phase ?r = ''Running''" "bs_ProviderMode ?r = ''platform''"
    by (simp_all add: sample_row_def session_row_def session_params_def new_session_def sample_request_def)
  have cr: "row_of_cr decimal_lib ?r running_cr"
    by (simp add: row_of_cr_def row running_cr_def agentSessionFromDomain_def new_session_def)
  have "6 \<le> length (sha256 decimal_lib (bs_ID ?r))" by (simp add: row decimal_lib_def)
  moreover have "\<exists>status. g_review sample_gateway t ''t'' = Inr status \<and> reviewed_pod ?pod status" for t
    using cr by (auto simp: sample_gateway_def sample_status_def reviewed_pod_def desiredPod_def row_of_cr_def row podNameExtraKey_def podUIDExtraKey_def)
  moreover have "session_inv (session_tables [?r])"
    using sample_checks by (auto simp: session_inv_def session_tables_def CountSessionsForUser_def MaxSessionsPerUser_def sample_row_def session_checks_def
        session_row_def session_params_def new_session_def)
  moreover have "g_query sample_gateway t = Some (session_tables [?r])" for t by (simp add: sample_gateway_def)
  moreover have "phaseAllowsLLM (bs_Phase ?r)" by (simp add: row phaseAllowsLLM_def)
  ultimately show ?thesis
    using gateway_admits_agent [OF cr, where rc = sample_reconciler and pvcName = "''pvc''" and G = sample_gateway and token = "''t''" and d = "session_tables [?r]" and w = sample_gateway_world]
      sample_token(2) by (simp add: row session_tables_def)
qed

end
